(* ===== verification/Prelude.thy ===== *)
theory Prelude
  imports Complex_Main "HOL-Library.AList" "HOL-Library.Multiset" "HOL-Library.Sublist"
    "HOL-Library.List_Lexorder" "HOL-Library.Char_ord"
begin

text \<open>
  What every theory of the development shares: the JavaScript values the TypeScript sources
  compute with (numbers with their non-finite values, strings, arrays, objects in insertion
  order), the library operations on them that the sources call, and the generic lemmas and
  fact collections the component proofs use.

  Idealisations. A finite number is a rational: the rounding of binary doubles is not
  modelled, the overflow to infinity is (\<open>js_mul\<close>). A string is a list of characters with
  codes below 256, one per UTF-16 code unit.
\<close>

named_theorems js_simps \<open>evaluation of JavaScript object and string operations\<close>
named_theorems frame_simps \<open>fields an operation leaves unchanged\<close>
named_theorems wf_intros \<open>preservation of the component invariants\<close>

section \<open>Numbers\<close>

datatype jsnum = Fin rat | PosInf | NegInf | NaN

fun is_finite :: "jsnum \<Rightarrow> bool" where
  "is_finite (Fin _) = True"
| "is_finite _ = False"

fun fin_val :: "jsnum \<Rightarrow> rat" where
  "fin_val (Fin r) = r"
| "fin_val _ = 0"

definition max_safe_integer :: nat where
  "max_safe_integer = 9007199254740991"

definition is_integer :: "rat \<Rightarrow> bool" where
  "is_integer r \<longleftrightarrow> r = of_int \<lfloor>r\<rfloor>"

fun is_safe_integer :: "jsnum \<Rightarrow> bool" where
  "is_safe_integer (Fin r) \<longleftrightarrow> is_integer r \<and> \<bar>r\<bar> \<le> of_nat max_safe_integer"
| "is_safe_integer _ \<longleftrightarrow> False"

text \<open>The least magnitude that a double computation rounds to infinity.\<close>

definition overflow_bound :: rat where
  "overflow_bound = 2 ^ 1024 - 2 ^ 970"

definition to_double :: "rat \<Rightarrow> jsnum" where
  "to_double r =
     (if overflow_bound \<le> r then PosInf else if r \<le> - overflow_bound then NegInf else Fin r)"

fun js_mul :: "jsnum \<Rightarrow> rat \<Rightarrow> jsnum" where
  "js_mul (Fin r) k = to_double (r * k)"
| "js_mul PosInf k = (if 0 < k then PosInf else if k < 0 then NegInf else NaN)"
| "js_mul NegInf k = (if 0 < k then NegInf else if k < 0 then PosInf else NaN)"
| "js_mul NaN k = NaN"

fun js_min :: "jsnum \<Rightarrow> jsnum \<Rightarrow> jsnum" where
  "js_min NaN _ = NaN"
| "js_min _ NaN = NaN"
| "js_min NegInf _ = NegInf"
| "js_min _ NegInf = NegInf"
| "js_min PosInf y = y"
| "js_min x PosInf = x"
| "js_min (Fin a) (Fin b) = Fin (min a b)"

text \<open>\<open>a / b\<close> and the comparison \<open>x >= k\<close>, which is false on \<open>NaN\<close>.\<close>

definition js_div :: "rat \<Rightarrow> rat \<Rightarrow> jsnum" where
  "js_div a b =
     (if b = 0 then (if 0 < a then PosInf else if a < 0 then NegInf else NaN) else Fin (a / b))"

fun js_ge :: "jsnum \<Rightarrow> rat \<Rightarrow> bool" where
  "js_ge (Fin r) k = (k \<le> r)"
| "js_ge PosInf _ = True"
| "js_ge NegInf _ = False"
| "js_ge NaN _ = False"

lemma to_double_small [simp]: "\<bar>r\<bar> < overflow_bound \<Longrightarrow> to_double r = Fin r"
  by (auto simp: to_double_def)

lemma to_double_nonneg: "0 \<le> r \<Longrightarrow> to_double r = Fin r \<or> to_double r = PosInf"
  by (auto simp: to_double_def overflow_bound_def)

lemma is_integer_of_nat [simp]: "is_integer (of_nat n)"
  by (simp add: is_integer_def)

lemma is_integer_of_int [simp]: "is_integer (of_int n)"
  by (simp add: is_integer_def)

lemma is_integer_numeral [simp]: "is_integer (numeral n)"
  by (simp add: is_integer_def)

lemma is_integer_zero [simp]: "is_integer 0"
  by (simp add: is_integer_def)

lemma is_integer_one [simp]: "is_integer 1"
  by (simp add: is_integer_def)

lemma is_integer_nonneg_nat: "is_integer r \<Longrightarrow> 0 \<le> r \<Longrightarrow> of_nat (nat \<lfloor>r\<rfloor>) = r"
  by (simp add: is_integer_def)

lemma is_integer_pos_ge_1: "is_integer r \<Longrightarrow> 0 < r \<Longrightarrow> 1 \<le> r"
  by (metis is_integer_def of_int_1_le_iff of_int_0_less_iff int_one_le_iff_zero_less)

section \<open>Values and objects\<close>

datatype jsval =
    Undef
  | JNull
  | JBool bool
  | JNum jsnum
  | JStr string
  | JArr "jsval list"
  | JObj "(string \<times> jsval) list"

type_synonym obj = "(string \<times> jsval) list"

text \<open>\<open>o[k]\<close>: a missing key reads as \<open>undefined\<close>.\<close>

definition obj_get :: "obj \<Rightarrow> string \<Rightarrow> jsval" where
  "obj_get ob k = (case map_of ob k of None \<Rightarrow> Undef | Some v \<Rightarrow> v)"

definition has_key :: "obj \<Rightarrow> string \<Rightarrow> bool" where
  "has_key ob k \<longleftrightarrow> map_of ob k \<noteq> None"

text \<open>
  \<open>o[k] = v\<close> and \<open>map.set(k, v)\<close>: an existing key keeps its place, a new one goes last.
  Objects and JavaScript maps both iterate in insertion order, so both are association lists
  and both updates are the library's \<open>AList.update\<close>.
\<close>

abbreviation obj_set :: "string \<Rightarrow> jsval \<Rightarrow> obj \<Rightarrow> obj" where
  "obj_set \<equiv> AList.update"

text \<open>\<open>{...a, ...b}\<close>\<close>

definition obj_spread :: "obj \<Rightarrow> obj \<Rightarrow> obj" where
  "obj_spread a b = fold (\<lambda>(k, v) ob. obj_set k v ob) b a"

lemma map_of_obj_set: "map_of (AList.update k v ob) = (map_of ob)(k \<mapsto> v)"
  by (simp add: update_conv')

lemma obj_get_set [js_simps]: "obj_get (obj_set k v ob) k' = (if k' = k then v else obj_get ob k')"
  by (simp add: obj_get_def map_of_obj_set)

lemma has_key_set [js_simps]: "has_key (obj_set k v ob) k' \<longleftrightarrow> k' = k \<or> has_key ob k'"
  by (simp add: has_key_def map_of_obj_set)

lemma obj_get_Nil [simp, js_simps]: "obj_get [] k = Undef"
  by (simp add: obj_get_def)

lemma obj_get_Cons [js_simps]:
  "obj_get ((k', v) # ob) k = (if k' = k then v else obj_get ob k)"
  by (simp add: obj_get_def)

lemma has_key_Nil [simp, js_simps]: "\<not> has_key [] k"
  by (simp add: has_key_def)

lemma has_key_Cons [js_simps]: "has_key ((k', v) # ob) k \<longleftrightarrow> k' = k \<or> has_key ob k"
  by (simp add: has_key_def)

lemma obj_get_append [js_simps]:
  "obj_get (a @ b) k = (if has_key a k then obj_get a k else obj_get b k)"
  by (auto simp: obj_get_def has_key_def map_add_def split: option.splits)

lemma has_key_append [js_simps]: "has_key (a @ b) k \<longleftrightarrow> has_key a k \<or> has_key b k"
  by (auto simp: has_key_def map_add_def split: option.splits)

lemma obj_get_not_Undef: "obj_get ob k \<noteq> Undef \<Longrightarrow> has_key ob k"
  by (auto simp: obj_get_def has_key_def split: option.splits)

lemma map_of_spread:
  "distinct (map fst b) \<Longrightarrow> map_of (obj_spread a b) = map_of a ++ map_of b"
proof (induction b arbitrary: a)
  case Nil
  then show ?case by (simp add: obj_spread_def)
next
  case (Cons p b)
  obtain k v where p: "p = (k, v)" by (cases p)
  have knone: "map_of b k = None"
    using Cons.prems by (simp add: p map_of_eq_None_iff)
  have "map_of (obj_spread a (p # b)) = map_of (obj_spread (obj_set k v a) b)"
    by (simp add: obj_spread_def p)
  also have "\<dots> = (map_of a)(k \<mapsto> v) ++ map_of b"
    using Cons by (simp add: map_of_obj_set)
  also have "\<dots> = map_of a ++ map_of (p # b)"
    using knone by (auto simp: p fun_eq_iff map_add_def split: option.splits)
  finally show ?case .
qed

lemma obj_get_spread:
  "distinct (map fst b) \<Longrightarrow>
     obj_get (obj_spread a b) k = (if has_key b k then obj_get b k else obj_get a k)"
  by (auto simp: obj_get_def has_key_def map_of_spread map_add_def split: option.splits)

fun as_record :: "jsval \<Rightarrow> obj option" where
  "as_record (JObj ob) = Some ob"
| "as_record _ = None"

fun as_string :: "jsval \<Rightarrow> string option" where
  "as_string (JStr s) = Some s"
| "as_string _ = None"

fun truthy :: "jsval \<Rightarrow> bool" where
  "truthy Undef = False"
| "truthy JNull = False"
| "truthy (JBool b) = b"
| "truthy (JNum n) = (n \<noteq> Fin 0 \<and> n \<noteq> NaN)"
| "truthy (JStr s) = (s \<noteq> [])"
| "truthy (JArr _) = True"
| "truthy (JObj _) = True"

definition js_or :: "jsval \<Rightarrow> jsval \<Rightarrow> jsval" where
  "js_or a b = (if truthy a then a else b)"

definition opt_str :: "string option \<Rightarrow> jsval" where
  "opt_str x = (case x of None \<Rightarrow> Undef | Some s \<Rightarrow> JStr s)"

text \<open>The entry of an optional field in an object literal: nothing when it is undefined.\<close>

definition opt_entry :: "string \<Rightarrow> jsval \<Rightarrow> obj" where
  "opt_entry k v = (if v = Undef then [] else [(k, v)])"

lemma obj_get_opt_entry [js_simps]: "obj_get (opt_entry k v) k' = (if k' = k then v else Undef)"
  by (auto simp: opt_entry_def obj_get_def)

lemma has_key_opt_entry [js_simps]: "has_key (opt_entry k v) k' \<longleftrightarrow> k' = k \<and> v \<noteq> Undef"
  by (auto simp: opt_entry_def has_key_def)

lemma opt_str_simps [simp, js_simps]: "opt_str None = Undef" "opt_str (Some s) = JStr s"
  by (simp_all add: opt_str_def)

lemma opt_str_eq_iff [simp]: "opt_str a = Undef \<longleftrightarrow> a = None" "opt_str a = JStr s \<longleftrightarrow> a = Some s"
  by (cases a; simp)+

lemma as_string_opt_str [simp]: "as_string (opt_str x) = x"
  by (cases x) auto

lemma as_record_Some [simp]: "as_record v = Some ob \<longleftrightarrow> v = JObj ob"
  by (cases v) auto

lemma as_string_Some [simp]: "as_string v = Some s \<longleftrightarrow> v = JStr s"
  by (cases v) auto

section \<open>Strings\<close>

definition lower_char :: "char \<Rightarrow> char" where
  "lower_char c =
     (let n = (of_char c :: nat)
      in if (65 \<le> n \<and> n \<le> 90) \<or> (192 \<le> n \<and> n \<le> 222 \<and> n \<noteq> 215) then char_of (n + 32) else c)"

definition to_lower :: "string \<Rightarrow> string" where
  "to_lower s = map lower_char s"

definition is_space :: "char \<Rightarrow> bool" where
  "is_space c = (let n = (of_char c :: nat) in n \<in> {9, 10, 11, 12, 13, 32, 160})"

definition trim :: "string \<Rightarrow> string" where
  "trim s = rev (dropWhile is_space (rev (dropWhile is_space s)))"

text \<open>\<open>s.split(/\r?\n/)\<close>: the current line is accumulated in reverse.\<close>

fun split_lines_acc :: "string \<Rightarrow> string \<Rightarrow> string list" where
  "split_lines_acc acc [] = [rev acc]"
| "split_lines_acc acc (c # cs) =
     (if c = CHR 10 then rev acc # split_lines_acc [] cs
      else if c = CHR 13 \<and> cs \<noteq> [] \<and> hd cs = CHR 10 then rev acc # split_lines_acc [] (tl cs)
      else split_lines_acc (c # acc) cs)"

definition split_lines :: "string \<Rightarrow> string list" where
  "split_lines s = split_lines_acc [] s"

definition is_digit :: "char \<Rightarrow> bool" where
  "is_digit c \<longleftrightarrow> (48::nat) \<le> of_char c \<and> (of_char c :: nat) \<le> 57"

definition digit_val :: "char \<Rightarrow> nat" where
  "digit_val c = of_char c - 48"

definition digits_val :: "string \<Rightarrow> nat" where
  "digits_val ds = foldl (\<lambda>n c. 10 * n + digit_val c) 0 ds"

text \<open>Decimal rendering of a natural number.\<close>

fun show_nat :: "nat \<Rightarrow> string" where
  "show_nat n = (if n < 10 then [char_of (48 + n)] else show_nat (n div 10) @ [char_of (48 + n mod 10)])"

declare show_nat.simps [simp del]

lemma show_nat_nonempty [simp]: "show_nat n \<noteq> []"
  by (subst show_nat.simps) simp

lemma length_trim_le: "length (trim s) \<le> length s"
  using length_dropWhile_le [of is_space "rev (dropWhile is_space s)"] length_dropWhile_le [of is_space s]
  by (simp add: trim_def)

section \<open>Errors as values\<close>

text \<open>Sequencing of fallible operations: \<open>Inl\<close> is a thrown error.\<close>

definition bindE :: "'e + 'a \<Rightarrow> ('a \<Rightarrow> 'e + 'b) \<Rightarrow> 'e + 'b" where
  "bindE r f = (case r of Inl e \<Rightarrow> Inl e | Inr x \<Rightarrow> f x)"

lemma bindE_simps [simp]: "bindE (Inl e) f = Inl e" "bindE (Inr x) f = f x"
  by (simp_all add: bindE_def)

lemma bindE_Inr: "bindE r f = Inr y \<longleftrightarrow> (\<exists>x. r = Inr x \<and> f x = Inr y)"
  by (cases r) auto

lemma bindE_Inl: "bindE r f = Inl e \<longleftrightarrow> r = Inl e \<or> (\<exists>x. r = Inr x \<and> f x = Inl e)"
  by (cases r) auto

end
