(* ===== verification/Run_Event.thy ===== *)
theory Run_Event
  imports Prelude
begin

text \<open>
  The data model of \<open>coordinator/src/domain\<close>: the run command, the normalized event, the
  terminal and usage payloads, and their validation. The runtime parsers compile the JSON
  schemas of \<open>coordinator/schema\<close> with Ajv; the schemas are translated here keyword by keyword.
  The \<open>date-time\<close> format check belongs to the package ajv-formats and is the parameter
  \<open>date_ok\<close> of every definition that validates an event.
\<close>

section \<open>Runs\<close>

record content_hash =
  ch_algorithm :: string
  ch_value :: string

record repository_snapshot =
  sn_ref :: string
  sn_commitSha :: string
  sn_dirty :: bool

record worktree =
  wt_path :: string
  wt_repository :: string
  wt_snapshot :: repository_snapshot

record task_identity =
  tk_id :: string
  tk_key :: "string option"

record provider_selection =
  pv_id :: string
  pv_requestedModel :: string
  pv_reasoningEffort :: "string option"

record run_limits =
  lm_timeoutMs :: nat
  lm_budgetUsd :: rat
  lm_maxOutputTokens :: "nat option"

record rehor_run =
  rn_runId :: string
  rn_attemptId :: string
  rn_instanceId :: string
  rn_label :: string
  rn_workflowId :: string
  rn_prompt :: string
  rn_task :: "task_identity option"
  rn_worktree :: worktree
  rn_instructionHash :: content_hash
  rn_configHash :: content_hash
  rn_policyHash :: content_hash
  rn_runtimeId :: "string option"
  rn_provider :: provider_selection
  rn_limits :: run_limits
  rn_preflightPayloadRef :: "string option"

definition opencode_runtime_id :: string where
  "opencode_runtime_id = ''opencode''"

definition isOpenCodeRuntime :: "string option \<Rightarrow> bool" where
  "isOpenCodeRuntime runtimeId \<longleftrightarrow> runtimeId = Some opencode_runtime_id"

section \<open>Events\<close>

record event_workspace =
  ws_worktreePath :: string
  ws_repository :: string
  ws_snapshot :: string

record rehor_event =
  ev_eventId :: string
  ev_runId :: string
  ev_attemptId :: string
  ev_sequence :: nat
  ev_occurredAt :: string
  ev_kind :: string
  ev_runtimeSessionRef :: "string option"
  ev_parentEventId :: "string option"
  ev_workspace :: event_workspace
  ev_provider :: string
  ev_model :: string
  ev_policyVersion :: string
  ev_payload :: obj
  ev_rawEventRef :: "string option"

definition rehor_event_kinds :: "string list" where
  "rehor_event_kinds =
     [''run'', ''agent'', ''model'', ''tool'', ''policy'', ''checkpoint'', ''cancellation'',
      ''usage'', ''persistence'', ''runtime-exit'', ''terminal'']"

datatype terminal_state = Completed | Failed | Interrupted | Cancelled | TimedOut

fun terminal_state_text :: "terminal_state \<Rightarrow> string" where
  "terminal_state_text Completed = ''completed''"
| "terminal_state_text Failed = ''failed''"
| "terminal_state_text Interrupted = ''interrupted''"
| "terminal_state_text Cancelled = ''cancelled''"
| "terminal_state_text TimedOut = ''timed_out''"

definition terminal_states :: "string list" where
  "terminal_states = map terminal_state_text [Completed, Failed, Interrupted, Cancelled, TimedOut]"

lemma terminal_state_text_in [simp]: "terminal_state_text s \<in> set terminal_states"
  by (cases s) (simp_all add: terminal_states_def)

lemma terminal_state_text_inj: "terminal_state_text a = terminal_state_text b \<Longrightarrow> a = b"
  by (cases a; cases b) simp_all

text \<open>\<open>RuntimeContractError\<close>: one constructor per message of the sources.\<close>

datatype contract_error =
    SchemaMismatch string
  | AttributionMismatch
  | WorkspaceMismatch
  | ProviderMismatch
  | ConflictingDuplicate string
  | TerminalAlreadyAccepted string
  | SequenceAlreadyAccepted nat string
  | TerminalMissing
  | NotTerminal
  | NotRetained
  | BadStartSequence

definition is_terminal :: "rehor_event \<Rightarrow> bool" where
  "is_terminal e \<longleftrightarrow> ev_kind e = ''terminal''"

definition assertTerminalEvent :: "rehor_event \<Rightarrow> contract_error + unit" where
  "assertTerminalEvent e = (if is_terminal e then Inr () else Inl NotTerminal)"

section \<open>Schema keywords\<close>

definition only_keys :: "string list \<Rightarrow> obj \<Rightarrow> bool" where
  "only_keys ks ob \<longleftrightarrow> list_all (\<lambda>(k, _). k \<in> set ks) ob"

fun is_str1 :: "jsval \<Rightarrow> bool" where
  "is_str1 (JStr s) = (s \<noteq> [])"
| "is_str1 _ = False"

fun is_str :: "jsval \<Rightarrow> bool" where
  "is_str (JStr _) = True"
| "is_str _ = False"

fun is_bool :: "jsval \<Rightarrow> bool" where
  "is_bool (JBool _) = True"
| "is_bool _ = False"

fun is_int_from :: "nat \<Rightarrow> jsval \<Rightarrow> bool" where
  "is_int_from lo (JNum (Fin r)) \<longleftrightarrow>
     is_integer r \<and> of_nat lo \<le> r \<and> r \<le> of_nat max_safe_integer"
| "is_int_from _ _ \<longleftrightarrow> False"

fun is_num_from :: "rat \<Rightarrow> jsval \<Rightarrow> bool" where
  "is_num_from lo (JNum (Fin r)) = (lo \<le> r)"
| "is_num_from _ _ = False"

fun is_str_in :: "string list \<Rightarrow> jsval \<Rightarrow> bool" where
  "is_str_in xs (JStr s) = (s \<in> set xs)"
| "is_str_in _ _ = False"

fun is_obj :: "jsval \<Rightarrow> bool" where
  "is_obj (JObj _) = True"
| "is_obj _ = False"

definition opt_prop :: "(jsval \<Rightarrow> bool) \<Rightarrow> obj \<Rightarrow> string \<Rightarrow> bool" where
  "opt_prop P ob k \<longleftrightarrow> obj_get ob k = Undef \<or> P (obj_get ob k)"

definition req_prop :: "(jsval \<Rightarrow> bool) \<Rightarrow> obj \<Rightarrow> string \<Rightarrow> bool" where
  "req_prop P ob k \<longleftrightarrow> P (obj_get ob k)"

definition obj_schema :: "string list \<Rightarrow> (obj \<Rightarrow> bool) \<Rightarrow> jsval \<Rightarrow> bool" where
  "obj_schema ks P v = (case v of JObj ob \<Rightarrow> only_keys ks ob \<and> P ob | _ \<Rightarrow> False)"

section \<open>The event schema\<close>

definition terminal_context_ok :: "jsval \<Rightarrow> bool" where
  "terminal_context_ok =
     obj_schema [''taskId'', ''externalKey'', ''repository'', ''workType'', ''summary'']
       (\<lambda>ob. opt_prop (is_int_from 1) ob ''taskId'' \<and>
            opt_prop is_str1 ob ''externalKey'' \<and>
            opt_prop is_str1 ob ''repository'' \<and>
            opt_prop is_str1 ob ''workType'' \<and>
            opt_prop is_str ob ''summary'')"

definition terminal_payload_ok :: "jsval \<Rightarrow> bool" where
  "terminal_payload_ok =
     obj_schema
       [''state'', ''reason'', ''resultText'', ''noWork'', ''turns'', ''durationMs'',
        ''resourceLeak'', ''context'']
       (\<lambda>ob. req_prop (is_str_in terminal_states) ob ''state'' \<and>
            opt_prop is_str ob ''reason'' \<and>
            opt_prop is_str ob ''resultText'' \<and>
            opt_prop is_bool ob ''noWork'' \<and>
            opt_prop (is_int_from 0) ob ''turns'' \<and>
            opt_prop (is_int_from 0) ob ''durationMs'' \<and>
            opt_prop is_bool ob ''resourceLeak'' \<and>
            opt_prop terminal_context_ok ob ''context'')"

definition token_counts_ok :: "jsval \<Rightarrow> bool" where
  "token_counts_ok =
     obj_schema [''input'', ''output'', ''reasoning'', ''cacheRead'', ''cacheWrite'']
       (\<lambda>ob. opt_prop (is_int_from 0) ob ''input'' \<and>
            opt_prop (is_int_from 0) ob ''output'' \<and>
            opt_prop (is_int_from 0) ob ''reasoning'' \<and>
            opt_prop (is_int_from 0) ob ''cacheRead'' \<and>
            opt_prop (is_int_from 0) ob ''cacheWrite'')"

definition usage_cost_ok :: "jsval \<Rightarrow> bool" where
  "usage_cost_ok =
     obj_schema [''amount'', ''currency'', ''source'', ''pricing'']
       (\<lambda>ob. req_prop (is_num_from 0) ob ''amount'' \<and>
            req_prop is_str1 ob ''currency'' \<and>
            req_prop (is_str_in [''provider'', ''estimated'', ''unknown'']) ob ''source'' \<and>
            opt_prop is_str ob ''pricing'')"

definition usage_payload_ok :: "jsval \<Rightarrow> bool" where
  "usage_payload_ok =
     obj_schema
       [''requestedModel'', ''modelKey'', ''returnedModel'', ''tokenCounts'', ''partial'',
        ''final'', ''estimated'', ''incomplete'', ''cost'']
       (\<lambda>ob. req_prop is_str1 ob ''requestedModel'' \<and>
            opt_prop is_str1 ob ''modelKey'' \<and>
            opt_prop is_str1 ob ''returnedModel'' \<and>
            req_prop token_counts_ok ob ''tokenCounts'' \<and>
            req_prop is_bool ob ''partial'' \<and>
            req_prop is_bool ob ''final'' \<and>
            req_prop is_bool ob ''estimated'' \<and>
            req_prop is_bool ob ''incomplete'' \<and>
            opt_prop usage_cost_ok ob ''cost'')"

definition workspace_ok :: "jsval \<Rightarrow> bool" where
  "workspace_ok =
     obj_schema [''worktreePath'', ''repository'', ''snapshot'']
       (\<lambda>ob. req_prop is_str1 ob ''worktreePath'' \<and>
            req_prop is_str1 ob ''repository'' \<and>
            req_prop is_str1 ob ''snapshot'')"

definition raw_event_ref_ok :: "jsval \<Rightarrow> bool" where
  "raw_event_ref_ok =
     obj_schema [''reference'', ''redacted'']
       (\<lambda>ob. req_prop is_str1 ob ''reference'' \<and> obj_get ob ''redacted'' = JBool True)"

definition event_keys :: "string list" where
  "event_keys =
     [''schemaVersion'', ''eventId'', ''runId'', ''attemptId'', ''sequence'', ''occurredAt'',
      ''kind'', ''runtimeSessionRef'', ''parentEventId'', ''workspace'', ''provider'', ''model'',
      ''policyVersion'', ''payload'', ''rawEventRef'']"

fun is_date :: "(string \<Rightarrow> bool) \<Rightarrow> jsval \<Rightarrow> bool" where
  "is_date date_ok (JStr s) = date_ok s"
| "is_date _ _ = False"

definition event_schema_ok :: "(string \<Rightarrow> bool) \<Rightarrow> jsval \<Rightarrow> bool" where
  "event_schema_ok date_ok =
     obj_schema event_keys
       (\<lambda>ob. obj_get ob ''schemaVersion'' = JStr ''1'' \<and>
            req_prop is_str1 ob ''eventId'' \<and>
            req_prop is_str1 ob ''runId'' \<and>
            req_prop is_str1 ob ''attemptId'' \<and>
            req_prop (is_int_from 1) ob ''sequence'' \<and>
            req_prop (is_date date_ok) ob ''occurredAt'' \<and>
            req_prop is_str1 ob ''kind'' \<and>
            opt_prop is_str1 ob ''runtimeSessionRef'' \<and>
            opt_prop is_str1 ob ''parentEventId'' \<and>
            req_prop workspace_ok ob ''workspace'' \<and>
            req_prop is_str1 ob ''provider'' \<and>
            req_prop is_str1 ob ''model'' \<and>
            req_prop is_str1 ob ''policyVersion'' \<and>
            req_prop is_obj ob ''payload'' \<and>
            opt_prop raw_event_ref_ok ob ''rawEventRef'' \<and>
            (obj_get ob ''kind'' = JStr ''terminal'' \<longrightarrow> terminal_payload_ok (obj_get ob ''payload'')) \<and>
            (obj_get ob ''kind'' = JStr ''usage'' \<longrightarrow> usage_payload_ok (obj_get ob ''payload'')))"

section \<open>Parsing events\<close>

definition str_of :: "jsval \<Rightarrow> string" where
  "str_of v = (case as_string v of None \<Rightarrow> [] | Some s \<Rightarrow> s)"

definition obj_of :: "jsval \<Rightarrow> obj" where
  "obj_of v = (case as_record v of None \<Rightarrow> [] | Some ob \<Rightarrow> ob)"

fun rat_of :: "jsval \<Rightarrow> rat" where
  "rat_of (JNum n) = fin_val n"
| "rat_of _ = 0"

definition nat_of :: "jsval \<Rightarrow> nat" where
  "nat_of v = nat \<lfloor>rat_of v\<rfloor>"

definition workspace_of_obj :: "obj \<Rightarrow> event_workspace" where
  "workspace_of_obj ob =
     \<lparr>ws_worktreePath = str_of (obj_get ob ''worktreePath''),
      ws_repository = str_of (obj_get ob ''repository''),
      ws_snapshot = str_of (obj_get ob ''snapshot'')\<rparr>"

definition event_of_obj :: "obj \<Rightarrow> rehor_event" where
  "event_of_obj ob =
     \<lparr>ev_eventId = str_of (obj_get ob ''eventId''),
      ev_runId = str_of (obj_get ob ''runId''),
      ev_attemptId = str_of (obj_get ob ''attemptId''),
      ev_sequence = nat_of (obj_get ob ''sequence''),
      ev_occurredAt = str_of (obj_get ob ''occurredAt''),
      ev_kind = str_of (obj_get ob ''kind''),
      ev_runtimeSessionRef = as_string (obj_get ob ''runtimeSessionRef''),
      ev_parentEventId = as_string (obj_get ob ''parentEventId''),
      ev_workspace = workspace_of_obj (obj_of (obj_get ob ''workspace'')),
      ev_provider = str_of (obj_get ob ''provider''),
      ev_model = str_of (obj_get ob ''model''),
      ev_policyVersion = str_of (obj_get ob ''policyVersion''),
      ev_payload = obj_of (obj_get ob ''payload''),
      ev_rawEventRef =
        (case obj_get ob ''rawEventRef'' of
           JObj r \<Rightarrow> as_string (obj_get r ''reference'')
         | _ \<Rightarrow> None)\<rparr>"

definition parseRehorEvent :: "(string \<Rightarrow> bool) \<Rightarrow> jsval \<Rightarrow> contract_error + rehor_event" where
  "parseRehorEvent date_ok v =
     (case v of
        JObj ob \<Rightarrow>
          if event_schema_ok date_ok v then Inr (event_of_obj ob) else Inl (SchemaMismatch ''event'')
      | _ \<Rightarrow> Inl (SchemaMismatch ''event''))"

text \<open>The object a typed event is at run time; a field that is \<open>undefined\<close> is left out.\<close>

definition workspace_to_obj :: "event_workspace \<Rightarrow> obj" where
  "workspace_to_obj w =
     [(''worktreePath'', JStr (ws_worktreePath w)),
      (''repository'', JStr (ws_repository w)),
      (''snapshot'', JStr (ws_snapshot w))]"

definition event_to_obj :: "rehor_event \<Rightarrow> obj" where
  "event_to_obj e =
     [(''schemaVersion'', JStr ''1''),
      (''eventId'', JStr (ev_eventId e)),
      (''runId'', JStr (ev_runId e)),
      (''attemptId'', JStr (ev_attemptId e)),
      (''sequence'', JNum (Fin (of_nat (ev_sequence e)))),
      (''occurredAt'', JStr (ev_occurredAt e)),
      (''kind'', JStr (ev_kind e))] @
     opt_entry ''runtimeSessionRef'' (opt_str (ev_runtimeSessionRef e)) @
     opt_entry ''parentEventId'' (opt_str (ev_parentEventId e)) @
     [(''workspace'', JObj (workspace_to_obj (ev_workspace e))),
      (''provider'', JStr (ev_provider e)),
      (''model'', JStr (ev_model e)),
      (''policyVersion'', JStr (ev_policyVersion e)),
      (''payload'', JObj (ev_payload e))] @
     (case ev_rawEventRef e of
        None \<Rightarrow> []
      | Some r \<Rightarrow> [(''rawEventRef'', JObj [(''reference'', JStr r), (''redacted'', JBool True)])])"

text \<open>What the schema demands of a typed event.\<close>

definition workspace_valid :: "event_workspace \<Rightarrow> bool" where
  "workspace_valid w \<longleftrightarrow> ws_worktreePath w \<noteq> [] \<and> ws_repository w \<noteq> [] \<and> ws_snapshot w \<noteq> []"

definition event_valid :: "(string \<Rightarrow> bool) \<Rightarrow> rehor_event \<Rightarrow> bool" where
  "event_valid date_ok e \<longleftrightarrow>
     ev_eventId e \<noteq> [] \<and> ev_runId e \<noteq> [] \<and> ev_attemptId e \<noteq> [] \<and>
     1 \<le> ev_sequence e \<and> ev_sequence e \<le> max_safe_integer \<and>
     date_ok (ev_occurredAt e) \<and> ev_kind e \<noteq> [] \<and>
     ev_runtimeSessionRef e \<noteq> Some [] \<and> ev_parentEventId e \<noteq> Some [] \<and>
     workspace_valid (ev_workspace e) \<and>
     ev_provider e \<noteq> [] \<and> ev_model e \<noteq> [] \<and> ev_policyVersion e \<noteq> [] \<and>
     ev_rawEventRef e \<noteq> Some [] \<and>
     (ev_kind e = ''terminal'' \<longrightarrow> terminal_payload_ok (JObj (ev_payload e))) \<and>
     (ev_kind e = ''usage'' \<longrightarrow> usage_payload_ok (JObj (ev_payload e)))"

section \<open>Parsing is exact on typed events\<close>

lemma str_of_simps [simp]: "str_of (JStr s) = s"
  by (simp add: str_of_def)

lemma obj_of_simps [simp]: "obj_of (JObj ob) = ob"
  by (simp add: obj_of_def)

lemma is_str1_iff: "is_str1 v \<longleftrightarrow> (\<exists>s. v = JStr s \<and> s \<noteq> [])"
  by (cases v) auto

lemma is_str_iff: "is_str v \<longleftrightarrow> (\<exists>s. v = JStr s)"
  by (cases v) auto

lemma is_bool_iff: "is_bool v \<longleftrightarrow> (\<exists>b. v = JBool b)"
  by (cases v) auto

lemma is_obj_iff: "is_obj v \<longleftrightarrow> (\<exists>ob. v = JObj ob)"
  by (cases v) auto

lemma is_date_iff: "is_date d v \<longleftrightarrow> (\<exists>s. v = JStr s \<and> d s)"
  by (cases v) auto

lemma is_int_from_iff:
  "is_int_from lo v \<longleftrightarrow> (\<exists>n. v = JNum (Fin (of_nat n)) \<and> lo \<le> n \<and> n \<le> max_safe_integer)"
proof
  assume "is_int_from lo v"
  then obtain r where v: "v = JNum (Fin r)" and r: "is_integer r" "of_nat lo \<le> r" "r \<le> of_nat max_safe_integer"
    by (cases "(lo, v)" rule: is_int_from.cases) auto
  from r have "of_nat (nat \<lfloor>r\<rfloor>) = r"
    by (intro is_integer_nonneg_nat) (auto intro: order_trans [of 0 "of_nat lo"])
  with v r show "\<exists>n. v = JNum (Fin (of_nat n)) \<and> lo \<le> n \<and> n \<le> max_safe_integer"
    by (metis of_nat_le_iff)
qed auto

lemma nat_of_Fin [simp]: "nat_of (JNum (Fin (of_nat n))) = n"
  by (simp add: nat_of_def)

lemma workspace_roundtrip [simp]: "workspace_of_obj (workspace_to_obj w) = w"
  by (simp add: workspace_of_obj_def workspace_to_obj_def js_simps)

lemma workspace_ok_to_obj [simp]: "workspace_ok (JObj (workspace_to_obj w)) \<longleftrightarrow> workspace_valid w"
  by (simp add: workspace_ok_def obj_schema_def only_keys_def workspace_to_obj_def req_prop_def
      workspace_valid_def js_simps)

lemma is_str1_opt_str [simp]: "is_str1 (opt_str x) \<longleftrightarrow> x \<noteq> None \<and> x \<noteq> Some []"
  by (cases x) auto

text \<open>Reading a property the schema has checked.\<close>

lemma req_str1D: "req_prop is_str1 ob k \<Longrightarrow> str_of (obj_get ob k) \<noteq> []"
  by (auto simp: req_prop_def is_str1_iff)

lemma opt_str1D: "opt_prop is_str1 ob k \<Longrightarrow> as_string (obj_get ob k) \<noteq> Some []"
  by (auto simp: opt_prop_def is_str1_iff)

lemma str1_not_empty:
  "req_prop is_str1 ob k \<Longrightarrow> obj_get ob k \<noteq> JStr []"
  "opt_prop is_str1 ob k \<Longrightarrow> obj_get ob k \<noteq> JStr []"
  by (auto simp: opt_prop_def req_prop_def is_str1_iff)

lemma req_intD:
  "req_prop (is_int_from lo) ob k \<Longrightarrow>
     lo \<le> nat_of (obj_get ob k) \<and> nat_of (obj_get ob k) \<le> max_safe_integer"
  by (auto simp: req_prop_def is_int_from_iff)

lemma req_dateD: "req_prop (is_date d) ob k \<Longrightarrow> d (str_of (obj_get ob k))"
  by (auto simp: req_prop_def is_date_iff)

lemma req_kindD:
  "req_prop is_str1 ob k \<Longrightarrow> str_of (obj_get ob k) = s \<longleftrightarrow> obj_get ob k = JStr s"
  by (auto simp: req_prop_def is_str1_iff)

lemma req_objD: "req_prop is_obj ob k \<Longrightarrow> JObj (obj_of (obj_get ob k)) = obj_get ob k"
  by (auto simp: req_prop_def is_obj_iff)

lemma req_workspaceD:
  "req_prop workspace_ok ob k \<Longrightarrow> workspace_valid (workspace_of_obj (obj_of (obj_get ob k)))"
  by (auto simp: req_prop_def workspace_ok_def obj_schema_def workspace_valid_def
      workspace_of_obj_def is_str1_iff split: jsval.splits)

lemma event_to_obj_get:
  "obj_get (event_to_obj e) ''schemaVersion'' = JStr ''1''"
  "obj_get (event_to_obj e) ''eventId'' = JStr (ev_eventId e)"
  "obj_get (event_to_obj e) ''runId'' = JStr (ev_runId e)"
  "obj_get (event_to_obj e) ''attemptId'' = JStr (ev_attemptId e)"
  "obj_get (event_to_obj e) ''sequence'' = JNum (Fin (of_nat (ev_sequence e)))"
  "obj_get (event_to_obj e) ''occurredAt'' = JStr (ev_occurredAt e)"
  "obj_get (event_to_obj e) ''kind'' = JStr (ev_kind e)"
  "obj_get (event_to_obj e) ''runtimeSessionRef'' = opt_str (ev_runtimeSessionRef e)"
  "obj_get (event_to_obj e) ''parentEventId'' = opt_str (ev_parentEventId e)"
  "obj_get (event_to_obj e) ''workspace'' = JObj (workspace_to_obj (ev_workspace e))"
  "obj_get (event_to_obj e) ''provider'' = JStr (ev_provider e)"
  "obj_get (event_to_obj e) ''model'' = JStr (ev_model e)"
  "obj_get (event_to_obj e) ''policyVersion'' = JStr (ev_policyVersion e)"
  "obj_get (event_to_obj e) ''payload'' = JObj (ev_payload e)"
  "obj_get (event_to_obj e) ''rawEventRef'' =
     (case ev_rawEventRef e of
        None \<Rightarrow> Undef
      | Some r \<Rightarrow> JObj [(''reference'', JStr r), (''redacted'', JBool True)])"
  by (simp_all add: event_to_obj_def js_simps split: option.split)

lemma only_keys_append [simp]: "only_keys ks (a @ b) \<longleftrightarrow> only_keys ks a \<and> only_keys ks b"
  by (simp add: only_keys_def)

lemma only_keys_Cons [simp]: "only_keys ks ((k, v) # b) \<longleftrightarrow> k \<in> set ks \<and> only_keys ks b"
  by (simp add: only_keys_def)

lemma only_keys_Nil [simp]: "only_keys ks []"
  by (simp add: only_keys_def)

lemma only_keys_opt_entry [simp]: "k \<in> set ks \<Longrightarrow> only_keys ks (opt_entry k v)"
  by (simp add: opt_entry_def)

lemma only_keys_event [simp]: "only_keys event_keys (event_to_obj e)"
  by (simp add: event_to_obj_def event_keys_def split: option.split)

lemma event_of_to_obj [simp]: "event_of_obj (event_to_obj e) = e"
  by (simp add: event_of_obj_def event_to_obj_get js_simps split: option.split)

lemma opt_is_str1_event [simp]:
  "opt_prop is_str1 (event_to_obj e) ''runtimeSessionRef'' \<longleftrightarrow> ev_runtimeSessionRef e \<noteq> Some []"
  "opt_prop is_str1 (event_to_obj e) ''parentEventId'' \<longleftrightarrow> ev_parentEventId e \<noteq> Some []"
  by (auto simp: opt_prop_def event_to_obj_get)

lemma opt_raw_ref_event [simp]:
  "opt_prop raw_event_ref_ok (event_to_obj e) ''rawEventRef'' \<longleftrightarrow> ev_rawEventRef e \<noteq> Some []"
  by (simp add: opt_prop_def event_to_obj_get raw_event_ref_ok_def obj_schema_def req_prop_def
      js_simps split: option.split)

lemma event_schema_to_obj: "event_schema_ok date_ok (JObj (event_to_obj e)) \<longleftrightarrow> event_valid date_ok e"
  by (simp add: event_schema_ok_def obj_schema_def event_to_obj_get req_prop_def event_valid_def)

lemma parse_event_to_obj:
  "parseRehorEvent date_ok (JObj (event_to_obj e)) =
     (if event_valid date_ok e then Inr e else Inl (SchemaMismatch ''event''))"
  by (simp add: parseRehorEvent_def event_schema_to_obj)

lemma parse_event_Inr:
  "parseRehorEvent date_ok v = Inr e \<longleftrightarrow>
     (\<exists>ob. v = JObj ob \<and> event_schema_ok date_ok v \<and> e = event_of_obj ob)"
  by (auto simp: parseRehorEvent_def split: jsval.splits if_splits)

lemma parse_event_error:
  "parseRehorEvent date_ok v = Inl err \<Longrightarrow> err = SchemaMismatch ''event''"
  by (auto simp: parseRehorEvent_def split: jsval.splits if_splits)

lemma raw_event_ref_valid:
  "obj_get ob ''rawEventRef'' = Undef \<or> raw_event_ref_ok (obj_get ob ''rawEventRef'') \<Longrightarrow>
     (case obj_get ob ''rawEventRef'' of
        JObj r \<Rightarrow> as_string (obj_get r ''reference'') | _ \<Rightarrow> None) \<noteq> Some []"
  by (auto simp: raw_event_ref_ok_def obj_schema_def req_prop_def is_str1_iff split: jsval.splits)

text \<open>Whatever the parser accepts satisfies the typed conditions, so it parses again to itself.\<close>

lemma parse_event_valid:
  assumes "parseRehorEvent date_ok v = Inr e"
  shows "event_valid date_ok e"
proof -
  from assms obtain ob where v: "v = JObj ob" and ok: "event_schema_ok date_ok (JObj ob)"
    and e: "e = event_of_obj ob"
    by (auto simp: parse_event_Inr)
  note ok' = ok [unfolded event_schema_ok_def obj_schema_def, simplified]
  from ok' have raw: "obj_get ob ''rawEventRef'' = Undef \<or> raw_event_ref_ok (obj_get ob ''rawEventRef'')"
    by (simp add: opt_prop_def)
  from ok' have kind: "req_prop is_str1 ob ''kind''" and pay: "req_prop is_obj ob ''payload''"
    and seq: "req_prop (is_int_from 1) ob ''sequence''"
    by simp_all
  from ok' have "obj_get ob ''kind'' = JStr ''terminal'' \<longrightarrow> terminal_payload_ok (obj_get ob ''payload'')"
    "obj_get ob ''kind'' = JStr ''usage'' \<longrightarrow> usage_payload_ok (obj_get ob ''payload'')"
    by simp_all
  with ok' raw_event_ref_valid [OF raw] req_intD [OF seq] show ?thesis
    by (simp add: e event_valid_def event_of_obj_def req_str1D str1_not_empty req_dateD req_workspaceD
        req_kindD [OF kind] req_objD [OF pay])
qed

section \<open>A sample run and its events\<close>

text \<open>Fixtures the closed instances of the properties share.\<close>

definition sample_hash :: content_hash where
  "sample_hash = \<lparr>ch_algorithm = ''sha256'', ch_value = replicate 64 (CHR ''a'')\<rparr>"

definition sample_run :: rehor_run where
  "sample_run =
     \<lparr>rn_runId = ''run'', rn_attemptId = ''attempt'', rn_instanceId = ''instance'',
      rn_label = ''label'', rn_workflowId = ''workflow'', rn_prompt = ''prompt'',
      rn_task = Some \<lparr>tk_id = ''7'', tk_key = Some ''RHOR-7''\<rparr>,
      rn_worktree = \<lparr>wt_path = ''/w'', wt_repository = ''repo'',
        wt_snapshot = \<lparr>sn_ref = ''main'', sn_commitSha = ''c0'', sn_dirty = False\<rparr>\<rparr>,
      rn_instructionHash = sample_hash, rn_configHash = sample_hash, rn_policyHash = sample_hash,
      rn_runtimeId = Some ''opencode'',
      rn_provider = \<lparr>pv_id = ''vertex'', pv_requestedModel = ''model'', pv_reasoningEffort = None\<rparr>,
      rn_limits = \<lparr>lm_timeoutMs = 60000, lm_budgetUsd = 10, lm_maxOutputTokens = None\<rparr>,
      rn_preflightPayloadRef = None\<rparr>"

definition sample_event :: "string \<Rightarrow> nat \<Rightarrow> string \<Rightarrow> obj \<Rightarrow> rehor_event" where
  "sample_event i n k p =
     \<lparr>ev_eventId = i, ev_runId = ''run'', ev_attemptId = ''attempt'', ev_sequence = n,
      ev_occurredAt = ''now'', ev_kind = k, ev_runtimeSessionRef = None, ev_parentEventId = None,
      ev_workspace = \<lparr>ws_worktreePath = ''/w'', ws_repository = ''repo'', ws_snapshot = ''c0''\<rparr>,
      ev_provider = ''vertex'', ev_model = ''model'', ev_policyVersion = ''1'', ev_payload = p,
      ev_rawEventRef = None\<rparr>"

definition sample_terminal_payload :: obj where
  "sample_terminal_payload = [(''state'', JStr ''completed'')]"

lemmas sample_defs = sample_run_def sample_event_def sample_hash_def sample_terminal_payload_def

end
