(* ===== verification/Event_Ledger.thy ===== *)
theory Event_Ledger
  imports Run_Event
begin

text \<open>
  \<open>coordinator/src/domain/event-ledger.ts\<close> and \<open>event-factory.ts\<close>: the ledger that validates,
  attributes, deduplicates and orders the events of one attempt, and the factory that stamps
  the envelope of a new event. The ledger is a record; \<open>ingest\<close> returns the thrown contract
  error or the new ledger with its result. A thrown error leaves the ledger as it was.
\<close>

section \<open>Canonical JSON\<close>

text \<open>
  \<open>canonicalValue\<close> sorts the entries of every object by code unit. \<open>JSON.stringify\<close> is
  represented by the tree it prints: undefined entries are dropped, undefined array elements
  and non-finite numbers print as null, and two trees print alike only when they are equal.
\<close>

primrec canonicalValue :: "jsval \<Rightarrow> jsval" where
  "canonicalValue Undef = Undef"
| "canonicalValue JNull = JNull"
| "canonicalValue (JBool b) = JBool b"
| "canonicalValue (JNum n) = JNum n"
| "canonicalValue (JStr s) = JStr s"
| "canonicalValue (JArr vs) = JArr (map canonicalValue vs)"
| "canonicalValue (JObj ob) = JObj (sort_key fst (map (map_prod id canonicalValue) ob))"

primrec json_tree :: "jsval \<Rightarrow> jsval" where
  "json_tree Undef = Undef"
| "json_tree JNull = JNull"
| "json_tree (JBool b) = JBool b"
| "json_tree (JNum n) = (if is_finite n then JNum n else JNull)"
| "json_tree (JStr s) = JStr s"
| "json_tree (JArr vs) = JArr (map (\<lambda>v. if v = Undef then JNull else v) (map json_tree vs))"
| "json_tree (JObj ob) = JObj (filter (\<lambda>(k, v). v \<noteq> Undef) (map (map_prod id json_tree) ob))"

definition canonicalJson :: "jsval \<Rightarrow> jsval" where
  "canonicalJson v = json_tree (canonicalValue v)"

text \<open>Equality of JSON values up to the order of object entries, with unique keys.\<close>

inductive json_perm :: "jsval \<Rightarrow> jsval \<Rightarrow> bool" where
  same: "json_perm v v"
| arr: "list_all2 json_perm vs ws \<Longrightarrow> json_perm (JArr vs) (JArr ws)"
| obj: "distinct (map fst a) \<Longrightarrow> mset a = mset a' \<Longrightarrow>
        list_all2 (\<lambda>x y. fst x = fst y \<and> json_perm (snd x) (snd y)) a' b \<Longrightarrow>
        json_perm (JObj a) (JObj b)"

lemma map_fst_map_prod_id: "map fst (map (map_prod id f) xs) = map fst xs"
  by (induction xs) auto

lemma sort_key_perm:
  assumes "mset xs = mset ys" and "distinct (map fst xs)"
  shows "sort_key fst xs = sort_key fst ys"
proof (rule sort_key_inj_key_eq)
  show "mset xs = mset (sort_key fst ys)" using assms(1) by simp
  show "inj_on fst (set xs)" using assms(2) by (simp add: distinct_map)
  show "sorted (map fst (sort_key fst ys))" by simp
qed

lemma canonicalValue_perm: "json_perm a b \<Longrightarrow> canonicalValue a = canonicalValue b"
proof (induction rule: json_perm.induct)
  case (same v)
  show ?case by simp
next
  case (arr vs ws)
  then have "map canonicalValue vs = map canonicalValue ws"
    by (induction rule: list_all2_induct) auto
  then show ?case by simp
next
  case (obj a a' b)
  from obj.IH have eq: "map (map_prod id canonicalValue) a' = map (map_prod id canonicalValue) b"
    by (induction rule: list_all2_induct) (auto simp: prod_eq_iff)
  have "mset (map (map_prod id canonicalValue) a) = mset (map (map_prod id canonicalValue) a')"
    using obj.hyps(2) by simp
  then have "sort_key fst (map (map_prod id canonicalValue) a)
      = sort_key fst (map (map_prod id canonicalValue) a')"
    by (rule sort_key_perm) (simp add: map_fst_map_prod_id obj.hyps(1) del: map_map)
  with eq show ?case by simp
qed

lemma canonicalJson_perm: "json_perm a b \<Longrightarrow> canonicalJson a = canonicalJson b"
  by (simp add: canonicalJson_def canonicalValue_perm)

section \<open>The ledger\<close>

record event_ledger =
  lg_run :: rehor_run
  lg_received :: "(string \<times> rehor_event) list"
  lg_receivedBySequence :: "(nat \<times> rehor_event) list"
  lg_receivedInOrder :: "rehor_event list"
  lg_highestSequence :: nat
  lg_acceptedTerminalEvent :: "rehor_event option"

record ingest_result =
  ir_accepted :: bool
  ir_duplicate :: bool
  ir_outOfOrder :: bool
  ir_afterTerminal :: bool

definition new_ledger :: "rehor_run \<Rightarrow> event_ledger" where
  "new_ledger run =
     \<lparr>lg_run = run, lg_received = [], lg_receivedBySequence = [], lg_receivedInOrder = [],
      lg_highestSequence = 0, lg_acceptedTerminalEvent = None\<rparr>"

definition requireTerminal :: "event_ledger \<Rightarrow> contract_error + rehor_event" where
  "requireTerminal L =
     (case lg_acceptedTerminalEvent L of
        None \<Rightarrow> Inl TerminalMissing
      | Some t \<Rightarrow> bindE (assertTerminalEvent t) (\<lambda>_. Inr t))"

fun missing_from :: "nat \<Rightarrow> nat list \<Rightarrow> (nat \<times> nat) list" where
  "missing_from expected [] = []"
| "missing_from expected (sq # sqs) =
     (if expected < sq then [(expected, sq - 1)] else []) @ missing_from (sq + 1) sqs"

definition missingSequenceRanges :: "event_ledger \<Rightarrow> (nat \<times> nat) list" where
  "missingSequenceRanges L = missing_from 1 (sort (map fst (lg_receivedBySequence L)))"

definition event_workspace_matches :: "rehor_run \<Rightarrow> rehor_event \<Rightarrow> bool" where
  "event_workspace_matches run e \<longleftrightarrow>
     ws_worktreePath (ev_workspace e) = wt_path (rn_worktree run) \<and>
     ws_repository (ev_workspace e) = wt_repository (rn_worktree run) \<and>
     ws_snapshot (ev_workspace e) = sn_commitSha (wt_snapshot (rn_worktree run))"

definition accept_event :: "event_ledger \<Rightarrow> rehor_event \<Rightarrow> event_ledger" where
  "accept_event L e =
     L\<lparr>lg_received := AList.update (ev_eventId e) e (lg_received L),
       lg_receivedBySequence := AList.update (ev_sequence e) e (lg_receivedBySequence L),
       lg_receivedInOrder := lg_receivedInOrder L @ [e],
       lg_highestSequence := max (lg_highestSequence L) (ev_sequence e),
       lg_acceptedTerminalEvent :=
         (if is_terminal e then Some e else lg_acceptedTerminalEvent L)\<rparr>"

definition past_terminal :: "event_ledger \<Rightarrow> rehor_event \<Rightarrow> bool" where
  "past_terminal L e \<longleftrightarrow>
     (case lg_acceptedTerminalEvent L of None \<Rightarrow> False | Some t \<Rightarrow> ev_sequence t < ev_sequence e)"

definition ingest_parsed ::
    "event_ledger \<Rightarrow> rehor_event \<Rightarrow> contract_error + event_ledger \<times> ingest_result" where
  "ingest_parsed L e =
     (if ev_runId e \<noteq> rn_runId (lg_run L) \<or> ev_attemptId e \<noteq> rn_attemptId (lg_run L)
      then Inl AttributionMismatch
      else if \<not> event_workspace_matches (lg_run L) e then Inl WorkspaceMismatch
      else if ev_provider e \<noteq> pv_id (rn_provider (lg_run L)) then Inl ProviderMismatch
      else case map_of (lg_received L) (ev_eventId e) of
        Some old \<Rightarrow>
          if canonicalJson (JObj (event_to_obj old)) \<noteq> canonicalJson (JObj (event_to_obj e))
          then Inl (ConflictingDuplicate (ev_eventId e))
          else Inr (L, \<lparr>ir_accepted = False, ir_duplicate = True, ir_outOfOrder = False,
                        ir_afterTerminal = False\<rparr>)
      | None \<Rightarrow>
          if lg_acceptedTerminalEvent L \<noteq> None \<and> is_terminal e
          then Inl (TerminalAlreadyAccepted
                 (case lg_acceptedTerminalEvent L of None \<Rightarrow> [] | Some t \<Rightarrow> ev_eventId t))
          else if past_terminal L e
          then Inr (L, \<lparr>ir_accepted = False, ir_duplicate = False, ir_outOfOrder = False,
                        ir_afterTerminal = True\<rparr>)
          else (case map_of (lg_receivedBySequence L) (ev_sequence e) of
                  Some old \<Rightarrow> Inl (SequenceAlreadyAccepted (ev_sequence e) (ev_eventId old))
                | None \<Rightarrow>
                    Inr (accept_event L e,
                         \<lparr>ir_accepted = True, ir_duplicate = False,
                          ir_outOfOrder = (ev_sequence e < lg_highestSequence L),
                          ir_afterTerminal = False\<rparr>)))"

definition ingest ::
    "(string \<Rightarrow> bool) \<Rightarrow> event_ledger \<Rightarrow> jsval \<Rightarrow> contract_error + event_ledger \<times> ingest_result" where
  "ingest date_ok L v = bindE (parseRehorEvent date_ok v) (ingest_parsed L)"

text \<open>\<open>ledger.ingest(event)\<close> on a typed event, as the coordinator calls it.\<close>

definition ingest_event ::
    "(string \<Rightarrow> bool) \<Rightarrow> event_ledger \<Rightarrow> rehor_event \<Rightarrow>
     contract_error + event_ledger \<times> ingest_result" where
  "ingest_event date_ok L e = ingest date_ok L (JObj (event_to_obj e))"

lemma ingest_event_eq:
  "ingest_event date_ok L e =
     (if event_valid date_ok e then ingest_parsed L e else Inl (SchemaMismatch ''event''))"
  by (simp add: ingest_event_def ingest_def parse_event_to_obj)

text \<open>A whole delivery: a value whose ingestion throws leaves the ledger as it was.\<close>

fun ingest_all :: "(string \<Rightarrow> bool) \<Rightarrow> event_ledger \<Rightarrow> jsval list \<Rightarrow> event_ledger" where
  "ingest_all date_ok L [] = L"
| "ingest_all date_ok L (v # vs) =
     (case ingest date_ok L v of
        Inl _ \<Rightarrow> ingest_all date_ok L vs
      | Inr (L', _) \<Rightarrow> ingest_all date_ok L' vs)"

section \<open>Every outcome of an ingestion\<close>

definition attributed :: "rehor_run \<Rightarrow> rehor_event \<Rightarrow> bool" where
  "attributed run e \<longleftrightarrow>
     ev_runId e = rn_runId run \<and> ev_attemptId e = rn_attemptId run \<and>
     event_workspace_matches run e \<and> ev_provider e = pv_id (rn_provider run)"

lemma ingest_parsed_cases:
  assumes "ingest_parsed L e = Inr (L', r)"
  obtains (duplicate) old where "L' = L" "ir_duplicate r" "\<not> ir_accepted r"
      "map_of (lg_received L) (ev_eventId e) = Some old" "attributed (lg_run L) e"
  | (after) "L' = L" "ir_afterTerminal r" "\<not> ir_accepted r" "past_terminal L e" "\<not> is_terminal e"
      "attributed (lg_run L) e"
  | (accepted) "L' = accept_event L e" "ir_accepted r" "\<not> past_terminal L e"
      "map_of (lg_received L) (ev_eventId e) = None"
      "map_of (lg_receivedBySequence L) (ev_sequence e) = None"
      "is_terminal e \<longrightarrow> lg_acceptedTerminalEvent L = None" "attributed (lg_run L) e"
      "ir_outOfOrder r \<longleftrightarrow> ev_sequence e < lg_highestSequence L"
proof -
  from assms have att: "attributed (lg_run L) e"
    by (auto simp: ingest_parsed_def attributed_def split: if_splits)
  then have body: "\<not> (ev_runId e \<noteq> rn_runId (lg_run L) \<or> ev_attemptId e \<noteq> rn_attemptId (lg_run L))"
    "event_workspace_matches (lg_run L) e" "ev_provider e = pv_id (rn_provider (lg_run L))"
    by (simp_all add: attributed_def)
  show thesis
  proof (cases "map_of (lg_received L) (ev_eventId e)")
    case (Some old)
    with assms body show thesis
      by (intro duplicate [OF _ _ _ Some att]) (auto simp: ingest_parsed_def split: if_splits)
  next
    case None
    note fresh = None
    show thesis
    proof (cases "past_terminal L e")
      case True
      with assms body fresh show thesis
        by (intro after [OF _ _ _ True _ att])
          (auto simp: ingest_parsed_def past_terminal_def split: if_splits option.splits)
    next
      case False
      with assms body fresh show thesis
        by (intro accepted [OF _ _ False fresh _ _ att])
          (auto simp: ingest_parsed_def split: if_splits option.splits)
    qed
  qed
qed

lemma ingest_Inr:
  assumes "ingest date_ok L v = Inr (L', r)"
  obtains e where "parseRehorEvent date_ok v = Inr e" "event_valid date_ok e"
    "ingest_parsed L e = Inr (L', r)"
  using assms parse_event_valid by (auto simp: ingest_def bindE_Inr)

section \<open>The ledger invariant\<close>

definition terminals :: "rehor_event list \<Rightarrow> rehor_event list" where
  "terminals es = filter is_terminal es"

lemma terminals_append [simp]: "terminals (a @ b) = terminals a @ terminals b"
  by (simp add: terminals_def)

lemma terminals_single [simp]: "terminals [e] = (if is_terminal e then [e] else [])"
  by (simp add: terminals_def)

definition ledger_inv :: "(string \<Rightarrow> bool) \<Rightarrow> event_ledger \<Rightarrow> bool" where
  "ledger_inv date_ok L \<longleftrightarrow>
     lg_received L = map (\<lambda>e. (ev_eventId e, e)) (lg_receivedInOrder L) \<and>
     lg_receivedBySequence L = map (\<lambda>e. (ev_sequence e, e)) (lg_receivedInOrder L) \<and>
     distinct (map ev_eventId (lg_receivedInOrder L)) \<and>
     distinct (map ev_sequence (lg_receivedInOrder L)) \<and>
     (\<forall>e \<in> set (lg_receivedInOrder L). event_valid date_ok e \<and> attributed (lg_run L) e) \<and>
     lg_highestSequence L = Max (insert 0 (ev_sequence ` set (lg_receivedInOrder L))) \<and>
     terminals (lg_receivedInOrder L) =
       (case lg_acceptedTerminalEvent L of None \<Rightarrow> [] | Some t \<Rightarrow> [t])"

lemma ledger_inv_new [wf_intros]: "ledger_inv date_ok (new_ledger run)"
  by (simp add: ledger_inv_def new_ledger_def terminals_def)

lemma map_of_map_key: "map_of (map (\<lambda>e. (f e, e)) xs) k = None \<longleftrightarrow> k \<notin> f ` set xs"
  by (induction xs) auto

lemma update_fresh: "k \<notin> fst ` set xs \<Longrightarrow> AList.update k v xs = xs @ [(k, v)]"
  by (induction xs) auto

lemma ledger_inv_accept [wf_intros]:
  assumes inv: "ledger_inv date_ok L" and valid: "event_valid date_ok e"
    and att: "attributed (lg_run L) e"
    and id: "map_of (lg_received L) (ev_eventId e) = None"
    and sq: "map_of (lg_receivedBySequence L) (ev_sequence e) = None"
    and trm: "is_terminal e \<longrightarrow> lg_acceptedTerminalEvent L = None"
  shows "ledger_inv date_ok (accept_event L e)"
proof -
  let ?es = "lg_receivedInOrder L"
  from inv id have id': "ev_eventId e \<notin> ev_eventId ` set ?es"
    by (simp add: ledger_inv_def map_of_map_key)
  from inv sq have sq': "ev_sequence e \<notin> ev_sequence ` set ?es"
    by (simp add: ledger_inv_def map_of_map_key)
  from inv id' sq' have
    "lg_received (accept_event L e) = map (\<lambda>e. (ev_eventId e, e)) (?es @ [e])"
    "lg_receivedBySequence (accept_event L e) = map (\<lambda>e. (ev_sequence e, e)) (?es @ [e])"
    by (simp_all add: accept_event_def ledger_inv_def update_fresh image_image)
  moreover have "lg_highestSequence (accept_event L e)
      = Max (insert 0 (ev_sequence ` set (?es @ [e])))"
  proof -
    have "Max (insert 0 (ev_sequence ` set (?es @ [e])))
        = Max (insert (ev_sequence e) (insert 0 (ev_sequence ` set ?es)))"
      by (simp add: insert_commute)
    also have "\<dots> = max (ev_sequence e) (Max (insert 0 (ev_sequence ` set ?es)))"
      by (rule Max_insert) auto
    finally show ?thesis using inv by (simp add: accept_event_def ledger_inv_def max.commute)
  qed
  ultimately show ?thesis
    using inv valid att id' sq' trm
    by (auto simp: ledger_inv_def accept_event_def split: option.splits)
qed

lemma ingest_parsed_inv:
  assumes "ledger_inv date_ok L" "event_valid date_ok e" "ingest_parsed L e = Inr (L', r)"
  shows "ledger_inv date_ok L'"
  using assms(3) by (cases rule: ingest_parsed_cases) (auto simp: assms intro: wf_intros assms)

lemma ingest_inv:
  "ledger_inv date_ok L \<Longrightarrow> ingest date_ok L v = Inr (L', r) \<Longrightarrow> ledger_inv date_ok L'"
  by (elim ingest_Inr) (blast intro: ingest_parsed_inv)

lemma ingest_all_inv [wf_intros]: "ledger_inv date_ok L \<Longrightarrow> ledger_inv date_ok (ingest_all date_ok L vs)"
proof (induction vs arbitrary: L)
  case (Cons v vs)
  then show ?case
    by (cases "ingest date_ok L v") (auto dest: ingest_inv)
qed simp

lemma accept_event_run [frame_simps]: "lg_run (accept_event L e) = lg_run L"
  by (simp add: accept_event_def)

lemma ingest_run [frame_simps]: "ingest date_ok L v = Inr (L', r) \<Longrightarrow> lg_run L' = lg_run L"
  by (elim ingest_Inr ingest_parsed_cases) (auto simp: frame_simps)

section \<open>The contract of a ledger, and its clients\<close>

text \<open>
  What \<open>executeRun\<close> and the projections rely on: the retained events only grow, one event per
  accepted ingestion, and never hold two terminals or two events of one sequence number.
\<close>

locale attempt_ledger =
  fixes ing :: "'l \<Rightarrow> 'v \<Rightarrow> 'e + 'l \<times> ingest_result"
    and events :: "'l \<Rightarrow> rehor_event list"
    and inv :: "'l \<Rightarrow> bool"
  assumes ing_inv: "inv L \<Longrightarrow> ing L v = Inr (L', r) \<Longrightarrow> inv L'"
    and ing_grows: "inv L \<Longrightarrow> ing L v = Inr (L', r) \<Longrightarrow>
          events L' = (if ir_accepted r then events L @ [last (events L')] else events L)"
    and one_terminal: "inv L \<Longrightarrow> length (terminals (events L)) \<le> 1"
    and distinct_sequences: "inv L \<Longrightarrow> distinct (map ev_sequence (events L))"
begin

definition deliver :: "'l \<Rightarrow> 'v list \<Rightarrow> 'l" where
  "deliver L vs = fold (\<lambda>v L. case ing L v of Inl _ \<Rightarrow> L | Inr (L', _) \<Rightarrow> L') vs L"

lemma deliver_Cons:
  "deliver L (v # vs) = deliver (case ing L v of Inl _ \<Rightarrow> L | Inr (L', _) \<Rightarrow> L') vs"
  by (simp add: deliver_def)

lemma deliver_grows: "inv L \<Longrightarrow> inv (deliver L vs) \<and> prefix (events L) (events (deliver L vs))"
proof (induction vs arbitrary: L)
  case Nil
  then show ?case by (simp add: deliver_def)
next
  case (Cons v vs)
  show ?case
  proof (cases "ing L v")
    case (Inl err)
    with Cons show ?thesis by (simp add: deliver_Cons)
  next
    case (Inr p)
    obtain L' r where p: "p = (L', r)" by (cases p)
    from Cons.prems Inr p have "inv L'" by (auto intro: ing_inv)
    moreover from Cons.prems Inr p have "prefix (events L) (events L')"
      using ing_grows [of L v L' r] by (auto split: if_splits intro: prefixI)
    ultimately show ?thesis
      using Cons.IH [of L'] by (auto simp: deliver_Cons Inr p intro: prefix_order.trans)
  qed
qed

lemma deliver_one_terminal: "inv L \<Longrightarrow> length (terminals (events (deliver L vs))) \<le> 1"
  using deliver_grows one_terminal by blast

lemma deliver_distinct: "inv L \<Longrightarrow> distinct (map ev_sequence (events (deliver L vs)))"
  using deliver_grows distinct_sequences by blast

lemma deliver_keeps: "inv L \<Longrightarrow> e \<in> set (events L) \<Longrightarrow> e \<in> set (events (deliver L vs))"
  using deliver_grows set_mono_prefix by blast

end

lemma ledger_inv_one_terminal:
  "ledger_inv date_ok L \<Longrightarrow> length (terminals (lg_receivedInOrder L)) \<le> 1"
  by (auto simp: ledger_inv_def split: option.splits)

lemma ledger_inv_distinct: "ledger_inv date_ok L \<Longrightarrow> distinct (map ev_sequence (lg_receivedInOrder L))"
  by (simp add: ledger_inv_def)

lemma ingest_grows:
  "ingest date_ok L v = Inr (L', r) \<Longrightarrow>
     lg_receivedInOrder L' =
       (if ir_accepted r then lg_receivedInOrder L @ [last (lg_receivedInOrder L')]
        else lg_receivedInOrder L)"
  by (elim ingest_Inr ingest_parsed_cases) (auto simp: accept_event_def)

interpretation rehor_ledger: attempt_ledger "ingest date_ok" lg_receivedInOrder "ledger_inv date_ok"
  for date_ok
  by unfold_locales
    (blast intro: ingest_inv ledger_inv_one_terminal ledger_inv_distinct, erule ingest_grows,
     blast intro: ledger_inv_one_terminal, rule ledger_inv_distinct)

lemma ingest_all_deliver: "ingest_all date_ok L vs = rehor_ledger.deliver date_ok L vs"
  by (induction date_ok L vs rule: ingest_all.induct)
    (auto simp: rehor_ledger.deliver_def split: sum.splits prod.splits)

section \<open>Missing sequence ranges\<close>

lemma missing_from_iff:
  "sorted ks \<Longrightarrow> distinct ks \<Longrightarrow> (\<forall>k \<in> set ks. x \<le> k) \<Longrightarrow>
     (\<exists>(a, b) \<in> set (missing_from x ks). a \<le> n \<and> n \<le> b) \<longleftrightarrow>
     x \<le> n \<and> n \<notin> set ks \<and> (\<exists>k \<in> set ks. n < k)"
proof (induction x ks rule: missing_from.induct)
  case (1 x)
  then show ?case by simp
next
  case (2 x k ks)
  from "2.prems" have ks: "\<forall>k' \<in> set ks. k + 1 \<le> k'"
    by (auto simp: Suc_le_eq order.order_iff_strict)
  with 2 have IH: "(\<exists>(a, b) \<in> set (missing_from (k + 1) ks). a \<le> n \<and> n \<le> b) \<longleftrightarrow>
      k + 1 \<le> n \<and> n \<notin> set ks \<and> (\<exists>k \<in> set ks. n < k)"
    by simp
  have "(\<exists>(a, b) \<in> set (missing_from x (k # ks)). a \<le> n \<and> n \<le> b) \<longleftrightarrow>
      (x < k \<and> x \<le> n \<and> n \<le> k - 1) \<or> (\<exists>(a, b) \<in> set (missing_from (k + 1) ks). a \<le> n \<and> n \<le> b)"
    by auto
  moreover consider "n < k" | "n = k" | "k < n" by linarith
  then show ?case
  proof cases
    case 1
    with ks have "n \<notin> set ks" by auto
    with 1 calculation IH show ?thesis by auto
  next
    case 2
    with calculation IH show ?thesis by auto
  next
    case 3
    with "2.prems"(3) have "x \<le> n" by simp
    with 3 calculation IH show ?thesis by auto
  qed
qed

section \<open>The event factory\<close>

text \<open>
  \<open>createEventFactory\<close> closes over a counter: the state of the factory is the highest sequence
  it has emitted. The random event id and the wall clock are read from the caller's environment,
  as \<open>uuid\<close> and \<open>now\<close>.
\<close>

record event_overrides =
  ov_eventId :: "string option"
  ov_occurredAt :: "string option"
  ov_model :: "string option"
  ov_runtimeSessionRef :: "string option"
  ov_parentEventId :: "string option"
  ov_rawEventRef :: "string option"

definition no_overrides :: event_overrides where
  "no_overrides =
     \<lparr>ov_eventId = None, ov_occurredAt = None, ov_model = None, ov_runtimeSessionRef = None,
      ov_parentEventId = None, ov_rawEventRef = None\<rparr>"

record event_factory =
  ef_run :: rehor_run
  ef_policyVersion :: string
  ef_sequence :: nat

definition run_workspace :: "rehor_run \<Rightarrow> event_workspace" where
  "run_workspace run =
     \<lparr>ws_worktreePath = wt_path (rn_worktree run),
      ws_repository = wt_repository (rn_worktree run),
      ws_snapshot = sn_commitSha (wt_snapshot (rn_worktree run))\<rparr>"

definition createEventFactory ::
    "rehor_run \<Rightarrow> string \<Rightarrow> jsnum option \<Rightarrow> contract_error + event_factory" where
  "createEventFactory run policyVersion startSequence =
     (let start = (case startSequence of None \<Rightarrow> Fin 0 | Some n \<Rightarrow> n)
      in if \<not> is_safe_integer start \<or> fin_val start < 0 then Inl BadStartSequence
         else Inr \<lparr>ef_run = run, ef_policyVersion = policyVersion,
                   ef_sequence = nat \<lfloor>fin_val start\<rfloor>\<rparr>)"

definition createEvent ::
    "event_factory \<Rightarrow> string \<Rightarrow> string \<Rightarrow> string \<Rightarrow> obj \<Rightarrow> event_overrides \<Rightarrow>
     rehor_event \<times> event_factory" where
  "createEvent f uuid now kind payload ov =
     (let run = ef_run f
      in (\<lparr>ev_eventId = (case ov_eventId ov of None \<Rightarrow> uuid | Some i \<Rightarrow> i),
           ev_runId = rn_runId run,
           ev_attemptId = rn_attemptId run,
           ev_sequence = ef_sequence f + 1,
           ev_occurredAt = (case ov_occurredAt ov of None \<Rightarrow> now | Some t \<Rightarrow> t),
           ev_kind = kind,
           ev_runtimeSessionRef = ov_runtimeSessionRef ov,
           ev_parentEventId = ov_parentEventId ov,
           ev_workspace = run_workspace run,
           ev_provider = pv_id (rn_provider run),
           ev_model = (case ov_model ov of None \<Rightarrow> pv_requestedModel (rn_provider run) | Some m \<Rightarrow> m),
           ev_policyVersion = ef_policyVersion f,
           ev_payload = payload,
           ev_rawEventRef = ov_rawEventRef ov\<rparr>,
          f\<lparr>ef_sequence := ef_sequence f + 1\<rparr>))"

lemma run_workspace_matches [simp]:
  "ev_workspace e = run_workspace run \<Longrightarrow> event_workspace_matches run e"
  by (simp add: event_workspace_matches_def run_workspace_def)

lemma createEvent_attributed: "attributed (ef_run f) (fst (createEvent f uuid now kind payload ov))"
  by (simp add: createEvent_def attributed_def Let_def)

lemma createEvent_sequence:
  "ev_sequence (fst (createEvent f uuid now kind payload ov)) = ef_sequence f + 1"
  "ef_sequence (snd (createEvent f uuid now kind payload ov)) = ef_sequence f + 1"
  "ef_run (snd (createEvent f uuid now kind payload ov)) = ef_run f"
  by (simp_all add: createEvent_def Let_def)

text \<open>The first \<open>length specs\<close> events of a factory, each given its kind, payload, id and time.\<close>

fun createEvents ::
    "event_factory \<Rightarrow> (string \<times> string \<times> string \<times> obj) list \<Rightarrow> rehor_event list \<times> event_factory" where
  "createEvents f [] = ([], f)"
| "createEvents f ((uuid, now, kind, payload) # specs) =
     (let (e, f1) = createEvent f uuid now kind payload no_overrides;
          (es, f2) = createEvents f1 specs
      in (e # es, f2))"

lemma createEvents_frame:
  "createEvents f specs = (es, f') \<Longrightarrow>
     ef_run f' = ef_run f \<and> ef_sequence f' = ef_sequence f + length specs \<and>
     map ev_sequence es = [ef_sequence f + 1 ..< ef_sequence f + length specs + 1] \<and>
     list_all (attributed (ef_run f)) es"
proof (induction f specs arbitrary: es f' rule: createEvents.induct)
  case (2 f uuid now kind payload specs)
  obtain e f1 where c: "createEvent f uuid now kind payload no_overrides = (e, f1)" by fastforce
  obtain es2 f2 where r: "createEvents f1 specs = (es2, f2)" by fastforce
  have e: "ev_sequence e = ef_sequence f + 1" "attributed (ef_run f) e"
    and f1: "ef_sequence f1 = ef_sequence f + 1" "ef_run f1 = ef_run f"
    using createEvent_sequence [of f uuid now kind payload no_overrides]
      createEvent_attributed [of f uuid now kind payload no_overrides]
    by (simp_all add: c)
  from "2.prems" c r have out: "es = e # es2" "f' = f2" by simp_all
  from "2.IH" [OF c [symmetric] HOL.refl r] show ?case
    by (simp add: out e f1 upt_conv_Cons del: upt_Suc)
qed simp

section \<open>Further facts about a delivery\<close>

lemma ingest_all_grows:
  assumes "ledger_inv date_ok L"
  shows "prefix (lg_receivedInOrder L) (lg_receivedInOrder (ingest_all date_ok L vs))"
  using rehor_ledger.deliver_grows [OF assms] by (simp add: ingest_all_deliver)

lemma ingest_all_keeps:
  "ledger_inv date_ok L \<Longrightarrow> e \<in> set (lg_receivedInOrder L) \<Longrightarrow>
     e \<in> set (lg_receivedInOrder (ingest_all date_ok L vs))"
  using ingest_all_grows set_mono_prefix by blast

lemma ingest_all_run [frame_simps]: "lg_run (ingest_all date_ok L vs) = lg_run L"
  by (induction date_ok L vs rule: ingest_all.induct)
    (auto simp: frame_simps split: sum.splits prod.splits)

lemma ingest_all_new [wf_intros]: "ledger_inv date_ok (ingest_all date_ok (new_ledger run) vs)"
  by (rule ingest_all_inv [OF ledger_inv_new])

lemma ledger_lookup:
  "ledger_inv date_ok L \<Longrightarrow> e \<in> set (lg_receivedInOrder L) \<Longrightarrow>
     map_of (lg_received L) (ev_eventId e) = Some e \<and>
     map_of (lg_receivedBySequence L) (ev_sequence e) = Some e"
  by (auto simp: ledger_inv_def distinct_map o_def inj_on_def intro!: map_of_is_SomeI)

lemma ledger_terminal:
  "ledger_inv date_ok L \<Longrightarrow>
     lg_acceptedTerminalEvent L = Some t \<longleftrightarrow> t \<in> set (lg_receivedInOrder L) \<and> is_terminal t"
proof -
  assume inv: "ledger_inv date_ok L"
  have "t \<in> set (lg_receivedInOrder L) \<and> is_terminal t \<longleftrightarrow> t \<in> set (terminals (lg_receivedInOrder L))"
    by (auto simp: terminals_def)
  also have "\<dots> \<longleftrightarrow> lg_acceptedTerminalEvent L = Some t"
    using inv by (auto simp: ledger_inv_def split: option.splits)
  finally show ?thesis ..
qed

lemma ingest_accepted:
  assumes "ingest date_ok L v = Inr (L', r)" "ir_accepted r"
  obtains e where "parseRehorEvent date_ok v = Inr e" "L' = accept_event L e"
  using assms by (elim ingest_Inr ingest_parsed_cases) auto

lemma ingest_known:
  assumes inv: "ledger_inv date_ok L" and e: "e \<in> set (lg_receivedInOrder L)"
    and v: "parseRehorEvent date_ok v = Inr e'"
    and same: "ev_eventId e' = ev_eventId e" "attributed (lg_run L) e'"
  shows "ingest date_ok L v =
    (if canonicalJson (JObj (event_to_obj e)) \<noteq> canonicalJson (JObj (event_to_obj e'))
     then Inl (ConflictingDuplicate (ev_eventId e))
     else Inr (L, \<lparr>ir_accepted = False, ir_duplicate = True, ir_outOfOrder = False,
                   ir_afterTerminal = False\<rparr>))"
  using ledger_lookup [OF inv e] same by (simp add: ingest_def v ingest_parsed_def attributed_def)

lemma deliver_after_terminal:
  assumes "ledger_inv date_ok L" "lg_acceptedTerminalEvent L = Some t"
  shows "\<exists>added. lg_receivedInOrder (ingest_all date_ok L ws) = lg_receivedInOrder L @ added \<and>
      lg_acceptedTerminalEvent (ingest_all date_ok L ws) = Some t \<and>
      list_all (\<lambda>e. \<not> is_terminal e \<and> ev_sequence e < ev_sequence t) added"
  using assms
proof (induction ws arbitrary: L)
  case (Cons w ws)
  show ?case
  proof (cases "ingest date_ok L w")
    case (Inr q)
    obtain L' r where q: "q = (L', r)" by (cases q)
    note step = Inr [unfolded q]
    have inv': "ledger_inv date_ok L'" using Cons.prems(1) step by (rule ingest_inv)
    have "\<exists>fresh. lg_receivedInOrder L' = lg_receivedInOrder L @ fresh \<and>
        lg_acceptedTerminalEvent L' = Some t \<and>
        list_all (\<lambda>e. \<not> is_terminal e \<and> ev_sequence e < ev_sequence t) fresh"
      using step
    proof (rule ingest_Inr)
      fix e
      assume e: "ingest_parsed L e = Inr (L', r)"
      have t: "t \<in> set (lg_receivedInOrder L)"
        using ledger_terminal [OF Cons.prems(1)] Cons.prems(2) by blast
      from e show ?thesis
      proof (cases rule: ingest_parsed_cases)
        case accepted
        from accepted(5) t Cons.prems(1) have "ev_sequence e \<noteq> ev_sequence t"
          using ledger_lookup [OF Cons.prems(1) t] by auto
        with accepted Cons.prems(2) show ?thesis
          by (auto simp: accept_event_def past_terminal_def)
      qed (use Cons.prems in auto)
    qed
    then obtain fresh where "lg_receivedInOrder L' = lg_receivedInOrder L @ fresh"
      "lg_acceptedTerminalEvent L' = Some t"
      "list_all (\<lambda>e. \<not> is_terminal e \<and> ev_sequence e < ev_sequence t) fresh"
      by blast
    with Cons.IH [OF inv'] show ?thesis by (fastforce simp: Inr q)
  qed (use Cons in simp)
qed simp

lemma json_perm_refl_entries:
  "list_all2 (\<lambda>x y. fst x = fst y \<and> json_perm (snd x) (snd y)) xs xs"
  by (simp add: list_all2_same json_perm.same)

lemma distinct_event_keys: "distinct (map fst (event_to_obj e))"
  by (simp add: event_to_obj_def opt_entry_def split: option.split)

lemma json_perm_event:
  "json_perm (JObj (ev_payload e)) (JObj p) \<Longrightarrow>
     json_perm (JObj (event_to_obj e)) (JObj (event_to_obj (e\<lparr>ev_payload := p\<rparr>)))"
  by (rule json_perm.obj [OF distinct_event_keys HOL.refl])
    (simp add: event_to_obj_def list_all2_append json_perm_refl_entries json_perm.same)

lemma redelivered_known:
  assumes inv: "ledger_inv date_ok L" and acc: "ingest date_ok L v = Inr (L1, r)" "ir_accepted r"
    and e: "parseRehorEvent date_ok v = Inr e"
    and v': "parseRehorEvent date_ok v' = Inr (e\<lparr>ev_payload := p\<rparr>)"
  shows "ingest date_ok (ingest_all date_ok L1 ws) v' =
    (if canonicalJson (JObj (event_to_obj e)) \<noteq> canonicalJson (JObj (event_to_obj (e\<lparr>ev_payload := p\<rparr>)))
     then Inl (ConflictingDuplicate (ev_eventId e))
     else Inr (ingest_all date_ok L1 ws, \<lparr>ir_accepted = False, ir_duplicate = True,
                   ir_outOfOrder = False, ir_afterTerminal = False\<rparr>))"
proof (rule ingest_known [OF _ _ v'])
  have inv1: "ledger_inv date_ok L1" by (rule ingest_inv [OF inv acc(1)])
  then show "ledger_inv date_ok (ingest_all date_ok L1 ws)" by (rule ingest_all_inv)
  have L1: "L1 = accept_event L e"
    using acc e by (auto elim: ingest_accepted)
  then have e1: "e \<in> set (lg_receivedInOrder L1)" by (simp add: accept_event_def)
  with inv1 show "e \<in> set (lg_receivedInOrder (ingest_all date_ok L1 ws))" by (rule ingest_all_keeps)
  from inv1 e1 have "attributed (lg_run L1) e" by (simp add: ledger_inv_def)
  then show "attributed (lg_run (ingest_all date_ok L1 ws)) (e\<lparr>ev_payload := p\<rparr>)"
    by (simp add: frame_simps attributed_def event_workspace_matches_def)
qed simp

lemma missing_ranges_inv:
  assumes inv: "ledger_inv date_ok L"
  shows "(\<exists>(a, b) \<in> set (missingSequenceRanges L). a \<le> n \<and> n \<le> b) \<longleftrightarrow>
     1 \<le> n \<and> n < lg_highestSequence L \<and> n \<notin> ev_sequence ` set (lg_receivedInOrder L)"
proof -
  let ?es = "lg_receivedInOrder L" let ?ks = "sort (map ev_sequence ?es)"
  have keys: "map fst (lg_receivedBySequence L) = map ev_sequence ?es"
    using inv by (simp add: ledger_inv_def o_def)
  have pos: "\<forall>k \<in> set ?ks. 1 \<le> k"
    using inv by (auto simp: ledger_inv_def event_valid_def)
  have "distinct ?ks" using inv by (simp add: ledger_inv_def)
  then have "(\<exists>(a, b) \<in> set (missingSequenceRanges L). a \<le> n \<and> n \<le> b) \<longleftrightarrow>
      1 \<le> n \<and> n \<notin> set ?ks \<and> (\<exists>k \<in> set ?ks. n < k)"
    unfolding missingSequenceRanges_def keys by (intro missing_from_iff) (use pos in auto)
  moreover have "(\<exists>k \<in> set ?ks. n < k) \<longleftrightarrow> n < lg_highestSequence L"
    using inv by (auto simp: ledger_inv_def Max_gr_iff)
  ultimately show ?thesis by auto
qed

lemma sample_attributed [simp]: "attributed sample_run (sample_event i n k p)"
  by (simp add: attributed_def event_workspace_matches_def sample_defs)

lemma sample_fields [simp]:
  "ev_eventId (sample_event i n k p) = i" "ev_sequence (sample_event i n k p) = n"
  "ev_kind (sample_event i n k p) = k" "ev_payload (sample_event i n k p) = p"
  "is_terminal (sample_event i n k p) \<longleftrightarrow> k = ''terminal''"
  by (simp_all add: sample_event_def is_terminal_def)

lemma sample_valid [simp]:
  "event_valid (\<lambda>_. True) (sample_event i n k p) \<longleftrightarrow>
     i \<noteq> [] \<and> 1 \<le> n \<and> n \<le> max_safe_integer \<and> k \<noteq> [] \<and>
     (k = ''terminal'' \<longrightarrow> terminal_payload_ok (JObj p)) \<and> (k = ''usage'' \<longrightarrow> usage_payload_ok (JObj p))"
  by (auto simp: event_valid_def sample_event_def workspace_valid_def)

lemma sample_terminal_ok [simp]: "terminal_payload_ok (JObj sample_terminal_payload)"
  by (simp add: terminal_payload_ok_def obj_schema_def only_keys_def sample_terminal_payload_def
      req_prop_def opt_prop_def terminal_states_def js_simps)

lemma ingest_valid_event:
  "event_valid date_ok e \<Longrightarrow> ingest date_ok L (JObj (event_to_obj e)) = ingest_parsed L e"
  by (simp add: ingest_def parse_event_to_obj)

lemma ingest_first:
  "attributed run e \<Longrightarrow>
     ingest_parsed (new_ledger run) e =
       Inr (accept_event (new_ledger run) e,
            \<lparr>ir_accepted = True, ir_duplicate = False, ir_outOfOrder = False, ir_afterTerminal = False\<rparr>)"
  by (simp add: ingest_parsed_def attributed_def new_ledger_def past_terminal_def)

lemma max_safe_big [simp]: "1 \<le> max_safe_integer" "2 \<le> max_safe_integer" "3 \<le> max_safe_integer"
  by (simp_all add: max_safe_integer_def)

lemma sample_terminal_accepted:
  "lg_acceptedTerminalEvent (ingest_all (\<lambda>_. True) (new_ledger sample_run)
      [JObj (event_to_obj (sample_event ''t'' 3 ''terminal'' sample_terminal_payload))]) =
    Some (sample_event ''t'' 3 ''terminal'' sample_terminal_payload)"
  by (simp add: ingest_valid_event ingest_first accept_event_def del: One_nat_def)

definition sample_first :: jsval where
  "sample_first = JObj (event_to_obj (sample_event ''a'' 2 ''note'' [(''x'', JNull), (''y'', JNull)]))"

definition sample_first_reordered :: jsval where
  "sample_first_reordered =
     JObj (event_to_obj (sample_event ''a'' 2 ''note'' [(''y'', JNull), (''x'', JNull)]))"

lemma sample_payload_update: "(sample_event i n k q)\<lparr>ev_payload := p\<rparr> = sample_event i n k p"
  by (simp add: sample_event_def)

lemma sample_first_parse:
  "parseRehorEvent (\<lambda>_. True) sample_first =
     Inr (sample_event ''a'' 2 ''note'' [(''x'', JNull), (''y'', JNull)])"
  "parseRehorEvent (\<lambda>_. True) sample_first_reordered =
     Inr ((sample_event ''a'' 2 ''note'' q)\<lparr>ev_payload := [(''y'', JNull), (''x'', JNull)]\<rparr>)"
  by (simp_all add: sample_first_def sample_first_reordered_def parse_event_to_obj
      sample_payload_update del: One_nat_def)

lemma sample_first_ingest:
  "ingest (\<lambda>_. True) (new_ledger sample_run) sample_first =
     Inr (accept_event (new_ledger sample_run)
            (sample_event ''a'' 2 ''note'' [(''x'', JNull), (''y'', JNull)]),
          \<lparr>ir_accepted = True, ir_duplicate = False, ir_outOfOrder = False, ir_afterTerminal = False\<rparr>)"
  by (simp add: sample_first_def ingest_valid_event ingest_first del: One_nat_def)

lemma sample_perm:
  "json_perm (JObj [(''x'', JNull), (''y'', JNull)]) (JObj [(''y'', JNull), (''x'', JNull)])"
  by (rule json_perm.obj [where a' = "[(''y'', JNull), (''x'', JNull)]"])
    (simp_all add: json_perm.same add_mset_commute)

section \<open>Properties\<close>

text \<open>
  C15. Whatever sequence of values is delivered to a fresh ledger, valid or not, repeated or
  reordered: the retained events are schema-valid, belong to the run attempt, have distinct event
  ids and distinct sequence numbers, and at most one of them is terminal.
\<close>

theorem ledger_any_delivery:
  "let es = lg_receivedInOrder (ingest_all date_ok (new_ledger run) vs)
   in length (terminals es) \<le> 1 \<and> distinct (map ev_eventId es) \<and> distinct (map ev_sequence es) \<and>
      list_all (\<lambda>e. event_valid date_ok e \<and> attributed run e) es"
proof -
  have inv: "ledger_inv date_ok (ingest_all date_ok (new_ledger run) vs)"
    by (rule ingest_all_new)
  have run: "lg_run (ingest_all date_ok (new_ledger run) vs) = run"
    by (simp add: frame_simps new_ledger_def)
  from inv run show ?thesis
    using rehor_ledger.deliver_one_terminal [OF ledger_inv_new, of date_ok run vs]
    by (simp add: ledger_inv_def list_all_iff ingest_all_deliver Let_def)
qed

text \<open>
  C16. The ledger is append-only and its terminal is final: whatever is delivered after a state
  with an accepted terminal, the earlier events stay in place, the terminal stays the same and
  every event that was added has a sequence below the terminal's.
\<close>

theorem terminal_is_final:
  assumes "L = ingest_all date_ok (new_ledger run) vs" and "lg_acceptedTerminalEvent L = Some t"
  shows "\<exists>added. lg_receivedInOrder (ingest_all date_ok L ws) = lg_receivedInOrder L @ added \<and>
      lg_acceptedTerminalEvent (ingest_all date_ok L ws) = Some t \<and>
      list_all (\<lambda>e. \<not> is_terminal e \<and> ev_sequence e < ev_sequence t) added"
proof -
  have "ledger_inv date_ok L" using assms(1) ingest_all_new by simp
  then show ?thesis using assms(2) by (rule deliver_after_terminal)
qed

theorem terminal_is_final_witness:
  "\<exists>L added. L = ingest_all (\<lambda>_. True) (new_ledger sample_run)
        [JObj (event_to_obj (sample_event ''t'' 3 ''terminal'' sample_terminal_payload))] \<and>
      lg_receivedInOrder (ingest_all (\<lambda>_. True) L
        [JObj (event_to_obj (sample_event ''late'' 2 ''usage_note'' [])),
         JObj (event_to_obj (sample_event ''after'' 4 ''usage_note'' []))]) =
      lg_receivedInOrder L @ added"
  using terminal_is_final [where date_ok = "\<lambda>_. True" and run = sample_run,
      OF HOL.refl sample_terminal_accepted]
  by blast



text \<open>
  The missing ranges are exactly the gaps: a sequence number lies in a reported range if and
  only if it is positive, below the highest accepted sequence, and no retained event has it.
\<close>

theorem missing_ranges_exact:
  "(\<exists>(a, b) \<in> set (missingSequenceRanges (ingest_all date_ok (new_ledger run) vs)). a \<le> n \<and> n \<le> b) \<longleftrightarrow>
     1 \<le> n \<and> n < lg_highestSequence (ingest_all date_ok (new_ledger run) vs) \<and>
     n \<notin> ev_sequence ` set (lg_receivedInOrder (ingest_all date_ok (new_ledger run) vs))"
  by (rule missing_ranges_inv [OF ingest_all_new])

end
