(* ===== verification/Usage_Budget.thy ===== *)
theory Usage_Budget
  imports Event_Ledger "HOL-Library.Option_ord"
begin

text \<open>
  \<open>coordinator/src/domain/usage.ts\<close> and the cost budget of \<open>coordinator/src/coordinator.ts\<close>.
  The usage ledger keeps the latest snapshot per model; the budget policy turns its total into
  notices at 50, 75, 90 and 100 percent and into the hard limit at 115 percent.
  Amounts are exact rationals.
\<close>

section \<open>Usage snapshots\<close>

datatype cost_source = ProviderCost | EstimatedCost | UnknownCost

record usage_cost =
  uc_amount :: rat
  uc_currency :: string
  uc_source :: cost_source
  uc_pricing :: "string option"

record token_counts =
  tc_input :: "nat option"
  tc_output :: "nat option"
  tc_reasoning :: "nat option"
  tc_cacheRead :: "nat option"
  tc_cacheWrite :: "nat option"

record usage =
  us_requestedModel :: string
  us_returnedModel :: "string option"
  us_modelKey :: "string option"
  us_tokenCounts :: token_counts
  us_partial :: bool
  us_final :: bool
  us_estimated :: bool
  us_incomplete :: bool
  us_cost :: "usage_cost option"

text \<open>Reading a payload that the usage schema has accepted (\<open>event.payload as Usage\<close>).\<close>

definition opt_nat :: "jsval \<Rightarrow> nat option" where
  "opt_nat v = (if v = Undef then None else Some (nat_of v))"

definition cost_source_of :: "jsval \<Rightarrow> cost_source" where
  "cost_source_of v =
     (if v = JStr ''provider'' then ProviderCost
      else if v = JStr ''estimated'' then EstimatedCost else UnknownCost)"

definition usage_cost_of :: "obj \<Rightarrow> usage_cost" where
  "usage_cost_of ob =
     \<lparr>uc_amount = rat_of (obj_get ob ''amount''),
      uc_currency = str_of (obj_get ob ''currency''),
      uc_source = cost_source_of (obj_get ob ''source''),
      uc_pricing = as_string (obj_get ob ''pricing'')\<rparr>"

definition token_counts_of :: "obj \<Rightarrow> token_counts" where
  "token_counts_of ob =
     \<lparr>tc_input = opt_nat (obj_get ob ''input''),
      tc_output = opt_nat (obj_get ob ''output''),
      tc_reasoning = opt_nat (obj_get ob ''reasoning''),
      tc_cacheRead = opt_nat (obj_get ob ''cacheRead''),
      tc_cacheWrite = opt_nat (obj_get ob ''cacheWrite'')\<rparr>"

definition usage_of_payload :: "obj \<Rightarrow> usage" where
  "usage_of_payload ob =
     \<lparr>us_requestedModel = str_of (obj_get ob ''requestedModel''),
      us_returnedModel = as_string (obj_get ob ''returnedModel''),
      us_modelKey = as_string (obj_get ob ''modelKey''),
      us_tokenCounts = token_counts_of (obj_of (obj_get ob ''tokenCounts'')),
      us_partial = truthy (obj_get ob ''partial''),
      us_final = truthy (obj_get ob ''final''),
      us_estimated = truthy (obj_get ob ''estimated''),
      us_incomplete = truthy (obj_get ob ''incomplete''),
      us_cost = map_option usage_cost_of (as_record (obj_get ob ''cost''))\<rparr>"

section \<open>The usage ledger\<close>

type_synonym usage_ledger = "(string \<times> usage) list"

definition usage_key :: "usage \<Rightarrow> string" where
  "usage_key u =
     (case us_modelKey u of
        Some k \<Rightarrow> k
      | None \<Rightarrow> (case us_returnedModel u of Some m \<Rightarrow> m | None \<Rightarrow> us_requestedModel u))"

definition overrides_previous :: "usage \<Rightarrow> usage option \<Rightarrow> bool" where
  "overrides_previous u previous \<longleftrightarrow>
     (us_modelKey u \<noteq> None \<and> us_modelKey u \<noteq> Some []) \<or>
     previous = None \<or> us_final u \<or>
     (case previous of None \<Rightarrow> True | Some p \<Rightarrow> \<not> us_final p)"

definition ul_record :: "usage \<Rightarrow> usage_ledger \<Rightarrow> usage_ledger" where
  "ul_record u L =
     (if overrides_previous u (map_of L (usage_key u)) then AList.update (usage_key u) u L else L)"

definition known_amount :: "usage \<Rightarrow> rat" where
  "known_amount u =
     (case us_cost u of
        None \<Rightarrow> 0
      | Some c \<Rightarrow> if uc_source c = UnknownCost then 0 else uc_amount c)"

definition totalCostUsd :: "usage_ledger \<Rightarrow> rat" where
  "totalCostUsd L = sum_list (map (\<lambda>(_, u). known_amount u) L)"

definition has_known_cost :: "usage \<Rightarrow> bool" where
  "has_known_cost u \<longleftrightarrow> (case us_cost u of None \<Rightarrow> False | Some c \<Rightarrow> uc_source c \<noteq> UnknownCost)"

definition hasKnownCost :: "usage_ledger \<Rightarrow> bool" where
  "hasKnownCost L \<longleftrightarrow> list_ex (\<lambda>(_, u). has_known_cost u) L"

text \<open>
  The abstract specification: a finite map from model keys to the snapshot that counts. A
  snapshot without a provider-qualified key never displaces a final one unless it is final.
\<close>

definition spec_record :: "usage \<Rightarrow> (string \<rightharpoonup> usage) \<Rightarrow> (string \<rightharpoonup> usage)" where
  "spec_record u m = (if overrides_previous u (m (usage_key u)) then m(usage_key u \<mapsto> u) else m)"

definition spec_total :: "(string \<rightharpoonup> usage) \<Rightarrow> rat" where
  "spec_total m = (\<Sum>k \<in> dom m. known_amount (the (m k)))"

definition spec_known :: "(string \<rightharpoonup> usage) \<Rightarrow> bool" where
  "spec_known m \<longleftrightarrow> (\<exists>k u. m k = Some u \<and> has_known_cost u)"

definition ul_inv :: "usage_ledger \<Rightarrow> bool" where
  "ul_inv L \<longleftrightarrow> distinct (map fst L)"

text \<open>
  The contract the budget policy and the projection share. \<open>view\<close> is what a ledger promises
  its clients; they never see the list behind it.
\<close>

locale usage_accumulator =
  fixes rec :: "usage \<Rightarrow> 'l \<Rightarrow> 'l"
    and total :: "'l \<Rightarrow> rat"
    and known :: "'l \<Rightarrow> bool"
    and view :: "'l \<Rightarrow> (string \<rightharpoonup> usage)"
    and inv :: "'l \<Rightarrow> bool"
  assumes rec_inv: "inv L \<Longrightarrow> inv (rec u L)"
    and rec_view: "inv L \<Longrightarrow> view (rec u L) = spec_record u (view L)"
    and finite_view: "inv L \<Longrightarrow> finite (dom (view L))"
    and total_view: "inv L \<Longrightarrow> total L = spec_total (view L)"
    and known_view: "inv L \<Longrightarrow> known L \<longleftrightarrow> spec_known (view L)"
begin

lemma total_nonneg:
  "inv L \<Longrightarrow> (\<And>k u. view L k = Some u \<Longrightarrow> 0 \<le> known_amount u) \<Longrightarrow> 0 \<le> total L"
  by (auto simp: total_view spec_total_def intro!: sum_nonneg)

lemma total_zero_unless_known: "inv L \<Longrightarrow> \<not> known L \<Longrightarrow> total L = 0"
  by (auto simp: total_view known_view spec_total_def spec_known_def known_amount_def
      has_known_cost_def intro!: sum.neutral split: option.splits)

lemma final_kept:
  assumes "inv L" and "view L k = Some p" "us_final p"
    and "usage_key u = k" "us_modelKey u = None" "\<not> us_final u"
  shows "view (rec u L) = view L"
  using assms by (simp add: rec_view spec_record_def overrides_previous_def)

end

lemma sum_list_assoc:
  "distinct (map fst L) \<Longrightarrow>
     sum_list (map (\<lambda>(_, u). f u) L) = (\<Sum>k \<in> dom (map_of L). f (the (map_of L k)))"
proof (induction L)
  case Nil
  then show ?case by simp
next
  case (Cons p L)
  obtain k u where p: "p = (k, u)" by (cases p)
  have fin: "finite (dom (map_of L))" by (rule finite_dom_map_of)
  from Cons.prems p have k: "k \<notin> dom (map_of L)" by (simp add: dom_map_of_conv_image_fst)
  have "(\<Sum>k' \<in> dom (map_of (p # L)). f (the (map_of (p # L) k')))
      = f u + (\<Sum>k' \<in> dom (map_of L). f (the (map_of (p # L) k')))"
    using k fin by (simp add: p)
  also have "(\<Sum>k' \<in> dom (map_of L). f (the (map_of (p # L) k')))
      = (\<Sum>k' \<in> dom (map_of L). f (the (map_of L k')))"
    using k by (intro sum.cong) (auto simp: p)
  finally show ?case using Cons by (simp add: p)
qed

lemma ul_inv_record [wf_intros]: "ul_inv L \<Longrightarrow> ul_inv (ul_record u L)"
  by (simp add: ul_inv_def ul_record_def distinct_update)

lemma ul_inv_empty [wf_intros]: "ul_inv []"
  by (simp add: ul_inv_def)

lemma map_of_ul_record: "map_of (ul_record u L) = spec_record u (map_of L)"
  by (simp add: ul_record_def spec_record_def update_conv')

lemma hasKnownCost_iff: "ul_inv L \<Longrightarrow> hasKnownCost L \<longleftrightarrow> spec_known (map_of L)"
  by (simp add: ul_inv_def hasKnownCost_def spec_known_def list_ex_iff split_beta Bex_def split_paired_Ex)

interpretation ledger_usage: usage_accumulator ul_record totalCostUsd hasKnownCost map_of ul_inv
proof unfold_locales
  fix L u
  assume inv: "ul_inv L"
  show "ul_inv (ul_record u L)" using inv by (rule ul_inv_record)
  show "map_of (ul_record u L) = spec_record u (map_of L)" by (rule map_of_ul_record)
  show "finite (dom (map_of L))" by (rule finite_dom_map_of)
  show "totalCostUsd L = spec_total (map_of L)"
    using inv by (simp add: totalCostUsd_def spec_total_def ul_inv_def sum_list_assoc)
  show "hasKnownCost L \<longleftrightarrow> spec_known (map_of L)" using inv by (rule hasKnownCost_iff)
qed

section \<open>The cost budget policy\<close>

datatype cost_state = Info | Warning | Critical | Exhausted

instantiation cost_state :: linorder
begin

fun cost_rank :: "cost_state \<Rightarrow> nat" where
  "cost_rank Info = 0"
| "cost_rank Warning = 1"
| "cost_rank Critical = 2"
| "cost_rank Exhausted = 3"

definition less_eq_cost_state :: "cost_state \<Rightarrow> cost_state \<Rightarrow> bool" where
  "less_eq_cost_state a b \<longleftrightarrow> cost_rank a \<le> cost_rank b"

definition less_cost_state :: "cost_state \<Rightarrow> cost_state \<Rightarrow> bool" where
  "less_cost_state a b \<longleftrightarrow> cost_rank a < cost_rank b"

instance
proof
  fix x y z :: cost_state
  show "x < y \<longleftrightarrow> x \<le> y \<and> \<not> y \<le> x"
    by (auto simp: less_eq_cost_state_def less_cost_state_def)
  show "x \<le> x" by (simp add: less_eq_cost_state_def)
  show "x \<le> y \<Longrightarrow> y \<le> z \<Longrightarrow> x \<le> z" by (simp add: less_eq_cost_state_def)
  show "x \<le> y \<Longrightarrow> y \<le> x \<Longrightarrow> x = y"
    by (cases x; cases y) (simp_all add: less_eq_cost_state_def)
  show "x \<le> y \<or> y \<le> x" by (auto simp: less_eq_cost_state_def)
qed

end

record cost_policy_event =
  cp_state :: cost_state
  cp_label :: string
  cp_usedUsd :: rat
  cp_budgetUsd :: rat
  cp_message :: string

fun cost_state_text :: "cost_state \<Rightarrow> string" where
  "cost_state_text Info = ''info''"
| "cost_state_text Warning = ''warning''"
| "cost_state_text Critical = ''critical''"
| "cost_state_text Exhausted = ''exhausted''"

definition unknown_pricing_message :: string where
  "unknown_pricing_message =
     ''COST BUDGET INACTIVE: model pricing is unknown for this run, so the cost cap '' @
     ''is not enforced. The cycle timeout still applies.''"

definition hard_limit_multiplier :: rat where
  "hard_limit_multiplier = 115 / 100"

definition roundUsd :: "rat \<Rightarrow> rat" where
  "roundUsd v = of_int \<lfloor>v * 10000 + 1 / 2\<rfloor> / 10000"

text \<open>How a template string prints a non-negative amount rounded to four places.\<close>

definition strip_zeros :: "string \<Rightarrow> string" where
  "strip_zeros s = rev (dropWhile (\<lambda>c. c = CHR ''0'') (rev s))"

definition show_usd :: "rat \<Rightarrow> string" where
  "show_usd v =
     (let n = nat \<lfloor>v * 10000\<rfloor>; whole = n div 10000; frac = n mod 10000
      in show_nat whole @
         (if frac = 0 then []
          else ''.'' @ strip_zeros (tl (show_nat (10000 + frac)))))"

definition budgetMessage :: "cost_state \<Rightarrow> rat \<Rightarrow> rat \<Rightarrow> string" where
  "budgetMessage state usedUsd budgetUsd =
     (let used = show_usd (roundUsd usedUsd);
          budget = show_usd (roundUsd budgetUsd);
          remaining = show_usd (roundUsd (max 0 (budgetUsd - usedUsd)))
      in case state of
           Info \<Rightarrow>
             ''COST BUDGET: $'' @ used @ '' of $'' @ budget @ '' used. Plan remaining work accordingly.''
         | Warning \<Rightarrow>
             ''COST BUDGET WARNING: $'' @ used @ ''/'' @ budget @ '' used (~$'' @ remaining @
             '' remaining). Save progress soon via task_update (summary + metadata with last_step, '' @
             ''files_changed, next_step). Prioritize completing the current step.''
         | Critical \<Rightarrow>
             ''COST BUDGET CRITICAL: $'' @ used @ ''/'' @ budget @ '' used (~$'' @ remaining @
             '' remaining). Save progress NOW via task_update with current summary, last_step, '' @
             ''files_changed, and next_step. Then wrap up or stop.''
         | Exhausted \<Rightarrow>
             ''COST BUDGET EXHAUSTED: $'' @ used @ ''/'' @ budget @ '' used. Wrap up now: save state '' @
             ''via task_update and finish only essential bookkeeping. The run will be '' @
             ''stopped if cost reaches the hard limit.'')"

record cost_budget =
  cb_run :: rehor_run
  cb_ledger :: usage_ledger
  cb_emitted :: "cost_state list"
  cb_unknownPricingNotified :: bool

definition new_cost_budget :: "rehor_run \<Rightarrow> cost_budget" where
  "new_cost_budget run =
     \<lparr>cb_run = run, cb_ledger = [], cb_emitted = [], cb_unknownPricingNotified = False\<rparr>"

definition threshold_state :: "jsnum \<Rightarrow> cost_state option" where
  "threshold_state ratio =
     (if js_ge ratio 1 then Some Exhausted
      else if js_ge ratio (9 / 10) then Some Critical
      else if js_ge ratio (3 / 4) then Some Warning
      else if js_ge ratio (1 / 2) then Some Info
      else None)"

definition cost_event :: "cost_budget \<Rightarrow> cost_state \<Rightarrow> string \<Rightarrow> cost_policy_event" where
  "cost_event b state message =
     \<lparr>cp_state = state,
      cp_label = rn_label (cb_run b),
      cp_usedUsd = roundUsd (totalCostUsd (cb_ledger b)),
      cp_budgetUsd = roundUsd (lm_budgetUsd (rn_limits (cb_run b))),
      cp_message = message\<rparr>"

definition budget_of :: "cost_budget \<Rightarrow> rat" where
  "budget_of b = lm_budgetUsd (rn_limits (cb_run b))"

definition cost_unknown :: "usage \<Rightarrow> bool" where
  "cost_unknown u \<longleftrightarrow> (case us_cost u of None \<Rightarrow> False | Some c \<Rightarrow> uc_source c = UnknownCost)"

definition cb_observe :: "cost_budget \<Rightarrow> usage \<Rightarrow> cost_budget \<times> cost_policy_event option" where
  "cb_observe b0 u =
     (let b = b0\<lparr>cb_ledger := ul_record u (cb_ledger b0)\<rparr>
      in if \<not> hasKnownCost (cb_ledger b)
         then (if \<not> cost_unknown u \<or> cb_unknownPricingNotified b then (b, None)
               else let b' = b\<lparr>cb_unknownPricingNotified := True\<rparr>
                    in (b', Some (cost_event b' Warning unknown_pricing_message)))
         else (case threshold_state (js_div (totalCostUsd (cb_ledger b)) (budget_of b)) of
                 None \<Rightarrow> (b, None)
               | Some state \<Rightarrow>
                   if state \<in> set (cb_emitted b) then (b, None)
                   else let b' = b\<lparr>cb_emitted := cb_emitted b @ [state]\<rparr>
                        in (b', Some (cost_event b' state
                              (budgetMessage state (totalCostUsd (cb_ledger b)) (budget_of b))))))"

definition hardLimitReached :: "cost_budget \<Rightarrow> bool" where
  "hardLimitReached b \<longleftrightarrow> budget_of b * hard_limit_multiplier \<le> totalCostUsd (cb_ledger b)"

text \<open>The usage events of one run in order: the final policy state and the notices sent.\<close>

fun cb_observe_all :: "cost_budget \<Rightarrow> usage list \<Rightarrow> cost_budget \<times> cost_policy_event list" where
  "cb_observe_all b [] = (b, [])"
| "cb_observe_all b (u # us) =
     (let (b1, notice) = cb_observe b u; (b2, notices) = cb_observe_all b1 us
      in (b2, (case notice of None \<Rightarrow> [] | Some n \<Rightarrow> [n]) @ notices))"

section \<open>Facts about the policy\<close>

definition budget_inv :: "cost_budget \<Rightarrow> bool" where
  "budget_inv b \<longleftrightarrow> ul_inv (cb_ledger b) \<and> distinct (cb_emitted b)"

lemma budget_inv_new [wf_intros]: "budget_inv (new_cost_budget run)"
  by (simp add: budget_inv_def new_cost_budget_def ul_inv_def)

lemma cb_observe_inv [wf_intros]: "budget_inv b \<Longrightarrow> budget_inv (fst (cb_observe b u))"
  by (auto simp: budget_inv_def cb_observe_def Let_def intro: wf_intros split: option.splits)

lemma cb_observe_frame [frame_simps]:
  "cb_run (fst (cb_observe b u)) = cb_run b"
  "cb_ledger (fst (cb_observe b u)) = ul_record u (cb_ledger b)"
  "budget_of (fst (cb_observe b u)) = budget_of b"
  by (auto simp: cb_observe_def Let_def budget_of_def split: option.splits)

lemma length_distinct_states: "distinct (xs :: cost_state list) \<Longrightarrow> length xs \<le> 4"
proof -
  assume d: "distinct xs"
  have "set xs \<subseteq> {Info, Warning, Critical, Exhausted}" using cost_state.exhaust by blast
  then have "card (set xs) \<le> card {Info, Warning, Critical, Exhausted}" by (intro card_mono) auto
  with d show ?thesis by (simp add: distinct_card)
qed

text \<open>Every notice is paid for by a new state or by the one-time flag.\<close>

definition notice_count :: "cost_budget \<Rightarrow> nat" where
  "notice_count b = length (cb_emitted b) + (if cb_unknownPricingNotified b then 1 else 0)"

lemma cb_observe_count:
  "notice_count (fst (cb_observe b u)) =
     notice_count b + (case snd (cb_observe b u) of None \<Rightarrow> 0 | Some _ \<Rightarrow> 1)"
  by (auto simp: notice_count_def cb_observe_def Let_def split: option.splits)

lemma cb_observe_all_count:
  "cb_observe_all b us = (b', ns) \<Longrightarrow> notice_count b' = notice_count b + length ns"
proof (induction us arbitrary: b b' ns)
  case (Cons u us)
  then show ?case
    using cb_observe_count [of b u] by (fastforce split: prod.splits option.splits)
qed simp

lemma cb_observe_all_inv: "cb_observe_all b us = (b', ns) \<Longrightarrow> budget_inv b \<Longrightarrow> budget_inv b'"
proof (induction us arbitrary: b b' ns)
  case (Cons u us)
  then show ?case
    using cb_observe_inv [of b u] by (fastforce split: prod.splits)
qed simp

lemma notice_count_bound: "budget_inv b \<Longrightarrow> notice_count b \<le> 5"
  using length_distinct_states [of "cb_emitted b"] by (simp add: notice_count_def budget_inv_def)

lemma js_ge_antimono: "js_ge r k \<Longrightarrow> k' \<le> k \<Longrightarrow> js_ge r k'"
  by (cases r) auto

lemma threshold_state_mono: "a \<le> b \<Longrightarrow> threshold_state (Fin a) \<le> threshold_state (Fin b)"
  by (auto simp: threshold_state_def less_eq_cost_state_def)

lemma hard_limit_ratio:
  assumes "0 < budget_of b" "hardLimitReached b"
  shows "threshold_state (js_div (totalCostUsd (cb_ledger b)) (budget_of b)) = Some Exhausted"
proof -
  from assms have "budget_of b \<le> totalCostUsd (cb_ledger b)"
    by (simp add: hardLimitReached_def hard_limit_multiplier_def)
  with assms(1) show ?thesis
    by (simp add: threshold_state_def js_div_def le_divide_eq)
qed

lemma hard_limit_known:
  assumes "budget_inv b" "0 < budget_of b" "hardLimitReached b"
  shows "hasKnownCost (cb_ledger b)"
proof (rule ccontr)
  assume "\<not> hasKnownCost (cb_ledger b)"
  with assms(1) have "totalCostUsd (cb_ledger b) = 0"
    by (auto simp: budget_inv_def intro: ledger_usage.total_zero_unless_known)
  with assms(2,3) show False
    by (simp add: hardLimitReached_def hard_limit_multiplier_def)
qed


lemma cb_observe_all_frame [frame_simps]:
  "cb_observe_all b us = (b', ns) \<Longrightarrow>
     cb_run b' = cb_run b \<and> cb_ledger b' = fold ul_record us (cb_ledger b) \<and> budget_of b' = budget_of b"
proof (induction us arbitrary: b b' ns)
  case (Cons u us)
  obtain b1 n1 where 1: "cb_observe b u = (b1, n1)" by fastforce
  obtain b2 ns2 where 2: "cb_observe_all b1 us = (b2, ns2)" by fastforce
  from Cons.prems 1 2 have "b' = b2" by simp
  with Cons.IH [OF 2] show ?case
    using cb_observe_frame [of b u] by (simp add: 1)
qed simp

lemma fold_ul_record:
  "map_of (fold ul_record us L) = fold spec_record us (map_of L) \<and> (ul_inv L \<longrightarrow> ul_inv (fold ul_record us L))"
  by (induction us arbitrary: L) (simp_all add: map_of_ul_record ul_inv_record)

lemma cb_observe_exhausted:
  assumes "budget_inv b" "0 < budget_of b" "hardLimitReached (fst (cb_observe b u))"
  shows "Exhausted \<in> set (cb_emitted (fst (cb_observe b u)))"
proof -
  let ?b = "fst (cb_observe b u)"
  let ?L = "ul_record u (cb_ledger b)"
  from assms(1) have inv: "budget_inv ?b" by (rule cb_observe_inv)
  have bud: "0 < budget_of ?b" using assms(2) by (simp add: frame_simps)
  have known: "hasKnownCost ?L"
    using hard_limit_known [OF inv bud assms(3)] by (simp add: frame_simps)
  have "threshold_state (js_div (totalCostUsd ?L) (budget_of b)) = Some Exhausted"
    using hard_limit_ratio [OF bud assms(3)] by (simp add: frame_simps)
  with known show ?thesis
    by (auto simp: cb_observe_def Let_def budget_of_def)
qed

lemma cb_observe_emitted_mono: "set (cb_emitted b) \<subseteq> set (cb_emitted (fst (cb_observe b u)))"
  by (auto simp: cb_observe_def Let_def split: option.splits)

text \<open>Every recorded state has a notice that says so.\<close>

lemma cb_observe_all_emitted:
  "cb_observe_all b us = (b', ns) \<Longrightarrow>
     set (cb_emitted b') \<subseteq> set (cb_emitted b) \<union> set (map cp_state ns)"
proof (induction us arbitrary: b b' ns)
  case (Cons u us)
  obtain b1 n1 where 1: "cb_observe b u = (b1, n1)" by fastforce
  obtain b2 ns2 where 2: "cb_observe_all b1 us = (b2, ns2)" by fastforce
  have "set (cb_emitted b1) \<subseteq> set (cb_emitted b) \<union> (case n1 of None \<Rightarrow> {} | Some n \<Rightarrow> {cp_state n})"
    using 1 by (auto simp: cb_observe_def cost_event_def Let_def split: option.splits if_splits)
  with Cons.IH [OF 2] Cons.prems 1 2 show ?case by (fastforce split: option.splits)
qed simp

lemma cb_observe_all_exhausted:
  "budget_inv b \<Longrightarrow> 0 < budget_of b \<Longrightarrow>
     hardLimitReached b \<longrightarrow> Exhausted \<in> set (cb_emitted b) \<Longrightarrow>
     cb_observe_all b us = (b', ns) \<Longrightarrow> hardLimitReached b' \<longrightarrow> Exhausted \<in> set (cb_emitted b')"
proof (induction us arbitrary: b b' ns)
  case (Cons u us)
  obtain b1 n1 where 1: "cb_observe b u = (b1, n1)" by fastforce
  obtain b2 ns2 where 2: "cb_observe_all b1 us = (b2, ns2)" by fastforce
  have b1: "b1 = fst (cb_observe b u)" by (simp add: 1)
  from Cons.prems(4) 1 2 have "b' = b2" by simp
  moreover have "budget_inv b1" "0 < budget_of b1"
    using Cons.prems(1,2) by (simp_all add: b1 cb_observe_inv frame_simps)
  moreover have "hardLimitReached b1 \<longrightarrow> Exhausted \<in> set (cb_emitted b1)"
    using cb_observe_exhausted [OF Cons.prems(1,2)] by (simp add: b1)
  ultimately show ?case using Cons.IH [OF _ _ _ 2] by blast
qed simp

lemma not_hard_new [simp]: "0 < budget_of b \<Longrightarrow> cb_ledger b = [] \<Longrightarrow> \<not> hardLimitReached b"
  by (simp add: hardLimitReached_def totalCostUsd_def hard_limit_multiplier_def)

lemma new_budget_simps [simp]:
  "cb_ledger (new_cost_budget run) = []" "cb_emitted (new_cost_budget run) = []"
  "cb_unknownPricingNotified (new_cost_budget run) = False" "cb_run (new_cost_budget run) = run"
  "budget_of (new_cost_budget run) = lm_budgetUsd (rn_limits run)"
  by (simp_all add: new_cost_budget_def budget_of_def)

section \<open>Properties\<close>


text \<open>
  C19. The budget policy sends at most five notices over a whole run, and no threshold state
  twice, for every stream of usage snapshots.
\<close>

theorem cost_notices_bounded:
  "let (b, notices) = cb_observe_all (new_cost_budget run) us
   in length notices \<le> 5 \<and> distinct (cb_emitted b)"
proof -
  obtain b ns where b: "cb_observe_all (new_cost_budget run) us = (b, ns)" by fastforce
  have inv: "budget_inv b" by (rule cb_observe_all_inv [OF b budget_inv_new])
  have "notice_count b = length ns"
    using cb_observe_all_count [OF b] by (simp add: notice_count_def)
  with notice_count_bound [OF inv] inv show ?thesis by (simp add: b budget_inv_def)
qed

text \<open>
  A run with a positive budget is stopped at the hard limit only when the known cost of the
  recorded snapshots is at least 115 percent of the budget, and by then a notice with the state
  exhausted has been sent; a run whose pricing is never known is never stopped for cost.
\<close>

theorem hard_limit_after_notice:
  assumes "0 < lm_budgetUsd (rn_limits run)"
    and "cb_observe_all (new_cost_budget run) us = (b, notices)"
  shows "(hardLimitReached b \<longleftrightarrow> lm_budgetUsd (rn_limits run) * 115 / 100 \<le> totalCostUsd (cb_ledger b)) \<and>
    (hardLimitReached b \<longrightarrow> Exhausted \<in> set (map cp_state notices) \<and> hasKnownCost (cb_ledger b))"
proof -
  have bud: "budget_of b = lm_budgetUsd (rn_limits run)" using cb_observe_all_frame [OF assms(2)] by simp
  have inv: "budget_inv b" by (rule cb_observe_all_inv [OF assms(2) budget_inv_new])
  have "hardLimitReached b \<longrightarrow> Exhausted \<in> set (cb_emitted b)"
    by (rule cb_observe_all_exhausted [OF budget_inv_new _ _ assms(2)]) (simp_all add: assms(1))
  moreover have "set (cb_emitted b) \<subseteq> set (map cp_state notices)"
    using cb_observe_all_emitted [OF assms(2)] by simp
  moreover have "hardLimitReached b \<longrightarrow> hasKnownCost (cb_ledger b)"
    using hard_limit_known [OF inv] assms(1) bud by simp
  ultimately show ?thesis
    by (auto simp: hardLimitReached_def bud hard_limit_multiplier_def)
qed

definition sample_usage :: "string \<Rightarrow> bool \<Rightarrow> rat \<Rightarrow> usage" where
  "sample_usage model fin amount =
     \<lparr>us_requestedModel = model, us_returnedModel = None, us_modelKey = None,
      us_tokenCounts = token_counts_of [], us_partial = \<not> fin, us_final = fin, us_estimated = False,
      us_incomplete = False,
      us_cost = Some \<lparr>uc_amount = amount, uc_currency = ''USD'', uc_source = ProviderCost, uc_pricing = None\<rparr>\<rparr>"

theorem hard_limit_after_notice_witness:
  "\<exists>b notices. cb_observe_all (new_cost_budget sample_run) [sample_usage ''a'' True 12] = (b, notices) \<and>
     hardLimitReached b \<and> Exhausted \<in> set (map cp_state notices)"
proof -
  obtain b ns where b: "cb_observe_all (new_cost_budget sample_run) [sample_usage ''a'' True 12] = (b, ns)"
    by fastforce
  have "0 < lm_budgetUsd (rn_limits sample_run)" by (simp add: sample_run_def)
  note p = hard_limit_after_notice [OF this b]
  have "totalCostUsd (cb_ledger b) = 12"
    using cb_observe_all_frame [OF b]
    by (simp add: ul_record_def overrides_previous_def totalCostUsd_def known_amount_def sample_usage_def)
  with p b show ?thesis by (auto simp: sample_run_def)
qed

text \<open>
  A final snapshot of a runtime without provider-qualified keys is never displaced by a later
  partial snapshot of the same model, so its cost stays in the total.
\<close>

theorem final_snapshot_kept:
  assumes "map_of (cb_ledger b) k = Some p" "us_final p" "budget_inv b"
    and "usage_key u = k" "us_modelKey u = None" "\<not> us_final u"
  shows "map_of (cb_ledger (fst (cb_observe b u))) = map_of (cb_ledger b) \<and>
    totalCostUsd (cb_ledger (fst (cb_observe b u))) = totalCostUsd (cb_ledger b)"
proof -
  from assms(3) have inv: "ul_inv (cb_ledger b)" by (simp add: budget_inv_def)
  have view: "map_of (ul_record u (cb_ledger b)) = map_of (cb_ledger b)"
    using inv assms(1,2,4-6) by (rule ledger_usage.final_kept)
  show ?thesis
    using ledger_usage.total_view [OF inv] ledger_usage.total_view [OF ul_inv_record [OF inv]]
    by (simp add: frame_simps view)
qed

theorem final_snapshot_kept_witness:
  "totalCostUsd (cb_ledger (fst (cb_observe
     (fst (cb_observe (new_cost_budget sample_run) (sample_usage ''a'' True 7))) (sample_usage ''a'' False 2)))) = 7"
proof -
  let ?b = "fst (cb_observe (new_cost_budget sample_run) (sample_usage ''a'' True 7))"
  have L: "cb_ledger ?b = [(''a'', sample_usage ''a'' True 7)]"
    by (simp add: frame_simps ul_record_def usage_key_def overrides_previous_def sample_usage_def)
  have "totalCostUsd (cb_ledger (fst (cb_observe ?b (sample_usage ''a'' False 2)))) = totalCostUsd (cb_ledger ?b)"
    using final_snapshot_kept [where b = ?b and k = "''a''" and p = "sample_usage ''a'' True 7"
        and u = "sample_usage ''a'' False 2"] cb_observe_inv [OF budget_inv_new]
    by (simp add: L) (simp add: usage_key_def sample_usage_def)
  also have "totalCostUsd (cb_ledger ?b) = 7"
    unfolding L by (simp add: totalCostUsd_def known_amount_def sample_usage_def)
  finally show ?thesis .
qed

end
