(* ===== verification/Js_Text.thy ===== *)
theory Js_Text
  imports Prelude
begin

text \<open>
  The two text readers of the JavaScript standard library that the sources call: \<open>JSON.parse\<close>
  and \<open>Number(text)\<close>. \<open>None\<close> is the thrown \<open>SyntaxError\<close>. A decimal literal is read exactly;
  beyond the double range it reads as infinity. An escaped code unit above 255 reads as a
  question mark, because the strings of the model hold codes below 256.
\<close>

section \<open>Digits and decimals\<close>

definition hex_val :: "char \<Rightarrow> nat option" where
  "hex_val c =
     (let n = (of_char c :: nat)
      in if 48 \<le> n \<and> n \<le> 57 then Some (n - 48)
         else if 97 \<le> n \<and> n \<le> 102 then Some (n - 87)
         else if 65 \<le> n \<and> n \<le> 70 then Some (n - 55)
         else None)"

fun hex4 :: "string \<Rightarrow> (nat \<times> string) option" where
  "hex4 (a # b # c # d # rest) =
     (case (hex_val a, hex_val b, hex_val c, hex_val d) of
        (Some x, Some y, Some z, Some w) \<Rightarrow> Some (((x * 16 + y) * 16 + z) * 16 + w, rest)
      | _ \<Rightarrow> None)"
| "hex4 _ = None"

definition span_digits :: "string \<Rightarrow> string \<times> string" where
  "span_digits s = (takeWhile is_digit s, dropWhile is_digit s)"

definition power10 :: "int \<Rightarrow> rat" where
  "power10 e = (if 0 \<le> e then 10 ^ nat e else 1 / 10 ^ nat (- e))"

definition decimal :: "string \<Rightarrow> string \<Rightarrow> int \<Rightarrow> rat" where
  "decimal whole fr e = of_nat (digits_val (whole @ fr)) * power10 (e - int (length fr))"

text \<open>The exponent part: absent, or \<open>e\<close> with an optional sign and at least one digit.\<close>

definition read_exponent :: "string \<Rightarrow> (int \<times> string) option" where
  "read_exponent s =
     (case s of
        [] \<Rightarrow> Some (0, s)
      | c # cs \<Rightarrow>
          if c = CHR ''e'' \<or> c = CHR ''E''
          then (let neg = (cs \<noteq> [] \<and> hd cs = CHR ''-'');
                    cs' = (if cs \<noteq> [] \<and> (hd cs = CHR ''-'' \<or> hd cs = CHR ''+'') then tl cs else cs);
                    (ds, rest) = span_digits cs'
                in if ds = [] then None
                   else Some (if neg then - int (digits_val ds) else int (digits_val ds), rest))
          else Some (0, s))"

lemma read_exponent_length: "read_exponent s = Some (e, rest) \<Longrightarrow> length rest \<le> length s"
proof (cases s)
  case (Cons c cs)
  assume r: "read_exponent s = Some (e, rest)"
  have "length (dropWhile is_digit xs) \<le> length xs" for xs
    by (rule length_dropWhile_le)
  with r Cons show ?thesis
    by (auto simp: read_exponent_def span_digits_def Let_def split: if_splits
        intro: order_trans [OF length_dropWhile_le] le_SucI)
qed (simp add: read_exponent_def)

section \<open>JSON.parse\<close>

definition json_space :: "char \<Rightarrow> bool" where
  "json_space c = (let n = (of_char c :: nat) in n \<in> {9, 10, 13, 32})"

definition skip_ws :: "string \<Rightarrow> string" where
  "skip_ws s = dropWhile json_space s"

fun json_escape :: "char \<Rightarrow> char option" where
  "json_escape c =
     (if c = CHR 0x22 \<or> c = CHR 0x5C \<or> c = CHR ''/'' then Some c
      else if c = CHR ''b'' then Some (CHR 8)
      else if c = CHR ''f'' then Some (CHR 12)
      else if c = CHR ''n'' then Some (CHR 10)
      else if c = CHR ''r'' then Some (CHR 13)
      else if c = CHR ''t'' then Some (CHR 9)
      else None)"

text \<open>One character of a string, escapes included; an unescaped control character is an error.\<close>

definition read_char :: "string \<Rightarrow> (char \<times> string) option" where
  "read_char s =
     (case s of
        [] \<Rightarrow> None
      | c # cs \<Rightarrow>
          if c = CHR 0x5C then
            (case cs of
               [] \<Rightarrow> None
             | x # xs \<Rightarrow>
                 if x = CHR ''u''
                 then map_option (\<lambda>(n, rest). (if n < 256 then char_of n else CHR ''?'', rest)) (hex4 xs)
                 else map_option (\<lambda>c'. (c', xs)) (json_escape x))
          else if (of_char c :: nat) < 32 then None
          else Some (c, cs))"

lemma hex4_length: "hex4 s = Some (n, rest) \<Longrightarrow> length rest < length s"
  by (cases s rule: hex4.cases) (auto split: option.splits)

lemma read_char_length: "read_char s = Some (c, rest) \<Longrightarrow> length rest < length s"
  by (auto simp: read_char_def simp del: json_escape.simps dest: hex4_length
      split: list.splits if_splits)

text \<open>A string after its opening quote.\<close>

function read_string :: "string \<Rightarrow> string \<Rightarrow> (string \<times> string) option" where
  "read_string acc s =
     (case s of
        [] \<Rightarrow> None
      | c # cs \<Rightarrow>
          if c = CHR 0x22 then Some (rev acc, cs)
          else (case read_char s of
                  None \<Rightarrow> None
                | Some (c', rest) \<Rightarrow> read_string (c' # acc) rest))"
  by pat_completeness auto
termination
  by (relation "measure (\<lambda>(acc, s). length s)") (auto dest: read_char_length)

declare read_string.simps [simp del]

lemma read_string_length: "read_string acc s = Some (t, rest) \<Longrightarrow> length rest < length s"
proof (induction acc s rule: read_string.induct)
  case (1 acc s)
  show ?case
  proof (cases s)
    case Nil
    with 1(2) show ?thesis by (simp add: read_string.simps)
  next
    case (Cons c cs)
    with 1(2) consider "cs = rest"
      | c' r where "c \<noteq> CHR 0x22" "read_char s = Some (c', r)" "read_string (c' # acc) r = Some (t, rest)"
      by (subst (asm) read_string.simps) (auto split: if_splits option.splits)
    then show ?thesis
    proof cases
      case 1
      with Cons show ?thesis by simp
    next
      case (2 c' r)
      with 1(1) [OF Cons] have "length rest < length r" by blast
      with read_char_length [OF 2(2)] show ?thesis by simp
    qed
  qed
qed

text \<open>A number: its sign, its whole digits without a leading zero, fraction and exponent.\<close>

definition read_number :: "string \<Rightarrow> (jsnum \<times> string) option" where
  "read_number s =
     (let neg = (s \<noteq> [] \<and> hd s = CHR ''-'');
          s1 = (if neg then tl s else s);
          (whole, s2) = span_digits s1
      in if whole = [] \<or> (1 < length whole \<and> hd whole = CHR ''0'') then None
         else (let dot = (s2 \<noteq> [] \<and> hd s2 = CHR ''.'');
                   (fr, s3) = (if dot then span_digits (tl s2) else ([], s2))
               in if dot \<and> fr = [] then None
                  else (case read_exponent s3 of
                          None \<Rightarrow> None
                        | Some (e, rest) \<Rightarrow>
                            Some (to_double ((if neg then -1 else 1) * decimal whole fr e), rest))))"

lemma span_digits_length: "span_digits s = (ds, rest) \<Longrightarrow> length s = length ds + length rest"
  unfolding span_digits_def
  by (metis Pair_inject length_append takeWhile_dropWhile_id)

lemma read_number_length: "read_number s = Some (n, rest) \<Longrightarrow> length rest < length s"
proof -
  assume r: "read_number s = Some (n, rest)"
  define s1 where "s1 = (if s \<noteq> [] \<and> hd s = CHR ''-'' then tl s else s)"
  obtain whole s2 where w: "span_digits s1 = (whole, s2)" by (cases "span_digits s1")
  define dot where "dot = (s2 \<noteq> [] \<and> hd s2 = CHR ''.'')"
  obtain fr s3 where f: "(if dot then span_digits (tl s2) else ([], s2)) = (fr, s3)"
    by (cases "if dot then span_digits (tl s2) else ([], s2)")
  from r have "whole \<noteq> []" and "\<exists>e. read_exponent s3 = Some (e, rest)"
    by (auto simp: read_number_def s1_def [symmetric] w dot_def [symmetric] f Let_def
        split: if_splits option.splits)
  moreover from f have "length s3 \<le> length s2"
    using span_digits_length [of "tl s2" fr s3] by (auto split: if_splits)
  moreover have "length s1 \<le> length s" by (simp add: s1_def)
  ultimately show ?thesis
    using span_digits_length [OF w] read_exponent_length [of s3 _ rest]
    by (cases whole) fastforce+
qed

fun parse_value :: "nat \<Rightarrow> string \<Rightarrow> (jsval \<times> string) option"
  and parse_elems :: "nat \<Rightarrow> jsval list \<Rightarrow> string \<Rightarrow> (jsval \<times> string) option"
  and parse_members :: "nat \<Rightarrow> obj \<Rightarrow> string \<Rightarrow> (jsval \<times> string) option" where
  "parse_value 0 s = None"
| "parse_value (Suc f) s =
     (let s = skip_ws s
      in case s of
           [] \<Rightarrow> None
         | c # cs \<Rightarrow>
             if c = CHR ''{''
             then (case skip_ws cs of
                     [] \<Rightarrow> None
                   | d # ds \<Rightarrow> if d = CHR ''}'' then Some (JObj [], ds) else parse_members f [] (d # ds))
             else if c = CHR ''[''
             then (case skip_ws cs of
                     [] \<Rightarrow> None
                   | d # ds \<Rightarrow> if d = CHR '']'' then Some (JArr [], ds) else parse_elems f [] (d # ds))
             else if c = CHR 0x22
             then (case read_string [] cs of None \<Rightarrow> None | Some (t, rest) \<Rightarrow> Some (JStr t, rest))
             else if prefix ''true'' s then Some (JBool True, drop 4 s)
             else if prefix ''false'' s then Some (JBool False, drop 5 s)
             else if prefix ''null'' s then Some (JNull, drop 4 s)
             else (case read_number s of None \<Rightarrow> None | Some (n, rest) \<Rightarrow> Some (JNum n, rest)))"
| "parse_elems 0 acc s = None"
| "parse_elems (Suc f) acc s =
     (case parse_value f s of
        None \<Rightarrow> None
      | Some (v, r) \<Rightarrow>
          (case skip_ws r of
             [] \<Rightarrow> None
           | c # cs \<Rightarrow>
               if c = CHR '','' then parse_elems f (acc @ [v]) cs
               else if c = CHR '']'' then Some (JArr (acc @ [v]), cs)
               else None))"
| "parse_members 0 ob s = None"
| "parse_members (Suc f) ob s =
     (case skip_ws s of
        [] \<Rightarrow> None
      | q # qs \<Rightarrow>
          if q \<noteq> CHR 0x22 then None
          else (case read_string [] qs of
                  None \<Rightarrow> None
                | Some (k, r) \<Rightarrow>
                    (case skip_ws r of
                       [] \<Rightarrow> None
                     | c # cs \<Rightarrow>
                         if c \<noteq> CHR '':'' then None
                         else (case parse_value f cs of
                                 None \<Rightarrow> None
                               | Some (v, r') \<Rightarrow>
                                   (case skip_ws r' of
                                      [] \<Rightarrow> None
                                    | d # ds \<Rightarrow>
                                        if d = CHR '','' then parse_members f (obj_set k v ob) ds
                                        else if d = CHR ''}'' then Some (JObj (obj_set k v ob), ds)
                                        else None)))))"

definition json_parse :: "string \<Rightarrow> jsval option" where
  "json_parse s =
     (case parse_value (2 * length s + 1) s of
        None \<Rightarrow> None
      | Some (v, rest) \<Rightarrow> if skip_ws rest = [] then Some v else None)"

section \<open>The fuel of the parser is enough\<close>

lemma skip_ws_length: "length (skip_ws s) \<le> length s"
  by (simp add: skip_ws_def length_dropWhile_le)

lemma skip_ws_Cons: "skip_ws s = c # cs \<Longrightarrow> length cs < length s"
  using skip_ws_length [of s] by simp

lemma literal_length:
  assumes "(if a then Some (x, drop 4 s) else if b then Some (y, drop 5 s)
            else if c then Some (z, drop 4 s) else num) = Some (v, r)"
    and "s \<noteq> []" and "num = Some (v, r) \<Longrightarrow> length r < length s"
  shows "length r < length s"
proof -
  have "r = drop 4 s \<or> r = drop 5 s \<or> num = Some (v, r)"
    using assms(1) by (cases a; cases b; cases c) simp_all
  moreover have "length (drop k s) < length s" if "0 < k" for k
    using assms(2) that by (cases s) simp_all
  ultimately show ?thesis
    using assms(3) by fastforce
qed

text \<open>One unfolding of each reader, as the cases a successful read comes from.\<close>

lemma parse_value_cases:
  assumes "parse_value (Suc f) s = Some (v, r)"
  obtains (obj) ds where "length ds < length s" "v = JObj []" "r = ds"
  | (members) ds where "length ds < length s" "parse_members f [] ds = Some (v, r)"
  | (arr) ds where "length ds < length s" "v = JArr []" "r = ds"
  | (elems) ds where "length ds < length s" "parse_elems f [] ds = Some (v, r)"
  | (leaf) "length r < length s"
proof (cases "skip_ws s")
  case Nil
  with assms show thesis by simp
next
  case (Cons c cs)
  note cs = Cons skip_ws_Cons [OF Cons] skip_ws_length [of s]
  have sub: "length (d # ds) < length s" if "skip_ws cs = d # ds" for d ds
    using that cs(2) skip_ws_length [of cs] by simp
  have sub': "length ds < length s" if "skip_ws cs = d # ds" for d ds
    using sub [OF that] by simp
  consider "c = CHR ''{''" | "c = CHR ''[''" | "c = CHR 0x22"
    | "c \<noteq> CHR ''{''" "c \<noteq> CHR ''[''" "c \<noteq> CHR 0x22" by blast
  then show thesis
  proof cases
    case 1
    with assms cs(1) show thesis
      by (cases "skip_ws cs") (auto split: if_splits dest: sub' sub intro: obj members)
  next
    case 2
    with assms cs(1) show thesis
      by (cases "skip_ws cs") (auto split: if_splits dest: sub' sub intro: arr elems)
  next
    case 3
    with assms cs show thesis
      by (intro leaf) (auto split: option.splits dest: read_string_length)
  next
    case 4
    have "length r < length (c # cs)"
    proof (rule literal_length)
      show "(if prefix ''true'' (c # cs) then Some (JBool True, drop 4 (c # cs))
          else if prefix ''false'' (c # cs) then Some (JBool False, drop 5 (c # cs))
          else if prefix ''null'' (c # cs) then Some (JNull, drop 4 (c # cs))
          else (case read_number (c # cs) of None \<Rightarrow> None | Some (n, rest) \<Rightarrow> Some (JNum n, rest)))
        = Some (v, r)"
        using assms unfolding parse_value.simps cs(1) Let_def list.case 4 [THEN if_not_P] .
    qed (auto dest: read_number_length split: option.splits)
    with cs show thesis by (intro leaf) simp
  qed
qed

lemma parse_elems_cases:
  assumes "parse_elems (Suc f) acc s = Some (v, r)"
  obtains w r' c cs where "parse_value f s = Some (w, r')" "skip_ws r' = c # cs"
    "parse_elems f (acc @ [w]) cs = Some (v, r) \<or> cs = r"
  using assms by (auto split: option.splits list.splits if_splits)

lemma parse_members_cases:
  assumes "parse_members (Suc f) ob s = Some (v, r)"
  obtains q qs k r1 c cs w r2 d ds where
    "skip_ws s = q # qs" "read_string [] qs = Some (k, r1)" "skip_ws r1 = c # cs"
    "parse_value f cs = Some (w, r2)" "skip_ws r2 = d # ds"
    "parse_members f (obj_set k w ob) ds = Some (v, r) \<or> ds = r"
  using assms by (auto split: option.splits list.splits if_splits)

lemma parse_consumes:
  "parse_value f s = Some (v, r) \<Longrightarrow> length r < length s"
  "parse_elems f acc s = Some (v, r) \<Longrightarrow> length r < length s"
  "parse_members f ob s = Some (v, r) \<Longrightarrow> length r < length s"
proof (induction f arbitrary: s v r acc ob)
  case 0
  {
    case 1
    then show ?case by simp
  next
    case 2
    then show ?case by simp
  next
    case 3
    then show ?case by simp
  }
next
  case (Suc f)
  {
    case 1
    then show ?case
      by (cases rule: parse_value_cases) (auto dest: Suc.IH(2,3))
  next
    case 2
    then obtain w r' c cs where *: "parse_value f s = Some (w, r')" "skip_ws r' = c # cs"
      "parse_elems f (acc @ [w]) cs = Some (v, r) \<or> cs = r"
      by (rule parse_elems_cases)
    from Suc.IH(1) [OF *(1)] skip_ws_Cons [OF *(2)] *(3) Suc.IH(2) show ?case
      by fastforce
  next
    case 3
    then obtain q qs k r1 c cs w r2 d ds where *:
      "skip_ws s = q # qs" "read_string [] qs = Some (k, r1)" "skip_ws r1 = c # cs"
      "parse_value f cs = Some (w, r2)" "skip_ws r2 = d # ds"
      "parse_members f (obj_set k w ob) ds = Some (v, r) \<or> ds = r"
      by (rule parse_members_cases)
    from *(6) have "length r \<le> length ds"
      using Suc.IH(3) by fastforce
    with skip_ws_Cons [OF *(1)] read_string_length [OF *(2)] skip_ws_Cons [OF *(3)]
      Suc.IH(1) [OF *(4)] skip_ws_Cons [OF *(5)]
    show ?case by linarith
  }
qed

text \<open>More fuel than twice the length of the text changes nothing.\<close>

lemma parse_fuel:
  "2 * length s < f \<Longrightarrow> parse_value (Suc f) s = parse_value f s"
  "2 * length s + 1 < f \<Longrightarrow> parse_elems (Suc f) acc s = parse_elems f acc s"
  "2 * length s + 1 < f \<Longrightarrow> parse_members (Suc f) ob s = parse_members f ob s"
proof (induction f arbitrary: s acc ob)
  case 0
  {
    case 1
    then show ?case by simp
  next
    case 2
    then show ?case by simp
  next
    case 3
    then show ?case by simp
  }
next
  case (Suc f)
  {
    case 1
    show ?case
    proof (cases "skip_ws s")
      case Nil
      then show ?thesis by simp
    next
      case (Cons c cs)
      have "2 * length (d # ds) + 1 < f" if "skip_ws cs = d # ds" for d ds
        using that 1 skip_ws_Cons [OF Cons] skip_ws_length [of cs] by simp
      then have eqs: "parse_elems (Suc f) [] (d # ds) = parse_elems f [] (d # ds)"
        "parse_members (Suc f) [] (d # ds) = parse_members f [] (d # ds)" if "skip_ws cs = d # ds" for d ds
        using that Suc.IH(2,3) by blast+
      show ?thesis
      proof (cases "skip_ws cs")
        case n: Nil
        show ?thesis unfolding parse_value.simps(2) Cons Let_def n list.case by (rule refl)
      next
        case ds: (Cons d ds)
        show ?thesis
          unfolding parse_value.simps(2) Cons Let_def ds list.case eqs [OF ds] by (rule refl)
      qed
    qed
  next
    case 2
    have v: "parse_value (Suc f) s = parse_value f s" using Suc.IH(1) 2 by simp
    show ?case
    proof (cases "parse_value f s")
      case None
      with v show ?thesis by simp
    next
      case (Some p)
      obtain w r where p: "p = (w, r)" by (cases p)
      have elems: "parse_elems (Suc f) acc' cs = parse_elems f acc' cs" if "skip_ws r = c # cs" for c cs acc'
        using that 2 parse_consumes(1) [of f s w r] Some p skip_ws_Cons [OF that] Suc.IH(2)
        by simp
      show ?thesis
      proof (cases "skip_ws r")
        case n: Nil
        show ?thesis
          unfolding parse_elems.simps(2) [of "Suc f" acc s] parse_elems.simps(2) [of f acc s]
            v Some p option.case prod.case n list.case
          by (rule refl)
      next
        case c: (Cons c cs)
        show ?thesis
          unfolding parse_elems.simps(2) [of "Suc f" acc s] parse_elems.simps(2) [of f acc s]
            v Some p option.case prod.case c list.case elems [OF c]
          by (rule refl)
      qed
    qed
  next
    case 3
    show ?case
    proof (cases "skip_ws s")
      case Nil
      then show ?thesis by simp
    next
      case s: (Cons q qs)
      show ?thesis
      proof (cases "read_string [] qs")
        case n: None
        show ?thesis
          unfolding parse_members.simps(2) [of "Suc f" ob s] parse_members.simps(2) [of f ob s]
            s list.case n option.case
          by (rule refl)
      next
        case k: (Some kr)
        obtain k r where kr: "kr = (k, r)" by (cases kr)
        have shorter: "length r < length s"
          using skip_ws_Cons [OF s] read_string_length [OF k [unfolded kr]] by simp
        show ?thesis
        proof (cases "skip_ws r")
          case n: Nil
          show ?thesis
            unfolding parse_members.simps(2) [of "Suc f" ob s] parse_members.simps(2) [of f ob s]
              s list.case k kr option.case prod.case n
            by (rule refl)
        next
          case c: (Cons c cs)
          have v: "parse_value (Suc f) cs = parse_value f cs"
            using Suc.IH(1) 3 shorter skip_ws_Cons [OF c] by simp
          have members: "parse_members (Suc f) ob' ds = parse_members f ob' ds"
            if "parse_value f cs = Some (w, r')" "skip_ws r' = d # ds" for w r' d ds ob'
            using that 3 shorter skip_ws_Cons [OF c] parse_consumes(1) [OF that(1)]
              skip_ws_Cons [OF that(2)] Suc.IH(3)
            by simp
          have "(case parse_value f cs of None \<Rightarrow> None
              | Some (w, r') \<Rightarrow> (case skip_ws r' of [] \<Rightarrow> None
                  | d # ds \<Rightarrow> if d = CHR '','' then parse_members (Suc f) (obj_set k w ob) ds
                      else if d = CHR ''}'' then Some (JObj (obj_set k w ob), ds) else None))
            = (case parse_value f cs of None \<Rightarrow> None
              | Some (w, r') \<Rightarrow> (case skip_ws r' of [] \<Rightarrow> None
                  | d # ds \<Rightarrow> if d = CHR '','' then parse_members f (obj_set k w ob) ds
                      else if d = CHR ''}'' then Some (JObj (obj_set k w ob), ds) else None))"
            by (simp add: members del: parse_members.simps parse_value.simps
                split: option.split list.split)
          then show ?thesis
            unfolding parse_members.simps(2) [of "Suc f" ob s] parse_members.simps(2) [of f ob s]
              s list.case k kr option.case prod.case c v
            by (simp only:)
        qed
      qed
    qed
  }
qed

lemma json_parse_fuel: "2 * length s < f \<Longrightarrow> parse_value f s = parse_value (2 * length s + 1) s"
proof (induction f)
  case (Suc f)
  then show ?case
    by (cases "2 * length s < f") (auto simp: parse_fuel(1) not_less le_less simp del: parse_value.simps)
qed simp

section \<open>Number(text)\<close>

definition read_radix :: "nat \<Rightarrow> string \<Rightarrow> nat option" where
  "read_radix radix s =
     (if s = [] \<or> (\<exists>c \<in> set s. hex_val c = None \<or> radix \<le> the (hex_val c)) then None
      else Some (foldl (\<lambda>n c. radix * n + the (hex_val c)) 0 s))"

text \<open>A decimal literal without its sign, read to the end of the text.\<close>

definition read_decimal :: "string \<Rightarrow> rat option" where
  "read_decimal s =
     (let (whole, s2) = span_digits s;
          dot = (s2 \<noteq> [] \<and> hd s2 = CHR ''.'');
          (fr, s3) = (if dot then span_digits (tl s2) else ([], s2))
      in if whole = [] \<and> fr = [] then None
         else (case read_exponent s3 of
                 Some (e, []) \<Rightarrow> Some (decimal whole fr e)
               | _ \<Rightarrow> None))"

definition radix_prefix :: "string \<Rightarrow> nat option" where
  "radix_prefix s =
     (if prefix ''0x'' s \<or> prefix ''0X'' s then Some 16
      else if prefix ''0o'' s \<or> prefix ''0O'' s then Some 8
      else if prefix ''0b'' s \<or> prefix ''0B'' s then Some 2
      else None)"

definition js_Number :: "string \<Rightarrow> jsnum" where
  "js_Number text =
     (let s = trim text
      in if s = [] then Fin 0
         else (case radix_prefix s of
                 Some radix \<Rightarrow>
                   (case read_radix radix (drop 2 s) of
                      None \<Rightarrow> NaN
                    | Some n \<Rightarrow> to_double (of_nat n))
               | None \<Rightarrow>
                   (let neg = (hd s = CHR ''-'');
                        body = (if hd s = CHR ''-'' \<or> hd s = CHR ''+'' then tl s else s)
                    in if body = ''Infinity'' then (if neg then NegInf else PosInf)
                       else (case read_decimal body of
                               None \<Rightarrow> NaN
                             | Some r \<Rightarrow> to_double (if neg then - r else r)))))"

section \<open>Evaluating the readers by simplification\<close>

lemma to_double_moderate: "abs r \<le> 1000000000000000 \<Longrightarrow> to_double r = Fin r"
proof -
  have "(1000000000000000 :: rat) < 2 ^ 1023" by simp
  moreover have "(2::rat) ^ 1023 \<le> overflow_bound" by (simp add: overflow_bound_def)
  ultimately show "abs r \<le> 1000000000000000 \<Longrightarrow> to_double r = Fin r" by (intro to_double_small) linarith
qed

lemmas parse_numeral =
  parse_value.simps(2) [where f = "pred_numeral k" for k, folded numeral_eq_Suc]
  parse_elems.simps(2) [where f = "pred_numeral k" for k, folded numeral_eq_Suc]
  parse_members.simps(2) [where f = "pred_numeral k" for k, folded numeral_eq_Suc]

lemmas json_eval = json_parse_def skip_ws_def json_space_def read_string.simps read_char_def
  read_number_def span_digits_def is_digit_def digits_val_def digit_val_def decimal_def power10_def
  read_exponent_def to_double_moderate parse_numeral

end
