(* ===== verification/Work_Context.thy ===== *)
theory Work_Context
  imports Event_Ledger Js_Text
begin

text \<open>
  \<open>coordinator/src/domain/work-context.ts\<close>: the tracker that derives the terminal work metadata
  of an attempt from its normalized tool events. The tracker's \<open>context\<close> is an object whose keys
  may hold \<open>undefined\<close> (an assignment of \<open>undefined\<close> keeps the key), so it is modelled as the
  association list it is; \<open>extractToolContext\<close> and \<open>extractTaskResult\<close>, which mutate it, return
  the new one.
\<close>

section \<open>Tool inputs\<close>

definition str_includes :: "string \<Rightarrow> string \<Rightarrow> bool" where
  "str_includes s pat \<longleftrightarrow> list_ex (prefix pat) (suffixes s)"

definition nullish :: "jsval \<Rightarrow> bool" where
  "nullish v \<longleftrightarrow> v = Undef \<or> v = JNull"

text \<open>\<open>context.k = context.k ?? v\<close>\<close>

definition keep_or_set :: "string \<Rightarrow> jsval \<Rightarrow> obj \<Rightarrow> obj" where
  "keep_or_set k v ctx = obj_set k (if nullish (obj_get ctx k) then v else obj_get ctx k) ctx"

definition work_selection_tools :: "string list" where
  "work_selection_tools =
     [''bot_status_update'', ''task_add'', ''task_update'', ''task_outcome_report'', ''task_remove'']"

definition no_work_patterns :: "string list" where
  "no_work_patterns =
     [''NO_WORK_FOUND'', ''no actionable work'', ''no work found'', ''no work available'',
      ''nothing actionable'', ''nothing to do'', ''nothing to pick up'', ''no tickets'',
      ''no unassigned'', ''no assigned tickets'', ''0 unassigned'']"

definition memory_tool :: "string \<Rightarrow> string option" where
  "memory_tool name =
     (if prefix ''mcp__bot-memory__'' name then Some (drop (length ''mcp__bot-memory__'') name)
      else if prefix ''bot-memory_'' name then Some (drop (length ''bot-memory_'') name)
      else None)"

fun nonempty_string :: "jsval \<Rightarrow> bool" where
  "nonempty_string (JStr s) = (s \<noteq> [])"
| "nonempty_string _ = False"

definition select_work :: "obj \<Rightarrow> obj \<Rightarrow> obj" where
  "select_work inp ctx0 =
     (let externalKey = js_or (obj_get inp ''external_key'') (obj_get inp ''jira_key'');
          ctx1 = (if nonempty_string externalKey
                  then obj_set ''externalKey'' externalKey
                         (if externalKey \<noteq> obj_get ctx0 ''externalKey''
                          then obj_set ''taskId'' Undef ctx0 else ctx0)
                  else ctx0);
          ctx2 = (if nonempty_string (obj_get inp ''repo'')
                  then obj_set ''repository'' (obj_get inp ''repo'') ctx1 else ctx1)
      in (case obj_get inp ''summary'' of
            JStr s \<Rightarrow> obj_set ''summary'' (JStr (take 200 s)) ctx2
          | _ \<Rightarrow> ctx2))"

definition task_update_type :: "obj \<Rightarrow> obj \<Rightarrow> obj" where
  "task_update_type inp ctx0 =
     (let status = obj_get inp ''status'';
          ctx1 = (if status = JStr ''pr_open'' then obj_set ''workType'' (JStr ''new_ticket'') ctx0 else ctx0);
          ctx2 = (if status = JStr ''pr_changes'' then obj_set ''workType'' (JStr ''pr_review'') ctx1 else ctx1)
      in if status = JStr ''done'' then keep_or_set ''workType'' (JStr ''pr_review'') ctx2 else ctx2)"

definition command_type :: "obj \<Rightarrow> obj \<Rightarrow> obj" where
  "command_type inp ctx =
     (let command = (case obj_get inp ''command'' of JStr s \<Rightarrow> s | _ \<Rightarrow> [])
      in if str_includes command ''gh pr checks'' \<or> str_includes command ''glab ci view''
         then keep_or_set ''workType'' (JStr ''ci_fix'') ctx
         else if str_includes command ''gh pr view'' \<or> str_includes command ''glab mr view''
         then keep_or_set ''workType'' (JStr ''pr_review'') ctx
         else ctx)"

definition work_type_of_tool :: "string \<Rightarrow> string option \<Rightarrow> obj \<Rightarrow> obj \<Rightarrow> obj" where
  "work_type_of_tool name tool inp ctx =
     (if tool = Some ''task_add'' then keep_or_set ''workType'' (JStr ''new_ticket'') ctx
      else if tool = Some ''task_update'' then task_update_type inp ctx
      else if to_lower name = ''bash'' \<or> to_lower name = ''shell'' then command_type inp ctx
      else if str_includes name ''jira_transition_issue''
      then keep_or_set ''workType'' (JStr ''new_ticket'') ctx
      else if suffix ''memory_delete'' name
      then keep_or_set ''workType'' (JStr ''memory_housekeeping'') ctx
      else ctx)"

definition stored_progress :: "obj \<Rightarrow> obj \<Rightarrow> obj" where
  "stored_progress progress ctx0 =
     (let externalKey = js_or (obj_get progress ''external_key'') (obj_get progress ''jira_key'');
          ctx1 = (if nonempty_string externalKey \<and> \<not> truthy (obj_get ctx0 ''externalKey'')
                  then obj_set ''externalKey'' externalKey (obj_set ''taskId'' Undef ctx0)
                  else ctx0)
      in if nonempty_string (obj_get progress ''repo'') \<and>
            (\<not> truthy externalKey \<or> externalKey = obj_get ctx1 ''externalKey'') \<and>
            nullish (obj_get ctx1 ''repository'')
         then obj_set ''repository'' (obj_get progress ''repo'') ctx1
         else ctx1)"

definition extractToolContext :: "string \<Rightarrow> obj option \<Rightarrow> obj \<Rightarrow> obj" where
  "extractToolContext name input ctx =
     (case input of
        None \<Rightarrow> ctx
      | Some inp \<Rightarrow>
          (let tool = memory_tool name;
               ctx1 = (case tool of
                         Some t \<Rightarrow> if t \<in> set work_selection_tools then select_work inp ctx else ctx
                       | None \<Rightarrow> ctx);
               ctx2 = work_type_of_tool name tool inp ctx1
           in if tool = Some ''progress_store''
              then (case as_record (obj_get inp ''progress'') of
                      None \<Rightarrow> ctx2
                    | Some progress \<Rightarrow> stored_progress progress ctx2)
              else ctx2))"

section \<open>Tool results\<close>

fun positive_number :: "jsval \<Rightarrow> bool" where
  "positive_number (JNum n) = (case n of Fin r \<Rightarrow> 0 < r | PosInf \<Rightarrow> True | _ \<Rightarrow> False)"
| "positive_number _ = False"

text \<open>
  The parsed results: a string is parsed, a record is printed and parsed again (which is its
  JSON tree), and the text parts of an array are parsed one by one. Texts that do not parse are
  skipped.
\<close>

definition parsed_results :: "jsval \<Rightarrow> jsval list" where
  "parsed_results v =
     (case v of
        JStr s \<Rightarrow> (case json_parse s of None \<Rightarrow> [] | Some w \<Rightarrow> [w])
      | JObj ob \<Rightarrow> [json_tree v]
      | JArr parts \<Rightarrow>
          concat (map (\<lambda>part. case part of
              JObj ob \<Rightarrow> (case obj_get ob ''text'' of
                            JStr s \<Rightarrow> (case json_parse s of None \<Rightarrow> [] | Some w \<Rightarrow> [w])
                          | _ \<Rightarrow> [])
            | _ \<Rightarrow> []) parts)
      | _ \<Rightarrow> [])"

definition apply_result :: "jsval \<Rightarrow> obj \<Rightarrow> obj" where
  "apply_result parsed ctx =
     (case parsed of
        JObj ob \<Rightarrow>
          (let externalKey = js_or (obj_get ob ''external_key'') (obj_get ob ''jira_key'')
           in if truthy (obj_get ctx ''externalKey'') \<and> truthy externalKey \<and>
                 externalKey \<noteq> obj_get ctx ''externalKey''
              then ctx
              else if positive_number (obj_get ob ''id'') \<and>
                      (has_key ob ''external_key'' \<or> has_key ob ''jira_key'')
              then obj_set ''taskId'' (obj_get ob ''id'') ctx
              else if positive_number (obj_get ob ''task_id'')
              then obj_set ''taskId'' (obj_get ob ''task_id'') ctx
              else ctx)
      | _ \<Rightarrow> ctx)"

definition extractTaskResult :: "jsval \<Rightarrow> obj \<Rightarrow> obj" where
  "extractTaskResult v ctx = fold apply_result (parsed_results v) ctx"

section \<open>Result texts\<close>

definition containsNoWork :: "string \<Rightarrow> bool" where
  "containsNoWork text \<longleftrightarrow> list_ex (\<lambda>pat. str_includes (to_lower text) (to_lower pat)) no_work_patterns"

definition lastMeaningfulLine :: "string \<Rightarrow> string option" where
  "lastMeaningfulLine text =
     (let lines = filter (\<lambda>l. l \<noteq> []) (map trim (split_lines (trim text)))
      in if lines = [] then None else Some (take 200 (last lines)))"

section \<open>The tracker\<close>

record work_context_tracker =
  wc_context :: obj
  wc_startedTools :: "string list"

definition new_work_context :: "rehor_run \<Rightarrow> work_context_tracker" where
  "new_work_context run =
     (case rn_task run of
        None \<Rightarrow> \<lparr>wc_context = [], wc_startedTools = []\<rparr>
      | Some task \<Rightarrow>
          if \<not> isOpenCodeRuntime (rn_runtimeId run) then \<lparr>wc_context = [], wc_startedTools = []\<rparr>
          else (let taskId = js_Number (tk_id task);
                    ctx1 = (if is_safe_integer taskId \<and> 0 < fin_val taskId
                            then [(''taskId'', JNum taskId)] else []);
                    ctx2 = (case tk_key task of
                              None \<Rightarrow> ctx1
                            | Some k \<Rightarrow> if k \<noteq> [] then obj_set ''externalKey'' (JStr k) ctx1 else ctx1)
                in \<lparr>wc_context = ctx2, wc_startedTools = []\<rparr>))"

definition tool_use_id :: "rehor_event \<Rightarrow> string" where
  "tool_use_id e =
     (case obj_get (ev_payload e) ''toolUseId'' of
        JStr s \<Rightarrow> if s \<noteq> [] then s else ev_eventId e
      | _ \<Rightarrow> ev_eventId e)"

definition tool_event_name :: "obj \<Rightarrow> string" where
  "tool_event_name payload =
     (case as_string (obj_get payload ''name'') of
        Some n \<Rightarrow> n
      | None \<Rightarrow> (case as_string (obj_get payload ''toolName'') of Some n \<Rightarrow> n | None \<Rightarrow> []))"

definition wc_observe :: "rehor_event \<Rightarrow> work_context_tracker \<Rightarrow> work_context_tracker" where
  "wc_observe e W =
     (let payload = ev_payload e;
          i = tool_use_id e;
          name = tool_event_name payload;
          input = as_record (obj_get payload ''input'')
      in if ev_kind e \<noteq> ''tool'' then W
         else if obj_get payload ''budgetUnit'' = JStr ''container'' \<or>
                 obj_get payload ''workContextAvailable'' = JBool False then W
         else if obj_get payload ''state'' = JStr ''started''
         then W\<lparr>wc_context := extractToolContext name input (wc_context W),
                wc_startedTools := List.insert i (wc_startedTools W)\<rparr>
         else if obj_get payload ''state'' \<noteq> JStr ''completed'' \<or>
                 (obj_get payload ''codeMode'' = JBool True \<and> obj_get payload ''isError'' = JBool True)
         then W
         else (let ctx1 = (if i \<notin> set (wc_startedTools W)
                           then extractToolContext name input (wc_context W) else wc_context W)
               in W\<lparr>wc_context := extractTaskResult (obj_get payload ''content'') ctx1\<rparr>))"

definition result_text :: "obj \<Rightarrow> string" where
  "result_text payload = (case obj_get payload ''resultText'' of JStr s \<Rightarrow> s | _ \<Rightarrow> [])"

definition summarized_context :: "obj \<Rightarrow> obj \<Rightarrow> obj" where
  "summarized_context payload ctx =
     (let previous = obj_of (obj_get payload ''context'')
      in if \<not> truthy (obj_get ctx ''summary'') \<and> \<not> truthy (obj_get previous ''summary'') \<and>
            result_text payload \<noteq> []
         then (case lastMeaningfulLine (result_text payload) of
                 None \<Rightarrow> ctx
               | Some s \<Rightarrow> obj_set ''summary'' (JStr s) ctx)
         else ctx)"

definition enrichTerminal ::
    "rehor_event \<Rightarrow> work_context_tracker \<Rightarrow> rehor_event \<times> work_context_tracker" where
  "enrichTerminal e W =
     (if ev_kind e \<noteq> ''terminal'' then (e, W)
      else (let payload = ev_payload e;
                own = summarized_context payload (wc_context W);
                context = obj_spread (obj_of (obj_get payload ''context'')) own;
                noWork = (obj_get payload ''noWork'' = JBool True \<or> containsNoWork (result_text payload));
                payload1 = (if context \<noteq> [] then obj_set ''context'' (JObj context) payload else payload);
                payload2 = (if obj_get payload ''noWork'' \<noteq> Undef \<or> result_text payload \<noteq> []
                            then obj_set ''noWork'' (JBool noWork) payload1 else payload1)
            in (e\<lparr>ev_payload := payload2\<rparr>, W\<lparr>wc_context := own\<rparr>)))"


section \<open>The shape of a context\<close>

definition field_ok :: "string \<Rightarrow> jsval \<Rightarrow> bool" where
  "field_ok k v \<longleftrightarrow>
     (if k = ''taskId'' then v = Undef \<or> positive_number v
      else if k \<in> {''externalKey'', ''repository'', ''workType''} then nonempty_string v
      else k = ''summary'' \<and> is_str v)"

definition context_inv :: "obj \<Rightarrow> bool" where
  "context_inv ctx \<longleftrightarrow> distinct (map fst ctx) \<and> (\<forall>(k, v) \<in> set ctx. field_ok k v)"

lemma set_obj_set: "set (obj_set k v ob) \<subseteq> insert (k, v) (set ob)"
  by (induction ob) auto

lemma context_inv_Nil [wf_intros]: "context_inv []"
  by (simp add: context_inv_def)

lemma context_inv_set [wf_intros]: "field_ok k v \<Longrightarrow> context_inv ctx \<Longrightarrow> context_inv (obj_set k v ctx)"
  using set_obj_set [of k v ctx] by (auto simp: context_inv_def distinct_update)

lemma obj_get_in: "distinct (map fst ob) \<Longrightarrow> (k, v) \<in> set ob \<Longrightarrow> obj_get ob k = v"
  by (simp add: obj_get_def)

lemma obj_get_cases: "obj_get ob k = Undef \<or> (k, obj_get ob k) \<in> set ob"
  by (auto simp: obj_get_def dest: map_of_SomeD split: option.split)

lemma context_inv_get: "context_inv ctx \<Longrightarrow> obj_get ctx k = Undef \<or> field_ok k (obj_get ctx k)"
  using obj_get_cases [of ctx k] by (auto simp: context_inv_def)

lemma nonempty_string_iff: "nonempty_string v \<longleftrightarrow> (\<exists>s. v = JStr s \<and> s \<noteq> [])"
  by (cases v) auto

lemma context_inv_keep [wf_intros]:
  "field_ok k v \<Longrightarrow> context_inv ctx \<Longrightarrow> context_inv (keep_or_set k v ctx)"
  using context_inv_get [of ctx k] by (auto simp: keep_or_set_def nullish_def intro: context_inv_set)

lemma field_ok_simps [simp]:
  "field_ok ''taskId'' v \<longleftrightarrow> v = Undef \<or> positive_number v"
  "field_ok ''externalKey'' v \<longleftrightarrow> nonempty_string v"
  "field_ok ''repository'' v \<longleftrightarrow> nonempty_string v"
  "field_ok ''workType'' v \<longleftrightarrow> nonempty_string v"
  "field_ok ''summary'' v \<longleftrightarrow> is_str v"
  by (simp_all add: field_ok_def)

lemma select_work_inv [wf_intros]: "context_inv ctx \<Longrightarrow> context_inv (select_work inp ctx)"
  by (auto simp: select_work_def Let_def split: jsval.split intro!: context_inv_set)

lemma task_update_inv: "context_inv ctx \<Longrightarrow> context_inv (task_update_type inp ctx)"
  by (simp add: task_update_type_def Let_def context_inv_set context_inv_keep)

lemma command_inv: "context_inv ctx \<Longrightarrow> context_inv (command_type inp ctx)"
  by (simp add: command_type_def Let_def context_inv_keep)

lemma work_type_inv [wf_intros]: "context_inv ctx \<Longrightarrow> context_inv (work_type_of_tool name tool inp ctx)"
  by (simp add: work_type_of_tool_def task_update_inv command_inv context_inv_keep)

lemma stored_progress_inv [wf_intros]: "context_inv ctx \<Longrightarrow> context_inv (stored_progress p ctx)"
  by (simp add: stored_progress_def Let_def context_inv_set)

lemma extractToolContext_inv [wf_intros]:
  "context_inv ctx \<Longrightarrow> context_inv (extractToolContext name input ctx)"
  by (auto simp: extractToolContext_def Let_def split: option.split
      intro!: select_work_inv work_type_inv stored_progress_inv)

lemma apply_result_inv: "context_inv ctx \<Longrightarrow> context_inv (apply_result parsed ctx)"
  by (auto simp: apply_result_def Let_def split: jsval.split intro!: context_inv_set)

lemma apply_results_inv: "context_inv ctx \<Longrightarrow> context_inv (fold apply_result vs ctx)"
  by (induction vs arbitrary: ctx) (simp_all add: apply_result_inv)

lemma extractTaskResult_inv [wf_intros]: "context_inv ctx \<Longrightarrow> context_inv (extractTaskResult v ctx)"
  by (simp add: extractTaskResult_def apply_results_inv)

lemma new_work_context_inv [wf_intros]: "context_inv (wc_context (new_work_context run))"
proof -
  have "positive_number (JNum n)" if "is_safe_integer n" "0 < fin_val n" for n
    using that by (cases n) auto
  then show ?thesis
    by (auto simp: new_work_context_def Let_def context_inv_def split: option.split)
qed

lemma wc_observe_inv [wf_intros]: "context_inv (wc_context W) \<Longrightarrow> context_inv (wc_context (wc_observe e W))"
  by (simp add: wc_observe_def Let_def extractToolContext_inv extractTaskResult_inv)

lemma summarized_inv [wf_intros]: "context_inv ctx \<Longrightarrow> context_inv (summarized_context p ctx)"
  by (simp add: summarized_context_def Let_def context_inv_set split: option.split)

lemma wc_observe_all_inv: "context_inv (wc_context W) \<Longrightarrow> context_inv (wc_context (fold wc_observe es W))"
  by (induction es arbitrary: W) (simp_all add: wc_observe_inv)

lemma field_ok_key:
  "field_ok k v \<Longrightarrow> k = ''taskId'' \<or> k = ''externalKey'' \<or> k = ''repository'' \<or> k = ''workType'' \<or> k = ''summary''"
  by (auto simp: field_ok_def split: if_splits)

lemma context_inv_schema:
  assumes "context_inv ctx"
  shows "terminal_context_ok (JObj ctx) \<longleftrightarrow> opt_prop (is_int_from 1) ctx ''taskId''"
proof -
  have keys: "only_keys [''taskId'', ''externalKey'', ''repository'', ''workType'', ''summary''] ctx"
    using assms field_ok_key unfolding only_keys_def context_inv_def list_all_iff by fastforce
  have str1: "opt_prop is_str1 ctx k" if "obj_get ctx k = Undef \<or> nonempty_string (obj_get ctx k)" for k
    using that by (auto simp: opt_prop_def nonempty_string_iff)
  note get = context_inv_get [OF assms]
  have "opt_prop is_str1 ctx ''externalKey''" "opt_prop is_str1 ctx ''repository''"
    "opt_prop is_str1 ctx ''workType''"
    by (rule str1 [OF get [of "''externalKey''", unfolded field_ok_simps]]
        str1 [OF get [of "''repository''", unfolded field_ok_simps]]
        str1 [OF get [of "''workType''", unfolded field_ok_simps]])+
  moreover have "opt_prop is_str ctx ''summary''"
    using get [of "''summary''", unfolded field_ok_simps] by (simp add: opt_prop_def)
  ultimately show ?thesis using keys by (simp add: terminal_context_ok_def obj_schema_def)
qed


section \<open>Selecting a task\<close>

lemma keep_or_set_get [simp]:
  "obj_get (keep_or_set k v ctx) k' =
     (if k' = k then (if nullish (obj_get ctx k) then v else obj_get ctx k) else obj_get ctx k')"
  by (simp add: keep_or_set_def js_simps)

lemma work_type_frame [frame_simps]:
  "k \<noteq> ''workType'' \<Longrightarrow> obj_get (work_type_of_tool name tool inp ctx) k = obj_get ctx k"
  by (simp add: work_type_of_tool_def task_update_type_def command_type_def Let_def js_simps)

lemma select_work_key:
  assumes "obj_get inp ''external_key'' = JStr k" "k \<noteq> []"
  shows "obj_get (select_work inp ctx) ''externalKey'' = JStr k"
    and "obj_get ctx ''externalKey'' \<noteq> JStr k \<Longrightarrow> obj_get (select_work inp ctx) ''taskId'' = Undef"
  using assms by (simp_all add: select_work_def js_or_def Let_def js_simps split: jsval.split)

lemma memory_tool_opencode [simp]: "memory_tool (''bot-memory_'' @ t) = Some t"
  by (simp add: memory_tool_def)

lemma apply_result_other_key:
  "obj_get ctx ''externalKey'' = JStr k \<Longrightarrow> k \<noteq> [] \<Longrightarrow>
     js_or (obj_get ob ''external_key'') (obj_get ob ''jira_key'') = JStr k' \<Longrightarrow> k' \<noteq> [] \<Longrightarrow> k' \<noteq> k \<Longrightarrow>
     apply_result (JObj ob) ctx = ctx"
  by (simp add: apply_result_def)

lemma fractional_result:
  "extractTaskResult (JStr ''{\"task_id\":1.5}'') [] = [(''taskId'', JNum (Fin (3/2)))]"
  by (simp add: extractTaskResult_def parsed_results_def apply_result_def js_or_def json_eval js_simps)

section \<open>Properties\<close>

text \<open>
  Whatever tool events a run reports, the work context keeps the shape of the terminal
  schema (known keys, non-empty strings): it is valid exactly when its task id is undefined or a
  positive safe integer, the one condition the tracker does not enforce on tool results.
\<close>

theorem work_context_schema:
  "let ctx = wc_context (fold wc_observe es (new_work_context run))
   in terminal_context_ok (JObj ctx) \<longleftrightarrow>
      obj_get ctx ''taskId'' = Undef \<or> is_int_from 1 (obj_get ctx ''taskId'')"
  using context_inv_schema [OF wc_observe_all_inv [OF new_work_context_inv]]
  by (simp add: opt_prop_def Let_def)

text \<open>
  When a memory tool call selects a new external key, the task id of the previous task is
  dropped, and a tool result that names another key cannot set it again.
\<close>

theorem new_key_drops_task_id:
  assumes "memory_tool name = Some t" "t \<in> set work_selection_tools"
    and "obj_get inp ''external_key'' = JStr k" "k \<noteq> []" "obj_get ctx ''externalKey'' \<noteq> JStr k"
    and "ctx' = extractToolContext name (Some inp) ctx"
    and "json_parse text = Some (JObj ob)"
    and "js_or (obj_get ob ''external_key'') (obj_get ob ''jira_key'') = JStr k'" "k' \<noteq> []" "k' \<noteq> k"
  shows "obj_get ctx' ''externalKey'' = JStr k \<and> obj_get ctx' ''taskId'' = Undef \<and>
    extractTaskResult (JStr text) ctx' = ctx'"
proof -
  have "t \<noteq> ''progress_store''" using assms(2) by (auto simp: work_selection_tools_def)
  then have ctx': "ctx' = work_type_of_tool name (Some t) inp (select_work inp ctx)"
    using assms(1,2,6) by (simp add: extractToolContext_def Let_def)
  then have "obj_get ctx' ''externalKey'' = JStr k" "obj_get ctx' ''taskId'' = Undef"
    using select_work_key [OF assms(3,4)] assms(5) by (simp_all add: frame_simps)
  then show ?thesis
    using apply_result_other_key [OF _ assms(4,8-10)]
    by (simp add: extractTaskResult_def parsed_results_def assms(7))
qed

lemma sample_result_parse:
  "json_parse ''{\"jira_key\":\"A-1\",\"task_id\":9}'' =
     Some (JObj [(''jira_key'', JStr ''A-1''), (''task_id'', JNum (Fin 9))])"
  by (simp add: json_eval)

theorem new_key_drops_task_id_witness:
  "obj_get (extractToolContext ''bot-memory_task_add'' (Some [(''external_key'', JStr ''B-2'')])
     [(''taskId'', JNum (Fin 7)), (''externalKey'', JStr ''A-1'')]) ''taskId'' = Undef"
proof -
  have "memory_tool ''bot-memory_task_add'' = Some ''task_add''" by code_simp
  then show ?thesis
    using new_key_drops_task_id [where t = "''task_add''" and inp = "[(''external_key'', JStr ''B-2'')]"
      and k = "''B-2''" and ctx = "[(''taskId'', JNum (Fin 7)), (''externalKey'', JStr ''A-1'')]"
      and k' = "''A-1''", OF _ _ _ _ _ HOL.refl sample_result_parse]
    by (simp add: work_selection_tools_def js_simps js_or_def)
qed

end
