(* ===== verification/Abort_Cause.thy ===== *)
theory Abort_Cause
  imports Run_Event
begin

text \<open>
  \<open>coordinator/src/domain/abort-cause.ts\<close>, the abort helpers of \<open>utils.ts\<close> and the functions of
  \<open>coordinator.ts\<close> that turn a cause into a terminal state and a reason text. A combined signal is
  the cause it was aborted with, if any, and whether it still listens to its two inputs.
\<close>

section \<open>Reasons and causes\<close>

datatype abort_kind = ShutdownKind | CancelledKind | TimedOutKind | FailedKind

fun abort_kind_text :: "abort_kind \<Rightarrow> string" where
  "abort_kind_text ShutdownKind = ''shutdown''"
| "abort_kind_text CancelledKind = ''cancelled''"
| "abort_kind_text TimedOutKind = ''timed_out''"
| "abort_kind_text FailedKind = ''failed''"

definition abort_kind_of :: "string \<Rightarrow> abort_kind option" where
  "abort_kind_of s =
     (if s = ''shutdown'' then Some ShutdownKind
      else if s = ''cancelled'' then Some CancelledKind
      else if s = ''timed_out'' then Some TimedOutKind
      else if s = ''failed'' then Some FailedKind
      else None)"

text \<open>
  An \<open>unknown\<close> that is thrown or passed to \<open>abort\<close>, as far as the sources look at it: an
  \<open>Error\<close> with its name, its message and whether it is a \<open>DOMException\<close>; a record with its
  \<open>kind\<close> when that is a string and its \<open>reason\<close> when the key is present; a string; and every
  other value by the text \<open>String\<close> gives it.
\<close>

datatype reason =
    RUndef
  | RNull
  | RText string
  | ROther string
  | RError string string bool
  | RRecord "string option" "reason option"

record abort_cause =
  ac_kind :: abort_kind
  ac_reason :: reason

fun as_abort_cause :: "reason \<Rightarrow> abort_cause option" where
  "as_abort_cause (RRecord (Some k) (Some r)) =
     (case abort_kind_of k of None \<Rightarrow> None | Some kind \<Rightarrow> Some \<lparr>ac_kind = kind, ac_reason = r\<rparr>)"
| "as_abort_cause _ = None"

definition isAbortCause :: "reason \<Rightarrow> bool" where
  "isAbortCause r \<longleftrightarrow> as_abort_cause r \<noteq> None"

definition abortCauseFrom :: "reason \<Rightarrow> abort_kind \<Rightarrow> abort_cause" where
  "abortCauseFrom r kind =
     (case as_abort_cause r of Some c \<Rightarrow> c | None \<Rightarrow> \<lparr>ac_kind = kind, ac_reason = r\<rparr>)"

text \<open>A cause passed on as a reason, as \<open>controller.abort(cause)\<close> does.\<close>

definition reason_of_cause :: "abort_cause \<Rightarrow> reason" where
  "reason_of_cause c = RRecord (Some (abort_kind_text (ac_kind c))) (Some (ac_reason c))"

fun js_String :: "reason \<Rightarrow> string" where
  "js_String RUndef = ''undefined''"
| "js_String RNull = ''null''"
| "js_String (RText s) = s"
| "js_String (ROther s) = s"
| "js_String (RError n m _) = (if m = [] then n else if n = [] then m else n @ '': '' @ m)"
| "js_String (RRecord _ _) = ''[object Object]''"

definition describeError :: "reason \<Rightarrow> string" where
  "describeError e = (case e of RError _ m _ \<Rightarrow> if m \<noteq> [] then m else js_String e | _ \<Rightarrow> js_String e)"

fun describeAbortReason :: "reason \<Rightarrow> string" where
  "describeAbortReason (RError _ m _) = m"
| "describeAbortReason (RRecord kind r) =
     (let k = (case kind of None \<Rightarrow> [] | Some k \<Rightarrow> k);
          detail = (case r of None \<Rightarrow> [] | Some RUndef \<Rightarrow> [] | Some d \<Rightarrow> describeAbortReason d)
      in if k = [] \<and> detail = [] then ''aborted''
         else if k = [] then detail
         else if detail = [] then k
         else k @ '': '' @ detail)"
| "describeAbortReason r = js_String r"

definition abortError :: "reason \<Rightarrow> string \<Rightarrow> reason" where
  "abortError r fallback =
     RError ''AbortError'' (if r = RUndef then fallback else describeAbortReason r) False"

fun causeText :: "reason \<Rightarrow> string \<Rightarrow> string" where
  "causeText RUndef fallback = fallback"
| "causeText RNull fallback = fallback"
| "causeText (RError _ m _) fallback = m"
| "causeText (RRecord kind r) fallback =
     (case r of
        Some d \<Rightarrow>
          if d = RUndef then (case kind of None \<Rightarrow> fallback | Some k \<Rightarrow> k) else causeText d fallback
      | None \<Rightarrow> (case kind of None \<Rightarrow> fallback | Some k \<Rightarrow> k))"
| "causeText (RText s) fallback = s"
| "causeText (ROther s) fallback = s"

definition abortMessage :: "abort_cause \<Rightarrow> string" where
  "abortMessage c =
     (case ac_kind c of
        TimedOutKind \<Rightarrow> causeText (ac_reason c) ''run timed out''
      | ShutdownKind \<Rightarrow> causeText (ac_reason c) ''shutdown requested''
      | CancelledKind \<Rightarrow> causeText (ac_reason c) ''run cancelled''
      | FailedKind \<Rightarrow> causeText (ac_reason c) ''run failed'')"

section \<open>Terminal states\<close>

fun state_by_cause :: "abort_kind \<Rightarrow> terminal_state" where
  "state_by_cause TimedOutKind = TimedOut"
| "state_by_cause ShutdownKind = Interrupted"
| "state_by_cause CancelledKind = Cancelled"
| "state_by_cause FailedKind = Failed"

definition terminalState :: "abort_cause option \<Rightarrow> terminal_state" where
  "terminalState cause = (case cause of None \<Rightarrow> Failed | Some c \<Rightarrow> state_by_cause (ac_kind c))"

definition missing_terminal_error :: reason where
  "missing_terminal_error = RError ''CoordinatorError'' ''runtime ended without terminal event'' False"

definition terminalReason :: "abort_cause option \<Rightarrow> reason \<Rightarrow> string" where
  "terminalReason cause failure =
     (case cause of
        Some c \<Rightarrow> abortMessage c
      | None \<Rightarrow>
          describeError (if failure = RUndef \<or> failure = RNull then missing_terminal_error else failure))"

definition shouldSurface :: "reason \<Rightarrow> abort_cause option \<Rightarrow> bool" where
  "shouldSurface error cause =
     (if error = RUndef then False
      else (case cause of
              None \<Rightarrow> True
            | Some c \<Rightarrow>
                if ac_kind c = FailedKind \<and> ac_reason c = RText ''budget_exceeded'' then False
                else ac_kind c = FailedKind))"

text \<open>\<open>if (value)\<close> on a thrown value.\<close>

fun reason_truthy :: "reason \<Rightarrow> bool" where
  "reason_truthy RUndef = False"
| "reason_truthy RNull = False"
| "reason_truthy (RText s) = (s \<noteq> [])"
| "reason_truthy (ROther s) = (s \<notin> {''0'', ''false'', ''NaN''})"
| "reason_truthy (RError _ _ _) = True"
| "reason_truthy (RRecord _ _) = True"

section \<open>Combined signals\<close>

record combined_signals =
  cs_cause :: "abort_cause option"
  cs_listening :: bool

text \<open>
  An input signal is absent, or present with the reason it was aborted with, if it was. An abort
  without a reason carries the platform's own \<open>AbortError\<close>, as any caller's reason does.
\<close>

definition cs_abort :: "abort_cause \<Rightarrow> combined_signals \<Rightarrow> combined_signals" where
  "cs_abort c S = (if cs_cause S \<noteq> None then S else S\<lparr>cs_cause := Some c\<rparr>)"

definition shutdownAbortReason :: "reason \<Rightarrow> abort_cause" where
  "shutdownAbortReason r = \<lparr>ac_kind = ShutdownKind, ac_reason = r\<rparr>"

definition shutdown_cause :: "reason \<Rightarrow> abort_cause" where
  "shutdown_cause r =
     (case as_abort_cause r of
        Some c \<Rightarrow> if ac_kind c = ShutdownKind then c else shutdownAbortReason r
      | None \<Rightarrow> shutdownAbortReason r)"

definition cancel_cause :: "reason \<Rightarrow> abort_cause" where
  "cancel_cause r =
     (case r of
        RError n m isDom \<Rightarrow>
          if isDom \<and> n = ''TimeoutError'' then \<lparr>ac_kind = TimedOutKind, ac_reason = r\<rparr>
          else abortCauseFrom r CancelledKind
      | _ \<Rightarrow> abortCauseFrom r CancelledKind)"

definition combineAbortSignals :: "reason option option \<Rightarrow> reason option option \<Rightarrow> combined_signals" where
  "combineAbortSignals signal shutdownSignal =
     (let S0 = \<lparr>cs_cause = None, cs_listening = True\<rparr>;
          S1 = (case shutdownSignal of Some (Some r) \<Rightarrow> cs_abort (shutdown_cause r) S0 | _ \<Rightarrow> S0)
      in case signal of Some (Some r) \<Rightarrow> cs_abort (cancel_cause r) S1 | _ \<Rightarrow> S1)"

text \<open>What happens to a combined signal after its creation.\<close>

datatype signal_event =
    ShutdownSignalled reason
  | CancelSignalled reason
  | AbortedWith abort_cause
  | Disposed

fun signal_step :: "signal_event \<Rightarrow> combined_signals \<Rightarrow> combined_signals" where
  "signal_step (ShutdownSignalled r) S = (if cs_listening S then cs_abort (shutdown_cause r) S else S)"
| "signal_step (CancelSignalled r) S = (if cs_listening S then cs_abort (cancel_cause r) S else S)"
| "signal_step (AbortedWith c) S = cs_abort c S"
| "signal_step Disposed S = S\<lparr>cs_listening := False\<rparr>"

section \<open>Facts about signals\<close>

lemma abort_kind_of_text [simp]: "abort_kind_of (abort_kind_text k) = Some k"
  by (cases k) (simp_all add: abort_kind_of_def)

lemma as_abort_cause_of [simp]: "as_abort_cause (reason_of_cause c) = Some c"
  by (simp add: reason_of_cause_def)

lemma cs_abort_first [simp]:
  "cs_cause S = Some c \<Longrightarrow> cs_abort c' S = S"
  "cs_cause (cs_abort c S) = Some (case cs_cause S of None \<Rightarrow> c | Some c0 \<Rightarrow> c0)"
  by (auto simp: cs_abort_def split: option.split)

lemma cs_abort_listening [simp]: "cs_listening (cs_abort c S) = cs_listening S"
  by (simp add: cs_abort_def)

lemma signal_step_first: "cs_cause S = Some c \<Longrightarrow> cs_cause (signal_step x S) = Some c"
  by (cases x) simp_all

lemma signal_steps_first: "cs_cause S = Some c \<Longrightarrow> cs_cause (fold signal_step xs S) = Some c"
  by (induction xs arbitrary: S) (simp_all add: signal_step_first)

text \<open>The cause each step offers when nothing aborted the signal before.\<close>

fun offered :: "bool \<Rightarrow> signal_event list \<Rightarrow> abort_cause option" where
  "offered l [] = None"
| "offered l (ShutdownSignalled r # xs) = (if l then Some (shutdown_cause r) else offered l xs)"
| "offered l (CancelSignalled r # xs) = (if l then Some (cancel_cause r) else offered l xs)"
| "offered l (AbortedWith c # xs) = Some c"
| "offered l (Disposed # xs) = offered False xs"

lemma signal_steps_offered:
  "cs_cause S = None \<Longrightarrow> cs_cause (fold signal_step xs S) = offered (cs_listening S) xs"
proof (induction xs arbitrary: S)
  case (Cons x xs)
  show ?case
    using Cons by (cases x) (simp_all add: signal_steps_first)
qed simp

lemma shutdown_cause_kind [simp]: "ac_kind (shutdown_cause r) = ShutdownKind"
  by (auto simp: shutdown_cause_def shutdownAbortReason_def split: option.split)

lemma cancel_cause_of [simp]: "cancel_cause (reason_of_cause c) = c"
  by (simp add: cancel_cause_def abortCauseFrom_def reason_of_cause_def)

section \<open>Properties\<close>

text \<open>
  The first abort wins: the cause of a combined signal is the shutdown signal's when that was
  aborted on entry, else the cancel signal's, else the first cause any later step offers; inputs
  that fire after \<open>dispose\<close> offer none, an explicit \<open>abort\<close> always does.
\<close>

theorem first_abort_wins:
  "cs_cause (fold signal_step xs (combineAbortSignals signal shutdownSignal)) =
     (case shutdownSignal of
        Some (Some r) \<Rightarrow> Some (shutdown_cause r)
      | _ \<Rightarrow> (case signal of Some (Some r) \<Rightarrow> Some (cancel_cause r) | _ \<Rightarrow> offered True xs))"
  by (auto simp: combineAbortSignals_def Let_def signal_steps_first signal_steps_offered
      split: option.split)

text \<open>
  Abort causes keep their type through layers of signals: a cause used as the reason of the
  cancel input comes out unchanged, every abort of the shutdown input has the kind shutdown, and
  a terminal derived from the combined signal has the state of the cause's kind.
\<close>

theorem causes_stay_typed:
  "cs_cause (combineAbortSignals (Some (Some (reason_of_cause c))) None) = Some c \<and>
   terminalState (cs_cause (combineAbortSignals (Some (Some (reason_of_cause c))) None)) =
     state_by_cause (ac_kind c) \<and>
   terminalState (cs_cause (combineAbortSignals signal (Some (Some r)))) = Interrupted"
  by (auto simp: combineAbortSignals_def Let_def terminalState_def split: option.split)

end
