(* ===== verification/Js_Regex.thy ===== *)
theory Js_Regex
  imports Prelude
begin

text \<open>
  The part of the regular expressions of JavaScript that the sources use: classes with counted
  repetition, greedy or lazy, sequences, alternatives, capture groups, the end of input and a look
  at the next character. A match
  yields its alternatives in the order a backtracking matcher tries them, so the first one is the
  match the language gives. \<open>replace_all\<close> is \<open>text.replace(/re/g, f)\<close>.
\<close>

datatype rx =
    Cls "char \<Rightarrow> bool"
  | Rep "char \<Rightarrow> bool" nat bool
  | Eps
  | Fail
  | AtEnd
  | Ahead "char option \<Rightarrow> bool"
  | Cat rx rx
  | Alt rx rx
  | Cap nat rx

record rx_result =
  rx_matched :: string
  rx_groups :: "(nat \<times> string) list"
  rx_rest :: string

text \<open>The lengths a repeated class can take at the head of a text, shortest first.\<close>

definition rep_lengths :: "(char \<Rightarrow> bool) \<Rightarrow> nat \<Rightarrow> string \<Rightarrow> nat list" where
  "rep_lengths p low s = [low ..< Suc (length (takeWhile p s))]"

fun rx_match :: "rx \<Rightarrow> string \<Rightarrow> rx_result list" where
  "rx_match (Cls p) s =
     (case s of
        [] \<Rightarrow> []
      | c # cs \<Rightarrow> if p c then [\<lparr>rx_matched = [c], rx_groups = [], rx_rest = cs\<rparr>] else [])"
| "rx_match (Rep p low greedy) s =
     map (\<lambda>n. \<lparr>rx_matched = take n s, rx_groups = [], rx_rest = drop n s\<rparr>)
       (if greedy then rev (rep_lengths p low s) else rep_lengths p low s)"
| "rx_match Eps s = [\<lparr>rx_matched = [], rx_groups = [], rx_rest = s\<rparr>]"
| "rx_match Fail s = []"
| "rx_match AtEnd s = (if s = [] then [\<lparr>rx_matched = [], rx_groups = [], rx_rest = s\<rparr>] else [])"
| "rx_match (Ahead p) s =
     (if p (case s of [] \<Rightarrow> None | c # _ \<Rightarrow> Some c)
      then [\<lparr>rx_matched = [], rx_groups = [], rx_rest = s\<rparr>] else [])"
| "rx_match (Cat a b) s =
     concat (map (\<lambda>m. map (\<lambda>n. \<lparr>rx_matched = rx_matched m @ rx_matched n,
                                  rx_groups = rx_groups m @ rx_groups n, rx_rest = rx_rest n\<rparr>)
                        (rx_match b (rx_rest m)))
       (rx_match a s))"
| "rx_match (Alt a b) s = rx_match a s @ rx_match b s"
| "rx_match (Cap k a) s = map (\<lambda>m. m\<lparr>rx_groups := (k, rx_matched m) # rx_groups m\<rparr>) (rx_match a s)"

definition rx_first :: "rx \<Rightarrow> string \<Rightarrow> rx_result option" where
  "rx_first r s = (case rx_match r s of [] \<Rightarrow> None | m # _ \<Rightarrow> Some m)"

definition group :: "nat \<Rightarrow> rx_result \<Rightarrow> string" where
  "group k m = (case map_of (rx_groups m) k of None \<Rightarrow> [] | Some s \<Rightarrow> s)"

text \<open>A literal, a literal up to letter case, and small combinations.\<close>

fun lit :: "string \<Rightarrow> rx" where
  "lit [] = Eps"
| "lit (c # cs) = Cat (Cls (\<lambda>x. x = c)) (lit cs)"

fun ilit :: "string \<Rightarrow> rx" where
  "ilit [] = Eps"
| "ilit (c # cs) = Cat (Cls (\<lambda>x. lower_char x = lower_char c)) (ilit cs)"

fun seq :: "rx list \<Rightarrow> rx" where
  "seq [] = Eps"
| "seq (r # rs) = Cat r (seq rs)"

fun alts :: "rx list \<Rightarrow> rx" where
  "alts [] = Fail"
| "alts (r # rs) = Alt r (alts rs)"

definition opt :: "rx \<Rightarrow> rx" where
  "opt r = Alt r Eps"

definition is_alpha :: "char \<Rightarrow> bool" where
  "is_alpha c \<longleftrightarrow> (let n = (of_char c :: nat) in (65 \<le> n \<and> n \<le> 90) \<or> (97 \<le> n \<and> n \<le> 122))"

definition is_upper :: "char \<Rightarrow> bool" where
  "is_upper c \<longleftrightarrow> (let n = (of_char c :: nat) in 65 \<le> n \<and> n \<le> 90)"

definition alnum_or :: "string \<Rightarrow> char \<Rightarrow> bool" where
  "alnum_or extra c \<longleftrightarrow> is_alpha c \<or> is_digit c \<or> c \<in> set extra"

text \<open>Scanning from left to right; the fuel is the length of the text plus one.\<close>

fun replace_from :: "nat \<Rightarrow> rx \<Rightarrow> (rx_result \<Rightarrow> string) \<Rightarrow> string \<Rightarrow> string" where
  "replace_from 0 r f s = s"
| "replace_from (Suc n) r f s =
     (case rx_first r s of
        Some m \<Rightarrow>
          if rx_matched m \<noteq> [] then f m @ replace_from n r f (rx_rest m)
          else f m @ (case s of [] \<Rightarrow> [] | c # cs \<Rightarrow> c # replace_from n r f cs)
      | None \<Rightarrow> (case s of [] \<Rightarrow> [] | c # cs \<Rightarrow> c # replace_from n r f cs))"

definition replace_all :: "rx \<Rightarrow> (rx_result \<Rightarrow> string) \<Rightarrow> string \<Rightarrow> string" where
  "replace_all r f s = replace_from (Suc (length s)) r f s"

text \<open>\<open>re.test(text)\<close> for a pattern without anchors, and for one anchored at both ends.\<close>

definition rx_search :: "rx \<Rightarrow> string \<Rightarrow> bool" where
  "rx_search r s \<longleftrightarrow> list_ex (\<lambda>t. rx_match r t \<noteq> []) (suffixes s)"

definition rx_whole :: "rx \<Rightarrow> string \<Rightarrow> bool" where
  "rx_whole r s \<longleftrightarrow> list_ex (\<lambda>m. rx_rest m = []) (rx_match r s)"

section \<open>A match splits the text\<close>

lemma rx_match_split: "m \<in> set (rx_match r s) \<Longrightarrow> s = rx_matched m @ rx_rest m"
proof (induction r arbitrary: s m)
  case (Cls p)
  then show ?case by (auto split: list.splits if_splits)
next
  case (AtEnd)
  then show ?case by (auto split: if_splits)
next
  case (Ahead p)
  then show ?case by (auto split: if_splits)
next
  case (Cat a b)
  then show ?case by fastforce
qed (auto split: if_splits)

lemma rx_first_split: "rx_first r s = Some m \<Longrightarrow> s = rx_matched m @ rx_rest m"
  using rx_match_split [of m r s] by (auto simp: rx_first_def split: list.splits)

text \<open>The fuel is enough: more of it changes nothing.\<close>

lemma replace_from_fuel:
  "length s < n \<Longrightarrow> replace_from (n + k) r f s = replace_from n r f s"
proof (induction n arbitrary: s)
  case (Suc n)
  have tl: "replace_from (n + k) r f cs = replace_from n r f cs" if "s = c # cs" for c cs
    using Suc that by simp
  show ?case
  proof (cases "rx_first r s")
    case None
    then show ?thesis by (simp add: tl split: list.split)
  next
    case (Some m)
    note split = rx_first_split [OF Some]
    show ?thesis
    proof (cases "rx_matched m = []")
      case True
      then show ?thesis by (simp add: Some tl split: list.split)
    next
      case False
      have "length s = length (rx_matched m) + length (rx_rest m)"
        using arg_cong [OF split, of length] by simp
      with False Suc.prems have "length (rx_rest m) < n" by (cases "rx_matched m") auto
      with Suc.IH Some False show ?thesis by simp
    qed
  qed
qed simp

lemma replace_from_none:
  "length s < n \<Longrightarrow> list_all (\<lambda>t. rx_first r t = None) (suffixes s) \<Longrightarrow> replace_from n r f s = s"
proof (induction n arbitrary: s)
  case (Suc n)
  then show ?case by (cases s) (auto simp: list_all_iff)
qed simp

lemma replace_none: "list_all (\<lambda>t. rx_first r t = None) (suffixes s) \<Longrightarrow> replace_all r f s = s"
  by (simp add: replace_all_def replace_from_none del: replace_from.simps)

end
