(* ===== verification/Log.thy ===== *)
theory Log
  imports Js_Regex
begin

text \<open>
  \<open>coordinator/src/log.ts\<close>: redaction and truncation of logged text, the rendering of error
  chains, the structured record a log call writes to its sinks with the once-per-outage failure
  warning, and the rotation of the log file.
\<close>

section \<open>Redaction\<close>

definition max_field_bytes :: nat where
  "max_field_bytes = 8192"

text \<open>UTF-8: a code below 128 takes one byte, every other code of the model two.\<close>

definition byte_length :: "string \<Rightarrow> nat" where
  "byte_length s = sum_list (map (\<lambda>c. if (of_char c :: nat) < 128 then 1 else 2) s)"

text \<open>The longest prefix within a number of bytes; a cut through a character drops it.\<close>

fun take_bytes :: "nat \<Rightarrow> string \<Rightarrow> string" where
  "take_bytes n [] = []"
| "take_bytes n (c # cs) =
     (let b = (if (of_char c :: nat) < 128 then 1 else 2)
      in if b \<le> n then c # take_bytes (n - b) cs else [])"

definition secret_key :: rx where
  "secret_key =
     alts [ilit ''TOKEN'', ilit ''SECRET'', ilit ''KEY'', ilit ''PASSWORD'', ilit ''AUTH'',
           ilit ''CREDENTIAL'']"

definition redact_value :: "string \<times> string \<Rightarrow> string \<Rightarrow> string" where
  "redact_value kv text =
     (if rx_search secret_key (fst kv) \<and> snd kv \<noteq> [] \<and> 6 \<le> length (trim (snd kv))
      then replace_all (lit (trim (snd kv))) (\<lambda>_. ''[REDACTED]'') text
      else text)"

definition private_key_rx :: rx where
  "private_key_rx =
     (let label = Rep (\<lambda>c. is_upper c \<or> c = CHR '' '') 0 True
      in seq [lit ''-----BEGIN '', label, lit ''PRIVATE KEY-----'', Rep (\<lambda>_. True) 0 False,
              Alt (seq [lit ''-----END '', label, lit ''PRIVATE KEY-----'']) AtEnd])"

definition bearer_rx :: rx where
  "bearer_rx =
     seq [Cap 1 (seq [ilit ''Bearer'', Rep is_space 1 True]),
          Rep (alnum_or ''_-.~+/'') 1 True, Rep (\<lambda>c. c = CHR ''='') 0 True]"

definition userinfo_rx :: rx where
  "userinfo_rx =
     seq [lit ''://'', Cap 1 (Rep (\<lambda>c. c \<noteq> CHR '':'' \<and> \<not> is_space c) 1 True), lit '':'',
          Cap 2 (Rep (\<lambda>c. c \<noteq> CHR ''@'' \<and> \<not> is_space c) 1 True), lit ''@'']"

definition token_rx :: rx where
  "token_rx =
     alts
       [seq [lit ''gh'', Cls (\<lambda>c. c \<in> set ''pousr''), lit ''_'', Rep (alnum_or ''_'') 16 True],
        seq [lit ''github_pat_'', Rep (alnum_or ''_'') 22 True],
        seq [lit ''glpat-'', Rep (alnum_or ''-'') 20 True],
        seq [lit ''sk-'', opt (lit ''ant-''), Rep (alnum_or ''_-'') 20 True],
        seq [lit ''xox'', Cls (\<lambda>c. c \<in> set ''baprs''), lit ''-'', Rep (alnum_or ''-'') 10 True]]"

definition slack_rx :: rx where
  "slack_rx = seq [lit ''https://hooks.slack.com/services/'', Rep (alnum_or ''/_-'') 1 True]"

definition assignment_rx :: rx where
  "assignment_rx =
     seq [Cap 1 (seq
            [alts [ilit ''authorization'',
                   seq [ilit ''api'', opt (Cls (\<lambda>c. c \<in> set ''_-'')), ilit ''key''],
                   ilit ''password'', ilit ''token'', ilit ''secret''],
             Rep is_space 0 True, Cls (\<lambda>c. c \<in> set ''=:''), Rep is_space 0 True]),
          alts [seq [lit [CHR 0x22], Rep (\<lambda>c. c \<noteq> CHR 0x22) 0 True, lit [CHR 0x22]],
                seq [lit [CHR 0x27], Rep (\<lambda>c. c \<noteq> CHR 0x27) 0 True, lit [CHR 0x27]],
                Rep (\<lambda>c. \<not> is_space c \<and> c \<notin> set '',;'') 1 True]]"

definition redact_patterns :: "string \<Rightarrow> string" where
  "redact_patterns text =
     replace_all assignment_rx (\<lambda>m. group 1 m @ ''[REDACTED]'')
       (replace_all slack_rx (\<lambda>_. ''[REDACTED_SLACK_WEBHOOK]'')
         (replace_all token_rx (\<lambda>_. ''[REDACTED]'')
           (replace_all userinfo_rx (\<lambda>m. ''://'' @ group 1 m @ '':[REDACTED]@'')
             (replace_all bearer_rx (\<lambda>m. group 1 m @ ''[REDACTED]'')
               (replace_all private_key_rx (\<lambda>_. ''[REDACTED PRIVATE KEY]'') text)))))"

definition safeText :: "(string \<times> string) list \<Rightarrow> string \<Rightarrow> string" where
  "safeText environment text =
     (let result = redact_patterns (fold redact_value environment text)
      in if byte_length result \<le> max_field_bytes then result
         else take_bytes (max_field_bytes - 18) result @ ''...[TRUNCATED]'')"

section \<open>Error chains\<close>

text \<open>
  Errors are objects with an identity, which the check for cyclic causes compares: a reference
  into a heap of error objects. A non-error object is the value \<open>EvOther\<close>.
\<close>

datatype err_value = EvUndef | EvText string | EvOther | EvRef nat

record err_object =
  eo_stack :: "string option"
  eo_name :: string
  eo_message :: string
  eo_cause :: err_value

fun error_parts ::
    "nat \<Rightarrow> (nat \<Rightarrow> err_object) \<Rightarrow> (string \<times> string) list \<Rightarrow> nat list \<Rightarrow> err_value \<Rightarrow> string list" where
  "error_parts 0 heap env seen v = []"
| "error_parts (Suc n) heap env seen v =
     (case v of
        EvUndef \<Rightarrow> []
      | EvText s \<Rightarrow> [safeText env s]
      | EvOther \<Rightarrow> [''[non-Error cause omitted]'']
      | EvRef r \<Rightarrow>
          if r \<in> set seen then [''[cyclic cause]'']
          else (let ob = heap r
                in safeText env (case eo_stack ob of
                       Some st \<Rightarrow> st | None \<Rightarrow> eo_name ob @ '': '' @ eo_message ob)
                   # error_parts n heap env (r # seen) (eo_cause ob)))"

fun join_with :: "string \<Rightarrow> string list \<Rightarrow> string" where
  "join_with sep [] = []"
| "join_with sep [s] = s"
| "join_with sep (s # t # ss) = s @ sep @ join_with sep (t # ss)"

definition errorDetails ::
    "(nat \<Rightarrow> err_object) \<Rightarrow> (string \<times> string) list \<Rightarrow> err_value \<Rightarrow> string" where
  "errorDetails heap env v =
     safeText env (join_with (CHR 10 # ''Caused by: '') (error_parts 8 heap env [] v))"

section \<open>The structured logger\<close>

text \<open>
  A logger holds its bound fields and the set of sinks in an outage. Each sink of a call is given
  with its name and the failure of its write, if it fails; \<open>out\<close> collects the records written and
  \<open>warnings\<close> the failure records sent to the standard error stream.
\<close>

record logger =
  lo_environment :: "(string \<times> string) list"
  lo_name :: string
  lo_bound :: obj
  lo_failedSinks :: "string list"
  lo_out :: "(string \<times> obj) list"
  lo_warnings :: "(string \<times> string) list"

definition log_data :: "logger \<Rightarrow> obj \<Rightarrow> string \<Rightarrow> string \<Rightarrow> string \<Rightarrow> obj \<Rightarrow> string option \<Rightarrow> obj" where
  "log_data lo context now level message flds excInfo =
     (let base = [(''timestamp'', JStr now), (''level'', JStr level), (''logger'', JStr (lo_name lo)),
                  (''message'', JStr message), (''run_id'', JNull), (''task_key'', JNull),
                  (''model'', JNull), (''cost'', JNull)];
          data = obj_spread (obj_spread (obj_spread base (lo_bound lo)) context) flds;
          data' = (case excInfo of None \<Rightarrow> data | Some x \<Rightarrow> obj_set ''exc_info'' (JStr x) data)
      in map (\<lambda>(k, v). (k, case v of
            JStr s \<Rightarrow> JStr (safeText (lo_environment lo) s)
          | JNum n \<Rightarrow> if is_finite n then JNum n else JNull
          | _ \<Rightarrow> v)) data')"

definition reportFailure :: "string \<Rightarrow> string \<Rightarrow> logger \<Rightarrow> logger" where
  "reportFailure sink details lo =
     (if sink \<in> set (lo_failedSinks lo) then lo
      else lo\<lparr>lo_failedSinks := sink # lo_failedSinks lo,
              lo_warnings := lo_warnings lo @ [(sink, details)]\<rparr>)"

fun write_sinks :: "obj \<Rightarrow> (string \<times> string option) list \<Rightarrow> logger \<Rightarrow> logger" where
  "write_sinks line [] lo = lo"
| "write_sinks line ((name, failure) # sinks) lo =
     write_sinks line sinks
       (case failure of
          None \<Rightarrow> lo\<lparr>lo_out := lo_out lo @ [(name, line)],
                     lo_failedSinks := removeAll name (lo_failedSinks lo)\<rparr>
        | Some details \<Rightarrow> reportFailure name details lo)"

definition log_call ::
    "logger \<Rightarrow> obj \<Rightarrow> string \<Rightarrow> string \<Rightarrow> string \<Rightarrow> obj \<Rightarrow> string option \<Rightarrow>
     (string \<times> string option) list \<Rightarrow> logger" where
  "log_call lo context now level message flds excInfo sinks =
     (if level = ''DEBUG'' \<and> map_of (lo_environment lo) ''DEBUG'' \<noteq> Some ''true'' then lo
      else write_sinks (log_data lo context now level message flds excInfo) sinks
             (lo\<lparr>lo_failedSinks := removeAll ''format'' (lo_failedSinks lo)\<rparr>))"

definition child_logger :: "obj \<Rightarrow> logger \<Rightarrow> logger" where
  "child_logger flds lo = lo\<lparr>lo_bound := obj_spread (lo_bound lo) flds\<rparr>"

section \<open>File rotation\<close>

text \<open>The log file is number 0, its backup \<open>path.i\<close> number \<open>i\<close>; a missing file is \<open>None\<close>.\<close>

type_synonym log_files = "nat \<Rightarrow> string option"

definition rotate_step :: "nat \<Rightarrow> nat \<Rightarrow> log_files \<Rightarrow> log_files" where
  "rotate_step backups i fs =
     (let fs1 = (if i = backups \<and> fs i \<noteq> None then fs(i := None) else fs)
      in case fs1 (i - 1) of None \<Rightarrow> fs1 | Some s \<Rightarrow> fs1(i := Some s, i - 1 := None))"

definition rotate :: "nat \<Rightarrow> log_files \<Rightarrow> log_files" where
  "rotate backups fs =
     (let fs1 = fold (rotate_step backups) (rev [1 ..< Suc backups]) fs
      in if backups = 0 then fs1(0 := None) else fs1)"

definition file_write :: "nat \<Rightarrow> nat \<Rightarrow> string \<Rightarrow> log_files \<Rightarrow> log_files" where
  "file_write maxBytes backups line fs =
     (let fs1 = (case fs 0 of
                   None \<Rightarrow> fs
                 | Some s \<Rightarrow> if maxBytes < byte_length s + byte_length line then rotate backups fs else fs)
      in fs1(0 := Some ((case fs1 0 of None \<Rightarrow> [] | Some s \<Rightarrow> s) @ line)))"

section \<open>Bounds\<close>

lemma byte_length_append [simp]: "byte_length (a @ b) = byte_length a + byte_length b"
  by (simp add: byte_length_def)

lemma byte_length_Nil [simp]: "byte_length [] = 0"
  by (simp add: byte_length_def)

lemma take_bytes_bound: "byte_length (take_bytes n s) \<le> n"
  by (induction n s rule: take_bytes.induct) (auto simp: byte_length_def Let_def)

lemma take_bytes_prefix: "prefix (take_bytes n s) s"
  by (induction n s rule: take_bytes.induct) (auto simp: Let_def)

text \<open>Rotation moves every file up by one and drops the last.\<close>

lemma rotate_step_eq:
  "1 \<le> i \<Longrightarrow> i = backups \<or> fs i = None \<Longrightarrow> rotate_step backups i fs = fs(i := fs (i - 1), i - 1 := None)"
  by (auto simp: rotate_step_def Let_def fun_eq_iff split: option.split)

lemma rotate_steps:
  "n = backups \<or> fs n = None \<Longrightarrow> n \<le> backups \<Longrightarrow>
     fold (rotate_step backups) (rev [1 ..< Suc n]) fs =
       (\<lambda>i. if n = 0 \<or> n < i then fs i else if i = 0 then None else fs (i - 1))"
proof (induction n arbitrary: fs)
  case (Suc n)
  have "rev [1 ..< Suc (Suc n)] = Suc n # rev [1 ..< Suc n]" by simp
  then have "fold (rotate_step backups) (rev [1 ..< Suc (Suc n)]) fs =
      fold (rotate_step backups) (rev [1 ..< Suc n]) (fs(Suc n := fs n, n := None))"
    using Suc.prems rotate_step_eq [of "Suc n" backups fs] by simp
  also have "\<dots> = (\<lambda>i. if n = 0 \<or> n < i then (fs(Suc n := fs n, n := None)) i
      else if i = 0 then None else (fs(Suc n := fs n, n := None)) (i - 1))"
    by (rule Suc.IH) (use Suc.prems in auto)
  also have "\<dots> = (\<lambda>i. if Suc n = 0 \<or> Suc n < i then fs i else if i = 0 then None else fs (i - 1))"
    by (auto simp: fun_eq_iff)
  finally show ?case .
qed simp

lemma rotate_eq:
  "rotate backups fs = (\<lambda>i. if backups < i then fs i else if i = 0 then None else fs (i - 1))"
  using rotate_steps [of backups backups fs] by (auto simp: rotate_def Let_def fun_eq_iff)

lemma write_sinks_append:
  "write_sinks line (xs @ ys) lo = write_sinks line ys (write_sinks line xs lo)"
  by (induction line xs lo rule: write_sinks.induct) auto

lemma removeAll_failed: "sink \<in> set xs \<Longrightarrow> other \<noteq> sink \<Longrightarrow> sink \<in> set (removeAll other xs)"
  by simp

section \<open>Properties\<close>

text \<open>
  A redacted text never exceeds the field limit in bytes, whatever the environment and the
  text are; the truncation mark is part of the bound.
\<close>

theorem safeText_bounded: "byte_length (safeText environment text) \<le> max_field_bytes"
proof -
  have "byte_length ''...[TRUNCATED]'' \<le> 18" by (simp add: byte_length_def)
  moreover have "byte_length (take_bytes (max_field_bytes - 18) r) \<le> max_field_bytes - 18" for r
    by (rule take_bytes_bound)
  moreover have "18 \<le> max_field_bytes" by (simp add: max_field_bytes_def)
  ultimately have "byte_length (take_bytes (max_field_bytes - 18) r @ ''...[TRUNCATED]'') \<le> max_field_bytes" for r
    unfolding byte_length_append by (meson add_mono le_diff_conv2 order_trans add_le_cancel_left)
  then show ?thesis by (simp add: safeText_def Let_def)
qed

text \<open>
  The log file never grows past its limit except by a single longer line, a write appends the
  whole line, and rotation shifts each backup up by one, losing only the oldest.
\<close>

theorem file_write_rotates:
  "let fs' = file_write maxBytes backups line fs; old = (case fs 0 of None \<Rightarrow> [] | Some s \<Rightarrow> s)
   in if fs 0 \<noteq> None \<and> maxBytes < byte_length old + byte_length line
      then fs' 0 = Some line \<and> (\<forall>i. fs' (Suc i) = (if i < backups then fs i else fs (Suc i)))
      else fs' 0 = Some (old @ line) \<and> (\<forall>i. fs' (Suc i) = fs (Suc i))"
  by (cases "fs 0") (auto simp: file_write_def rotate_eq Let_def)

end
