(* ===== verification/Progress_Log.thy ===== *)
theory Progress_Log
  imports Event_Ledger Log
begin

text \<open>
  The progress output of \<open>coordinator.ts\<close>: \<open>AssistantTextPreviewBuffer\<close>, which holds streamed
  assistant text until a boundary so that it is redacted as a whole, and \<open>logProgress\<close>, which turns
  an accepted event into at most one log line. The ellipsis the previews end with is a code above
  255; the model gives it the code 133.
\<close>

section \<open>Lines\<close>

record log_line =
  ll_level :: string
  ll_message :: string
  ll_fields :: obj

definition max_assistant_preview_length :: nat where
  "max_assistant_preview_length = 300"

definition max_assistant_text_buffer :: nat where
  "max_assistant_text_buffer = 16 * 1024"

definition ellipsis :: string where
  "ellipsis = [CHR 133]"

datatype activity_scope = RootScope | SubagentScope

fun scope_text :: "activity_scope \<Rightarrow> string" where
  "scope_text RootScope = ''root''"
| "scope_text SubagentScope = ''subagent''"

section \<open>The preview buffer\<close>

record buffered_text =
  bt_scope :: activity_scope
  bt_text :: string
  bt_truncated :: bool

record progress_log =
  pl_environment :: "(string \<times> string) list"
  pl_pending :: "(string \<times> buffered_text) list"
  pl_seenParts :: "string list"
  pl_lines :: "log_line list"

definition new_progress_log :: "(string \<times> string) list \<Rightarrow> progress_log" where
  "new_progress_log env = \<lparr>pl_environment = env, pl_pending = [], pl_seenParts = [], pl_lines = []\<rparr>"

definition add_line :: "string \<Rightarrow> string \<Rightarrow> obj \<Rightarrow> progress_log \<Rightarrow> progress_log" where
  "add_line level message flds P =
     P\<lparr>pl_lines := pl_lines P @ [\<lparr>ll_level = level, ll_message = message, ll_fields = flds\<rparr>]\<rparr>"

definition extend_text :: "string \<Rightarrow> activity_scope \<Rightarrow> string \<Rightarrow> progress_log \<Rightarrow> progress_log" where
  "extend_text scopeKey scope text P =
     (let current = (case map_of (pl_pending P) scopeKey of
                       Some b \<Rightarrow> b | None \<Rightarrow> \<lparr>bt_scope = scope, bt_text = [], bt_truncated = False\<rparr>);
          room = max_assistant_text_buffer - length (bt_text current);
          current' = (if bt_truncated current then current
                      else current\<lparr>bt_text := bt_text current @ take room text,
                                   bt_truncated := (room < length text)\<rparr>)
      in P\<lparr>pl_pending := AList.update scopeKey current' (pl_pending P)\<rparr>)"

definition appendDelta :: "string \<Rightarrow> activity_scope \<Rightarrow> string \<Rightarrow> string option \<Rightarrow> progress_log \<Rightarrow> progress_log" where
  "appendDelta scopeKey scope text partId P =
     extend_text scopeKey scope text
       (case partId of None \<Rightarrow> P | Some p \<Rightarrow> P\<lparr>pl_seenParts := List.insert p (pl_seenParts P)\<rparr>)"

definition appendPart :: "string \<Rightarrow> activity_scope \<Rightarrow> string \<Rightarrow> string option \<Rightarrow> progress_log \<Rightarrow> progress_log" where
  "appendPart scopeKey scope text partId P =
     (case partId of
        None \<Rightarrow> extend_text scopeKey scope text P
      | Some p \<Rightarrow>
          if p \<in> set (pl_seenParts P) then P
          else extend_text scopeKey scope text (P\<lparr>pl_seenParts := List.insert p (pl_seenParts P)\<rparr>))"

definition preview_of :: "(string \<times> string) list \<Rightarrow> string \<Rightarrow> bool \<Rightarrow> string" where
  "preview_of env text truncated =
     (let redacted = safeText env text; preview = take max_assistant_preview_length redacted
      in preview @ (if truncated \<or> length preview < length redacted then ellipsis else []))"

definition assistant_fields :: "activity_scope \<Rightarrow> string \<Rightarrow> obj" where
  "assistant_fields scope preview =
     [(''activity_scope'', JStr (scope_text scope)), (''text_preview'', JStr preview)]"

definition emit_text :: "activity_scope \<Rightarrow> string \<Rightarrow> bool \<Rightarrow> progress_log \<Rightarrow> progress_log" where
  "emit_text scope text truncated P =
     (if text = [] then P
      else add_line ''INFO'' ''Assistant text''
             (assistant_fields scope (preview_of (pl_environment P) text truncated)) P)"

definition flush :: "string \<Rightarrow> progress_log \<Rightarrow> progress_log" where
  "flush scopeKey P =
     (case map_of (pl_pending P) scopeKey of
        None \<Rightarrow> P
      | Some b \<Rightarrow>
          emit_text (bt_scope b) (bt_text b) (bt_truncated b)
            (P\<lparr>pl_pending := AList.delete scopeKey (pl_pending P)\<rparr>))"

definition flushAll :: "progress_log \<Rightarrow> progress_log" where
  "flushAll P = fold flush (map fst (pl_pending P)) P"

section \<open>Progress of an event\<close>

definition activity_scope_of :: "string list \<Rightarrow> rehor_event \<Rightarrow> activity_scope" where
  "activity_scope_of childSessionRefs e =
     (case ev_runtimeSessionRef e of
        Some r \<Rightarrow> if r \<noteq> [] \<and> r \<in> set childSessionRefs then SubagentScope else RootScope
      | None \<Rightarrow> RootScope)"

definition log_tool :: "activity_scope \<Rightarrow> obj \<Rightarrow> progress_log \<Rightarrow> progress_log" where
  "log_tool scope payload P =
     (let rawState = obj_get payload ''state'';
          isError = (obj_get payload ''isError'' = JBool True \<or> rawState = JStr ''failed'' \<or>
                     rawState = JStr ''error'');
          state = (if rawState = JStr ''started'' then ''started''
                   else if isError then ''failed'' else ''completed'');
          rawName = (case obj_get payload ''name'' of
                       JStr n \<Rightarrow> n
                     | _ \<Rightarrow> (case obj_get payload ''toolName'' of JStr n \<Rightarrow> n | _ \<Rightarrow> ''unknown''))
      in add_line (if isError then ''WARNING'' else ''INFO'')
           (if isError then ''Tool failed'' else ''Tool '' @ state)
           ([(''activity_scope'', JStr (scope_text scope)),
             (''tool_name'', JStr (take 200 (safeText (pl_environment P) rawName))),
             (''state'', JStr state)] @
            (case obj_get payload ''durationMs'' of
               JNum n \<Rightarrow> if is_finite n then [(''duration_ms'', JNum n)] else []
             | _ \<Rightarrow> []) @
            (if isError then [(''failed'', JBool True)] else [])) P)"

definition log_model :: "string \<Rightarrow> activity_scope \<Rightarrow> obj \<Rightarrow> progress_log \<Rightarrow> progress_log" where
  "log_model scopeKey scope payload P =
     (let phase = obj_get payload ''phase'';
          text = obj_get payload ''text'';
          partId = as_string (obj_get payload ''partId'')
      in if phase = JStr ''reasoning'' then P
         else if obj_get payload ''role'' = JStr ''assistant'' \<and> as_string text \<noteq> None
         then (let P1 = flush scopeKey P
               in add_line ''INFO'' ''Assistant text''
                    (assistant_fields scope (preview_of (pl_environment P1) (str_of text) False)) P1)
         else if phase = JStr ''text''
         then (case obj_get payload ''delta'' of
                 JStr delta \<Rightarrow> appendDelta scopeKey scope delta partId P
               | _ \<Rightarrow> (case text of
                         JStr t \<Rightarrow> appendPart scopeKey scope t partId P
                       | _ \<Rightarrow> P))
         else P)"

definition logProgress :: "rehor_event \<Rightarrow> string list \<Rightarrow> progress_log option \<Rightarrow> progress_log option" where
  "logProgress e childSessionRefs logging =
     (case logging of
        None \<Rightarrow> None
      | Some P \<Rightarrow>
          (let scopeKey = (case ev_runtimeSessionRef e of None \<Rightarrow> [] | Some r \<Rightarrow> r);
               scope = activity_scope_of childSessionRefs e;
               payload = ev_payload e
           in Some (if ev_kind e = ''terminal'' then flushAll P
                    else if ev_kind e = ''run''
                    then (let P1 = flush scopeKey P
                          in if obj_get payload ''state'' = JStr ''child_session_started''
                             then add_line ''INFO'' ''Subagent session started''
                                    [(''activity_scope'', JStr ''subagent'')] P1
                             else if obj_get payload ''state'' = JStr ''turn_started''
                             then add_line ''INFO'' ''Turn started''
                                    [(''activity_scope'', JStr (scope_text scope))] P1
                             else P1)
                    else if ev_kind e = ''model'' then log_model scopeKey scope payload P
                    else if ev_kind e = ''tool'' then log_tool scope payload (flush scopeKey P)
                    else P)))"

section \<open>Facts about the buffer\<close>

text \<open>What holds of the buffer: bounded texts, and complete unless marked as truncated.\<close>

definition progress_inv :: "progress_log \<Rightarrow> bool" where
  "progress_inv P \<longleftrightarrow>
     distinct (map fst (pl_pending P)) \<and>
     list_all (\<lambda>(_, b). length (bt_text b) \<le> max_assistant_text_buffer) (pl_pending P)"

lemma map_of_list_all: "list_all (\<lambda>(_, b). Q b) xs \<Longrightarrow> map_of xs k = Some b \<Longrightarrow> Q b"
  by (induction xs) (auto split: if_splits)

lemma list_all_update: "list_all (\<lambda>(_, b). Q b) xs \<Longrightarrow> Q b \<Longrightarrow> list_all (\<lambda>(_, b). Q b) (AList.update k b xs)"
  by (induction xs) auto

lemma list_all_delete: "list_all Q xs \<Longrightarrow> list_all Q (AList.delete k xs)"
  by (induction xs) auto

lemma distinct_delete: "distinct (map fst xs) \<Longrightarrow> distinct (map fst (AList.delete k xs))"
  by (rule AList.distinct_delete)

lemma extend_text_inv [wf_intros]: "progress_inv P \<Longrightarrow> progress_inv (extend_text k scope text P)"
  by (auto simp: progress_inv_def extend_text_def Let_def distinct_update
      dest: map_of_list_all [where Q = "\<lambda>b. length (bt_text b) \<le> max_assistant_text_buffer"]
      intro!: list_all_update split: option.split)

lemma add_line_pending [simp]: "pl_pending (add_line l m f P) = pl_pending P"
  by (simp add: add_line_def)

lemma emit_text_pending [simp]: "pl_pending (emit_text s t tr P) = pl_pending P"
  by (simp add: emit_text_def)

lemma flush_pending [simp]: "pl_pending (flush k P) = AList.delete k (pl_pending P)"
  by (auto simp: flush_def delete_id split: option.split dest!: map_of_eq_None_iff [THEN iffD1])

lemma flush_inv [wf_intros]: "progress_inv P \<Longrightarrow> progress_inv (flush k P)"
  by (simp add: progress_inv_def distinct_delete list_all_delete)

lemma flushes_pending: "pl_pending (fold flush ks P) = fold AList.delete ks (pl_pending P)"
  by (induction ks arbitrary: P) simp_all

lemma delete_all: "fst ` set xs \<subseteq> set ks \<Longrightarrow> fold AList.delete ks xs = []"
proof (induction ks arbitrary: xs)
  case (Cons k ks)
  have "fst ` set (AList.delete k xs) \<subseteq> set ks"
    using Cons.prems arg_cong [OF delete_keys [of k xs], of set] by auto
  then show ?case by (simp add: Cons.IH)
qed simp

lemma flushAll_pending [simp]: "pl_pending (flushAll P) = []"
  by (simp add: flushAll_def flushes_pending delete_all)

text \<open>The buffer of a scope holds the text streamed so far, up to the cap.\<close>

definition streamed :: "activity_scope \<Rightarrow> string \<Rightarrow> buffered_text" where
  "streamed scope t =
     \<lparr>bt_scope = scope, bt_text = take max_assistant_text_buffer t,
      bt_truncated = (max_assistant_text_buffer < length t)\<rparr>"

lemma extend_streamed:
  assumes "map_of (pl_pending P) k = (if t = [] \<and> fresh then None else Some (streamed scope t))"
  shows "map_of (pl_pending (extend_text k scope d P)) k = Some (streamed scope (t @ d))"
proof -
  have "take (max_assistant_text_buffer - length (take max_assistant_text_buffer t)) d =
      take (max_assistant_text_buffer - length t) d"
    by (cases "length t \<le> max_assistant_text_buffer") (simp_all add: min_def)
  with assms show ?thesis
    by (auto simp: extend_text_def streamed_def Let_def map_of_obj_set min_def)
qed

lemma appendDelta_frame [simp]:
  "pl_lines (appendDelta k scope d part P) = pl_lines P"
  "pl_environment (appendDelta k scope d part P) = pl_environment P"
  by (simp_all add: appendDelta_def extend_text_def Let_def split: option.split)

lemma appendDelta_streamed:
  assumes "map_of (pl_pending P) k = (if t = [] \<and> fresh then None else Some (streamed scope t))"
  shows "map_of (pl_pending (appendDelta k scope d part P)) k = Some (streamed scope (t @ d))"
  unfolding appendDelta_def by (rule extend_streamed [where fresh = fresh]) (simp add: assms split: option.split)

lemma deltas_streamed:
  "map_of (pl_pending P) k = Some (streamed scope t) \<Longrightarrow>
     map_of (pl_pending (fold (\<lambda>d. appendDelta k scope d part) ds P)) k = Some (streamed scope (t @ concat ds))"
proof (induction ds arbitrary: P t)
  case (Cons d ds)
  have "map_of (pl_pending (appendDelta k scope d part P)) k = Some (streamed scope (t @ d))"
    by (rule appendDelta_streamed [where fresh = False]) (simp add: Cons.prems)
  from Cons.IH [OF this] show ?case by simp
qed simp

lemma deltas_frame [simp]:
  "pl_lines (fold (\<lambda>d. appendDelta k scope d part) ds P) = pl_lines P"
  "pl_environment (fold (\<lambda>d. appendDelta k scope d part) ds P) = pl_environment P"
  by (induction ds arbitrary: P) simp_all

section \<open>Properties\<close>

text \<open>
  Streamed assistant text is redacted as a whole: the line that a flush logs depends on the
  concatenation of the deltas alone, so that no way of splitting a secret across deltas changes
  what is redacted, and text beyond the buffer's cap is dropped and marked.
\<close>

theorem streamed_text_redacted_whole:
  assumes "map_of (pl_pending P) k = None" and "concat ds \<noteq> []"
  shows "pl_lines (flush k (fold (\<lambda>d. appendDelta k scope d part) ds P)) = pl_lines P @
    [\<lparr>ll_level = ''INFO'', ll_message = ''Assistant text'',
      ll_fields = assistant_fields scope
        (preview_of (pl_environment P) (take max_assistant_text_buffer (concat ds))
          (max_assistant_text_buffer < length (concat ds)))\<rparr>]"
proof -
  from assms(2) obtain d ds' where ds: "ds = d # ds'" by (cases ds) auto
  have "map_of (pl_pending (appendDelta k scope d part P)) k = Some (streamed scope ([] @ d))"
    by (rule appendDelta_streamed [where fresh = True]) (simp add: assms(1))
  then have "map_of (pl_pending (fold (\<lambda>d. appendDelta k scope d part) ds P)) k =
      Some (streamed scope (concat ds))"
    by (simp add: ds deltas_streamed)
  moreover have "take max_assistant_text_buffer (concat ds) \<noteq> []"
    using assms(2) by (simp add: max_assistant_text_buffer_def)
  ultimately show ?thesis
    by (simp add: flush_def emit_text_def add_line_def streamed_def)
qed

theorem streamed_text_redacted_whole_witness:
  "pl_lines (flush [] (fold (\<lambda>d. appendDelta [] RootScope d None) [''ab'', ''cd''] (new_progress_log []))) =
   pl_lines (flush [] (fold (\<lambda>d. appendDelta [] RootScope d None) [''abcd''] (new_progress_log [])))"
  using streamed_text_redacted_whole [where P = "new_progress_log []" and k = "[]" and ds = "[''ab'', ''cd'']"
      and scope = RootScope and part = None]
    streamed_text_redacted_whole [where P = "new_progress_log []" and k = "[]" and ds = "[''abcd'']"
      and scope = RootScope and part = None]
  by (simp add: new_progress_log_def)

end
