(* ===== verification/Run_Validation.thy ===== *)
theory Run_Validation
  imports Run_Event
begin

text \<open>
  \<open>parseRehorRun\<close> of \<open>coordinator/src/domain/validation.ts\<close> with the schema
  \<open>rehor-run.v1.json\<close> it compiles: what a run command must look like, the typed run it yields, and
  that parsing the object of a valid run gives the run back.
\<close>

section \<open>The run schema\<close>

definition is_hex :: "char \<Rightarrow> bool" where
  "is_hex c \<longleftrightarrow> (let n = (of_char c :: nat) in
     (48 \<le> n \<and> n \<le> 57) \<or> (65 \<le> n \<and> n \<le> 70) \<or> (97 \<le> n \<and> n \<le> 102))"

definition sha256_hex :: "string \<Rightarrow> bool" where
  "sha256_hex s \<longleftrightarrow> length s = 64 \<and> list_all is_hex s"

text \<open>\<open>^[a-z][a-z0-9-]*$\<close>\<close>

definition is_lower_letter :: "char \<Rightarrow> bool" where
  "is_lower_letter c \<longleftrightarrow> (let n = (of_char c :: nat) in 97 \<le> n \<and> n \<le> 122)"

definition runtime_id_ok :: "string \<Rightarrow> bool" where
  "runtime_id_ok s \<longleftrightarrow>
     s \<noteq> [] \<and> is_lower_letter (hd s) \<and>
     list_all (\<lambda>c. is_lower_letter c \<or> is_digit c \<or> c = CHR ''-'') s"

fun is_str_that :: "(string \<Rightarrow> bool) \<Rightarrow> jsval \<Rightarrow> bool" where
  "is_str_that P (JStr s) = P s"
| "is_str_that P _ = False"

fun is_positive_num :: "jsval \<Rightarrow> bool" where
  "is_positive_num (JNum (Fin r)) = (0 < r)"
| "is_positive_num _ = False"

definition hash_ok :: "jsval \<Rightarrow> bool" where
  "hash_ok =
     obj_schema [''algorithm'', ''value'']
       (\<lambda>ob. obj_get ob ''algorithm'' = JStr ''sha256'' \<and> req_prop (is_str_that sha256_hex) ob ''value'')"

definition task_ok :: "jsval \<Rightarrow> bool" where
  "task_ok v \<longleftrightarrow>
     v = JNull \<or>
     obj_schema [''id'', ''key''] (\<lambda>ob. req_prop is_str1 ob ''id'' \<and> opt_prop is_str1 ob ''key'') v"

definition snapshot_ok :: "jsval \<Rightarrow> bool" where
  "snapshot_ok =
     obj_schema [''ref'', ''commitSha'', ''dirty'']
       (\<lambda>ob. req_prop is_str1 ob ''ref'' \<and> req_prop is_str1 ob ''commitSha'' \<and> req_prop is_bool ob ''dirty'')"

definition worktree_ok :: "jsval \<Rightarrow> bool" where
  "worktree_ok =
     obj_schema [''path'', ''repository'', ''snapshot'']
       (\<lambda>ob. req_prop is_str1 ob ''path'' \<and> req_prop is_str1 ob ''repository'' \<and>
            req_prop snapshot_ok ob ''snapshot'')"

definition provider_ok :: "jsval \<Rightarrow> bool" where
  "provider_ok =
     obj_schema [''id'', ''requestedModel'', ''reasoningEffort'']
       (\<lambda>ob. req_prop is_str1 ob ''id'' \<and> req_prop is_str1 ob ''requestedModel'' \<and>
            opt_prop is_str1 ob ''reasoningEffort'')"

definition limits_ok :: "jsval \<Rightarrow> bool" where
  "limits_ok =
     obj_schema [''timeoutMs'', ''budgetUsd'', ''maxOutputTokens'']
       (\<lambda>ob. req_prop (is_int_from 1) ob ''timeoutMs'' \<and> req_prop is_positive_num ob ''budgetUsd'' \<and>
            opt_prop (is_int_from 1) ob ''maxOutputTokens'')"

definition run_keys :: "string list" where
  "run_keys =
     [''schemaVersion'', ''runId'', ''attemptId'', ''instanceId'', ''label'', ''workflowId'', ''prompt'',
      ''task'', ''worktree'', ''instructionHash'', ''configHash'', ''policyHash'', ''runtimeId'',
      ''provider'', ''limits'', ''preflightPayloadRef'']"

definition run_schema_ok :: "jsval \<Rightarrow> bool" where
  "run_schema_ok =
     obj_schema run_keys
       (\<lambda>ob. obj_get ob ''schemaVersion'' = JStr ''1'' \<and>
            req_prop is_str1 ob ''runId'' \<and> req_prop is_str1 ob ''attemptId'' \<and>
            req_prop is_str1 ob ''instanceId'' \<and> req_prop is_str1 ob ''label'' \<and>
            req_prop is_str1 ob ''workflowId'' \<and> req_prop is_str1 ob ''prompt'' \<and>
            req_prop task_ok ob ''task'' \<and> req_prop worktree_ok ob ''worktree'' \<and>
            req_prop hash_ok ob ''instructionHash'' \<and> req_prop hash_ok ob ''configHash'' \<and>
            req_prop hash_ok ob ''policyHash'' \<and>
            opt_prop (is_str_that runtime_id_ok) ob ''runtimeId'' \<and>
            req_prop provider_ok ob ''provider'' \<and> req_prop limits_ok ob ''limits'' \<and>
            req_prop (\<lambda>v. v = JNull \<or> is_str1 v) ob ''preflightPayloadRef'')"

section \<open>The typed run\<close>

fun bool_of :: "jsval \<Rightarrow> bool" where
  "bool_of (JBool b) = b"
| "bool_of _ = False"

definition hash_of_obj :: "obj \<Rightarrow> content_hash" where
  "hash_of_obj ob =
     \<lparr>ch_algorithm = str_of (obj_get ob ''algorithm''), ch_value = str_of (obj_get ob ''value'')\<rparr>"

definition lowerHash :: "content_hash \<Rightarrow> content_hash" where
  "lowerHash h = h\<lparr>ch_value := to_lower (ch_value h)\<rparr>"

definition task_of :: "jsval \<Rightarrow> task_identity option" where
  "task_of v =
     (case v of
        JObj ob \<Rightarrow> Some \<lparr>tk_id = str_of (obj_get ob ''id''), tk_key = as_string (obj_get ob ''key'')\<rparr>
      | _ \<Rightarrow> None)"

definition worktree_of_obj :: "obj \<Rightarrow> worktree" where
  "worktree_of_obj ob =
     (let sn = obj_of (obj_get ob ''snapshot'')
      in \<lparr>wt_path = str_of (obj_get ob ''path''), wt_repository = str_of (obj_get ob ''repository''),
          wt_snapshot = \<lparr>sn_ref = str_of (obj_get sn ''ref''),
                         sn_commitSha = str_of (obj_get sn ''commitSha''),
                         sn_dirty = bool_of (obj_get sn ''dirty'')\<rparr>\<rparr>)"

definition provider_of_obj :: "obj \<Rightarrow> provider_selection" where
  "provider_of_obj ob =
     \<lparr>pv_id = str_of (obj_get ob ''id''), pv_requestedModel = str_of (obj_get ob ''requestedModel''),
      pv_reasoningEffort = as_string (obj_get ob ''reasoningEffort'')\<rparr>"

definition opt_nat_of :: "jsval \<Rightarrow> nat option" where
  "opt_nat_of v = (case v of JNum _ \<Rightarrow> Some (nat_of v) | _ \<Rightarrow> None)"

definition limits_of_obj :: "obj \<Rightarrow> run_limits" where
  "limits_of_obj ob =
     \<lparr>lm_timeoutMs = nat_of (obj_get ob ''timeoutMs''), lm_budgetUsd = rat_of (obj_get ob ''budgetUsd''),
      lm_maxOutputTokens = opt_nat_of (obj_get ob ''maxOutputTokens'')\<rparr>"

definition run_of_obj :: "obj \<Rightarrow> rehor_run" where
  "run_of_obj ob =
     \<lparr>rn_runId = str_of (obj_get ob ''runId''), rn_attemptId = str_of (obj_get ob ''attemptId''),
      rn_instanceId = str_of (obj_get ob ''instanceId''), rn_label = str_of (obj_get ob ''label''),
      rn_workflowId = str_of (obj_get ob ''workflowId''), rn_prompt = str_of (obj_get ob ''prompt''),
      rn_task = task_of (obj_get ob ''task''),
      rn_worktree = worktree_of_obj (obj_of (obj_get ob ''worktree'')),
      rn_instructionHash = lowerHash (hash_of_obj (obj_of (obj_get ob ''instructionHash''))),
      rn_configHash = lowerHash (hash_of_obj (obj_of (obj_get ob ''configHash''))),
      rn_policyHash = lowerHash (hash_of_obj (obj_of (obj_get ob ''policyHash''))),
      rn_runtimeId = as_string (obj_get ob ''runtimeId''),
      rn_provider = provider_of_obj (obj_of (obj_get ob ''provider'')),
      rn_limits = limits_of_obj (obj_of (obj_get ob ''limits'')),
      rn_preflightPayloadRef = as_string (obj_get ob ''preflightPayloadRef'')\<rparr>"

definition parseRehorRun :: "jsval \<Rightarrow> contract_error + rehor_run" where
  "parseRehorRun v =
     (if run_schema_ok v then Inr (run_of_obj (obj_of v)) else Inl (SchemaMismatch ''run''))"

section \<open>The object of a run\<close>

definition hash_to_obj :: "content_hash \<Rightarrow> obj" where
  "hash_to_obj h = [(''algorithm'', JStr (ch_algorithm h)), (''value'', JStr (ch_value h))]"

definition task_to_val :: "task_identity option \<Rightarrow> jsval" where
  "task_to_val t =
     (case t of
        None \<Rightarrow> JNull
      | Some t \<Rightarrow> JObj ((''id'', JStr (tk_id t)) # opt_entry ''key'' (opt_str (tk_key t))))"

definition worktree_to_obj :: "worktree \<Rightarrow> obj" where
  "worktree_to_obj w =
     [(''path'', JStr (wt_path w)), (''repository'', JStr (wt_repository w)),
      (''snapshot'', JObj [(''ref'', JStr (sn_ref (wt_snapshot w))),
                          (''commitSha'', JStr (sn_commitSha (wt_snapshot w))),
                          (''dirty'', JBool (sn_dirty (wt_snapshot w)))])]"

definition provider_to_obj :: "provider_selection \<Rightarrow> obj" where
  "provider_to_obj p =
     [(''id'', JStr (pv_id p)), (''requestedModel'', JStr (pv_requestedModel p))] @
     opt_entry ''reasoningEffort'' (opt_str (pv_reasoningEffort p))"

definition limits_to_obj :: "run_limits \<Rightarrow> obj" where
  "limits_to_obj l =
     [(''timeoutMs'', JNum (Fin (of_nat (lm_timeoutMs l)))), (''budgetUsd'', JNum (Fin (lm_budgetUsd l)))] @
     (case lm_maxOutputTokens l of None \<Rightarrow> [] | Some n \<Rightarrow> [(''maxOutputTokens'', JNum (Fin (of_nat n)))])"

definition run_to_obj :: "rehor_run \<Rightarrow> obj" where
  "run_to_obj r =
     [(''schemaVersion'', JStr ''1''), (''runId'', JStr (rn_runId r)), (''attemptId'', JStr (rn_attemptId r)),
      (''instanceId'', JStr (rn_instanceId r)), (''label'', JStr (rn_label r)),
      (''workflowId'', JStr (rn_workflowId r)), (''prompt'', JStr (rn_prompt r)),
      (''task'', task_to_val (rn_task r)), (''worktree'', JObj (worktree_to_obj (rn_worktree r))),
      (''instructionHash'', JObj (hash_to_obj (rn_instructionHash r))),
      (''configHash'', JObj (hash_to_obj (rn_configHash r))),
      (''policyHash'', JObj (hash_to_obj (rn_policyHash r)))] @
     opt_entry ''runtimeId'' (opt_str (rn_runtimeId r)) @
     [(''provider'', JObj (provider_to_obj (rn_provider r))),
      (''limits'', JObj (limits_to_obj (rn_limits r))),
      (''preflightPayloadRef'',
         (case rn_preflightPayloadRef r of None \<Rightarrow> JNull | Some s \<Rightarrow> JStr s))]"

section \<open>Valid runs\<close>

definition hash_valid :: "content_hash \<Rightarrow> bool" where
  "hash_valid h \<longleftrightarrow> ch_algorithm h = ''sha256'' \<and> sha256_hex (ch_value h)"

definition limits_valid :: "run_limits \<Rightarrow> bool" where
  "limits_valid l \<longleftrightarrow>
     1 \<le> lm_timeoutMs l \<and> lm_timeoutMs l \<le> max_safe_integer \<and> 0 < lm_budgetUsd l \<and>
     (case lm_maxOutputTokens l of None \<Rightarrow> True | Some n \<Rightarrow> 1 \<le> n \<and> n \<le> max_safe_integer)"

definition run_valid :: "rehor_run \<Rightarrow> bool" where
  "run_valid r \<longleftrightarrow>
     rn_runId r \<noteq> [] \<and> rn_attemptId r \<noteq> [] \<and> rn_instanceId r \<noteq> [] \<and> rn_label r \<noteq> [] \<and>
     rn_workflowId r \<noteq> [] \<and> rn_prompt r \<noteq> [] \<and>
     (case rn_task r of None \<Rightarrow> True | Some t \<Rightarrow> tk_id t \<noteq> [] \<and> tk_key t \<noteq> Some []) \<and>
     wt_path (rn_worktree r) \<noteq> [] \<and> wt_repository (rn_worktree r) \<noteq> [] \<and>
     sn_ref (wt_snapshot (rn_worktree r)) \<noteq> [] \<and> sn_commitSha (wt_snapshot (rn_worktree r)) \<noteq> [] \<and>
     hash_valid (rn_instructionHash r) \<and> hash_valid (rn_configHash r) \<and> hash_valid (rn_policyHash r) \<and>
     (case rn_runtimeId r of None \<Rightarrow> True | Some i \<Rightarrow> runtime_id_ok i) \<and>
     pv_id (rn_provider r) \<noteq> [] \<and> pv_requestedModel (rn_provider r) \<noteq> [] \<and>
     pv_reasoningEffort (rn_provider r) \<noteq> Some [] \<and>
     limits_valid (rn_limits r) \<and> rn_preflightPayloadRef r \<noteq> Some []"

definition lower_run :: "rehor_run \<Rightarrow> rehor_run" where
  "lower_run r =
     r\<lparr>rn_instructionHash := lowerHash (rn_instructionHash r), rn_configHash := lowerHash (rn_configHash r),
       rn_policyHash := lowerHash (rn_policyHash r)\<rparr>"

text \<open>Each part of a run's object satisfies its schema exactly when the part is valid.\<close>

lemma hash_ok_obj [simp]: "hash_ok (JObj (hash_to_obj h)) \<longleftrightarrow> hash_valid h"
  by (simp add: hash_ok_def obj_schema_def only_keys_def hash_to_obj_def req_prop_def hash_valid_def js_simps)

lemma hash_of_to [simp]: "hash_of_obj (hash_to_obj h) = h"
  by (simp add: hash_of_obj_def hash_to_obj_def js_simps)

lemma task_ok_val [simp]:
  "task_ok (task_to_val t) \<longleftrightarrow> (case t of None \<Rightarrow> True | Some t \<Rightarrow> tk_id t \<noteq> [] \<and> tk_key t \<noteq> Some [])"
  by (auto simp: task_ok_def task_to_val_def obj_schema_def req_prop_def opt_prop_def js_simps
      split: option.split)

lemma task_of_val [simp]: "task_of (task_to_val t) = t"
  by (simp add: task_of_def task_to_val_def js_simps split: option.split)

lemma worktree_ok_obj [simp]:
  "worktree_ok (JObj (worktree_to_obj w)) \<longleftrightarrow>
     wt_path w \<noteq> [] \<and> wt_repository w \<noteq> [] \<and> sn_ref (wt_snapshot w) \<noteq> [] \<and> sn_commitSha (wt_snapshot w) \<noteq> []"
  by (auto simp: worktree_ok_def snapshot_ok_def worktree_to_obj_def obj_schema_def req_prop_def js_simps)

lemma worktree_of_to [simp]: "worktree_of_obj (worktree_to_obj w) = w"
  by (simp add: worktree_of_obj_def worktree_to_obj_def js_simps)

lemma provider_ok_obj [simp]:
  "provider_ok (JObj (provider_to_obj p)) \<longleftrightarrow>
     pv_id p \<noteq> [] \<and> pv_requestedModel p \<noteq> [] \<and> pv_reasoningEffort p \<noteq> Some []"
  by (auto simp: provider_ok_def provider_to_obj_def obj_schema_def req_prop_def opt_prop_def js_simps)

lemma provider_of_to [simp]: "provider_of_obj (provider_to_obj p) = p"
  by (simp add: provider_of_obj_def provider_to_obj_def js_simps)

lemma limits_ok_obj [simp]: "limits_ok (JObj (limits_to_obj l)) \<longleftrightarrow> limits_valid l"
  by (auto simp: limits_ok_def limits_to_obj_def limits_valid_def obj_schema_def req_prop_def opt_prop_def
      js_simps split: option.split)

lemma limits_of_to [simp]: "limits_of_obj (limits_to_obj l) = l"
  by (simp add: limits_of_obj_def limits_to_obj_def opt_nat_of_def js_simps split: option.split)

lemma run_keys_obj: "only_keys run_keys (run_to_obj r)"
  by (simp add: run_to_obj_def run_keys_def)

lemma run_obj_get:
  "obj_get (run_to_obj r) ''schemaVersion'' = JStr ''1''"
  "obj_get (run_to_obj r) ''runId'' = JStr (rn_runId r)"
  "obj_get (run_to_obj r) ''attemptId'' = JStr (rn_attemptId r)"
  "obj_get (run_to_obj r) ''instanceId'' = JStr (rn_instanceId r)"
  "obj_get (run_to_obj r) ''label'' = JStr (rn_label r)"
  "obj_get (run_to_obj r) ''workflowId'' = JStr (rn_workflowId r)"
  "obj_get (run_to_obj r) ''prompt'' = JStr (rn_prompt r)"
  "obj_get (run_to_obj r) ''task'' = task_to_val (rn_task r)"
  "obj_get (run_to_obj r) ''worktree'' = JObj (worktree_to_obj (rn_worktree r))"
  "obj_get (run_to_obj r) ''instructionHash'' = JObj (hash_to_obj (rn_instructionHash r))"
  "obj_get (run_to_obj r) ''configHash'' = JObj (hash_to_obj (rn_configHash r))"
  "obj_get (run_to_obj r) ''policyHash'' = JObj (hash_to_obj (rn_policyHash r))"
  "obj_get (run_to_obj r) ''runtimeId'' = opt_str (rn_runtimeId r)"
  "obj_get (run_to_obj r) ''provider'' = JObj (provider_to_obj (rn_provider r))"
  "obj_get (run_to_obj r) ''limits'' = JObj (limits_to_obj (rn_limits r))"
  "obj_get (run_to_obj r) ''preflightPayloadRef'' =
     (case rn_preflightPayloadRef r of None \<Rightarrow> JNull | Some s \<Rightarrow> JStr s)"
  by (simp_all add: run_to_obj_def js_simps)

lemma is_str_that_opt_str [simp]:
  "is_str_that P (opt_str x) \<longleftrightarrow> (case x of None \<Rightarrow> False | Some s \<Rightarrow> P s)"
  by (cases x) auto

lemma run_schema_obj: "run_schema_ok (JObj (run_to_obj r)) \<longleftrightarrow> run_valid r"
  unfolding run_schema_ok_def obj_schema_def jsval.case req_prop_def opt_prop_def run_obj_get
  by (simp add: run_keys_obj run_valid_def split: option.split)

lemma run_of_to: "run_of_obj (run_to_obj r) = lower_run r"
  unfolding run_of_obj_def run_obj_get
  by (simp add: lower_run_def split: option.split)

lemma lower_hex: "is_hex c \<Longrightarrow> is_hex (lower_char c) \<and> lower_char (lower_char c) = lower_char c"
proof -
  assume "is_hex c"
  then have "(of_char c :: nat) \<in> {48..57} \<union> {65..70} \<union> {97..102}"
    by (auto simp: is_hex_def Let_def)
  then show ?thesis by (auto simp: is_hex_def lower_char_def Let_def)
qed

lemma lowerHash_valid: "hash_valid h \<Longrightarrow> hash_valid (lowerHash h) \<and> lowerHash (lowerHash h) = lowerHash h"
  using lower_hex by (auto simp: hash_valid_def lowerHash_def sha256_hex_def to_lower_def list_all_iff)

lemma lower_run_valid: "run_valid r \<Longrightarrow> run_valid (lower_run r) \<and> lower_run (lower_run r) = lower_run r"
  using lowerHash_valid by (simp add: run_valid_def lower_run_def)

lemma parse_run_to_obj:
  "parseRehorRun (JObj (run_to_obj r)) =
     (if run_valid r then Inr (lower_run r) else Inl (SchemaMismatch ''run''))"
  by (simp add: parseRehorRun_def run_schema_obj run_of_to)

section \<open>Whatever is parsed is valid\<close>

lemma obj_schemaD: "obj_schema ks P v \<Longrightarrow> P (obj_of v) \<and> v = JObj (obj_of v)"
  by (auto simp: obj_schema_def split: jsval.splits)

lemma hash_okD: "hash_ok v \<Longrightarrow> hash_valid (lowerHash (hash_of_obj (obj_of v)))"
proof -
  assume "hash_ok v"
  then have "hash_valid (hash_of_obj (obj_of v))"
    by (auto simp: hash_ok_def hash_valid_def hash_of_obj_def req_prop_def dest!: obj_schemaD
        elim!: is_str_that.elims)
  then show ?thesis by (simp add: lowerHash_valid)
qed

lemma hash_ok_lower: "hash_ok v \<Longrightarrow>
  lowerHash (lowerHash (hash_of_obj (obj_of v))) = lowerHash (hash_of_obj (obj_of v))"
proof -
  assume "hash_ok v"
  then have "hash_valid (hash_of_obj (obj_of v))"
    by (auto simp: hash_ok_def hash_valid_def hash_of_obj_def req_prop_def dest!: obj_schemaD
        elim!: is_str_that.elims)
  then show ?thesis by (simp add: lowerHash_valid)
qed

lemma task_okD: "task_ok v \<Longrightarrow>
  (case task_of v of None \<Rightarrow> True | Some t \<Rightarrow> tk_id t \<noteq> [] \<and> tk_key t \<noteq> Some [])"
  by (auto simp: task_ok_def task_of_def obj_schema_def split: jsval.splits
      dest: req_str1D opt_str1D str1_not_empty)

lemma worktree_okD:
  assumes "worktree_ok v"
  shows "wt_path (worktree_of_obj (obj_of v)) \<noteq> [] \<and> wt_repository (worktree_of_obj (obj_of v)) \<noteq> [] \<and>
    sn_ref (wt_snapshot (worktree_of_obj (obj_of v))) \<noteq> [] \<and>
    sn_commitSha (wt_snapshot (worktree_of_obj (obj_of v))) \<noteq> []"
proof -
  let ?ob = "obj_of v"
  from assms have w: "req_prop is_str1 ?ob ''path''" "req_prop is_str1 ?ob ''repository''"
    "snapshot_ok (obj_get ?ob ''snapshot'')"
    by (auto simp: worktree_ok_def req_prop_def [of snapshot_ok] dest!: obj_schemaD)
  let ?sn = "obj_of (obj_get ?ob ''snapshot'')"
  from w(3) have "req_prop is_str1 ?sn ''ref''" "req_prop is_str1 ?sn ''commitSha''"
    by (auto simp: snapshot_ok_def dest!: obj_schemaD)
  with w show ?thesis by (simp add: worktree_of_obj_def Let_def req_str1D)
qed

lemma provider_okD:
  assumes "provider_ok v"
  shows "pv_id (provider_of_obj (obj_of v)) \<noteq> [] \<and> pv_requestedModel (provider_of_obj (obj_of v)) \<noteq> [] \<and>
    pv_reasoningEffort (provider_of_obj (obj_of v)) \<noteq> Some []"
proof -
  let ?ob = "obj_of v"
  from assms have "req_prop is_str1 ?ob ''id''" "req_prop is_str1 ?ob ''requestedModel''"
    "opt_prop is_str1 ?ob ''reasoningEffort''"
    by (auto simp: provider_ok_def dest!: obj_schemaD)
  then show ?thesis by (simp add: provider_of_obj_def req_str1D opt_str1D str1_not_empty)
qed

lemma limits_okD:
  assumes "limits_ok v"
  shows "limits_valid (limits_of_obj (obj_of v))"
proof -
  let ?ob = "obj_of v"
  from assms have l: "req_prop (is_int_from 1) ?ob ''timeoutMs''" "req_prop is_positive_num ?ob ''budgetUsd''"
    "opt_prop (is_int_from 1) ?ob ''maxOutputTokens''"
    by (auto simp: limits_ok_def dest!: obj_schemaD)
  from l(2) have "0 < rat_of (obj_get ?ob ''budgetUsd'')"
    by (auto simp: req_prop_def elim!: is_positive_num.elims)
  moreover from l(3) have "case opt_nat_of (obj_get ?ob ''maxOutputTokens'') of
      None \<Rightarrow> True | Some n \<Rightarrow> 1 \<le> n \<and> n \<le> max_safe_integer"
    by (auto simp: opt_prop_def opt_nat_of_def is_int_from_iff)
  ultimately show ?thesis using req_intD [OF l(1)] by (simp add: limits_of_obj_def limits_valid_def)
qed

lemma runtime_idD:
  "opt_prop (is_str_that runtime_id_ok) ob k \<Longrightarrow>
     (case as_string (obj_get ob k) of None \<Rightarrow> True | Some i \<Rightarrow> runtime_id_ok i)"
  by (auto simp: opt_prop_def elim!: is_str_that.elims split: option.split)

lemma preflight_refD:
  "req_prop (\<lambda>v. v = JNull \<or> is_str1 v) ob k \<Longrightarrow> as_string (obj_get ob k) \<noteq> Some []"
  by (auto simp: req_prop_def is_str1_iff)

lemma parse_run_valid:
  assumes "parseRehorRun v = Inr r"
  shows "run_valid r \<and> lower_run r = r"
proof -
  let ?ob = "obj_of v"
  from assms have ok: "run_schema_ok v" and r: "r = run_of_obj ?ob"
    by (auto simp: parseRehorRun_def split: if_splits)
  note f = obj_schemaD [OF ok [unfolded run_schema_ok_def], THEN conjunct1]
  have hashes: "hash_ok (obj_get ?ob ''instructionHash'')" "hash_ok (obj_get ?ob ''configHash'')"
    "hash_ok (obj_get ?ob ''policyHash'')" and t: "task_ok (obj_get ?ob ''task'')"
    and w: "worktree_ok (obj_get ?ob ''worktree'')" and p: "provider_ok (obj_get ?ob ''provider'')"
    and l: "limits_ok (obj_get ?ob ''limits'')"
    using f by (simp_all add: req_prop_def)
  from f have s: "req_prop is_str1 ?ob ''runId''" "req_prop is_str1 ?ob ''attemptId''"
    "req_prop is_str1 ?ob ''instanceId''" "req_prop is_str1 ?ob ''label''"
    "req_prop is_str1 ?ob ''workflowId''" "req_prop is_str1 ?ob ''prompt''"
    "opt_prop (is_str_that runtime_id_ok) ?ob ''runtimeId''"
    "req_prop (\<lambda>v. v = JNull \<or> is_str1 v) ?ob ''preflightPayloadRef''" by simp_all
  show ?thesis
    using task_okD [OF t] worktree_okD [OF w] provider_okD [OF p] limits_okD [OF l] hashes s
      runtime_idD [OF s(7)] preflight_refD [OF s(8)]
    by (simp add: r run_of_obj_def run_valid_def lower_run_def req_str1D hash_okD hash_ok_lower)
qed

section \<open>Properties\<close>

text \<open>
  Parsing a run is exact and idempotent: the object of a typed run parses exactly when the
  run is valid, yielding it with its hashes in lower case, and whatever parses is a valid run that
  parses again to itself.
\<close>

theorem run_parse_roundtrip:
  "parseRehorRun (JObj (run_to_obj run)) =
     (if run_valid run then Inr (lower_run run) else Inl (SchemaMismatch ''run'')) \<and>
   (case parseRehorRun v of
      Inl err \<Rightarrow> err = SchemaMismatch ''run''
    | Inr r \<Rightarrow> run_valid r \<and> parseRehorRun (JObj (run_to_obj r)) = Inr r)"
proof -
  have "run_valid r \<and> lower_run r = r" if "parseRehorRun v = Inr r" for r
    using that by (rule parse_run_valid)
  moreover have "err = SchemaMismatch ''run''" if "parseRehorRun v = Inl err" for err
    using that by (simp add: parseRehorRun_def split: if_splits)
  ultimately show ?thesis by (simp add: parse_run_to_obj split: sum.split)
qed

text \<open>
  C14. Parsing an event is exact and idempotent in the same sense: the object of a typed event
  parses exactly when it satisfies the schema, to the event itself, and whatever parses satisfies
  the schema and parses again to itself.
\<close>

theorem event_parse_roundtrip:
  "parseRehorEvent date_ok (JObj (event_to_obj e)) =
     (if event_valid date_ok e then Inr e else Inl (SchemaMismatch ''event'')) \<and>
   (case parseRehorEvent date_ok v of
      Inl err \<Rightarrow> err = SchemaMismatch ''event''
    | Inr e' \<Rightarrow> event_valid date_ok e' \<and> parseRehorEvent date_ok (JObj (event_to_obj e')) = Inr e')"
  using parse_event_valid [of date_ok v] parse_event_error [of date_ok v]
  by (simp add: parse_event_to_obj split: sum.split)

end
