(* ===== verification/Coordinator.thy ===== *)
theory Coordinator
  imports Usage_Budget Work_Context Abort_Cause Progress_Log Run_Validation
begin

text \<open>
  The attempt of \<open>coordinator/src/coordinator.ts\<close>: \<open>executeRun\<close> starts a runtime, consumes its
  event stream into the ledger, the projections and the cost policy, and ends with exactly one
  terminal event.

  The runtime adapter, the projection, the clock and the random ids are behind ports; what they
  do during one attempt is an \<open>attempt\<close>: whether \<open>start\<close> succeeds, the items its iterator yields
  interleaved with the abort signals that arrive, how it ends, which events the projection
  rejects, and whether \<open>stop\<close> fails. Every other step is the code's own. The result is \<open>None\<close> when
  a promise the coordinator awaits never settles, \<open>Inl\<close> when \<open>executeRun\<close> itself rejects.
\<close>

section \<open>Ports\<close>

datatype usage_guarantee = NoUsage | PartialUsage | FinalUsage | PartialAndFinalUsage

record runtime_capabilities =
  cap_runtimeId :: string
  cap_runtimeVersion :: string
  cap_configVersion :: string
  cap_streaming :: bool
  cap_interruption :: bool
  cap_enforcesTurnLimit :: bool
  cap_childSessions :: bool
  cap_toolSupport :: bool
  cap_mcpSupport :: bool
  cap_structuredOutput :: bool
  cap_usageGuarantee :: usage_guarantee

record projection_port =
  pp_onEvent :: "rehor_event \<Rightarrow> reason option"
  pp_onTerminal :: "rehor_event \<Rightarrow> reason option"

datatype script_item =
    Yields rehor_event
  | Signals signal_event
  | Rejects reason
  | Ends

record attempt =
  at_dateOk :: "string \<Rightarrow> bool"
  at_uuid :: "nat \<Rightarrow> string"
  at_now :: "nat \<Rightarrow> string"
  at_projection :: projection_port
  at_signal :: "reason option option"
  at_shutdownSignal :: "reason option option"
  at_startSignals :: "signal_event list"
  at_start :: "(reason + runtime_capabilities) option"
  at_afterStart :: "signal_event list"
  at_script :: "script_item list"
  at_returnError :: "reason option"
  at_stopSignals :: "signal_event list"
  at_stopError :: reason
  at_terminalElapsed :: rat
  at_elapsed :: rat
  at_terminalNow :: string
  at_logging :: "progress_log option"

section \<open>Errors\<close>

definition contract_message :: "contract_error \<Rightarrow> string" where
  "contract_message e =
     (case e of
        SchemaMismatch path \<Rightarrow> path @ '' does not match schema''
      | AttributionMismatch \<Rightarrow> ''event attribution does not match run attempt''
      | WorkspaceMismatch \<Rightarrow> ''event workspace does not match run workspace''
      | ProviderMismatch \<Rightarrow> ''event provider does not match run provider''
      | ConflictingDuplicate i \<Rightarrow> ''conflicting duplicate event ID: '' @ i
      | TerminalAlreadyAccepted i \<Rightarrow> ''terminal event already accepted: '' @ i
      | SequenceAlreadyAccepted n i \<Rightarrow>
          ''event sequence already accepted: '' @ show_nat n @ '' ('' @ i @ '')''
      | TerminalMissing \<Rightarrow> ''terminal event missing''
      | NotTerminal \<Rightarrow> ''event.kind must be terminal''
      | NotRetained \<Rightarrow> ''accepted event was not retained by ledger''
      | BadStartSequence \<Rightarrow> ''startSequence must be a non-negative safe integer'')"

definition contract_reason :: "contract_error \<Rightarrow> reason" where
  "contract_reason e = RError ''RuntimeContractError'' (contract_message e) False"

definition coordinator_abort :: "abort_cause \<Rightarrow> reason" where
  "coordinator_abort c = RError ''CoordinatorAbort'' (abortMessage c) False"

section \<open>Rewriting events on their way to the ledger\<close>

definition mapRuntimeTerminal :: "abort_cause option \<Rightarrow> rehor_event \<Rightarrow> rehor_event" where
  "mapRuntimeTerminal cause e =
     (if ev_kind e \<noteq> ''terminal'' then e
      else if obj_get (ev_payload e) ''state'' \<noteq> JStr ''failed'' \<or> cause = None then e
      else e\<lparr>ev_payload :=
               obj_set ''reason'' (JStr (terminalReason cause RUndef))
                 (obj_set ''state'' (JStr (terminal_state_text (terminalState cause))) (ev_payload e))\<rparr>)"

text \<open>\<open>while (acceptedSequences.has(sequence)) sequence += 1\<close>\<close>

lemma card_taken_decreases:
  "n \<in> set taken \<Longrightarrow> card {k \<in> set taken. Suc n \<le> k} < card {k \<in> set taken. n \<le> k}"
proof (rule psubset_card_mono)
  assume n: "n \<in> set taken"
  show "{k \<in> set taken. Suc n \<le> k} \<subset> {k \<in> set taken. n \<le> k}"
  proof
    show "{k \<in> set taken. Suc n \<le> k} \<subseteq> {k \<in> set taken. n \<le> k}"
      by (intro Collect_mono) simp
    show "{k \<in> set taken. Suc n \<le> k} \<noteq> {k \<in> set taken. n \<le> k}"
      using n by (metis (mono_tags, lifting) Suc_n_not_le_n le_refl mem_Collect_eq)
  qed
qed simp

function next_free :: "nat list \<Rightarrow> nat \<Rightarrow> nat" where
  "next_free taken n = (if n \<in> set taken then next_free taken (Suc n) else n)"
  by pat_completeness auto
termination
  by (relation "measure (\<lambda>(taken, n). card {k \<in> set taken. n \<le> k})")
    (simp_all add: card_taken_decreases del: Collect_conj_eq)

declare next_free.simps [simp del]

definition sequenceAfterCoordinatorEvents :: "nat \<Rightarrow> nat list \<Rightarrow> rehor_event \<Rightarrow> rehor_event" where
  "sequenceAfterCoordinatorEvents offset taken e =
     (if offset = 0 then e else e\<lparr>ev_sequence := next_free taken (ev_sequence e + offset)\<rparr>)"

definition nextSequence :: "rehor_event list \<Rightarrow> nat" where
  "nextSequence es = fold (\<lambda>e m. max m (ev_sequence e)) es 0 + 1"

definition createTerminalEvent ::
    "rehor_run \<Rightarrow> nat \<Rightarrow> terminal_state \<Rightarrow> string \<Rightarrow> rat \<Rightarrow> string \<Rightarrow> rehor_event" where
  "createTerminalEvent run sq state why duration now =
     \<lparr>ev_eventId = ''coordinator-terminal-'' @ rn_attemptId run,
      ev_runId = rn_runId run, ev_attemptId = rn_attemptId run, ev_sequence = sq,
      ev_occurredAt = now, ev_kind = ''terminal'', ev_runtimeSessionRef = None,
      ev_parentEventId = None, ev_workspace = run_workspace run,
      ev_provider = pv_id (rn_provider run), ev_model = pv_requestedModel (rn_provider run),
      ev_policyVersion = ch_value (rn_policyHash run),
      ev_payload = [(''state'', JStr (terminal_state_text state)), (''reason'', JStr why),
                    (''durationMs'', JNum (Fin duration))],
      ev_rawEventRef = None\<rparr>"

definition duration_ms :: "rat \<Rightarrow> rat" where
  "duration_ms elapsed = of_int (max 0 \<lfloor>elapsed\<rfloor>)"

definition policy_payload :: "cost_policy_event \<Rightarrow> obj" where
  "policy_payload p =
     [(''state'', JStr (cost_state_text (cp_state p))), (''label'', JStr (cp_label p)),
      (''usedUsd'', JNum (Fin (cp_usedUsd p))), (''budgetUsd'', JNum (Fin (cp_budgetUsd p))),
      (''message'', JStr (cp_message p))]"

section \<open>Consuming the runtime's events\<close>

record consumer =
  co_ledger :: event_ledger
  co_workContext :: work_context_tracker
  co_budget :: cost_budget
  co_signals :: combined_signals
  co_offset :: nat
  co_acceptedSequences :: "nat list"
  co_childSessionRefs :: "string list"
  co_logging :: "progress_log option"
  co_projected :: "rehor_event list"
  co_notices :: "string list"
  co_draws :: nat

definition abort_now :: "abort_cause \<Rightarrow> consumer \<Rightarrow> consumer" where
  "abort_now c S = S\<lparr>co_signals := cs_abort c (co_signals S)\<rparr>"

definition accept :: "attempt \<Rightarrow> rehor_event \<Rightarrow> consumer \<Rightarrow> (reason + rehor_event option) \<times> consumer" where
  "accept A e S =
     (case ingest_event (at_dateOk A) (co_ledger S) e of
        Inl err \<Rightarrow> (Inl (contract_reason err), S)
      | Inr (L, r) \<Rightarrow>
          if \<not> ir_accepted r then (Inr None, S\<lparr>co_ledger := L\<rparr>)
          else (case drop (length (lg_receivedInOrder (co_ledger S))) (lg_receivedInOrder L) of
                  [] \<Rightarrow> (Inl (contract_reason NotRetained), S\<lparr>co_ledger := L\<rparr>)
                | retained # _ \<Rightarrow>
                    (Inr (Some retained),
                     S\<lparr>co_ledger := L,
                       co_acceptedSequences := List.insert (ev_sequence retained) (co_acceptedSequences S)\<rparr>)))"

definition projectEvent :: "attempt \<Rightarrow> rehor_event \<Rightarrow> consumer \<Rightarrow> reason option \<times> consumer" where
  "projectEvent A e S =
     (case pp_onEvent (at_projection A) e of
        Some r \<Rightarrow> (Some r, S\<lparr>co_projected := co_projected S @ [e]\<rparr>)
      | None \<Rightarrow>
          (if is_terminal e then pp_onTerminal (at_projection A) e else None,
           S\<lparr>co_projected := co_projected S @ [e]\<rparr>))"

definition emitPolicy ::
    "attempt \<Rightarrow> rehor_run \<Rightarrow> cost_policy_event \<Rightarrow> rehor_event \<Rightarrow> consumer \<Rightarrow> reason option \<times> consumer" where
  "emitPolicy A run policy parent S0 =
     (case createEventFactory run (ch_value (rn_policyHash run))
             (Some (Fin (of_nat (nextSequence (lg_receivedInOrder (co_ledger S0)) - 1)))) of
        Inl err \<Rightarrow> (Some (contract_reason err), S0)
      | Inr f \<Rightarrow>
          (let (policyEvent, _) =
                 createEvent f (at_uuid A (co_draws S0)) (at_now A (co_draws S0)) ''policy''
                   (policy_payload policy)
                   (no_overrides\<lparr>ov_runtimeSessionRef := ev_runtimeSessionRef parent,
                                 ov_parentEventId := Some (ev_eventId parent)\<rparr>)
           in (case accept A policyEvent (S0\<lparr>co_draws := co_draws S0 + 1\<rparr>) of
                 (Inl r, S1) \<Rightarrow> (Some r, S1)
               | (Inr None, S1) \<Rightarrow> (None, S1)
               | (Inr (Some accepted), S1) \<Rightarrow>
                   projectEvent A accepted (S1\<lparr>co_offset := co_offset S1 + 1\<rparr>))))"

definition budget_exceeded :: abort_cause where
  "budget_exceeded = \<lparr>ac_kind = FailedKind, ac_reason = RText ''budget_exceeded''\<rparr>"

definition observe_usage :: "attempt \<Rightarrow> rehor_run \<Rightarrow> rehor_event \<Rightarrow> consumer \<Rightarrow> reason option \<times> consumer" where
  "observe_usage A run e S0 =
     (let (budget, policy) = cb_observe (co_budget S0) (usage_of_payload (ev_payload e));
          S1 = S0\<lparr>co_budget := budget\<rparr>;
          (failed, S2) =
            (case policy of
               None \<Rightarrow> (None, S1)
             | Some p \<Rightarrow>
                 (case emitPolicy A run p e S1 of
                    (Some r, S) \<Rightarrow> (Some r, S)
                  | (None, S) \<Rightarrow> (None, S\<lparr>co_notices := co_notices S @ [cp_message p]\<rparr>)))
      in case failed of
           Some r \<Rightarrow> (Some r, S2)
         | None \<Rightarrow>
             (None, if hardLimitReached (co_budget S2) then abort_now budget_exceeded S2 else S2))"

definition child_session :: "rehor_event \<Rightarrow> string list \<Rightarrow> string list" where
  "child_session e refs =
     (case ev_runtimeSessionRef e of
        Some r \<Rightarrow>
          if ev_kind e = ''run'' \<and> obj_get (ev_payload e) ''state'' = JStr ''child_session_started''
          then List.insert r refs else refs
      | None \<Rightarrow> refs)"

text \<open>The body of the loop of \<open>consumeEvents\<close> for one yielded event.\<close>

definition consume_event :: "attempt \<Rightarrow> rehor_run \<Rightarrow> rehor_event \<Rightarrow> consumer \<Rightarrow> reason option \<times> consumer" where
  "consume_event A run raw S0 =
     (let (enriched, tracker) =
            enrichTerminal (mapRuntimeTerminal (cs_cause (co_signals S0)) raw) (co_workContext S0);
          sequenced = sequenceAfterCoordinatorEvents (co_offset S0) (co_acceptedSequences S0) enriched
      in case accept A sequenced (S0\<lparr>co_workContext := tracker\<rparr>) of
           (Inl r, S1) \<Rightarrow> (Some r, S1)
         | (Inr None, S1) \<Rightarrow> (None, S1)
         | (Inr (Some e), S1) \<Rightarrow>
             (let refs = child_session e (co_childSessionRefs S1);
                  S2 = S1\<lparr>co_workContext := wc_observe e (co_workContext S1),
                         co_childSessionRefs := refs,
                         co_logging := logProgress e refs (co_logging S1)\<rparr>
              in case projectEvent A e S2 of
                   (Some r, S3) \<Rightarrow> (Some r, S3)
                 | (None, S3) \<Rightarrow>
                     if ev_kind e = ''usage'' then observe_usage A run e S3 else (None, S3)))"

text \<open>\<open>None\<close>: the iterator never settles. \<open>iterator.return\<close> may replace the outcome.\<close>

fun consume :: "attempt \<Rightarrow> rehor_run \<Rightarrow> script_item list \<Rightarrow> consumer \<Rightarrow> (reason option \<times> consumer) option" where
  "consume A run [] S = None"
| "consume A run (item # items) S =
     (let leave = (\<lambda>out. case at_returnError A of None \<Rightarrow> out | Some r \<Rightarrow> Some r)
      in case item of
           Yields e \<Rightarrow>
             (case consume_event A run e S of
                (None, S') \<Rightarrow> consume A run items S'
              | (Some r, S') \<Rightarrow> Some (leave (Some r), S'))
         | Signals x \<Rightarrow> consume A run items (S\<lparr>co_signals := signal_step x (co_signals S)\<rparr>)
         | Rejects r \<Rightarrow> Some (leave (Some r), S)
         | Ends \<Rightarrow> Some (leave None, S))"

section \<open>One attempt\<close>

record coordinator_result =
  cr_run :: rehor_run
  cr_capabilities :: "runtime_capabilities option"
  cr_events :: "rehor_event list"
  cr_terminal :: rehor_event
  cr_durationMs :: rat
  cr_error :: "reason option"

definition new_consumer :: "attempt \<Rightarrow> rehor_run \<Rightarrow> consumer" where
  "new_consumer A run =
     \<lparr>co_ledger = new_ledger run, co_workContext = new_work_context run,
      co_budget = new_cost_budget run,
      co_signals = combineAbortSignals (at_signal A) (at_shutdownSignal A),
      co_offset = 0, co_acceptedSequences = [], co_childSessionRefs = [],
      co_logging = at_logging A, co_projected = [], co_notices = [], co_draws = 0\<rparr>"

definition step_signals :: "signal_event list \<Rightarrow> consumer \<Rightarrow> consumer" where
  "step_signals xs S = S\<lparr>co_signals := fold signal_step xs (co_signals S)\<rparr>"

text \<open>Starting and consuming: the capabilities, the failure so far and the state.\<close>

definition run_phase ::
    "attempt \<Rightarrow> rehor_run \<Rightarrow> (runtime_capabilities option \<times> reason \<times> consumer) option" where
  "run_phase A run =
     (let S0 = new_consumer A run
      in case cs_cause (co_signals S0) of
           Some c \<Rightarrow> Some (None, coordinator_abort c, S0)
         | None \<Rightarrow>
             (let S1 = step_signals (at_startSignals A) S0
              in case cs_cause (co_signals S1) of
                   Some c \<Rightarrow> Some (None, coordinator_abort c, S1)
                 | None \<Rightarrow>
                     (let S2 = step_signals (at_afterStart A) S1
                      in case at_start A of
                           None \<Rightarrow> None
                         | Some (Inl r) \<Rightarrow> Some (None, r, S2)
                         | Some (Inr caps) \<Rightarrow>
                             if cs_cause (co_signals S2) \<noteq> None then Some (Some caps, RUndef, S2)
                             else (case consume A run (at_script A) S2 of
                                     None \<Rightarrow> None
                                   | Some (out, S3) \<Rightarrow>
                                       Some (Some caps,
                                         (case cs_cause (co_signals S3) of
                                            Some c \<Rightarrow> coordinator_abort c
                                          | None \<Rightarrow> (case out of None \<Rightarrow> RUndef | Some r \<Rightarrow> r)),
                                         S3)))))"

text \<open>The checks after consumption and the \<open>finally\<close> block, up to the return of \<open>stop\<close>.\<close>

definition settle_phase :: "attempt \<Rightarrow> reason \<Rightarrow> consumer \<Rightarrow> reason \<times> consumer" where
  "settle_phase A failure0 S0 =
     (let failure1 = (case cs_cause (co_signals S0) of
                        Some c \<Rightarrow> if \<not> reason_truthy failure0 then coordinator_abort c else failure0
                      | None \<Rightarrow> failure0);
          missing = (\<not> reason_truthy failure1 \<and> lg_acceptedTerminalEvent (co_ledger S0) = None);
          failure2 = (if missing then missing_terminal_error else failure1);
          S1 = (if missing
                then abort_now \<lparr>ac_kind = FailedKind,
                                ac_reason = RText ''runtime ended without terminal event''\<rparr> S0
                else S0);
          S2 = (if reason_truthy failure2 \<and> cs_cause (co_signals S1) = None
                then abort_now \<lparr>ac_kind = FailedKind, ac_reason = RText (describeError failure2)\<rparr> S1
                else S1);
          S3 = step_signals (at_stopSignals A) S2;
          failure3 = (if at_stopError A \<noteq> RUndef \<and> \<not> reason_truthy failure2
                      then at_stopError A else failure2)
      in (failure3, S3))"

text \<open>The coordinator's own terminal, when the ledger has none.\<close>

definition close_ledger :: "attempt \<Rightarrow> rehor_run \<Rightarrow> reason \<Rightarrow> consumer \<Rightarrow> reason + reason \<times> consumer" where
  "close_ledger A run failure S0 =
     (if lg_acceptedTerminalEvent (co_ledger S0) \<noteq> None then Inr (failure, S0)
      else (let cause = cs_cause (co_signals S0);
                (terminal, tracker) =
                  enrichTerminal
                    (createTerminalEvent run (nextSequence (lg_receivedInOrder (co_ledger S0)))
                       (terminalState cause) (terminalReason cause failure)
                       (duration_ms (at_terminalElapsed A)) (at_terminalNow A))
                    (co_workContext S0);
                S1 = S0\<lparr>co_workContext := tracker\<rparr>
            in case ingest_event (at_dateOk A) (co_ledger S1) terminal of
                 Inl err \<Rightarrow> Inl (contract_reason err)
               | Inr (L, _) \<Rightarrow>
                   (case projectEvent A terminal (S1\<lparr>co_ledger := L\<rparr>) of
                      (None, S2) \<Rightarrow> Inr (failure, S2)
                    | (Some r, S2) \<Rightarrow> Inr (if \<not> reason_truthy failure then r else failure, S2))))"

definition finish_phase ::
    "attempt \<Rightarrow> rehor_run \<Rightarrow> runtime_capabilities option \<Rightarrow> reason \<Rightarrow> consumer \<Rightarrow>
     reason + coordinator_result \<times> consumer" where
  "finish_phase A run caps failure0 S0 =
     bindE (close_ledger A run failure0 S0) (\<lambda>(failure, S).
       case requireTerminal (co_ledger S) of
         Inl err \<Rightarrow> Inl (contract_reason err)
       | Inr terminal \<Rightarrow>
           (let surfaced = (if at_stopError A \<noteq> RUndef \<and> at_stopError A \<noteq> RNull then at_stopError A
                            else if shouldSurface failure (cs_cause (co_signals S0)) then failure else RUndef)
            in Inr (\<lparr>cr_run = run, cr_capabilities = caps,
                     cr_events = lg_receivedInOrder (co_ledger S), cr_terminal = terminal,
                     cr_durationMs = duration_ms (at_elapsed A),
                     cr_error = (if surfaced = RUndef then None else Some surfaced)\<rparr>, S)))"

definition executeRunWithValidatedInput ::
    "attempt \<Rightarrow> rehor_run \<Rightarrow> (reason + coordinator_result \<times> consumer) option" where
  "executeRunWithValidatedInput A run =
     (case run_phase A run of
        None \<Rightarrow> None
      | Some (caps, failure, S) \<Rightarrow>
          (let (failure', S') = settle_phase A failure S in Some (finish_phase A run caps failure' S')))"

definition executeRun :: "attempt \<Rightarrow> jsval \<Rightarrow> (reason + coordinator_result \<times> consumer) option" where
  "executeRun A input =
     (case parseRehorRun input of
        Inl err \<Rightarrow> Some (Inl (contract_reason err))
      | Inr run \<Rightarrow> executeRunWithValidatedInput A run)"

end
