(* ===== verification/Coordinator_Facts.thy ===== *)
theory Coordinator_Facts
  imports Coordinator
begin

text \<open>
  What an attempt of \<open>Coordinator\<close> guarantees: the invariant of the consumer is kept by every
  step of the loop, and the properties of \<open>executeRun\<close> follow from it.
\<close>

section \<open>The invariant of the consumer\<close>

text \<open>\<open>pending\<close> are the accepted events that are still to be projected.\<close>

definition consumer_inv :: "attempt \<Rightarrow> rehor_run \<Rightarrow> rehor_event list \<Rightarrow> consumer \<Rightarrow> bool" where
  "consumer_inv A run pending S \<longleftrightarrow>
     ledger_inv (at_dateOk A) (co_ledger S) \<and> lg_run (co_ledger S) = run \<and>
     lg_receivedInOrder (co_ledger S) = co_projected S @ pending \<and>
     set (co_acceptedSequences S) = ev_sequence ` set (lg_receivedInOrder (co_ledger S)) \<and>
     context_inv (wc_context (co_workContext S)) \<and>
     budget_inv (co_budget S) \<and> cb_run (co_budget S) = run"

lemma ingest_event_Inr:
  assumes "ingest_event d L e = Inr (L', r)"
  shows "event_valid d e \<and> ingest_parsed L e = Inr (L', r)"
  using assms by (simp add: ingest_event_eq split: if_splits)

lemma accept_event_events [simp]:
  "lg_receivedInOrder (accept_event L e) = lg_receivedInOrder L @ [e]"
  "lg_acceptedTerminalEvent (accept_event L e) =
     (if is_terminal e then Some e else lg_acceptedTerminalEvent L)"
  by (simp_all add: accept_event_def)

text \<open>The three outcomes of accepting an event.\<close>

lemma accept_cases:
  assumes "accept A e S = (out, S')"
  obtains (rejected) err where "out = Inl (contract_reason err)" "S' = S"
      "ingest_event (at_dateOk A) (co_ledger S) e = Inl err"
  | (ignored) "out = Inr None" "S' = S"
  | (accepted) "out = Inr (Some e)" "event_valid (at_dateOk A) e"
      "ingest_parsed (co_ledger S) e = Inr (accept_event (co_ledger S) e,
         \<lparr>ir_accepted = True, ir_duplicate = False,
          ir_outOfOrder = (ev_sequence e < lg_highestSequence (co_ledger S)), ir_afterTerminal = False\<rparr>)"
      "S' = S\<lparr>co_ledger := accept_event (co_ledger S) e,
              co_acceptedSequences := List.insert (ev_sequence e) (co_acceptedSequences S)\<rparr>"
proof (cases "ingest_event (at_dateOk A) (co_ledger S) e")
  case (Inl err)
  with assms show thesis by (intro rejected) (auto simp: accept_def)
next
  case (Inr p)
  obtain L r where p: "p = (L, r)" by (cases p)
  from ingest_event_Inr [OF Inr [unfolded p]]
  have valid: "event_valid (at_dateOk A) e" and ing: "ingest_parsed (co_ledger S) e = Inr (L, r)"
    by simp_all
  from ing show thesis
  proof (cases rule: ingest_parsed_cases)
    case acc: accepted
    have "r = \<lparr>ir_accepted = True, ir_duplicate = False,
          ir_outOfOrder = (ev_sequence e < lg_highestSequence (co_ledger S)), ir_afterTerminal = False\<rparr>"
      using ing acc(2) by (auto simp: ingest_parsed_def split: if_splits option.splits)
    with acc Inr p assms valid ing show thesis
      by (intro accepted) (auto simp: accept_def)
  qed (use Inr p assms in \<open>auto simp: accept_def intro!: ignored\<close>)
qed

lemma accept_pending:
  assumes "accept A e S = (out, S')" "consumer_inv A run [] S"
  shows "consumer_inv A run (case out of Inr (Some x) \<Rightarrow> [x] | _ \<Rightarrow> []) S'"
  using assms(1)
proof (cases rule: accept_cases)
  case accepted
  from accepted(3) have "ledger_inv (at_dateOk A) (accept_event (co_ledger S) e)"
    using ingest_parsed_inv [OF _ accepted(2,3)] assms(2) by (simp add: consumer_inv_def)
  with assms(2) show ?thesis
    by (simp add: accepted(1,4) consumer_inv_def accept_event_run)
next
  case rejected
  with assms(2) show ?thesis by simp
next
  case ignored
  with assms(2) show ?thesis by simp
qed

lemma projectEvent_inv:
  "projectEvent A e S = (out, S') \<Longrightarrow> consumer_inv A run [e] S \<Longrightarrow> consumer_inv A run [] S'"
  by (auto simp: projectEvent_def consumer_inv_def split: option.splits)

lemma consumer_inv_update:
  "consumer_inv A run p (S\<lparr>co_draws := n\<rparr>) = consumer_inv A run p S"
  "consumer_inv A run p (S\<lparr>co_offset := n\<rparr>) = consumer_inv A run p S"
  "consumer_inv A run p (S\<lparr>co_notices := ns\<rparr>) = consumer_inv A run p S"
  "consumer_inv A run p (S\<lparr>co_signals := sg\<rparr>) = consumer_inv A run p S"
  "consumer_inv A run p (S\<lparr>co_logging := lg\<rparr>) = consumer_inv A run p S"
  "consumer_inv A run p (S\<lparr>co_childSessionRefs := cr\<rparr>) = consumer_inv A run p S"
  by (simp_all add: consumer_inv_def)

lemma emitPolicy_inv:
  "emitPolicy A run p parent S = (out, S') \<Longrightarrow> consumer_inv A run [] S \<Longrightarrow> consumer_inv A run [] S'"
  by (auto simp: emitPolicy_def consumer_inv_update Let_def split: sum.splits prod.splits option.splits
      dest!: accept_pending [where run = run] projectEvent_inv [where run = run])

lemma observe_usage_inv:
  assumes "observe_usage A run e S = (out, S')" "consumer_inv A run [] S"
  shows "consumer_inv A run [] S'"
proof -
  obtain b pol where b: "cb_observe (co_budget S) (usage_of_payload (ev_payload e)) = (b, pol)" by fastforce
  have inv: "consumer_inv A run [] (S\<lparr>co_budget := b\<rparr>)"
    using assms(2) cb_observe_inv [of "co_budget S" "usage_of_payload (ev_payload e)"]
      cb_observe_frame(1) [of "co_budget S" "usage_of_payload (ev_payload e)"]
    by (simp add: consumer_inv_def b)
  have "consumer_inv A run [] S2" if "emitPolicy A run p e (S\<lparr>co_budget := b\<rparr>) = (f, S2)" for p f S2
    using that inv by (rule emitPolicy_inv)
  with assms(1) inv show ?thesis
    by (auto simp: observe_usage_def b abort_now_def consumer_inv_update Let_def
        split: option.splits prod.splits if_splits)
qed

lemma consumer_inv_tracker:
  "consumer_inv A run p S \<Longrightarrow> context_inv (wc_context W) \<Longrightarrow> consumer_inv A run p (S\<lparr>co_workContext := W\<rparr>)"
  by (simp add: consumer_inv_def)

lemma enrichTerminal_inv:
  "enrichTerminal e W = (e', W') \<Longrightarrow> context_inv (wc_context W) \<Longrightarrow> context_inv (wc_context W')"
  by (auto simp: enrichTerminal_def Let_def summarized_inv split: if_splits)

lemma consumer_inv_context: "consumer_inv A run p S \<Longrightarrow> context_inv (wc_context (co_workContext S))"
  by (simp add: consumer_inv_def)

lemma project_frame:
  "projectEvent A e S = (out, S') \<Longrightarrow>
     co_ledger S' = co_ledger S \<and> co_projected S' = co_projected S @ [e] \<and> co_budget S' = co_budget S \<and>
     co_signals S' = co_signals S \<and> co_offset S' = co_offset S \<and> co_draws S' = co_draws S"
  by (auto simp: projectEvent_def split: option.splits)

text \<open>The event the loop offers to the ledger, and the ways a turn of the loop can go.\<close>

definition offered_event :: "rehor_event \<Rightarrow> consumer \<Rightarrow> rehor_event" where
  "offered_event raw S =
     sequenceAfterCoordinatorEvents (co_offset S) (co_acceptedSequences S)
       (fst (enrichTerminal (mapRuntimeTerminal (cs_cause (co_signals S)) raw) (co_workContext S)))"

lemma consume_event_cases:
  assumes "consume_event A run raw S = (out, S')" "consumer_inv A run [] S"
  obtains (rejected) err W where "out = Some (contract_reason err)" "S' = S\<lparr>co_workContext := W\<rparr>"
      "ingest_event (at_dateOk A) (co_ledger S) (offered_event raw S) = Inl err" "consumer_inv A run [] S'"
  | (ignored) W where "out = None" "S' = S\<lparr>co_workContext := W\<rparr>" "consumer_inv A run [] S'"
  | (accepted) S3 where "ingest_parsed (co_ledger S) (offered_event raw S) =
        Inr (accept_event (co_ledger S) (offered_event raw S),
          \<lparr>ir_accepted = True, ir_duplicate = False,
           ir_outOfOrder = (ev_sequence (offered_event raw S) < lg_highestSequence (co_ledger S)),
           ir_afterTerminal = False\<rparr>)"
      "co_ledger S3 = accept_event (co_ledger S) (offered_event raw S)"
      "co_budget S3 = co_budget S" "co_signals S3 = co_signals S" "co_offset S3 = co_offset S"
      "co_draws S3 = co_draws S" "consumer_inv A run [] S3"
      "(\<exists>r. out = Some r \<and> S' = S3 \<and>
          (pp_onEvent (at_projection A) (offered_event raw S) = None \<longrightarrow> ev_kind raw = ''terminal'')) \<or>
       (ev_kind raw = ''usage'' \<and> observe_usage A run (offered_event raw S) S3 = (out, S')) \<or>
       (ev_kind raw \<noteq> ''usage'' \<and> out = None \<and> S' = S3)"
proof -
  obtain e W where en: "enrichTerminal (mapRuntimeTerminal (cs_cause (co_signals S)) raw) (co_workContext S) = (e, W)"
    by fastforce
  have sq: "sequenceAfterCoordinatorEvents (co_offset S) (co_acceptedSequences S) e = offered_event raw S"
    by (simp add: offered_event_def en)
  have "e = fst (enrichTerminal (mapRuntimeTerminal (cs_cause (co_signals S)) raw) (co_workContext S))"
    by (simp add: en)
  then have kind: "ev_kind (offered_event raw S) = ev_kind raw"
    by (simp add: offered_event_def sequenceAfterCoordinatorEvents_def enrichTerminal_def Let_def
        mapRuntimeTerminal_def)
  obtain res S1 where acc: "accept A (offered_event raw S) (S\<lparr>co_workContext := W\<rparr>) = (res, S1)" by fastforce
  have "context_inv (wc_context W)"
    using enrichTerminal_inv [OF en] consumer_inv_context [OF assms(2)] by simp
  with assms(2) have inv0: "consumer_inv A run [] (S\<lparr>co_workContext := W\<rparr>)" by (intro consumer_inv_tracker)
  show thesis
    using acc
  proof (cases rule: accept_cases)
    case (rejected err)
    then have out: "out = Some (contract_reason err)" "S' = S\<lparr>co_workContext := W\<rparr>"
      using assms(1) en acc by (simp_all add: consume_event_def sq)
    from rejected(3) inv0 show thesis by (intro that(1) [OF out]) (simp_all add: out)
  next
    case ignored
    then have out: "out = None" "S' = S\<lparr>co_workContext := W\<rparr>"
      using assms(1) en acc by (simp_all add: consume_event_def sq)
    from inv0 show thesis by (intro that(2) [OF out]) (simp add: out)
  next
    case accepted
    define x where "x = offered_event raw S"
    define refs where "refs = child_session x (co_childSessionRefs S1)"
    define S2 where "S2 = S1\<lparr>co_workContext := wc_observe x (co_workContext S1),
      co_childSessionRefs := refs, co_logging := logProgress x refs (co_logging S1)\<rparr>"
    obtain f S3 where pr: "projectEvent A x S2 = (f, S3)" by fastforce
    have inv1: "consumer_inv A run [x] S1" using accept_pending [OF acc inv0] by (simp add: accepted(1) x_def)
    have "consumer_inv A run [x] S2"
      using consumer_inv_tracker [OF inv1 wc_observe_inv [OF consumer_inv_context [OF inv1]]]
      by (simp add: S2_def consumer_inv_def)
    then have inv3: "consumer_inv A run [] S3" by (rule projectEvent_inv [OF pr])
    have "consume_event A run raw S =
        (case f of Some r \<Rightarrow> (Some r, S3)
         | None \<Rightarrow> if ev_kind x = ''usage'' then observe_usage A run x S3 else (None, S3))"
      using en acc accepted(1) pr
      by (simp add: consume_event_def sq S2_def refs_def x_def Let_def split: option.split)
    moreover have "pp_onEvent (at_projection A) x = None \<longrightarrow> ev_kind raw = ''terminal''" if "f \<noteq> None"
      using pr that kind by (auto simp: projectEvent_def is_terminal_def x_def split: if_splits option.splits)
    ultimately have step: "(\<exists>r. out = Some r \<and> S' = S3 \<and>
          (pp_onEvent (at_projection A) x = None \<longrightarrow> ev_kind raw = ''terminal'')) \<or>
       (ev_kind raw = ''usage'' \<and> observe_usage A run x S3 = (out, S')) \<or>
       (ev_kind raw \<noteq> ''usage'' \<and> out = None \<and> S' = S3)"
      using assms(1) kind by (auto simp: x_def split: option.splits if_splits)
    have frame: "co_ledger S3 = accept_event (co_ledger S) x" "co_budget S3 = co_budget S"
      "co_signals S3 = co_signals S" "co_offset S3 = co_offset S" "co_draws S3 = co_draws S"
      using project_frame [OF pr] by (simp_all add: S2_def accepted(4) x_def)
    show thesis
      by (rule that(3) [OF _ frame [unfolded x_def] inv3 step [unfolded x_def]]) (use accepted(3) in simp)
  qed
qed

lemma consume_event_inv:
  "consume_event A run raw S = (out, S') \<Longrightarrow> consumer_inv A run [] S \<Longrightarrow> consumer_inv A run [] S'"
  by (erule (1) consume_event_cases) (auto dest: observe_usage_inv)

lemma consume_inv:
  "consume A run items S = Some (out, S') \<Longrightarrow> consumer_inv A run [] S \<Longrightarrow> consumer_inv A run [] S'"
proof (induction A run items S rule: consume.induct)
  case (2 A run item items S)
  show ?case
  proof (cases item)
    case (Yields e)
    obtain r S1 where c: "consume_event A run e S = (r, S1)" by fastforce
    have "consumer_inv A run [] S1" by (rule consume_event_inv [OF c "2.prems"(2)])
    with 2 Yields c show ?thesis by (cases r) (auto simp: Let_def)
  next
    case (Signals x)
    with 2 show ?thesis by (simp add: Let_def consumer_inv_update)
  qed (use "2.prems" in \<open>auto simp: Let_def\<close>)
qed simp

lemma new_consumer_inv: "consumer_inv A run [] (new_consumer A run)"
  using ledger_inv_new [of "at_dateOk A" run] new_work_context_inv [of run] budget_inv_new [of run]
  by (simp add: consumer_inv_def new_consumer_def new_ledger_def new_cost_budget_def)

lemma step_signals_inv: "consumer_inv A run [] (step_signals xs S) = consumer_inv A run [] S"
  by (simp add: step_signals_def consumer_inv_update)

lemma run_phase_inv: "run_phase A run = Some (caps, failure, S) \<Longrightarrow> consumer_inv A run [] S"
  by (auto simp: run_phase_def Let_def step_signals_inv new_consumer_inv
      dest!: consume_inv split: option.splits sum.splits prod.splits if_splits)

lemma settle_phase_inv: "settle_phase A f S = (f', S') \<Longrightarrow> consumer_inv A run [] S \<Longrightarrow> consumer_inv A run [] S'"
  by (auto simp: settle_phase_def Let_def abort_now_def step_signals_inv consumer_inv_update)

section \<open>The cause only becomes known once\<close>

lemma signal_step_keeps: "cs_cause S = Some c \<Longrightarrow> cs_cause (fold signal_step xs S) = Some c"
  by (rule signal_steps_first)

lemma settle_phase_frame:
  "settle_phase A f S = (f', S') \<Longrightarrow>
     co_ledger S' = co_ledger S \<and> co_workContext S' = co_workContext S \<and> co_budget S' = co_budget S \<and>
     co_projected S' = co_projected S"
  by (auto simp: settle_phase_def Let_def abort_now_def step_signals_def)

text \<open>Without an accepted terminal a failure is recorded and the signal is aborted.\<close>

lemma settle_phase_aborts:
  assumes "settle_phase A f S = (f', S')" "lg_acceptedTerminalEvent (co_ledger S) = None"
  shows "cs_cause (co_signals S') \<noteq> None \<and> reason_truthy f' \<and>
    (cs_cause (co_signals S) \<noteq> None \<longrightarrow> cs_cause (co_signals S') = cs_cause (co_signals S))"
proof -
  have keep: "cs_cause (fold signal_step xs (cs_abort c sg)) \<noteq> None" for xs c sg
  proof -
    obtain c' where "cs_cause (cs_abort c sg) = Some c'" by simp
    then show ?thesis by (simp add: signal_step_keeps)
  qed
  show ?thesis
    using assms
    by (cases "cs_cause (co_signals S)"; cases "reason_truthy f")
      (auto simp: settle_phase_def Let_def abort_now_def step_signals_def keep signal_step_keeps
        coordinator_abort_def missing_terminal_error_def)
qed

section \<open>Closing an attempt\<close>

lemma requireTerminal_Inr:
  assumes "ledger_inv d L"
  shows "requireTerminal L = Inr t \<longleftrightarrow> lg_acceptedTerminalEvent L = Some t"
proof (cases "lg_acceptedTerminalEvent L")
  case (Some x)
  with ledger_terminal [OF assms, of x] have "is_terminal x" by blast
  with Some show ?thesis by (simp add: requireTerminal_def assertTerminalEvent_def)
qed (simp add: requireTerminal_def)

lemma requireTerminal_None:
  "lg_acceptedTerminalEvent L = None \<Longrightarrow> requireTerminal L = Inl TerminalMissing"
  by (simp add: requireTerminal_def)

text \<open>What the attempt looks like when \<open>executeRun\<close> has returned a result.\<close>

definition synthesized :: "attempt \<Rightarrow> rehor_run \<Rightarrow> reason \<Rightarrow> consumer \<Rightarrow> rehor_event" where
  "synthesized A run failure S =
     fst (enrichTerminal
       (createTerminalEvent run (nextSequence (lg_receivedInOrder (co_ledger S)))
          (terminalState (cs_cause (co_signals S))) (terminalReason (cs_cause (co_signals S)) failure)
          (duration_ms (at_terminalElapsed A)) (at_terminalNow A))
       (co_workContext S))"

lemma finish_phase_cases:
  assumes "finish_phase A run caps failure S = Inr (R, S')" "consumer_inv A run [] S"
  obtains (runtime) "lg_acceptedTerminalEvent (co_ledger S) = Some (cr_terminal R)"
      "cr_events R = lg_receivedInOrder (co_ledger S)" "co_projected S' = cr_events R"
      "co_ledger S' = co_ledger S"
  | (coordinator) "lg_acceptedTerminalEvent (co_ledger S) = None"
      "cr_terminal R = synthesized A run failure S"
      "cr_events R = lg_receivedInOrder (co_ledger S) @ [cr_terminal R]"
      "co_projected S' = cr_events R" "ledger_inv (at_dateOk A) (co_ledger S')"
      "lg_receivedInOrder (co_ledger S') = cr_events R" "is_terminal (cr_terminal R)"
proof (cases "lg_acceptedTerminalEvent (co_ledger S)")
  case (Some t)
  from assms(2) have inv: "ledger_inv (at_dateOk A) (co_ledger S)" by (simp add: consumer_inv_def)
  from Some have "requireTerminal (co_ledger S) = Inr t" using requireTerminal_Inr [OF inv] by blast
  with Some assms show thesis
    by (intro runtime) (auto simp: finish_phase_def close_ledger_def consumer_inv_def Let_def)
next
  case None
  from assms(2) have inv: "ledger_inv (at_dateOk A) (co_ledger S)" by (simp add: consumer_inv_def)
  define ct where "ct = createTerminalEvent run (nextSequence (lg_receivedInOrder (co_ledger S)))
          (terminalState (cs_cause (co_signals S))) (terminalReason (cs_cause (co_signals S)) failure)
          (duration_ms (at_terminalElapsed A)) (at_terminalNow A)"
  obtain e W where en: "enrichTerminal ct (co_workContext S) = (e, W)" by fastforce
  have e: "e = synthesized A run failure S" by (simp add: synthesized_def ct_def [symmetric] en)
  obtain L r where ing: "ingest_event (at_dateOk A) (co_ledger S) e = Inr (L, r)"
    using assms(1) None by (auto simp: finish_phase_def close_ledger_def ct_def [symmetric] en Let_def split: sum.splits)
  obtain f S2 where pr: "projectEvent A e (S\<lparr>co_workContext := W, co_ledger := L\<rparr>) = (f, S2)" by fastforce
  have S2: "co_ledger S2 = L" "co_projected S2 = co_projected S @ [e]"
    using project_frame [OF pr] by simp_all
  have out: "S' = S2" "\<exists>t. requireTerminal L = Inr t \<and> cr_terminal R = t" "cr_events R = lg_receivedInOrder L"
    using assms(1) None ing pr S2
    by (auto simp: finish_phase_def close_ledger_def ct_def [symmetric] en Let_def split: sum.splits option.splits)
  from ingest_event_Inr [OF ing] have valid: "event_valid (at_dateOk A) e"
    and parsed: "ingest_parsed (co_ledger S) e = Inr (L, r)" by simp_all
  have invL: "ledger_inv (at_dateOk A) L" by (rule ingest_parsed_inv [OF inv valid parsed])
  from parsed show thesis
  proof (cases rule: ingest_parsed_cases)
    case accepted
    with out(2) invL None have trm: "lg_acceptedTerminalEvent L = Some (cr_terminal R)"
      using requireTerminal_Inr by blast
    with accepted None have "is_terminal e" "cr_terminal R = e" by (auto split: if_splits)
    with accepted out S2 None e invL assms(2) show thesis
      by (intro coordinator) (auto simp: consumer_inv_def)
  qed (use out(2) None requireTerminal_None in auto)
qed

lemma executeRun_phases:
  assumes "executeRunWithValidatedInput A run = Some out"
  obtains caps f S f' S1 where "run_phase A run = Some (caps, f, S)" "settle_phase A f S = (f', S1)"
    "out = finish_phase A run caps f' S1" "consumer_inv A run [] S1"
  using assms run_phase_inv settle_phase_inv
  by (auto simp: executeRunWithValidatedInput_def split: option.splits prod.splits)

end
