(* ===== verification/Attempt_Facts.thy ===== *)
theory Attempt_Facts
  imports Coordinator_Facts
begin

text \<open>
  Facts about one attempt: what a turn of the loop and a notice do to the ledger and the signals,
  how sequence numbers stay in step, when the coordinator's own terminal is valid, and the sample
  attempts on which the properties are instantiated.
\<close>

section \<open>Enriching a terminal\<close>

lemma enrichTerminal_get:
  "k \<noteq> ''context'' \<Longrightarrow> k \<noteq> ''noWork'' \<Longrightarrow>
     obj_get (ev_payload (fst (enrichTerminal e W))) k = obj_get (ev_payload e) k"
  by (simp add: enrichTerminal_def Let_def js_simps)

lemma enrichTerminal_frame:
  "fst (enrichTerminal e W) = e\<lparr>ev_payload := ev_payload (fst (enrichTerminal e W))\<rparr>"
  by (simp add: enrichTerminal_def Let_def)

lemma enrichTerminal_kind [simp]:
  "ev_kind (fst (enrichTerminal e W)) = ev_kind e"
  "ev_sequence (fst (enrichTerminal e W)) = ev_sequence e"
  "ev_eventId (fst (enrichTerminal e W)) = ev_eventId e"
  by (subst enrichTerminal_frame, simp)+

lemma sequenceAfter_frame [simp]:
  "ev_kind (sequenceAfterCoordinatorEvents n taken e) = ev_kind e"
  "ev_payload (sequenceAfterCoordinatorEvents n taken e) = ev_payload e"
  by (simp_all add: sequenceAfterCoordinatorEvents_def)

lemma synthesized_payload:
  "obj_get (ev_payload (synthesized A run f S)) ''state'' =
     JStr (terminal_state_text (terminalState (cs_cause (co_signals S))))"
  "obj_get (ev_payload (synthesized A run f S)) ''reason'' =
     JStr (terminalReason (cs_cause (co_signals S)) f)"
  by (simp_all add: synthesized_def enrichTerminal_get createTerminalEvent_def js_simps)

section \<open>The settled state of an attempt\<close>

text \<open>The cause an attempt without a runtime terminal ends with.\<close>

definition settled_cause :: "reason \<Rightarrow> consumer \<Rightarrow> abort_cause" where
  "settled_cause f S =
     (case cs_cause (co_signals S) of
        Some c \<Rightarrow> c
      | None \<Rightarrow>
          \<lparr>ac_kind = FailedKind,
           ac_reason = RText (if reason_truthy f then describeError f
                              else ''runtime ended without terminal event'')\<rparr>)"

lemma settle_phase_cause:
  assumes "settle_phase A f S = (f', S')"
    and "lg_acceptedTerminalEvent (co_ledger S) = None \<or> reason_truthy f"
  shows "cs_cause (co_signals S') = Some (settled_cause f S)"
  using assms
  by (cases "cs_cause (co_signals S)"; cases "reason_truthy f")
    (auto simp: settle_phase_def settled_cause_def Let_def abort_now_def step_signals_def
      signal_step_keeps coordinator_abort_def missing_terminal_error_def)

section \<open>Steps of the consumer\<close>

text \<open>Emitting a notice leaves the ledger as it is or adds one policy event at its end.\<close>

lemma emitPolicy_cases:
  assumes "emitPolicy A run p parent S = (out, S')"
  obtains (same) "co_ledger S' = co_ledger S" "co_offset S' = co_offset S"
      "co_budget S' = co_budget S" "co_signals S' = co_signals S"
  | (sent) pe where "co_ledger S' = accept_event (co_ledger S) pe" "ev_kind pe = ''policy''"
      "ev_sequence pe = nextSequence (lg_receivedInOrder (co_ledger S))" "ev_payload pe = policy_payload p"
      "co_offset S' = Suc (co_offset S)" "co_budget S' = co_budget S" "co_signals S' = co_signals S"
proof (cases "createEventFactory run (ch_value (rn_policyHash run))
      (Some (Fin (of_nat (nextSequence (lg_receivedInOrder (co_ledger S)) - 1))))")
  case (Inl err)
  with assms show thesis by (intro same) (simp_all add: emitPolicy_def)
next
  case (Inr fac)
  then have fac: "ef_sequence fac = nextSequence (lg_receivedInOrder (co_ledger S)) - 1"
    by (auto simp: createEventFactory_def Let_def split: if_splits)
  let ?ov = "no_overrides\<lparr>ov_runtimeSessionRef := ev_runtimeSessionRef parent,
          ov_parentEventId := Some (ev_eventId parent)\<rparr>"
  obtain pe fac' where pe: "createEvent fac (at_uuid A (co_draws S)) (at_now A (co_draws S)) ''policy''
        (policy_payload p) ?ov = (pe, fac')" by fastforce
  then have kind: "ev_kind pe = ''policy''" "ev_payload pe = policy_payload p"
    "ev_sequence pe = nextSequence (lg_receivedInOrder (co_ledger S))"
    by (auto simp: createEvent_def Let_def fac nextSequence_def)
  obtain res S1 where acc: "accept A pe (S\<lparr>co_draws := co_draws S + 1\<rparr>) = (res, S1)" by fastforce
  show thesis
    using acc
  proof (cases rule: accept_cases)
    case accepted
    obtain f S2 where pr: "projectEvent A pe (S1\<lparr>co_offset := co_offset S1 + 1\<rparr>) = (f, S2)" by fastforce
    have "S' = S2" using assms Inr pe acc accepted(1) pr by (simp add: emitPolicy_def)
    with project_frame [OF pr] kind show thesis
      by (intro sent [of pe]) (simp_all add: accepted(4))
  next
    case rejected
    then have "S' = S\<lparr>co_draws := co_draws S + 1\<rparr>" using assms Inr pe acc by (simp add: emitPolicy_def)
    then show thesis by (intro same) simp_all
  next
    case ignored
    then have "S' = S\<lparr>co_draws := co_draws S + 1\<rparr>" using assms Inr pe acc by (simp add: emitPolicy_def)
    then show thesis by (intro same) simp_all
  qed
qed

lemma observe_usage_cases:
  assumes "observe_usage A run e S = (out, S')"
  obtains (same) "co_ledger S' = co_ledger S" "co_offset S' = co_offset S"
  | (sent) pe where "co_ledger S' = accept_event (co_ledger S) pe" "ev_kind pe = ''policy''"
      "ev_sequence pe = nextSequence (lg_receivedInOrder (co_ledger S))"
      "co_offset S' = Suc (co_offset S)"
proof -
  obtain b pol where b: "cb_observe (co_budget S) (usage_of_payload (ev_payload e)) = (b, pol)" by fastforce
  show thesis
  proof (cases pol)
    case None
    with assms b show thesis by (intro same) (auto simp: observe_usage_def abort_now_def Let_def)
  next
    case (Some p)
    obtain f S2 where em: "emitPolicy A run p e (S\<lparr>co_budget := b\<rparr>) = (f, S2)" by fastforce
    have "co_ledger S' = co_ledger S2" "co_offset S' = co_offset S2"
      using assms b Some em
      by (auto simp: observe_usage_def abort_now_def Let_def split: option.splits if_splits)
    with em show thesis by (cases rule: emitPolicy_cases) (auto intro: same sent)
  qed
qed

text \<open>What the budget does to the signals.\<close>

lemma observe_usage_signals:
  assumes "observe_usage A run e S = (out, S')"
  shows "co_signals S' = co_signals S \<or> co_signals S' = cs_abort budget_exceeded (co_signals S)"
    and "out = None \<Longrightarrow> hardLimitReached (co_budget S') \<Longrightarrow>
      co_signals S' = cs_abort budget_exceeded (co_signals S)"
proof -
  obtain b pol where b: "cb_observe (co_budget S) (usage_of_payload (ev_payload e)) = (b, pol)" by fastforce
  have "co_signals S2 = co_signals S \<and> co_budget S2 = b"
    if "emitPolicy A run p e (S\<lparr>co_budget := b\<rparr>) = (f, S2)" for p f S2
    using that by (cases rule: emitPolicy_cases) auto
  with assms b show "co_signals S' = co_signals S \<or> co_signals S' = cs_abort budget_exceeded (co_signals S)"
    and "out = None \<Longrightarrow> hardLimitReached (co_budget S') \<Longrightarrow>
      co_signals S' = cs_abort budget_exceeded (co_signals S)"
    by (auto simp: observe_usage_def abort_now_def Let_def split: option.splits prod.splits if_splits)
qed

lemma observe_usage_terminal:
  assumes "observe_usage A run e S = (out, S')"
  shows "lg_acceptedTerminalEvent (co_ledger S') = lg_acceptedTerminalEvent (co_ledger S)"
  using assms by (cases rule: observe_usage_cases) (auto simp: is_terminal_def)

lemma consume_event_terminal:
  assumes "consume_event A run raw S = (out, S')" "consumer_inv A run [] S"
    and "lg_acceptedTerminalEvent (co_ledger S) = None" "lg_acceptedTerminalEvent (co_ledger S') = Some t"
  shows "t = offered_event raw S"
  using assms(1,2)
proof (cases rule: consume_event_cases)
  case (accepted S3)
  have "lg_acceptedTerminalEvent (co_ledger S') = lg_acceptedTerminalEvent (co_ledger S3)"
    using accepted(8) observe_usage_terminal by auto
  with accepted(2) assms(3,4) show ?thesis by (simp split: if_splits)
qed (use assms in auto)

section \<open>Sequence numbers\<close>

lemma next_free_untaken: "next_free taken n \<notin> set taken \<and> n \<le> next_free taken n"
proof (induction taken n rule: next_free.induct)
  case (1 taken n)
  then show ?case by (cases "n \<in> set taken") (auto simp: next_free.simps [of taken n])
qed

lemma next_free_id: "n \<notin> set taken \<Longrightarrow> next_free taken n = n"
  by (simp add: next_free.simps)

lemma fold_max_bound: "fold (\<lambda>e m. max m (ev_sequence e)) es m = Max (insert m (ev_sequence ` set es))"
proof (induction es arbitrary: m)
  case (Cons e es)
  have "Max (insert (max m (ev_sequence e)) (ev_sequence ` set es)) =
      Max (insert m (insert (ev_sequence e) (ev_sequence ` set es)))"
    by (cases "es = []") (simp_all add: max.assoc)
  with Cons show ?case by simp
qed simp

lemma nextSequence_fresh: "e \<in> set es \<Longrightarrow> ev_sequence e < nextSequence es"
  by (simp add: nextSequence_def fold_max_bound less_Suc_eq_le)

lemma nextSequence_upt: "map ev_sequence es = [1..<Suc m] \<Longrightarrow> nextSequence es = Suc m"
proof -
  assume "map ev_sequence es = [1..<Suc m]"
  then have "ev_sequence ` set es = {1..m}"
    by (metis list.set_map set_upt atLeastLessThanSuc_atLeastAtMost)
  then show ?thesis by (cases m) (auto simp: nextSequence_def fold_max_bound intro!: Max_eqI)
qed

lemma offered_sequence:
  assumes "consumer_inv A run [] S" "map ev_sequence (lg_receivedInOrder (co_ledger S)) = [1..<Suc (k + co_offset S)]"
    and "ev_sequence raw = Suc k"
  shows "ev_sequence (offered_event raw S) = Suc (k + co_offset S)"
proof -
  have "set (co_acceptedSequences S) = set [1..<Suc (k + co_offset S)]"
    using assms(1,2) by (metis consumer_inv_def list.set_map)
  then have "Suc (k + co_offset S) \<notin> set (co_acceptedSequences S)" by simp
  moreover have "ev_sequence (mapRuntimeTerminal c raw) = Suc k" for c
    using assms(3) by (simp add: mapRuntimeTerminal_def)
  ultimately show ?thesis
    by (simp add: offered_event_def sequenceAfterCoordinatorEvents_def next_free_id)
qed

text \<open>
  How far the ledger has followed a runtime that numbers its events from 1: at most one event per
  yielded event and notice, and without a gap when it kept them all.
\<close>

definition in_step :: "nat \<Rightarrow> consumer \<Rightarrow> bool" where
  "in_step k S \<longleftrightarrow>
     length (lg_receivedInOrder (co_ledger S)) \<le> k + co_offset S \<and>
     (length (lg_receivedInOrder (co_ledger S)) = k + co_offset S \<longrightarrow>
        map ev_sequence (lg_receivedInOrder (co_ledger S)) = [1..<Suc (k + co_offset S)])"

lemma in_step_consume_event:
  assumes "consume_event A run raw S = (out, S')" "consumer_inv A run [] S" "in_step k S"
    and "ev_sequence raw = Suc k"
  shows "in_step (Suc k) S'"
  using assms(1,2)
proof (cases rule: consume_event_cases)
  case (accepted S3)
  have seq: "ev_sequence (offered_event raw S) = Suc (k + co_offset S)"
    if "length (lg_receivedInOrder (co_ledger S)) = k + co_offset S"
    using that assms(2-4) by (intro offered_sequence) (simp_all add: in_step_def)
  have step3: "in_step (Suc k) S3"
    using accepted(2,5) assms(3) seq by (auto simp: in_step_def)
  show ?thesis
  proof (cases "ev_kind raw = ''usage'' \<and> observe_usage A run (offered_event raw S) S3 = (out, S')")
    case True
    then have "observe_usage A run (offered_event raw S) S3 = (out, S')" by simp
    then show ?thesis
    proof (cases rule: observe_usage_cases)
      case same
      with step3 show ?thesis by (simp add: in_step_def)
    next
      case (sent pe)
      have "ev_sequence pe = Suc (Suc k + co_offset S3)"
        if "length (lg_receivedInOrder (co_ledger S3)) = Suc k + co_offset S3"
        using sent(3) step3 that by (simp add: in_step_def nextSequence_upt del: upt_Suc)
      with sent step3 show ?thesis by (auto simp: in_step_def)
    qed
  next
    case False
    with accepted(8) step3 show ?thesis by auto
  qed
qed (use assms(3) in \<open>auto simp: in_step_def\<close>)

definition yielded :: "script_item list \<Rightarrow> rehor_event list" where
  "yielded items = concat (map (\<lambda>i. case i of Yields e \<Rightarrow> [e] | _ \<Rightarrow> []) items)"

lemma in_step_consume:
  "consume A run items S = Some (out, S') \<Longrightarrow> consumer_inv A run [] S \<Longrightarrow> in_step k S \<Longrightarrow>
     map ev_sequence (yielded items) = [Suc k..<Suc (k + n)] \<Longrightarrow> \<exists>m \<le> n. in_step (k + m) S'"
proof (induction A run items S arbitrary: k n rule: consume.induct)
  case (2 A run item items S)
  show ?case
  proof (cases item)
    case (Yields e)
    with "2.prems"(4) have n: "0 < n" and e: "ev_sequence e = Suc k"
      and rest: "map ev_sequence (yielded items) = [Suc (Suc k)..<Suc (Suc k + (n - 1))]"
      by (cases n; simp add: yielded_def upt_conv_Cons del: upt_Suc)+
    obtain r S1 where c: "consume_event A run e S = (r, S1)" by fastforce
    have inv1: "consumer_inv A run [] S1" by (rule consume_event_inv [OF c "2.prems"(2)])
    have step1: "in_step (Suc k) S1" by (rule in_step_consume_event [OF c "2.prems"(2,3) e])
    show ?thesis
    proof (cases r)
      case None
      with "2.prems"(1) Yields c have "consume A run items S1 = Some (out, S')" by (simp add: Let_def)
      from "2.IH"(1) [OF HOL.refl Yields c [symmetric] None this inv1 step1 rest]
      obtain m where "m \<le> n - 1" "in_step (Suc k + m) S'" by blast
      with n show ?thesis by (intro exI [of _ "Suc m"]) simp
    next
      case (Some x)
      with "2.prems"(1) Yields c have "S' = S1" by (auto simp: Let_def)
      with step1 n show ?thesis by (intro exI [of _ 1]) simp
    qed
  next
    case (Signals x)
    have step: "in_step k (S\<lparr>co_signals := signal_step x (co_signals S)\<rparr>)"
      using "2.prems"(3) by (simp add: in_step_def)
    show ?thesis
      using "2.IH"(2) [OF HOL.refl Signals _ _ step] "2.prems" Signals
      by (simp add: Let_def consumer_inv_update yielded_def)
  qed (use "2.prems" in \<open>auto simp: Let_def\<close>)
qed simp

section \<open>The result of an attempt\<close>

lemma attempt_result:
  assumes "executeRunWithValidatedInput A run = Some (Inr (R, S))"
  shows "terminals (cr_events R) = [cr_terminal R] \<and> co_projected S = cr_events R \<and>
    distinct (map ev_eventId (cr_events R)) \<and> distinct (map ev_sequence (cr_events R)) \<and>
    list_all (\<lambda>e. event_valid (at_dateOk A) e \<and> attributed run e) (cr_events R)"
proof -
  obtain caps f S0 f' S1 where fin: "finish_phase A run caps f' S1 = Inr (R, S)"
    and inv: "consumer_inv A run [] S1"
    using assms by (auto elim: executeRun_phases)
  then have led: "ledger_inv (at_dateOk A) (co_ledger S1)" "lg_run (co_ledger S1) = run"
    by (simp_all add: consumer_inv_def)
  show ?thesis
    using fin inv
  proof (cases rule: finish_phase_cases)
    case runtime
    then show ?thesis using led by (simp add: ledger_inv_def list_all_iff)
  next
    case coordinator
    have "attributed run (cr_terminal R)"
      unfolding coordinator(2) synthesized_def
      by (subst enrichTerminal_frame)
        (simp add: createTerminalEvent_def attributed_def event_workspace_matches_def run_workspace_def)
    with coordinator led show ?thesis
      by (auto simp: ledger_inv_def list_all_iff split: option.splits)
  qed
qed

section \<open>Sample attempts\<close>

definition sample_caps :: runtime_capabilities where
  "sample_caps =
     \<lparr>cap_runtimeId = ''opencode'', cap_runtimeVersion = ''1'', cap_configVersion = ''1'',
      cap_streaming = True, cap_interruption = True, cap_enforcesTurnLimit = False,
      cap_childSessions = True, cap_toolSupport = True, cap_mcpSupport = True,
      cap_structuredOutput = False, cap_usageGuarantee = PartialAndFinalUsage\<rparr>"

text \<open>An attempt of a run without a task whose ports all succeed.\<close>

definition sample_attempt :: "script_item list \<Rightarrow> attempt" where
  "sample_attempt script =
     \<lparr>at_dateOk = (\<lambda>_. True), at_uuid = (\<lambda>n. ''uuid-'' @ show_nat n), at_now = (\<lambda>_. ''now''),
      at_projection = \<lparr>pp_onEvent = (\<lambda>_. None), pp_onTerminal = (\<lambda>_. None)\<rparr>,
      at_signal = None, at_shutdownSignal = None, at_startSignals = [], at_start = Some (Inr sample_caps),
      at_afterStart = [], at_script = script, at_returnError = None, at_stopSignals = [],
      at_stopError = RUndef, at_terminalElapsed = 5, at_elapsed = 6, at_terminalNow = ''now'',
      at_logging = None\<rparr>"

definition triage_run :: rehor_run where
  "triage_run = sample_run\<lparr>rn_task := None\<rparr>"

lemma triage_attributed [simp]: "attributed triage_run (sample_event i n k p)"
  using sample_attributed [of i n k p]
  by (simp add: attributed_def event_workspace_matches_def triage_run_def)

lemma sample_attempt_simps [simp]:
  "at_dateOk (sample_attempt xs) = (\<lambda>_. True)" "at_startSignals (sample_attempt xs) = []"
  "at_projection (sample_attempt xs) = \<lparr>pp_onEvent = (\<lambda>_. None), pp_onTerminal = (\<lambda>_. None)\<rparr>"
  "at_afterStart (sample_attempt xs) = []" "at_start (sample_attempt xs) = Some (Inr sample_caps)"
  "at_script (sample_attempt xs) = xs" "at_returnError (sample_attempt xs) = None"
  "at_stopSignals (sample_attempt xs) = []" "at_stopError (sample_attempt xs) = RUndef"
  "at_terminalElapsed (sample_attempt xs) = 5"
  by (simp_all add: sample_attempt_def)

lemma new_sample_consumer:
  "new_consumer (sample_attempt xs) run =
     \<lparr>co_ledger = new_ledger run, co_workContext = new_work_context run,
      co_budget = new_cost_budget run, co_signals = \<lparr>cs_cause = None, cs_listening = True\<rparr>,
      co_offset = 0, co_acceptedSequences = [], co_childSessionRefs = [],
      co_logging = None, co_projected = [], co_notices = [], co_draws = 0\<rparr>"
  by (simp add: new_consumer_def sample_attempt_def combineAbortSignals_def)

lemma triage_context [simp]: "new_work_context triage_run = \<lparr>wc_context = [], wc_startedTools = []\<rparr>"
  by (simp add: new_work_context_def triage_run_def)

lemma run_phase_sample:
  "run_phase (sample_attempt xs) run =
     (case consume (sample_attempt xs) run xs (new_consumer (sample_attempt xs) run) of
        None \<Rightarrow> None
      | Some (out, S) \<Rightarrow>
          Some (Some sample_caps,
            (case cs_cause (co_signals S) of
               Some c \<Rightarrow> coordinator_abort c | None \<Rightarrow> (case out of None \<Rightarrow> RUndef | Some r \<Rightarrow> r)), S))"
  by (simp add: run_phase_def new_sample_consumer step_signals_def split: option.split)

text \<open>Accepting an event that nothing speaks against.\<close>

lemma mapRuntimeTerminal_kind: "ev_kind (mapRuntimeTerminal c raw) = ev_kind raw"
  by (simp add: mapRuntimeTerminal_def)

lemma consume_event_accepts:
  assumes "event_valid (at_dateOk A) (offered_event raw S)"
    and "ingest_parsed (co_ledger S) (offered_event raw S) = Inr (accept_event (co_ledger S) (offered_event raw S), r)"
    and "ir_accepted r" "at_projection A = \<lparr>pp_onEvent = (\<lambda>_. None), pp_onTerminal = (\<lambda>_. None)\<rparr>"
    and "ev_kind raw \<noteq> ''usage''"
  shows "\<exists>S'. consume_event A run raw S = (None, S') \<and>
    co_ledger S' = accept_event (co_ledger S) (offered_event raw S) \<and> co_signals S' = co_signals S \<and>
    co_workContext S' = wc_observe (offered_event raw S)
      (snd (enrichTerminal (mapRuntimeTerminal (cs_cause (co_signals S)) raw) (co_workContext S)))"
proof -
  obtain e W where en: "enrichTerminal (mapRuntimeTerminal (cs_cause (co_signals S)) raw) (co_workContext S) = (e, W)"
    by fastforce
  have sq: "sequenceAfterCoordinatorEvents (co_offset S) (co_acceptedSequences S) e = offered_event raw S"
    by (simp add: offered_event_def en)
  have "ev_kind e = ev_kind raw"
    using arg_cong [OF en, of "\<lambda>x. ev_kind (fst x)"] by (simp add: mapRuntimeTerminal_kind)
  then have "ev_kind (offered_event raw S) \<noteq> ''usage''" using assms(5) sq by (metis sequenceAfter_frame(1))
  then show ?thesis
    using assms(1-4)
    by (simp add: consume_event_def en sq accept_def ingest_event_eq projectEvent_def Let_def)
qed

lemma offered_first [simp]:
  "cs_cause (co_signals S) = None \<Longrightarrow> co_offset S = 0 \<Longrightarrow> ev_kind raw \<noteq> ''terminal'' \<Longrightarrow>
     offered_event raw S = raw"
  by (simp add: offered_event_def sequenceAfterCoordinatorEvents_def mapRuntimeTerminal_def enrichTerminal_def)

section \<open>Valid closing terminals\<close>

lemma obj_spread_fresh:
  "distinct (map fst b) \<Longrightarrow> fst ` set a \<inter> fst ` set b = {} \<Longrightarrow> obj_spread a b = a @ b"
proof (induction b arbitrary: a)
  case (Cons p b)
  obtain k v where p: "p = (k, v)" by (cases p)
  have "obj_set k v a = a @ [(k, v)]" using Cons.prems(2) by (intro update_fresh) (auto simp: p)
  then have "obj_spread a (p # b) = obj_spread (a @ [(k, v)]) b" by (simp add: obj_spread_def p)
  also have "\<dots> = (a @ [(k, v)]) @ b" using Cons.prems by (intro Cons.IH) (auto simp: p)
  finally show ?case by (simp add: p)
qed (simp add: obj_spread_def)

lemma synthesized_eq:
  assumes "context_inv (wc_context (co_workContext S))"
  shows "synthesized A run f S =
    (let e = createTerminalEvent run (nextSequence (lg_receivedInOrder (co_ledger S)))
          (terminalState (cs_cause (co_signals S))) (terminalReason (cs_cause (co_signals S)) f)
          (duration_ms (at_terminalElapsed A)) (at_terminalNow A);
         ctx = wc_context (co_workContext S)
     in if ctx = [] then e else e\<lparr>ev_payload := ev_payload e @ [(''context'', JObj ctx)]\<rparr>)"
proof -
  let ?ctx = "wc_context (co_workContext S)"
  have "obj_spread [] ?ctx = ?ctx"
    using assms by (simp add: obj_spread_fresh context_inv_def)
  moreover have "obj_of Undef = []" "obj_spread [] [] = []" by (simp_all add: obj_of_def obj_spread_def)
  ultimately show ?thesis
    by (simp add: synthesized_def enrichTerminal_def createTerminalEvent_def summarized_context_def
        result_text_def Let_def js_simps)
qed

lemma state_text_ok [simp]: "terminal_state_text st \<in> set terminal_states"
  by (cases st) (simp_all add: terminal_states_def)

lemma duration_ok: "x \<le> of_nat max_safe_integer \<Longrightarrow> is_int_from 0 (JNum (Fin (duration_ms x)))"
proof -
  assume "x \<le> of_nat max_safe_integer"
  then have "\<lfloor>x\<rfloor> \<le> int max_safe_integer" by (simp add: floor_le_iff)
  then have "(of_int (max 0 \<lfloor>x\<rfloor>) :: rat) \<le> of_int (int max_safe_integer)"
    unfolding of_int_le_iff by simp
  then show ?thesis by (simp add: duration_ms_def is_integer_def)
qed

text \<open>The closing terminal satisfies the schema exactly when the task id of the context does.\<close>

lemma synthesized_valid:
  assumes inv: "consumer_inv A run [] S" and run: "run_valid run" and date: "at_dateOk A (at_terminalNow A)"
    and sq: "nextSequence (lg_receivedInOrder (co_ledger S)) \<le> max_safe_integer"
    and dur: "at_terminalElapsed A \<le> of_nat max_safe_integer"
  shows "event_valid (at_dateOk A) (synthesized A run f S) \<longleftrightarrow>
    opt_prop (is_int_from 1) (wc_context (co_workContext S)) ''taskId''"
proof -
  let ?ctx = "wc_context (co_workContext S)"
  have ctx: "context_inv ?ctx" by (rule consumer_inv_context [OF inv])
  have dur': "is_int_from 0 (JNum (Fin (duration_ms (at_terminalElapsed A))))" by (rule duration_ok [OF dur])
  have pos: "1 \<le> nextSequence (lg_receivedInOrder (co_ledger S))" by (simp add: nextSequence_def)
  have hash: "ch_value (rn_policyHash run) \<noteq> []"
    using run by (auto simp: run_valid_def hash_valid_def sha256_hex_def)
  show ?thesis
    using run date sq dur' pos hash context_inv_schema [OF ctx]
    by (auto simp: synthesized_eq [OF ctx] createTerminalEvent_def event_valid_def workspace_valid_def
        run_workspace_def run_valid_def terminal_payload_ok_def obj_schema_def only_keys_def req_prop_def
        opt_prop_def js_simps Let_def simp del: is_int_from.simps)
qed

section \<open>Closing with and without a valid terminal\<close>

lemma finish_without_valid_terminal:
  assumes "consumer_inv A run [] S" "lg_acceptedTerminalEvent (co_ledger S) = None"
    and "\<not> event_valid (at_dateOk A) (synthesized A run f S)"
  shows "finish_phase A run caps f S = Inl (contract_reason (SchemaMismatch ''event''))"
proof -
  obtain e W where en: "enrichTerminal (createTerminalEvent run (nextSequence (lg_receivedInOrder (co_ledger S)))
      (terminalState (cs_cause (co_signals S))) (terminalReason (cs_cause (co_signals S)) f)
      (duration_ms (at_terminalElapsed A)) (at_terminalNow A)) (co_workContext S) = (e, W)" by fastforce
  then have "e = synthesized A run f S" by (simp add: synthesized_def)
  with assms(2,3) en show ?thesis
    by (simp add: finish_phase_def close_ledger_def ingest_event_eq Let_def)
qed

lemma finish_with_valid_terminal:
  assumes inv: "consumer_inv A run [] S" and none: "lg_acceptedTerminalEvent (co_ledger S) = None"
    and valid: "event_valid (at_dateOk A) (synthesized A run f S)"
    and fresh: "list_all (\<lambda>e. ev_eventId e \<noteq> ''coordinator-terminal-'' @ rn_attemptId run)
      (lg_receivedInOrder (co_ledger S))"
  shows "\<exists>R S'. finish_phase A run caps f S = Inr (R, S')"
proof -
  obtain e W where en: "enrichTerminal (createTerminalEvent run (nextSequence (lg_receivedInOrder (co_ledger S)))
      (terminalState (cs_cause (co_signals S))) (terminalReason (cs_cause (co_signals S)) f)
      (duration_ms (at_terminalElapsed A)) (at_terminalNow A)) (co_workContext S) = (e, W)" by fastforce
  then have e: "e = synthesized A run f S" by (simp add: synthesized_def)
  from inv have led: "ledger_inv (at_dateOk A) (co_ledger S)" "lg_run (co_ledger S) = run"
    by (simp_all add: consumer_inv_def)
  have att: "attributed run e"
    unfolding e synthesized_def by (subst enrichTerminal_frame)
      (simp add: createTerminalEvent_def attributed_def event_workspace_matches_def run_workspace_def)
  have ids: "ev_eventId e = ''coordinator-terminal-'' @ rn_attemptId run" "is_terminal e"
    "ev_sequence e = nextSequence (lg_receivedInOrder (co_ledger S))"
    by (simp_all add: e synthesized_def createTerminalEvent_def is_terminal_def)
  have "map_of (lg_received (co_ledger S)) (ev_eventId e) = None"
    using led fresh by (auto simp: ledger_inv_def map_of_map_key ids list_all_iff)
  moreover have "map_of (lg_receivedBySequence (co_ledger S)) (ev_sequence e) = None"
  proof -
    have "nextSequence es \<notin> ev_sequence ` set es" for es
      using nextSequence_fresh by (metis imageE less_irrefl)
    then show ?thesis using led(1) by (simp add: ledger_inv_def map_of_map_key ids)
  qed
  ultimately have ing: "ingest_parsed (co_ledger S) e = Inr (accept_event (co_ledger S) e,
      \<lparr>ir_accepted = True, ir_duplicate = False,
       ir_outOfOrder = (ev_sequence e < lg_highestSequence (co_ledger S)), ir_afterTerminal = False\<rparr>)"
    using att none led(2) by (simp add: ingest_parsed_def attributed_def past_terminal_def)
  have valid': "event_valid (at_dateOk A) e" using valid by (simp add: e)
  have invL: "ledger_inv (at_dateOk A) (accept_event (co_ledger S) e)"
    by (rule ingest_parsed_inv [OF led(1) valid' ing])
  have req: "requireTerminal (accept_event (co_ledger S) e) = Inr e"
    using requireTerminal_Inr [OF invL] ids(2) by simp
  have acc: "ingest_event (at_dateOk A) (co_ledger S) e = Inr (accept_event (co_ledger S) e,
      \<lparr>ir_accepted = True, ir_duplicate = False,
       ir_outOfOrder = (ev_sequence e < lg_highestSequence (co_ledger S)), ir_afterTerminal = False\<rparr>)"
    using valid' ing by (simp add: ingest_event_eq)
  obtain out S2 where pr: "projectEvent A e (S\<lparr>co_workContext := W, co_ledger := accept_event (co_ledger S) e\<rparr>) = (out, S2)"
    by fastforce
  have "co_ledger S2 = accept_event (co_ledger S) e" using project_frame [OF pr] by simp
  with none en acc pr req show ?thesis
    by (cases out) (simp_all add: finish_phase_def close_ledger_def Let_def)
qed

lemma finish_with_runtime_terminal:
  assumes "consumer_inv A run [] S" "lg_acceptedTerminalEvent (co_ledger S) = Some t"
  shows "\<exists>R S'. finish_phase A run caps f S = Inr (R, S')"
proof -
  from assms(1) have "ledger_inv (at_dateOk A) (co_ledger S)" by (simp add: consumer_inv_def)
  from requireTerminal_Inr [OF this, of t] assms(2) have "requireTerminal (co_ledger S) = Inr t" by simp
  with assms(2) show ?thesis by (simp add: finish_phase_def close_ledger_def Let_def)
qed

lemma executeRun_settled:
  assumes "run_phase A run = Some (caps, f, S)"
  obtains f' S1 where "executeRunWithValidatedInput A run = Some (finish_phase A run caps f' S1)"
    "consumer_inv A run [] S1" "co_ledger S1 = co_ledger S" "co_workContext S1 = co_workContext S"
proof -
  obtain f' S1 where se: "settle_phase A f S = (f', S1)" by fastforce
  show thesis
    by (rule that [of f' S1])
      (use assms se settle_phase_inv [OF se run_phase_inv [OF assms]] settle_phase_frame [OF se] in
        \<open>simp_all add: executeRunWithValidatedInput_def\<close>)
qed

lemma attempt_returns:
  assumes "run_valid run" "run_phase A run = Some (caps, f, S)"
    and "at_dateOk A (at_terminalNow A)" "at_terminalElapsed A \<le> of_nat max_safe_integer"
    and "nextSequence (lg_receivedInOrder (co_ledger S)) \<le> max_safe_integer"
    and "list_all (\<lambda>e. ev_eventId e \<noteq> ''coordinator-terminal-'' @ rn_attemptId run)
      (lg_receivedInOrder (co_ledger S))"
    and "opt_prop (is_int_from 1) (wc_context (co_workContext S)) ''taskId''"
  shows "\<exists>R S'. executeRunWithValidatedInput A run = Some (Inr (R, S'))"
proof -
  obtain f' S1 where ex: "executeRunWithValidatedInput A run = Some (finish_phase A run caps f' S1)"
    and inv: "consumer_inv A run [] S1" and same: "co_ledger S1 = co_ledger S" "co_workContext S1 = co_workContext S"
    by (rule executeRun_settled [OF assms(2)])
  show ?thesis
  proof (cases "lg_acceptedTerminalEvent (co_ledger S1)")
    case None
    have "event_valid (at_dateOk A) (synthesized A run f' S1)"
      using synthesized_valid [OF inv assms(1,3) _ assms(4)] assms(5,7) same by simp
    from finish_with_valid_terminal [OF inv None this] assms(6) same ex show ?thesis by simp
  next
    case (Some t)
    from finish_with_runtime_terminal [OF inv Some] ex show ?thesis by simp
  qed
qed

lemma ended_run_phase:
  "run_phase (sample_attempt [Ends]) triage_run =
     Some (Some sample_caps, RUndef, new_consumer (sample_attempt [Ends]) triage_run)"
  by (simp add: run_phase_sample new_sample_consumer)

lemma triage_valid: "run_valid triage_run"
  by (simp add: run_valid_def triage_run_def sample_run_def sample_hash_def hash_valid_def sha256_hex_def
      limits_valid_def max_safe_integer_def is_hex_def runtime_id_ok_def is_lower_letter_def is_digit_def
      list_all_iff)

lemma ended_returns:
  "\<exists>R S'. executeRunWithValidatedInput (sample_attempt [Ends]) triage_run = Some (Inr (R, S'))"
  using attempt_returns [OF triage_valid ended_run_phase]
  by (simp add: new_sample_consumer new_ledger_def nextSequence_def max_safe_integer_def opt_prop_def)

lemma close_ledger_failure:
  "close_ledger A run f S = Inr (f', S') \<Longrightarrow>
     reason_truthy f \<or> lg_acceptedTerminalEvent (co_ledger S) \<noteq> None \<Longrightarrow> f' = f"
  by (auto simp: close_ledger_def Let_def split: if_splits sum.splits option.splits prod.splits)

lemma finish_phase_error:
  assumes "finish_phase A run caps f S = Inr (R, S')" "at_stopError A = RUndef"
    and "reason_truthy f \<or> lg_acceptedTerminalEvent (co_ledger S) \<noteq> None"
  shows "cr_error R = (if shouldSurface f (cs_cause (co_signals S)) \<and> f \<noteq> RUndef then Some f else None)"
proof -
  from assms(1) obtain g S2 where "close_ledger A run f S = Inr (g, S2)"
    by (auto simp: finish_phase_def bindE_Inr)
  with close_ledger_failure [OF this assms(3)] assms(1,2) show ?thesis
    by (auto simp: finish_phase_def Let_def split: sum.splits)
qed

definition aborted_consumer :: consumer where
  "aborted_consumer =
     abort_now \<lparr>ac_kind = TimedOutKind, ac_reason = RText ''late''\<rparr>
       (new_consumer (sample_attempt []) triage_run)"

definition failed_terminal :: rehor_event where
  "failed_terminal = sample_event ''t'' 2 ''terminal'' [(''state'', JStr ''failed'')]"

lemma aborted_offer:
  "offered_event failed_terminal aborted_consumer =
     sample_event ''t'' 2 ''terminal'' [(''state'', JStr ''timed_out''), (''reason'', JStr ''late'')]"
  by (simp add: offered_event_def sequenceAfterCoordinatorEvents_def mapRuntimeTerminal_def
      aborted_consumer_def abort_now_def cs_abort_def new_sample_consumer failed_terminal_def enrichTerminal_def
      summarized_context_def result_text_def js_simps obj_of_def obj_spread_def terminalState_def terminalReason_def
      abortMessage_def Let_def sample_payload_update)

lemma truthy_errors [simp]: "reason_truthy (coordinator_abort c)" "reason_truthy missing_terminal_error"
  by (simp_all add: coordinator_abort_def missing_terminal_error_def)

lemma settle_aborted:
  assumes "settle_phase A f S = (f', S')" "cs_cause (co_signals S) = Some c" "at_stopError A = RUndef"
  shows "f' = (if reason_truthy f then f else coordinator_abort c) \<and> cs_cause (co_signals S') = Some c"
  using assms by (cases "reason_truthy f") (auto simp: settle_phase_def Let_def step_signals_def signal_step_keeps)

lemma settle_unaborted:
  assumes "settle_phase A f S = (f', S')" "cs_cause (co_signals S) = None" "at_stopError A = RUndef"
  shows "f' = (if reason_truthy f then f
    else if lg_acceptedTerminalEvent (co_ledger S) = None then missing_terminal_error else f)"
  using assms by (cases "reason_truthy f") (auto simp: settle_phase_def Let_def)

section \<open>The cost limit\<close>

definition limit_inv :: "consumer \<Rightarrow> bool" where
  "limit_inv S \<longleftrightarrow> (hardLimitReached (co_budget S) \<longrightarrow> cs_cause (co_signals S) \<noteq> None)"

lemma limit_inv_event:
  assumes "consume_event A run raw S = (None, S')" "consumer_inv A run [] S" "limit_inv S"
  shows "limit_inv S'"
  using assms(1,2)
proof (cases rule: consume_event_cases)
  case (accepted S3)
  show ?thesis
  proof (cases "observe_usage A run (offered_event raw S) S3 = (None, S')")
    case True
    from observe_usage_signals(2) [OF True HOL.refl] show ?thesis by (auto simp: limit_inv_def)
  next
    case False
    with accepted assms(3) show ?thesis by (auto simp: limit_inv_def)
  qed
qed (use assms(3) in \<open>auto simp: limit_inv_def\<close>)

lemma limit_inv_consume:
  "consume A run items S = Some (None, S') \<Longrightarrow> consumer_inv A run [] S \<Longrightarrow> limit_inv S \<Longrightarrow> limit_inv S'"
proof (induction A run items S rule: consume.induct)
  case (2 A run item items S)
  show ?case
  proof (cases item)
    case (Yields e)
    obtain r S1 where c: "consume_event A run e S = (r, S1)" by fastforce
    have inv1: "consumer_inv A run [] S1" by (rule consume_event_inv [OF c "2.prems"(2)])
    from "2.prems"(1) Yields c have r: "r = None" and rest: "consume A run items S1 = Some (None, S')"
      by (auto simp: Let_def split: option.splits)
    from limit_inv_event [OF _ "2.prems"(2,3)] c r have "limit_inv S1" by simp
    with "2.IH"(1) [OF HOL.refl Yields c [symmetric] r rest inv1] show ?thesis .
  next
    case (Signals x)
    have "limit_inv (S\<lparr>co_signals := signal_step x (co_signals S)\<rparr>)"
      using "2.prems"(3) by (auto simp: limit_inv_def dest: signal_step_first)
    with "2.IH"(2) [OF HOL.refl Signals] "2.prems" Signals show ?thesis
      by (simp add: Let_def consumer_inv_update)
  qed (use "2.prems" in \<open>auto simp: Let_def\<close>)
qed simp

definition no_signals :: "script_item list \<Rightarrow> bool" where
  "no_signals items \<longleftrightarrow> list_all (\<lambda>i. case i of Signals _ \<Rightarrow> False | _ \<Rightarrow> True) items"

lemma own_cause_event:
  assumes "consume_event A run raw S = (out, S')" "consumer_inv A run [] S"
    and "cs_cause (co_signals S) \<in> {None, Some budget_exceeded}"
  shows "cs_cause (co_signals S') \<in> {None, Some budget_exceeded}"
  using assms(1,2)
proof (cases rule: consume_event_cases)
  case (accepted S3)
  have "co_signals S' = co_signals S \<or> co_signals S' = cs_abort budget_exceeded (co_signals S)"
    using accepted(4,8) observe_usage_signals(1) [of A run "offered_event raw S" S3 out S'] by auto
  with assms(3) show ?thesis by (auto split: option.splits)
qed (use assms(3) in auto)

lemma own_cause_consume:
  "consume A run items S = Some (out, S') \<Longrightarrow> consumer_inv A run [] S \<Longrightarrow> no_signals items \<Longrightarrow>
     cs_cause (co_signals S) \<in> {None, Some budget_exceeded} \<Longrightarrow>
     cs_cause (co_signals S') \<in> {None, Some budget_exceeded}"
proof (induction A run items S rule: consume.induct)
  case (2 A run item items S)
  show ?case
  proof (cases item)
    case (Yields e)
    obtain r S1 where c: "consume_event A run e S = (r, S1)" by fastforce
    have inv1: "consumer_inv A run [] S1" by (rule consume_event_inv [OF c "2.prems"(2)])
    have own1: "cs_cause (co_signals S1) \<in> {None, Some budget_exceeded}"
      by (rule own_cause_event [OF c "2.prems"(2,4)])
    show ?thesis
    proof (cases r)
      case None
      have rest: "consume A run items S1 = Some (out, S')" "no_signals items"
        using "2.prems"(1,3) Yields c None by (simp_all add: Let_def no_signals_def)
      from "2.IH"(1) [OF HOL.refl Yields c [symmetric] None rest(1) inv1 rest(2) own1] show ?thesis .
    next
      case (Some x)
      with "2.prems"(1) Yields c own1 show ?thesis by (auto simp: Let_def)
    qed
  qed (use "2.prems" in \<open>auto simp: Let_def no_signals_def\<close>)
qed simp

definition costly_payload :: obj where
  "costly_payload =
     [(''requestedModel'', JStr ''model''), (''tokenCounts'', JObj []), (''partial'', JBool False),
      (''final'', JBool True), (''estimated'', JBool False), (''incomplete'', JBool False),
      (''cost'', JObj [(''amount'', JNum (Fin 12)), (''currency'', JStr ''USD''), (''source'', JStr ''provider'')])]"

definition costly_event :: rehor_event where
  "costly_event = sample_event ''u'' (Suc 0) ''usage'' costly_payload"

lemma costly_ok: "usage_payload_ok (JObj costly_payload)"
  by (simp add: usage_payload_ok_def usage_cost_ok_def token_counts_ok_def obj_schema_def only_keys_def
      costly_payload_def req_prop_def opt_prop_def js_simps)

lemma costly_usage:
  "usage_key (usage_of_payload costly_payload) = ''model''"
  "known_amount (usage_of_payload costly_payload) = 12"
  "has_known_cost (usage_of_payload costly_payload)"
  by (simp_all add: usage_of_payload_def usage_cost_of_def costly_payload_def js_simps usage_key_def known_amount_def
      has_known_cost_def cost_source_of_def)

lemma costly_observe:
  "\<exists>n. cb_observe (new_cost_budget triage_run) (usage_of_payload costly_payload) =
     (\<lparr>cb_run = triage_run, cb_ledger = [(''model'', usage_of_payload costly_payload)],
       cb_emitted = [Exhausted], cb_unknownPricingNotified = False\<rparr>, Some n)"
proof -
  have L: "ul_record (usage_of_payload costly_payload) [] = [(''model'', usage_of_payload costly_payload)]"
    by (simp add: ul_record_def overrides_previous_def costly_usage)
  have "lm_budgetUsd (rn_limits triage_run) = 10" by (simp add: triage_run_def sample_run_def)
  then show ?thesis
    by (simp add: cb_observe_def new_cost_budget_def L hasKnownCost_def costly_usage totalCostUsd_def
        budget_of_def js_div_def threshold_state_def Let_def)
qed

lemma accept_accepted:
  "ingest_event (at_dateOk A) (co_ledger S) e = Inr (accept_event (co_ledger S) e, r) \<Longrightarrow> ir_accepted r \<Longrightarrow>
     accept A e S = (Inr (Some e), S\<lparr>co_ledger := accept_event (co_ledger S) e,
       co_acceptedSequences := List.insert (ev_sequence e) (co_acceptedSequences S)\<rparr>)"
  by (simp add: accept_def)

lemma project_sample: "projectEvent (sample_attempt xs) e S = (None, S\<lparr>co_projected := co_projected S @ [e]\<rparr>)"
  by (simp add: projectEvent_def)

lemma costly_fields:
  "ev_kind costly_event = ''usage''" "ev_payload costly_event = costly_payload"
  "ev_sequence costly_event = Suc 0" "ev_eventId costly_event = ''u''" "\<not> is_terminal costly_event"
  "ev_runtimeSessionRef costly_event = None"
  by (simp_all add: costly_event_def) (simp add: sample_event_def)

lemma costly_ingest:
  "ingest_event (\<lambda>_. True) (new_ledger triage_run) costly_event =
     Inr (accept_event (new_ledger triage_run) costly_event,
       \<lparr>ir_accepted = True, ir_duplicate = False, ir_outOfOrder = False, ir_afterTerminal = False\<rparr>)"
proof -
  have "event_valid (\<lambda>_. True) costly_event" "attributed triage_run costly_event"
    by (simp_all add: costly_event_def costly_ok max_safe_integer_def)
  then show ?thesis by (simp add: ingest_event_eq ingest_first)
qed

lemma new_ledger_order [simp]: "lg_receivedInOrder (new_ledger run) = []"
  by (simp add: new_ledger_def)

lemma costly_notice:
  assumes "co_ledger S = accept_event (new_ledger triage_run) costly_event"
  shows "\<exists>S'. emitPolicy (sample_attempt xs) triage_run n costly_event S = (None, S') \<and>
    co_budget S' = co_budget S \<and> co_offset S' = co_offset S + 1 \<and> co_signals S' = co_signals S \<and>
    length (lg_receivedInOrder (co_ledger S')) = 2"
proof -
  let ?A = "sample_attempt xs"
  define f where "f = \<lparr>ef_run = triage_run, ef_policyVersion = ch_value (rn_policyHash triage_run), ef_sequence = 1\<rparr>"
  have fac: "createEventFactory triage_run (ch_value (rn_policyHash triage_run))
      (Some (Fin (of_nat (nextSequence (lg_receivedInOrder (co_ledger S)) - 1)))) = Inr f"
    by (simp add: assms nextSequence_def costly_fields createEventFactory_def max_safe_integer_def is_integer_def f_def)
  obtain pe f' where ce: "createEvent f (at_uuid ?A (co_draws S)) (at_now ?A (co_draws S)) ''policy'' (policy_payload n)
        (no_overrides\<lparr>ov_runtimeSessionRef := ev_runtimeSessionRef costly_event,
          ov_parentEventId := Some (ev_eventId costly_event)\<rparr>) = (pe, f')" by fastforce
  have hash: "ch_value (rn_policyHash triage_run) \<noteq> []" by (simp add: triage_run_def sample_run_def sample_hash_def)
  have att: "attributed triage_run pe"
    using createEvent_attributed [of f] arg_cong [OF ce, of fst] by (simp add: f_def) (metis)
  have pe: "event_valid (\<lambda>_. True) pe" "ev_sequence pe = 2" "ev_eventId pe \<noteq> ''u''" "\<not> is_terminal pe"
    using arg_cong [OF ce, of fst, symmetric] hash
    by (simp_all add: createEvent_def f_def Let_def no_overrides_def event_valid_def workspace_valid_def
        run_workspace_def triage_run_def sample_run_def max_safe_integer_def is_terminal_def costly_fields)
      (simp_all add: sample_attempt_def)
  have "ingest_event (\<lambda>_. True) (co_ledger S) pe = Inr (accept_event (co_ledger S) pe,
      \<lparr>ir_accepted = True, ir_duplicate = False, ir_outOfOrder = False, ir_afterTerminal = False\<rparr>)"
    using pe att by (simp add: assms ingest_event_eq ingest_parsed_def attributed_def accept_event_def new_ledger_def
        past_terminal_def costly_fields)
  then have "accept ?A pe (S\<lparr>co_draws := co_draws S + 1\<rparr>) = (Inr (Some pe),
      S\<lparr>co_draws := co_draws S + 1, co_ledger := accept_event (co_ledger S) pe,
       co_acceptedSequences := List.insert (ev_sequence pe) (co_acceptedSequences S)\<rparr>)"
    by (simp add: accept_accepted)
  then show ?thesis
    using fac ce by (simp add: emitPolicy_def project_sample assms)
qed

lemma costly_consume:
  "\<exists>S. consume (sample_attempt [Yields costly_event, Ends]) triage_run [Yields costly_event, Ends]
        (new_consumer (sample_attempt [Yields costly_event, Ends]) triage_run) = Some (None, S) \<and>
      cb_ledger (co_budget S) = [(''model'', usage_of_payload costly_payload)] \<and>
      co_offset S = 1 \<and> length (lg_receivedInOrder (co_ledger S)) = 2"
proof -
  let ?A = "sample_attempt [Yields costly_event, Ends]"
  obtain n b where n: "cb_observe (new_cost_budget triage_run) (usage_of_payload costly_payload) = (b, Some n)"
    and b: "cb_ledger b = [(''model'', usage_of_payload costly_payload)]"
    using costly_observe by auto
  define S2 where "S2 = \<lparr>co_ledger = accept_event (new_ledger triage_run) costly_event,
      co_workContext = wc_observe costly_event \<lparr>wc_context = [], wc_startedTools = []\<rparr>,
      co_budget = b, co_signals = \<lparr>cs_cause = None, cs_listening = True\<rparr>, co_offset = 0,
      co_acceptedSequences = [Suc 0], co_childSessionRefs = [], co_logging = None,
      co_projected = [costly_event], co_notices = [], co_draws = 0\<rparr>"
  obtain S3 where S3: "emitPolicy ?A triage_run n costly_event S2 = (None, S3)" "co_budget S3 = b" "co_offset S3 = 1"
    "length (lg_receivedInOrder (co_ledger S3)) = 2"
    using costly_notice [of S2] by (auto simp: S2_def)
  have en: "enrichTerminal (mapRuntimeTerminal None costly_event) W = (costly_event, W)" for W
    by (simp add: enrichTerminal_def mapRuntimeTerminal_def costly_fields)
  have "consume_event ?A triage_run costly_event (new_consumer ?A triage_run) =
      observe_usage ?A triage_run costly_event (S2\<lparr>co_budget := new_cost_budget triage_run\<rparr>)"
    by (simp add: new_sample_consumer consume_event_def en sequenceAfterCoordinatorEvents_def costly_ingest
        accept_accepted project_sample costly_fields child_session_def logProgress_def S2_def Let_def)
  also have "\<exists>S4. observe_usage ?A triage_run costly_event (S2\<lparr>co_budget := new_cost_budget triage_run\<rparr>) = (None, S4) \<and>
      co_budget S4 = b \<and> co_offset S4 = 1 \<and> length (lg_receivedInOrder (co_ledger S4)) = 2"
  proof -
    have "S2\<lparr>co_budget := b\<rparr> = S2" by (simp add: S2_def)
    then show ?thesis
      using S3 by (simp add: observe_usage_def costly_fields n S2_def [symmetric] Let_def abort_now_def)
  qed
  finally show ?thesis using b by (auto simp: Let_def)
qed

end
