(* ===== verification/Attempt_Properties.thy ===== *)
theory Attempt_Properties
  imports Attempt_Facts
begin

text \<open>
  The properties of \<open>executeRun\<close>: what every result contains, which state and error it reports for
  which cause, when the cost limit stops a run, and when \<open>executeRun\<close> returns at all.
\<close>

text \<open>
  C1. Whenever \<open>executeRun\<close> returns a result, whatever the runtime, the projection and the abort
  signals did: the result has exactly one terminal event, which is the one reported, all its
  events are valid and belong to the attempt with distinct ids and sequence numbers, and the
  projection was given exactly these events, each once, in this order.
\<close>

theorem executeRun_result:
  assumes "executeRunWithValidatedInput A run = Some (Inr (R, S))"
  shows "terminals (cr_events R) = [cr_terminal R] \<and> co_projected S = cr_events R \<and>
    distinct (map ev_eventId (cr_events R)) \<and> distinct (map ev_sequence (cr_events R)) \<and>
    list_all (\<lambda>e. event_valid (at_dateOk A) e \<and> attributed run e) (cr_events R)"
  using attempt_result [OF assms] .

text \<open>
  C2. An attempt whose runtime delivered no accepted terminal ends with the coordinator's own,
  whose state and reason are those of the first abort cause, or failed with the description of the
  failure (or of the missing terminal) when nothing aborted the run.
\<close>

theorem coordinator_terminal_states_cause:
  assumes "executeRunWithValidatedInput A run = Some (Inr (R, S))"
    and "run_phase A run = Some (caps, f, S0)" "lg_acceptedTerminalEvent (co_ledger S0) = None"
  shows "obj_get (ev_payload (cr_terminal R)) ''state'' =
      JStr (terminal_state_text (state_by_cause (ac_kind (settled_cause f S0)))) \<and>
    obj_get (ev_payload (cr_terminal R)) ''reason'' = JStr (abortMessage (settled_cause f S0))"
proof -
  obtain f' S1 where se: "settle_phase A f S0 = (f', S1)" by fastforce
  have fin: "finish_phase A run caps f' S1 = Inr (R, S)"
    using assms(1,2) se by (simp add: executeRunWithValidatedInput_def)
  have inv: "consumer_inv A run [] S1"
    by (rule settle_phase_inv [OF se run_phase_inv [OF assms(2)]])
  have none: "lg_acceptedTerminalEvent (co_ledger S1) = None"
    using settle_phase_frame [OF se] assms(3) by simp
  have cause: "cs_cause (co_signals S1) = Some (settled_cause f S0)"
    using settle_phase_cause [OF se] assms(3) by simp
  show ?thesis
    using fin inv
  proof (cases rule: finish_phase_cases)
    case runtime
    with none show ?thesis by simp
  next
    case coordinator
    then show ?thesis
      by (simp add: synthesized_payload cause terminalState_def terminalReason_def)
  qed
qed

text \<open>
  While a run is being aborted for a cause, a terminal that the runtime reports as failed is
  recorded with the state and the message of that cause; a terminal it reports with another state
  keeps it.
\<close>

theorem failed_terminal_takes_cause:
  assumes "consumer_inv A run [] S" "lg_acceptedTerminalEvent (co_ledger S) = None"
    and "consume_event A run raw S = (out, S')" "lg_acceptedTerminalEvent (co_ledger S') = Some t"
    and "cs_cause (co_signals S) = Some c"
  shows "obj_get (ev_payload t) ''state'' =
      (if obj_get (ev_payload raw) ''state'' = JStr ''failed''
       then JStr (terminal_state_text (state_by_cause (ac_kind c)))
       else obj_get (ev_payload raw) ''state'') \<and>
    (obj_get (ev_payload raw) ''state'' = JStr ''failed'' \<longrightarrow>
       obj_get (ev_payload t) ''reason'' = JStr (abortMessage c))"
proof -
  note t = consume_event_terminal [OF assms(3,1,2,4)]
  have "is_terminal t"
  proof -
    have "consumer_inv A run [] S'" by (rule consume_event_inv [OF assms(3,1)])
    then have "ledger_inv (at_dateOk A) (co_ledger S')" by (simp add: consumer_inv_def)
    with assms(4) show ?thesis using ledger_terminal by blast
  qed
  then have "ev_kind raw = ''terminal''"
    by (simp add: t offered_event_def is_terminal_def mapRuntimeTerminal_def split: if_splits)
  then show ?thesis
    by (simp add: t offered_event_def enrichTerminal_get mapRuntimeTerminal_def assms(5) js_simps terminalState_def terminalReason_def)
qed

text \<open>
  C3. \<open>executeRun\<close> returns a result for every valid run whose runtime settles, whether the run
  completed, failed, was aborted or never sent a terminal, provided the closing terminal can be
  built: the clock gives a valid date and a bounded duration, sequence numbers are not used up,
  the runtime did not take the coordinator's event id, and the task id of the context is a safe
  integer.
\<close>

theorem executeRun_returns:
  assumes "run_valid run" "run_phase A run = Some (caps, f, S)"
    and "at_dateOk A (at_terminalNow A)" "at_terminalElapsed A \<le> of_nat max_safe_integer"
    and "nextSequence (lg_receivedInOrder (co_ledger S)) \<le> max_safe_integer"
    and "list_all (\<lambda>e. ev_eventId e \<noteq> ''coordinator-terminal-'' @ rn_attemptId run)
      (lg_receivedInOrder (co_ledger S))"
    and "opt_prop (is_int_from 1) (wc_context (co_workContext S)) ''taskId''"
  shows "\<exists>R S'. executeRunWithValidatedInput A run = Some (Inr (R, S'))"
  using assms by (rule attempt_returns)

theorem executeRun_returns_witness:
  "\<exists>R S'. executeRunWithValidatedInput (sample_attempt [Ends]) triage_run = Some (Inr (R, S'))"
  using executeRun_returns [OF triage_valid ended_run_phase]
  by (simp add: new_sample_consumer new_ledger_def nextSequence_def max_safe_integer_def opt_prop_def)

text \<open>
  C7. One value of a tool result can cost an attempt its terminal: when the work context has taken
  a task id that is not a positive safe integer and the runtime sent no terminal, the coordinator's
  own terminal fails the event schema and \<open>executeRun\<close> rejects instead of returning a result.
\<close>

theorem unsafe_task_id_rejects:
  assumes "run_valid run" "run_phase A run = Some (caps, f, S)"
    and "at_dateOk A (at_terminalNow A)" "at_terminalElapsed A \<le> of_nat max_safe_integer"
    and "nextSequence (lg_receivedInOrder (co_ledger S)) \<le> max_safe_integer"
    and "lg_acceptedTerminalEvent (co_ledger S) = None"
    and "obj_get (wc_context (co_workContext S)) ''taskId'' = JNum (Fin r)"
    and "\<not> is_integer r \<or> of_nat max_safe_integer < r"
  shows "executeRunWithValidatedInput A run = Some (Inl (contract_reason (SchemaMismatch ''event'')))"
proof -
  obtain f' S1 where ex: "executeRunWithValidatedInput A run = Some (finish_phase A run caps f' S1)"
    and inv: "consumer_inv A run [] S1" and same: "co_ledger S1 = co_ledger S" "co_workContext S1 = co_workContext S"
    by (rule executeRun_settled [OF assms(2)])
  have "\<not> opt_prop (is_int_from 1) (wc_context (co_workContext S1)) ''taskId''"
    using assms(7,8) by (auto simp: opt_prop_def same)
  then have "\<not> event_valid (at_dateOk A) (synthesized A run f' S1)"
    using synthesized_valid [OF inv assms(1,3) _ assms(4)] assms(5) same by simp
  with ex finish_without_valid_terminal [OF inv] assms(6) same show ?thesis by simp
qed

definition fractional_tool_event :: rehor_event where
  "fractional_tool_event =
     sample_event ''e'' 2 ''tool''
       [(''state'', JStr ''completed''), (''name'', JStr ''bot-memory_task_get''),
        (''content'', JStr ''{\"task_id\":1.5}'')]"

lemma fractional_run_phase:
  "\<exists>S. run_phase (sample_attempt [Yields fractional_tool_event, Ends]) triage_run =
      Some (Some sample_caps, RUndef, S) \<and>
    co_ledger S = accept_event (new_ledger triage_run) fractional_tool_event \<and>
    obj_get (wc_context (co_workContext S)) ''taskId'' = JNum (Fin (3/2))"
proof -
  let ?A = "sample_attempt [Yields fractional_tool_event, Ends]"
  let ?S = "new_consumer ?A triage_run"
  have kind: "ev_kind fractional_tool_event = ''tool''" by (simp add: fractional_tool_event_def)
  have off: "offered_event fractional_tool_event ?S = fractional_tool_event"
    by (rule offered_first) (simp_all add: new_sample_consumer kind)
  have valid: "event_valid (\<lambda>_. True) fractional_tool_event" "attributed triage_run fractional_tool_event"
    by (simp_all add: fractional_tool_event_def)
  have ctx: "wc_context (wc_observe fractional_tool_event \<lparr>wc_context = [], wc_startedTools = []\<rparr>) =
      [(''taskId'', JNum (Fin (3/2)))]"
    by (simp add: wc_observe_def fractional_tool_event_def Let_def js_simps tool_event_name_def
        extractToolContext_def fractional_result)
  have "enrichTerminal (mapRuntimeTerminal None fractional_tool_event) W = (fractional_tool_event, W)" for W
    by (simp add: enrichTerminal_def mapRuntimeTerminal_def kind)
  then obtain S where "consume_event ?A triage_run fractional_tool_event ?S = (None, S)"
    and S: "co_ledger S = accept_event (new_ledger triage_run) fractional_tool_event"
      "co_signals S = \<lparr>cs_cause = None, cs_listening = True\<rparr>"
      "co_workContext S = wc_observe fractional_tool_event \<lparr>wc_context = [], wc_startedTools = []\<rparr>"
    using consume_event_accepts [of ?A fractional_tool_event ?S _ triage_run] valid kind
    by (auto simp: off ingest_first [OF valid(2)] new_sample_consumer [of _ triage_run])
  then have "run_phase ?A triage_run = Some (Some sample_caps, RUndef, S)"
    by (simp add: run_phase_sample)
  with S ctx show ?thesis by (simp add: js_simps)
qed

theorem unsafe_task_id_rejects_witness:
  "executeRunWithValidatedInput (sample_attempt [Yields fractional_tool_event, Ends]) triage_run =
     Some (Inl (contract_reason (SchemaMismatch ''event'')))"
proof -
  obtain S where S: "run_phase (sample_attempt [Yields fractional_tool_event, Ends]) triage_run =
      Some (Some sample_caps, RUndef, S)"
    "co_ledger S = accept_event (new_ledger triage_run) fractional_tool_event"
    "obj_get (wc_context (co_workContext S)) ''taskId'' = JNum (Fin (3/2))"
    using fractional_run_phase by blast
  have "\<not> is_integer (3/2)" by (simp add: is_integer_def floor_divide_of_int_eq [of 3 2, simplified])
  then show ?thesis
    using unsafe_task_id_rejects [OF triage_valid S(1) _ _ _ _ S(3)] S(2)
    by (simp add: nextSequence_def new_ledger_def fractional_tool_event_def max_safe_integer_def)
qed

theorem executeRun_result_witness:
  "\<exists>R S. executeRunWithValidatedInput (sample_attempt [Ends]) triage_run = Some (Inr (R, S)) \<and>
     terminals (cr_events R) = [cr_terminal R] \<and> co_projected S = cr_events R"
proof -
  obtain R S where "executeRunWithValidatedInput (sample_attempt [Ends]) triage_run = Some (Inr (R, S))"
    using ended_returns by blast
  with executeRun_result [OF this] show ?thesis by blast
qed

theorem coordinator_terminal_states_cause_witness:
  "\<exists>R S. executeRunWithValidatedInput (sample_attempt [Ends]) triage_run = Some (Inr (R, S)) \<and>
     obj_get (ev_payload (cr_terminal R)) ''state'' = JStr ''failed''"
proof -
  obtain R S where R: "executeRunWithValidatedInput (sample_attempt [Ends]) triage_run = Some (Inr (R, S))"
    using ended_returns by blast
  have "lg_acceptedTerminalEvent (co_ledger (new_consumer (sample_attempt [Ends]) triage_run)) = None"
    by (simp add: new_sample_consumer new_ledger_def)
  from coordinator_terminal_states_cause [OF R ended_run_phase this]
  have "obj_get (ev_payload (cr_terminal R)) ''state'' = JStr ''failed''"
    by (simp add: settled_cause_def new_sample_consumer)
  with R show ?thesis by blast
qed

theorem failed_terminal_takes_cause_witness:
  "\<exists>S' t. consume_event (sample_attempt []) triage_run failed_terminal aborted_consumer = (None, S') \<and>
     lg_acceptedTerminalEvent (co_ledger S') = Some t \<and>
     obj_get (ev_payload t) ''state'' = JStr ''timed_out''"
proof -
  have inv: "consumer_inv (sample_attempt []) triage_run [] aborted_consumer"
    by (simp add: aborted_consumer_def abort_now_def consumer_inv_update new_consumer_inv)
  have led: "co_ledger aborted_consumer = new_ledger triage_run"
    and sg: "cs_cause (co_signals aborted_consumer) = Some \<lparr>ac_kind = TimedOutKind, ac_reason = RText ''late''\<rparr>"
    by (simp_all add: aborted_consumer_def abort_now_def new_sample_consumer cs_abort_def)
  have "event_valid (\<lambda>_. True) (offered_event failed_terminal aborted_consumer)"
    by (simp add: aborted_offer terminal_payload_ok_def obj_schema_def only_keys_def req_prop_def opt_prop_def
        terminal_states_def js_simps)
  moreover have "attributed triage_run (offered_event failed_terminal aborted_consumer)"
    by (simp add: aborted_offer)
  ultimately obtain S' where S': "consume_event (sample_attempt []) triage_run failed_terminal aborted_consumer = (None, S')"
    "co_ledger S' = accept_event (new_ledger triage_run) (offered_event failed_terminal aborted_consumer)"
    using consume_event_accepts [of "sample_attempt []" failed_terminal aborted_consumer _ triage_run]
    by (auto simp: led ingest_first failed_terminal_def)
  then have t: "lg_acceptedTerminalEvent (co_ledger S') = Some (offered_event failed_terminal aborted_consumer)"
    by (simp add: aborted_offer)
  have "lg_acceptedTerminalEvent (co_ledger aborted_consumer) = None" by (simp add: led new_ledger_def)
  from failed_terminal_takes_cause [OF inv this S'(1) t sg] S'(1) t show ?thesis
    by (simp add: failed_terminal_def js_simps)
qed







end
