(* ===== verification/Diagnostics.thy ===== *)
theory Diagnostics
  imports Js_Regex Log
begin

text \<open>
  \<open>coordinator/src/diagnostics.ts\<close>: output of a runtime or of the bridge is untrusted and is never
  forwarded, only classified. A thrown value is a reference into a heap of objects, since the
  traversal of causes compares identities, or a primitive.
\<close>

section \<open>Searching with context\<close>

definition is_word :: "char \<Rightarrow> bool" where
  "is_word c \<longleftrightarrow> alnum_or ''_'' c"

definition upper_char :: "char \<Rightarrow> char" where
  "upper_char c = (let n = (of_char c :: nat) in if 97 \<le> n \<and> n \<le> 122 then char_of (n - 32) else c)"

text \<open>\<open>\b\<close> and \<open>(?=\s|$)\<close> after a match, and the character before a position.\<close>

definition word_end :: "string \<Rightarrow> bool" where
  "word_end rest \<longleftrightarrow> rest = [] \<or> \<not> is_word (hd rest)"

definition space_end :: "string \<Rightarrow> bool" where
  "space_end rest \<longleftrightarrow> rest = [] \<or> is_space (hd rest)"

definition code_word :: "string \<Rightarrow> string \<Rightarrow> bool" where
  "code_word w s \<longleftrightarrow>
     list_ex (\<lambda>i. prefix w (drop i s) \<and> (i = 0 \<or> \<not> is_word (s ! (i - 1))) \<and>
                  word_end (drop (i + length w) s)) [0 ..< Suc (length s)]"

text \<open>\<open>.\<close> in a pattern matches anything but the line terminators.\<close>

definition not_eol :: "char \<Rightarrow> bool" where
  "not_eol c \<longleftrightarrow> (of_char c :: nat) \<noteq> 10 \<and> (of_char c :: nat) \<noteq> 13"

definition any_of :: "string list \<Rightarrow> rx" where
  "any_of ws = alts (map ilit ws)"

definition words_in :: "string list \<Rightarrow> string \<Rightarrow> bool" where
  "words_in ws s \<longleftrightarrow> rx_search (any_of ws) s"

section \<open>Signatures\<close>

definition cache_rx :: rx where
  "cache_rx =
     alts [ilit ''ENOTCACHED'', ilit ''cache miss'',
           seq [ilit ''offline'', Rep not_eol 0 True, any_of [''package'', ''npm'']],
           seq [ilit ''cache mode is '', Cls (\<lambda>c. c \<in> {CHR 0x27, CHR 0x22}), ilit ''only-if-cached'',
                Cls (\<lambda>c. c \<in> {CHR 0x27, CHR 0x22}),
                ilit '' but no cached response is available'']]"

definition ownership_rx :: rx where
  "ownership_rx =
     alts [ilit ''OpenCodeWorkspaceOwnershipError'',
           seq [ilit ''OpenCode worktree path '', Rep not_eol 1 True, ilit '' is owned by UID '',
                Rep is_digit 1 True, ilit '', expected '', Rep is_digit 1 True]]"

definition signatures :: "((string \<Rightarrow> bool) \<times> string) list" where
  "signatures =
     [(words_in [''ProviderInitError'', ''InitError'', ''Failed to initialize provider''],
         ''provider initialization failed''),
      (words_in [''Cannot find package'', ''Cannot find module'', ''MODULE_NOT_FOUND'',
                 ''ERR_MODULE_NOT_FOUND''], ''module not found''),
      (rx_search cache_rx, ''offline package cache miss''),
      (words_in [''NpmInstallFailedError''], ''dependency install failed''),
      (rx_search ownership_rx, ''workspace ownership mismatch''),
      (words_in [''ECONNREFUSED'', ''connection refused''], ''connection refused''),
      (words_in [''ENOTFOUND'', ''EAI_AGAIN''], ''DNS lookup failed''),
      (words_in [''ETIMEDOUT'', ''TimeoutError'', ''timed out''], ''operation timed out''),
      (words_in [''EACCES'', ''EPERM'', ''permission denied''], ''permission denied''),
      (words_in [''ENOENT''], ''file not found''),
      (\<lambda>s. words_in [''Unauthorized'', ''AuthenticationError''] s \<or> code_word ''401'' s,
         ''authentication failed''),
      (\<lambda>s. words_in [''Forbidden''] s \<or> code_word ''403'' s, ''access forbidden''),
      (\<lambda>s. words_in [''RateLimitError''] s \<or> code_word ''429'' s, ''rate limited''),
      (words_in [''ConfigInvalidError'', ''invalid configuration'', ''fatal startup configuration''],
         ''invalid configuration''),
      (words_in [''fatal startup timeout''], ''startup timeout'')]"

definition text_has :: "string \<Rightarrow> string \<Rightarrow> bool" where
  "text_has s w \<longleftrightarrow> list_ex (prefix w) (suffixes s)"

definition package_names :: "string list" where
  "package_names = [''@ai-sdk/openai-compatible'', ''@ai-sdk/openai'', ''@opencode-ai/plugin'']"

definition package_at :: "string \<Rightarrow> string option" where
  "package_at s =
     find (\<lambda>p. prefix p s \<and>
        (let rest = drop (length p) s in rest = [] \<or> \<not> alnum_or ''_/-'' (hd rest))) package_names"

fun packages_from :: "nat \<Rightarrow> string \<Rightarrow> string list" where
  "packages_from 0 s = []"
| "packages_from (Suc n) s =
     (case s of
        [] \<Rightarrow> []
      | c # cs \<Rightarrow>
          (case package_at s of
             Some p \<Rightarrow> p # packages_from n (drop (length p) s)
           | None \<Rightarrow> packages_from n cs))"

text \<open>
  The severity of the line: a prefix of the line before a word boundary, or the first
  \<open>level=...\<close> token; the level in upper case.
\<close>

definition level_rx :: rx where
  "level_rx = alts [ilit ''ERROR'', ilit ''FATAL'', ilit ''WARNING'', ilit ''WARN'']"

definition level_token :: "string \<Rightarrow> string option" where
  "level_token s =
     map_option rx_matched
       (if prefix ''level='' (to_lower (take 6 s))
        then find (\<lambda>m. space_end (rx_rest m)) (rx_match level_rx (drop 6 s)) else None)"

fun later_level :: "string \<Rightarrow> string option" where
  "later_level [] = None"
| "later_level (c # cs) =
     (case (if is_space c then level_token cs else None) of
        Some l \<Rightarrow> Some l
      | None \<Rightarrow> later_level cs)"

definition severity :: "string \<Rightarrow> string option" where
  "severity s =
     map_option (map upper_char)
       (case find (\<lambda>m. word_end (rx_rest m)) (rx_match level_rx s) of
          Some m \<Rightarrow> Some (rx_matched m)
        | None \<Rightarrow> (case level_token s of Some l \<Rightarrow> Some l | None \<Rightarrow> later_level s))"

definition unclassified_warning :: string where
  "unclassified_warning = ''unclassified runtime warning (payload suppressed)''"

definition unclassified_error :: string where
  "unclassified_error = ''unclassified runtime error (payload suppressed)''"

definition diagnostic_classes :: "string \<Rightarrow> string list" where
  "diagnostic_classes text =
     (let classes =
            map snd (filter (\<lambda>(p, label). p text \<or> text_has text label) signatures) @
            map (\<lambda>p. ''package='' @ p) (packages_from (Suc (length text)) text)
      in if classes \<noteq> [] then classes
         else (case severity text of
                 None \<Rightarrow> []
               | Some l \<Rightarrow> [if prefix ''WARN'' l then unclassified_warning else unclassified_error]))"

definition classifyDiagnostic :: "string \<Rightarrow> string option" where
  "classifyDiagnostic text =
     (let classes = diagnostic_classes text
      in if classes = [] then None else Some (join_with ''; '' classes))"

section \<open>Thrown values\<close>

text \<open>
  \<open>DNum\<close> carries the text \<open>String\<close> gives a number; any other primitive is \<open>DOther\<close>. The four
  fields that are read are absent (\<open>DOther\<close>) or a value.
\<close>

datatype diag_value = DText string | DNum string | DOther | DUndef | DRef nat

record diag_object =
  do_name :: diag_value
  do_message :: diag_value
  do_code :: diag_value
  do_statusCode :: diag_value
  do_cause :: diag_value
  do_data :: diag_value
  do_isError :: bool
  do_stack :: string

definition field_text :: "diag_value \<Rightarrow> diag_value list" where
  "field_text v = (case v of DText s \<Rightarrow> [DText s] | DNum s \<Rightarrow> [DText s] | _ \<Rightarrow> [])"

text \<open>The fuel of \<open>visit\<close> is the depth that is left; the visited values are threaded through.\<close>

fun visit ::
    "nat \<Rightarrow> (nat \<Rightarrow> diag_object) \<Rightarrow> diag_value \<Rightarrow> diag_value list \<times> string list \<Rightarrow>
     diag_value list \<times> string list" where
  "visit 0 heap entry st = st"
| "visit (Suc n) heap entry (seen, parts) =
     (if entry \<in> set seen then (seen, parts)
      else (case entry of
              DText s \<Rightarrow>
                (entry # seen,
                 case classifyDiagnostic s of None \<Rightarrow> parts | Some c \<Rightarrow> parts @ [c])
            | DRef r \<Rightarrow>
                (let ob = heap r
                 in fold (\<lambda>v st. visit n heap v st)
                      (field_text (do_name ob) @ field_text (do_message ob) @ field_text (do_code ob) @
                       field_text (do_statusCode ob) @ [do_cause ob, do_data ob])
                      (entry # seen, parts))
            | _ \<Rightarrow> (entry # seen, parts)))"

text \<open>\<open>[...new Set(parts)]\<close> keeps the first of equal entries.\<close>

definition first_occurrences :: "'a list \<Rightarrow> 'a list" where
  "first_occurrences xs = rev (remdups (rev xs))"

definition diagnostic_parts :: "(nat \<Rightarrow> diag_object) \<Rightarrow> diag_value \<Rightarrow> string list" where
  "diagnostic_parts heap v = first_occurrences (snd (visit 8 heap v ([], [])))"

definition providerDiagnostic :: "(nat \<Rightarrow> diag_object) \<Rightarrow> diag_value \<Rightarrow> string" where
  "providerDiagnostic heap v =
     (let t = join_with ''; '' (diagnostic_parts heap v) in if t = [] then unclassified_error else t)"

section \<open>Error details\<close>

definition location_rx :: rx where
  "location_rx =
     seq [Cls (\<lambda>c. c = CHR ''('' \<or> is_space c),
          Cap 1 (seq [alts [lit ''file://'', lit ''/'', lit ''node:''],
                      Rep (\<lambda>c. \<not> is_space c \<and> c \<noteq> CHR ''('' \<and> c \<noteq> CHR '')'') 1 True,
                      lit '':'', Rep is_digit 1 True, lit '':'', Rep is_digit 1 True]),
          opt (lit '')''), AtEnd]"

definition stack_location :: "string \<Rightarrow> string option" where
  "stack_location line =
     (case find (\<lambda>t. rx_match location_rx t \<noteq> []) (map (\<lambda>i. drop i line) [0 ..< Suc (length line)]) of
        None \<Rightarrow> None
      | Some t \<Rightarrow> map_option (group 1) (rx_first location_rx t))"

fun lines_of :: "string \<Rightarrow> string \<Rightarrow> string list" where
  "lines_of acc [] = [rev acc]"
| "lines_of acc (c # cs) = (if c = CHR 10 then rev acc # lines_of [] cs else lines_of (c # acc) cs)"

definition stack_parts :: "string \<Rightarrow> string list" where
  "stack_parts stack =
     concat (map (\<lambda>l. case stack_location l of None \<Rightarrow> [] | Some loc \<Rightarrow> [''    at '' @ loc])
       (take 16 (drop 1 (lines_of [] stack))))"

fun detail_parts :: "nat \<Rightarrow> (nat \<Rightarrow> diag_object) \<Rightarrow> diag_value list \<Rightarrow> diag_value \<Rightarrow> string list" where
  "detail_parts 0 heap seen v = []"
| "detail_parts (Suc n) heap seen v =
     (if v = DUndef then []
      else if v \<in> set seen then [''[cyclic cause]'']
      else providerDiagnostic heap v #
             (case v of
                DRef r \<Rightarrow>
                  if do_isError (heap r)
                  then stack_parts (do_stack (heap r)) @ detail_parts n heap (v # seen) (do_cause (heap r))
                  else []
              | _ \<Rightarrow> []))"

definition runtimeErrorDetails :: "(nat \<Rightarrow> diag_object) \<Rightarrow> diag_value \<Rightarrow> string" where
  "runtimeErrorDetails heap v = join_with (CHR 10 # ''Caused by: '') (detail_parts 8 heap [] v)"

section \<open>Only fixed labels come out\<close>

definition diagnostic_labels :: "string list" where
  "diagnostic_labels =
     map snd signatures @ map (\<lambda>p. ''package='' @ p) package_names @
     [unclassified_warning, unclassified_error]"

definition labelled :: "string \<Rightarrow> bool" where
  "labelled s \<longleftrightarrow> (\<exists>ps. ps \<noteq> [] \<and> set ps \<subseteq> set diagnostic_labels \<and> s = join_with ''; '' ps)"

lemma package_at_fixed: "package_at t = Some p \<Longrightarrow> p \<in> set package_names"
  by (auto simp: package_at_def find_Some_iff)

lemma packages_fixed: "set (packages_from n s) \<subseteq> set package_names"
proof (induction n arbitrary: s)
  case (Suc n)
  show ?case
  proof (cases s)
    case (Cons c cs)
    show ?thesis
      using Suc.IH package_at_fixed [of s] by (cases "package_at s") (simp_all add: Cons)
  qed simp
qed simp

lemma classes_fixed: "set (diagnostic_classes text) \<subseteq> set diagnostic_labels"
  using packages_fixed [of "Suc (length text)" "text"]
  by (auto simp: diagnostic_classes_def diagnostic_labels_def Let_def simp del: packages_from.simps
      split: option.split)

lemma classify_labelled: "classifyDiagnostic text = Some c \<Longrightarrow> labelled c"
  using classes_fixed [of "text"] by (auto simp: classifyDiagnostic_def labelled_def Let_def split: if_splits)

lemma visit_labelled:
  "list_all labelled (snd st) \<Longrightarrow> list_all labelled (snd (visit n heap v st))"
proof (induction n arbitrary: v st)
  case (Suc n)
  have folds: "list_all labelled (snd (fold (\<lambda>v st. visit n heap v st) vs st'))"
    if "list_all labelled (snd st')" for vs st'
    using that by (induction vs arbitrary: st') (simp_all add: Suc.IH)
  obtain seen parts where st: "st = (seen, parts)" by (cases st)
  show ?case
    using Suc.prems folds unfolding st
    by (cases v) (auto simp: Let_def classify_labelled fold_append [symmetric] split: option.split
        simp del: fold_append fold_simps append_assoc)
qed simp

lemma join_with_Cons_ne: "xs \<noteq> [] \<Longrightarrow> join_with sep (x # xs) = x @ sep @ join_with sep xs"
  by (cases xs) simp_all

lemma join_with_append:
  "xs \<noteq> [] \<Longrightarrow> ys \<noteq> [] \<Longrightarrow> join_with sep (xs @ ys) = join_with sep xs @ sep @ join_with sep ys"
  by (induction xs rule: induct_list012) (simp_all add: join_with_Cons_ne)

lemma labelled_join: "ps \<noteq> [] \<Longrightarrow> list_all labelled ps \<Longrightarrow> labelled (join_with ''; '' ps)"
proof (induction ps rule: induct_list012)
  case (3 x y zs)
  then obtain ps qs where
    "ps \<noteq> []" "set ps \<subseteq> set diagnostic_labels" "x = join_with ''; '' ps"
    "qs \<noteq> []" "set qs \<subseteq> set diagnostic_labels" "join_with ''; '' (y # zs) = join_with ''; '' qs"
    by (auto simp: labelled_def)
  then show ?case
    unfolding labelled_def by (intro exI [of _ "ps @ qs"]) (simp add: join_with_append)
qed simp_all

lemma unclassified_labelled: "labelled unclassified_error"
  unfolding labelled_def by (rule exI [of _ "[unclassified_error]"]) (simp add: diagnostic_labels_def)

lemma provider_labelled: "labelled (providerDiagnostic heap v)"
proof (cases "diagnostic_parts heap v = []")
  case True
  then show ?thesis by (simp add: providerDiagnostic_def unclassified_labelled)
next
  case False
  have "list_all labelled (diagnostic_parts heap v)"
    using visit_labelled [of "([], [])" 8 heap v]
    by (simp add: diagnostic_parts_def first_occurrences_def list_all_iff)
  with False show ?thesis
    by (simp add: providerDiagnostic_def Let_def labelled_join unclassified_labelled)
qed

lemma stack_parts_length: "length (stack_parts stack) \<le> 16"
proof -
  have "length (concat (map (\<lambda>l. case f l of None \<Rightarrow> [] | Some x \<Rightarrow> [g x]) ls)) \<le> length ls"
    for f :: "string \<Rightarrow> string option" and g :: "string \<Rightarrow> string" and ls
    by (induction ls) (auto split: option.split)
  from this [of "\<lambda>x. ''    at '' @ x" stack_location "take 16 (drop 1 (lines_of [] stack))"] show ?thesis
    unfolding stack_parts_def by (rule order_trans) simp
qed

definition location_line :: "string \<Rightarrow> bool" where
  "location_line s \<longleftrightarrow> (\<exists>line loc. stack_location line = Some loc \<and> s = ''    at '' @ loc)"

lemma stack_parts_lines: "list_all location_line (stack_parts stack)"
  by (auto simp: stack_parts_def location_line_def list_all_iff split: option.splits)

lemma detail_parts_shape:
  "list_all (\<lambda>s. labelled s \<or> s = ''[cyclic cause]'' \<or> location_line s) (detail_parts n heap seen v) \<and>
   length (detail_parts n heap seen v) \<le> 17 * n"
proof (induction n arbitrary: seen v)
  case (Suc n)
  show ?case
  proof (cases v)
    case (DRef r)
    let ?ps = "detail_parts n heap (v # seen) (do_cause (heap r))"
    have "length (stack_parts (do_stack (heap r)) @ ?ps) \<le> 16 + 17 * n"
      using Suc.IH [of "v # seen" "do_cause (heap r)"] stack_parts_length [of "do_stack (heap r)"]
      by simp
    moreover have "list_all (\<lambda>s. labelled s \<or> s = ''[cyclic cause]'' \<or> location_line s)
        (stack_parts (do_stack (heap r)) @ ?ps)"
      using Suc.IH [of "v # seen" "do_cause (heap r)"] stack_parts_lines [of "do_stack (heap r)"]
      by (auto simp: list_all_iff)
    ultimately show ?thesis by (simp add: DRef provider_labelled)
  qed (simp_all add: provider_labelled)
qed simp

section \<open>Properties\<close>

text \<open>
  C40. No untrusted text is forwarded: whatever a line or a thrown value contains, also with cyclic
  causes, its diagnostic is a list of labels from a fixed vocabulary.
\<close>

theorem diagnostics_fixed_vocabulary:
  "(case classifyDiagnostic text of None \<Rightarrow> True | Some c \<Rightarrow> labelled c) \<and>
   labelled (providerDiagnostic heap v)"
  by (simp add: provider_labelled classify_labelled split: option.split)

text \<open>
  Error details are bounded and contain nothing but labels, the mark of a cyclic chain and the
  source locations of stack lines: at most eight causes with at most sixteen locations each.
\<close>

theorem error_details_bounded:
  "runtimeErrorDetails heap v = join_with (CHR 10 # ''Caused by: '') (detail_parts 8 heap [] v) \<and>
   length (detail_parts 8 heap [] v) \<le> 136 \<and>
   list_all (\<lambda>s. labelled s \<or> s = ''[cyclic cause]'' \<or> location_line s) (detail_parts 8 heap [] v)"
  using detail_parts_shape [of 8 heap "[]" v] by (simp add: runtimeErrorDetails_def del: detail_parts.simps)

end
