(* ===== verification/Python_Bridge.thy ===== *)
theory Python_Bridge
  imports Run_Validation Abort_Cause Js_Text Diagnostics
begin

text \<open>
  The boundary to the Python preparation process: the requests' results of
  \<open>coordinator/src/ports/python-bridge.ts\<close> and \<open>ports/runtime-config.ts\<close>, and the adapter
  \<open>bridges/python.ts\<close> that runs the process, checks its response envelope, parses preflight results
  and configurations, and reduces its standard error stream to bounded log records. The process
  itself (its exit, output and failure) is a parameter.
\<close>

section \<open>The data of the port\<close>

datatype preflight_action = PfStart | PfSkip | PfError

fun preflight_action_text :: "preflight_action \<Rightarrow> string" where
  "preflight_action_text PfStart = ''start''"
| "preflight_action_text PfSkip = ''skip''"
| "preflight_action_text PfError = ''error''"

definition preflight_action_of :: "string \<Rightarrow> preflight_action option" where
  "preflight_action_of s = find (\<lambda>a. preflight_action_text a = s) [PfStart, PfSkip, PfError]"

definition isPreflightAction :: "jsval \<Rightarrow> bool" where
  "isPreflightAction v = (case v of JStr s \<Rightarrow> preflight_action_of s \<noteq> None | _ \<Rightarrow> False)"

record preflight_script_result =
  ps_name :: string
  ps_status :: preflight_action
  ps_content :: string

record preflight_result =
  pf_action :: preflight_action
  pf_prompt :: string
  pf_transcript :: string
  pf_scripts :: "preflight_script_result list"

datatype instruction_strategy = ReplaceStrategy | AppendStrategy | IgnoreStrategy

fun instruction_strategy_text :: "instruction_strategy \<Rightarrow> string" where
  "instruction_strategy_text ReplaceStrategy = ''replace''"
| "instruction_strategy_text AppendStrategy = ''append''"
| "instruction_strategy_text IgnoreStrategy = ''ignore''"

definition instruction_strategy_of :: "string \<Rightarrow> instruction_strategy option" where
  "instruction_strategy_of s =
     find (\<lambda>a. instruction_strategy_text a = s) [ReplaceStrategy, AppendStrategy, IgnoreStrategy]"

record mcp_options =
  mo_timeout :: "rat option"
  mo_alwaysLoad :: "bool option"
  mo_codemode :: "bool option"

datatype remote_kind = HttpTransport | SseTransport

datatype mcp_server =
    StdioServer bool string "string list option" "(string \<times> string) list option" mcp_options
  | RemoteServer remote_kind string "(string \<times> string) list option" mcp_options

record config_preparation =
  cf_model :: string
  cf_runtimeId :: string
  cf_providerId :: string
  cf_budgetUsd :: rat
  cf_intervalSeconds :: rat
  cf_idleIntervalSeconds :: rat
  cf_cycleTimeoutSeconds :: rat
  cf_idleReminderCooldownSeconds :: rat
  cf_workflow :: string
  cf_source :: string
  cf_envs :: "string list option"
  cf_activeEnvs :: "string list"
  cf_claudeMdStrategy :: instruction_strategy
  cf_idleCycleLimit :: nat
  cf_remoteAgentDir :: "string option"
  cf_sharedAgentDir :: "string option"
  cf_claudeMdPath :: string
  cf_gitConfigGlobal :: "string option option"
  cf_mcpServers :: "(string \<times> mcp_server) list"
  cf_openCodeMcpServers :: "(string \<times> mcp_server) list"
  cf_allowedTools :: "string list"
  cf_optionalMcpServers :: "string list"

section \<open>Field parsers\<close>

definition bridge_fail :: "string \<Rightarrow> reason + 'a" where
  "bridge_fail message = Inl (RError ''PythonBridgeError'' message False)"

fun bridge_record :: "jsval \<Rightarrow> string \<Rightarrow> reason + obj" where
  "bridge_record (JObj ob) path = Inr ob"
| "bridge_record _ path = bridge_fail (path @ '' must be an object'')"

fun arrayValue :: "jsval \<Rightarrow> string \<Rightarrow> reason + jsval list" where
  "arrayValue (JArr xs) path = Inr xs"
| "arrayValue _ path = bridge_fail (path @ '' must be an array'')"

fun stringValue :: "jsval \<Rightarrow> string \<Rightarrow> reason + string" where
  "stringValue (JStr s) path = Inr s"
| "stringValue _ path = bridge_fail (path @ '' must be a string'')"

fun booleanValue :: "jsval \<Rightarrow> string \<Rightarrow> reason + bool" where
  "booleanValue (JBool b) path = Inr b"
| "booleanValue _ path = bridge_fail (path @ '' must be a boolean'')"

fun finiteNumber :: "jsval \<Rightarrow> string \<Rightarrow> reason + rat" where
  "finiteNumber (JNum (Fin r)) path = Inr r"
| "finiteNumber _ path = bridge_fail (path @ '' must be a finite number'')"

fun positiveNumber :: "jsval \<Rightarrow> string \<Rightarrow> reason + rat" where
  "positiveNumber (JNum (Fin r)) path =
     (if 0 < r then Inr r else bridge_fail (path @ '' must be a positive finite number''))"
| "positiveNumber _ path = bridge_fail (path @ '' must be a positive finite number'')"

fun nonNegativeNumber :: "jsval \<Rightarrow> string \<Rightarrow> reason + rat" where
  "nonNegativeNumber (JNum (Fin r)) path =
     (if 0 \<le> r then Inr r else bridge_fail (path @ '' must be a non-negative finite number''))"
| "nonNegativeNumber _ path = bridge_fail (path @ '' must be a non-negative finite number'')"

fun nonNegativeInteger :: "jsval \<Rightarrow> string \<Rightarrow> reason + nat" where
  "nonNegativeInteger (JNum (Fin r)) path =
     (if is_safe_integer (Fin r) \<and> 0 \<le> r then Inr (nat \<lfloor>r\<rfloor>)
      else bridge_fail (path @ '' must be a non-negative safe integer''))"
| "nonNegativeInteger _ path = bridge_fail (path @ '' must be a non-negative safe integer'')"

definition selectionId :: "jsval \<Rightarrow> string \<Rightarrow> reason + string" where
  "selectionId value path =
     bindE (stringValue value path) (\<lambda>selection.
       if runtime_id_ok selection then Inr selection
       else bridge_fail (path @ '' must be a lowercase runtime/provider identifier''))"

definition nullable :: "(jsval \<Rightarrow> string \<Rightarrow> reason + 'a) \<Rightarrow> jsval \<Rightarrow> string \<Rightarrow> reason + 'a option" where
  "nullable parse value path =
     (if value = JNull then Inr None else bindE (parse value path) (\<lambda>x. Inr (Some x)))"

definition nullableString :: "jsval \<Rightarrow> string \<Rightarrow> reason + string option" where
  "nullableString = nullable stringValue"

text \<open>\<open>...(x === undefined ? {} : { key: parse(x) })\<close> and \<open>x ?? default\<close>.\<close>

definition optional_field ::
    "(jsval \<Rightarrow> string \<Rightarrow> reason + 'a) \<Rightarrow> jsval \<Rightarrow> string \<Rightarrow> reason + 'a option" where
  "optional_field parse value path =
     (if value = Undef then Inr None else bindE (parse value path) (\<lambda>x. Inr (Some x)))"

definition js_default :: "jsval \<Rightarrow> jsval \<Rightarrow> jsval" where
  "js_default value d = (if value = Undef \<or> value = JNull then d else value)"

fun mapE_from :: "nat \<Rightarrow> (nat \<Rightarrow> 'a \<Rightarrow> 'e + 'b) \<Rightarrow> 'a list \<Rightarrow> 'e + 'b list" where
  "mapE_from i f [] = Inr []"
| "mapE_from i f (x # xs) = bindE (f i x) (\<lambda>y. bindE (mapE_from (Suc i) f xs) (\<lambda>ys. Inr (y # ys)))"

definition at_index :: "string \<Rightarrow> nat \<Rightarrow> string" where
  "at_index path i = path @ ''['' @ show_nat i @ '']''"

definition stringArray :: "jsval \<Rightarrow> string \<Rightarrow> reason + string list" where
  "stringArray value path =
     bindE (arrayValue value path) (mapE_from 0 (\<lambda>i entry. stringValue entry (at_index path i)))"

definition entriesE ::
    "(jsval \<Rightarrow> string \<Rightarrow> reason + 'a) \<Rightarrow> obj \<Rightarrow> string \<Rightarrow> reason + (string \<times> 'a) list" where
  "entriesE parse ob path =
     mapE_from 0 (\<lambda>i (k, v). bindE (parse v (path @ ''.'' @ k)) (\<lambda>x. Inr (k, x))) ob"

definition stringRecord :: "jsval \<Rightarrow> string \<Rightarrow> reason + (string \<times> string) list" where
  "stringRecord value path = bindE (bridge_record value path) (\<lambda>ob. entriesE stringValue ob path)"

section \<open>Parsing the results\<close>

definition mcp_options_of :: "obj \<Rightarrow> string \<Rightarrow> reason + mcp_options" where
  "mcp_options_of config path =
     bindE (optional_field finiteNumber (obj_get config ''timeout'') (path @ ''.timeout'')) (\<lambda>t.
     bindE (optional_field booleanValue (obj_get config ''alwaysLoad'') (path @ ''.alwaysLoad'')) (\<lambda>a.
     bindE (optional_field booleanValue (obj_get config ''codemode'') (path @ ''.codemode'')) (\<lambda>c.
     Inr \<lparr>mo_timeout = t, mo_alwaysLoad = a, mo_codemode = c\<rparr>)))"

definition remote_kind_of :: "jsval \<Rightarrow> remote_kind option" where
  "remote_kind_of v =
     (if v = JStr ''http'' then Some HttpTransport
      else if v = JStr ''sse'' then Some SseTransport else None)"

definition parseMcpServer :: "jsval \<Rightarrow> string \<Rightarrow> reason + mcp_server" where
  "parseMcpServer value path =
     bindE (bridge_record value path) (\<lambda>config.
       case obj_get config ''command'' of
         JStr command \<Rightarrow>
           (let type = obj_get config ''type''
            in if type \<noteq> Undef \<and> type \<noteq> JStr ''stdio''
               then bridge_fail (path @ ''.type must be stdio when command is provided'')
               else
                 bindE (optional_field stringArray (obj_get config ''args'') (path @ ''.args'')) (\<lambda>args.
                 bindE (optional_field stringRecord (obj_get config ''env'') (path @ ''.env'')) (\<lambda>env.
                 bindE (mcp_options_of config path) (\<lambda>opts.
                 Inr (StdioServer (type \<noteq> Undef) command args env opts)))))
       | _ \<Rightarrow>
           (case remote_kind_of (obj_get config ''type'') of
              None \<Rightarrow> bridge_fail (path @ ''.type must be http or sse'')
            | Some kind \<Rightarrow>
                bindE (stringValue (obj_get config ''url'') (path @ ''.url'')) (\<lambda>url.
                bindE (optional_field stringRecord (obj_get config ''headers'') (path @ ''.headers'')) (\<lambda>headers.
                bindE (mcp_options_of config path) (\<lambda>opts.
                Inr (RemoteServer kind url headers opts))))))"

definition parseMcpServers :: "jsval \<Rightarrow> string \<Rightarrow> reason + (string \<times> mcp_server) list" where
  "parseMcpServers value path = bindE (bridge_record value path) (\<lambda>ob. entriesE parseMcpServer ob path)"

definition parseRequiredOpenCodeMcpServers :: "jsval \<Rightarrow> reason + (string \<times> mcp_server) list" where
  "parseRequiredOpenCodeMcpServers value =
     (if value = Undef then bridge_fail ''config.openCodeMcpServers is required''
      else parseMcpServers value ''config.openCodeMcpServers'')"

definition default_budget_usd :: rat where
  "default_budget_usd = 5"

definition parseConfigPreparationResult :: "jsval \<Rightarrow> reason + config_preparation" where
  "parseConfigPreparationResult value =
     bindE (bridge_record value ''config preparation result'') (\<lambda>ob.
     bindE (stringValue (obj_get ob ''claudeMdStrategy'') ''config.claudeMdStrategy'') (\<lambda>text.
     case instruction_strategy_of text of
       None \<Rightarrow> bridge_fail ''config.claudeMdStrategy is invalid''
     | Some claudeMdStrategy \<Rightarrow>
     bindE (nullable stringArray (obj_get ob ''envs'') ''config.envs'') (\<lambda>envs.
     bindE (stringValue (obj_get ob ''model'') ''config.model'') (\<lambda>model.
     bindE (selectionId (obj_get ob ''runtimeId'') ''config.runtimeId'') (\<lambda>runtimeId.
     bindE (selectionId (obj_get ob ''providerId'') ''config.providerId'') (\<lambda>providerId.
     bindE (positiveNumber (js_default (obj_get ob ''budgetUsd'') (JNum (Fin default_budget_usd))) ''config.budgetUsd'') (\<lambda>budgetUsd.
     bindE (nonNegativeNumber (obj_get ob ''intervalSeconds'') ''config.intervalSeconds'') (\<lambda>intervalSeconds.
     bindE (nonNegativeNumber (obj_get ob ''idleIntervalSeconds'') ''config.idleIntervalSeconds'') (\<lambda>idleIntervalSeconds.
     bindE (positiveNumber (obj_get ob ''cycleTimeoutSeconds'') ''config.cycleTimeoutSeconds'') (\<lambda>cycleTimeoutSeconds.
     bindE (nonNegativeNumber (obj_get ob ''idleReminderCooldownSeconds'') ''config.idleReminderCooldownSeconds'') (\<lambda>idleReminderCooldownSeconds.
     bindE (stringValue (obj_get ob ''workflow'') ''config.workflow'') (\<lambda>workflow.
     bindE (stringValue (obj_get ob ''source'') ''config.source'') (\<lambda>source.
     bindE (stringArray (obj_get ob ''activeEnvs'') ''config.activeEnvs'') (\<lambda>activeEnvs.
     bindE (nonNegativeInteger (obj_get ob ''idleCycleLimit'') ''config.idleCycleLimit'') (\<lambda>idleCycleLimit.
     bindE (nullableString (obj_get ob ''remoteAgentDir'') ''config.remoteAgentDir'') (\<lambda>remoteAgentDir.
     bindE (nullableString (obj_get ob ''sharedAgentDir'') ''config.sharedAgentDir'') (\<lambda>sharedAgentDir.
     bindE (stringValue (obj_get ob ''claudeMdPath'') ''config.claudeMdPath'') (\<lambda>claudeMdPath.
     bindE (optional_field nullableString (obj_get ob ''gitConfigGlobal'') ''config.gitConfigGlobal'') (\<lambda>gitConfigGlobal.
     bindE (parseMcpServers (obj_get ob ''mcpServers'') ''config.mcpServers'') (\<lambda>mcpServers.
     bindE (parseRequiredOpenCodeMcpServers (obj_get ob ''openCodeMcpServers'')) (\<lambda>openCodeMcpServers.
     bindE (stringArray (js_default (obj_get ob ''allowedTools'') (JArr [])) ''config.allowedTools'') (\<lambda>allowedTools.
     bindE (stringArray (js_default (obj_get ob ''optionalMcpServers'') (JArr [])) ''config.optionalMcpServers'') (\<lambda>optionalMcpServers.
     Inr \<lparr>cf_model = model,
         cf_runtimeId = runtimeId,
         cf_providerId = providerId,
         cf_budgetUsd = budgetUsd,
         cf_intervalSeconds = intervalSeconds,
         cf_idleIntervalSeconds = idleIntervalSeconds,
         cf_cycleTimeoutSeconds = cycleTimeoutSeconds,
         cf_idleReminderCooldownSeconds = idleReminderCooldownSeconds,
         cf_workflow = workflow,
         cf_source = source,
         cf_envs = envs,
         cf_activeEnvs = activeEnvs,
         cf_claudeMdStrategy = claudeMdStrategy,
         cf_idleCycleLimit = idleCycleLimit,
         cf_remoteAgentDir = remoteAgentDir,
         cf_sharedAgentDir = sharedAgentDir,
         cf_claudeMdPath = claudeMdPath,
         cf_gitConfigGlobal = gitConfigGlobal,
         cf_mcpServers = mcpServers,
         cf_openCodeMcpServers = openCodeMcpServers,
         cf_allowedTools = allowedTools,
         cf_optionalMcpServers = optionalMcpServers\<rparr>)))))))))))))))))))))))"

definition parse_script :: "nat \<Rightarrow> jsval \<Rightarrow> reason + preflight_script_result" where
  "parse_script i script =
     (let path = at_index ''preflight.scripts'' i
      in bindE (bridge_record script path) (\<lambda>entry.
         bindE (stringValue (obj_get entry ''status'') (path @ ''.status'')) (\<lambda>status.
         case preflight_action_of status of
           None \<Rightarrow> bridge_fail (path @ ''.status is invalid'')
         | Some s \<Rightarrow>
         bindE (stringValue (obj_get entry ''name'') (path @ ''.name'')) (\<lambda>name.
         bindE (stringValue (obj_get entry ''content'') (path @ ''.content'')) (\<lambda>content.
         Inr \<lparr>ps_name = name, ps_status = s, ps_content = content\<rparr>)))))"

definition parsePreflightResult :: "jsval \<Rightarrow> reason + preflight_result option" where
  "parsePreflightResult value =
     (if value = JNull then Inr None
      else
        bindE (bridge_record value ''preflight result'') (\<lambda>ob.
        bindE (stringValue (obj_get ob ''action'') ''preflight.action'') (\<lambda>action.
        case preflight_action_of action of
          None \<Rightarrow> bridge_fail ''preflight.action must be start, skip, or error''
        | Some a \<Rightarrow>
        bindE (bindE (arrayValue (obj_get ob ''scripts'') ''preflight.scripts'') (mapE_from 0 parse_script)) (\<lambda>scripts.
        bindE (stringValue (obj_get ob ''prompt'') ''preflight.prompt'') (\<lambda>prompt.
        bindE (stringValue (obj_get ob ''transcript'') ''preflight.transcript'') (\<lambda>transcript.
        Inr (Some \<lparr>pf_action = a, pf_prompt = prompt, pf_transcript = transcript,
                   pf_scripts = scripts\<rparr>)))))))"

definition parseBridgeResponse :: "jsval \<Rightarrow> reason + jsval" where
  "parseBridgeResponse value =
     (case value of
        JObj ob \<Rightarrow>
          if obj_get ob ''protocolVersion'' = JNum (Fin 1) \<and> obj_get ob ''ok'' = JBool True
          then Inr (obj_get ob ''result'')
          else bridge_fail ''Python coordinator bridge returned an invalid response envelope''
      | _ \<Rightarrow> bridge_fail ''Python coordinator bridge returned an invalid response envelope'')"

section \<open>The process\<close>

text \<open>
  What one run of the bridge process does: an abort before it starts or while it runs, a failure to
  spawn or to read it, its exit code, its standard output and the tail kept of its standard error.
\<close>

record bridge_process =
  bp_abortedBefore :: "reason option"
  bp_abortedDuring :: "reason option"
  bp_failure :: "reason option"
  bp_exitCode :: int
  bp_stdout :: string
  bp_stderr :: string

definition show_int :: "int \<Rightarrow> string" where
  "show_int n = (if n < 0 then ''-'' @ show_nat (nat (- n)) else show_nat (nat n))"

definition bridge_request :: "bridge_process \<Rightarrow> reason + jsval" where
  "bridge_request P =
     (case bp_abortedBefore P of
        Some r \<Rightarrow> Inl (abortError r ''Python coordinator bridge aborted'')
      | None \<Rightarrow>
     (case bp_failure P of
        Some e \<Rightarrow> Inl e
      | None \<Rightarrow>
     (case bp_abortedDuring P of
        Some r \<Rightarrow> Inl (abortError r ''Python coordinator bridge aborted'')
      | None \<Rightarrow>
     if bp_exitCode P \<noteq> 0
     then bridge_fail (''Python coordinator bridge failed: '' @
            (if bp_stderr P \<noteq> [] then bp_stderr P
             else ''process exited with code '' @ show_int (bp_exitCode P)))
     else
       (case json_parse (bp_stdout P) of
          None \<Rightarrow> bridge_fail ''Python coordinator bridge returned invalid JSON''
        | Some response \<Rightarrow> parseBridgeResponse response))))"

definition bridge_preflight :: "bridge_process \<Rightarrow> reason + preflight_result option" where
  "bridge_preflight P = bindE (bridge_request P) parsePreflightResult"

definition bridge_prepareConfig :: "bridge_process \<Rightarrow> reason + config_preparation" where
  "bridge_prepareConfig P = bindE (bridge_request P) parseConfigPreparationResult"

definition cleanupBetweenCycles :: "bridge_process \<Rightarrow> reason + rat option" where
  "cleanupBetweenCycles P =
     bindE (bridge_request P) (\<lambda>result.
       Inr (case result of
              JObj ob \<Rightarrow> (case obj_get ob ''diskFreeMb'' of JNum (Fin r) \<Rightarrow> Some r | _ \<Rightarrow> None)
            | _ \<Rightarrow> None))"

end
