(* ===== verification/Bridge_Facts.thy ===== *)
theory Bridge_Facts
  imports Python_Bridge
begin

text \<open>
  What the parsers of the Python bridge accept: a printer for configurations, the condition a
  parsed configuration satisfies, and the facts that parsing and printing are inverse to each other.
  The errors are always those of the bridge.
\<close>

section \<open>Printing\<close>

definition opt_val :: "('a \<Rightarrow> jsval) \<Rightarrow> 'a option \<Rightarrow> jsval" where
  "opt_val f x = (case x of None \<Rightarrow> Undef | Some y \<Rightarrow> f y)"

definition null_or :: "('a \<Rightarrow> jsval) \<Rightarrow> 'a option \<Rightarrow> jsval" where
  "null_or f x = (case x of None \<Rightarrow> JNull | Some y \<Rightarrow> f y)"

definition strs_to_val :: "string list \<Rightarrow> jsval" where
  "strs_to_val ss = JArr (map JStr ss)"

definition strs_record_to_val :: "(string \<times> string) list \<Rightarrow> jsval" where
  "strs_record_to_val kvs = JObj (map (\<lambda>(k, s). (k, JStr s)) kvs)"

definition mcp_options_to_obj :: "mcp_options \<Rightarrow> obj" where
  "mcp_options_to_obj o1 =
     opt_entry ''timeout'' (opt_val (\<lambda>r. JNum (Fin r)) (mo_timeout o1)) @
     opt_entry ''alwaysLoad'' (opt_val JBool (mo_alwaysLoad o1)) @
     opt_entry ''codemode'' (opt_val JBool (mo_codemode o1))"

fun remote_kind_text :: "remote_kind \<Rightarrow> string" where
  "remote_kind_text HttpTransport = ''http''"
| "remote_kind_text SseTransport = ''sse''"

fun server_to_val :: "mcp_server \<Rightarrow> jsval" where
  "server_to_val (StdioServer typed command args env opts) =
     JObj (opt_entry ''type'' (if typed then JStr ''stdio'' else Undef) @
           [(''command'', JStr command)] @
           opt_entry ''args'' (opt_val strs_to_val args) @
           opt_entry ''env'' (opt_val strs_record_to_val env) @ mcp_options_to_obj opts)"
| "server_to_val (RemoteServer kind url headers opts) =
     JObj ([(''type'', JStr (remote_kind_text kind)), (''url'', JStr url)] @
           opt_entry ''headers'' (opt_val strs_record_to_val headers) @ mcp_options_to_obj opts)"

definition servers_to_val :: "(string \<times> mcp_server) list \<Rightarrow> jsval" where
  "servers_to_val kvs = JObj (map (\<lambda>(k, s). (k, server_to_val s)) kvs)"

definition config_to_obj :: "config_preparation \<Rightarrow> obj" where
  "config_to_obj c =
     [(''model'', JStr (cf_model c)),
      (''runtimeId'', JStr (cf_runtimeId c)),
      (''providerId'', JStr (cf_providerId c)),
      (''budgetUsd'', JNum (Fin (cf_budgetUsd c))),
      (''intervalSeconds'', JNum (Fin (cf_intervalSeconds c))),
      (''idleIntervalSeconds'', JNum (Fin (cf_idleIntervalSeconds c))),
      (''cycleTimeoutSeconds'', JNum (Fin (cf_cycleTimeoutSeconds c))),
      (''idleReminderCooldownSeconds'', JNum (Fin (cf_idleReminderCooldownSeconds c))),
      (''workflow'', JStr (cf_workflow c)),
      (''source'', JStr (cf_source c)),
      (''envs'', null_or strs_to_val (cf_envs c)),
      (''activeEnvs'', strs_to_val (cf_activeEnvs c)),
      (''claudeMdStrategy'', JStr (instruction_strategy_text (cf_claudeMdStrategy c))),
      (''idleCycleLimit'', JNum (Fin (of_nat (cf_idleCycleLimit c)))),
      (''remoteAgentDir'', null_or JStr (cf_remoteAgentDir c)),
      (''sharedAgentDir'', null_or JStr (cf_sharedAgentDir c)),
      (''claudeMdPath'', JStr (cf_claudeMdPath c)),
      (''mcpServers'', servers_to_val (cf_mcpServers c)),
      (''openCodeMcpServers'', servers_to_val (cf_openCodeMcpServers c)),
      (''allowedTools'', strs_to_val (cf_allowedTools c)),
      (''optionalMcpServers'', strs_to_val (cf_optionalMcpServers c))] @
     (case cf_gitConfigGlobal c of None \<Rightarrow> [] | Some g \<Rightarrow> [(''gitConfigGlobal'', null_or JStr g)])"

definition config_ok :: "config_preparation \<Rightarrow> bool" where
  "config_ok c \<longleftrightarrow>
     runtime_id_ok (cf_runtimeId c) \<and> runtime_id_ok (cf_providerId c) \<and> 0 < cf_budgetUsd c \<and>
     0 \<le> cf_intervalSeconds c \<and> 0 \<le> cf_idleIntervalSeconds c \<and> 0 < cf_cycleTimeoutSeconds c \<and>
     0 \<le> cf_idleReminderCooldownSeconds c \<and> cf_idleCycleLimit c \<le> max_safe_integer"

section \<open>Field parsers\<close>

named_theorems bridge_parse \<open>what the field parsers return\<close>

definition bridge_error :: "reason \<Rightarrow> bool" where
  "bridge_error e \<longleftrightarrow> (\<exists>m. e = RError ''PythonBridgeError'' m False)"

lemma bridge_fail_error [simp]: "bridge_fail m = Inl e \<Longrightarrow> bridge_error e" "bridge_fail m \<noteq> Inr x"
  by (auto simp: bridge_fail_def bridge_error_def)

lemma parse_values [bridge_parse]:
  "bridge_record v p = Inr ob \<longleftrightarrow> v = JObj ob"
  "arrayValue v p = Inr xs \<longleftrightarrow> v = JArr xs"
  "stringValue v p = Inr s \<longleftrightarrow> v = JStr s"
  "booleanValue v p = Inr b \<longleftrightarrow> v = JBool b"
  by (cases v; auto)+

lemma finiteNumber_Inr [bridge_parse]: "finiteNumber v p = Inr r \<longleftrightarrow> v = JNum (Fin r)"
  by (cases "(v, p)" rule: finiteNumber.cases) auto

lemma positiveNumber_Inr [bridge_parse]: "positiveNumber v p = Inr r \<longleftrightarrow> v = JNum (Fin r) \<and> 0 < r"
  by (cases "(v, p)" rule: positiveNumber.cases) auto

lemma nonNegativeNumber_Inr [bridge_parse]:
  "nonNegativeNumber v p = Inr r \<longleftrightarrow> v = JNum (Fin r) \<and> 0 \<le> r"
  by (cases "(v, p)" rule: nonNegativeNumber.cases) auto

lemma nonNegativeInteger_Inr [bridge_parse]:
  "nonNegativeInteger v p = Inr n \<longleftrightarrow> v = JNum (Fin (of_nat n)) \<and> n \<le> max_safe_integer"
proof (cases "(v, p)" rule: nonNegativeInteger.cases)
  case (1 r path)
  have "(of_nat n :: rat) \<le> of_nat max_safe_integer \<longleftrightarrow> n \<le> max_safe_integer"
    by (rule of_nat_le_iff)
  then show ?thesis
    using 1 is_integer_nonneg_nat [of r] by auto
qed auto

lemma selectionId_Inr [bridge_parse]: "selectionId v p = Inr s \<longleftrightarrow> v = JStr s \<and> runtime_id_ok s"
  by (auto simp: selectionId_def bindE_Inr parse_values)

lemma nullable_Inr [bridge_parse]:
  "nullable f v p = Inr x \<longleftrightarrow> (if v = JNull then x = None else \<exists>y. f v p = Inr y \<and> x = Some y)"
  by (auto simp: nullable_def bindE_Inr)

lemma optional_Inr [bridge_parse]:
  "optional_field f v p = Inr x \<longleftrightarrow> (if v = Undef then x = None else \<exists>y. f v p = Inr y \<and> x = Some y)"
  by (auto simp: optional_field_def bindE_Inr)

lemma mapE_from_Inr:
  "mapE_from i f xs = Inr ys \<longleftrightarrow>
     length ys = length xs \<and> (\<forall>j < length xs. f (i + j) (xs ! j) = Inr (ys ! j))"
proof (induction xs arbitrary: i ys)
  case (Cons x xs)
  show ?case
  proof (cases ys)
    case (Cons y ys')
    then show ?thesis
      using Cons.IH [of "Suc i" ys'] by (auto simp: bindE_Inr nth_Cons split: nat.splits)
  qed (auto simp: bindE_Inr)
qed auto

lemma strs_parse [bridge_parse]: "stringArray v p = Inr ss \<longleftrightarrow> v = strs_to_val ss"
  by (auto simp: stringArray_def bindE_Inr parse_values mapE_from_Inr strs_to_val_def
      intro!: nth_equalityI)

lemma entriesE_Inr:
  assumes "\<And>w q x. parse w q = Inr x \<longleftrightarrow> w = print x"
  shows "entriesE parse ob p = Inr kvs \<longleftrightarrow> ob = map (\<lambda>(k, x). (k, print x)) kvs"
proof -
  have "entriesE parse ob p = Inr kvs \<longleftrightarrow>
      length kvs = length ob \<and> (\<forall>j < length ob. ob ! j = (fst (kvs ! j), print (snd (kvs ! j))))"
    by (auto simp: entriesE_def mapE_from_Inr bindE_Inr assms split_beta prod_eq_iff)
  also have "\<dots> \<longleftrightarrow> ob = map (\<lambda>(k, x). (k, print x)) kvs"
    by (auto simp: list_eq_iff_nth_eq split_beta)
  finally show ?thesis .
qed

lemma stringRecord_Inr [bridge_parse]: "stringRecord v p = Inr kvs \<longleftrightarrow> v = strs_record_to_val kvs"
  by (auto simp: stringRecord_def bindE_Inr parse_values strs_record_to_val_def
      entriesE_Inr [where print = JStr])

lemma entriesE_print:
  assumes "\<And>x q. parse (print x) q = Inr x"
  shows "entriesE parse (map (\<lambda>(k, x). (k, print x)) kvs) p = Inr kvs"
  by (auto simp: entriesE_def mapE_from_Inr assms split_beta)

section \<open>Errors are bridge errors\<close>

definition errs :: "reason + 'a \<Rightarrow> bool" where
  "errs r \<longleftrightarrow> (case r of Inl e \<Rightarrow> bridge_error e | Inr _ \<Rightarrow> True)"

named_theorems errs_intros \<open>parsers that throw bridge errors only\<close>

lemma errs_Inr [errs_intros]: "errs (Inr x)"
  by (simp add: errs_def)

lemma errs_fail [errs_intros]: "errs (bridge_fail m)"
  by (simp add: errs_def bridge_fail_def bridge_error_def)

lemma errs_bindE [errs_intros]: "errs r \<Longrightarrow> (\<And>x. errs (f x)) \<Longrightarrow> errs (bindE r f)"
  by (cases r) (auto simp: errs_def)

lemma errs_values [errs_intros]:
  "errs (bridge_record v p)" "errs (arrayValue v p)" "errs (stringValue v p)" "errs (booleanValue v p)"
  by (cases v; simp add: errs_intros)+

lemma errs_numbers [errs_intros]:
  "errs (finiteNumber v p)" "errs (positiveNumber v p)" "errs (nonNegativeNumber v p)"
  "errs (nonNegativeInteger v p)"
  by (cases "(v, p)" rule: finiteNumber.cases; simp add: errs_intros)+

lemma errs_mapE: "(\<And>i x. errs (f i x)) \<Longrightarrow> errs (mapE_from i f xs)"
  by (induction xs arbitrary: i) (simp_all add: errs_intros)

lemma errs_derived [errs_intros]:
  "errs (selectionId v p)"
  "(\<And>w q. errs (parse w q)) \<Longrightarrow> errs (nullable parse v p)"
  "(\<And>w q. errs (parse w q)) \<Longrightarrow> errs (optional_field parse v p)"
  "(\<And>w q. errs (parse w q)) \<Longrightarrow> errs (entriesE parse ob p)"
  "errs (stringArray v p)"
  by (auto simp: selectionId_def nullable_def optional_field_def entriesE_def stringArray_def
      intro!: errs_intros errs_mapE)

lemma errs_stringRecord [errs_intros]: "errs (stringRecord v p)"
  unfolding stringRecord_def by (intro errs_intros)

lemma errs_nullableString [errs_intros]: "errs (nullableString v p)"
  unfolding nullableString_def by (intro errs_intros)

lemma errs_options [errs_intros]: "errs (mcp_options_of config p)"
  unfolding mcp_options_of_def by (intro errs_intros)

lemma errs_server [errs_intros]: "errs (parseMcpServer v p)"
  unfolding parseMcpServer_def Let_def
  by (rule errs_bindE, rule errs_values) (auto split: jsval.split option.split intro!: errs_intros)

lemma errs_servers [errs_intros]: "errs (parseMcpServers v p)"
  unfolding parseMcpServers_def by (intro errs_intros)

lemma errs_required [errs_intros]: "errs (parseRequiredOpenCodeMcpServers v)"
  by (simp add: parseRequiredOpenCodeMcpServers_def errs_intros)

lemma errs_option_case [errs_intros]:
  "errs a \<Longrightarrow> (\<And>x. errs (f x)) \<Longrightarrow> errs (case z of None \<Rightarrow> a | Some x \<Rightarrow> f x)"
  by (cases z) auto

lemma errs_config: "errs (parseConfigPreparationResult v)"
  unfolding parseConfigPreparationResult_def by (intro errs_intros)

lemma errs_script [errs_intros]: "errs (parse_script i v)"
  unfolding parse_script_def Let_def by (intro errs_intros)

lemma errs_preflight: "errs (parsePreflightResult v)"
  unfolding parsePreflightResult_def by (auto intro!: errs_intros errs_mapE)

lemma errs_response: "errs (parseBridgeResponse v)"
  unfolding parseBridgeResponse_def by (auto split: jsval.split intro!: errs_intros)

section \<open>Parsing what is printed\<close>

lemma opt_val_simps [simp]: "opt_val f None = Undef" "opt_val f (Some x) = f x"
  by (simp_all add: opt_val_def)

lemma null_or_simps [simp]: "null_or f None = JNull" "null_or f (Some x) = f x"
  by (simp_all add: null_or_def)

lemma val_neq [simp]:
  "strs_to_val ss \<noteq> Undef" "strs_record_to_val kvs \<noteq> Undef" "strs_to_val ss \<noteq> JNull"
  by (simp_all add: strs_to_val_def strs_record_to_val_def)

lemma parse_options:
  "(\<And>k. k \<in> {''timeout'', ''alwaysLoad'', ''codemode''} \<Longrightarrow> obj_get ob k = obj_get (mcp_options_to_obj opts) k)
     \<Longrightarrow> mcp_options_of ob p = Inr opts"
  by (cases opts; cases "mo_timeout opts"; cases "mo_alwaysLoad opts"; cases "mo_codemode opts")
    (simp_all add: mcp_options_of_def mcp_options_to_obj_def js_simps optional_field_def)

lemma optional_print:
  "(\<And>y. f (pr y) p = Inr y) \<Longrightarrow> (\<And>y. pr y \<noteq> Undef) \<Longrightarrow> optional_field f (opt_val pr x) p = Inr x"
  by (cases x) (simp_all add: optional_field_def)

lemma options_keys [simp]:
  "k \<notin> {''timeout'', ''alwaysLoad'', ''codemode''} \<Longrightarrow> obj_get (mcp_options_to_obj opts) k = Undef"
  "k \<notin> {''timeout'', ''alwaysLoad'', ''codemode''} \<Longrightarrow> \<not> has_key (mcp_options_to_obj opts) k"
  by (simp_all add: mcp_options_to_obj_def js_simps)

lemma server_roundtrip: "parseMcpServer (server_to_val s) p = Inr s"
proof (cases s)
  case (StdioServer typed command args env opts)
  define ob where
    "ob = opt_entry ''type'' (if typed then JStr ''stdio'' else Undef) @ [(''command'', JStr command)] @
           opt_entry ''args'' (opt_val strs_to_val args) @
           opt_entry ''env'' (opt_val strs_record_to_val env) @ mcp_options_to_obj opts"
  have flds: "obj_get ob ''type'' = (if typed then JStr ''stdio'' else Undef)"
    "obj_get ob ''command'' = JStr command" "obj_get ob ''args'' = opt_val strs_to_val args"
    "obj_get ob ''env'' = opt_val strs_record_to_val env"
    by (simp_all add: ob_def js_simps)
  have opts: "mcp_options_of ob p = Inr opts"
    by (rule parse_options) (auto simp: ob_def js_simps)
  have "server_to_val s = JObj ob" by (simp add: StdioServer ob_def)
  then show ?thesis
    by (simp add: StdioServer parseMcpServer_def flds opts optional_print bridge_parse)
next
  case (RemoteServer kind url headers opts)
  define ob where
    "ob = [(''type'', JStr (remote_kind_text kind)), (''url'', JStr url)] @
           opt_entry ''headers'' (opt_val strs_record_to_val headers) @ mcp_options_to_obj opts"
  have flds: "obj_get ob ''type'' = JStr (remote_kind_text kind)" "obj_get ob ''url'' = JStr url"
    "obj_get ob ''command'' = Undef" "obj_get ob ''headers'' = opt_val strs_record_to_val headers"
    by (simp_all add: ob_def js_simps)
  have opts: "mcp_options_of ob p = Inr opts"
    by (rule parse_options) (auto simp: ob_def js_simps)
  have kind: "remote_kind_of (JStr (remote_kind_text kind)) = Some kind"
    by (cases kind) (simp_all add: remote_kind_of_def)
  have "server_to_val s = JObj ob" by (simp add: RemoteServer ob_def)
  then show ?thesis
    by (simp add: RemoteServer parseMcpServer_def flds opts kind optional_print bridge_parse)
qed

lemma servers_roundtrip [bridge_parse]: "parseMcpServers (servers_to_val kvs) p = Inr kvs"
  by (simp add: parseMcpServers_def servers_to_val_def entriesE_print server_roundtrip)

lemma opt_git: "obj_get (case g of None \<Rightarrow> [] | Some x \<Rightarrow> [(k, f x)]) k' = (if k' = k then opt_val f g else Undef)"
  by (cases g) (simp_all add: js_simps)

lemma null_or_JStr [simp]: "null_or JStr x \<noteq> Undef"
  by (cases x) simp_all

lemma nullable_print:
  "(\<And>y q. f (pr y) q = Inr y) \<Longrightarrow> (\<And>y. pr y \<noteq> JNull) \<Longrightarrow> nullable f (null_or pr x) p = Inr x"
  by (cases x) (simp_all add: nullable_def)

lemma nullables_print:
  "nullableString (null_or JStr x) p = Inr x" "nullable stringArray (null_or strs_to_val y) q = Inr y"
  unfolding nullableString_def by (rule nullable_print; simp add: bridge_parse)+

lemma strategy_of_text [simp]: "instruction_strategy_of (instruction_strategy_text s) = Some s"
  by (cases s) (simp_all add: instruction_strategy_of_def)

lemma js_default_val [simp]: "v \<noteq> Undef \<Longrightarrow> v \<noteq> JNull \<Longrightarrow> js_default v d = v"
  by (simp add: js_default_def)

lemma servers_required: "parseRequiredOpenCodeMcpServers (servers_to_val kvs) = Inr kvs"
proof -
  have "servers_to_val kvs \<noteq> Undef" by (simp add: servers_to_val_def)
  then show ?thesis by (simp add: parseRequiredOpenCodeMcpServers_def bridge_parse)
qed

lemma config_parsed: "parseConfigPreparationResult v = Inr c \<Longrightarrow> config_ok c"
  unfolding parseConfigPreparationResult_def
  by (clarsimp simp: bindE_Inr bridge_parse config_ok_def split: option.splits)

lemma config_print:
  assumes "config_ok c"
  shows "parseConfigPreparationResult (JObj (config_to_obj c)) = Inr c"
proof -
  have git: "obj_get (config_to_obj c) ''gitConfigGlobal'' = opt_val (null_or JStr) (cf_gitConfigGlobal c)"
    by (simp add: config_to_obj_def js_simps opt_git)
  have git': "optional_field nullableString (obj_get (config_to_obj c) ''gitConfigGlobal'') p =
      Inr (cf_gitConfigGlobal c)" for p
    unfolding git by (rule optional_print) (simp_all add: nullables_print)
  have flds: "obj_get (config_to_obj c) ''model'' = JStr (cf_model c)"
    "obj_get (config_to_obj c) ''runtimeId'' = JStr (cf_runtimeId c)"
    "obj_get (config_to_obj c) ''providerId'' = JStr (cf_providerId c)"
    "obj_get (config_to_obj c) ''budgetUsd'' = JNum (Fin (cf_budgetUsd c))"
    "obj_get (config_to_obj c) ''intervalSeconds'' = JNum (Fin (cf_intervalSeconds c))"
    "obj_get (config_to_obj c) ''idleIntervalSeconds'' = JNum (Fin (cf_idleIntervalSeconds c))"
    "obj_get (config_to_obj c) ''cycleTimeoutSeconds'' = JNum (Fin (cf_cycleTimeoutSeconds c))"
    "obj_get (config_to_obj c) ''idleReminderCooldownSeconds'' = JNum (Fin (cf_idleReminderCooldownSeconds c))"
    "obj_get (config_to_obj c) ''workflow'' = JStr (cf_workflow c)"
    "obj_get (config_to_obj c) ''source'' = JStr (cf_source c)"
    "obj_get (config_to_obj c) ''envs'' = null_or strs_to_val (cf_envs c)"
    "obj_get (config_to_obj c) ''activeEnvs'' = strs_to_val (cf_activeEnvs c)"
    "obj_get (config_to_obj c) ''claudeMdStrategy'' = JStr (instruction_strategy_text (cf_claudeMdStrategy c))"
    "obj_get (config_to_obj c) ''idleCycleLimit'' = JNum (Fin (of_nat (cf_idleCycleLimit c)))"
    "obj_get (config_to_obj c) ''remoteAgentDir'' = null_or JStr (cf_remoteAgentDir c)"
    "obj_get (config_to_obj c) ''sharedAgentDir'' = null_or JStr (cf_sharedAgentDir c)"
    "obj_get (config_to_obj c) ''claudeMdPath'' = JStr (cf_claudeMdPath c)"
    "obj_get (config_to_obj c) ''mcpServers'' = servers_to_val (cf_mcpServers c)"
    "obj_get (config_to_obj c) ''openCodeMcpServers'' = servers_to_val (cf_openCodeMcpServers c)"
    "obj_get (config_to_obj c) ''allowedTools'' = strs_to_val (cf_allowedTools c)"
    "obj_get (config_to_obj c) ''optionalMcpServers'' = strs_to_val (cf_optionalMcpServers c)"
    by (simp_all add: config_to_obj_def js_simps)
  have parsers: "stringValue (JStr x) p = Inr x" "bridge_record (JObj ob) p = Inr ob"
    "stringArray (strs_to_val xs) p = Inr xs" for x p ob xs
    by (simp_all add: bridge_parse)
  have nums: "selectionId (JStr (cf_runtimeId c)) p = Inr (cf_runtimeId c)"
    "selectionId (JStr (cf_providerId c)) p = Inr (cf_providerId c)"
    "positiveNumber (JNum (Fin (cf_budgetUsd c))) p = Inr (cf_budgetUsd c)"
    "positiveNumber (JNum (Fin (cf_cycleTimeoutSeconds c))) p = Inr (cf_cycleTimeoutSeconds c)"
    "nonNegativeNumber (JNum (Fin (cf_intervalSeconds c))) p = Inr (cf_intervalSeconds c)"
    "nonNegativeNumber (JNum (Fin (cf_idleIntervalSeconds c))) p = Inr (cf_idleIntervalSeconds c)"
    "nonNegativeNumber (JNum (Fin (cf_idleReminderCooldownSeconds c))) p = Inr (cf_idleReminderCooldownSeconds c)"
    "nonNegativeInteger (JNum (Fin (of_nat (cf_idleCycleLimit c)))) p = Inr (cf_idleCycleLimit c)" for p
    using assms unfolding bridge_parse by (simp_all add: config_ok_def)
  show ?thesis
    unfolding parseConfigPreparationResult_def
    by (simp only: flds git' parsers nums bindE_simps nullables_print servers_required servers_roundtrip
        strategy_of_text option.case js_default_val jsval.distinct val_neq not_False_eq_True simp_thms) simp
qed

section \<open>Properties\<close>

text \<open>
  C37. The configuration parser is exact: it accepts the object of a configuration exactly when its
  identifiers and numbers are in range, returning the configuration itself, MCP servers included;
  whatever it accepts satisfies the same condition, and whatever it rejects is rejected with a
  bridge error.
\<close>

theorem config_parse_roundtrip:
  "(parseConfigPreparationResult (JObj (config_to_obj c)) = Inr c) = config_ok c \<and>
   (case parseConfigPreparationResult v of
      Inl e \<Rightarrow> bridge_error e
    | Inr c' \<Rightarrow> config_ok c' \<and> parseConfigPreparationResult (JObj (config_to_obj c')) = Inr c')"
  using config_parsed [of v] config_print errs_config [of v] config_parsed [of "JObj (config_to_obj c)"]
  by (auto simp: errs_def split: sum.splits)

text \<open>
  C38. A bridge operation only returns what the process answered: its result comes from a process
  that was not aborted and did not fail, exited with code 0 and wrote a JSON envelope of the
  protocol's version with \<open>ok\<close>. Otherwise it fails with the abort (one before the start of the
  process goes before its failure, a later one after), the failure of the process, or an error of the bridge.
\<close>

theorem bridge_result_trusted:
  "(case bridge_request P of
      Inr result \<Rightarrow>
        bp_abortedBefore P = None \<and> bp_abortedDuring P = None \<and> bp_failure P = None \<and> bp_exitCode P = 0 \<and>
        (\<exists>ob. json_parse (bp_stdout P) = Some (JObj ob) \<and>
           obj_get ob ''protocolVersion'' = JNum (Fin 1) \<and> obj_get ob ''ok'' = JBool True \<and>
           result = obj_get ob ''result'')
    | Inl e \<Rightarrow>
       (case (bp_abortedBefore P, bp_failure P, bp_abortedDuring P) of
          (Some r, _, _) \<Rightarrow> e = abortError r ''Python coordinator bridge aborted''
        | (None, Some f, _) \<Rightarrow> e = f
        | (None, None, Some r) \<Rightarrow> e = abortError r ''Python coordinator bridge aborted''
        | (None, None, None) \<Rightarrow> bridge_error e))"
proof -
  have envelope: "parseBridgeResponse v = Inr r \<longleftrightarrow>
      (\<exists>ob. v = JObj ob \<and> obj_get ob ''protocolVersion'' = JNum (Fin 1) \<and> obj_get ob ''ok'' = JBool True \<and>
        r = obj_get ob ''result'')" for v r
    by (cases v) (auto simp: parseBridgeResponse_def)
  have "parseBridgeResponse v = Inl e \<Longrightarrow> bridge_error e" for v e
    using errs_response [of v] by (simp add: errs_def)
  then show ?thesis
    by (auto simp: bridge_request_def envelope split: sum.split option.split)
qed

definition script_to_val :: "preflight_script_result \<Rightarrow> jsval" where
  "script_to_val r =
     JObj [(''name'', JStr (ps_name r)), (''status'', JStr (preflight_action_text (ps_status r))),
           (''content'', JStr (ps_content r))]"

definition preflight_to_val :: "preflight_result \<Rightarrow> jsval" where
  "preflight_to_val r =
     JObj [(''action'', JStr (preflight_action_text (pf_action r))), (''prompt'', JStr (pf_prompt r)),
           (''transcript'', JStr (pf_transcript r)), (''scripts'', JArr (map script_to_val (pf_scripts r)))]"

lemma action_of_text [simp]: "preflight_action_of (preflight_action_text a) = Some a"
  by (cases a) (simp_all add: preflight_action_of_def)

lemma script_print: "parse_script i (script_to_val r) = Inr r"
  by (simp add: parse_script_def script_to_val_def js_simps Let_def)

lemma scripts_print: "mapE_from i parse_script (map script_to_val rs) = Inr rs"
  by (simp add: mapE_from_Inr script_print)

text \<open>
  A preflight result survives the boundary: the object of any result parses to the result, the
  null answer to no result, and every other answer either to a result or to a bridge error.
\<close>

theorem preflight_parse_roundtrip:
  "parsePreflightResult (null_or preflight_to_val pf) = Inr pf \<and>
   (case parsePreflightResult v of
      Inl e \<Rightarrow> bridge_error e
    | Inr r \<Rightarrow> parsePreflightResult (null_or preflight_to_val r) = Inr r)"
proof -
  have "parsePreflightResult (null_or preflight_to_val r) = Inr r" for r
    by (cases r) (simp_all add: parsePreflightResult_def preflight_to_val_def js_simps scripts_print)
  then show ?thesis
    using errs_preflight [of v] by (simp add: errs_def split: sum.splits)
qed

end
