(* ===== verification/Bridge_Diagnostics.thy ===== *)
theory Bridge_Diagnostics
  imports Python_Bridge
begin

text \<open>
  \<open>collectBridgeDiagnostics\<close> of \<open>coordinator/src/bridges/python.ts\<close>: the standard error stream of the
  Python process, cut into lines of bounded length, of which at most 32 are logged. Trusted records
  are reduced to three validated fields, every other line to its classification.
\<close>

section \<open>One line\<close>

definition bridge_log_sources :: "string list" where
  "bridge_log_sources =
     [''bot.coordinator_bridge'', ''bot.config'', ''bot.preflight'', ''bot.merge'', ''bot.run'',
      ''bot.idle_reminder'', ''bot.slack_digest'', ''bot.memory_mcp'']"

definition bridge_log_levels :: "string list" where
  "bridge_log_levels = [''DEBUG'', ''INFO'', ''WARNING'', ''ERROR'', ''CRITICAL'']"

record bridge_log =
  bl_level :: string
  bl_message :: string
  bl_fields :: obj

record bridge_stream =
  bs_pending :: string
  bs_dropping :: bool
  bs_emitted :: nat
  bs_suppressed :: nat
  bs_tail :: string
  bs_log :: "bridge_log list"

definition text_diagnostic :: "string \<Rightarrow> string" where
  "text_diagnostic text =
     providerDiagnostic
       (\<lambda>_. \<lparr>do_name = DUndef, do_message = DUndef, do_code = DUndef, do_statusCode = DUndef,
             do_cause = DUndef, do_data = DUndef, do_isError = False, do_stack = []\<rparr>)
       (DText text)"

text \<open>The level, source and message of a line that is a record of a trusted logger.\<close>

definition trusted_record :: "string \<Rightarrow> (string \<times> string \<times> string) option" where
  "trusted_record text =
     (case json_parse text of
        Some (JObj ob) \<Rightarrow>
          (case (obj_get ob ''logger'', obj_get ob ''level'', obj_get ob ''message'') of
             (JStr source, JStr level, JStr message) \<Rightarrow>
               if source \<in> set bridge_log_sources \<and> level \<in> set bridge_log_levels
               then Some (level, source, message) else None
           | _ \<Rightarrow> None)
      | _ \<Rightarrow> None)"

definition line_log :: "(string \<times> string) list \<Rightarrow> string \<Rightarrow> string \<Rightarrow> bridge_log" where
  "line_log environment operation text =
     (case trusted_record text of
        Some (level, source, message) \<Rightarrow>
          \<lparr>bl_level = level, bl_message = safeText environment message,
           bl_fields = [(''operation'', JStr operation), (''source'', JStr source), (''logger'', JStr source)]\<rparr>
      | None \<Rightarrow>
          \<lparr>bl_level = ''WARNING'', bl_message = ''Python bridge diagnostic'',
           bl_fields = [(''operation'', JStr operation), (''source'', JStr ''python''),
                        (''diagnostic'', JStr (text_diagnostic text))]\<rparr>)"

definition line_tail :: "(string \<times> string) list \<Rightarrow> string \<Rightarrow> string" where
  "line_tail environment text =
     (case trusted_record text of
        Some (level, source, message) \<Rightarrow> source @ '': '' @ safeText environment message @ [CHR 10]
      | None \<Rightarrow> ''python: '' @ text_diagnostic text @ [CHR 10])"

definition last_chars :: "nat \<Rightarrow> string \<Rightarrow> string" where
  "last_chars n s = drop (length s - n) s"

definition bridge_line ::
    "(string \<times> string) list \<Rightarrow> string \<Rightarrow> string \<Rightarrow> bridge_stream \<Rightarrow> bridge_stream" where
  "bridge_line environment operation text S =
     (let S1 = S\<lparr>bs_tail := last_chars 2048 (bs_tail S @ line_tail environment text),
                 bs_emitted := Suc (bs_emitted S)\<rparr>
      in if bs_emitted S < 32
         then S1\<lparr>bs_log := bs_log S @ [line_log environment operation text]\<rparr>
         else S1\<lparr>bs_suppressed := Suc (bs_suppressed S)\<rparr>)"

section \<open>The stream\<close>

text \<open>\<open>chunk.split(/(?<=\n)/)\<close>\<close>

fun fragments_from :: "string \<Rightarrow> string \<Rightarrow> string list" where
  "fragments_from acc [] = (if acc = [] then [] else [rev acc])"
| "fragments_from acc (c # cs) =
     (if c = CHR 10 then rev (c # acc) # fragments_from [] cs else fragments_from (c # acc) cs)"

definition fragments :: "string \<Rightarrow> string list" where
  "fragments chunk = (if chunk = [] then [[]] else fragments_from [] chunk)"

definition max_pending :: nat where
  "max_pending = 16384"

definition ends_line :: "string \<Rightarrow> bool" where
  "ends_line s \<longleftrightarrow> s \<noteq> [] \<and> last s = CHR 10"

definition take_fragment ::
    "(string \<times> string) list \<Rightarrow> string \<Rightarrow> string \<Rightarrow> bridge_stream \<Rightarrow> bridge_stream" where
  "take_fragment environment operation fragment S =
     (let S1 = (if \<not> bs_dropping S \<and> byte_length (bs_pending S) + byte_length fragment \<le> max_pending
                then S\<lparr>bs_pending := bs_pending S @ fragment\<rparr> else S\<lparr>bs_dropping := True\<rparr>)
      in if ends_line fragment
         then (let S2 = (if \<not> bs_dropping S1 then bridge_line environment operation (bs_pending S1) S1
                         else S1\<lparr>bs_suppressed := Suc (bs_suppressed S1)\<rparr>)
               in S2\<lparr>bs_pending := [], bs_dropping := False\<rparr>)
         else S1)"

definition take_chunk ::
    "(string \<times> string) list \<Rightarrow> string \<Rightarrow> string \<Rightarrow> bridge_stream \<Rightarrow> bridge_stream" where
  "take_chunk environment operation chunk S =
     fold (take_fragment environment operation) (fragments chunk) S"

definition new_stream :: bridge_stream where
  "new_stream = \<lparr>bs_pending = [], bs_dropping = False, bs_emitted = 0, bs_suppressed = 0,
                 bs_tail = [], bs_log = []\<rparr>"

definition suppressed_log :: "string \<Rightarrow> nat \<Rightarrow> bridge_log" where
  "suppressed_log operation n =
     \<lparr>bl_level = ''WARNING'', bl_message = ''Python bridge diagnostics suppressed'',
      bl_fields = [(''operation'', JStr operation), (''count'', JNum (Fin (of_nat n)))]\<rparr>"

definition finish_stream ::
    "(string \<times> string) list \<Rightarrow> string \<Rightarrow> bridge_stream \<Rightarrow> bridge_log list \<times> string" where
  "finish_stream environment operation S =
     (let S1 = (if bs_pending S \<noteq> [] \<and> \<not> bs_dropping S
                then bridge_line environment operation (bs_pending S) S else S)
      in (bs_log S1 @ (if 0 < bs_suppressed S1 then [suppressed_log operation (bs_suppressed S1)] else []),
          trim (bs_tail S1)))"

definition collectBridgeDiagnostics ::
    "(string \<times> string) list \<Rightarrow> string \<Rightarrow> string list \<Rightarrow> bridge_log list \<times> string" where
  "collectBridgeDiagnostics environment operation chunks =
     finish_stream environment operation (fold (take_chunk environment operation) chunks new_stream)"

section \<open>The bounds\<close>

definition safe_log :: "(string \<times> string) list \<Rightarrow> string \<Rightarrow> bridge_log \<Rightarrow> bool" where
  "safe_log environment operation l \<longleftrightarrow>
     (\<exists>level source message. level \<in> set bridge_log_levels \<and> source \<in> set bridge_log_sources \<and>
        l = \<lparr>bl_level = level, bl_message = safeText environment message,
             bl_fields = [(''operation'', JStr operation), (''source'', JStr source), (''logger'', JStr source)]\<rparr>) \<or>
     (\<exists>d. labelled d \<and>
        l = \<lparr>bl_level = ''WARNING'', bl_message = ''Python bridge diagnostic'',
             bl_fields = [(''operation'', JStr operation), (''source'', JStr ''python''), (''diagnostic'', JStr d)]\<rparr>) \<or>
     (\<exists>n. l = suppressed_log operation n)"

definition newlines :: "string \<Rightarrow> nat" where
  "newlines s = length (filter (\<lambda>c. c = CHR 10) s)"

lemma newlines_append [simp]: "newlines (a @ b) = newlines a + newlines b"
  by (simp add: newlines_def)

lemma newlines_Nil [simp]: "newlines [] = 0"
  by (simp add: newlines_def)

lemma newlines_Cons: "newlines (c # cs) = (if c = CHR 10 then Suc (newlines cs) else newlines cs)"
  by (simp add: newlines_def)

definition stream_inv :: "(string \<times> string) list \<Rightarrow> string \<Rightarrow> nat \<Rightarrow> bridge_stream \<Rightarrow> bool" where
  "stream_inv environment operation n S \<longleftrightarrow>
     byte_length (bs_pending S) \<le> max_pending \<and> length (bs_tail S) \<le> 2048 \<and>
     length (bs_log S) = min 32 (bs_emitted S) \<and> length (bs_log S) + bs_suppressed S = n \<and>
     list_all (safe_log environment operation) (bs_log S)"

lemma trusted_record_Some:
  "trusted_record t = Some (level, source, message) \<Longrightarrow>
     level \<in> set bridge_log_levels \<and> source \<in> set bridge_log_sources"
  by (auto simp: trusted_record_def split: option.splits jsval.splits prod.splits if_splits)

lemma line_log_safe: "safe_log environment operation (line_log environment operation t)"
proof (cases "trusted_record t")
  case None
  then show ?thesis
    unfolding safe_log_def line_log_def text_diagnostic_def
    by (intro disjI2 disjI1) (auto intro: provider_labelled)
next
  case (Some r)
  then show ?thesis
    using trusted_record_Some [of t] unfolding safe_log_def line_log_def
    by (intro disjI1) (cases r; auto)
qed

lemma bridge_line_inv:
  "stream_inv environment operation n S \<Longrightarrow>
     stream_inv environment operation (Suc n) (bridge_line environment operation t S)"
  by (auto simp: stream_inv_def bridge_line_def Let_def last_chars_def line_log_safe)

lemma bridge_line_frame [simp]:
  "bs_pending (bridge_line environment operation t S) = bs_pending S"
  "bs_dropping (bridge_line environment operation t S) = bs_dropping S"
  by (simp_all add: bridge_line_def Let_def)

lemma stream_inv_pending:
  "stream_inv environment operation n S \<Longrightarrow> byte_length p \<le> max_pending \<Longrightarrow>
     stream_inv environment operation n (S\<lparr>bs_pending := p, bs_dropping := b\<rparr>)"
  "stream_inv environment operation n S \<Longrightarrow>
     stream_inv environment operation n (S\<lparr>bs_dropping := b\<rparr>)"
  "stream_inv environment operation n S \<Longrightarrow> byte_length p \<le> max_pending \<Longrightarrow>
     stream_inv environment operation n (S\<lparr>bs_pending := p\<rparr>)"
  "stream_inv environment operation n S \<Longrightarrow>
     stream_inv environment operation (Suc n) (S\<lparr>bs_suppressed := Suc (bs_suppressed S)\<rparr>)"
  by (simp_all add: stream_inv_def)

lemma take_fragment_inv:
  assumes "stream_inv environment operation n S"
  shows "stream_inv environment operation (if ends_line f then Suc n else n)
    (take_fragment environment operation f S)"
proof -
  define S1 where
    "S1 = (if \<not> bs_dropping S \<and> byte_length (bs_pending S) + byte_length f \<le> max_pending
           then S\<lparr>bs_pending := bs_pending S @ f\<rparr> else S\<lparr>bs_dropping := True\<rparr>)"
  have S1: "stream_inv environment operation n S1"
    unfolding S1_def by (simp add: stream_inv_pending assms)
  have "byte_length [] \<le> max_pending" by simp
  then have "stream_inv environment operation (Suc n)
      ((if \<not> bs_dropping S1 then bridge_line environment operation (bs_pending S1) S1
        else S1\<lparr>bs_suppressed := Suc (bs_suppressed S1)\<rparr>)\<lparr>bs_pending := [], bs_dropping := False\<rparr>)"
    by (intro stream_inv_pending(1)) (simp_all add: bridge_line_inv S1 stream_inv_pending)
  with S1 show ?thesis
    by (simp add: take_fragment_def Let_def S1_def [symmetric])
qed

text \<open>A fragment has no newline but perhaps its last character.\<close>

fun fragment_ok :: "string \<Rightarrow> bool" where
  "fragment_ok s = (CHR 10 \<notin> set (butlast s))"

lemma fragments_from_ok:
  "CHR 10 \<notin> set acc \<Longrightarrow> list_all fragment_ok (fragments_from acc s)"
  by (induction acc s rule: fragments_from.induct) (auto simp: butlast_append dest: in_set_butlastD list.set_sel(2))

lemma fragments_from_concat: "concat (fragments_from acc s) = rev acc @ s"
  by (induction acc s rule: fragments_from.induct) auto

lemma fragments_concat [simp]: "concat (fragments s) = s"
  by (simp add: fragments_def fragments_from_concat)

lemma fragments_ok: "list_all fragment_ok (fragments s)"
  by (simp add: fragments_def fragments_from_ok)

lemma fragment_newlines: "fragment_ok f \<Longrightarrow> newlines f = (if ends_line f then 1 else 0)"
  by (cases f rule: rev_cases)
    (auto simp: ends_line_def newlines_def filter_empty_conv)

lemma fold_fragments_inv:
  "list_all fragment_ok fs \<Longrightarrow> stream_inv environment operation n S \<Longrightarrow>
     stream_inv environment operation (n + newlines (concat fs))
       (fold (take_fragment environment operation) fs S)"
proof (induction fs arbitrary: n S)
  case (Cons f fs)
  then show ?case
    using Cons.IH [OF _ take_fragment_inv [OF Cons.prems(2), of f]]
    by (auto simp: fragment_newlines split: if_splits)
qed simp

lemma fold_chunks_inv:
  "stream_inv environment operation n S \<Longrightarrow>
     stream_inv environment operation (n + newlines (concat chunks))
       (fold (take_chunk environment operation) chunks S)"
proof (induction chunks arbitrary: n S)
  case (Cons c cs)
  have "stream_inv environment operation (n + newlines c) (take_chunk environment operation c S)"
    using fold_fragments_inv [OF fragments_ok Cons.prems, of c] by (simp add: take_chunk_def)
  from Cons.IH [OF this] show ?case by (simp add: add.assoc)
qed simp

lemma new_stream_inv: "stream_inv environment operation 0 new_stream"
  by (simp add: stream_inv_def new_stream_def)

lemma length_trim: "length (trim s) \<le> length s"
  by (rule length_trim_le)

section \<open>Chunks do not matter\<close>

text \<open>While a line is dropped, what was pending of it is not looked at again.\<close>

definition settled :: "bridge_stream \<Rightarrow> bridge_stream" where
  "settled S = (if bs_dropping S then S\<lparr>bs_pending := []\<rparr> else S)"

lemma take_fragment_settled:
  "settled (take_fragment environment operation f (settled S)) =
   settled (take_fragment environment operation f S)"
  by (cases "ends_line f") (simp_all add: settled_def take_fragment_def Let_def)

lemma take_fragment_split:
  assumes "CHR 10 \<notin> set a" "b \<noteq> []"
  shows "settled (take_fragment environment operation (a @ b) S) =
    settled (take_fragment environment operation b (take_fragment environment operation a S))"
proof -
  have "\<not> ends_line a" using assms(1) by (auto simp: ends_line_def dest: last_in_set)
  moreover have "ends_line (a @ b) = ends_line b" using assms(2) by (simp add: ends_line_def)
  ultimately show ?thesis
    by (auto simp: take_fragment_def settled_def Let_def add.assoc)
qed

definition char_step ::
    "(string \<times> string) list \<Rightarrow> string \<Rightarrow> char \<Rightarrow> bridge_stream \<Rightarrow> bridge_stream" where
  "char_step environment operation c S = settled (take_fragment environment operation [c] S)"

lemma fragment_chars:
  "fragment_ok f \<Longrightarrow> f \<noteq> [] \<Longrightarrow>
     settled (take_fragment environment operation f S) =
     fold (char_step environment operation) f (settled S)"
proof (induction f arbitrary: S)
  case (Cons c f)
  show ?case
  proof (cases "f = []")
    case True
    then show ?thesis by (simp add: char_step_def take_fragment_settled)
  next
    case False
    then have "CHR 10 \<notin> set [c]" "fragment_ok f" using Cons.prems(1) by auto
    then have "settled (take_fragment environment operation ([c] @ f) S) =
        settled (take_fragment environment operation f (take_fragment environment operation [c] S))"
      using False by (intro take_fragment_split)
    also have "\<dots> = fold (char_step environment operation) f
        (settled (take_fragment environment operation [c] S))"
      using Cons.IH \<open>fragment_ok f\<close> False by simp
    moreover have "char_step environment operation c (settled S) =
        settled (take_fragment environment operation [c] S)"
      by (simp add: char_step_def take_fragment_settled)
    ultimately show ?thesis by simp
  qed
qed simp

lemma empty_fragment:
  "stream_inv environment operation n S \<Longrightarrow>
     settled (take_fragment environment operation [] S) = settled S"
  by (simp add: take_fragment_def settled_def Let_def ends_line_def stream_inv_def)

lemma settled_settled [simp]: "settled (settled S) = settled S"
  by (simp add: settled_def)

lemma fragments_chars:
  "list_all (\<lambda>f. fragment_ok f \<and> f \<noteq> []) fs \<Longrightarrow>
     settled (fold (take_fragment environment operation) fs S) =
     fold (char_step environment operation) (concat fs) (settled S)"
  by (induction fs arbitrary: S) (simp_all add: fragment_chars [symmetric])

lemma fragments_from_nonempty: "list_all (\<lambda>f. f \<noteq> []) (fragments_from acc s)"
  by (induction acc s rule: fragments_from.induct) auto

lemma chunk_chars:
  assumes "stream_inv environment operation n S"
  shows "settled (take_chunk environment operation c S) =
    fold (char_step environment operation) c (settled S)"
proof (cases "c = []")
  case True
  then show ?thesis using empty_fragment [OF assms] by (simp add: take_chunk_def fragments_def)
next
  case False
  have "list_all (\<lambda>f. fragment_ok f \<and> f \<noteq> []) (fragments c)"
    using False fragments_ok [of c] fragments_from_nonempty [of "[]" c]
    by (auto simp: fragments_def list_all_iff)
  from fragments_chars [OF this] show ?thesis by (simp add: take_chunk_def)
qed

lemma chunks_chars:
  "stream_inv environment operation n S \<Longrightarrow>
     settled (fold (take_chunk environment operation) chunks S) =
     fold (char_step environment operation) (concat chunks) (settled S)"
proof (induction chunks arbitrary: n S)
  case (Cons c cs)
  have "stream_inv environment operation (n + newlines c) (take_chunk environment operation c S)"
    using fold_chunks_inv [OF Cons.prems, of "[c]"] by simp
  from Cons.IH [OF this] show ?case by (simp add: chunk_chars [OF Cons.prems])
qed simp

lemma finish_settled: "finish_stream environment operation (settled S) = finish_stream environment operation S"
  by (simp add: finish_stream_def settled_def)

section \<open>Properties\<close>

text \<open>
  The diagnostics of the bridge are bounded and safe whatever the process writes: at every
  moment at most 16384 bytes are pending, at most 33 records are logged, the tail kept for the error
  message has at most 2048 characters, each record is one of three fixed forms without untrusted
  text, and every line is either logged or counted as suppressed.
\<close>

theorem bridge_diagnostics_bounded:
  "let S = fold (take_chunk environment operation) chunks new_stream;
       (logs, detail) = collectBridgeDiagnostics environment operation chunks
   in byte_length (bs_pending S) \<le> 16384 \<and> length logs \<le> 33 \<and> length detail \<le> 2048 \<and>
      list_all (safe_log environment operation) logs \<and>
      length (bs_log S) + bs_suppressed S = newlines (concat chunks)"
proof -
  define S where "S = fold (take_chunk environment operation) chunks new_stream"
  have S: "stream_inv environment operation (newlines (concat chunks)) S"
    using fold_chunks_inv [OF new_stream_inv, of environment operation chunks] by (simp add: S_def)
  define S1 where
    "S1 = (if bs_pending S \<noteq> [] \<and> \<not> bs_dropping S
           then bridge_line environment operation (bs_pending S) S else S)"
  obtain n where S1: "stream_inv environment operation n S1"
    using S bridge_line_inv [OF S] by (cases "bs_pending S \<noteq> [] \<and> \<not> bs_dropping S") (auto simp: S1_def)
  have "safe_log environment operation (suppressed_log operation m)" for m
    unfolding safe_log_def by blast
  moreover have "length (trim (bs_tail S1)) \<le> 2048"
    using S1 length_trim_le [of "bs_tail S1"] by (simp add: stream_inv_def)
  moreover have "min 32 m \<le> 33" for m :: nat by simp
  ultimately show ?thesis
    using S S1
    by (simp add: collectBridgeDiagnostics_def finish_stream_def S_def [symmetric] S1_def [symmetric]
        Let_def stream_inv_def max_pending_def)
qed


end
