(* ===== verification/Scheduling.thy ===== *)
theory Scheduling
  imports Python_Bridge
begin

text \<open>
  When the next cycle starts: the scheduler, the sleep signal and the interruptible sleep of
  \<open>coordinator/src/scheduler.ts\<close>, the idle tracking of \<open>idle.ts\<close> and the number checks of
  \<open>utils.ts\<close>. Time is not modelled, only the delays that are asked for.
\<close>

section \<open>Number checks\<close>

definition range_error :: "string \<Rightarrow> reason" where
  "range_error message = RError ''RangeError'' message False"

fun assertFinite :: "jsnum \<Rightarrow> string \<Rightarrow> reason + rat" where
  "assertFinite (Fin r) name = Inr r"
| "assertFinite _ name = Inl (range_error (name @ '' must be finite''))"

fun assertNonNegative :: "jsnum \<Rightarrow> string \<Rightarrow> reason + rat" where
  "assertNonNegative (Fin r) name =
     (if 0 \<le> r then Inr r else Inl (range_error (name @ '' must be a non-negative finite number'')))"
| "assertNonNegative _ name = Inl (range_error (name @ '' must be a non-negative finite number''))"

section \<open>The scheduler\<close>

definition default_max_preflight_backoff_ms :: rat where
  "default_max_preflight_backoff_ms = 300000"

definition max_timer_delay_ms :: rat where
  "max_timer_delay_ms = 2147483647"

datatype cycle_decision = DecideRun | DecideIdle | DecideError

record sleep_plan =
  sp_delayMs :: jsnum
  sp_reason :: string

record cycle_plan =
  cp_decision :: cycle_decision
  cp_sleep :: "sleep_plan option"
  cp_consecutiveErrors :: nat

record sleep_signal =
  ss_seconds :: rat
  ss_reason :: "string option"

record scheduler =
  sc_intervalMs :: rat
  sc_idleIntervalMs :: rat
  sc_maxBackoffMs :: rat
  sc_consecutiveErrors :: nat

definition new_scheduler :: "jsnum \<Rightarrow> jsnum \<Rightarrow> jsnum option \<Rightarrow> reason + scheduler" where
  "new_scheduler intervalMs idleIntervalMs maxBackoff =
     bindE (assertNonNegative intervalMs ''intervalMs'') (\<lambda>i.
     bindE (assertNonNegative idleIntervalMs ''idleIntervalMs'') (\<lambda>d.
     bindE (assertNonNegative
              (case maxBackoff of None \<Rightarrow> Fin default_max_preflight_backoff_ms | Some m \<Rightarrow> m)
              ''maxPreflightBackoffMs'') (\<lambda>m.
     Inr \<lparr>sc_intervalMs = i, sc_idleIntervalMs = d, sc_maxBackoffMs = m, sc_consecutiveErrors = 0\<rparr>)))"

definition updateIntervals :: "jsnum \<Rightarrow> jsnum \<Rightarrow> scheduler \<Rightarrow> reason + scheduler" where
  "updateIntervals intervalMs idleIntervalMs S =
     bindE (assertNonNegative intervalMs ''intervalMs'') (\<lambda>i.
     bindE (assertNonNegative idleIntervalMs ''idleIntervalMs'') (\<lambda>d.
     Inr (S\<lparr>sc_intervalMs := i, sc_idleIntervalMs := d\<rparr>)))"

definition backoff_delay :: "scheduler \<Rightarrow> nat \<Rightarrow> jsnum" where
  "backoff_delay S n = js_min (js_mul (Fin (sc_intervalMs S)) (2 ^ min n 30)) (Fin (sc_maxBackoffMs S))"

definition planForPreflight ::
    "preflight_result option \<Rightarrow> scheduler \<Rightarrow> cycle_plan \<times> scheduler" where
  "planForPreflight preflight S =
     (if map_option pf_action preflight = Some PfError
      then (let n = Suc (sc_consecutiveErrors S)
            in (\<lparr>cp_decision = DecideError,
                 cp_sleep = Some \<lparr>sp_delayMs = backoff_delay S n, sp_reason = ''preflight_error''\<rparr>,
                 cp_consecutiveErrors = n\<rparr>,
                S\<lparr>sc_consecutiveErrors := n\<rparr>))
      else
        (if map_option pf_action preflight = Some PfSkip
         then \<lparr>cp_decision = DecideIdle,
               cp_sleep = Some \<lparr>sp_delayMs = Fin (sc_idleIntervalMs S), sp_reason = ''preflight_skip''\<rparr>,
               cp_consecutiveErrors = 0\<rparr>
         else \<lparr>cp_decision = DecideRun, cp_sleep = None, cp_consecutiveErrors = 0\<rparr>,
         S\<lparr>sc_consecutiveErrors := 0\<rparr>))"

definition planAfterRun :: "sleep_signal option \<Rightarrow> scheduler \<Rightarrow> reason + sleep_plan" where
  "planAfterRun signal S =
     (case signal of
        Some s \<Rightarrow>
          bindE (assertNonNegative (Fin (ss_seconds s)) ''recommendedSleepSeconds'') (\<lambda>seconds.
            let delay = js_mul (Fin seconds) 1000
            in bindE (assertNonNegative delay ''recommendedSleepSeconds converted to milliseconds'') (\<lambda>_.
                 Inr \<lparr>sp_delayMs = delay,
                      sp_reason = (case ss_reason s of None \<Rightarrow> ''cycle_complete''
                                   | Some r \<Rightarrow> if r = [] then ''cycle_complete'' else r)\<rparr>))
      | None \<Rightarrow> Inr \<lparr>sp_delayMs = Fin (sc_intervalMs S), sp_reason = ''cycle_complete''\<rparr>)"

section \<open>The sleep signal\<close>

definition parseSleepSignal :: "jsval \<Rightarrow> sleep_signal option" where
  "parseSleepSignal value =
     (case value of
        JObj ob \<Rightarrow>
          (case obj_get ob ''recommended_sleep'' of
             JNum (Fin seconds) \<Rightarrow>
               if seconds < 0 then None
               else Some \<lparr>ss_seconds = seconds,
                          ss_reason = (case obj_get ob ''reason'' of
                             JStr r \<Rightarrow> if r = [] then None else Some r | _ \<Rightarrow> None)\<rparr>
           | _ \<Rightarrow> None)
      | _ \<Rightarrow> None)"

text \<open>The signal file: missing, not readable, or its text; whether \<open>unlink\<close> works is given.\<close>

datatype signal_file = NoFile | Unreadable reason | SignalFile string

definition consumeSleepSignal ::
    "bool \<Rightarrow> signal_file \<Rightarrow> (reason + sleep_signal option) \<times> signal_file" where
  "consumeSleepSignal unlinks file =
     (case file of
        NoFile \<Rightarrow> (Inr None, file)
      | Unreadable e \<Rightarrow> (Inl e, file)
      | SignalFile raw \<Rightarrow>
          (Inr (case json_parse raw of None \<Rightarrow> None | Some v \<Rightarrow> parseSleepSignal v),
           if unlinks then NoFile else file))"

section \<open>Sleeping\<close>

text \<open>The timers a sleep arms one after the other.\<close>

function sleep_timers :: "rat \<Rightarrow> rat list" where
  "sleep_timers remaining =
     (if remaining \<le> 0 then []
      else min remaining max_timer_delay_ms # sleep_timers (remaining - min remaining max_timer_delay_ms))"
  by pat_completeness auto
termination
proof (relation "measure (\<lambda>r. nat \<lceil>r / max_timer_delay_ms\<rceil>)", goal_cases)
  case (2 r)
  show ?case
  proof (cases "r \<le> max_timer_delay_ms")
    case True
    with 2 have "0 < r / max_timer_delay_ms" by (simp add: max_timer_delay_ms_def)
    then have "0 < \<lceil>r / max_timer_delay_ms\<rceil>" by (simp add: less_ceiling_iff)
    with True show ?thesis by simp
  next
    case False
    then have "(r - max_timer_delay_ms) / max_timer_delay_ms = r / max_timer_delay_ms - 1"
      by (simp add: diff_divide_distrib max_timer_delay_ms_def)
    moreover have "1 < r / max_timer_delay_ms" using False by (simp add: max_timer_delay_ms_def)
    then have "1 < \<lceil>r / max_timer_delay_ms\<rceil>" by (simp add: less_ceiling_iff)
    ultimately show ?thesis using False by (simp add: ceiling_diff_one)
  qed
qed simp

declare sleep_timers.simps [simp del]

text \<open>
  A sleep with a signal that was aborted before, or that is aborted before the last timer fires:
  the timers it ran through, or what it throws.
\<close>

definition interruptible_sleep ::
    "jsnum \<Rightarrow> reason option \<Rightarrow> reason option \<Rightarrow> reason + rat list" where
  "interruptible_sleep delayMs abortedBefore abortedDuring =
     bindE (assertNonNegative delayMs ''delayMs'') (\<lambda>delay.
       case abortedBefore of
         Some r \<Rightarrow> Inl (abortError r ''sleep aborted'')
       | None \<Rightarrow>
           if delay = 0 then Inr []
           else (case abortedDuring of
                   Some r \<Rightarrow> Inl (abortError r ''sleep aborted'')
                 | None \<Rightarrow> Inr (sleep_timers delay)))"

section \<open>Idle cycles\<close>

record idle_state =
  is_consecutiveCycles :: rat
  is_lastReminderAtMs :: "rat option"

record idle_policy =
  ip_limit :: rat
  ip_cooldownMs :: jsnum

definition recordIdleCycle ::
    "idle_state \<Rightarrow> idle_policy \<Rightarrow> jsnum \<Rightarrow> reason + idle_state \<times> bool" where
  "recordIdleCycle state policy nowMs =
     bindE (assertFinite nowMs ''nowMs'') (\<lambda>now.
     bindE (assertNonNegative (ip_cooldownMs policy) ''cooldownMs'') (\<lambda>cooldown.
       let cycles = max 0 (of_int \<lfloor>is_consecutiveCycles state\<rfloor>) + 1;
           thresholdReached = (0 < ip_limit policy \<and> ip_limit policy \<le> cycles);
           cooldownExpired = (case is_lastReminderAtMs state of
              None \<Rightarrow> True | Some t \<Rightarrow> cooldown \<le> now - t)
       in Inr (\<lparr>is_consecutiveCycles = cycles, is_lastReminderAtMs = is_lastReminderAtMs state\<rparr>,
               thresholdReached \<and> cooldownExpired)))"

definition recordActiveCycle :: idle_state where
  "recordActiveCycle = \<lparr>is_consecutiveCycles = 0, is_lastReminderAtMs = None\<rparr>"

definition recordReminderSent :: "idle_state \<Rightarrow> jsnum \<Rightarrow> reason + idle_state" where
  "recordReminderSent state sentAtMs =
     bindE (assertFinite sentAtMs ''sentAtMs'') (\<lambda>t. Inr (state\<lparr>is_lastReminderAtMs := Some t\<rparr>))"

section \<open>The contract of a retry schedule\<close>

text \<open>
  What a loop relies on when it plans after failures: a failure counts, anything else resets the
  count, and the delay after a failure is a function of the count alone.
\<close>

locale retry_schedule =
  fixes plan :: "'p \<Rightarrow> 's \<Rightarrow> 'd \<times> 's"
    and errors :: "'s \<Rightarrow> nat"
    and failed :: "'p \<Rightarrow> bool"
    and delay :: "'d \<Rightarrow> jsnum option"
    and backoff :: "'s \<Rightarrow> nat \<Rightarrow> jsnum"
  assumes counts: "errors (snd (plan p s)) = (if failed p then Suc (errors s) else 0)"
    and delays: "failed p \<Longrightarrow> delay (fst (plan p s)) = Some (backoff s (Suc (errors s)))"
    and stable: "backoff (snd (plan p s)) = backoff s"
begin

lemma errors_after:
  "errors (fold (\<lambda>p s. snd (plan p s)) ps s) =
     length (takeWhile failed (rev ps)) + (if list_all failed ps then errors s else 0)"
proof (induction ps rule: rev_induct)
  case (snoc p ps)
  then show ?case by (auto simp: counts)
qed simp

lemma backoff_after: "backoff (fold (\<lambda>p s. snd (plan p s)) ps s) = backoff s"
  by (induction ps arbitrary: s) (simp_all add: stable)

lemma delay_after:
  assumes "failed p" "errors s = 0"
  shows "delay (fst (plan p (fold (\<lambda>p s. snd (plan p s)) ps s))) =
    Some (backoff s (Suc (length (takeWhile failed (rev ps)))))"
  using delays [OF assms(1), of "fold (\<lambda>p s. snd (plan p s)) ps s"] assms(2)
  by (simp add: backoff_after errors_after)

end

definition preflight_failed :: "preflight_result option \<Rightarrow> bool" where
  "preflight_failed preflight \<longleftrightarrow> map_option pf_action preflight = Some PfError"

interpretation cycle_retry: retry_schedule planForPreflight sc_consecutiveErrors preflight_failed
    "\<lambda>p. map_option sp_delayMs (cp_sleep p)" backoff_delay
  by unfold_locales (auto simp: planForPreflight_def preflight_failed_def Let_def backoff_delay_def fun_eq_iff)

section \<open>Facts\<close>

definition scheduler_ok :: "scheduler \<Rightarrow> bool" where
  "scheduler_ok S \<longleftrightarrow> 0 \<le> sc_intervalMs S \<and> 0 \<le> sc_idleIntervalMs S \<and> 0 \<le> sc_maxBackoffMs S"

lemma assertNonNegative_Inr [simp]: "assertNonNegative v name = Inr r \<longleftrightarrow> v = Fin r \<and> 0 \<le> r"
  by (cases "(v, name)" rule: assertNonNegative.cases) auto

lemma new_scheduler_ok: "new_scheduler i d m = Inr S \<Longrightarrow> scheduler_ok S \<and> sc_consecutiveErrors S = 0"
  by (auto simp: new_scheduler_def bindE_Inr scheduler_ok_def)

lemma updateIntervals_ok: "updateIntervals i d S = Inr S' \<Longrightarrow> scheduler_ok S \<Longrightarrow> scheduler_ok S'"
  by (auto simp: updateIntervals_def bindE_Inr scheduler_ok_def)

lemma planForPreflight_ok: "scheduler_ok S \<Longrightarrow> scheduler_ok (snd (planForPreflight p S))"
  by (simp add: planForPreflight_def scheduler_ok_def Let_def)

lemma backoff_delay_bounds:
  assumes "scheduler_ok S"
  shows "\<exists>d. backoff_delay S n = Fin d \<and> 0 \<le> d \<and> d \<le> sc_maxBackoffMs S \<and>
    (sc_intervalMs S * 2 ^ min n 30 < overflow_bound \<longrightarrow>
       d = min (sc_intervalMs S * 2 ^ min n 30) (sc_maxBackoffMs S))"
proof -
  let ?x = "sc_intervalMs S * 2 ^ min n 30"
  have x: "0 \<le> ?x" using assms by (simp add: scheduler_ok_def)
  then have "to_double ?x = Fin ?x \<and> ?x < overflow_bound \<or> to_double ?x = PosInf \<and> overflow_bound \<le> ?x"
    by (auto simp: to_double_def overflow_bound_def)
  then show ?thesis
    using x assms by (auto simp: backoff_delay_def scheduler_ok_def)
qed

lemma sleep_timers_pos:
  "0 < r \<Longrightarrow> sleep_timers r =
     min r max_timer_delay_ms # sleep_timers (r - min r max_timer_delay_ms)"
  by (subst sleep_timers.simps) simp

lemma sleep_timers_nonpos: "r \<le> 0 \<Longrightarrow> sleep_timers r = []"
  by (subst sleep_timers.simps) simp

lemma sleep_timers_sum: "sum_list (sleep_timers r) = max 0 r"
proof (induction r rule: sleep_timers.induct)
  case (1 r)
  then show ?case
    by (cases "r \<le> 0") (auto simp: sleep_timers_pos sleep_timers_nonpos)
qed

lemma sleep_timers_bounded: "list_all (\<lambda>t. 0 < t \<and> t \<le> max_timer_delay_ms) (sleep_timers r)"
proof (induction r rule: sleep_timers.induct)
  case (1 r)
  show ?case
  proof (cases "r \<le> 0")
    case False
    then have "0 < min r max_timer_delay_ms" by (simp add: max_timer_delay_ms_def)
    with 1 [OF False] show ?thesis
      using False by (subst sleep_timers.simps) (simp del: min_less_iff_conj)
  qed (simp add: sleep_timers_nonpos)
qed

section \<open>Idle runs\<close>

text \<open>A run of idle cycles at given times, each reminder confirmed when it is due.\<close>

fun idle_run :: "idle_policy \<Rightarrow> rat list \<Rightarrow> idle_state \<Rightarrow> rat list" where
  "idle_run policy [] st = []"
| "idle_run policy (t # ts) st =
     (case recordIdleCycle st policy (Fin t) of
        Inl e \<Rightarrow> []
      | Inr (st', due) \<Rightarrow>
          if due
          then (case recordReminderSent st' (Fin t) of
                  Inl e \<Rightarrow> []
                | Inr st'' \<Rightarrow> t # idle_run policy ts st'')
          else idle_run policy ts st')"

lemma recordIdleCycle_Fin:
  "recordIdleCycle st \<lparr>ip_limit = l, ip_cooldownMs = Fin c\<rparr> (Fin t) =
     (if 0 \<le> c then
        let cycles = max 0 (of_int \<lfloor>is_consecutiveCycles st\<rfloor>) + 1
        in Inr (\<lparr>is_consecutiveCycles = cycles, is_lastReminderAtMs = is_lastReminderAtMs st\<rparr>,
                (0 < l \<and> l \<le> cycles) \<and>
                (case is_lastReminderAtMs st of None \<Rightarrow> True | Some u \<Rightarrow> c \<le> t - u))
      else Inl (range_error ''cooldownMs must be a non-negative finite number''))"
  by (simp add: recordIdleCycle_def Let_def)

lemma idle_run_after:
  "0 \<le> c \<Longrightarrow> is_lastReminderAtMs st = Some u \<Longrightarrow>
     list_all (\<lambda>t. c \<le> t - u) (idle_run \<lparr>ip_limit = l, ip_cooldownMs = Fin c\<rparr> ts st) \<and>
     sorted_wrt (\<lambda>a b. c \<le> b - a) (idle_run \<lparr>ip_limit = l, ip_cooldownMs = Fin c\<rparr> ts st)"
proof (induction ts arbitrary: st u)
  case (Cons t ts)
  let ?st = "\<lparr>is_consecutiveCycles = max 0 (of_int \<lfloor>is_consecutiveCycles st\<rfloor>) + 1,
              is_lastReminderAtMs = Some u\<rparr>"
  let ?sent = "?st\<lparr>is_lastReminderAtMs := Some t\<rparr>"
  have a: "list_all (\<lambda>x. c \<le> x - u) (idle_run \<lparr>ip_limit = l, ip_cooldownMs = Fin c\<rparr> ts ?st)"
    "sorted_wrt (\<lambda>a b. c \<le> b - a) (idle_run \<lparr>ip_limit = l, ip_cooldownMs = Fin c\<rparr> ts ?st)"
    using Cons.IH [of ?st u] Cons.prems(1) by simp_all
  have b: "list_all (\<lambda>x. c \<le> x - t) (idle_run \<lparr>ip_limit = l, ip_cooldownMs = Fin c\<rparr> ts ?sent)"
    "sorted_wrt (\<lambda>a b. c \<le> b - a) (idle_run \<lparr>ip_limit = l, ip_cooldownMs = Fin c\<rparr> ts ?sent)"
    using Cons.IH [of ?sent t] Cons.prems(1) by simp_all
  have "list_all (\<lambda>x. c \<le> x - u) xs" if "list_all (\<lambda>x. c \<le> x - t) xs" "c \<le> t - u" for xs
    using that Cons.prems(1) by (auto simp: list_all_iff)
  then show ?case
    using a b Cons.prems by (simp add: recordIdleCycle_Fin recordReminderSent_def Let_def list_all_iff)
qed simp

lemma idle_run_spaced:
  "0 \<le> c \<Longrightarrow> is_lastReminderAtMs st = None \<Longrightarrow>
     sorted_wrt (\<lambda>a b. c \<le> b - a) (idle_run \<lparr>ip_limit = l, ip_cooldownMs = Fin c\<rparr> ts st)"
proof (induction ts arbitrary: st)
  case (Cons t ts)
  let ?st = "\<lparr>is_consecutiveCycles = max 0 (of_int \<lfloor>is_consecutiveCycles st\<rfloor>) + 1,
              is_lastReminderAtMs = None\<rparr>"
  show ?case
    using Cons.IH [of ?st] Cons.prems
      idle_run_after [of c "?st\<lparr>is_lastReminderAtMs := Some t\<rparr>" t l ts]
    by (simp add: recordIdleCycle_Fin recordReminderSent_def Let_def list_all_iff)
qed simp

text \<open>Before the threshold nothing is due.\<close>

lemma idle_run_quiet:
  "0 \<le> c \<Longrightarrow> is_consecutiveCycles st = of_nat n \<Longrightarrow> l \<le> 0 \<or> of_nat (n + length ts) < l \<Longrightarrow>
     idle_run \<lparr>ip_limit = l, ip_cooldownMs = Fin c\<rparr> ts st = []"
proof (induction ts arbitrary: st n)
  case (Cons t ts)
  let ?st = "\<lparr>is_consecutiveCycles = of_nat n + 1, is_lastReminderAtMs = is_lastReminderAtMs st\<rparr>"
  have quiet: "idle_run \<lparr>ip_limit = l, ip_cooldownMs = Fin c\<rparr> ts ?st = []"
    using Cons.IH [of ?st "Suc n"] Cons.prems by (auto simp: add.commute add.left_commute)
  have "of_nat n + (1::rat) \<le> of_nat (n + length (t # ts))" by simp
  then have "\<not> (0 < l \<and> l \<le> of_nat n + 1)" using Cons.prems(3) by linarith
  then show ?case
    using Cons.prems(1,2) quiet by (auto simp: recordIdleCycle_Fin Let_def)
qed simp

section \<open>Properties\<close>

text \<open>
  The backoff is exact: after any history of preflights the next failing one waits for the
  interval doubled once per failure since the last success, at most 30 times, and never longer
  than the configured maximum, whatever overflows on the way.
\<close>

theorem backoff_exact:
  assumes "new_scheduler i d m = Inr S" "pf_action p = PfError"
  shows "let n = Suc (length (takeWhile preflight_failed (rev ps)));
             plan = fst (planForPreflight (Some p) (fold (\<lambda>p s. snd (planForPreflight p s)) ps S))
         in cp_decision plan = DecideError \<and>
            (\<exists>delay. map_option sp_delayMs (cp_sleep plan) = Some (Fin delay) \<and>
               0 \<le> delay \<and> delay \<le> sc_maxBackoffMs S \<and>
               (sc_intervalMs S * 2 ^ min n 30 < overflow_bound \<longrightarrow>
                  delay = min (sc_intervalMs S * 2 ^ min n 30) (sc_maxBackoffMs S)))"
proof -
  have S: "scheduler_ok S" "sc_consecutiveErrors S = 0"
    using new_scheduler_ok [OF assms(1)] by simp_all
  have p: "preflight_failed (Some p)" by (simp add: preflight_failed_def assms(2))
  have "cp_decision (fst (planForPreflight (Some p) T)) = DecideError" for T
    by (simp add: planForPreflight_def assms(2) Let_def)
  then show ?thesis
    unfolding Let_def cycle_retry.delay_after [OF p S(2)] option.inject
    by (intro conjI backoff_delay_bounds [OF S(1)])
qed

theorem backoff_exact_witness:
  "\<exists>S p. new_scheduler (Fin 1000) (Fin 60000) (Some (Fin 300000)) = Inr S \<and> pf_action p = PfError \<and>
     map_option sp_delayMs (cp_sleep (fst (planForPreflight (Some p)
       (fold (\<lambda>p s. snd (planForPreflight p s)) [Some p] S)))) = Some (Fin 4000)"
proof -
  define p where "p = \<lparr>pf_action = PfError, pf_prompt = [], pf_transcript = [], pf_scripts = []\<rparr>"
  define S where "S = \<lparr>sc_intervalMs = 1000, sc_idleIntervalMs = 60000, sc_maxBackoffMs = 300000,
    sc_consecutiveErrors = 0\<rparr>"
  have S: "new_scheduler (Fin 1000) (Fin 60000) (Some (Fin 300000)) = Inr S"
    by (simp add: new_scheduler_def S_def)
  have p: "pf_action p = PfError" by (simp add: p_def)
  have "preflight_failed (Some p)" by (simp add: preflight_failed_def p)
  then show ?thesis
    using backoff_exact [OF S p, of "[Some p]"] S p
    by (intro exI [of _ S] exI [of _ p]) (simp add: Let_def S_def overflow_bound_def min_def)
qed

text \<open>
  A sleep of any length is covered exactly by its timers: each is positive and within the
  platform's limit, and together they last the delay.
\<close>

theorem sleep_covers_delay:
  "list_all (\<lambda>t. 0 < t \<and> t \<le> 2147483647) (sleep_timers delay) \<and> sum_list (sleep_timers delay) = max 0 delay"
  using sleep_timers_bounded [of delay] sleep_timers_sum [of delay] by (simp add: max_timer_delay_ms_def)

text \<open>
  Which sleep signals a scheduler can use: every signal the parser accepts gives a plan with
  its seconds in milliseconds, except the finite ones whose milliseconds exceed the number range;
  for those \<open>planAfterRun\<close> throws a range error.
\<close>

theorem sleep_signal_plan:
  "case parseSleepSignal v of
     None \<Rightarrow> True
   | Some s \<Rightarrow>
       if ss_seconds s * 1000 < overflow_bound
       then \<exists>plan. planAfterRun (Some s) S = Inr plan \<and> sp_delayMs plan = Fin (ss_seconds s * 1000)
       else \<exists>m. planAfterRun (Some s) S = Inl (range_error m)"
proof (cases "parseSleepSignal v")
  case (Some s)
  then have "0 \<le> ss_seconds s"
    by (auto simp: parseSleepSignal_def split: jsval.splits jsnum.splits if_splits)
  define x where "x = ss_seconds s * 1000"
  have "0 \<le> x" using \<open>0 \<le> ss_seconds s\<close> by (simp add: x_def)
  moreover have "0 < overflow_bound" by (simp add: overflow_bound_def)
  ultimately have "to_double x = (if x < overflow_bound then Fin x else PosInf)"
    by (auto simp: to_double_def)
  then show ?thesis
    using \<open>0 \<le> ss_seconds s\<close> \<open>0 \<le> x\<close> Some
    by (auto simp: planAfterRun_def Let_def x_def [symmetric])
qed simp

text \<open>
  Idle reminders keep their distance: in any run of idle cycles two reminders are at least the
  cooldown apart, a disabled policy sends none, and none is sent in a run of fewer idle cycles than
  the threshold.
\<close>

theorem idle_reminders_spaced:
  assumes "0 \<le> c"
  shows "sorted_wrt (\<lambda>a b. c \<le> b - a)
      (idle_run \<lparr>ip_limit = l, ip_cooldownMs = Fin c\<rparr> ts recordActiveCycle) \<and>
    (l \<le> 0 \<or> of_nat (length ts) < l \<longrightarrow>
      idle_run \<lparr>ip_limit = l, ip_cooldownMs = Fin c\<rparr> ts recordActiveCycle = [])"
  using idle_run_spaced [OF assms] idle_run_quiet [OF assms, of recordActiveCycle 0 l ts]
  by (simp add: recordActiveCycle_def)

theorem idle_reminders_spaced_witness:
  "idle_run \<lparr>ip_limit = 2, ip_cooldownMs = Fin 50\<rparr> [0, 10, 20, 60, 70] recordActiveCycle = [10, 60] \<and>
   sorted_wrt (\<lambda>a b. 50 \<le> b - a)
     (idle_run \<lparr>ip_limit = 2, ip_cooldownMs = Fin 50\<rparr> [0, 10, 20, 60, 70] recordActiveCycle)"
  using idle_reminders_spaced [of 50 2 "[0, 10, 20, 60, 70]"]
  by (simp add: recordIdleCycle_Fin recordReminderSent_def recordActiveCycle_def)

end
