(* ===== verification/Loop.thy ===== *)
theory Loop
  imports Scheduling
begin

text \<open>
  The coordinator loop of \<open>coordinator/src/loop.ts\<close> with the exit code of \<open>cli-result.ts\<close>. What the
  hooks of the loop do is given for each cycle: how every awaited operation ends, and which signals
  fire while it is awaited. A list of cycles that is too short stands for an operation that is still
  being awaited: then the loop has no outcome yet (\<open>None\<close>).
\<close>

section \<open>Loop signals\<close>

datatype loop_stop = StopShutdown | StopCancelled | StopAdmissionDenied | StopMaxCycles | StopFailed

record loop_signals =
  ls_combined :: combined_signals
  ls_shutdownAborted :: bool
  ls_cancelAborted :: bool
  ls_stopReason :: "loop_stop option"

text \<open>\<open>onAbort\<close>: the stop reason is fixed by the first abort.\<close>

definition on_abort :: "loop_signals \<Rightarrow> loop_signals" where
  "on_abort L =
     L\<lparr>ls_stopReason := Some
         (if map_option ac_kind (cs_cause (ls_combined L)) = Some ShutdownKind \<and>
             (ls_shutdownAborted L \<or> \<not> ls_cancelAborted L)
          then StopShutdown else StopCancelled)\<rparr>"

definition loop_aborted :: "loop_signals \<Rightarrow> bool" where
  "loop_aborted L \<longleftrightarrow> cs_cause (ls_combined L) \<noteq> None"

definition createLoopSignals :: "reason option option \<Rightarrow> reason option option \<Rightarrow> loop_signals" where
  "createLoopSignals signal shutdownSignal =
     (let L = \<lparr>ls_combined = combineAbortSignals signal shutdownSignal,
               ls_shutdownAborted = (case shutdownSignal of Some (Some _) \<Rightarrow> True | _ \<Rightarrow> False),
               ls_cancelAborted = (case signal of Some (Some _) \<Rightarrow> True | _ \<Rightarrow> False),
               ls_stopReason = None\<rparr>
      in if loop_aborted L then on_abort L else L)"

text \<open>
  \<open>requestShutdown\<close> and \<open>requestCancel\<close> are aborts with a cause, \<open>dispose\<close> ends the listening.
\<close>

definition loop_signal_step :: "signal_event \<Rightarrow> loop_signals \<Rightarrow> loop_signals" where
  "loop_signal_step ev L =
     (let L1 = L\<lparr>ls_combined := signal_step ev (ls_combined L),
                 ls_shutdownAborted := (ls_shutdownAborted L \<or> (case ev of ShutdownSignalled _ \<Rightarrow> True | _ \<Rightarrow> False)),
                 ls_cancelAborted := (ls_cancelAborted L \<or> (case ev of CancelSignalled _ \<Rightarrow> True | _ \<Rightarrow> False))\<rparr>
      in if \<not> loop_aborted L \<and> loop_aborted L1 then on_abort L1 else L1)"

definition requestShutdown :: "reason \<Rightarrow> loop_signals \<Rightarrow> loop_signals" where
  "requestShutdown r = loop_signal_step (AbortedWith \<lparr>ac_kind = ShutdownKind, ac_reason = r\<rparr>)"

definition requestCancel :: "reason \<Rightarrow> loop_signals \<Rightarrow> loop_signals" where
  "requestCancel r = loop_signal_step (AbortedWith \<lparr>ac_kind = CancelledKind, ac_reason = r\<rparr>)"

text \<open>
  Handlers on the process signals: the source keeps a multiset of listeners per event, removed by
  \<open>off\<close>, else by \<open>removeListener\<close>, else not at all. One listener serves both events.
\<close>

datatype process_signal = SigInt | SigTerm

record signal_source =
  ss_listeners :: "(process_signal \<times> nat) list"
  ss_hasOff :: bool
  ss_hasRemove :: bool

definition installProcessSignalHandlers :: "nat \<Rightarrow> signal_source \<Rightarrow> signal_source" where
  "installProcessSignalHandlers listener src =
     src\<lparr>ss_listeners := ss_listeners src @ [(SigInt, listener), (SigTerm, listener)]\<rparr>"

definition removeProcessSignalHandlers :: "nat \<Rightarrow> signal_source \<Rightarrow> signal_source" where
  "removeProcessSignalHandlers listener src =
     (if ss_hasOff src \<or> ss_hasRemove src
      then src\<lparr>ss_listeners := remove1 (SigTerm, listener) (remove1 (SigInt, listener) (ss_listeners src))\<rparr>
      else src)"

section \<open>The options and the state of a loop\<close>

datatype loop_phase = AdmissionPhase | PreparePhase | DecisionPhase | RunPhase | CleanupPhase | SleepPhase

datatype loop_point = AtPrepare | AtDecide | AtRun | AtSignal | AtCleanup | AtSleep

text \<open>
  One cycle's environment: the signals that fire while an operation is awaited, the delays that
  preparation hands to the scheduler, and how each hook ends. An absent \<open>sleepSignal\<close> hook reads
  no signal, an absent \<open>sleep\<close> is the default one.
\<close>

record 'r cycle_env =
  ce_signals :: "loop_point \<Rightarrow> signal_event list"
  ce_intervals :: "(jsnum \<times> jsnum) option"
  ce_prepare :: "reason + preflight_result option"
  ce_decision :: "reason option"
  ce_run :: "reason + 'r"
  ce_sleepSignal :: "reason + sleep_signal option"
  ce_afterRun :: "reason option"
  ce_sleep :: "reason option"

record loop_options =
  lo_maxCycles :: "jsnum option"
  lo_hasSleepSignal :: bool
  lo_customSleep :: bool

record 'r loop_state =
  lp_signals :: loop_signals
  lp_scheduler :: scheduler
  lp_cycles :: nat
  lp_failures :: nat
  lp_results :: "'r list"
  lp_decisions :: "cycle_plan list"
  lp_errors :: "(reason \<times> loop_phase) list"

record 'r loop_result =
  lr_stopReason :: loop_stop
  lr_cycles :: nat
  lr_results :: "'r list"
  lr_failures :: nat
  lr_error :: "reason option"

definition assertMaxCycles :: "jsnum option \<Rightarrow> reason + unit" where
  "assertMaxCycles maxCycles =
     (case maxCycles of
        None \<Rightarrow> Inr ()
      | Some m \<Rightarrow>
          if is_safe_integer m \<and> m \<noteq> Fin 0 \<and> js_ge m 0 then Inr ()
          else Inl (range_error ''maxCycles must be a positive safe integer''))"

definition error_message :: "reason \<Rightarrow> string" where
  "error_message e = (case e of RError _ m _ \<Rightarrow> m | _ \<Rightarrow> js_String e)"

definition errorPreflight :: "reason \<Rightarrow> preflight_result" where
  "errorPreflight e =
     \<lparr>pf_action = PfError, pf_prompt = [], pf_transcript = error_message e, pf_scripts = []\<rparr>"

section \<open>One cycle\<close>

definition hear :: "signal_event list \<Rightarrow> 'r loop_state \<Rightarrow> 'r loop_state" where
  "hear evs S = S\<lparr>lp_signals := fold loop_signal_step evs (lp_signals S)\<rparr>"

definition aborted :: "'r loop_state \<Rightarrow> bool" where
  "aborted S \<longleftrightarrow> loop_aborted (lp_signals S)"

text \<open>A failing \<open>onError\<close> hook is only warned about, so the report itself is all that counts.\<close>

definition report_error :: "reason \<Rightarrow> loop_phase \<Rightarrow> 'r loop_state \<Rightarrow> 'r loop_state" where
  "report_error e phase S = S\<lparr>lp_errors := lp_errors S @ [(e, phase)]\<rparr>"

definition decide :: "'r cycle_env \<Rightarrow> cycle_plan \<Rightarrow> 'r loop_state \<Rightarrow> 'r loop_state" where
  "decide env plan S =
     (let S1 = hear (ce_signals env AtDecide) (S\<lparr>lp_decisions := lp_decisions S @ [plan]\<rparr>)
      in case ce_decision env of None \<Rightarrow> S1 | Some e \<Rightarrow> report_error e DecisionPhase S1)"

definition signal_reason :: "'r loop_state \<Rightarrow> reason option" where
  "signal_reason S = map_option reason_of_cause (cs_cause (ls_combined (lp_signals S)))"

definition sleep_outcome ::
    "loop_options \<Rightarrow> 'r cycle_env \<Rightarrow> jsnum \<Rightarrow> 'r loop_state \<Rightarrow> 'r loop_state \<Rightarrow> reason option" where
  "sleep_outcome opts env delay S S1 =
     (if lo_customSleep opts then ce_sleep env
      else (case interruptible_sleep delay (signal_reason S) (signal_reason S1) of
              Inl e \<Rightarrow> Some e | Inr _ \<Rightarrow> None))"

definition waitForPlan ::
    "loop_options \<Rightarrow> 'r cycle_env \<Rightarrow> sleep_plan option \<Rightarrow> 'r loop_state \<Rightarrow> bool \<times> 'r loop_state" where
  "waitForPlan opts env plan S =
     (case plan of
        None \<Rightarrow> (\<not> aborted S, S)
      | Some p \<Rightarrow>
          (let S1 = hear (ce_signals env AtSleep) S
           in case sleep_outcome opts env (sp_delayMs p) S S1 of
                None \<Rightarrow> (\<not> aborted S1, S1)
              | Some e \<Rightarrow> if aborted S1 then (False, S1) else (False, report_error e SleepPhase S1)))"

definition set_intervals :: "'r cycle_env \<Rightarrow> 'r loop_state \<Rightarrow> (reason + preflight_result option) \<times> 'r loop_state" where
  "set_intervals env S =
     (case ce_intervals env of
        None \<Rightarrow> (ce_prepare env, S)
      | Some (i, d) \<Rightarrow>
          (case updateIntervals i d (lp_scheduler S) of
             Inl e \<Rightarrow> (Inl e, S)
           | Inr sch \<Rightarrow> (ce_prepare env, S\<lparr>lp_scheduler := sch\<rparr>)))"

definition plan_cycle :: "preflight_result option \<Rightarrow> 'r loop_state \<Rightarrow> cycle_plan \<times> 'r loop_state" where
  "plan_cycle preflight S =
     (let (plan, sch) = planForPreflight preflight (lp_scheduler S)
      in (plan, S\<lparr>lp_scheduler := sch\<rparr>))"

definition prepare_failed ::
    "loop_options \<Rightarrow> 'r cycle_env \<Rightarrow> reason \<Rightarrow> 'r loop_state \<Rightarrow> bool \<times> 'r loop_state" where
  "prepare_failed opts env e S =
     (let S1 = report_error e PreparePhase
                 (S\<lparr>lp_cycles := Suc (lp_cycles S), lp_failures := Suc (lp_failures S)\<rparr>);
          (plan, S2) = plan_cycle (Some (errorPreflight e)) S1
      in waitForPlan opts env (cp_sleep plan) (decide env plan S2))"

definition run_attempt :: "'r cycle_env \<Rightarrow> 'r loop_state \<Rightarrow> 'r loop_state" where
  "run_attempt env S =
     (let S1 = hear (ce_signals env AtRun) S
      in case ce_run env of
           Inr r \<Rightarrow> S1\<lparr>lp_results := lp_results S1 @ [r]\<rparr>
         | Inl e \<Rightarrow>
             if aborted S1 then S1
             else report_error e RunPhase (S1\<lparr>lp_failures := Suc (lp_failures S1)\<rparr>))"

definition read_signal ::
    "loop_options \<Rightarrow> 'r cycle_env \<Rightarrow> 'r loop_state \<Rightarrow> sleep_signal option \<times> 'r loop_state" where
  "read_signal opts env S =
     (if lo_hasSleepSignal opts \<and> \<not> aborted S
      then (let S1 = hear (ce_signals env AtSignal) S
            in case ce_sleepSignal env of
                 Inr s \<Rightarrow> (s, S1)
               | Inl e \<Rightarrow> (None, report_error e SleepPhase (S1\<lparr>lp_failures := Suc (lp_failures S1)\<rparr>)))
      else (None, S))"

definition cleanup :: "'r cycle_env \<Rightarrow> 'r loop_state \<Rightarrow> 'r loop_state" where
  "cleanup env S =
     (let S1 = hear (ce_signals env AtCleanup) S
      in case ce_afterRun env of None \<Rightarrow> S1 | Some e \<Rightarrow> report_error e CleanupPhase S1)"

text \<open>A cycle ends the loop (\<open>False\<close>), continues it (\<open>True\<close>) or throws.\<close>

definition loop_cycle ::
    "loop_options \<Rightarrow> 'r cycle_env \<Rightarrow> 'r loop_state \<Rightarrow> (reason + bool) \<times> 'r loop_state" where
  "loop_cycle opts env S =
     (case set_intervals env (hear (ce_signals env AtPrepare) S) of
        (Inl e, S1) \<Rightarrow>
          if aborted S1 then (Inr False, S1)
          else (let (go, S2) = prepare_failed opts env e S1 in (Inr go, S2))
      | (Inr preflight, S1) \<Rightarrow>
          (let (plan, S2) = plan_cycle preflight S1;
               S3 = S2\<lparr>lp_cycles := Suc (lp_cycles S2),
                       lp_failures := (if cp_decision plan = DecideError then Suc (lp_failures S2)
                                       else lp_failures S2)\<rparr>;
               S4 = decide env plan S3
           in if cp_decision plan \<noteq> DecideRun
              then (let (go, S5) = waitForPlan opts env (cp_sleep plan) S4 in (Inr go, S5))
              else
                (let (signal, S6) = read_signal opts env (run_attempt env S4);
                     S7 = cleanup env S6
                 in if aborted S7 then (Inr False, S7)
                    else (case planAfterRun signal (lp_scheduler S7) of
                            Inl e \<Rightarrow> (Inl e, S7)
                          | Inr p \<Rightarrow> (let (go, S8) = waitForPlan opts env (Some p) S7 in (Inr go, S8))))))"

section \<open>The loop\<close>

definition stopped :: "'r loop_state \<Rightarrow> 'r loop_result" where
  "stopped S =
     \<lparr>lr_stopReason = (case ls_stopReason (lp_signals S) of None \<Rightarrow> StopFailed | Some r \<Rightarrow> r),
      lr_cycles = lp_cycles S, lr_results = lp_results S, lr_failures = lp_failures S, lr_error = None\<rparr>"

definition loop_ended :: "loop_stop \<Rightarrow> 'r loop_state \<Rightarrow> 'r loop_result" where
  "loop_ended r S =
     \<lparr>lr_stopReason = r, lr_cycles = lp_cycles S, lr_results = lp_results S,
      lr_failures = lp_failures S, lr_error = None\<rparr>"

definition max_reached :: "loop_options \<Rightarrow> 'r loop_state \<Rightarrow> bool" where
  "max_reached opts S =
     (case lo_maxCycles opts of Some (Fin m) \<Rightarrow> m \<le> of_nat (lp_cycles S) | _ \<Rightarrow> False)"

fun loop_run ::
    "loop_options \<Rightarrow> 'r cycle_env list \<Rightarrow> 'r loop_state \<Rightarrow> ((reason + 'r loop_result) \<times> 'r loop_state) option" where
  "loop_run opts envs S =
     (if aborted S then Some (Inr (stopped S), S)
      else if max_reached opts S then Some (Inr (loop_ended StopMaxCycles S), S)
      else (case envs of
              [] \<Rightarrow> None
            | env # rest \<Rightarrow>
                (case loop_cycle opts env S of
                   (Inl e, S') \<Rightarrow> Some (Inl e, S')
                 | (Inr go, S') \<Rightarrow> if go then loop_run opts rest S' else Some (Inr (stopped S'), S'))))"

declare loop_run.simps [simp del]

text \<open>
  Admission ends with a lease, without one, or fails; the lease counts its releases, and a release
  can fail.
\<close>

record admission =
  ad_signals :: "signal_event list"
  ad_acquire :: "reason + bool"
  ad_release :: "reason option"

definition new_loop_state :: "loop_signals \<Rightarrow> scheduler \<Rightarrow> 'r loop_state" where
  "new_loop_state L sch =
     \<lparr>lp_signals = L, lp_scheduler = sch, lp_cycles = 0, lp_failures = 0, lp_results = [],
      lp_decisions = [], lp_errors = []\<rparr>"

definition loop_body ::
    "loop_options \<Rightarrow> admission \<Rightarrow> 'r cycle_env list \<Rightarrow> 'r loop_state \<Rightarrow>
     ((reason + 'r loop_result) \<times> 'r loop_state) option" where
  "loop_body opts ad envs S0 =
     (let S = hear (ad_signals ad) S0
      in case ad_acquire ad of
           Inl e \<Rightarrow>
             if aborted S then Some (Inr (stopped S), S)
             else Some (Inr ((loop_ended StopFailed S)\<lparr>lr_failures := 1, lr_error := Some e\<rparr>),
                        report_error e AdmissionPhase S)
         | Inr False \<Rightarrow> Some (Inr (loop_ended StopAdmissionDenied S), S)
         | Inr True \<Rightarrow> loop_run opts envs S)"

record 'r loop_outcome =
  lc_result :: "reason + 'r loop_result"
  lc_state :: "'r loop_state"
  lc_releases :: nat

definition runCoordinatorLoop ::
    "loop_options \<Rightarrow> scheduler \<Rightarrow> reason option option \<Rightarrow> reason option option \<Rightarrow> admission \<Rightarrow>
     'r cycle_env list \<Rightarrow> 'r loop_outcome option" where
  "runCoordinatorLoop opts sch signal shutdownSignal ad envs =
     (let S0 = new_loop_state (createLoopSignals signal shutdownSignal) sch
      in case assertMaxCycles (lo_maxCycles opts) of
           Inl e \<Rightarrow> Some \<lparr>lc_result = Inl e, lc_state = S0, lc_releases = 0\<rparr>
         | Inr _ \<Rightarrow>
             map_option
               (\<lambda>(result, S).
                  \<lparr>lc_result = (if ad_acquire ad = Inr True
                                then (case ad_release ad of Some e \<Rightarrow> Inl e | None \<Rightarrow> result) else result),
                   lc_state = hear [Disposed] S,
                   lc_releases = (if ad_acquire ad = Inr True then 1 else 0)\<rparr>)
               (loop_body opts ad envs S0))"

definition coordinatorExitCode :: "'r loop_result \<Rightarrow> bool \<Rightarrow> nat" where
  "coordinatorExitCode R once =
     (if lr_stopReason R = StopFailed then 1
      else if once \<and> (0 < lr_failures R \<or> lr_stopReason R = StopAdmissionDenied) then 1
      else 0)"

end
