(* ===== verification/Loop_Facts.thy ===== *)
theory Loop_Facts
  imports Loop
begin

text \<open>
  What every cycle of the coordinator loop keeps: the counters agree with the decisions, the results
  and the reported errors, and the stop reason is set exactly when the loop's signal is aborted.
\<close>

section \<open>Signals\<close>

definition signals_ok :: "loop_signals \<Rightarrow> bool" where
  "signals_ok L \<longleftrightarrow> (ls_stopReason L \<noteq> None) = loop_aborted L \<and>
     (\<forall>r. ls_stopReason L = Some r \<longrightarrow> r = StopShutdown \<or> r = StopCancelled) \<and>
     (ls_stopReason L = Some StopShutdown \<longrightarrow>
        map_option ac_kind (cs_cause (ls_combined L)) = Some ShutdownKind)"

lemma on_abort_ok: "loop_aborted L \<Longrightarrow> signals_ok (on_abort L)"
  by (auto simp: signals_ok_def on_abort_def loop_aborted_def)

lemma created_ok: "signals_ok (createLoopSignals signal shutdownSignal)"
  by (auto simp: createLoopSignals_def Let_def on_abort_ok) (simp add: signals_ok_def)

lemma signal_step_cause: "cs_cause S = Some c \<Longrightarrow> cs_cause (signal_step ev S) = Some c"
  by (rule signal_step_first)

lemma loop_step_aborted:
  assumes "loop_aborted L"
  shows "loop_aborted (loop_signal_step ev L)" "ls_stopReason (loop_signal_step ev L) = ls_stopReason L"
    "cs_cause (ls_combined (loop_signal_step ev L)) = cs_cause (ls_combined L)"
  using assms signal_step_cause [of "ls_combined L" _ ev]
  by (auto simp: loop_signal_step_def loop_aborted_def Let_def)

lemma loop_step_ok: "signals_ok L \<Longrightarrow> signals_ok (loop_signal_step ev L)"
proof (cases "loop_aborted L")
  case True
  assume "signals_ok L"
  with loop_step_aborted [OF True, of ev] True show ?thesis by (simp add: signals_ok_def)
next
  case False
  assume "signals_ok L"
  with False show ?thesis
    by (auto simp: loop_signal_step_def Let_def on_abort_ok) (auto simp: signals_ok_def loop_aborted_def)
qed

lemma loop_steps_ok: "signals_ok L \<Longrightarrow> signals_ok (fold loop_signal_step evs L)"
  by (induction evs arbitrary: L) (simp_all add: loop_step_ok)

lemma loop_steps_aborted:
  "loop_aborted L \<Longrightarrow>
     loop_aborted (fold loop_signal_step evs L) \<and>
     ls_stopReason (fold loop_signal_step evs L) = ls_stopReason L"
  by (induction evs arbitrary: L) (simp_all add: loop_step_aborted)

section \<open>What each operation changes\<close>

definition n_decided :: "cycle_decision \<Rightarrow> 'r loop_state \<Rightarrow> nat" where
  "n_decided d S = length (filter (\<lambda>p. cp_decision p = d) (lp_decisions S))"

definition n_reported :: "loop_phase \<Rightarrow> 'r loop_state \<Rightarrow> nat" where
  "n_reported phase S = length (filter (\<lambda>(e, p). p = phase) (lp_errors S))"

named_theorems loop_frame \<open>what an operation of the loop leaves unchanged\<close>

lemma hear_frame [loop_frame]:
  "lp_scheduler (hear evs S) = lp_scheduler S" "lp_cycles (hear evs S) = lp_cycles S"
  "lp_failures (hear evs S) = lp_failures S" "lp_results (hear evs S) = lp_results S"
  "lp_decisions (hear evs S) = lp_decisions S" "n_decided d (hear evs S) = n_decided d S"
  "n_reported ph (hear evs S) = n_reported ph S"
  by (simp_all add: hear_def n_decided_def n_reported_def)

lemma hear_signals: "signals_ok (lp_signals S) \<Longrightarrow> signals_ok (lp_signals (hear evs S))"
  by (simp add: hear_def loop_steps_ok)

lemma hear_aborted: "aborted S \<Longrightarrow> aborted (hear evs S)"
  by (simp add: hear_def aborted_def loop_steps_aborted)

lemma report_frame [loop_frame]:
  "lp_signals (report_error e ph S) = lp_signals S" "aborted (report_error e ph S) = aborted S"
  "lp_scheduler (report_error e ph S) = lp_scheduler S" "lp_cycles (report_error e ph S) = lp_cycles S"
  "lp_failures (report_error e ph S) = lp_failures S" "lp_results (report_error e ph S) = lp_results S"
  "lp_decisions (report_error e ph S) = lp_decisions S" "n_decided d (report_error e ph S) = n_decided d S"
  "n_reported q (report_error e ph S) = n_reported q S + (if q = ph then 1 else 0)"
  by (simp_all add: report_error_def aborted_def n_decided_def n_reported_def)

lemma update_frame [loop_frame]:
  "n_decided d (S\<lparr>lp_cycles := n, lp_failures := m\<rparr>) = n_decided d S"
  "n_reported ph (S\<lparr>lp_cycles := n, lp_failures := m\<rparr>) = n_reported ph S"
  "n_decided d (S\<lparr>lp_cycles := n\<rparr>) = n_decided d S"
  "n_reported ph (S\<lparr>lp_cycles := n\<rparr>) = n_reported ph S"
  "n_decided d (S\<lparr>lp_scheduler := s\<rparr>) = n_decided d S"
  "n_reported ph (S\<lparr>lp_scheduler := s\<rparr>) = n_reported ph S"
  "n_decided d (S\<lparr>lp_failures := m\<rparr>) = n_decided d S"
  "n_reported ph (S\<lparr>lp_failures := m\<rparr>) = n_reported ph S"
  "n_decided d (S\<lparr>lp_results := rs\<rparr>) = n_decided d S"
  "n_reported ph (S\<lparr>lp_results := rs\<rparr>) = n_reported ph S"
  "aborted (S\<lparr>lp_scheduler := s\<rparr>) = aborted S"
  "aborted (S\<lparr>lp_cycles := n, lp_failures := m\<rparr>) = aborted S"
  by (simp_all add: n_decided_def n_reported_def aborted_def)

lemma decide_frame [loop_frame]:
  "lp_scheduler (decide env plan S) = lp_scheduler S" "lp_cycles (decide env plan S) = lp_cycles S"
  "lp_failures (decide env plan S) = lp_failures S" "lp_results (decide env plan S) = lp_results S"
  "length (lp_decisions (decide env plan S)) = Suc (length (lp_decisions S))"
  "n_decided d (decide env plan S) = n_decided d S + (if cp_decision plan = d then 1 else 0)"
  "q \<noteq> DecisionPhase \<Longrightarrow> n_reported q (decide env plan S) = n_reported q S"
  by (simp_all add: decide_def hear_def report_error_def n_decided_def n_reported_def Let_def
      split: option.split)

lemma decide_signals: "signals_ok (lp_signals S) \<Longrightarrow> signals_ok (lp_signals (decide env plan S))"
  by (simp add: decide_def hear_def report_error_def Let_def loop_steps_ok split: option.split)

lemma cleanup_frame [loop_frame]:
  "lp_scheduler (cleanup env S) = lp_scheduler S" "lp_cycles (cleanup env S) = lp_cycles S"
  "lp_failures (cleanup env S) = lp_failures S" "lp_results (cleanup env S) = lp_results S"
  "lp_decisions (cleanup env S) = lp_decisions S" "n_decided d (cleanup env S) = n_decided d S"
  "q \<noteq> CleanupPhase \<Longrightarrow> n_reported q (cleanup env S) = n_reported q S"
  by (simp_all add: cleanup_def Let_def loop_frame split: option.split)

lemma cleanup_signals: "signals_ok (lp_signals S) \<Longrightarrow> signals_ok (lp_signals (cleanup env S))"
  by (simp add: cleanup_def Let_def loop_frame hear_signals split: option.split)

lemma run_attempt_effect:
  "lp_scheduler (run_attempt env S) = lp_scheduler S" "lp_cycles (run_attempt env S) = lp_cycles S"
  "lp_decisions (run_attempt env S) = lp_decisions S" "n_decided d (run_attempt env S) = n_decided d S"
  "q \<noteq> RunPhase \<Longrightarrow> n_reported q (run_attempt env S) = n_reported q S"
  "lp_failures (run_attempt env S) + n_reported RunPhase S =
     lp_failures S + n_reported RunPhase (run_attempt env S)"
  "length (lp_results (run_attempt env S)) + n_reported RunPhase (run_attempt env S)
     \<le> Suc (length (lp_results S) + n_reported RunPhase S)"
  "signals_ok (lp_signals S) \<Longrightarrow> signals_ok (lp_signals (run_attempt env S))"
  by (simp_all add: run_attempt_def Let_def loop_frame hear_signals split: sum.split)

lemma read_signal_effect:
  assumes "read_signal opts env S = (signal, S')"
  shows "lp_scheduler S' = lp_scheduler S" "lp_cycles S' = lp_cycles S"
    "lp_decisions S' = lp_decisions S" "n_decided d S' = n_decided d S" "lp_results S' = lp_results S"
    "q \<noteq> SleepPhase \<Longrightarrow> n_reported q S' = n_reported q S"
    "lp_failures S' + n_reported SleepPhase S = lp_failures S + n_reported SleepPhase S'"
    "lp_failures S \<le> lp_failures S'"
    "signals_ok (lp_signals S) \<Longrightarrow> signals_ok (lp_signals S')"
  using assms
  by (auto simp: read_signal_def Let_def loop_frame hear_signals split: sum.splits if_splits)

lemma waitForPlan_effect:
  assumes "waitForPlan opts env plan S = (go, S')"
  shows "lp_scheduler S' = lp_scheduler S" "lp_cycles S' = lp_cycles S" "lp_failures S' = lp_failures S"
    "lp_decisions S' = lp_decisions S" "n_decided d S' = n_decided d S" "lp_results S' = lp_results S"
    "q \<noteq> SleepPhase \<Longrightarrow> n_reported q S' = n_reported q S"
    "n_reported SleepPhase S' = n_reported SleepPhase S + (if go \<or> aborted S' then 0 else 1)"
    "go \<Longrightarrow> \<not> aborted S'"
    "signals_ok (lp_signals S) \<Longrightarrow> signals_ok (lp_signals S')"
  using assms
  by (auto simp: waitForPlan_def Let_def loop_frame hear_signals split: option.splits if_splits)

lemma planned_decision:
  "cp_decision (fst (planForPreflight preflight sch)) = DecideError \<longleftrightarrow> preflight_failed preflight"
  by (simp add: planForPreflight_def preflight_failed_def Let_def)

lemma plan_cycle_effect:
  assumes "plan_cycle preflight S = (plan, S')"
  shows "\<exists>sch. S' = S\<lparr>lp_scheduler := sch\<rparr> \<and> (scheduler_ok (lp_scheduler S) \<longrightarrow> scheduler_ok sch) \<and>
    (cp_decision plan = DecideError \<longleftrightarrow> preflight_failed preflight)"
proof -
  have "S' = S\<lparr>lp_scheduler := snd (planForPreflight preflight (lp_scheduler S))\<rparr>"
    "plan = fst (planForPreflight preflight (lp_scheduler S))"
    using assms by (simp_all add: plan_cycle_def split_beta)
  then show ?thesis
    using planForPreflight_ok [of "lp_scheduler S" preflight] planned_decision [of preflight "lp_scheduler S"]
    by (intro exI [of _ "snd (planForPreflight preflight (lp_scheduler S))"] conjI impI) simp_all
qed

lemma set_intervals_effect:
  assumes "set_intervals env S = (r, S')"
  shows "\<exists>sch. S' = S\<lparr>lp_scheduler := sch\<rparr> \<and> (scheduler_ok (lp_scheduler S) \<longrightarrow> scheduler_ok sch)"
proof -
  have same: ?thesis if "S' = S"
    using that by (intro exI [of _ "lp_scheduler S"]) simp
  show ?thesis
  proof (cases "ce_intervals env")
    case None
    with assms same show ?thesis by (simp add: set_intervals_def)
  next
    case (Some p)
    obtain i d where p: "p = (i, d)" by (cases p)
    show ?thesis
    proof (cases "updateIntervals i d (lp_scheduler S)")
      case (Inl e)
      with assms same Some p show ?thesis by (simp add: set_intervals_def)
    next
      case (Inr sch)
      with assms Some p have "S' = S\<lparr>lp_scheduler := sch\<rparr>" by (simp add: set_intervals_def)
      with updateIntervals_ok [OF Inr] show ?thesis by (intro exI [of _ sch] conjI impI) simp_all
    qed
  qed
qed

section \<open>The invariant\<close>

text \<open>The first argument is 1 when the loop has just stopped because a sleep failed.\<close>

definition loop_inv :: "nat \<Rightarrow> 'r loop_state \<Rightarrow> bool" where
  "loop_inv d S \<longleftrightarrow>
     signals_ok (lp_signals S) \<and> scheduler_ok (lp_scheduler S) \<and>
     lp_cycles S = length (lp_decisions S) \<and>
     length (lp_results S) + n_reported RunPhase S \<le> n_decided DecideRun S \<and>
     n_decided DecideError S + n_reported RunPhase S \<le> lp_failures S \<and>
     lp_failures S + d = n_decided DecideError S + n_reported RunPhase S + n_reported SleepPhase S"

lemma wait_inv:
  assumes "loop_inv 0 S" "waitForPlan opts env plan S = (go, S')"
  shows "loop_inv (if go \<or> aborted S' then 0 else 1) S'" "lp_cycles S' = lp_cycles S" "go \<Longrightarrow> \<not> aborted S'"
  using assms(1) waitForPlan_effect [OF assms(2)] by (auto simp: loop_inv_def)

lemma prepare_failed_inv:
  assumes "loop_inv 0 S" "prepare_failed opts env e S = (go, S')"
  shows "loop_inv (if go \<or> aborted S' then 0 else 1) S' \<and> lp_cycles S' = Suc (lp_cycles S) \<and>
    (go \<longrightarrow> \<not> aborted S')"
proof -
  define S1 where
    "S1 = report_error e PreparePhase (S\<lparr>lp_cycles := Suc (lp_cycles S), lp_failures := Suc (lp_failures S)\<rparr>)"
  obtain plan S2 where pc: "plan_cycle (Some (errorPreflight e)) S1 = (plan, S2)"
    by (cases "plan_cycle (Some (errorPreflight e)) S1")
  obtain sch where p: "S2 = S1\<lparr>lp_scheduler := sch\<rparr>" "scheduler_ok (lp_scheduler S1) \<longrightarrow> scheduler_ok sch"
    "cp_decision plan = DecideError \<longleftrightarrow> preflight_failed (Some (errorPreflight e))"
    using plan_cycle_effect [OF pc] by blast
  have dec: "cp_decision plan = DecideError"
    using p(3) by (simp add: preflight_failed_def errorPreflight_def)
  have wait: "waitForPlan opts env (cp_sleep plan) (decide env plan S2) = (go, S')"
    using assms(2) pc by (simp add: prepare_failed_def S1_def Let_def)
  have "loop_inv 0 (decide env plan S2)"
    using assms(1) p(2) dec unfolding p(1)
    by (simp add: loop_inv_def loop_frame decide_signals S1_def)
  from wait_inv [OF this wait] show ?thesis
    by (auto simp: loop_frame S1_def p(1))
qed

lemma loop_cycle_inv:
  assumes inv: "loop_inv 0 S" and step: "loop_cycle opts env S = (out, S')"
  shows "(case out of
      Inl e \<Rightarrow> loop_inv 0 S' \<and> (\<exists>m. e = range_error m) \<and> lp_cycles S' = Suc (lp_cycles S)
    | Inr go \<Rightarrow> loop_inv (if go \<or> aborted S' then 0 else 1) S' \<and>
        lp_cycles S' \<le> Suc (lp_cycles S) \<and> (go \<longrightarrow> \<not> aborted S' \<and> lp_cycles S' = Suc (lp_cycles S)))"
proof -
  define S0 where "S0 = hear (ce_signals env AtPrepare) S"
  obtain r S1 where si: "set_intervals env S0 = (r, S1)" by (cases "set_intervals env S0")
  obtain sch1 where S1: "S1 = S0\<lparr>lp_scheduler := sch1\<rparr>" "scheduler_ok (lp_scheduler S0) \<longrightarrow> scheduler_ok sch1"
    using set_intervals_effect [OF si] by blast
  have inv1: "loop_inv 0 S1" and cyc1: "lp_cycles S1 = lp_cycles S"
    using inv S1(2) unfolding S1(1) S0_def
    by (simp_all add: loop_inv_def loop_frame hear_signals)
  show ?thesis
  proof (cases r)
    case (Inl e)
    show ?thesis
    proof (cases "aborted S1")
      case True
      with step si Inl show ?thesis using inv1 cyc1 by (auto simp: loop_cycle_def S0_def)
    next
      case False
      obtain go S2 where pf: "prepare_failed opts env e S1 = (go, S2)"
        by (cases "prepare_failed opts env e S1")
      with step si Inl False have "out = Inr go" "S' = S2"
        by (simp_all add: loop_cycle_def S0_def)
      with prepare_failed_inv [OF inv1 pf] show ?thesis by (simp add: cyc1)
    qed
  next
    case (Inr preflight)
    obtain plan S2 where pc: "plan_cycle preflight S1 = (plan, S2)" by (cases "plan_cycle preflight S1")
    obtain sch where p: "S2 = S1\<lparr>lp_scheduler := sch\<rparr>" "scheduler_ok (lp_scheduler S1) \<longrightarrow> scheduler_ok sch"
      using plan_cycle_effect [OF pc] by blast
    define S4 where
      "S4 = decide env plan (S2\<lparr>lp_cycles := Suc (lp_cycles S2),
              lp_failures := (if cp_decision plan = DecideError then Suc (lp_failures S2)
                              else lp_failures S2)\<rparr>)"
    have cyc4: "lp_cycles S4 = Suc (lp_cycles S)"
      by (simp add: S4_def p(1) loop_frame cyc1)
    have counts4: "signals_ok (lp_signals S4)" "scheduler_ok (lp_scheduler S4)"
      "lp_cycles S4 = length (lp_decisions S4)"
      "length (lp_results S4) + n_reported RunPhase S4 + (if cp_decision plan = DecideRun then 1 else 0)
         \<le> n_decided DecideRun S4"
      "n_decided DecideError S4 + n_reported RunPhase S4 \<le> lp_failures S4"
      "lp_failures S4 = n_decided DecideError S4 + n_reported RunPhase S4 + n_reported SleepPhase S4"
      using inv1 p(2) unfolding S4_def p(1)
      by (auto simp: loop_inv_def loop_frame decide_signals)
    show ?thesis
    proof (cases "cp_decision plan = DecideRun")
      case False
      obtain go S5 where w: "waitForPlan opts env (cp_sleep plan) S4 = (go, S5)"
        by (cases "waitForPlan opts env (cp_sleep plan) S4")
      with step si Inr pc False have out: "out = Inr go" "S' = S5"
        by (simp_all add: loop_cycle_def S0_def S4_def Let_def)
      have "loop_inv 0 S4" using counts4 False by (simp add: loop_inv_def)
      from wait_inv [OF this w] out show ?thesis by (simp add: cyc4)
    next
      case True
      obtain signal S6 where rs: "read_signal opts env (run_attempt env S4) = (signal, S6)"
        by (cases "read_signal opts env (run_attempt env S4)")
      note run = run_attempt_effect [where env = env and S = S4] and read = read_signal_effect [OF rs]
      define S7 where "S7 = cleanup env S6"
      have inv7: "loop_inv 0 S7"
        using counts4 True run read
        by (simp add: S7_def loop_inv_def loop_frame cleanup_signals)
      have cyc7: "lp_cycles S7 = Suc (lp_cycles S)"
        using run(2) read(2) by (simp add: S7_def loop_frame cyc4)
      have step': "loop_cycle opts env S =
          (if aborted S7 then (Inr False, S7)
           else (case planAfterRun signal (lp_scheduler S7) of
                   Inl e \<Rightarrow> (Inl e, S7)
                 | Inr p \<Rightarrow> (let (go, S8) = waitForPlan opts env (Some p) S7 in (Inr go, S8))))"
        unfolding S7_def using si Inr pc True rs by (simp add: loop_cycle_def S0_def S4_def Let_def)
      show ?thesis
      proof (cases "aborted S7")
        case True
        with step step' show ?thesis using inv7 cyc7 by auto
      next
        case False
        show ?thesis
        proof (cases "planAfterRun signal (lp_scheduler S7)")
          case (Inl e)
          have "\<exists>m. e = range_error m"
            using Inl
            by (auto simp: planAfterRun_def bindE_Inl Let_def split: option.splits
                elim!: assertNonNegative.elims split: if_splits)
          with step step' False Inl show ?thesis using inv7 cyc7 by auto
        next
          case (Inr p)
          obtain go S8 where w: "waitForPlan opts env (Some p) S7 = (go, S8)"
            by (cases "waitForPlan opts env (Some p) S7")
          with step step' False Inr have "out = Inr go" "S' = S8" by auto
          with wait_inv [OF inv7 w] show ?thesis by (simp add: cyc7)
        qed
      qed
    qed
  qed
qed

end
