(* ===== verification/Loop_Properties.thy ===== *)
theory Loop_Properties
  imports Loop_Facts
begin

text \<open>
  What the coordinator loop guarantees: its counters are exact, its stop reason says why it stopped,
  it returns when the number of cycles is bounded, and its exit code reports a failed single cycle.
\<close>

section \<open>Runs of the loop\<close>

definition within_max :: "loop_options \<Rightarrow> nat \<Rightarrow> bool" where
  "within_max opts n = (case lo_maxCycles opts of Some (Fin m) \<Rightarrow> of_nat n \<le> m | _ \<Rightarrow> True)"

definition stop_explained :: "loop_options \<Rightarrow> 'r loop_result \<Rightarrow> 'r loop_state \<Rightarrow> bool" where
  "stop_explained opts R S =
     (case lr_stopReason R of
        StopMaxCycles \<Rightarrow> max_reached opts S \<and> \<not> aborted S
      | StopFailed \<Rightarrow> \<not> aborted S
      | StopAdmissionDenied \<Rightarrow> False
      | r \<Rightarrow> ls_stopReason (lp_signals S) = Some r \<and> aborted S)"

definition counted :: "'r loop_result \<Rightarrow> 'r loop_state \<Rightarrow> bool" where
  "counted R S \<longleftrightarrow>
     lr_cycles R = lp_cycles S \<and> lr_results R = lp_results S \<and> lr_failures R = lp_failures S \<and>
     loop_inv (if lr_stopReason R = StopFailed then 1 else 0) S"

lemma stopped_explained:
  assumes "loop_inv (if aborted S then 0 else 1) S"
  shows "counted (stopped S) S \<and> stop_explained opts (stopped S) S"
proof (cases "ls_stopReason (lp_signals S)")
  case None
  then have "\<not> aborted S"
    using assms by (auto simp: loop_inv_def signals_ok_def aborted_def)
  with None assms show ?thesis by (simp add: counted_def stopped_def stop_explained_def)
next
  case (Some r)
  then have "aborted S" "r = StopShutdown \<or> r = StopCancelled"
    using assms by (auto simp: loop_inv_def signals_ok_def aborted_def)
  with Some assms show ?thesis by (auto simp: counted_def stopped_def stop_explained_def)
qed

lemma loop_run_result:
  assumes "lo_maxCycles opts = None \<or> (\<exists>k. lo_maxCycles opts = Some (Fin (of_nat k)))"
  shows "loop_inv 0 S \<Longrightarrow> within_max opts (lp_cycles S) \<Longrightarrow> loop_run opts envs S = Some (out, S') \<Longrightarrow>
    within_max opts (lp_cycles S') \<and>
    (case out of
       Inl e \<Rightarrow> loop_inv 0 S' \<and> (\<exists>m. e = range_error m)
     | Inr R \<Rightarrow> counted R S' \<and> stop_explained opts R S' \<and> lr_error R = None)"
proof (induction envs arbitrary: S)
  case Nil
  show ?case
  proof (cases "aborted S")
    case True
    with Nil stopped_explained [of S opts] show ?thesis
      by (auto simp: loop_run.simps stopped_def)
  next
    case False
    with Nil show ?thesis
      by (auto simp: loop_run.simps counted_def stop_explained_def loop_ended_def split: if_splits)
  qed
next
  case (Cons env envs)
  show ?case
  proof (cases "aborted S \<or> max_reached opts S")
    case True
    then show ?thesis
    proof
      assume "aborted S"
      with Cons.prems stopped_explained [of S opts] show ?thesis
        by (auto simp: loop_run.simps stopped_def)
    next
      assume "max_reached opts S"
      with Cons.prems stopped_explained [of S opts] show ?thesis
        by (cases "aborted S")
          (auto simp: loop_run.simps counted_def stop_explained_def loop_ended_def stopped_def)
    qed
  next
    case False
    obtain r S1 where c: "loop_cycle opts env S = (r, S1)" by (cases "loop_cycle opts env S")
    note inv = loop_cycle_inv [OF Cons.prems(1) c]
    have below: "within_max opts n" if "n \<le> Suc (lp_cycles S)" for n
    proof -
      have "of_nat n \<le> (of_nat k :: rat)" if "lo_maxCycles opts = Some (Fin (of_nat k))" for k
      proof -
        have "lp_cycles S < k" using False that by (auto simp: max_reached_def)
        with \<open>n \<le> Suc (lp_cycles S)\<close> show ?thesis by simp
      qed
      with assms show ?thesis by (auto simp: within_max_def)
    qed
    show ?thesis
    proof (cases r)
      case (Inl e)
      with Cons.prems(3) False c have "out = Inl e" "S' = S1" by (simp_all add: loop_run.simps)
      with inv Inl below show ?thesis by auto
    next
      case (Inr go)
      show ?thesis
      proof (cases go)
        case True
        with Cons.prems(3) False c Inr have "loop_run opts envs S1 = Some (out, S')"
          by (simp add: loop_run.simps)
        with Cons.IH [of S1] inv Inr True below show ?thesis by simp
      next
        case False
        with Cons.prems(3) \<open>\<not> (aborted S \<or> max_reached opts S)\<close> c Inr
        have "out = Inr (stopped S1)" "S' = S1" by (auto simp: loop_run.simps)
        with inv Inr False below stopped_explained [of S1 opts] show ?thesis
          by (auto simp: stopped_def)
      qed
    qed
  qed
qed

lemma loop_run_returns:
  "lo_maxCycles opts = Some (Fin (of_nat k)) \<Longrightarrow> k \<le> lp_cycles S + length envs \<Longrightarrow> loop_inv 0 S \<Longrightarrow>
     loop_run opts envs S \<noteq> None"
proof (induction envs arbitrary: S)
  case Nil
  then show ?case by (simp add: loop_run.simps max_reached_def)
next
  case (Cons env envs)
  obtain r S1 where c: "loop_cycle opts env S = (r, S1)" by (cases "loop_cycle opts env S")
  note inv = loop_cycle_inv [OF Cons.prems(3) c]
  show ?case
  proof (cases "r = Inr True")
    case True
    with inv Cons.prems Cons.IH [of S1] have "loop_run opts envs S1 \<noteq> None" by simp
    with c True show ?thesis by (simp add: loop_run.simps [of opts "env # envs"])
  next
    case False
    then show ?thesis
      by (cases r) (auto simp: loop_run.simps [of opts "env # envs"] c)
  qed
qed

section \<open>The whole loop\<close>

lemma assertMaxCycles_Inr:
  assumes "assertMaxCycles m = Inr u"
  shows "m = None \<or> (\<exists>k. 0 < k \<and> m = Some (Fin (of_nat k)))"
proof (cases m)
  case (Some v)
  then obtain r where v: "v = Fin r" "is_integer r" "r \<noteq> 0" "0 \<le> r"
    using assms by (cases v) (auto simp: assertMaxCycles_def split: if_splits)
  have "r = of_nat (nat \<lfloor>r\<rfloor>)" by (rule is_integer_nonneg_nat [OF v(2,4), symmetric])
  moreover from this v(3) have "0 < nat \<lfloor>r\<rfloor>" by (metis of_nat_0 gr_zeroI)
  ultimately show ?thesis using Some v(1) by blast
qed simp

lemma disposed_frame [loop_frame]:
  "ls_stopReason (lp_signals (hear [Disposed] S)) = ls_stopReason (lp_signals S)"
  "cs_cause (ls_combined (lp_signals (hear [Disposed] S))) = cs_cause (ls_combined (lp_signals S))"
  "aborted (hear [Disposed] S) = aborted S"
  by (auto simp: hear_def loop_signal_step_def loop_aborted_def aborted_def Let_def)

lemma new_state_inv: "scheduler_ok sch \<Longrightarrow> loop_inv 0 (hear evs (new_loop_state (createLoopSignals a b) sch))"
  by (simp add: loop_inv_def loop_frame hear_signals new_loop_state_def created_ok)
    (simp add: n_decided_def n_reported_def)

lemma outcome_cases:
  assumes "runCoordinatorLoop opts sch signal shutdownSignal ad envs = Some out" "lc_result out = Inr R"
  obtains S where
    "loop_body opts ad envs (new_loop_state (createLoopSignals signal shutdownSignal) sch) = Some (Inr R, S)"
    "lc_state out = hear [Disposed] S"
    "lo_maxCycles opts = None \<or> (\<exists>k. 0 < k \<and> lo_maxCycles opts = Some (Fin (of_nat k)))"
  using assms assertMaxCycles_Inr [of "lo_maxCycles opts"]
  by (auto simp: runCoordinatorLoop_def Let_def split: sum.splits option.splits if_splits)

lemma admitted_outcome:
  fixes R :: "'r loop_result"
  assumes "runCoordinatorLoop opts sch signal shutdownSignal ad envs = Some out" "lc_result out = Inr R"
    and "scheduler_ok sch" "ad_acquire ad = Inr True"
  obtains S where "lc_state out = hear [Disposed] S" "counted R S" "stop_explained opts R S"
    "within_max opts (lp_cycles S)" "lr_error R = None"
proof -
  obtain S where S:
    "loop_body opts ad envs (new_loop_state (createLoopSignals signal shutdownSignal) sch) = Some (Inr R, S)"
    "lc_state out = hear [Disposed] S"
    "lo_maxCycles opts = None \<or> (\<exists>k. 0 < k \<and> lo_maxCycles opts = Some (Fin (of_nat k)))"
    by (rule outcome_cases [OF assms(1,2)])
  define S0 :: "'r loop_state" where
    "S0 = hear (ad_signals ad) (new_loop_state (createLoopSignals signal shutdownSignal) sch)"
  have run: "loop_run opts envs S0 = Some (Inr R, S)"
    using S(1) assms(4) by (simp add: loop_body_def Let_def S0_def)
  have "lp_cycles S0 = 0" by (simp add: S0_def loop_frame new_loop_state_def)
  then have within: "within_max opts (lp_cycles S0)"
    using S(3) by (auto simp: within_max_def)
  have max: "lo_maxCycles opts = None \<or> (\<exists>k. lo_maxCycles opts = Some (Fin (of_nat k)))"
    using S(3) by blast
  have "loop_inv 0 S0" unfolding S0_def by (rule new_state_inv [OF assms(3)])
  from loop_run_result [OF max this within run] that S(2) show thesis by simp
qed

lemma refused_outcome:
  fixes R :: "'r loop_result"
  assumes "runCoordinatorLoop opts sch signal shutdownSignal ad envs = Some out" "lc_result out = Inr R"
    and "ad_acquire ad \<noteq> Inr True" "scheduler_ok sch"
  shows "lr_cycles R = 0 \<and> lr_results R = [] \<and> lp_decisions (lc_state out) = [] \<and>
    (lr_stopReason R = StopAdmissionDenied \<and> ad_acquire ad = Inr False \<and> lr_failures R = 0 \<or>
     lr_stopReason R = StopFailed \<and> lr_failures R = 1 \<and> \<not> aborted (lc_state out) \<and>
       (\<exists>e. ad_acquire ad = Inl e \<and> lr_error R = Some e) \<or>
     ls_stopReason (lp_signals (lc_state out)) = Some (lr_stopReason R) \<and> aborted (lc_state out) \<and>
       signals_ok (lp_signals (lc_state out)))"
proof -
  obtain S where S:
    "loop_body opts ad envs (new_loop_state (createLoopSignals signal shutdownSignal) sch) = Some (Inr R, S)"
    "lc_state out = hear [Disposed] S"
    by (rule outcome_cases [OF assms(1,2)])
  define S0 :: "'r loop_state" where
    "S0 = hear (ad_signals ad) (new_loop_state (createLoopSignals signal shutdownSignal) sch)"
  have zero: "lp_cycles S0 = 0" "lp_results S0 = []" "lp_decisions S0 = []" "lp_failures S0 = 0"
    by (simp_all add: S0_def loop_frame new_loop_state_def)
  have body: "(case ad_acquire ad of
       Inl e \<Rightarrow>
         if aborted S0 then Some (Inr (stopped S0), S0)
         else Some (Inr ((loop_ended StopFailed S0)\<lparr>lr_failures := 1, lr_error := Some e\<rparr>),
                    report_error e AdmissionPhase S0)
     | Inr False \<Rightarrow> Some (Inr (loop_ended StopAdmissionDenied S0), S0)
     | Inr True \<Rightarrow> loop_run opts envs S0) = Some (Inr R, S)"
    using S(1) unfolding loop_body_def Let_def S0_def by simp
  have ok: "signals_ok (lp_signals S0)"
    using new_state_inv [OF assms(4), of "ad_signals ad" signal shutdownSignal]
    unfolding loop_inv_def S0_def by blast
  show ?thesis
  proof (cases "ad_acquire ad")
    case (Inl e)
    show ?thesis
    proof (cases "aborted S0")
      case True
      with body Inl have R: "R = stopped S0" "S = S0" by auto
      obtain r where r: "ls_stopReason (lp_signals S0) = Some r"
        using True ok by (auto simp: signals_ok_def aborted_def)
      have "signals_ok (lp_signals (hear [Disposed] S0))" using ok by (rule hear_signals)
      with R S(2) zero True r show ?thesis by (simp add: loop_frame stopped_def)
    next
      case False
      with body S(2) Inl show ?thesis by (auto simp: loop_frame zero loop_ended_def)
    qed
  next
    case (Inr b)
    with assms(3) have "b = False" by auto
    with body S(2) Inr zero show ?thesis by (auto simp: loop_frame loop_ended_def)
  qed
qed

section \<open>A concrete loop\<close>

definition quiet_env :: "reason + 'r \<Rightarrow> sleep_signal option \<Rightarrow> 'r cycle_env" where
  "quiet_env r signal =
     \<lparr>ce_signals = (\<lambda>_. []), ce_intervals = None, ce_prepare = Inr None, ce_decision = None,
      ce_run = r, ce_sleepSignal = Inr signal, ce_afterRun = None, ce_sleep = None\<rparr>"

definition once_options :: loop_options where
  "once_options = \<lparr>lo_maxCycles = Some (Fin (of_nat 1)), lo_hasSleepSignal = True, lo_customSleep = True\<rparr>"

definition granted :: admission where
  "granted = \<lparr>ad_signals = [], ad_acquire = Inr True, ad_release = None\<rparr>"

definition sample_scheduler :: scheduler where
  "sample_scheduler = \<lparr>sc_intervalMs = 1000, sc_idleIntervalMs = 1000, sc_maxBackoffMs = 300000,
     sc_consecutiveErrors = 0\<rparr>"

definition huge_signal :: sleep_signal where
  "huge_signal = \<lparr>ss_seconds = overflow_bound / 1000, ss_reason = None\<rparr>"

lemma sample_scheduler_ok: "scheduler_ok sample_scheduler"
  by (simp add: scheduler_ok_def sample_scheduler_def)

lemma calm_signals:
  "\<not> loop_aborted (createLoopSignals None None)" "ls_stopReason (createLoopSignals None None) = None"
  by (simp_all add: createLoopSignals_def loop_aborted_def combineAbortSignals_def Let_def)

lemmas loop_steps =
  loop_cycle_def set_intervals_def plan_cycle_def planForPreflight_def decide_def run_attempt_def
  read_signal_def cleanup_def planAfterRun_def waitForPlan_def sleep_outcome_def hear_def aborted_def
  report_error_def quiet_env_def new_loop_state_def calm_signals Let_def

lemma one_failed_outcome:
  "\<exists>out. runCoordinatorLoop once_options sample_scheduler None None granted
      [quiet_env (Inl RUndef) None :: nat cycle_env] = Some out \<and>
    lc_result out = Inr \<lparr>lr_stopReason = StopMaxCycles, lr_cycles = 1, lr_results = [], lr_failures = 1,
      lr_error = None\<rparr>"
proof -
  have "assertMaxCycles (lo_maxCycles once_options) = Inr ()"
    by (simp add: assertMaxCycles_def once_options_def max_safe_integer_def)
  then show ?thesis
    by (simp add: runCoordinatorLoop_def loop_body_def granted_def hear_def Let_def
        loop_run.simps loop_steps once_options_def max_reached_def loop_ended_def sample_scheduler_def)
qed

section \<open>Properties\<close>

text \<open>
  C22. The counters of a loop that was admitted are exact: one decision per counted cycle, never more
  cycles than the maximum, results only for cycles that were decided to run, and the failures are
  the error decisions, the failed runs and the unreadable sleep signals; a sleep that failed by
  itself is reported but not counted, and stops the loop as failed.
\<close>

theorem loop_counts:
  assumes "runCoordinatorLoop opts sch signal shutdownSignal ad envs = Some out" "lc_result out = Inr R"
    and "scheduler_ok sch" "ad_acquire ad = Inr True"
  shows "let S = lc_state out in
    lr_cycles R = length (lp_decisions S) \<and> within_max opts (lr_cycles R) \<and>
    length (lr_results R) + n_reported RunPhase S \<le> n_decided DecideRun S \<and>
    lr_failures R + (if lr_stopReason R = StopFailed then 1 else 0) =
      n_decided DecideError S + n_reported RunPhase S + n_reported SleepPhase S"
proof -
  obtain S where S: "lc_state out = hear [Disposed] S" "counted R S" "within_max opts (lp_cycles S)"
    by (rule admitted_outcome [OF assms])
  then show ?thesis by (simp add: Let_def loop_frame counted_def loop_inv_def)
qed

theorem loop_counts_witness:
  "\<exists>out R. runCoordinatorLoop once_options sample_scheduler None None granted
      [quiet_env (Inl RUndef) None :: nat cycle_env] = Some out \<and> lc_result out = Inr R \<and>
    lr_failures R = n_decided DecideError (lc_state out) + n_reported RunPhase (lc_state out) +
      n_reported SleepPhase (lc_state out)"
proof -
  have admitted: "ad_acquire granted = Inr True" by (simp add: granted_def)
  obtain out where out: "runCoordinatorLoop once_options sample_scheduler None None granted
      [quiet_env (Inl RUndef) None :: nat cycle_env] = Some out"
    "lc_result out = Inr \<lparr>lr_stopReason = StopMaxCycles, lr_cycles = 1, lr_results = [], lr_failures = 1,
      lr_error = None\<rparr>"
    using one_failed_outcome by blast
  with loop_counts [OF out sample_scheduler_ok admitted] show ?thesis by (simp add: Let_def)
qed

text \<open>
  C23. The stop reason says why the loop stopped: shutdown and cancelled only when its signal was
  aborted, shutdown only for a shutdown cause; the maximum only when exactly that many cycles ran;
  denied only without a lease; and failed only when admission failed or a sleep failed by itself.
\<close>

theorem loop_stop_explained:
  assumes "runCoordinatorLoop opts sch signal shutdownSignal ad envs = Some out" "lc_result out = Inr R"
    and "scheduler_ok sch"
  shows "case lr_stopReason R of
      StopShutdown \<Rightarrow>
        map_option ac_kind (cs_cause (ls_combined (lp_signals (lc_state out)))) = Some ShutdownKind
    | StopCancelled \<Rightarrow> aborted (lc_state out)
    | StopMaxCycles \<Rightarrow> lo_maxCycles opts = Some (Fin (of_nat (lr_cycles R))) \<and> \<not> aborted (lc_state out)
    | StopAdmissionDenied \<Rightarrow> ad_acquire ad = Inr False \<and> lr_cycles R = 0
    | StopFailed \<Rightarrow> \<not> aborted (lc_state out) \<and>
        ((\<exists>e. ad_acquire ad = Inl e \<and> lr_error R = Some e) \<or> 0 < n_reported SleepPhase (lc_state out))"
proof (cases "ad_acquire ad = Inr True")
  case False
  with refused_outcome [OF assms(1,2) False assms(3)] show ?thesis
    by (auto simp: signals_ok_def split: loop_stop.split)
next
  case True
  obtain S where S: "lc_state out = hear [Disposed] S" "counted R S" "stop_explained opts R S"
    "within_max opts (lp_cycles S)"
    by (rule admitted_outcome [OF assms True])
  have ok: "signals_ok (lp_signals S)" using S(2) by (simp add: counted_def loop_inv_def)
  obtain T where T: "lo_maxCycles opts = None \<or> (\<exists>k. 0 < k \<and> lo_maxCycles opts = Some (Fin (of_nat k)))"
    by (rule outcome_cases [OF assms(1,2)])
  have max: "lo_maxCycles opts = Some (Fin (of_nat (lp_cycles S)))" if "max_reached opts S"
    using T that S(4) by (auto simp: max_reached_def within_max_def)
  show ?thesis
  proof (cases "lr_stopReason R")
    case StopFailed
    then have "0 < n_reported SleepPhase S"
      using S(2) by (simp add: counted_def loop_inv_def)
    with S StopFailed show ?thesis by (simp add: stop_explained_def loop_frame)
  qed (use S ok max in \<open>auto simp: stop_explained_def loop_frame signals_ok_def counted_def\<close>)
qed

theorem loop_stop_explained_witness:
  "\<exists>out R. runCoordinatorLoop once_options sample_scheduler None None granted
      [quiet_env (Inl RUndef) None :: nat cycle_env] = Some out \<and> lc_result out = Inr R \<and>
    lr_stopReason R = StopMaxCycles \<and> lo_maxCycles once_options = Some (Fin (of_nat (lr_cycles R)))"
proof -
  obtain out where out: "runCoordinatorLoop once_options sample_scheduler None None granted
      [quiet_env (Inl RUndef) None :: nat cycle_env] = Some out"
    "lc_result out = Inr \<lparr>lr_stopReason = StopMaxCycles, lr_cycles = 1, lr_results = [], lr_failures = 1,
      lr_error = None\<rparr>"
    using one_failed_outcome by blast
  with loop_stop_explained [OF out sample_scheduler_ok] show ?thesis by simp
qed

text \<open>
  C24. A loop with a maximum number of cycles returns: when every awaited operation of that many
  cycles ends, the loop has an outcome, whatever failed or was aborted on the way.
\<close>

theorem loop_returns:
  assumes "lo_maxCycles opts = Some (Fin (of_nat k))" "k \<le> length envs" "scheduler_ok sch"
  shows "runCoordinatorLoop opts sch signal shutdownSignal ad envs \<noteq> None"
proof -
  let ?S = "hear (ad_signals ad) (new_loop_state (createLoopSignals signal shutdownSignal) sch)"
  have "loop_run opts envs ?S \<noteq> None"
    by (rule loop_run_returns [OF assms(1)]) (use assms new_state_inv in auto)
  then show ?thesis
    by (auto simp: runCoordinatorLoop_def loop_body_def Let_def split: sum.split bool.split)
qed

theorem loop_returns_witness:
  "runCoordinatorLoop once_options sample_scheduler None None granted
     [quiet_env (Inl RUndef) None :: nat cycle_env] \<noteq> None"
  by (rule loop_returns [of _ 1]) (simp_all add: once_options_def sample_scheduler_ok)

text \<open>
  One sleep signal can end the coordinator: when a run leaves a signal whose finite seconds
  exceed the number range in milliseconds, and nothing aborts the loop, the loop rejects with a
  range error instead of going on, whatever its options are.
\<close>

theorem huge_sleep_signal_rejects:
  assumes "assertMaxCycles (lo_maxCycles opts) = Inr u" "lo_hasSleepSignal opts"
    and "overflow_bound \<le> ss_seconds s * 1000"
  shows "\<exists>out m. runCoordinatorLoop opts sch None None granted (quiet_env r (Some s) # envs) = Some out \<and>
    lc_result out = Inl (range_error m)"
proof -
  have pos: "0 < overflow_bound" by (simp add: overflow_bound_def)
  then have "0 < ss_seconds s * 1000" using assms(3) by linarith
  then have "0 \<le> ss_seconds s" by simp
  moreover have "to_double (ss_seconds s * 1000) = PosInf" using assms(3) by (simp add: to_double_def)
  moreover have "\<not> loop_aborted (createLoopSignals None None)" by (rule calm_signals)
  ultimately obtain m S' where cycle:
    "loop_cycle opts (quiet_env r (Some s)) (new_loop_state (createLoopSignals None None) sch) =
       (Inl (range_error m), S')"
    using assms(2) by (cases r) (auto simp: loop_steps)
  have "\<not> max_reached opts (new_loop_state L T)" for L T
    using assertMaxCycles_Inr [OF assms(1)] by (auto simp: max_reached_def new_loop_state_def)
  then have "loop_run opts (quiet_env r (Some s) # envs) (new_loop_state (createLoopSignals None None) sch) =
      Some (Inl (range_error m), S')"
    using cycle by (simp add: loop_run.simps [of opts "quiet_env r (Some s) # envs"] aborted_def
        new_loop_state_def calm_signals)
  then show ?thesis
    using assms(1) by (auto simp: runCoordinatorLoop_def loop_body_def granted_def hear_def Let_def)
qed

theorem huge_sleep_signal_rejects_witness:
  "\<exists>out m. runCoordinatorLoop once_options sample_scheduler None None granted
       [quiet_env (Inr 0) (Some huge_signal) :: nat cycle_env] = Some out \<and>
     lc_result out = Inl (range_error m)"
  by (rule huge_sleep_signal_rejects [where u = "()"])
    (simp_all add: assertMaxCycles_def once_options_def max_safe_integer_def huge_signal_def)

text \<open>
  The exit code of a single cycle is exact: with a lease, \<open>--once\<close> exits with 0 exactly when
  the loop did not stop as failed and neither its preflight, its run nor its sleep signal failed.
\<close>

theorem once_exit_code:
  assumes "runCoordinatorLoop opts sch signal shutdownSignal ad envs = Some out" "lc_result out = Inr R"
    and "scheduler_ok sch" "ad_acquire ad = Inr True"
  shows "coordinatorExitCode R True = 0 \<longleftrightarrow>
    lr_stopReason R \<noteq> StopFailed \<and> n_decided DecideError (lc_state out) = 0 \<and>
    n_reported RunPhase (lc_state out) = 0 \<and> n_reported SleepPhase (lc_state out) = 0"
proof -
  obtain S where S: "lc_state out = hear [Disposed] S" "counted R S" "stop_explained opts R S"
    by (rule admitted_outcome [OF assms])
  have "lr_stopReason R \<noteq> StopAdmissionDenied" using S(3) by (auto simp: stop_explained_def)
  with S show ?thesis
    by (auto simp: coordinatorExitCode_def counted_def loop_inv_def loop_frame)
qed

theorem once_exit_code_witness:
  "\<exists>out R. runCoordinatorLoop once_options sample_scheduler None None granted
      [quiet_env (Inl RUndef) None :: nat cycle_env] = Some out \<and> lc_result out = Inr R \<and>
    (coordinatorExitCode R True = 0 \<longleftrightarrow>
       lr_stopReason R \<noteq> StopFailed \<and> n_decided DecideError (lc_state out) = 0 \<and>
       n_reported RunPhase (lc_state out) = 0 \<and> n_reported SleepPhase (lc_state out) = 0)"
proof -
  have admitted: "ad_acquire granted = Inr True" by (simp add: granted_def)
  obtain out R where out: "runCoordinatorLoop once_options sample_scheduler None None granted
      [quiet_env (Inl RUndef) None :: nat cycle_env] = Some out" "lc_result out = Inr R"
    using one_failed_outcome by blast
  show ?thesis
    by (rule exI [of _ out], rule exI [of _ R])
      (intro conjI out once_exit_code [OF out sample_scheduler_ok admitted])
qed

end
