(* ===== verification/Projection.thy ===== *)
theory Projection
  imports Coordinator
begin

text \<open>
  \<open>coordinator/src/projections/compatibility.ts\<close> with the records of \<open>ports/compatibility.ts\<close>: the
  projection of normalized events to the status, cost, cycle-run, transcript and metric writers. The
  projection keeps one state per attempt and the attempts that are completed; every write that is
  attempted is listed, and whether it fails is given by its number.
\<close>

section \<open>The records written\<close>

record status_update =
  st_state :: string
  st_message :: string
  st_instanceId :: string
  st_externalKey :: "string option"
  st_repository :: "string option"

datatype metric_type = Counter | Gauge | Histogram "rat list"

record metric_point =
  mp_type :: metric_type
  mp_name :: string
  mp_value :: rat
  mp_labels :: "(string \<times> string) list"

record model_counts =
  mc_input :: nat
  mc_output :: nat
  mc_cacheRead :: nat
  mc_cacheWrite :: nat

datatype cost_status = CostFromProvider | CostEstimated | CostUnknown

record usage_totals =
  ut_inputTokens :: nat
  ut_outputTokens :: nat
  ut_cacheReadTokens :: nat
  ut_cacheWriteTokens :: nat
  ut_costUsd :: rat
  ut_costStatus :: cost_status
  ut_costIncomplete :: bool
  ut_modelUsage :: "(string \<times> model_counts) list"
  ut_model :: string

record cost_record =
  cost_timestamp :: string
  cost_runId :: string
  cost_attemptId :: string
  cost_label :: string
  cost_instanceId :: string
  cost_sessionId :: "string option"
  cost_numTurns :: rat
  cost_durationMs :: rat
  cost_totals :: usage_totals
  cost_isError :: bool
  cost_noWork :: bool
  cost_externalKey :: "string option"
  cost_repository :: "string option"
  cost_workType :: "string option"
  cost_summary :: "string option"
  cost_runtimeId :: "string option"
  cost_providerId :: string

record cycle_run_record =
  cy_runId :: string
  cy_attemptId :: string
  cy_taskId :: "rat option"
  cy_cycleType :: string
  cy_instanceId :: string
  cy_startedAt :: string
  cy_finishedAt :: string
  cy_toolCalls :: rat
  cy_tokensUsed :: nat
  cy_inputPrompt :: string
  cy_externalKey :: "string option"
  cy_repository :: "string option"
  cy_workType :: "string option"
  cy_summary :: "string option"

record transcript_record =
  tr_runId :: string
  tr_attemptId :: string
  tr_instanceId :: string
  tr_sequence :: nat
  tr_occurredAt :: string
  tr_event :: rehor_event
  tr_run :: rehor_run

datatype written =
    WroteStatus status_update
  | WroteCost cost_record
  | WroteCycleRun cycle_run_record
  | WroteTranscript transcript_record
  | WroteMetric metric_point

record writers =
  wr_status :: bool
  wr_costs :: bool
  wr_cycleRuns :: bool
  wr_transcripts :: bool
  wr_metrics :: bool
  wr_fails :: "nat \<Rightarrow> reason option"

section \<open>The state\<close>

record attempt_state =
  as_startedAt :: string
  as_runtimeSessionRef :: "string option"
  as_runtimeReadyObserved :: bool
  as_runtimeSessionObserved :: bool
  as_childSessionRefs :: "string list"
  as_ledger :: usage_ledger

record projection =
  pj_state :: "(string \<times> attempt_state) list"
  pj_completed :: "string list"
  pj_writes :: "written list"

definition new_projection :: projection where
  "new_projection = \<lparr>pj_state = [], pj_completed = [], pj_writes = []\<rparr>"

type_synonym step = "projection \<Rightarrow> reason option \<times> projection"

definition attempt_write :: "writers \<Rightarrow> written \<Rightarrow> step" where
  "attempt_write W w S = (wr_fails W (length (pj_writes S)), S\<lparr>pj_writes := pj_writes S @ [w]\<rparr>)"

definition skip :: step where
  "skip S = (None, S)"

text \<open>Awaited steps one after the other; the first that throws ends them.\<close>

fun steps :: "step list \<Rightarrow> step" where
  "steps [] S = (None, S)"
| "steps (f # fs) S = (case f S of (Some e, S') \<Rightarrow> (Some e, S') | (None, S') \<Rightarrow> steps fs S')"

definition observe :: "writers \<Rightarrow> metric_point \<Rightarrow> step" where
  "observe W p = (if wr_metrics W then attempt_write W (WroteMetric p) else skip)"

definition attemptKey :: "rehor_event \<Rightarrow> rehor_run \<Rightarrow> string" where
  "attemptKey e run = rn_runId run @ '':'' @ ev_attemptId e"

definition fresh_state :: "rehor_event \<Rightarrow> attempt_state" where
  "fresh_state e =
     \<lparr>as_startedAt = ev_occurredAt e, as_runtimeSessionRef = None, as_runtimeReadyObserved = False,
      as_runtimeSessionObserved = False, as_childSessionRefs = [], as_ledger = []\<rparr>"

definition state_of :: "rehor_event \<Rightarrow> string \<Rightarrow> projection \<Rightarrow> attempt_state" where
  "state_of e key S = (case map_of (pj_state S) key of Some st \<Rightarrow> st | None \<Rightarrow> fresh_state e)"

definition put_state :: "string \<Rightarrow> attempt_state \<Rightarrow> projection \<Rightarrow> projection" where
  "put_state key st S = S\<lparr>pj_state := AList.update key st (pj_state S)\<rparr>"

definition stateFor :: "rehor_event \<Rightarrow> rehor_run \<Rightarrow> projection \<Rightarrow> projection" where
  "stateFor e run S = put_state (attemptKey e run) (state_of e (attemptKey e run) S) S"

text \<open>\<open>while (size > 1024)\<close>, deleting the oldest.\<close>

definition trimCompletedAttempts :: "projection \<Rightarrow> projection" where
  "trimCompletedAttempts S =
     S\<lparr>pj_completed := drop (length (pj_completed S) - 1024) (pj_completed S)\<rparr>"

section \<open>Status updates\<close>

definition stringPayload :: "obj \<Rightarrow> string \<Rightarrow> string option" where
  "stringPayload payload key = as_string (obj_get payload key)"

definition workingStatus :: "(string \<times> string) list \<Rightarrow> rehor_run \<Rightarrow> string \<Rightarrow> status_update" where
  "workingStatus environment run message =
     \<lparr>st_state = ''working'', st_message = take 500 (safeText environment message),
      st_instanceId = rn_instanceId run, st_externalKey = None, st_repository = None\<rparr>"

text \<open>\<open>text ? workingStatus(run, scope(text)) : null\<close>\<close>

definition text_status ::
    "(string \<times> string) list \<Rightarrow> rehor_run \<Rightarrow> (string \<Rightarrow> string) \<Rightarrow> string option \<Rightarrow> status_update option" where
  "text_status environment run scope message =
     (case message of
        None \<Rightarrow> None
      | Some t \<Rightarrow> if t = [] then None else Some (workingStatus environment run (scope t)))"

definition run_status_message :: "(string \<Rightarrow> string) \<Rightarrow> string option \<Rightarrow> string option" where
  "run_status_message scope state =
     (if state = Some ''started'' then Some ''Starting cycle...''
      else if state = Some ''running'' \<or> state = Some ''turn_started'' then Some (scope ''Working...'')
      else if state = Some ''child_session_started'' then Some ''Subagent: session started''
      else None)"

definition tool_lifecycle :: "obj \<Rightarrow> string option" where
  "tool_lifecycle payload =
     (let state = stringPayload payload ''state''
      in if state = Some ''started'' then Some ''started''
         else if state = Some ''failed'' \<or> state = Some ''error'' \<or> obj_get payload ''isError'' = JBool True
         then Some ''failed''
         else if state = Some ''completed'' then Some ''completed'' else None)"

definition statusForEvent ::
    "(string \<times> string) list \<Rightarrow> rehor_event \<Rightarrow> rehor_run \<Rightarrow> string list \<Rightarrow> status_update option" where
  "statusForEvent environment e run childSessionRefs =
     (let isSubagent = (case ev_runtimeSessionRef e of None \<Rightarrow> False | Some r \<Rightarrow> r \<in> set childSessionRefs);
          scope = (\<lambda>message. if isSubagent then ''Subagent: '' @ message else message);
          payload = ev_payload e
      in if ev_kind e = ''run'' then
           map_option (workingStatus environment run)
             (run_status_message scope (stringPayload payload ''state''))
         else if ev_kind e = ''model'' then
           (if obj_get payload ''phase'' = JStr ''reasoning'' then None
            else text_status environment run scope
                   (if obj_get payload ''phase'' = JStr ''text'' \<or> obj_get payload ''role'' = JStr ''assistant''
                    then stringPayload payload ''text'' else None))
         else if ev_kind e = ''agent'' then
           text_status environment run scope
             (if obj_get payload ''role'' = JStr ''assistant'' then stringPayload payload ''text'' else None)
         else if ev_kind e = ''tool'' then
           (case (case stringPayload payload ''name'' of
                    Some n \<Rightarrow> Some n | None \<Rightarrow> stringPayload payload ''toolName'') of
              None \<Rightarrow> None
            | Some name \<Rightarrow>
                if name = [] then None
                else map_option (\<lambda>lifecycle.
                       workingStatus environment run (scope (''Tool '' @ lifecycle @ '': '' @ name)))
                     (tool_lifecycle payload))
         else None)"

definition nonempty :: "string option \<Rightarrow> string option" where
  "nonempty s = (if s = Some [] then None else s)"

definition statusForTerminal ::
    "rehor_run \<Rightarrow> string \<Rightarrow> string option \<Rightarrow> bool \<Rightarrow> obj \<Rightarrow> status_update" where
  "statusForTerminal run state reason noWork ctx =
     (let status = (if noWork \<or> state = ''completed'' then ''idle'' else ''error'')
      in \<lparr>st_state = status,
          st_message =
            (if noWork then ''No work found. Sleeping...''
             else if status = ''error''
             then (case nonempty reason of Some r \<Rightarrow> r | None \<Rightarrow> ''Cycle failed '' @ [CHR 0x97] @ '' check bot.log'')
             else ''Cycle complete. Sleeping...''),
          st_instanceId = rn_instanceId run,
          st_externalKey = nonempty (stringPayload ctx ''externalKey''),
          st_repository = nonempty (stringPayload ctx ''repository'')\<rparr>)"

section \<open>Metrics of events\<close>

definition cost_budget_states :: "string list" where
  "cost_budget_states = [''info'', ''warning'', ''critical'', ''exhausted'']"

definition counter :: "string \<Rightarrow> rat \<Rightarrow> (string \<times> string) list \<Rightarrow> metric_point" where
  "counter name v labels = \<lparr>mp_type = Counter, mp_name = name, mp_value = v, mp_labels = labels\<rparr>"

definition runtimeMetricLabels :: "rehor_run \<Rightarrow> (string \<times> string) list" where
  "runtimeMetricLabels run =
     [(''runtime'', case rn_runtimeId run of None \<Rightarrow> ''unknown'' | Some r \<Rightarrow> r),
      (''provider'', pv_id (rn_provider run))]"

definition observePolicyMetric :: "writers \<Rightarrow> rehor_event \<Rightarrow> rehor_run \<Rightarrow> step" where
  "observePolicyMetric W e run =
     (if ev_kind e \<noteq> ''policy'' then skip
      else (case stringPayload (ev_payload e) ''state'' of
              None \<Rightarrow> skip
            | Some level \<Rightarrow>
                if level \<notin> set cost_budget_states then skip
                else observe W (counter ''devbot_cost_budget_event_total'' 1
                       [(''label'', rn_label run), (''level'', level)])))"

definition observeRuntimeSessionMetric :: "writers \<Rightarrow> rehor_run \<Rightarrow> step" where
  "observeRuntimeSessionMetric W run =
     observe W (counter ''devbot_runtime_sessions_total'' 1 (runtimeMetricLabels run))"

definition observeRuntimeHealthMetric :: "writers \<Rightarrow> rehor_run \<Rightarrow> string \<Rightarrow> step" where
  "observeRuntimeHealthMetric W run status =
     observe W (counter ''devbot_runtime_health_total'' 1 (runtimeMetricLabels run @ [(''status'', status)]))"

definition writeStatusSafely :: "writers \<Rightarrow> status_update \<Rightarrow> step" where
  "writeStatusSafely W update S =
     (None, if wr_status W then snd (attempt_write W (WroteStatus update) S) else S)"

section \<open>Events\<close>

definition session_step :: "writers \<Rightarrow> rehor_event \<Rightarrow> rehor_run \<Rightarrow> step" where
  "session_step W e run S =
     (let key = attemptKey e run; st = state_of e key S
      in case nonempty (ev_runtimeSessionRef e) of
           None \<Rightarrow> (None, S)
         | Some r \<Rightarrow>
             (let st1 = st\<lparr>as_runtimeSessionRef := Some r, as_runtimeSessionObserved := True\<rparr>
              in if as_runtimeSessionObserved st then (None, put_state key st1 S)
                 else observeRuntimeSessionMetric W run (put_state key st1 S)))"

definition record_step :: "rehor_event \<Rightarrow> rehor_run \<Rightarrow> step" where
  "record_step e run S =
     (let key = attemptKey e run; st = state_of e key S;
          st1 = (if ev_kind e = ''usage''
                 then st\<lparr>as_ledger := ul_record (usage_of_payload (ev_payload e)) (as_ledger st)\<rparr> else st);
          st2 = (case nonempty (ev_runtimeSessionRef e) of
                   Some r \<Rightarrow>
                     if ev_kind e = ''run'' \<and> obj_get (ev_payload e) ''state'' = JStr ''child_session_started''
                     then st1\<lparr>as_childSessionRefs := List.insert r (as_childSessionRefs st1)\<rparr> else st1
                 | None \<Rightarrow> st1)
      in (None, put_state key st2 S))"

definition transcript_of :: "rehor_event \<Rightarrow> rehor_run \<Rightarrow> transcript_record" where
  "transcript_of e run =
     \<lparr>tr_runId = rn_runId run, tr_attemptId = rn_attemptId run, tr_instanceId = rn_instanceId run,
      tr_sequence = ev_sequence e, tr_occurredAt = ev_occurredAt e, tr_event = e, tr_run = run\<rparr>"

definition transcript_step :: "writers \<Rightarrow> rehor_event \<Rightarrow> rehor_run \<Rightarrow> step" where
  "transcript_step W e run =
     (if wr_transcripts W then attempt_write W (WroteTranscript (transcript_of e run)) else skip)"

definition ready_step :: "writers \<Rightarrow> rehor_event \<Rightarrow> rehor_run \<Rightarrow> step" where
  "ready_step W e run S =
     (let key = attemptKey e run; st = state_of e key S
      in if ev_kind e = ''run'' \<and> \<not> as_runtimeReadyObserved st
         then observeRuntimeHealthMetric W run ''ready''
                (put_state key (st\<lparr>as_runtimeReadyObserved := True\<rparr>) S)
         else (None, S))"

definition status_step :: "(string \<times> string) list \<Rightarrow> writers \<Rightarrow> rehor_event \<Rightarrow> rehor_run \<Rightarrow> step" where
  "status_step environment W e run S =
     (case statusForEvent environment e run (as_childSessionRefs (state_of e (attemptKey e run) S)) of
        None \<Rightarrow> (None, S)
      | Some u \<Rightarrow> writeStatusSafely W u S)"

definition onEvent :: "(string \<times> string) list \<Rightarrow> writers \<Rightarrow> rehor_event \<Rightarrow> rehor_run \<Rightarrow> step" where
  "onEvent environment W e run S =
     (if attemptKey e run \<in> set (pj_completed S) then (None, S)
      else steps [session_step W e run, record_step e run, transcript_step W e run, ready_step W e run,
                  observePolicyMetric W e run, status_step environment W e run]
             (stateFor e run S))"

section \<open>Usage totals\<close>

record usage_sums =
  sm_totals :: usage_totals
  sm_hasCost :: bool
  sm_estimated :: bool
  sm_incomplete :: bool

definition or_zero :: "nat option \<Rightarrow> nat" where
  "or_zero n = (case n of None \<Rightarrow> 0 | Some k \<Rightarrow> k)"

definition no_counts :: model_counts where
  "no_counts = \<lparr>mc_input = 0, mc_output = 0, mc_cacheRead = 0, mc_cacheWrite = 0\<rparr>"

definition billed_output :: "usage \<Rightarrow> nat" where
  "billed_output u =
     or_zero (tc_output (us_tokenCounts u)) +
     (if us_modelKey u \<noteq> None \<and> us_modelKey u \<noteq> Some [] then or_zero (tc_reasoning (us_tokenCounts u)) else 0)"

definition add_counts :: "usage \<Rightarrow> (string \<times> model_counts) list \<Rightarrow> (string \<times> model_counts) list" where
  "add_counts u usages =
     (let key = usage_key u; t = us_tokenCounts u;
          c = (case map_of usages key of None \<Rightarrow> no_counts | Some c \<Rightarrow> c)
      in AList.update key
           \<lparr>mc_input = mc_input c + or_zero (tc_input t),
            mc_output = mc_output c + billed_output u,
            mc_cacheRead = mc_cacheRead c + or_zero (tc_cacheRead t),
            mc_cacheWrite = mc_cacheWrite c + or_zero (tc_cacheWrite t)\<rparr> usages)"

definition add_usage :: "usage \<Rightarrow> usage_sums \<Rightarrow> usage_sums" where
  "add_usage u s =
     (let t = us_tokenCounts u; T = sm_totals s
      in \<lparr>sm_totals = T\<lparr>ut_inputTokens := ut_inputTokens T + or_zero (tc_input t),
                        ut_outputTokens := ut_outputTokens T + billed_output u,
                        ut_cacheReadTokens := ut_cacheReadTokens T + or_zero (tc_cacheRead t),
                        ut_cacheWriteTokens := ut_cacheWriteTokens T + or_zero (tc_cacheWrite t),
                        ut_costUsd := ut_costUsd T + known_amount u,
                        ut_modelUsage := add_counts u (ut_modelUsage T)\<rparr>,
          sm_hasCost = (sm_hasCost s \<or> has_known_cost u),
          sm_estimated = (sm_estimated s \<or> us_estimated u \<or>
             (case us_cost u of None \<Rightarrow> False | Some c \<Rightarrow> uc_source c = EstimatedCost)),
          sm_incomplete = (sm_incomplete s \<or> us_incomplete u \<or> \<not> has_known_cost u)\<rparr>)"

definition no_sums :: usage_sums where
  "no_sums =
     \<lparr>sm_totals = \<lparr>ut_inputTokens = 0, ut_outputTokens = 0, ut_cacheReadTokens = 0,
        ut_cacheWriteTokens = 0, ut_costUsd = 0, ut_costStatus = CostUnknown, ut_costIncomplete = True,
        ut_modelUsage = [], ut_model = []\<rparr>,
      sm_hasCost = False, sm_estimated = False, sm_incomplete = False\<rparr>"

definition aggregateUsage :: "usage_ledger \<Rightarrow> rehor_run \<Rightarrow> usage_totals" where
  "aggregateUsage ledger run =
     (let s = fold add_usage (map snd ledger) no_sums; T = sm_totals s
      in T\<lparr>ut_costStatus :=
             (if \<not> sm_hasCost s then CostUnknown
              else if sm_estimated s then CostEstimated else CostFromProvider),
           ut_costIncomplete := (sm_incomplete s \<or> \<not> sm_hasCost s),
           ut_model := (case ut_modelUsage T of
                          [] \<Rightarrow> pv_requestedModel (rn_provider run) | (m, _) # _ \<Rightarrow> m)\<rparr>)"

section \<open>Terminal records\<close>

definition work_type_cycles :: "(string \<times> string) list" where
  "work_type_cycles =
     [(''new_ticket'', ''task_work''), (''pr_review'', ''task_work''), (''ci_fix'', ''task_work''),
      (''idle'', ''idle''), (''memory_housekeeping'', ''idle''), (''error'', ''error'')]"

definition resolveCycleType :: "string option \<Rightarrow> bool \<Rightarrow> string" where
  "resolveCycleType workType isError =
     (if isError then ''error''
      else (case nonempty workType of
              None \<Rightarrow> ''triage_only''
            | Some w \<Rightarrow> (case map_of work_type_cycles w of None \<Rightarrow> ''task_work'' | Some c \<Rightarrow> c)))"

text \<open>
  \<open>Date.parse\<close> of the ISO format with seconds and an offset, which every event date has; other
  texts read as \<open>NaN\<close>.
\<close>

definition days_from_civil :: "int \<Rightarrow> int \<Rightarrow> int \<Rightarrow> int" where
  "days_from_civil y m d =
     (let y' = (if m \<le> 2 then y - 1 else y);
          era = y' div 400;
          yoe = y' - era * 400;
          doy = (153 * (if 2 < m then m - 3 else m + 9) + 2) div 5 + d - 1
      in era * 146097 + yoe * 365 + yoe div 4 - yoe div 100 + doy - 719468)"

definition month_days :: "int \<Rightarrow> int \<Rightarrow> int" where
  "month_days y m =
     (if m = 2 then (if y mod 4 = 0 \<and> (y mod 100 \<noteq> 0 \<or> y mod 400 = 0) then 29 else 28)
      else if m \<in> {4, 6, 9, 11} then 30 else 31)"

definition read_field :: "nat \<Rightarrow> string \<Rightarrow> int option" where
  "read_field n s =
     (if length s < n \<or> \<not> list_all is_digit (take n s) then None else Some (int (digits_val (take n s))))"

definition offset_minutes :: "string \<Rightarrow> int option" where
  "offset_minutes s =
     (if s = ''Z'' then Some 0
      else (case s of
              [] \<Rightarrow> None
            | c # r \<Rightarrow>
                (case (read_field 2 r, read_field 2 (drop 3 r)) of
                   (Some h, Some m) \<Rightarrow>
                     if length r = 5 \<and> r ! 2 = CHR '':'' \<and> (c = CHR ''+'' \<or> c = CHR ''-'') \<and> h < 24 \<and> m < 60
                     then Some (if c = CHR ''-'' then - (h * 60 + m) else h * 60 + m) else None
                 | _ \<Rightarrow> None)))"

definition date_parse :: "string \<Rightarrow> rat option" where
  "date_parse s =
     (case (read_field 4 s, read_field 2 (drop 5 s), read_field 2 (drop 8 s), read_field 2 (drop 11 s),
            read_field 2 (drop 14 s), read_field 2 (drop 17 s)) of
        (Some y, Some mo, Some d, Some h, Some mi, Some sec) \<Rightarrow>
          (let rest = drop 19 s;
               fraction = (if rest \<noteq> [] \<and> hd rest = CHR ''.'' then takeWhile is_digit (tl rest) else []);
               zone = (if fraction \<noteq> [] then dropWhile is_digit (tl rest) else rest)
           in if s ! 4 = CHR ''-'' \<and> s ! 7 = CHR ''-'' \<and> s ! 10 = CHR ''T'' \<and> s ! 13 = CHR '':'' \<and>
                 s ! 16 = CHR '':'' \<and> 1 \<le> mo \<and> mo \<le> 12 \<and> 1 \<le> d \<and> d \<le> month_days y mo \<and>
                 h < 24 \<and> mi < 60 \<and> sec < 60
              then map_option
                     (\<lambda>off. of_int (((days_from_civil y mo d * 24 + h) * 60 + mi - off) * 60000 + sec * 1000 +
                              int (digits_val (take 3 (fraction @ ''000'')))))
                     (offset_minutes zone)
              else None)
      | _ \<Rightarrow> None)"

definition elapsedMs :: "string \<Rightarrow> string \<Rightarrow> rat" where
  "elapsedMs startedAt finishedAt =
     (case (date_parse startedAt, date_parse finishedAt) of
        (Some a, Some b) \<Rightarrow> max 0 (b - a)
      | _ \<Rightarrow> 0)"

definition num_or :: "rat \<Rightarrow> jsval \<Rightarrow> rat" where
  "num_or d v = (case v of JNum (Fin r) \<Rightarrow> r | _ \<Rightarrow> d)"

definition terminal_context :: "rehor_event \<Rightarrow> obj" where
  "terminal_context e = obj_of (obj_get (ev_payload e) ''context'')"

definition buildCostRecord ::
    "rehor_run \<Rightarrow> rehor_event \<Rightarrow> attempt_state \<Rightarrow> obj \<Rightarrow> usage_totals \<Rightarrow> bool \<Rightarrow> bool \<Rightarrow> rat \<Rightarrow> cost_record" where
  "buildCostRecord run e st ctx totals noWork isError durationMs =
     \<lparr>cost_timestamp = ev_occurredAt e, cost_runId = rn_runId run, cost_attemptId = rn_attemptId run,
      cost_label = rn_label run, cost_instanceId = rn_instanceId run,
      cost_sessionId = as_runtimeSessionRef st,
      cost_numTurns = num_or 0 (obj_get (ev_payload e) ''turns''), cost_durationMs = durationMs,
      cost_totals = totals, cost_isError = isError, cost_noWork = noWork,
      cost_externalKey = stringPayload ctx ''externalKey'', cost_repository = stringPayload ctx ''repository'',
      cost_workType = stringPayload ctx ''workType'', cost_summary = stringPayload ctx ''summary'',
      cost_runtimeId = rn_runtimeId run, cost_providerId = pv_id (rn_provider run)\<rparr>"

definition buildCycleRunRecord ::
    "rehor_run \<Rightarrow> rehor_event \<Rightarrow> attempt_state \<Rightarrow> obj \<Rightarrow> string \<Rightarrow> usage_totals \<Rightarrow> cycle_run_record" where
  "buildCycleRunRecord run e st ctx cycleType totals =
     \<lparr>cy_runId = rn_runId run, cy_attemptId = rn_attemptId run,
      cy_taskId = (case obj_get ctx ''taskId'' of JNum (Fin r) \<Rightarrow> Some r | _ \<Rightarrow> None),
      cy_cycleType = cycleType, cy_instanceId = rn_instanceId run, cy_startedAt = as_startedAt st,
      cy_finishedAt = ev_occurredAt e, cy_toolCalls = num_or 0 (obj_get (ev_payload e) ''turns''),
      cy_tokensUsed = ut_inputTokens totals + ut_outputTokens totals, cy_inputPrompt = rn_prompt run,
      cy_externalKey = stringPayload ctx ''externalKey'', cy_repository = stringPayload ctx ''repository'',
      cy_workType = stringPayload ctx ''workType'', cy_summary = stringPayload ctx ''summary''\<rparr>"

definition duration_buckets :: "rat list" where
  "duration_buckets = [30, 60, 120, 300, 600, 900, 1200, 1800]"

definition histogram :: "string \<Rightarrow> rat \<Rightarrow> (string \<times> string) list \<Rightarrow> metric_point" where
  "histogram name v labels =
     \<lparr>mp_type = Histogram duration_buckets, mp_name = name, mp_value = v, mp_labels = labels\<rparr>"

definition text_or :: "string \<Rightarrow> string option \<Rightarrow> string" where
  "text_or d s = (case nonempty s of None \<Rightarrow> d | Some t \<Rightarrow> t)"

definition terminal_points ::
    "rehor_run \<Rightarrow> string option \<Rightarrow> string \<Rightarrow> usage_totals \<Rightarrow> rat \<Rightarrow> bool \<Rightarrow> bool \<Rightarrow> metric_point list" where
  "terminal_points run workType state totals durationMs noWork resourceLeak =
     (let labels = [(''model'', ut_model totals), (''label'', rn_label run), (''workflow'', rn_workflowId run)];
          metricStatus = (if state = ''completed'' then (if noWork then ''idle'' else ''ok'') else ''error'');
          rl = runtimeMetricLabels run
      in [counter ''devbot_cycles_total'' 1 (labels @ [(''status'', metricStatus)]),
          histogram ''devbot_cycle_duration_seconds'' (durationMs / 1000)
            [(''label'', rn_label run), (''work_type'', text_or ''unknown'' workType)],
          counter ''devbot_cycle_cost_usd_total'' (ut_costUsd totals) labels,
          counter ''devbot_cycle_input_tokens_total'' (of_nat (ut_inputTokens totals)) labels,
          counter ''devbot_cycle_output_tokens_total'' (of_nat (ut_outputTokens totals)) labels,
          counter ''devbot_cycle_cache_read_tokens_total'' (of_nat (ut_cacheReadTokens totals)) labels,
          counter ''devbot_cycle_cache_write_tokens_total'' (of_nat (ut_cacheWriteTokens totals)) labels,
          counter ''devbot_runtime_health_total'' 1
            (rl @ [(''status'', if state = ''completed'' then ''healthy'' else ''failed'')]),
          histogram ''devbot_runtime_duration_seconds'' (durationMs / 1000) (rl @ [(''state'', state)]),
          (if state = ''timed_out''
           then counter ''devbot_cycle_timeout_total'' 1 [(''label'', rn_label run)]
           else counter ''devbot_work_type_total'' 1
                  [(''label'', rn_label run), (''work_type'', text_or ''triage_only'' workType)])] @
         (if state \<in> {''interrupted'', ''cancelled'', ''timed_out''}
          then [counter ''devbot_runtime_interruptions_total'' 1 (rl @ [(''state'', state)])] else []) @
         (if resourceLeak then [counter ''devbot_runtime_resource_leaks_total'' 1 rl] else []) @
         (if metricStatus = ''idle'' \<and>
             0 < ut_inputTokens totals + ut_outputTokens totals + ut_cacheReadTokens totals +
                 ut_cacheWriteTokens totals
          then [counter ''devbot_idle_with_tokens_total'' 1
                  [(''label'', rn_label run), (''workflow'', rn_workflowId run)]] else []))"

definition observeTerminalMetrics ::
    "writers \<Rightarrow> rehor_run \<Rightarrow> string option \<Rightarrow> string \<Rightarrow> usage_totals \<Rightarrow> rat \<Rightarrow> bool \<Rightarrow> bool \<Rightarrow> step" where
  "observeTerminalMetrics W run workType state totals durationMs noWork resourceLeak =
     steps (map (observe W) (terminal_points run workType state totals durationMs noWork resourceLeak))"

definition terminal_steps :: "writers \<Rightarrow> rehor_event \<Rightarrow> rehor_run \<Rightarrow> attempt_state \<Rightarrow> step list" where
  "terminal_steps W e run st =
     (let payload = ev_payload e;
          ctx = terminal_context e;
          totals = aggregateUsage (as_ledger st) run;
          noWork = (obj_get payload ''noWork'' = JBool True);
          state = str_of (obj_get payload ''state'');
          isError = (state \<noteq> ''completed'');
          durationMs = num_or (elapsedMs (as_startedAt st) (ev_occurredAt e)) (obj_get payload ''durationMs'');
          workType = stringPayload ctx ''workType''
      in [writeStatusSafely W (statusForTerminal run state (stringPayload payload ''reason'') noWork ctx),
          (if wr_costs W
           then attempt_write W (WroteCost (buildCostRecord run e st ctx totals noWork isError durationMs))
           else skip),
          (if wr_cycleRuns W
           then attempt_write W (WroteCycleRun (buildCycleRunRecord run e st ctx
                  (resolveCycleType workType isError) totals))
           else skip),
          observeTerminalMetrics W run workType state totals durationMs noWork
            (obj_get payload ''resourceLeak'' = JBool True)])"

definition onTerminal :: "writers \<Rightarrow> rehor_event \<Rightarrow> rehor_run \<Rightarrow> step" where
  "onTerminal W e run S =
     (let key = attemptKey e run
      in if key \<in> set (pj_completed S) then (None, S)
         else (case assertTerminalEvent e of
                 Inl err \<Rightarrow> (Some (contract_reason err), S)
               | Inr _ \<Rightarrow>
                   (let st = state_of e key S;
                        S1 = stateFor e run S;
                        S2 = S1\<lparr>pj_completed := pj_completed S1 @ [key]\<rparr>;
                        (out, S3) = steps (terminal_steps W e run st) S2
                    in (out, trimCompletedAttempts (S3\<lparr>pj_state := AList.delete key (pj_state S3)\<rparr>)))))"

text \<open>Projecting one event as the coordinator does, and a sequence of events up to the first error.\<close>

definition project_one :: "(string \<times> string) list \<Rightarrow> writers \<Rightarrow> rehor_run \<Rightarrow> rehor_event \<Rightarrow> step" where
  "project_one environment W run e =
     steps (onEvent environment W e run # (if is_terminal e then [onTerminal W e run] else []))"

definition project_all :: "(string \<times> string) list \<Rightarrow> writers \<Rightarrow> rehor_run \<Rightarrow> rehor_event list \<Rightarrow> projection \<Rightarrow> projection" where
  "project_all environment W run es S = fold (\<lambda>e S. snd (project_one environment W run e S)) es S"

end
