(* ===== verification/Projection_Facts.thy ===== *)
theory Projection_Facts
  imports Projection Attempt_Facts
begin

text \<open>
  The projection keeps its promises whatever the writers do: totals agree with the usage ledger the
  budget uses, an attempt is recorded once, its state is dropped on every path, and only a writer
  other than the status writer can make an event fail.
\<close>

section \<open>Totals\<close>

lemma known_amount_unknown: "\<not> has_known_cost u \<Longrightarrow> known_amount u = 0"
  by (auto simp: has_known_cost_def known_amount_def split: option.splits)

lemma sums_costs:
  "ut_costUsd (sm_totals (fold add_usage us s)) = ut_costUsd (sm_totals s) + sum_list (map known_amount us)"
  "sm_hasCost (fold add_usage us s) = (sm_hasCost s \<or> list_ex has_known_cost us)"
  "sm_incomplete (fold add_usage us s) = (sm_incomplete s \<or> list_ex (\<lambda>u. us_incomplete u \<or> \<not> has_known_cost u) us)"
  by (induction us arbitrary: s) (auto simp: add_usage_def Let_def)

definition counts_sum :: "(model_counts \<Rightarrow> nat) \<Rightarrow> (string \<times> model_counts) list \<Rightarrow> nat" where
  "counts_sum f xs = sum_list (map (f \<circ> snd) xs)"

definition totals_inv :: "usage_totals \<Rightarrow> bool" where
  "totals_inv T \<longleftrightarrow>
     distinct (map fst (ut_modelUsage T)) \<and>
     ut_inputTokens T = counts_sum mc_input (ut_modelUsage T) \<and>
     ut_outputTokens T = counts_sum mc_output (ut_modelUsage T) \<and>
     ut_cacheReadTokens T = counts_sum mc_cacheRead (ut_modelUsage T) \<and>
     ut_cacheWriteTokens T = counts_sum mc_cacheWrite (ut_modelUsage T)"

lemma counts_sum_update:
  "distinct (map fst xs) \<Longrightarrow>
     counts_sum f (AList.update k c xs) + (case map_of xs k of None \<Rightarrow> 0 | Some old \<Rightarrow> f old) =
     counts_sum f xs + f c"
  by (induction xs) (auto simp: counts_sum_def map_of_eq_None_iff [symmetric] split: option.split)

lemma add_usage_totals:
  assumes inv: "totals_inv (sm_totals s)"
  shows "totals_inv (sm_totals (add_usage u s))"
proof -
  define xs where "xs = ut_modelUsage (sm_totals s)"
  define c0 where "c0 = (case map_of xs (usage_key u) of None \<Rightarrow> no_counts | Some c \<Rightarrow> c)"
  define c where
    "c = \<lparr>mc_input = mc_input c0 + or_zero (tc_input (us_tokenCounts u)),
          mc_output = mc_output c0 + billed_output u,
          mc_cacheRead = mc_cacheRead c0 + or_zero (tc_cacheRead (us_tokenCounts u)),
          mc_cacheWrite = mc_cacheWrite c0 + or_zero (tc_cacheWrite (us_tokenCounts u))\<rparr>"
  have usage': "ut_modelUsage (sm_totals (add_usage u s)) = AList.update (usage_key u) c xs"
    by (simp add: add_usage_def add_counts_def Let_def c_def c0_def xs_def)
  have d: "distinct (map fst xs)" using inv by (simp add: totals_inv_def xs_def)
  have sum: "counts_sum f (AList.update (usage_key u) c xs) + f c0 = counts_sum f xs + f c"
    if "f no_counts = 0" for f
  proof -
    have "f c0 = (case map_of xs (usage_key u) of None \<Rightarrow> 0 | Some old \<Rightarrow> f old)"
      using that by (cases "map_of xs (usage_key u)") (simp_all add: c0_def)
    with counts_sum_update [OF d, of f "usage_key u" c] show ?thesis by simp
  qed
  have "counts_sum mc_input (AList.update (usage_key u) c xs) = counts_sum mc_input xs + or_zero (tc_input (us_tokenCounts u))"
    "counts_sum mc_output (AList.update (usage_key u) c xs) = counts_sum mc_output xs + billed_output u"
    "counts_sum mc_cacheRead (AList.update (usage_key u) c xs) = counts_sum mc_cacheRead xs + or_zero (tc_cacheRead (us_tokenCounts u))"
    "counts_sum mc_cacheWrite (AList.update (usage_key u) c xs) = counts_sum mc_cacheWrite xs + or_zero (tc_cacheWrite (us_tokenCounts u))"
    using sum [of mc_input] sum [of mc_output] sum [of mc_cacheRead] sum [of mc_cacheWrite]
    by (simp_all add: c_def no_counts_def)
  with inv d show ?thesis
    unfolding totals_inv_def usage'
    by (simp add: distinct_update) (simp add: add_usage_def Let_def xs_def)
qed

lemma sums_totals: "totals_inv (sm_totals s) \<Longrightarrow> totals_inv (sm_totals (fold add_usage us s))"
  by (induction us arbitrary: s) (simp_all add: add_usage_totals)

lemma no_sums_inv: "totals_inv (sm_totals no_sums)"
  by (simp add: totals_inv_def no_sums_def counts_sum_def)

section \<open>Steps\<close>

text \<open>A step that throws does so because its last write, not a status, failed with that reason.\<close>

definition blamed :: "writers \<Rightarrow> step \<Rightarrow> bool" where
  "blamed W f \<longleftrightarrow>
     (\<forall>S r S'. f S = (Some r, S') \<longrightarrow>
        (\<exists>ws w. pj_writes S' = ws @ [w] \<and> wr_fails W (length ws) = Some r \<and> (\<forall>u. w \<noteq> WroteStatus u)))"

named_theorems blamed_intros \<open>steps whose failures are those of a writer\<close>

lemma blamed_skip [blamed_intros]: "blamed W skip"
  by (simp add: blamed_def skip_def)

lemma blamed_write [blamed_intros]: "(\<And>u. w \<noteq> WroteStatus u) \<Longrightarrow> blamed W (attempt_write W w)"
  by (auto simp: blamed_def attempt_write_def)

lemma blamed_observe [blamed_intros]: "blamed W (observe W p)"
  by (simp add: observe_def blamed_intros)

lemma blamed_status [blamed_intros]: "blamed W (writeStatusSafely W u)"
  by (simp add: blamed_def writeStatusSafely_def)

lemma blamed_steps [blamed_intros]: "list_all (blamed W) fs \<Longrightarrow> blamed W (steps fs)"
proof (induction fs)
  case (Cons f fs)
  then have f: "blamed W f" and fs: "blamed W (steps fs)" by simp_all
  show ?case
    unfolding blamed_def
  proof (intro allI impI)
    fix S r S'
    assume "steps (f # fs) S = (Some r, S')"
    then have "f S = (Some r, S') \<or> (\<exists>S1. f S = (None, S1) \<and> steps fs S1 = (Some r, S'))"
      by (auto split: prod.splits option.splits)
    with f fs show "\<exists>ws w. pj_writes S' = ws @ [w] \<and> wr_fails W (length ws) = Some r \<and>
        (\<forall>u. w \<noteq> WroteStatus u)"
      unfolding blamed_def by blast
  qed
qed (simp add: blamed_def)

lemma blamed_after: "blamed W f \<Longrightarrow> blamed W (\<lambda>S. f (g S))"
  unfolding blamed_def by blast

lemma blamed_event_steps:
  "list_all (blamed W) [session_step W e run, record_step e run, transcript_step W e run, ready_step W e run,
     observePolicyMetric W e run, status_step environment W e run]"
proof -
  have "blamed W (session_step W e run)"
    using blamed_observe [of W]
    by (auto simp: blamed_def session_step_def observeRuntimeSessionMetric_def Let_def split: option.splits if_splits)
  moreover have "blamed W (record_step e run)" by (simp add: blamed_def record_step_def Let_def)
  moreover have "blamed W (transcript_step W e run)" by (simp add: transcript_step_def blamed_intros)
  moreover have "blamed W (ready_step W e run)"
    using blamed_observe [of W]
    by (auto simp: blamed_def ready_step_def observeRuntimeHealthMetric_def Let_def split: if_splits)
  moreover have "blamed W (observePolicyMetric W e run)"
    by (simp add: observePolicyMetric_def blamed_intros split: option.split)
  moreover have "blamed W (status_step environment W e run)"
    using blamed_status [of W] by (auto simp: blamed_def status_step_def split: option.splits)
  ultimately show ?thesis by simp
qed

lemma blamed_terminal_steps: "list_all (blamed W) (terminal_steps W e run st)"
proof -
  have "list_all (blamed W) (map (observe W) ps)" for ps
    by (simp add: list_all_iff blamed_intros)
  then have "blamed W (observeTerminalMetrics W run a b c d n l)" for a b c d n l
    unfolding observeTerminalMetrics_def by (rule blamed_steps)
  then show ?thesis by (simp add: terminal_steps_def Let_def blamed_intros)
qed

text \<open>What steps leave alone: the completed attempts.\<close>

definition keeps_completed :: "step \<Rightarrow> bool" where
  "keeps_completed f \<longleftrightarrow> (\<forall>S. pj_completed (snd (f S)) = pj_completed S)"

lemma keeps_steps: "list_all keeps_completed fs \<Longrightarrow> keeps_completed (steps fs)"
proof (induction fs)
  case (Cons f fs)
  then have "pj_completed (snd (f S)) = pj_completed S" "pj_completed (snd (steps fs S)) = pj_completed S" for S
    by (simp_all add: keeps_completed_def)
  then show ?case by (auto simp: keeps_completed_def split: prod.split option.split) (metis snd_conv)+
qed (simp add: keeps_completed_def)

lemma keeps_primitives:
  "keeps_completed skip" "keeps_completed (attempt_write W w)" "keeps_completed (observe W p)"
  "keeps_completed (writeStatusSafely W u)"
  by (simp_all add: keeps_completed_def skip_def attempt_write_def observe_def writeStatusSafely_def)

lemma keeps_event_steps:
  "list_all keeps_completed [session_step W e run, record_step e run, transcript_step W e run,
     ready_step W e run, observePolicyMetric W e run, status_step environment W e run]"
proof -
  note keep = keeps_primitives [unfolded keeps_completed_def, rule_format]
  have put: "pj_completed (put_state k st S) = pj_completed S" for k st S by (simp add: put_state_def)
  show ?thesis
    by (simp add: keeps_completed_def session_step_def record_step_def transcript_step_def ready_step_def
        observePolicyMetric_def status_step_def observeRuntimeSessionMetric_def
        observeRuntimeHealthMetric_def keep put Let_def split: option.split)
qed

lemma keeps_terminal_steps: "list_all keeps_completed (terminal_steps W e run st)"
proof -
  have "list_all keeps_completed (map (observe W) ps)" for ps
    by (simp add: list_all_iff keeps_primitives)
  then have "keeps_completed (observeTerminalMetrics W run a b c d n l)" for a b c d n l
    unfolding observeTerminalMetrics_def by (rule keeps_steps)
  then show ?thesis by (simp add: terminal_steps_def Let_def keeps_primitives)
qed

lemma onEvent_completed [simp]: "pj_completed (snd (onEvent environment W e run S)) = pj_completed S"
  using keeps_steps [OF keeps_event_steps [of W e run environment]]
  by (simp add: onEvent_def keeps_completed_def stateFor_def put_state_def)

text \<open>The usage ledger an attempt's state holds.\<close>

definition ledger_at :: "string \<Rightarrow> projection \<Rightarrow> usage_ledger" where
  "ledger_at key S = (case map_of (pj_state S) key of None \<Rightarrow> [] | Some st \<Rightarrow> as_ledger st)"

definition same_ledger :: "string \<Rightarrow> step \<Rightarrow> bool" where
  "same_ledger key f \<longleftrightarrow> (\<forall>S. ledger_at key (snd (f S)) = ledger_at key S)"

lemma ledger_put [simp]:
  "ledger_at key (put_state k st S) = (if k = key then as_ledger st else ledger_at key S)"
  by (simp add: ledger_at_def put_state_def update_conv')

lemma state_of_ledger: "as_ledger (state_of e key S) = ledger_at key S"
  by (simp add: state_of_def ledger_at_def fresh_state_def split: option.split)

lemma same_primitives [simp]:
  "ledger_at key (snd (skip S)) = ledger_at key S"
  "ledger_at key (snd (attempt_write W w S)) = ledger_at key S"
  "ledger_at key (snd (observe W p S)) = ledger_at key S"
  "ledger_at key (snd (writeStatusSafely W u S)) = ledger_at key S"
  by (simp_all add: skip_def attempt_write_def observe_def writeStatusSafely_def ledger_at_def)

lemma same_event_steps:
  "ledger_at key (snd (session_step W e run S)) = ledger_at key S"
  "ledger_at key (snd (transcript_step W e run S)) = ledger_at key S"
  "ledger_at key (snd (ready_step W e run S)) = ledger_at key S"
  "ledger_at key (snd (observePolicyMetric W e run S)) = ledger_at key S"
  "ledger_at key (snd (status_step environment W e run S)) = ledger_at key S"
  by (auto simp: session_step_def transcript_step_def ready_step_def observePolicyMetric_def status_step_def
      observeRuntimeSessionMetric_def observeRuntimeHealthMetric_def state_of_ledger Let_def
      split: option.split)

lemma record_ledger:
  "ledger_at (attemptKey e run) (snd (record_step e run S)) =
     (if ev_kind e = ''usage''
      then ul_record (usage_of_payload (ev_payload e)) (ledger_at (attemptKey e run) S)
      else ledger_at (attemptKey e run) S)"
  by (simp add: record_step_def state_of_ledger Let_def split: option.split)

text \<open>Writers that never fail.\<close>

definition reliable :: "writers \<Rightarrow> bool" where
  "reliable W \<longleftrightarrow> (\<forall>n. wr_fails W n = None)"

lemma reliable_step: "reliable W \<Longrightarrow> blamed W f \<Longrightarrow> f S = (None, snd (f S))"
proof -
  assume W: "reliable W" and f: "blamed W f"
  have "fst (f S) = None"
  proof (cases "fst (f S)")
    case (Some r)
    then have "f S = (Some r, snd (f S))" by (simp add: prod_eq_iff)
    with f W show ?thesis unfolding blamed_def reliable_def by (metis option.distinct(1))
  qed
  then show ?thesis by (simp add: prod_eq_iff)
qed

lemma steps_None: "f S = (None, S') \<Longrightarrow> steps (f # fs) S = steps fs S'"
  by simp

lemma reliable_steps:
  "reliable W \<Longrightarrow> list_all (blamed W) fs \<Longrightarrow> steps fs S = (None, fold (\<lambda>f S. snd (f S)) fs S)"
proof (induction fs arbitrary: S)
  case (Cons f fs)
  then have f: "blamed W f" by simp
  have "steps (f # fs) S = steps fs (snd (f S))"
    by (rule steps_None [OF reliable_step [OF Cons.prems(1) f]])
  with Cons show ?case by simp
qed simp

lemma stateFor_ledger [simp]: "ledger_at key (stateFor e run S) = ledger_at key S"
  by (simp add: stateFor_def state_of_ledger)

lemma onEvent_ledger:
  assumes "reliable W" "attemptKey e run \<notin> set (pj_completed S)"
  shows "ledger_at (attemptKey e run) (snd (onEvent environment W e run S)) =
    (if ev_kind e = ''usage''
     then ul_record (usage_of_payload (ev_payload e)) (ledger_at (attemptKey e run) S)
     else ledger_at (attemptKey e run) S)"
  using assms(2)
  by (simp add: onEvent_def reliable_steps [OF assms(1) blamed_event_steps] same_event_steps record_ledger
      del: steps.simps)

section \<open>Whole attempts\<close>

definition usages_of :: "rehor_event list \<Rightarrow> usage list" where
  "usages_of es = map (\<lambda>e. usage_of_payload (ev_payload e)) (filter (\<lambda>e. ev_kind e = ''usage'') es)"

lemma usages_of_append [simp]: "usages_of (a @ b) = usages_of a @ usages_of b"
  by (simp add: usages_of_def)

lemma usages_of_Cons:
  "usages_of (e # es) = (if ev_kind e = ''usage'' then [usage_of_payload (ev_payload e)] else []) @ usages_of es"
  by (simp add: usages_of_def)

lemma project_one_reliable:
  assumes "reliable W" "\<not> is_terminal e"
  shows "project_one environment W run e S = (None, snd (onEvent environment W e run S))"
proof -
  have "fst (onEvent environment W e run S) = None"
    by (simp add: onEvent_def reliable_steps [OF assms(1) blamed_event_steps] del: steps.simps)
  then have "onEvent environment W e run S = (None, snd (onEvent environment W e run S))"
    by (simp add: prod_eq_iff)
  from steps_None [of "onEvent environment W e run", OF this] assms(2) show ?thesis
    by (simp add: project_one_def)
qed

lemma project_open:
  assumes "reliable W" "list_all (\<lambda>e. \<not> is_terminal e \<and> attemptKey e run = key) es" "key \<notin> set (pj_completed S)"
  shows "ledger_at key (project_all environment W run es S) = fold ul_record (usages_of es) (ledger_at key S) \<and>
    pj_completed (project_all environment W run es S) = pj_completed S"
  using assms(2,3)
proof (induction es arbitrary: S)
  case (Cons e es)
  let ?S = "snd (onEvent environment W e run S)"
  have "project_all environment W run (e # es) S = project_all environment W run es ?S"
    using Cons.prems(1) by (simp add: project_all_def project_one_reliable [OF assms(1)])
  moreover have "ledger_at key ?S = fold ul_record (usages_of [e]) (ledger_at key S)"
    using onEvent_ledger [OF assms(1), of e run S environment] Cons.prems by (auto simp: usages_of_def)
  moreover have "ledger_at key (project_all environment W run es ?S) = fold ul_record (usages_of es) (ledger_at key ?S) \<and>
      pj_completed (project_all environment W run es ?S) = pj_completed ?S"
    using Cons by simp
  ultimately show ?case
    by (simp add: usages_of_Cons [of e es] usages_of_def)
qed (simp add: project_all_def usages_of_def)

text \<open>Nothing written is taken back, and a reliable cost writer gets the terminal's record.\<close>

definition grows :: "step \<Rightarrow> bool" where
  "grows f \<longleftrightarrow> (\<forall>S. set (pj_writes S) \<subseteq> set (pj_writes (snd (f S))))"

lemma growsD: "grows f \<Longrightarrow> w \<in> set (pj_writes S) \<Longrightarrow> w \<in> set (pj_writes (snd (f S)))"
  unfolding grows_def by blast

lemma grows_primitives:
  "grows skip" "grows (attempt_write W w)" "grows (observe W p)" "grows (writeStatusSafely W u)"
  by (auto simp: grows_def skip_def attempt_write_def observe_def writeStatusSafely_def)

lemma grows_steps: "list_all grows fs \<Longrightarrow> grows (steps fs)"
proof (induction fs)
  case (Cons f fs)
  then have "set (pj_writes S) \<subseteq> set (pj_writes (snd (f S)))"
    "set (pj_writes S) \<subseteq> set (pj_writes (snd (steps fs S)))" for S
    by (simp_all add: grows_def)
  then show ?case
    unfolding grows_def by (auto split: prod.split option.split) (metis snd_conv subsetD)+
qed (simp add: grows_def)

lemma grows_metrics: "grows (observeTerminalMetrics W run a b c d n l)"
  unfolding observeTerminalMetrics_def by (rule grows_steps) (simp add: list_all_iff grows_primitives)

lemma cost_written:
  assumes W: "reliable W" "wr_costs W" and e: "is_terminal e" "attemptKey e run \<notin> set (pj_completed S)"
  shows "\<exists>C. WroteCost C \<in> set (pj_writes (snd (onTerminal W e run S))) \<and>
    cost_totals C = aggregateUsage (ledger_at (attemptKey e run) S) run"
proof -
  let ?st = "state_of e (attemptKey e run) S"
  let ?S0 = "stateFor e run S\<lparr>pj_completed := pj_completed (stateFor e run S) @ [attemptKey e run]\<rparr>"
  let ?fs = "terminal_steps W e run ?st"
  define C where "C = buildCostRecord run e ?st (terminal_context e) (aggregateUsage (as_ledger ?st) run)
    (obj_get (ev_payload e) ''noWork'' = JBool True) (str_of (obj_get (ev_payload e) ''state'') \<noteq> ''completed'')
    (num_or (elapsedMs (as_startedAt ?st) (ev_occurredAt e)) (obj_get (ev_payload e) ''durationMs''))"
  have fs: "?fs = [?fs ! 0, attempt_write W (WroteCost C), ?fs ! 2, ?fs ! 3]" and g: "grows (?fs ! 2)" "grows (?fs ! 3)"
    by (simp_all add: terminal_steps_def C_def Let_def W(2) grows_primitives grows_metrics)
  have C: "cost_totals C = aggregateUsage (ledger_at (attemptKey e run) S) run"
    by (simp add: C_def buildCostRecord_def state_of_ledger)
  let ?T = "snd (attempt_write W (WroteCost C) (snd ((?fs ! 0) ?S0)))"
  have "steps ?fs ?S0 = (None, snd ((?fs ! 3) (snd ((?fs ! 2) ?T))))"
    unfolding reliable_steps [OF W(1) blamed_terminal_steps] by (subst fs) simp
  then have "pj_writes (snd (onTerminal W e run S)) = pj_writes (snd ((?fs ! 3) (snd ((?fs ! 2) ?T))))"
    using e by (simp add: onTerminal_def assertTerminalEvent_def Let_def trimCompletedAttempts_def)
  moreover have "WroteCost C \<in> set (pj_writes ?T)" by (simp add: attempt_write_def)
  then have "WroteCost C \<in> set (pj_writes (snd ((?fs ! 3) (snd ((?fs ! 2) ?T)))))"
    by (intro growsD [OF g(2)] growsD [OF g(1)])
  ultimately have "WroteCost C \<in> set (pj_writes (snd (onTerminal W e run S)))" by (simp only:)
  with C show ?thesis by (intro exI [of _ C] conjI)
qed

end
