(* ===== verification/Projection_Properties.thy ===== *)
theory Projection_Properties
  imports Projection_Facts
begin

text \<open>
  What the compatibility records say: their costs are the ones the cost budget of the coordinator
  enforced, an attempt is recorded once, and which writer can make an event fail.
\<close>

section \<open>The budget has seen every projected usage\<close>

definition tallied :: "consumer \<Rightarrow> bool" where
  "tallied S \<longleftrightarrow>
     cb_ledger (co_budget S) = fold ul_record (usages_of (lg_receivedInOrder (co_ledger S))) []"

definition quiet_projection :: "attempt \<Rightarrow> bool" where
  "quiet_projection A \<longleftrightarrow> (\<forall>e. pp_onEvent (at_projection A) e = None)"

lemma usages_of_single: "usages_of [e] = (if ev_kind e = ''usage'' then [usage_of_payload (ev_payload e)] else [])"
  by (simp add: usages_of_def)

lemma observe_usage_ledger:
  assumes "observe_usage A run e S = (out, S')"
  shows "cb_ledger (co_budget S') = ul_record (usage_of_payload (ev_payload e)) (cb_ledger (co_budget S)) \<and>
    usages_of (lg_receivedInOrder (co_ledger S')) = usages_of (lg_receivedInOrder (co_ledger S))"
proof -
  obtain b pol where b: "cb_observe (co_budget S) (usage_of_payload (ev_payload e)) = (b, pol)" by fastforce
  have bl: "cb_ledger b = ul_record (usage_of_payload (ev_payload e)) (cb_ledger (co_budget S))"
    using cb_observe_frame(2) [of "co_budget S" "usage_of_payload (ev_payload e)"] by (simp add: b)
  have "co_budget S2 = b \<and> usages_of (lg_receivedInOrder (co_ledger S2)) = usages_of (lg_receivedInOrder (co_ledger S))"
    if "emitPolicy A run p e (S\<lparr>co_budget := b\<rparr>) = (f, S2)" for p f S2
    using that by (cases rule: emitPolicy_cases) (auto simp: usages_of_single)
  with assms b bl show ?thesis
    by (auto simp: observe_usage_def abort_now_def Let_def split: option.splits prod.splits if_splits)
qed

lemma tallied_event:
  assumes "consume_event A run raw S = (out, S')" "consumer_inv A run [] S" "quiet_projection A" "tallied S"
  shows "tallied S'"
  using assms(1,2)
proof (cases rule: consume_event_cases)
  case (accepted S3)
  have kind: "ev_kind (offered_event raw S) = ev_kind raw"
    by (simp add: offered_event_def sequenceAfterCoordinatorEvents_def enrichTerminal_def Let_def
        mapRuntimeTerminal_def)
  show ?thesis
  proof (cases "ev_kind raw = ''usage''")
    case False
    then have "S' = S3" using accepted(8) by auto
    with accepted(2,3) assms(4) False show ?thesis by (simp add: tallied_def usages_of_single kind)
  next
    case True
    have "pp_onEvent (at_projection A) (offered_event raw S) = None"
      using assms(3) by (simp add: quiet_projection_def)
    with accepted(8) True have "observe_usage A run (offered_event raw S) S3 = (out, S')" by auto
    from observe_usage_ledger [OF this] accepted(2,3) assms(4) True show ?thesis
      by (simp add: tallied_def usages_of_single kind)
  qed
qed (use assms(4) in \<open>auto simp: tallied_def\<close>)

lemma tallied_consume:
  "consume A run items S = Some (out, S') \<Longrightarrow> consumer_inv A run [] S \<Longrightarrow> quiet_projection A \<Longrightarrow>
     tallied S \<Longrightarrow> tallied S'"
proof (induction A run items S rule: consume.induct)
  case (2 A run item items S)
  show ?case
  proof (cases item)
    case (Yields e)
    obtain r S1 where c: "consume_event A run e S = (r, S1)" by fastforce
    have "consumer_inv A run [] S1" by (rule consume_event_inv [OF c "2.prems"(2)])
    moreover have "tallied S1" by (rule tallied_event [OF c "2.prems"(2,3,4)])
    ultimately show ?thesis using 2 Yields c by (cases r) (auto simp: Let_def)
  next
    case (Signals x)
    have "tallied (S\<lparr>co_signals := signal_step x (co_signals S)\<rparr>)"
      using "2.prems"(4) by (simp add: tallied_def)
    with 2 Signals show ?thesis by (simp add: Let_def consumer_inv_update)
  qed (use "2.prems" in \<open>auto simp: Let_def\<close>)
qed simp

lemma tallied_signals [simp]: "tallied (step_signals xs S) = tallied S"
  by (simp add: tallied_def step_signals_def)

lemma tallied_new: "tallied (new_consumer A run)"
  by (simp add: tallied_def new_consumer_def new_cost_budget_def usages_of_def)

lemma step_signals_Nil: "step_signals [] S = S"
  by (simp add: step_signals_def)

lemma step_signals_twice: "step_signals ys (step_signals xs S) = step_signals (xs @ ys) S"
  by (simp add: step_signals_def)

lemma run_phase_reaches:
  assumes "run_phase A run = Some (caps, f, S)"
  shows "\<exists>xs. S = step_signals xs (new_consumer A run) \<or>
    (\<exists>out. consume A run (at_script A) (step_signals xs (new_consumer A run)) = Some (out, S))"
proof -
  let ?S1 = "step_signals (at_startSignals A) (new_consumer A run)"
  let ?S2 = "step_signals (at_afterStart A) ?S1"
  have "S = new_consumer A run \<or> S = ?S1 \<or> S = ?S2 \<or> (\<exists>out. consume A run (at_script A) ?S2 = Some (out, S))"
    using assms unfolding run_phase_def Let_def
    by (auto split: option.splits sum.splits prod.splits if_splits)
  then show ?thesis unfolding step_signals_twice using step_signals_Nil by metis
qed

lemma tallied_run_phase:
  assumes "run_phase A run = Some (caps, f, S)" "quiet_projection A"
  shows "tallied S"
proof -
  have start: "tallied (step_signals xs (new_consumer A run))" "consumer_inv A run [] (step_signals xs (new_consumer A run))" for xs
    by (simp_all add: tallied_new step_signals_inv new_consumer_inv)
  obtain xs where "S = step_signals xs (new_consumer A run) \<or>
      (\<exists>out. consume A run (at_script A) (step_signals xs (new_consumer A run)) = Some (out, S))"
    using run_phase_reaches [OF assms(1)] by blast
  then show ?thesis
  proof (elim disjE exE)
    fix out
    assume "consume A run (at_script A) (step_signals xs (new_consumer A run)) = Some (out, S)"
    then show ?thesis by (rule tallied_consume [OF _ start(2) assms(2) start(1)])
  qed (simp add: tallied_new)
qed

lemma tallied_settle: "settle_phase A f S = (f', S') \<Longrightarrow> tallied S \<Longrightarrow> tallied S'"
  using settle_phase_frame [of A f S f' S'] by (simp add: tallied_def)

lemma close_budget: "close_ledger A run f S = Inr (g, S') \<Longrightarrow> co_budget S' = co_budget S"
proof (cases "lg_acceptedTerminalEvent (co_ledger S)")
  case None
  assume c: "close_ledger A run f S = Inr (g, S')"
  obtain e W where en: "enrichTerminal (createTerminalEvent run (nextSequence (lg_receivedInOrder (co_ledger S)))
      (terminalState (cs_cause (co_signals S))) (terminalReason (cs_cause (co_signals S)) f)
      (duration_ms (at_terminalElapsed A)) (at_terminalNow A)) (co_workContext S) = (e, W)"
    by fastforce
  obtain L h S2 where "projectEvent A e (S\<lparr>co_workContext := W, co_ledger := L\<rparr>) = (h, S2)" "S' = S2"
    using c None en by (simp add: close_ledger_def Let_def split: sum.splits prod.splits option.splits)
  then show ?thesis using project_frame [of A e _ h S2] by simp
qed (simp add: close_ledger_def)

lemma finish_budget:
  assumes "finish_phase A run caps f S = Inr (R, S')"
  shows "co_budget S' = co_budget S"
proof -
  obtain g S1 where "close_ledger A run f S = Inr (g, S1)" "S' = S1"
    using assms unfolding finish_phase_def
    by (cases "close_ledger A run f S") (auto simp: Let_def split: sum.splits)
  then show ?thesis using close_budget by simp
qed

lemma result_tallied:
  assumes "executeRunWithValidatedInput A run = Some (Inr (R, S))" "quiet_projection A"
  shows "cb_ledger (co_budget S) = fold ul_record (usages_of (cr_events R)) []"
proof -
  obtain caps f S0 f' S1 where ph: "run_phase A run = Some (caps, f, S0)" "settle_phase A f S0 = (f', S1)"
    "Inr (R, S) = finish_phase A run caps f' S1" "consumer_inv A run [] S1"
    using executeRun_phases [OF assms(1)] by metis
  have t: "tallied S1" by (rule tallied_settle [OF ph(2) tallied_run_phase [OF ph(1) assms(2)]])
  from ph(3) [symmetric] ph(4) show ?thesis
  proof (cases rule: finish_phase_cases)
    case runtime
    with t finish_budget [OF ph(3) [symmetric]] show ?thesis by (simp add: tallied_def)
  next
    case coordinator
    then have "ev_kind (cr_terminal R) \<noteq> ''usage''" by (simp add: is_terminal_def)
    with coordinator t finish_budget [OF ph(3) [symmetric]] show ?thesis
      by (simp add: tallied_def usages_of_single)
  qed
qed

section \<open>Properties\<close>

lemma totalCostUsd_sum: "totalCostUsd L = sum_list (map known_amount (map snd L))"
  by (induction L) (auto simp: totalCostUsd_def)

lemma aggregate_cost: "ut_costUsd (aggregateUsage L run) = totalCostUsd L"
proof -
  have "ut_costUsd (sm_totals no_sums) = 0" by (simp add: no_sums_def)
  then show ?thesis unfolding totalCostUsd_sum by (simp add: aggregateUsage_def Let_def sums_costs)
qed

text \<open>
  The totals that cost records, cycle-run records and metrics report are those of the usage
  ledger: the cost is exactly the ledger's total, its status is unknown exactly when no entry has a
  known cost, it counts as complete exactly when every entry has a known cost and is itself
  complete, and the four token totals are the sums of the per-model entries, whose models are
  distinct.
\<close>

theorem totals_match_ledger:
  "let T = aggregateUsage L run
   in totals_inv T \<and> ut_costUsd T = totalCostUsd L \<and>
      (ut_costStatus T = CostUnknown) = (\<not> hasKnownCost L) \<and>
      (\<not> ut_costIncomplete T) =
        (hasKnownCost L \<and> list_all (\<lambda>(_, u). has_known_cost u \<and> \<not> us_incomplete u) L)"
proof -
  have known: "hasKnownCost L = list_ex has_known_cost (map snd L)"
    by (induction L) (auto simp: hasKnownCost_def)
  have all: "list_all (\<lambda>(_, u). has_known_cost u \<and> \<not> us_incomplete u) L =
      (\<not> list_ex (\<lambda>u. us_incomplete u \<or> \<not> has_known_cost u) (map snd L))"
    by (induction L) auto
  have "totals_inv (sm_totals (fold add_usage (map snd L) no_sums))"
    by (rule sums_totals [OF no_sums_inv])
  moreover have "ut_costUsd (sm_totals no_sums) = 0" "\<not> sm_hasCost no_sums" "\<not> sm_incomplete no_sums"
    by (simp_all add: no_sums_def)
  ultimately show ?thesis
    unfolding known all aggregate_cost Let_def
    by (simp add: aggregateUsage_def Let_def sums_costs totals_inv_def)
qed

lemma blamed_project: "project_one environment W run e S = (Some r, S') \<Longrightarrow>
    \<exists>ws w. pj_writes S' = ws @ [w] \<and> wr_fails W (length ws) = Some r \<and> (\<forall>u. w \<noteq> WroteStatus u)"
proof -
  have ev: "blamed W (onEvent environment W e run)"
    using blamed_steps [OF blamed_event_steps [of W e run environment]]
    by (simp add: blamed_def onEvent_def del: steps.simps)
  have te: "blamed W (onTerminal W e run)" if "is_terminal e"
  proof -
    have b: "blamed W (steps (terminal_steps W e run st))" for st
      by (rule blamed_steps [OF blamed_terminal_steps])
    show ?thesis
      unfolding blamed_def
    proof (intro allI impI)
      fix S r S'
      assume a: "onTerminal W e run S = (Some r, S')"
      then have "attemptKey e run \<notin> set (pj_completed S)" by (auto simp: onTerminal_def Let_def)
      with a that obtain st S2 S3 where st: "steps (terminal_steps W e run st) S2 = (Some r, S3)"
        "pj_writes S' = pj_writes S3"
        by (simp add: onTerminal_def assertTerminalEvent_def Let_def trimCompletedAttempts_def
            split: prod.splits) fastforce
      with b [of st] show "\<exists>ws w. pj_writes S' = ws @ [w] \<and> wr_fails W (length ws) = Some r \<and>
          (\<forall>u. w \<noteq> WroteStatus u)"
        unfolding blamed_def by metis
    qed
  qed
  have "blamed W (project_one environment W run e)"
    unfolding project_one_def using ev te by (intro blamed_steps) simp
  then show "project_one environment W run e S = (Some r, S') \<Longrightarrow> ?thesis" unfolding blamed_def by blast
qed

text \<open>
  When projecting an event fails, the failure is that of a writer, namely of the write it
  attempted last, and the writer is never the status writer, whose failures are ignored.
\<close>

theorem projection_failure_blamed:
  assumes "project_one environment W run e S = (Some r, S')"
  shows "\<exists>ws w. pj_writes S' = ws @ [w] \<and> wr_fails W (length ws) = Some r \<and> (\<forall>u. w \<noteq> WroteStatus u)"
  by (rule blamed_project [OF assms])

definition full_disk :: writers where
  "full_disk =
     \<lparr>wr_status = True, wr_costs = True, wr_cycleRuns = True, wr_transcripts = True, wr_metrics = True,
      wr_fails = (\<lambda>n. if n = 1 then Some (RText ''no space left'') else None)\<rparr>"

lemma full_disk_fails:
  "project_one [] full_disk triage_run (sample_event ''e'' 1 ''run'' []) new_projection =
     (Some (RText ''no space left''),
      snd (project_one [] full_disk triage_run (sample_event ''e'' 1 ''run'' []) new_projection))"
  by (simp add: project_one_def onEvent_def new_projection_def session_step_def record_step_def
      transcript_step_def ready_step_def observeRuntimeHealthMetric_def observe_def attempt_write_def
      full_disk_def sample_event_def nonempty_def is_terminal_def stateFor_def put_state_def
      state_of_def fresh_state_def attemptKey_def Let_def)

theorem projection_failure_blamed_witness:
  "\<exists>S' ws w. project_one [] full_disk triage_run (sample_event ''e'' 1 ''run'' []) new_projection =
       (Some (RText ''no space left''), S') \<and>
     pj_writes S' = ws @ [w] \<and> length ws = 1 \<and> (\<forall>u. w \<noteq> WroteStatus u)"
proof -
  obtain ws w where "pj_writes (snd (project_one [] full_disk triage_run
        (sample_event ''e'' 1 ''run'' []) new_projection)) = ws @ [w]"
    "wr_fails full_disk (length ws) = Some (RText ''no space left'')" "\<forall>u. w \<noteq> WroteStatus u"
    using projection_failure_blamed [OF full_disk_fails] by blast
  with full_disk_fails show ?thesis by (auto simp: full_disk_def split: if_splits)
qed

lemma keeps_terminal: "pj_completed (snd (steps (terminal_steps W e run st) S)) = pj_completed S"
  using keeps_steps [OF keeps_terminal_steps] by (simp add: keeps_completed_def)

text \<open>
  C9. Handling the terminal of an open attempt, whether or not its writers fail, completes the
  attempt and forgets its state, and at most 1024 completed attempts are remembered. Every later
  event and terminal of the attempt is ignored, so nothing of it is written a second time.
\<close>

theorem attempt_recorded_once:
  assumes "is_terminal e" "attemptKey e run \<notin> set (pj_completed S)" "length (pj_completed S) \<le> 1024"
    and "attemptKey e' run' = attemptKey e run"
  shows "let S' = snd (onTerminal W e run S)
    in length (pj_completed S') \<le> 1024 \<and> map_of (pj_state S') (attemptKey e run) = None \<and>
       onEvent environment W' e' run' S' = (None, S') \<and> onTerminal W' e' run' S' = (None, S')"
proof -
  let ?k = "attemptKey e run"
  obtain out S3 where st: "steps (terminal_steps W e run (state_of e ?k S))
      (stateFor e run S\<lparr>pj_completed := pj_completed (stateFor e run S) @ [?k]\<rparr>) = (out, S3)"
    by fastforce
  have "pj_completed (stateFor e run S) = pj_completed S" by (simp add: stateFor_def put_state_def)
  with keeps_terminal [of W e run "state_of e ?k S"] st have done': "pj_completed S3 = pj_completed S @ [?k]"
    by (metis projection.select_convs(2) projection.surjective projection.update_convs(2) snd_conv)
  have S': "snd (onTerminal W e run S) =
      trimCompletedAttempts (S3\<lparr>pj_state := AList.delete ?k (pj_state S3)\<rparr>)"
    using assms(1,2) st by (simp add: onTerminal_def assertTerminalEvent_def Let_def)
  have "?k \<in> set (pj_completed (snd (onTerminal W e run S)))"
    "length (pj_completed (snd (onTerminal W e run S))) \<le> 1024"
    using assms(3) by (simp_all add: S' trimCompletedAttempts_def done')
  moreover have "map_of (pj_state (snd (onTerminal W e run S))) ?k = None"
    by (simp add: S' trimCompletedAttempts_def delete_conv')
  ultimately show ?thesis by (simp add: Let_def onEvent_def onTerminal_def assms(4))
qed

theorem attempt_recorded_once_witness:
  "let S' = snd (onTerminal full_disk failed_terminal triage_run new_projection)
   in onEvent [] full_disk (sample_event ''e'' 1 ''run'' []) triage_run S' = (None, S') \<and>
      map_of (pj_state S') ''run:attempt'' = None"
proof -
  have key: "attemptKey (sample_event i n k p) triage_run = ''run:attempt''" for i n k p
    by (simp add: attemptKey_def sample_event_def triage_run_def sample_run_def)
  have "is_terminal failed_terminal" by (simp add: failed_terminal_def is_terminal_def sample_event_def)
  from attempt_recorded_once [OF this, of triage_run new_projection "sample_event ''e'' 1 ''run'' []" triage_run
      full_disk "[]" full_disk]
  show ?thesis by (simp add: key failed_terminal_def new_projection_def Let_def)
qed


definition working_writers :: writers where
  "working_writers = full_disk\<lparr>wr_fails := (\<lambda>_. None)\<rparr>"

lemma ended_events:
  assumes "executeRunWithValidatedInput (sample_attempt [Ends]) triage_run = Some (Inr (R, S))"
  shows "cr_events R = [] @ [cr_terminal R]"
proof -
  obtain caps f S0 f' S1 where ph: "run_phase (sample_attempt [Ends]) triage_run = Some (caps, f, S0)"
    "settle_phase (sample_attempt [Ends]) f S0 = (f', S1)"
    "Inr (R, S) = finish_phase (sample_attempt [Ends]) triage_run caps f' S1"
    "consumer_inv (sample_attempt [Ends]) triage_run [] S1"
    using executeRun_phases [OF assms] by metis
  have "S0 = new_consumer (sample_attempt [Ends]) triage_run" using ph(1) by (simp add: ended_run_phase)
  with settle_phase_frame [OF ph(2)] have "co_ledger S1 = new_ledger triage_run"
    by (simp add: new_sample_consumer)
  with ph(3) [symmetric] ph(4) show ?thesis
    by (cases rule: finish_phase_cases) (simp_all add: new_ledger_def)
qed


end
