(* ===== verification/Runtime_Shared.thy ===== *)
theory Runtime_Shared
  imports Usage_Budget Work_Context Js_Regex
begin

text \<open>
  What the runtime adapters share: \<open>coordinator/src/runtimes/shared.ts\<close> (redaction of credentials,
  stable JSON, readers of unknown values, terminal payloads, texts of abort reasons) and
  \<open>coordinator/src/runtimes/opencode/pricing.ts\<close> (the price of a message's tokens). The price catalog
  is a JSON file and a parameter here.
\<close>

section \<open>Readers\<close>

text \<open>\<open>stringValue(value, fallback)\<close>, \<open>stringValue(value)\<close>, \<open>numberValue\<close>; \<open>asObject\<close> and \<open>record\<close> are
  \<open>as_record\<close> and \<open>obj_of\<close>.\<close>

definition stringValue_or :: "jsval \<Rightarrow> string \<Rightarrow> string" where
  "stringValue_or v fallback = (case as_string v of None \<Rightarrow> fallback | Some s \<Rightarrow> s)"

definition nonemptyString :: "jsval \<Rightarrow> string option" where
  "nonemptyString v = (if v = JStr [] then None else as_string v)"

fun numberValue :: "jsval \<Rightarrow> rat option" where
  "numberValue (JNum (Fin r)) = Some r"
| "numberValue _ = None"

definition nullish_or :: "jsval \<Rightarrow> jsval \<Rightarrow> jsval" where
  "nullish_or a b = (if nullish a then b else a)"

text \<open>
  \<open>String(value)\<close>. A number prints in positional notation with at most twenty digits after the
  point, which is the language's text for the magnitudes from \<open>1e-6\<close> to \<open>1e21\<close>.
\<close>

fun fraction_digits :: "nat \<Rightarrow> rat \<Rightarrow> string" where
  "fraction_digits 0 r = []"
| "fraction_digits (Suc n) r =
     (if r = 0 then []
      else (let d = \<lfloor>r * 10\<rfloor> in char_of (48 + nat d) # fraction_digits n (r * 10 - of_int d)))"

definition number_text :: "rat \<Rightarrow> string" where
  "number_text r =
     (let a = \<bar>r\<bar>; whole = show_nat (nat \<lfloor>a\<rfloor>)
      in (if r < 0 then ''-'' else []) @ whole @
         (if is_integer a then [] else ''.'' @ fraction_digits 20 (a - of_int \<lfloor>a\<rfloor>)))"

fun join_text :: "string \<Rightarrow> string list \<Rightarrow> string" where
  "join_text sep [] = []"
| "join_text sep [s] = s"
| "join_text sep (s # t # ss) = s @ sep @ join_text sep (t # ss)"

fun js_text :: "jsval \<Rightarrow> string" where
  "js_text Undef = ''undefined''"
| "js_text JNull = ''null''"
| "js_text (JBool b) = (if b then ''true'' else ''false'')"
| "js_text (JNum n) =
     (case n of Fin r \<Rightarrow> number_text r | PosInf \<Rightarrow> ''Infinity'' | NegInf \<Rightarrow> ''-Infinity'' | NaN \<Rightarrow> ''NaN'')"
| "js_text (JStr s) = s"
| "js_text (JArr vs) = join_text '','' (map (\<lambda>v. if nullish v then [] else js_text v) vs)"
| "js_text (JObj ob) = ''[object Object]''"

text \<open>
  \<open>a === b\<close> for values read from different objects: arrays and objects are then never the same.
\<close>

fun strict_eq :: "jsval \<Rightarrow> jsval \<Rightarrow> bool" where
  "strict_eq (JNum NaN) _ = False"
| "strict_eq (JArr _) _ = False"
| "strict_eq (JObj _) _ = False"
| "strict_eq a b = (a = b)"

text \<open>
  \<open>stableJson\<close>: entries in key order without the undefined ones, and null for an undefined value.
  The text is represented by the tree it prints, as in \<open>canonicalJson\<close>.
\<close>

definition stableJson :: "jsval \<Rightarrow> jsval" where
  "stableJson v = (let t = canonicalJson v in if t = Undef then JNull else t)"

text \<open>\<open>set.add(x)\<close>\<close>

definition set_add :: "'a \<Rightarrow> 'a list \<Rightarrow> 'a list" where
  "set_add x xs = (if x \<in> set xs then xs else xs @ [x])"

section \<open>Redaction\<close>

definition is_word_char :: "char \<Rightarrow> bool" where
  "is_word_char c \<longleftrightarrow> alnum_or ''_'' c"

text \<open>
  \<open>text.replace(/\b.../g, f)\<close> for a pattern whose matches start with a word character: no match
  starts right after one. The flag says whether the previous character is a word character.
\<close>

fun replace_word_from :: "nat \<Rightarrow> bool \<Rightarrow> rx \<Rightarrow> (rx_result \<Rightarrow> string) \<Rightarrow> string \<Rightarrow> string" where
  "replace_word_from 0 inside r f s = s"
| "replace_word_from (Suc n) inside r f s =
     (case s of
        [] \<Rightarrow> []
      | c # cs \<Rightarrow>
          (case (if inside then None else rx_first r s) of
             Some m \<Rightarrow>
               if rx_matched m = [] then c # replace_word_from n (is_word_char c) r f cs
               else f m @ replace_word_from n (is_word_char (last (rx_matched m))) r f (rx_rest m)
           | None \<Rightarrow> c # replace_word_from n (is_word_char c) r f cs))"

definition replace_words :: "rx \<Rightarrow> (rx_result \<Rightarrow> string) \<Rightarrow> string \<Rightarrow> string" where
  "replace_words r f s = replace_word_from (Suc (length s)) False r f s"

definition some_space :: rx where
  "some_space = Rep is_space 1 True"

definition any_space :: rx where
  "any_space = Rep is_space 0 True"

definition header_rx :: rx where
  "header_rx =
     seq [Cap 1 (seq [alts [ilit ''authorization'', ilit ''proxy-authorization''], any_space, lit '':'',
                      any_space, alts [ilit ''bearer'', ilit ''basic''], some_space]),
          Rep (\<lambda>c. \<not> is_space c \<and> c \<notin> set '',;'') 1 True]"

definition bearer_word_rx :: rx where
  "bearer_word_rx =
     seq [Cap 1 (seq [ilit ''bearer'', some_space]), Rep (\<lambda>c. \<not> is_space c \<and> c \<notin> set '',;'') 1 True]"

definition url_user_rx :: rx where
  "url_user_rx =
     seq [Cap 1 (seq [ilit ''http'', opt (ilit ''s''), lit ''://'']),
          Rep (\<lambda>c. c \<noteq> CHR ''/'' \<and> \<not> is_space c \<and> c \<noteq> CHR ''@'') 1 True, lit ''@'']"

definition dash_rx :: rx where
  "dash_rx = opt (Cls (\<lambda>c. c \<in> set ''-_''))"

definition query_rx :: rx where
  "query_rx =
     seq [Cap 1 (seq [Cls (\<lambda>c. c \<in> set ''?&''),
            alts [seq [ilit ''api'', dash_rx, ilit ''key''], seq [ilit ''access'', dash_rx, ilit ''token''],
                  ilit ''authorization'', ilit ''password'', ilit ''secret'', ilit ''token''],
            lit ''='']),
          Rep (\<lambda>c. c \<noteq> CHR ''&'' \<and> c \<noteq> CHR ''#'' \<and> \<not> is_space c) 1 True]"

definition quote_rx :: rx where
  "quote_rx = opt (Cls (\<lambda>c. c = CHR 0x22 \<or> c = CHR 0x27))"

definition secret_assignment_rx :: rx where
  "secret_assignment_rx =
     seq [Cap 1 (seq [quote_rx,
            alts [seq [ilit ''api'', dash_rx, ilit ''key''], seq [ilit ''access'', dash_rx, ilit ''token''],
                  seq [ilit ''auth'', opt (ilit ''orization'')],
                  ilit ''password'', ilit ''secret'', ilit ''token''],
            quote_rx, any_space, Cls (\<lambda>c. c \<in> set '':=''), any_space, quote_rx]),
          Rep (\<lambda>c. c \<noteq> CHR 0x22 \<and> c \<noteq> CHR 0x27 \<and> c \<noteq> CHR '','' \<and> \<not> is_space c \<and> c \<noteq> CHR ''}'' \<and>
                   c \<noteq> CHR ''&'') 1 True]"

text \<open>
  \<open>[A-Za-z0-9_-]{8,}\b\<close>: the last character is a word character not followed by one, or a dash that
  is followed by one.
\<close>

definition key_rx :: rx where
  "key_rx =
     seq [alts [lit ''sk'', lit ''rk'', lit ''pk''], lit ''-'', Rep (alnum_or ''_-'') 7 True,
          Alt (seq [Cls is_word_char, Ahead (\<lambda>c. \<not> (case c of None \<Rightarrow> False | Some x \<Rightarrow> is_word_char x))])
              (seq [lit ''-'', Ahead (\<lambda>c. case c of None \<Rightarrow> False | Some x \<Rightarrow> is_word_char x)])]"

definition redacted :: string where
  "redacted = ''[REDACTED]''"

definition redactSensitiveText :: "string \<Rightarrow> string" where
  "redactSensitiveText value =
     (let keep = (\<lambda>m. group 1 m @ redacted)
      in replace_words key_rx (\<lambda>_. redacted)
        (replace_all secret_assignment_rx keep
          (replace_all query_rx keep
            (replace_all url_user_rx (\<lambda>m. group 1 m @ redacted @ ''@'')
              (replace_words bearer_word_rx keep
                (replace_all header_rx keep value))))))"

section \<open>Terminal payloads\<close>

definition buildTerminalPayload ::
    "string \<Rightarrow> string option \<Rightarrow> string option \<Rightarrow> nat \<Rightarrow> rat \<Rightarrow> bool \<Rightarrow> obj" where
  "buildTerminalPayload state reason result turns durationMs resourceLeak =
     [(''state'', JStr state)] @
     (case reason of None \<Rightarrow> [] | Some r \<Rightarrow> if r = [] then [] else [(''reason'', JStr r)]) @
     (case result of None \<Rightarrow> [] | Some r \<Rightarrow> if r = [] then [] else [(''resultText'', JStr r)]) @
     [(''turns'', JNum (Fin (of_nat turns))), (''durationMs'', JNum (Fin durationMs))] @
     (if resourceLeak then [(''resourceLeak'', JBool True)] else [])"

section \<open>Pricing\<close>

record rates =
  rt_input :: rat
  rt_output :: rat
  rt_cacheRead :: rat
  rt_cacheWrite :: rat

record price_tier =
  pt_rates :: rates
  pt_type :: string
  pt_size :: rat

record model_pricing =
  pr_rates :: rates
  pr_tiers :: "price_tier list option"
  pr_over200K :: "rates option"

text \<open>\<open>Required<TokenCounts>\<close>\<close>

record native_tokens =
  nt_input :: nat
  nt_output :: nat
  nt_reasoning :: nat
  nt_cacheRead :: nat
  nt_cacheWrite :: nat

definition provider_aliases :: "(string \<times> string) list" where
  "provider_aliases =
     [(''rehor-openai'', ''openai''), (''rehor-openai-chat'', ''openai''),
      (''vertex'', ''google-vertex-anthropic'')]"

definition vertex_aliases :: "(string \<times> string) list" where
  "vertex_aliases =
     [(''claude-haiku-4-5'', ''claude-haiku-4-5@20251001''), (''claude-opus-4-6'', ''claude-opus-4-6@default''),
      (''claude-sonnet-4-6'', ''claude-sonnet-4-6@default'')]"

definition aliased :: "(string \<times> string) list \<Rightarrow> string \<Rightarrow> string" where
  "aliased table s = (case map_of table s of None \<Rightarrow> s | Some t \<Rightarrow> t)"

definition pricingModel :: "string \<Rightarrow> string" where
  "pricingModel model =
     (if CHR ''/'' \<notin> set model then model
      else (let canonical = aliased provider_aliases (takeWhile (\<lambda>c. c \<noteq> CHR ''/'') model);
                id = tl (dropWhile (\<lambda>c. c \<noteq> CHR ''/'') model)
            in canonical @ ''/'' @
               (if canonical = ''google-vertex-anthropic'' then aliased vertex_aliases id else id)))"

definition context_tokens :: "native_tokens \<Rightarrow> nat" where
  "context_tokens t = nt_input t + nt_cacheRead t + nt_cacheWrite t"

definition tier_rates :: "model_pricing \<Rightarrow> nat \<Rightarrow> rates" where
  "tier_rates price context =
     (case pr_tiers price of
        Some tiers \<Rightarrow>
          (case sort_key (\<lambda>t. - pt_size t)
                  (filter (\<lambda>t. pt_type t = ''context'' \<and> pt_size t < of_nat context) tiers) of
             [] \<Rightarrow> pr_rates price
           | t # _ \<Rightarrow> pt_rates t)
      | None \<Rightarrow>
          if 200000 < context
          then (case pr_over200K price of None \<Rightarrow> pr_rates price | Some r \<Rightarrow> r) else pr_rates price)"

definition priceTokens :: "native_tokens \<Rightarrow> model_pricing \<Rightarrow> rat" where
  "priceTokens t price =
     (let r = tier_rates price (context_tokens t)
      in (of_nat (nt_input t) * rt_input r + of_nat (nt_output t + nt_reasoning t) * rt_output r +
          of_nat (nt_cacheRead t) * rt_cacheRead r + of_nat (nt_cacheWrite t) * rt_cacheWrite r) / 1000000)"

definition estimated_cost :: "rat \<Rightarrow> string \<Rightarrow> usage_cost" where
  "estimated_cost amount pricing =
     \<lparr>uc_amount = amount, uc_currency = ''USD'', uc_source = EstimatedCost, uc_pricing = Some pricing\<rparr>"

definition fallback_cost ::
    "(string \<Rightarrow> model_pricing option) \<Rightarrow> string \<Rightarrow> native_tokens option \<Rightarrow> usage_cost option" where
  "fallback_cost catalog model tokens =
     (case tokens of
        None \<Rightarrow> None
      | Some t \<Rightarrow>
          map_option (\<lambda>price. estimated_cost (priceTokens t price) ''opencode/fallback-catalog'')
            (catalog (pricingModel model)))"

definition usageCost ::
    "(string \<Rightarrow> model_pricing option) \<Rightarrow> string \<Rightarrow> native_tokens option \<Rightarrow> jsval \<Rightarrow> usage_cost option" where
  "usageCost catalog model tokens native =
     (case numberValue native of
        Some r \<Rightarrow>
          if 0 < r then Some (estimated_cost r ''opencode/2.1.2:native-catalog'')
          else fallback_cost catalog model tokens
      | None \<Rightarrow> fallback_cost catalog model tokens)"

end
