(* ===== verification/Normalizer.thy ===== *)
theory Normalizer
  imports Runtime_Shared
begin

text \<open>
  \<open>coordinator/src/runtimes/opencode/normalizer.ts\<close>: from the events and messages of the OpenCode
  server to normalized run events. The state is the \<open>NormalizationContext\<close> together with the event
  factory every function is given; a function returns what it emits and the new state. Maps are
  association lists and sets are lists without repetition, both in insertion order.
\<close>

section \<open>Data\<close>

record oc_event =
  oe_id :: string
  oe_type :: string
  oe_created :: rat
  oe_data :: jsval

record normalized_events =
  nv_events :: "rehor_event list"
  nv_outcome :: "terminal_state option"
  nv_reason :: "string option"
  nv_resultText :: "string option"
  nv_turns :: nat

record normalize_options =
  no_suppressModel :: bool
  no_usageOnly :: bool
  no_streamed :: bool

record usage_snapshot =
  sp_sessionID :: string
  sp_messageID :: string
  sp_requestedModel :: string
  sp_bucketModel :: string
  sp_returnedModel :: "string option"
  sp_tokenCounts :: native_tokens
  sp_completed :: bool
  sp_valid :: bool
  sp_cost :: "usage_cost option"

record code_mode_state =
  cm_native :: "(nat \<times> obj) list"
  cm_bridge :: "(string \<times> obj) list"
  cm_nativeIds :: "(nat \<times> string) list"
  cm_bridgeIds :: "(string \<times> string) list"

record nested_tool =
  nn_parentEventId :: "string option"
  nn_workContextAvailable :: bool
  nn_nativeOrdinal :: "nat option"
  nn_bridgeId :: "string option"

text \<open>What a part showed last: the text of a text part, or the signature of a tool.\<close>

datatype part_snapshot = TextPart string | ToolPart jsval

datatype tool_phase = ToolStarted | ToolCompleted

record normalization =
  nz_rootSessionId :: string
  nz_requestedModel :: string
  nz_resultTextParts :: "(string \<times> string) list"
  nz_messageRoles :: "(string \<times> string) list"
  nz_countedMessages :: "string list"
  nz_completedMessages :: "string list"
  nz_seenMessages :: "string list"
  nz_seenParts :: "string list"
  nz_sessionIds :: "string list"
  nz_announcedSessions :: "string list"
  nz_toolPhases :: "(string \<times> tool_phase) list"
  nz_modelEventIds :: "(string \<times> string) list"
  nz_usageSnapshots :: "(string \<times> usage_snapshot) list"
  nz_retiredBuckets :: "(string \<times> usage_snapshot) list"
  nz_messages :: "(string \<times> obj) list"
  nz_sessionParents :: "(string \<times> string) list"
  nz_seenEvents :: "string list"
  nz_partSnapshots :: "(string \<times> part_snapshot) list"
  nz_tools :: "(string \<times> obj) list"
  nz_toolEventIds :: "(string \<times> string) list"
  nz_codeMode :: "(string \<times> code_mode_state) list"
  nz_recoveryIncomplete :: bool
  nz_activeCompactions :: "(string \<times> string) list"
  nz_unmatchedCompactions :: "string list"
  nz_rootAssistantError :: "string option"
  nz_rootSessionError :: "string option"
  nz_rootExecutionOutcome :: "terminal_state option"
  nz_rootExecutionReason :: "string option"
  nz_rootExecutionStartedAt :: "rat option"
  nz_factory :: event_factory
  nz_drawn :: nat

definition createNormalizationContext :: "string \<Rightarrow> string \<Rightarrow> event_factory \<Rightarrow> normalization" where
  "createNormalizationContext rootSessionId requestedModel factory =
     \<lparr>nz_rootSessionId = rootSessionId, nz_requestedModel = requestedModel, nz_resultTextParts = [],
      nz_messageRoles = [], nz_countedMessages = [], nz_completedMessages = [], nz_seenMessages = [],
      nz_seenParts = [], nz_sessionIds = [rootSessionId], nz_announcedSessions = [], nz_toolPhases = [],
      nz_modelEventIds = [], nz_usageSnapshots = [], nz_retiredBuckets = [], nz_messages = [],
      nz_sessionParents = [], nz_seenEvents = [], nz_partSnapshots = [], nz_tools = [],
      nz_toolEventIds = [], nz_codeMode = [], nz_recoveryIncomplete = False, nz_activeCompactions = [],
      nz_unmatchedCompactions = [], nz_rootAssistantError = None, nz_rootSessionError = None,
      nz_rootExecutionOutcome = None, nz_rootExecutionReason = None, nz_rootExecutionStartedAt = None,
      nz_factory = factory, nz_drawn = 0\<rparr>"

text \<open>The environment: random ids, the clock and the price catalog.\<close>

record norm_env =
  ne_uuid :: "nat \<Rightarrow> string"
  ne_now :: "nat \<Rightarrow> string"
  ne_catalog :: "string \<Rightarrow> model_pricing option"

text \<open>\<open>factory(kind, payload, overrides)\<close>\<close>

definition emit :: "norm_env \<Rightarrow> string \<Rightarrow> obj \<Rightarrow> event_overrides \<Rightarrow> normalization \<Rightarrow> rehor_event \<times> normalization" where
  "emit E kind payload ov N =
     (let (e, f) = createEvent (nz_factory N) (ne_uuid E (nz_drawn N)) (ne_now E (nz_drawn N)) kind payload ov
      in (e, N\<lparr>nz_factory := f, nz_drawn := Suc (nz_drawn N)\<rparr>))"

definition session_override :: "string \<Rightarrow> event_overrides" where
  "session_override sessionID = no_overrides\<lparr>ov_runtimeSessionRef := Some sessionID\<rparr>"

definition no_events :: normalized_events where
  "no_events = \<lparr>nv_events = [], nv_outcome = None, nv_reason = None, nv_resultText = None, nv_turns = 0\<rparr>"

definition just_events :: "rehor_event list \<Rightarrow> normalized_events" where
  "just_events es = no_events\<lparr>nv_events := es\<rparr>"

definition lookup :: "(string \<times> obj) list \<Rightarrow> string \<Rightarrow> obj" where
  "lookup m k = (case map_of m k of None \<Rightarrow> [] | Some ob \<Rightarrow> ob)"

definition pair_key :: "string \<Rightarrow> string \<Rightarrow> string" where
  "pair_key a b = a @ '':'' @ b"

section \<open>Sessions\<close>

definition eventSessionId :: "oc_event \<Rightarrow> string option" where
  "eventSessionId event = as_string (obj_get (obj_of (oe_data event)) ''sessionID'')"

text \<open>One pass over the parent edges, and the passes until one adds nothing.\<close>

definition session_pass :: "(string \<times> string) list \<Rightarrow> string list \<Rightarrow> string list" where
  "session_pass parents ids =
     fold (\<lambda>(id, parent) ids. if parent \<in> set ids \<and> id \<notin> set ids then ids @ [id] else ids) parents ids"

fun session_closure :: "nat \<Rightarrow> (string \<times> string) list \<Rightarrow> string list \<Rightarrow> string list" where
  "session_closure 0 parents ids = ids"
| "session_closure (Suc n) parents ids =
     (let ids' = session_pass parents ids
      in if ids' = ids then ids else session_closure n parents ids')"

definition trackSession :: "obj \<Rightarrow> normalization \<Rightarrow> normalization" where
  "trackSession data N =
     (let parents = (case (as_string (obj_get data ''sessionID''), as_string (obj_get data ''parentID'')) of
                       (Some s, Some p) \<Rightarrow> AList.update s p (nz_sessionParents N)
                     | _ \<Rightarrow> nz_sessionParents N)
      in N\<lparr>nz_sessionParents := parents,
           nz_sessionIds := session_closure (Suc (length parents)) parents (nz_sessionIds N)\<rparr>)"

definition tracked :: "oc_event \<Rightarrow> normalization \<Rightarrow> normalization" where
  "tracked event N =
     (if oe_type event = ''session.created'' then trackSession (obj_of (oe_data event)) N else N)"

definition in_session_tree :: "oc_event \<Rightarrow> normalization \<Rightarrow> bool" where
  "in_session_tree event N =
     (case eventSessionId event of None \<Rightarrow> False | Some i \<Rightarrow> i \<in> set (nz_sessionIds N))"

definition isSessionEvent :: "oc_event \<Rightarrow> normalization \<Rightarrow> bool \<times> normalization" where
  "isSessionEvent event N = (let N' = tracked event N in (in_session_tree event N', N'))"

definition clear_root_execution :: "normalization \<Rightarrow> normalization" where
  "clear_root_execution N =
     N\<lparr>nz_rootAssistantError := None, nz_rootSessionError := None, nz_rootExecutionOutcome := None,
       nz_rootExecutionReason := None\<rparr>"

definition foldOpenCodeEvent :: "oc_event \<Rightarrow> normalization \<Rightarrow> normalization" where
  "foldOpenCodeEvent event N0 =
     (let data = obj_of (oe_data event); N = tracked event N0
      in case eventSessionId event of
           None \<Rightarrow> N
         | Some sessionID \<Rightarrow>
             if sessionID = [] \<or> sessionID \<notin> set (nz_sessionIds N) then N
             else if oe_type event \<noteq> ''session.step.started'' then N
             else (let id = stringValue_or (obj_get data ''assistantMessageID'') []; key = pair_key sessionID id
                   in if id = [] then N
                      else (let previous = lookup (nz_messages N) key;
                                N1 = N\<lparr>nz_seenMessages := set_add key (nz_seenMessages N),
                                       nz_messageRoles := AList.update key ''assistant'' (nz_messageRoles N),
                                       nz_messages := AList.update key
                                         (obj_spread previous
                                            [(''id'', JStr id), (''type'', JStr ''assistant''),
                                             (''model'', obj_get data ''model''),
                                             (''content'', nullish_or (obj_get previous ''content'') (JArr [])),
                                             (''error'', Undef), (''finish'', Undef), (''rawFinish'', Undef),
                                             (''native'', Undef),
                                             (''time'', JObj [(''created'', obj_get data ''started'')])])
                                         (nz_messages N),
                                       nz_completedMessages := removeAll key (nz_completedMessages N)\<rparr>
                            in if sessionID \<noteq> nz_rootSessionId N1 then N1
                               else (clear_root_execution N1)
                                      \<lparr>nz_rootExecutionStartedAt :=
                                         (case numberValue (obj_get data ''started'') of
                                            Some t \<Rightarrow>
                                              Some (max (case nz_rootExecutionStartedAt N1 of None \<Rightarrow> 0 | Some s \<Rightarrow> s) t)
                                          | None \<Rightarrow> nz_rootExecutionStartedAt N1)\<rparr>)))"

definition beginsNewTurn :: "oc_event \<Rightarrow> normalization \<Rightarrow> bool" where
  "beginsNewTurn event N \<longleftrightarrow>
     oe_type event = ''session.step.started'' \<and> eventSessionId event = Some (nz_rootSessionId N) \<and>
     oe_id event \<notin> set (nz_seenEvents N) \<and>
     pair_key (nz_rootSessionId N) (js_text (obj_get (obj_of (oe_data event)) ''assistantMessageID''))
       \<notin> set (nz_seenMessages N)"

section \<open>Errors, results and outcomes\<close>

definition providerErrorMessage :: "jsval \<Rightarrow> string" where
  "providerErrorMessage value =
     (case value of
        JStr s \<Rightarrow> redactSensitiveText s
      | _ \<Rightarrow>
          (let error = obj_of value
           in redactSensitiveText
                (stringValue_or (nullish_or (obj_get error ''message'') (obj_get (obj_of (obj_get error ''data'')) ''message''))
                   ''OpenCode session error'')))"

definition resultText :: "normalization \<Rightarrow> string option" where
  "resultText N =
     (if nz_resultTextParts N = [] then None else Some (concat (map snd (nz_resultTextParts N))))"

definition opt_nonempty :: "string option \<Rightarrow> string option" where
  "opt_nonempty s = (if s = Some [] then None else s)"

text \<open>The outcome and reason an idle root session stands for.\<close>

definition rootIdleOutcome :: "normalization \<Rightarrow> terminal_state option \<times> string option" where
  "rootIdleOutcome N =
     (case nz_rootExecutionOutcome N of
        Some outcome \<Rightarrow> (Some outcome, opt_nonempty (nz_rootExecutionReason N))
      | None \<Rightarrow>
          (case opt_nonempty (case nz_rootSessionError N of Some r \<Rightarrow> Some r | None \<Rightarrow> nz_rootAssistantError N) of
             None \<Rightarrow> (None, None)
           | Some r \<Rightarrow> (Some Failed, Some r)))"

definition unwrapSdkResponse :: "jsval \<Rightarrow> string \<Rightarrow> string + jsval" where
  "unwrapSdkResponse value operation =
     (case as_record value of
        None \<Rightarrow> Inr value
      | Some response \<Rightarrow>
          if obj_get response ''error'' \<noteq> Undef
          then Inl (operation @ '' failed: '' @ providerErrorMessage (obj_get response ''error''))
          else if has_key response ''data'' then Inr (obj_get response ''data'') else Inr value)"

definition partKey :: "obj \<Rightarrow> string" where
  "partKey part =
     stringValue_or (obj_get part ''sessionID'') ''unknown-session'' @ '':'' @
     stringValue_or (nullish_or (obj_get part ''messageID'') (obj_get part ''assistantMessageID'')) ''unknown-message'' @
     '':'' @ stringValue_or (obj_get part ''id'') ''unknown-part''"

section \<open>Usage\<close>

definition nonNegativeInteger_nat :: "jsval \<Rightarrow> nat" where
  "nonNegativeInteger_nat v =
     (case v of JNum n \<Rightarrow> if is_safe_integer n \<and> 0 \<le> fin_val n then nat \<lfloor>fin_val n\<rfloor> else 0 | _ \<Rightarrow> 0)"

definition nativeTokens :: "jsval \<Rightarrow> native_tokens" where
  "nativeTokens value =
     (let tokens = obj_of value; cache = obj_of (obj_get tokens ''cache'')
      in \<lparr>nt_input = nonNegativeInteger_nat (obj_get tokens ''input''),
          nt_output = nonNegativeInteger_nat (obj_get tokens ''output''),
          nt_reasoning = nonNegativeInteger_nat (obj_get tokens ''reasoning''),
          nt_cacheRead = nonNegativeInteger_nat (obj_get cache ''read''),
          nt_cacheWrite = nonNegativeInteger_nat (obj_get cache ''write'')\<rparr>)"

definition valid_count :: "jsval \<Rightarrow> bool" where
  "valid_count v = (case v of JNum n \<Rightarrow> is_safe_integer n \<and> 0 \<le> fin_val n | _ \<Rightarrow> False)"

definition validTokens :: "jsval \<Rightarrow> bool" where
  "validTokens value =
     (let tokens = obj_of value; cache = obj_of (obj_get tokens ''cache'')
      in list_all valid_count
           [obj_get tokens ''input'', obj_get tokens ''output'', obj_get tokens ''reasoning'',
            obj_get cache ''read'', obj_get cache ''write''])"

definition add_tokens :: "native_tokens \<Rightarrow> native_tokens \<Rightarrow> native_tokens" where
  "add_tokens a b =
     \<lparr>nt_input = nt_input a + nt_input b, nt_output = nt_output a + nt_output b,
      nt_reasoning = nt_reasoning a + nt_reasoning b, nt_cacheRead = nt_cacheRead a + nt_cacheRead b,
      nt_cacheWrite = nt_cacheWrite a + nt_cacheWrite b\<rparr>"

definition no_tokens :: native_tokens where
  "no_tokens = nativeTokens Undef"

definition tokens_obj :: "native_tokens \<Rightarrow> obj" where
  "tokens_obj t =
     [(''input'', JNum (Fin (of_nat (nt_input t)))), (''output'', JNum (Fin (of_nat (nt_output t)))),
      (''reasoning'', JNum (Fin (of_nat (nt_reasoning t)))), (''cacheRead'', JNum (Fin (of_nat (nt_cacheRead t)))),
      (''cacheWrite'', JNum (Fin (of_nat (nt_cacheWrite t))))]"

text \<open>The sums over the snapshots of a bucket.\<close>

definition bucket :: "string \<Rightarrow> normalization \<Rightarrow> usage_snapshot list" where
  "bucket model N = filter (\<lambda>s. sp_bucketModel s = model) (map snd (nz_usageSnapshots N))"

definition snapshot_amount :: "usage_snapshot \<Rightarrow> rat" where
  "snapshot_amount s = (case sp_cost s of None \<Rightarrow> 0 | Some c \<Rightarrow> uc_amount c)"

definition bucket_cost :: "normalization \<Rightarrow> usage_snapshot list \<Rightarrow> obj" where
  "bucket_cost N ss =
     (let hasCost = (if ss = [] then list_ex (\<lambda>(_, s). sp_cost s \<noteq> None) (nz_usageSnapshots N)
                     else list_ex (\<lambda>s. sp_cost s \<noteq> None) ss);
          pricing = (case filter (\<lambda>p. p \<noteq> None) (map uc_pricing (List.map_filter sp_cost ss)) of
                       [] \<Rightarrow> None | p # _ \<Rightarrow> p)
      in if hasCost
         then [(''cost'', JObj ([(''amount'', JNum (Fin (sum_list (map snapshot_amount ss)))),
                 (''currency'', JStr ''USD''), (''source'', JStr ''estimated'')] @
                 opt_entry ''pricing'' (opt_str (opt_nonempty pricing))))]
         else [])"

definition usage_payload :: "usage_snapshot \<Rightarrow> normalization \<Rightarrow> obj" where
  "usage_payload s N =
     (let ss = bucket (sp_bucketModel s) N;
          unknown = (nz_recoveryIncomplete N \<or> list_ex (\<lambda>c. \<not> sp_valid c \<or> sp_cost c = None) ss);
          final = list_all sp_completed ss;
          cost = bucket_cost N ss
      in [(''requestedModel'', JStr (sp_requestedModel s)), (''modelKey'', JStr (sp_bucketModel s))] @
         opt_entry ''returnedModel'' (opt_str (opt_nonempty (sp_returnedModel s))) @
         [(''tokenCounts'', JObj (tokens_obj (fold add_tokens (map sp_tokenCounts ss) no_tokens))),
          (''partial'', JBool (\<not> final)), (''final'', JBool final), (''estimated'', JBool (cost \<noteq> [])),
          (''incomplete'', JBool (\<not> final \<or> unknown))] @
         cost)"

definition snapshotUsage ::
    "norm_env \<Rightarrow> usage_snapshot \<Rightarrow> string \<Rightarrow> string option \<Rightarrow> normalization \<Rightarrow> rehor_event \<times> normalization" where
  "snapshotUsage E s sessionID parentEventId N =
     emit E ''usage'' (usage_payload s N)
       ((session_override sessionID)
          \<lparr>ov_parentEventId := opt_nonempty parentEventId, ov_model := opt_nonempty (sp_returnedModel s)\<rparr>) N"

definition snapshot_key :: "usage_snapshot \<Rightarrow> string" where
  "snapshot_key s = pair_key (sp_sessionID s) (sp_messageID s)"

text \<open>Usage events for snapshots, each with the key of its model event and its session.\<close>

type_synonym usage_row = "string \<times> string \<times> usage_snapshot"

fun report_usage :: "norm_env \<Rightarrow> usage_row list \<Rightarrow> normalization \<Rightarrow> rehor_event list \<times> normalization" where
  "report_usage E [] N = ([], N)"
| "report_usage E ((key, sessionID, s) # rows) N =
     (let (e, N1) = snapshotUsage E s sessionID (map_of (nz_modelEventIds N) key) N;
          (es, N2) = report_usage E rows N1
      in (e # es, N2))"

text \<open>The first snapshot of each bucket, in order.\<close>

fun first_per_bucket :: "string list \<Rightarrow> (string \<times> usage_snapshot) list \<Rightarrow> usage_row list" where
  "first_per_bucket buckets [] = []"
| "first_per_bucket buckets ((key, s) # ss) =
     (if sp_bucketModel s \<in> set buckets then first_per_bucket buckets ss
      else (key, sp_sessionID s, s) # first_per_bucket (sp_bucketModel s # buckets) ss)"

definition retired_rows :: "normalization \<Rightarrow> usage_row list" where
  "retired_rows N = map (\<lambda>(_, s). (snapshot_key s, sp_sessionID s, s)) (nz_retiredBuckets N)"

definition updateRecoveryCoverage ::
    "norm_env \<Rightarrow> bool \<Rightarrow> normalization \<Rightarrow> rehor_event list \<times> normalization" where
  "updateRecoveryCoverage E incomplete N =
     (if nz_recoveryIncomplete N = incomplete then ([], N)
      else report_usage E (first_per_bucket [] (nz_usageSnapshots N) @ retired_rows N)
             (N\<lparr>nz_recoveryIncomplete := incomplete\<rparr>))"

section \<open>Text parts\<close>

definition normalizeText ::
    "norm_env \<Rightarrow> string \<Rightarrow> string \<Rightarrow> string \<Rightarrow> string \<Rightarrow> jsval \<Rightarrow> normalization \<Rightarrow> normalized_events \<times> normalization" where
  "normalizeText E partId txt phase sessionID delta N =
     (if map_of (nz_partSnapshots N) partId = Some (TextPart txt) then (no_events, N)
      else (let N1 = N\<lparr>nz_partSnapshots := AList.update partId (TextPart txt) (nz_partSnapshots N),
                       nz_seenParts := set_add partId (nz_seenParts N),
                       nz_resultTextParts :=
                         (if phase = ''text'' \<and> sessionID = nz_rootSessionId N
                          then AList.update partId txt (nz_resultTextParts N) else nz_resultTextParts N)\<rparr>;
                (e, N2) = emit E ''model''
                  ([(''phase'', JStr phase), (''partId'', JStr partId), (''text'', JStr txt)] @
                   (case delta of JStr d \<Rightarrow> [(''delta'', JStr d)] | _ \<Rightarrow> []))
                  (session_override sessionID) N1
            in ((just_events [e])\<lparr>nv_resultText := resultText N1\<rparr>, N2)))"

section \<open>Tools\<close>

definition tool_key :: "string \<Rightarrow> string \<Rightarrow> jsval \<Rightarrow> string" where
  "tool_key sessionID messageID toolId = pair_key sessionID (pair_key messageID (js_text toolId))"

definition tool_content :: "nested_tool option \<Rightarrow> jsval \<Rightarrow> jsval" where
  "tool_content nested content =
     (if nested \<noteq> None then content
      else (case content of
              JArr vs \<Rightarrow>
                JStr (join_text [CHR 10]
                  (map (\<lambda>v. let item = obj_of v
                            in if obj_get item ''type'' = JStr ''text'' then stringValue_or (obj_get item ''text'') []
                               else stringValue_or (obj_get item ''uri'') []) vs))
            | _ \<Rightarrow> Undef))"

definition nested_entries :: "nested_tool \<Rightarrow> obj \<Rightarrow> obj" where
  "nested_entries n state =
     [(''codeMode'', JBool True), (''workContextAvailable'', JBool (nn_workContextAvailable n)),
      (''resultUnavailable'', JBool (obj_get state ''content'' = Undef))] @
     opt_entry ''error'' (obj_get state ''error'') @
     (case nn_nativeOrdinal n of None \<Rightarrow> [] | Some k \<Rightarrow> [(''nativeOrdinal'', JNum (Fin (of_nat k)))]) @
     opt_entry ''bridgeId'' (opt_str (opt_nonempty (nn_bridgeId n)))"

definition tool_duration :: "obj \<Rightarrow> obj" where
  "tool_duration time =
     (case (numberValue (nullish_or (obj_get time ''ran'') (obj_get time ''created'')),
            numberValue (obj_get time ''completed'')) of
        (Some start, Some finish) \<Rightarrow> [(''durationMs'', JNum (Fin (max 0 (finish - start))))]
      | _ \<Rightarrow> [])"

definition tool_payload ::
    "string \<Rightarrow> obj \<Rightarrow> string \<Rightarrow> tool_phase \<Rightarrow> bool \<Rightarrow> bool \<Rightarrow> nested_tool option \<Rightarrow> obj" where
  "tool_payload key part name phase container isError nested =
     (let state = obj_of (obj_get part ''state'');
          content = tool_content nested (obj_get state ''content'');
          input = obj_get state ''input''
      in [(''partId'', JStr key), (''toolUseId'', obj_get part ''id''),
          (''state'', JStr (if phase = ToolCompleted then ''completed'' else ''started'')),
          (''name'', JStr name), (''toolName'', JStr name)] @
         (if container then [(''budgetUnit'', JStr ''container''), (''workContextAvailable'', JBool False)] else []) @
         (case nested of None \<Rightarrow> [] | Some n \<Rightarrow> nested_entries n state) @
         (if (if nested \<noteq> None then input \<noteq> Undef else as_record input \<noteq> None)
          then [(''input'', input)] else []) @
         tool_duration (obj_of (obj_get part ''time'')) @
         (if isError then [(''isError'', JBool True)] else []) @
         (if content \<noteq> Undef then [(''content'', content)]
          else if truthy (obj_get state ''error'')
          then [(''content'', JStr (providerErrorMessage (obj_get state ''error'')))] else []))"

definition normalizeSingleTool ::
    "norm_env \<Rightarrow> obj \<Rightarrow> string \<Rightarrow> string \<Rightarrow> nested_tool option \<Rightarrow> normalization \<Rightarrow> rehor_event list \<times> normalization" where
  "normalizeSingleTool E part sessionID messageID nested N =
     (let key = tool_key sessionID messageID (obj_get part ''id'');
          state = obj_of (obj_get part ''state'');
          status = obj_get state ''status'';
          finished = (status = JStr ''completed'' \<or> status = JStr ''error'');
          name = stringValue_or (nullish_or (obj_get part ''name'') (obj_get (lookup (nz_tools N) key) ''name'')) ''unknown'';
          phase = (if finished then ToolCompleted else ToolStarted)
      in if map_of (nz_toolPhases N) key = Some ToolCompleted \<and> \<not> finished then ([], N)
         else (let N1 = N\<lparr>nz_tools := AList.update key part (nz_tools N)\<rparr>;
                   container = (nested = None \<and> name = ''execute'');
                   isError = (status = JStr ''error'' \<or>
                     container \<and> obj_get (obj_of (obj_get state ''metadata'')) ''error'' = JBool True);
                   signature = stableJson (JArr
                     [JStr (if finished then ''completed'' else ''started''), obj_get state ''input'',
                      obj_get state ''content'', obj_get state ''error'', JBool isError,
                      (case nested of None \<Rightarrow> Undef | Some n \<Rightarrow> JBool (nn_workContextAvailable n))])
               in if map_of (nz_partSnapshots N1) key = Some (ToolPart signature) then ([], N1)
                  else (let N2 = N1\<lparr>nz_partSnapshots := AList.update key (ToolPart signature) (nz_partSnapshots N1),
                                    nz_toolPhases := AList.update key phase (nz_toolPhases N1),
                                    nz_seenParts := set_add key (nz_seenParts N1)\<rparr>;
                            parent = (case nested of
                                        None \<Rightarrow> None
                                      | Some n \<Rightarrow>
                                          (case (phase, map_of (nz_toolEventIds N2) key) of
                                             (ToolCompleted, Some i) \<Rightarrow> Some i
                                           | _ \<Rightarrow> nn_parentEventId n));
                            (e, N3) = emit E ''tool'' (tool_payload key part name phase container isError nested)
                              ((session_override sessionID)\<lparr>ov_parentEventId := parent\<rparr>) N2
                        in ([e], if map_of (nz_toolEventIds N3) key \<noteq> None then N3
                                 else N3\<lparr>nz_toolEventIds := AList.update key (ev_eventId e) (nz_toolEventIds N3)\<rparr>))))"

end
