(* ===== verification/Normalizer_Events.thy ===== *)
theory Normalizer_Events
  imports Normalizer
begin

text \<open>
  The second half of \<open>normalizer.ts\<close>: the calls of a code-mode container, whole messages with their
  usage accounting, and the events of the server's stream.
\<close>

section \<open>Code mode\<close>

definition retain_row :: "obj option \<Rightarrow> obj \<Rightarrow> obj" where
  "retain_row previous row =
     (case previous of
        None \<Rightarrow> row
      | Some p \<Rightarrow>
          if obj_get p ''status'' \<noteq> JStr ''running'' \<and> obj_get row ''status'' = JStr ''running'' then p else row)"

definition valid_row :: "obj \<Rightarrow> bool" where
  "valid_row row \<longleftrightarrow> js_text (obj_get row ''status'') \<in> {''running'', ''completed'', ''error''}"

definition arr_of :: "jsval \<Rightarrow> jsval list" where
  "arr_of v = (case v of JArr vs \<Rightarrow> vs | _ \<Rightarrow> [])"

definition add_native_row :: "nat \<times> jsval \<Rightarrow> code_mode_state \<Rightarrow> code_mode_state" where
  "add_native_row iv C =
     (let row = obj_of (snd iv)
      in if as_string (obj_get row ''tool'') \<noteq> None \<and> valid_row row
         then C\<lparr>cm_native := AList.update (fst iv) (retain_row (map_of (cm_native C) (fst iv)) row) (cm_native C)\<rparr>
         else C)"

definition add_bridge_row :: "jsval \<Rightarrow> code_mode_state \<Rightarrow> code_mode_state" where
  "add_bridge_row v C =
     (let row = obj_of v
      in case (obj_get row ''id'', obj_get row ''name'') of
           (JStr i, JStr _) \<Rightarrow>
             if valid_row row
             then C\<lparr>cm_bridge := AList.update i (retain_row (map_of (cm_bridge C) i) row) (cm_bridge C)\<rparr> else C
         | _ \<Rightarrow> C)"

definition canonicalName :: "jsval \<Rightarrow> string" where
  "canonicalName name = map (\<lambda>c. if alnum_or ''_-'' c then c else CHR ''_'') (stringValue_or name ''unknown'')"

definition call_identity :: "jsval \<Rightarrow> jsval \<Rightarrow> jsval" where
  "call_identity name input =
     stableJson (JArr [JStr (canonicalName name),
       (if nullish input then JObj []
        else (case as_record input of Some ob \<Rightarrow> JObj ob | None \<Rightarrow> JObj [(''input'', input)]))])"

text \<open>\<open>Number(id.match(/:nested:(\d+)$/)?.[1] ?? 0)\<close>\<close>

definition nested_ordinal :: "obj \<Rightarrow> nat" where
  "nested_ordinal row =
     (let r = rev (js_text (obj_get row ''id''));
          digits = takeWhile is_digit r
      in if digits \<noteq> [] \<and> prefix (rev '':nested:'') (dropWhile is_digit r) then digits_val (rev digits) else 0)"

definition call_status :: "obj \<Rightarrow> string" where
  "call_status row =
     (if obj_get row ''status'' = JStr ''running'' then ''running''
      else if obj_get row ''status'' = JStr ''error'' then ''error'' else ''completed'')"

definition emit_call ::
    "norm_env \<Rightarrow> string \<Rightarrow> string \<Rightarrow> string \<Rightarrow> string \<Rightarrow> obj \<Rightarrow> nat option \<Rightarrow> string option \<Rightarrow>
     normalization \<Rightarrow> rehor_event list \<times> normalization" where
  "emit_call E outer sessionID messageID callId row nativeOrdinal bridgeId N =
     (let nested = \<lparr>nn_parentEventId = map_of (nz_toolEventIds N) outer,
                    nn_workContextAvailable = (bridgeId \<noteq> None), nn_nativeOrdinal = nativeOrdinal,
                    nn_bridgeId = bridgeId\<rparr>;
          state = [(''status'', JStr (call_status row))] @ opt_entry ''input'' (obj_get row ''input'') @
                  opt_entry ''content'' (obj_get row ''content'') @ opt_entry ''error'' (obj_get row ''error'');
          tool = (\<lambda>st. [(''id'', JStr callId), (''name'', obj_get row ''name''), (''type'', JStr ''tool''),
                        (''state'', JObj st)]);
          key = tool_key sessionID messageID (JStr callId);
          (es1, N1) =
            (if map_of (nz_toolEventIds N) key = None \<and> obj_get row ''status'' \<noteq> JStr ''running''
             then normalizeSingleTool E
                    (tool (obj_spread state [(''status'', JStr ''running''), (''content'', Undef), (''error'', Undef)]))
                    sessionID messageID (Some nested) N
             else ([], N));
          (es2, N2) = normalizeSingleTool E (tool state) sessionID messageID (Some nested) N1
      in (es1 @ es2, N2))"

text \<open>The native rows in order: each takes the first unused bridge call with its name and input.\<close>

fun emit_native ::
    "norm_env \<Rightarrow> string \<Rightarrow> string \<Rightarrow> string \<Rightarrow> obj list \<Rightarrow> (nat \<times> obj) list \<Rightarrow> string list \<Rightarrow>
     code_mode_state \<Rightarrow> normalization \<Rightarrow> rehor_event list \<times> string list \<times> code_mode_state \<times> normalization" where
  "emit_native E outer sessionID messageID bridge [] used C N = ([], used, C, N)"
| "emit_native E outer sessionID messageID bridge ((index, row) # rows) used C N =
     (let matching = find (\<lambda>b. js_text (obj_get b ''id'') \<notin> set used \<and>
            call_identity (obj_get b ''name'') (obj_get b ''input'') =
            call_identity (obj_get row ''tool'') (obj_get row ''input'')) bridge;
          bridgeId = map_option (\<lambda>b. js_text (obj_get b ''id'')) matching;
          known = (case opt_nonempty bridgeId of None \<Rightarrow> None | Some b \<Rightarrow> map_of (cm_bridgeIds C) b);
          callId = (case map_of (cm_nativeIds C) index of
                      Some i \<Rightarrow> i
                    | None \<Rightarrow> (case known of Some i \<Rightarrow> i | None \<Rightarrow> outer @ '':codemode:'' @ show_nat index));
          C1 = C\<lparr>cm_nativeIds := AList.update index callId (cm_nativeIds C)\<rparr>;
          (used', C2) = (case opt_nonempty bridgeId of
                           None \<Rightarrow> (used, C1)
                         | Some b \<Rightarrow> (set_add b used, C1\<lparr>cm_bridgeIds := AList.update b callId (cm_bridgeIds C1)\<rparr>));
          (es, N1) = emit_call E outer sessionID messageID callId
            (case matching of
               Some b \<Rightarrow> b
             | None \<Rightarrow> obj_set ''name'' (JStr (canonicalName (obj_get row ''tool''))) row)
            (Some index) bridgeId N;
          (es', used'', C3, N2) = emit_native E outer sessionID messageID bridge rows used' C2 N1
      in (es @ es', used'', C3, N2))"

fun emit_bridge ::
    "norm_env \<Rightarrow> string \<Rightarrow> string \<Rightarrow> string \<Rightarrow> obj list \<Rightarrow> string list \<Rightarrow>
     code_mode_state \<Rightarrow> normalization \<Rightarrow> rehor_event list \<times> code_mode_state \<times> normalization" where
  "emit_bridge E outer sessionID messageID [] used C N = ([], C, N)"
| "emit_bridge E outer sessionID messageID (row # rows) used C N =
     (let bridgeId = js_text (obj_get row ''id'')
      in if bridgeId \<in> set used then emit_bridge E outer sessionID messageID rows used C N
         else (let callId = (case map_of (cm_bridgeIds C) bridgeId of
                               Some i \<Rightarrow> i | None \<Rightarrow> outer @ '':bridge:'' @ bridgeId);
                   (es, N1) = emit_call E outer sessionID messageID callId row None (Some bridgeId) N;
                   (es', C', N2) = emit_bridge E outer sessionID messageID rows used
                     (C\<lparr>cm_bridgeIds := AList.update bridgeId callId (cm_bridgeIds C)\<rparr>) N1
               in (es @ es', C', N2)))"

definition collect_calls :: "obj \<Rightarrow> code_mode_state \<Rightarrow> code_mode_state" where
  "collect_calls metadata C =
     fold add_bridge_row (arr_of (obj_get (obj_of (obj_get metadata ''rehorCodeMode'')) ''calls''))
       (fold add_native_row (enumerate 0 (arr_of (obj_get metadata ''toolCalls''))) C)"

definition normalizeCodeMode ::
    "norm_env \<Rightarrow> obj \<Rightarrow> string \<Rightarrow> string \<Rightarrow> normalization \<Rightarrow> rehor_event list \<times> normalization" where
  "normalizeCodeMode E part sessionID messageID N =
     (let outer = tool_key sessionID messageID (obj_get part ''id'');
          metadata = obj_of (obj_get (obj_of (obj_get part ''state'')) ''metadata'');
          C0 = (case map_of (nz_codeMode N) outer of
                  Some C \<Rightarrow> C
                | None \<Rightarrow> \<lparr>cm_native = [], cm_bridge = [], cm_nativeIds = [], cm_bridgeIds = []\<rparr>);
          C1 = collect_calls metadata C0;
          bridge = sort_key nested_ordinal (map snd (cm_bridge C1));
          (es1, used, C2, N1) =
            emit_native E outer sessionID messageID bridge (sort_key fst (cm_native C1)) [] C1 N;
          (es2, C3, N2) = emit_bridge E outer sessionID messageID bridge used C2 N1
      in (es1 @ es2, N2\<lparr>nz_codeMode := AList.update outer C3 (nz_codeMode N2)\<rparr>))"

definition is_container :: "obj \<Rightarrow> string \<Rightarrow> normalization \<Rightarrow> bool" where
  "is_container part key N \<longleftrightarrow>
     (let metadata = obj_of (obj_get (obj_of (obj_get part ''state'')) ''metadata'');
          name = nullish_or (obj_get part ''name'') (obj_get (lookup (nz_tools N) key) ''name'')
      in name = JStr ''execute'' \<or>
         (name = Undef \<and>
          ((case obj_get metadata ''toolCalls'' of JArr _ \<Rightarrow> True | _ \<Rightarrow> False) \<or>
           as_record (obj_get metadata ''rehorCodeMode'') \<noteq> None)))"

definition normalizeTool ::
    "norm_env \<Rightarrow> obj \<Rightarrow> string \<Rightarrow> string \<Rightarrow> normalization \<Rightarrow> rehor_event list \<times> normalization" where
  "normalizeTool E part sessionID messageID N =
     (if \<not> is_container part (tool_key sessionID messageID (obj_get part ''id'')) N
      then normalizeSingleTool E part sessionID messageID None N
      else (let (es, N1) = normalizeSingleTool E (obj_set ''name'' (JStr ''execute'') part) sessionID messageID None N;
                (es', N2) = normalizeCodeMode E part sessionID messageID N1
            in (es @ es', N2)))"

text \<open>The parts of a message's content, with the running ordinals of its text and reasoning parts.\<close>

definition part_id :: "string \<Rightarrow> string \<Rightarrow> string \<Rightarrow> string \<Rightarrow> string" where
  "part_id sessionID messageID phase ordinal =
     pair_key sessionID (pair_key messageID (pair_key phase ordinal))"

fun normalizeContent ::
    "norm_env \<Rightarrow> jsval list \<Rightarrow> string \<Rightarrow> string \<Rightarrow> nat \<Rightarrow> nat \<Rightarrow> normalization \<Rightarrow>
     rehor_event list \<times> normalization" where
  "normalizeContent E [] sessionID messageID t r N = ([], N)"
| "normalizeContent E (v # vs) sessionID messageID t r N =
     (let part = obj_of v; type = obj_get part ''type''
      in if type = JStr ''text'' then
           (let (out, N1) = normalizeText E (part_id sessionID messageID ''text'' (show_nat t))
                  (stringValue_or (obj_get part ''text'') []) ''text'' sessionID Undef N;
                (es, N2) = normalizeContent E vs sessionID messageID (Suc t) r N1
            in (nv_events out @ es, N2))
         else if type = JStr ''reasoning'' then
           (let (out, N1) = normalizeText E (part_id sessionID messageID ''reasoning'' (show_nat r))
                  (stringValue_or (obj_get part ''text'') []) ''reasoning'' sessionID Undef N;
                (es, N2) = normalizeContent E vs sessionID messageID t (Suc r) N1
            in (nv_events out @ es, N2))
         else if type = JStr ''tool'' then
           (let (es1, N1) = normalizeTool E part sessionID messageID N;
                (es2, N2) = normalizeContent E vs sessionID messageID t r N1
            in (es1 @ es2, N2))
         else normalizeContent E vs sessionID messageID t r N)"

section \<open>Messages\<close>

text \<open>A compaction that ended under a made-up id is the message that now projects it.\<close>

definition same_compaction :: "obj \<Rightarrow> string \<Rightarrow> normalization \<Rightarrow> string \<Rightarrow> bool" where
  "same_compaction message sessionID N candidate \<longleftrightarrow>
     (let previous = lookup (nz_messages N) candidate;
          model = (\<lambda>m k. obj_get (obj_of (obj_get m ''model'')) k)
      in case map_of (nz_usageSnapshots N) candidate of
           None \<Rightarrow> False
         | Some s \<Rightarrow>
             sp_sessionID s = sessionID \<and>
             list_all (\<lambda>k. strict_eq (obj_get previous k) (obj_get message k)) [''status'', ''reason'', ''cost''] \<and>
             strict_eq (model previous ''providerID'') (model message ''providerID'') \<and>
             strict_eq (model previous ''id'') (model message ''id'') \<and>
             sp_tokenCounts s = nativeTokens (obj_get message ''tokens'') \<and>
             validTokens (obj_get previous ''tokens'') = validTokens (obj_get message ''tokens'') \<and>
             providerErrorMessage (obj_get previous ''error'') = providerErrorMessage (obj_get message ''error''))"

definition adopt_compaction :: "string \<Rightarrow> string \<Rightarrow> normalization \<Rightarrow> normalization" where
  "adopt_compaction candidate key N =
     N\<lparr>nz_messages := AList.delete candidate (nz_messages N),
       nz_usageSnapshots := AList.delete candidate (nz_usageSnapshots N),
       nz_modelEventIds := AList.delete candidate
         (case map_of (nz_modelEventIds N) candidate of
            None \<Rightarrow> nz_modelEventIds N
          | Some parent \<Rightarrow> if parent = [] then nz_modelEventIds N else AList.update key parent (nz_modelEventIds N)),
       nz_unmatchedCompactions := removeAll candidate (nz_unmatchedCompactions N)\<rparr>"

definition settle_compaction :: "obj \<Rightarrow> string \<Rightarrow> string \<Rightarrow> string \<Rightarrow> bool \<Rightarrow> normalization \<Rightarrow> normalization" where
  "settle_compaction message mid key sessionID streamed N0 =
     (let N = N0\<lparr>nz_unmatchedCompactions := removeAll key (nz_unmatchedCompactions N0)\<rparr>;
          N1 = (if streamed \<or> map_of (nz_messages N) key \<noteq> None then N
                else (case find (same_compaction message sessionID N) (nz_unmatchedCompactions N) of
                        None \<Rightarrow> N
                      | Some candidate \<Rightarrow> adopt_compaction candidate key N))
      in N1\<lparr>nz_activeCompactions :=
              (if obj_get message ''status'' = JStr ''running''
               then AList.update sessionID mid (nz_activeCompactions N1)
               else if map_of (nz_activeCompactions N1) sessionID = Some mid
               then AList.delete sessionID (nz_activeCompactions N1) else nz_activeCompactions N1)\<rparr>)"

definition bucket_model :: "obj \<Rightarrow> string" where
  "bucket_model model =
     (case (obj_get model ''providerID'', obj_get model ''id'') of
        (JStr p, JStr m) \<Rightarrow> if m = [] then ''unknown/unknown'' else p @ ''/'' @ m
      | _ \<Rightarrow> ''unknown/unknown'')"

definition message_snapshot :: "norm_env \<Rightarrow> obj \<Rightarrow> string \<Rightarrow> string \<Rightarrow> bool \<Rightarrow> normalization \<Rightarrow> usage_snapshot" where
  "message_snapshot E message mid sessionID completed N =
     (let model = obj_of (obj_get message ''model''); b = bucket_model model; tokens = obj_get message ''tokens''
      in \<lparr>sp_sessionID = sessionID, sp_messageID = mid,
          sp_requestedModel = (if sessionID = nz_rootSessionId N then nz_requestedModel N else b),
          sp_bucketModel = b, sp_returnedModel = opt_nonempty (as_string (obj_get model ''id'')),
          sp_tokenCounts = nativeTokens tokens, sp_completed = completed, sp_valid = validTokens tokens,
          sp_cost = usageCost (ne_catalog E) b (if tokens = Undef then None else Some (nativeTokens tokens))
            (obj_get message ''cost'')\<rparr>)"

text \<open>Storing the snapshot of a message, and the usage events that tell of the change.\<close>

definition retire_bucket :: "usage_snapshot option \<Rightarrow> usage_snapshot \<Rightarrow> normalization \<Rightarrow> normalization" where
  "retire_bucket previous snapshot N =
     (let retired = AList.delete (sp_bucketModel snapshot) (nz_retiredBuckets N)
      in N\<lparr>nz_retiredBuckets :=
             (case previous of
                None \<Rightarrow> retired
              | Some p \<Rightarrow>
                  if sp_bucketModel p \<noteq> sp_bucketModel snapshot \<and> bucket (sp_bucketModel p) N = []
                  then AList.update (sp_bucketModel p) p retired else retired)\<rparr>)"

definition usage_rows :: "string \<Rightarrow> string \<Rightarrow> usage_snapshot option \<Rightarrow> usage_snapshot \<Rightarrow> normalization \<Rightarrow> usage_row list" where
  "usage_rows key sessionID previous snapshot N =
     (case previous of
        None \<Rightarrow> []
      | Some p \<Rightarrow>
          if sp_bucketModel p \<noteq> sp_bucketModel snapshot \<and> bucket (sp_bucketModel p) N \<noteq> []
          then [(key, sessionID, p)] else []) @
     retired_rows N @ [(key, sessionID, snapshot)]"

definition record_usage ::
    "norm_env \<Rightarrow> string \<Rightarrow> string \<Rightarrow> usage_snapshot \<Rightarrow> normalization \<Rightarrow> rehor_event list \<times> normalization" where
  "record_usage E key sessionID snapshot N =
     (let previous = map_of (nz_usageSnapshots N) key;
          N1 = N\<lparr>nz_usageSnapshots := AList.update key snapshot (nz_usageSnapshots N)\<rparr>
      in if previous = Some snapshot then ([], N1)
         else (let N2 = retire_bucket previous snapshot N1
               in report_usage E (usage_rows key sessionID previous snapshot N2) N2))"

definition message_completed :: "bool \<Rightarrow> obj \<Rightarrow> bool" where
  "message_completed assistant message \<longleftrightarrow>
     (if assistant then (case obj_get (obj_of (obj_get message ''time'')) ''completed'' of JNum _ \<Rightarrow> True | _ \<Rightarrow> False)
      else obj_get message ''status'' = JStr ''completed'' \<or> obj_get message ''status'' = JStr ''failed'')"

definition store_message ::
    "obj \<Rightarrow> string \<Rightarrow> string \<Rightarrow> bool \<Rightarrow> bool \<Rightarrow> string option \<Rightarrow> normalization \<Rightarrow> normalization" where
  "store_message message key sessionID assistant completed error N =
     N\<lparr>nz_messages := AList.update key message (nz_messages N),
       nz_messageRoles := AList.update key (if assistant then ''assistant'' else ''compaction'') (nz_messageRoles N),
       nz_seenMessages := set_add key (nz_seenMessages N),
       nz_completedMessages := (if completed then set_add key (nz_completedMessages N) else nz_completedMessages N),
       nz_rootAssistantError :=
         (if assistant \<and> sessionID = nz_rootSessionId N then error else nz_rootAssistantError N)\<rparr>"

definition announce_model ::
    "norm_env \<Rightarrow> obj \<Rightarrow> string \<Rightarrow> event_overrides \<Rightarrow> normalize_options \<Rightarrow> normalization \<Rightarrow>
     rehor_event list \<times> normalization" where
  "announce_model E message key ov opts N =
     (if no_usageOnly opts \<or> no_suppressModel opts \<or> map_of (nz_modelEventIds N) key \<noteq> None then ([], N)
      else (let (e, N1) = emit E ''model''
                  ([(''phase'', JStr ''updated''), (''messageId'', obj_get message ''id'')] @
                   (if truthy (obj_get message ''finish'') then [(''finish'', obj_get message ''finish'')] else []))
                  ov N
            in ([e], N1\<lparr>nz_modelEventIds := AList.update key (ev_eventId e) (nz_modelEventIds N1)\<rparr>)))"

definition announce_error ::
    "norm_env \<Rightarrow> obj \<Rightarrow> obj \<Rightarrow> string option \<Rightarrow> event_overrides \<Rightarrow> normalize_options \<Rightarrow> normalization \<Rightarrow>
     rehor_event list \<times> normalization" where
  "announce_error E message previous error ov opts N =
     (case opt_nonempty error of
        None \<Rightarrow> ([], N)
      | Some msg \<Rightarrow>
          if no_usageOnly opts \<or> json_tree (obj_get previous ''error'') = json_tree (obj_get message ''error'')
          then ([], N)
          else (let (e, N1) = emit E ''error'' [(''message'', JStr msg)] ov N in ([e], N1)))"

definition process_message ::
    "norm_env \<Rightarrow> obj \<Rightarrow> string \<Rightarrow> string \<Rightarrow> bool \<Rightarrow> normalize_options \<Rightarrow> normalization \<Rightarrow>
     normalized_events \<times> normalization" where
  "process_message E message mid sessionID assistant opts N0 =
     (let key = pair_key sessionID mid;
          N1 = (if assistant then N0
                else settle_compaction message mid key sessionID (no_streamed opts) N0);
          previous = lookup (nz_messages N1) key;
          completed = message_completed assistant message;
          error = (if truthy (obj_get message ''error'')
                   then Some (providerErrorMessage (obj_get message ''error'')) else None);
          N2 = store_message message key sessionID assistant completed error N1;
          ov = (session_override sessionID)
                 \<lparr>ov_model := opt_nonempty (as_string (obj_get (obj_of (obj_get message ''model'')) ''id''))\<rparr>;
          (es1, N3) = announce_model E message key ov opts N2;
          (es2, N4) = record_usage E key sessionID
                        (message_snapshot E message mid sessionID completed N3) N3;
          (es3, N5) = announce_error E message previous error ov opts N4;
          (es4, N6) = (if assistant \<and> \<not> no_usageOnly opts
                       then normalizeContent E (arr_of (obj_get message ''content'')) sessionID mid 0 0 N5
                       else ([], N5));
          turns = (if assistant \<and> completed \<and> sessionID = nz_rootSessionId N6 \<and>
                      key \<notin> set (nz_countedMessages N6) then 1 else 0);
          N7 = (if assistant \<and> completed
                then N6\<lparr>nz_countedMessages := set_add key (nz_countedMessages N6)\<rparr> else N6)
      in (\<lparr>nv_events = es1 @ es2 @ es3 @ es4, nv_outcome = None, nv_reason = None,
           nv_resultText = resultText N7, nv_turns = turns\<rparr>, N7))"

definition normalizeOpenCodeMessage ::
    "norm_env \<Rightarrow> jsval \<Rightarrow> string \<Rightarrow> normalize_options \<Rightarrow> normalization \<Rightarrow> normalized_events \<times> normalization" where
  "normalizeOpenCodeMessage E value sessionID opts N =
     (let message = obj_of value;
          assistant = (obj_get message ''type'' = JStr ''assistant'')
      in case as_string (obj_get message ''id'') of
           None \<Rightarrow> (no_events, N)
         | Some mid \<Rightarrow>
             if \<not> assistant \<and> obj_get message ''type'' \<noteq> JStr ''compaction'' then (no_events, N)
             else process_message E message mid sessionID assistant opts N)"

section \<open>Events of the stream\<close>

text \<open>\<open>id.replace(/^evt_/, "msg_")\<close>\<close>

definition message_id_of_event :: "string \<Rightarrow> string" where
  "message_id_of_event i = (if prefix ''evt_'' i then ''msg_'' @ drop 4 i else i)"

definition on_execution_started ::
    "norm_env \<Rightarrow> oc_event \<Rightarrow> string \<Rightarrow> bool \<Rightarrow> normalization \<Rightarrow> normalized_events \<times> normalization" where
  "on_execution_started E event sessionID isRoot N =
     (let N1 = (if isRoot then (clear_root_execution N)\<lparr>nz_rootExecutionStartedAt := Some (oe_created event)\<rparr> else N);
          (e, N2) = emit E ''run'' [(''state'', JStr ''running'')] (session_override sessionID) N1
      in (just_events [e], N2))"

definition on_execution_ended ::
    "norm_env \<Rightarrow> oc_event \<Rightarrow> obj \<Rightarrow> string \<Rightarrow> bool \<Rightarrow> normalization \<Rightarrow> normalized_events \<times> normalization" where
  "on_execution_ended E event data sessionID isRoot N =
     (let outcome = (if oe_type event = ''session.execution.succeeded'' then Completed else Failed);
          reason = (if oe_type event = ''session.execution.failed''
                    then Some (providerErrorMessage (obj_get data ''error''))
                    else if oe_type event = ''session.execution.interrupted''
                    then Some (''OpenCode execution interrupted: '' @ js_text (obj_get data ''reason''))
                    else None);
          N1 = (if isRoot
                then N\<lparr>nz_rootExecutionOutcome := Some outcome, nz_rootExecutionReason := reason,
                       nz_rootSessionError := (if outcome = Failed then reason else None)\<rparr> else N);
          (e, N2) = emit E ''run'' [(''state'', JStr (oe_type event))] (session_override sessionID) N1;
          (es, N3) = (if outcome = Failed
                      then (let (e', N') = emit E ''error'' [(''message'', opt_str reason)] (session_override sessionID) N2
                            in ([e'], N'))
                      else ([], N2))
      in (if isRoot then (just_events (e # es))\<lparr>nv_outcome := Some outcome, nv_reason := opt_nonempty reason\<rparr>
          else just_events (e # es), N3))"

definition on_status ::
    "norm_env \<Rightarrow> oc_event \<Rightarrow> obj \<Rightarrow> string \<Rightarrow> bool \<Rightarrow> normalization \<Rightarrow> normalized_events \<times> normalization" where
  "on_status E event data sessionID isRoot N =
     (let status = obj_of (obj_get data ''status'');
          idle = (oe_type event = ''session.idle'' \<or> obj_get status ''type'' = JStr ''idle'');
          (e, N1) = emit E ''run''
            [(''state'', if oe_type event = ''session.idle'' then JStr ''idle'' else JObj status)]
            (session_override sessionID) N
      in (if isRoot \<and> idle
          then (just_events [e])\<lparr>nv_outcome := fst (rootIdleOutcome N1), nv_reason := snd (rootIdleOutcome N1)\<rparr>
          else just_events [e], N1))"

definition on_step_started ::
    "norm_env \<Rightarrow> obj \<Rightarrow> string \<Rightarrow> string \<Rightarrow> normalize_options \<Rightarrow> normalization \<Rightarrow>
     normalized_events \<times> normalization" where
  "on_step_started E data sessionID messageID opts N =
     (let key = pair_key sessionID messageID;
          ov = session_override sessionID;
          (e, N1) = emit E ''model'' [(''phase'', JStr ''updated''), (''messageId'', JStr messageID)]
                      (ov\<lparr>ov_model := as_string (obj_get (obj_of (obj_get data ''model'')) ''id'')\<rparr>) N;
          N2 = (if map_of (nz_modelEventIds N1) key \<noteq> None then N1
                else N1\<lparr>nz_modelEventIds := AList.update key (ev_eventId e) (nz_modelEventIds N1)\<rparr>);
          (started, N3) = emit E ''run'' [(''state'', JStr ''step_started'')] ov N2;
          (pending, N4) = normalizeOpenCodeMessage E (JObj (lookup (nz_messages N3) key)) sessionID
                            (opts\<lparr>no_usageOnly := True\<rparr>) N3
      in (just_events (e # started # nv_events pending), N4))"

definition on_step_ended ::
    "norm_env \<Rightarrow> oc_event \<Rightarrow> obj \<Rightarrow> string \<Rightarrow> string \<Rightarrow> normalize_options \<Rightarrow> normalization \<Rightarrow>
     normalized_events \<times> normalization" where
  "on_step_ended E event data sessionID messageID opts N =
     (let key = pair_key sessionID messageID;
          previous = (case map_of (nz_messages N) key of
                        Some m \<Rightarrow> m
                      | None \<Rightarrow> [(''id'', JStr messageID), (''type'', JStr ''assistant'')]);
          message = obj_spread (obj_spread previous data)
            [(''id'', JStr messageID), (''type'', JStr ''assistant''),
             (''time'', JObj (obj_set ''completed'' (JNum (Fin (oe_created event)))
                                (obj_of (obj_get previous ''time''))))];
          (es, N1) =
            (if no_usageOnly opts then ([], N)
             else (let (e, N') = emit E ''run''
                         [(''state'', JStr (if oe_type event = ''session.step.failed'' then ''step_failed''
                                            else ''step_finished'')),
                          (''reason'', obj_get data ''finish'')]
                         (session_override sessionID) N
                   in ([e], N')));
          (out, N2) = normalizeOpenCodeMessage E (JObj message) sessionID opts N1
      in (out\<lparr>nv_events := es @ nv_events out\<rparr>, N2))"

definition on_compaction ::
    "norm_env \<Rightarrow> oc_event \<Rightarrow> obj \<Rightarrow> string \<Rightarrow> normalize_options \<Rightarrow> normalization \<Rightarrow>
     normalized_events \<times> normalization" where
  "on_compaction E event data sessionID opts N =
     (let running = (oe_type event = ''session.compaction.started'');
          knownId = map_of (nz_activeCompactions N) sessionID;
          fresh = stringValue_or (obj_get data ''inputID'') (message_id_of_event (oe_id event));
          mid = (if running then fresh else (case knownId of Some k \<Rightarrow> k | None \<Rightarrow> fresh));
          key = pair_key sessionID mid;
          previous = lookup (nz_messages N) key;
          message = obj_spread (obj_spread previous data)
            [(''id'', JStr mid), (''type'', JStr ''compaction''),
             (''status'', JStr (if running then ''running''
                                else if oe_type event = ''session.compaction.failed'' then ''failed''
                                else ''completed'')),
             (''time'', if obj_get (obj_of (obj_get previous ''time'')) ''created'' = Undef
                        then JObj [(''created'', JNum (Fin (oe_created event)))] else obj_get previous ''time'')];
          (out, N1) = normalizeOpenCodeMessage E (JObj message) sessionID (opts\<lparr>no_streamed := True\<rparr>) N
      in (out, if \<not> running \<and> opt_nonempty knownId = None
               then N1\<lparr>nz_unmatchedCompactions := set_add key (nz_unmatchedCompactions N1)\<rparr> else N1))"

definition on_text ::
    "norm_env \<Rightarrow> oc_event \<Rightarrow> obj \<Rightarrow> string \<Rightarrow> string \<Rightarrow> normalization \<Rightarrow> normalized_events \<times> normalization" where
  "on_text E event data sessionID messageID N =
     (let phase = (if prefix ''session.text.'' (oe_type event) then ''text'' else ''reasoning'');
          partId = part_id sessionID messageID phase (js_text (obj_get data ''ordinal''));
          previous = (case map_of (nz_partSnapshots N) partId of Some (TextPart t) \<Rightarrow> t | _ \<Rightarrow> []);
          txt = (case obj_get data ''text'' of
                   JStr t \<Rightarrow> t | _ \<Rightarrow> previous @ stringValue_or (obj_get data ''delta'') [])
      in normalizeText E partId txt phase sessionID (obj_get data ''delta'') N)"

definition truthy_entry :: "string \<Rightarrow> obj \<Rightarrow> obj" where
  "truthy_entry k data = (if truthy (obj_get data k) then [(k, obj_get data k)] else [])"

definition on_tool ::
    "norm_env \<Rightarrow> oc_event \<Rightarrow> obj \<Rightarrow> string \<Rightarrow> string \<Rightarrow> normalization \<Rightarrow> normalized_events \<times> normalization" where
  "on_tool E event data sessionID messageID N =
     (let created = JNum (Fin (oe_created event));
          previous = (case map_of (nz_tools N) (tool_key sessionID messageID (obj_get data ''id'')) of
                        Some t \<Rightarrow> t
                      | None \<Rightarrow> [(''id'', obj_get data ''id''), (''name'', obj_get data ''name''),
                                (''time'', JObj [(''created'', created)])]);
          oldState = obj_of (obj_get previous ''state'');
          failed = (oe_type event = ''session.tool.failed'');
          finished = (oe_type event = ''session.tool.success'' \<or> failed);
          state = obj_spread oldState
            ([(''status'', JStr (if finished then (if failed then ''error'' else ''completed'') else ''running''))] @
             truthy_entry ''input'' data @ truthy_entry ''content'' data @ truthy_entry ''error'' data @
             (case as_record (obj_get data ''metadata'') of
                None \<Rightarrow> []
              | Some m \<Rightarrow> [(''metadata'', JObj (obj_spread (obj_of (obj_get oldState ''metadata'')) m))]));
          tool = obj_spread previous
            [(''type'', JStr ''tool''), (''state'', JObj state),
             (''time'', JObj (obj_spread (obj_of (obj_get previous ''time''))
                (if finished then [(''completed'', created)]
                 else if oe_type event = ''session.tool.called'' then [(''ran'', created)] else [])))];
          (es, N1) = normalizeTool E tool sessionID messageID N
      in (just_events es, N1))"

definition permission_reason :: string where
  "permission_reason = ''OpenCode permission request cannot be handled in headless mode''"

definition on_permission ::
    "norm_env \<Rightarrow> obj \<Rightarrow> string \<Rightarrow> bool \<Rightarrow> normalization \<Rightarrow> normalized_events \<times> normalization" where
  "on_permission E data sessionID isRoot N =
     (let ov = session_override sessionID;
          (e1, N1) = emit E ''policy'' (obj_spread [(''state'', JStr ''permission_requested'')] data) ov N;
          (e2, N2) = emit E ''error'' [(''message'', JStr permission_reason)] ov N1
      in (if isRoot then (just_events [e1, e2])\<lparr>nv_outcome := Some Failed, nv_reason := Some permission_reason\<rparr>
          else just_events [e1, e2], N2))"

definition dispatch_event ::
    "norm_env \<Rightarrow> oc_event \<Rightarrow> normalize_options \<Rightarrow> normalization \<Rightarrow> normalized_events \<times> normalization" where
  "dispatch_event E event opts N =
     (let data = obj_of (oe_data event);
          sessionID = (case eventSessionId event of None \<Rightarrow> nz_rootSessionId N | Some s \<Rightarrow> s);
          isRoot = (sessionID = nz_rootSessionId N);
          messageID = stringValue_or (obj_get data ''assistantMessageID'') [];
          type = oe_type event
      in if type = ''session.created'' then
           (if isRoot then (no_events, N)
            else (let (e, N1) = emit E ''run'' [(''state'', JStr ''child_session_started'')]
                        (session_override sessionID)
                        (N\<lparr>nz_announcedSessions := set_add sessionID (nz_announcedSessions N)\<rparr>)
                  in (just_events [e], N1)))
         else if type = ''session.execution.started'' then on_execution_started E event sessionID isRoot N
         else if type \<in> {''session.execution.succeeded'', ''session.execution.failed'', ''session.execution.interrupted''}
         then on_execution_ended E event data sessionID isRoot N
         else if type \<in> {''session.status'', ''session.idle''} then on_status E event data sessionID isRoot N
         else if type = ''session.step.started'' then on_step_started E data sessionID messageID opts N
         else if type \<in> {''session.step.ended'', ''session.step.failed''}
         then on_step_ended E event data sessionID messageID opts N
         else if type \<in> {''session.compaction.started'', ''session.compaction.ended'', ''session.compaction.failed''}
         then on_compaction E event data sessionID opts N
         else if type \<in> {''session.text.started'', ''session.text.delta'', ''session.text.ended'',
                ''session.reasoning.started'', ''session.reasoning.delta'', ''session.reasoning.ended''}
         then on_text E event data sessionID messageID N
         else if type \<in> {''session.tool.input.started'', ''session.tool.input.ended'', ''session.tool.called'',
                ''session.tool.progress'', ''session.tool.success'', ''session.tool.failed''}
         then on_tool E event data sessionID messageID N
         else if type = ''permission.asked'' then on_permission E data sessionID isRoot N
         else (no_events, N))"

definition normalizeOpenCodeEvent ::
    "norm_env \<Rightarrow> oc_event \<Rightarrow> normalize_options \<Rightarrow> normalization \<Rightarrow> normalized_events \<times> normalization" where
  "normalizeOpenCodeEvent E event opts N0 =
     (let (mine, N1) = isSessionEvent event N0
      in if \<not> mine \<or> oe_id event \<in> set (nz_seenEvents N1) then (no_events, N1)
         else dispatch_event E event opts
                (foldOpenCodeEvent event (N1\<lparr>nz_seenEvents := set_add (oe_id event) (nz_seenEvents N1)\<rparr>)))"

end
