(* ===== verification/Normalizer_Facts.thy ===== *)
theory Normalizer_Facts
  imports Normalizer_Events Projection_Facts
begin

text \<open>
  What the operations of the normalizer leave alone, and that the usage events of any sequence of
  operations tell a usage ledger exactly what the snapshots of the messages add up to.
\<close>

section \<open>What text, tool and lifecycle events leave alone\<close>

definition core ::
    "normalization \<Rightarrow>
     ((string \<times> usage_snapshot) list \<times> (string \<times> usage_snapshot) list \<times> (string \<times> obj) list \<times> bool) \<times>
     (string \<times> string) \<times> string list \<times> (string list \<times> (string \<times> string) list) \<times> string list" where
  "core N =
     ((nz_usageSnapshots N, nz_retiredBuckets N, nz_messages N, nz_recoveryIncomplete N),
      (nz_rootSessionId N, nz_requestedModel N), nz_countedMessages N, (nz_sessionIds N, nz_sessionParents N),
      nz_seenEvents N)"

definition no_usage :: "rehor_event list \<Rightarrow> bool" where
  "no_usage es \<longleftrightarrow> list_all (\<lambda>e. ev_kind e \<noteq> ''usage'') es"

lemma no_usage_simps [simp]:
  "no_usage []" "no_usage (e # es) \<longleftrightarrow> ev_kind e \<noteq> ''usage'' \<and> no_usage es"
  "no_usage (es @ es') \<longleftrightarrow> no_usage es \<and> no_usage es'"
  by (simp_all add: no_usage_def)

text \<open>A step that emits no usage and keeps the core.\<close>

definition plain :: "normalization \<Rightarrow> rehor_event list \<times> normalization \<Rightarrow> bool" where
  "plain N out \<longleftrightarrow> no_usage (fst out) \<and> core (snd out) = core N"

lemma emit_kind [simp]: "ev_kind (fst (emit E k p ov N)) = k"
  by (simp add: emit_def createEvent_def Let_def)

lemma emit_core [simp]: "core (snd (emit E k p ov N)) = core N"
  by (simp add: emit_def createEvent_def core_def Let_def)

lemma emit_split: "emit E k p ov N = (e, N') \<Longrightarrow> ev_kind e = k \<and> core N' = core N"
  using emit_kind [of E k p ov N] emit_core [of E k p ov N] by simp

lemma plain_text: "plain N (nv_events (fst (normalizeText E i t ph s d N)), snd (normalizeText E i t ph s d N))"
  unfolding normalizeText_def Let_def
  by (auto simp: plain_def no_events_def just_events_def core_def dest!: emit_split split: prod.split)

lemma plain_if: "plain N x \<Longrightarrow> plain N y \<Longrightarrow> plain N (if b then x else y)"
  by simp

lemma plain_emit:
  assumes "core N1 = core N" "k \<noteq> ''usage''" "\<And>e N'. core (g e N') = core N'"
  shows "plain N (case emit E k p ov N1 of (e, N') \<Rightarrow> ([e], g e N'))"
  using assms by (auto simp: plain_def dest!: emit_split split: prod.split)

lemma plain_same: "core N1 = core N \<Longrightarrow> plain N ([], N1)"
  by (simp add: plain_def)

lemma plain_single: "plain N (normalizeSingleTool E part s m nested N)"
  unfolding normalizeSingleTool_def Let_def
  by (rule plain_if [OF plain_same plain_if [OF plain_same plain_emit]]) (simp_all add: core_def)

lemma plain_then: "plain N (es, N1) \<Longrightarrow> plain N1 (es', N2) \<Longrightarrow> plain N (es @ es', N2)"
  by (simp add: plain_def)

lemma plain_Nil [simp]: "plain N ([], N)"
  by (simp add: plain_def)

lemma plain_single_eq: "normalizeSingleTool E part s m nested N = (es, N') \<Longrightarrow> plain N (es, N')"
  using plain_single by metis

lemma plain_call: "plain N (emit_call E outer s m i row ord b N)"
  unfolding emit_call_def Let_def
  by (auto simp: plain_single intro!: plain_then dest!: plain_single_eq split: prod.split)

lemma plain_call_eq: "emit_call E outer s m i row ord b N = (es, N') \<Longrightarrow> plain N (es, N')"
  using plain_call by metis

lemma plain_native:
  "emit_native E outer s m bridge rows used C N = (es, used', C', N') \<Longrightarrow> plain N (es, N')"
proof (induction rows arbitrary: used C N es used' C' N')
  case (Cons ir rows)
  obtain index row where ir: "ir = (index, row)" by (cases ir)
  from Cons.prems show ?case
    unfolding ir emit_native.simps Let_def
    by (auto intro!: plain_then dest!: plain_call_eq Cons.IH split: prod.splits)
qed simp

lemma plain_bridge: "emit_bridge E outer s m rows used C N = (es, C', N') \<Longrightarrow> plain N (es, N')"
proof (induction rows arbitrary: C N es C' N')
  case (Cons row rows)
  from Cons.prems show ?case
    unfolding emit_bridge.simps Let_def
    by (auto intro!: plain_then dest!: plain_call_eq Cons.IH split: prod.splits if_splits)
qed simp

lemma plain_codes: "plain N (es, N'\<lparr>nz_codeMode := codes\<rparr>) \<longleftrightarrow> plain N (es, N')"
  by (simp add: plain_def core_def)

lemma plain_code_mode: "plain N (normalizeCodeMode E part s m N)"
  unfolding normalizeCodeMode_def Let_def
  by (auto simp: plain_codes intro!: plain_then dest!: plain_native plain_bridge split: prod.split)

lemma plain_tool: "plain N (normalizeTool E part s m N)"
proof -
  have code: "normalizeCodeMode E part s m N' = (es, N2) \<Longrightarrow> plain N' (es, N2)" for N' es N2
    using plain_code_mode by metis
  show ?thesis
    unfolding normalizeTool_def Let_def
    by (auto simp: plain_single intro!: plain_then dest!: plain_single_eq code split: prod.split)
qed

lemma plain_content: "plain N (normalizeContent E vs s m t r N)"
proof (induction vs arbitrary: t r N)
  case (Cons v vs)
  have part: "normalizeText E i x ph s d M = (out, M1) \<Longrightarrow> plain M (nv_events out, M1)" for i x ph d M out M1
    using plain_text [of M E i x ph s d] by simp
  have tool: "normalizeTool E p s m M = (es, M1) \<Longrightarrow> plain M (es, M1)" for p M es M1
    using plain_tool by metis
  have rest: "normalizeContent E vs s m t r M = (es, M1) \<Longrightarrow> plain M (es, M1)" for t r M es M1
    using Cons.IH by metis
  show ?case
    by (auto simp: Let_def Cons.IH intro!: plain_then dest!: part tool rest split: prod.split)
qed simp

end
