(* ===== verification/Normalizer_Usage.thy ===== *)
theory Normalizer_Usage
  imports Normalizer_Facts
begin

text \<open>
  The usage accounting of the normalizer. A usage ledger that has recorded the usage events emitted so
  far states for every bucket the sums over the current snapshots of the bucket's messages; every
  operation of the normalizer keeps that.
\<close>

section \<open>What a ledger entry states\<close>

definition counts_of :: "native_tokens \<Rightarrow> token_counts" where
  "counts_of t =
     \<lparr>tc_input = Some (nt_input t), tc_output = Some (nt_output t), tc_reasoning = Some (nt_reasoning t),
      tc_cacheRead = Some (nt_cacheRead t), tc_cacheWrite = Some (nt_cacheWrite t)\<rparr>"

definition token_sum :: "usage_snapshot list \<Rightarrow> native_tokens" where
  "token_sum ss = fold add_tokens (map sp_tokenCounts ss) no_tokens"

definition amount_sum :: "usage_snapshot list \<Rightarrow> rat" where
  "amount_sum ss = sum_list (map snapshot_amount ss)"

definition states :: "usage_snapshot list \<Rightarrow> bool \<Rightarrow> usage \<Rightarrow> bool" where
  "states ss uncovered u \<longleftrightarrow>
     us_tokenCounts u = counts_of (token_sum ss) \<and> known_amount u = amount_sum ss \<and>
     (ss \<noteq> [] \<longrightarrow>
        us_final u = list_all sp_completed ss \<and> us_partial u = (\<not> list_all sp_completed ss) \<and>
        us_incomplete u =
          (\<not> list_all sp_completed ss \<or> uncovered \<or> list_ex (\<lambda>c. \<not> sp_valid c \<or> sp_cost c = None) ss) \<and>
        has_known_cost u = list_ex (\<lambda>c. sp_cost c \<noteq> None) ss)"

definition bucket_settled :: "normalization \<Rightarrow> usage_ledger \<Rightarrow> string \<Rightarrow> bool" where
  "bucket_settled N L b \<longleftrightarrow>
     (case map_of L b of
        None \<Rightarrow> bucket b N = []
      | Some u \<Rightarrow> states (bucket b N) (nz_recoveryIncomplete N) u)"

lemma settled_cong:
  "bucket b N' = bucket b N \<Longrightarrow> nz_recoveryIncomplete N' = nz_recoveryIncomplete N \<Longrightarrow>
     map_of L' b = map_of L b \<Longrightarrow> bucket_settled N' L' b = bucket_settled N L b"
  by (simp add: bucket_settled_def split: option.split)

lemma bucket_core: "nz_usageSnapshots N' = nz_usageSnapshots N \<Longrightarrow> bucket b N' = bucket b N"
  by (simp add: bucket_def)

lemma settled_core: "core N' = core N \<Longrightarrow> bucket_settled N' L b = bucket_settled N L b"
  by (rule settled_cong [OF bucket_core]) (simp_all add: core_def)

section \<open>Usage events\<close>

lemma nat_of_number [simp]: "nat_of (JNum (Fin (of_nat n))) = n"
  by (simp add: nat_of_def)

lemma tokens_obj_counts: "token_counts_of (tokens_obj t) = counts_of t"
  by (simp add: token_counts_of_def tokens_obj_def counts_of_def opt_nat_def js_simps)

definition row_usage :: "usage_snapshot \<Rightarrow> normalization \<Rightarrow> usage" where
  "row_usage s N = usage_of_payload (usage_payload s N)"

lemma amount_none: "\<not> list_ex (\<lambda>s. sp_cost s \<noteq> None) ss \<Longrightarrow> amount_sum ss = 0"
  by (induction ss) (auto simp: amount_sum_def snapshot_amount_def)

lemma bucket_cost_cases:
  "bucket_cost N ss = [] \<and> amount_sum ss = 0 \<and> \<not> list_ex (\<lambda>s. sp_cost s \<noteq> None) ss \<or>
   (\<exists>pr. bucket_cost N ss = [(''cost'', JObj ([(''amount'', JNum (Fin (amount_sum ss))),
       (''currency'', JStr ''USD''), (''source'', JStr ''estimated'')] @ opt_entry ''pricing'' pr))] \<and>
     (ss \<noteq> [] \<longrightarrow> list_ex (\<lambda>s. sp_cost s \<noteq> None) ss))"
  using amount_none [of ss]
  by (auto simp: bucket_cost_def Let_def amount_sum_def)

lemma payload_fields:
  fixes c r m x t p f e i
  defines "ob \<equiv> [(''requestedModel'', r), (''modelKey'', m)] @ opt_entry ''returnedModel'' x @
    [(''tokenCounts'', t), (''partial'', p), (''final'', f), (''estimated'', e), (''incomplete'', i)] @ c"
  shows "obj_get ob ''modelKey'' = m" "obj_get ob ''tokenCounts'' = t" "obj_get ob ''partial'' = p"
    "obj_get ob ''final'' = f" "obj_get ob ''incomplete'' = i" "obj_get ob ''cost'' = obj_get c ''cost''"
  by (simp_all add: ob_def js_simps)

lemma row_usage_fields:
  defines "ss \<equiv> \<lambda>s N. bucket (sp_bucketModel s) N"
  shows "us_modelKey (row_usage s N) = Some (sp_bucketModel s)"
    "us_tokenCounts (row_usage s N) = counts_of (token_sum (ss s N))"
    "us_partial (row_usage s N) = (\<not> list_all sp_completed (ss s N))"
    "us_final (row_usage s N) = list_all sp_completed (ss s N)"
    "us_incomplete (row_usage s N) =
      (\<not> list_all sp_completed (ss s N) \<or> nz_recoveryIncomplete N \<or>
        list_ex (\<lambda>c. \<not> sp_valid c \<or> sp_cost c = None) (ss s N))"
    "us_cost (row_usage s N) = map_option usage_cost_of (as_record (obj_get (bucket_cost N (ss s N)) ''cost''))"
  unfolding row_usage_def usage_of_payload_def usage_payload_def Let_def
  by (simp_all only: usage.simps payload_fields)
    (simp_all add: ss_def token_sum_def tokens_obj_counts obj_of_def)

lemma row_usage_key:
  assumes "sp_bucketModel s \<noteq> []"
  shows "usage_key (row_usage s N) = sp_bucketModel s" "overrides_previous (row_usage s N) p"
  using assms by (simp_all add: usage_key_def overrides_previous_def row_usage_fields)

lemma cost_of_bucket:
  "obj_get (bucket_cost N ss) ''cost'' = Undef \<and> amount_sum ss = 0 \<and> \<not> list_ex (\<lambda>s. sp_cost s \<noteq> None) ss \<or>
   (\<exists>ob. obj_get (bucket_cost N ss) ''cost'' = JObj ob \<and> rat_of (obj_get ob ''amount'') = amount_sum ss \<and>
      obj_get ob ''source'' = JStr ''estimated'' \<and> (ss \<noteq> [] \<longrightarrow> list_ex (\<lambda>s. sp_cost s \<noteq> None) ss))"
  using bucket_cost_cases [of N ss] by (elim disjE conjE exE) (simp_all add: js_simps)

lemma row_usage_cost:
  assumes "us_cost u = map_option usage_cost_of (as_record v)"
    and "v = Undef \<and> a = 0 \<and> \<not> known \<or>
      (\<exists>ob. v = JObj ob \<and> rat_of (obj_get ob ''amount'') = a \<and>
         obj_get ob ''source'' = JStr ''estimated'' \<and> (full \<longrightarrow> known))"
  shows "known_amount u = a \<and> (full \<longrightarrow> has_known_cost u = known)"
  using assms
  by (elim disjE conjE exE) (simp_all add: known_amount_def has_known_cost_def usage_cost_of_def cost_source_of_def)

lemma row_usage_states: "states (bucket (sp_bucketModel s) N) (nz_recoveryIncomplete N) (row_usage s N)"
  unfolding states_def row_usage_fields
  using row_usage_cost [OF row_usage_fields(6) cost_of_bucket] by (intro conjI impI HOL.refl) blast+

text \<open>Reporting rows: what is recorded, and what stays.\<close>

lemma snapshotUsage_split:
  "snapshotUsage E s i p N = (e, N') \<Longrightarrow>
     ev_kind e = ''usage'' \<and> ev_payload e = usage_payload s N \<and> core N' = core N"
  by (auto simp: snapshotUsage_def emit_def createEvent_def core_def Let_def)

lemma row_usage_core:
  assumes "core N' = core N"
  shows "row_usage s N' = row_usage s N"
proof -
  have "nz_usageSnapshots N' = nz_usageSnapshots N" "nz_recoveryIncomplete N' = nz_recoveryIncomplete N"
    using assms by (simp_all add: core_def)
  then show ?thesis by (simp only: row_usage_def usage_payload_def bucket_cost_def bucket_def)
qed

lemma report_usage_split:
  "report_usage E rows N = (es, N') \<Longrightarrow>
     core N' = core N \<and> usages_of es = map (\<lambda>(_, _, s). row_usage s N) rows"
proof (induction rows arbitrary: N es N')
  case (Cons row rows)
  obtain k i s where row: "row = (k, i, s)" by (cases row)
  obtain e N1 where e: "snapshotUsage E s i (map_of (nz_modelEventIds N) k) N = (e, N1)" by fastforce
  obtain es1 N2 where r: "report_usage E rows N1 = (es1, N2)" by fastforce
  have out: "es = e # es1" "N' = N2" using Cons.prems by (simp_all add: row e r)
  have c: "core N1 = core N" using snapshotUsage_split [OF e] by simp
  have "usages_of es1 = map (\<lambda>(_, _, s). row_usage s N) rows"
    using Cons.IH [OF r] row_usage_core [OF c] by simp
  with out Cons.IH [OF r] c snapshotUsage_split [OF e] show ?case
    by (simp add: row row_usage_def usages_of_Cons [of e es1])
qed (simp add: usages_of_def)

definition row_buckets :: "usage_row list \<Rightarrow> string set" where
  "row_buckets rows = (\<lambda>(_, _, s). sp_bucketModel s) ` set rows"

lemma rows_recorded:
  assumes "\<forall>row \<in> set rows. sp_bucketModel (snd (snd row)) \<noteq> []"
  shows "(b \<in> row_buckets rows \<longrightarrow> bucket_settled N (fold ul_record (map (\<lambda>(_, _, s). row_usage s N) rows) L) b) \<and>
    (b \<notin> row_buckets rows \<longrightarrow> map_of (fold ul_record (map (\<lambda>(_, _, s). row_usage s N) rows) L) b = map_of L b)"
  using assms
proof (induction rows arbitrary: L)
  case (Cons row rows)
  obtain k i s where row: "row = (k, i, s)" by (cases row)
  have s: "sp_bucketModel s \<noteq> []" using Cons.prems by (simp add: row)
  let ?L = "ul_record (row_usage s N) L"
  have here: "?L = AList.update (sp_bucketModel s) (row_usage s N) L"
    using row_usage_key [OF s] by (simp add: ul_record_def)
  have "bucket_settled N ?L (sp_bucketModel s)"
    using row_usage_states [of s N] by (simp add: bucket_settled_def here update_conv')
  moreover have "map_of ?L b = map_of L b" if "b \<noteq> sp_bucketModel s"
    using that by (simp add: here update_conv')
  ultimately show ?case
    using Cons.IH [of ?L] Cons.prems settled_cong [of b N N "fold ul_record (map (\<lambda>(_, _, s). row_usage s N) rows) ?L" ?L]
    by (auto simp: row row_buckets_def)
qed (simp add: row_buckets_def)

lemma report_settles:
  assumes "report_usage E rows N = (es, N')" "\<forall>row \<in> set rows. sp_bucketModel (snd (snd row)) \<noteq> []"
    and "\<And>b. b \<notin> row_buckets rows \<Longrightarrow> bucket_settled N L b"
  shows "bucket_settled N' (fold ul_record (usages_of es) L) b"
proof -
  have c: "core N' = core N" and u: "usages_of es = map (\<lambda>(_, _, s). row_usage s N) rows"
    using report_usage_split [OF assms(1)] by simp_all
  have "bucket_settled N (fold ul_record (usages_of es) L) b"
    using rows_recorded [OF assms(2), of b N L] assms(3) [of b]
      settled_cong [of b N N "fold ul_record (usages_of es) L" L]
    unfolding u by (cases "b \<in> row_buckets rows") auto
  then show ?thesis using settled_core [OF c] by simp
qed

section \<open>Recording the snapshot of a message\<close>

definition in_bucket :: "string \<Rightarrow> (string \<times> usage_snapshot) list \<Rightarrow> usage_snapshot list" where
  "in_bucket b us = filter (\<lambda>s. sp_bucketModel s = b) (map snd us)"

lemma bucket_in: "bucket b N = in_bucket b (nz_usageSnapshots N)"
  by (simp add: bucket_def in_bucket_def)

lemma in_bucket_update:
  "sp_bucketModel s \<noteq> b \<Longrightarrow> (\<And>p. map_of us k = Some p \<Longrightarrow> sp_bucketModel p \<noteq> b) \<Longrightarrow>
     in_bucket b (AList.update k s us) = in_bucket b us"
  by (induction us) (auto simp: in_bucket_def split: if_splits)

lemma in_bucket_delete:
  "distinct (map fst us) \<Longrightarrow> (\<And>p. map_of us k = Some p \<Longrightarrow> sp_bucketModel p \<noteq> b) \<Longrightarrow>
     in_bucket b (AList.delete k us) = in_bucket b us"
proof (induction us)
  case (Cons x us)
  have "AList.delete k us = us" if "k = fst x"
    using Cons.prems(1) that by (simp add: delete_id)
  with Cons show ?case by (auto simp: in_bucket_def split: if_splits)
qed (simp add: in_bucket_def)

lemma in_bucket_member: "map_of us k = Some s \<Longrightarrow> in_bucket (sp_bucketModel s) us \<noteq> []"
  using map_of_SomeD [of us k s] by (force simp: in_bucket_def filter_empty_conv)

definition named_buckets :: "(string \<times> usage_snapshot) list \<Rightarrow> bool" where
  "named_buckets us \<longleftrightarrow> (\<forall>s \<in> snd ` set us. sp_bucketModel s \<noteq> [])"

lemma named_update: "named_buckets us \<Longrightarrow> sp_bucketModel s \<noteq> [] \<Longrightarrow> named_buckets (AList.update k s us)"
  by (induction us) (auto simp: named_buckets_def)

lemma named_delete: "named_buckets us \<Longrightarrow> named_buckets (AList.delete k us)"
  by (induction us) (auto simp: named_buckets_def)

lemma named_lookup: "named_buckets us \<Longrightarrow> map_of us k = Some s \<Longrightarrow> sp_bucketModel s \<noteq> []"
  using map_of_SomeD [of us k s] by (force simp: named_buckets_def)


lemma usage_rows_named:
  assumes "named_buckets (nz_retiredBuckets N)" "sp_bucketModel s \<noteq> []"
    and "\<And>p. previous = Some p \<Longrightarrow> sp_bucketModel p \<noteq> []"
  shows "\<forall>row \<in> set (usage_rows key sid previous s N). sp_bucketModel (snd (snd row)) \<noteq> []"
  using assms by (auto simp: usage_rows_def retired_rows_def named_buckets_def split: option.splits)

lemma row_buckets_simps:
  "row_buckets (a @ b) = row_buckets a \<union> row_buckets b" "row_buckets [(k, i, s)] = {sp_bucketModel s}"
  "row_buckets (retired_rows N) = sp_bucketModel ` snd ` set (nz_retiredBuckets N)"
  by (auto simp: row_buckets_def retired_rows_def image_image case_prod_beta)

lemma usage_rows_buckets:
  "sp_bucketModel s \<in> row_buckets (usage_rows key sid previous s N)"
  "previous = Some p \<Longrightarrow> sp_bucketModel p \<noteq> sp_bucketModel s \<Longrightarrow>
     bucket (sp_bucketModel p) N \<noteq> [] \<or> p \<in> snd ` set (nz_retiredBuckets N) \<Longrightarrow>
     sp_bucketModel p \<in> row_buckets (usage_rows key sid previous s N)"
  by (auto simp: usage_rows_def row_buckets_simps)

lemma retire_frame:
  "nz_usageSnapshots (retire_bucket previous s N) = nz_usageSnapshots N"
  "nz_messages (retire_bucket previous s N) = nz_messages N"
  "nz_recoveryIncomplete (retire_bucket previous s N) = nz_recoveryIncomplete N"
  "nz_countedMessages (retire_bucket previous s N) = nz_countedMessages N"
  "nz_rootSessionId (retire_bucket previous s N) = nz_rootSessionId N"
  "nz_sessionIds (retire_bucket previous s N) = nz_sessionIds N"
  "nz_sessionParents (retire_bucket previous s N) = nz_sessionParents N"
  "nz_seenEvents (retire_bucket previous s N) = nz_seenEvents N"
  by (simp_all add: retire_bucket_def Let_def)

lemma retire_named:
  "named_buckets (nz_retiredBuckets N) \<Longrightarrow> (\<And>p. previous = Some p \<Longrightarrow> sp_bucketModel p \<noteq> []) \<Longrightarrow>
     named_buckets (nz_retiredBuckets (retire_bucket previous s N))"
  by (auto simp: retire_bucket_def Let_def intro: named_update named_delete split: option.split)

lemma retire_member:
  assumes "previous = Some p" "sp_bucketModel p \<noteq> sp_bucketModel s" "bucket (sp_bucketModel p) N = []"
  shows "p \<in> snd ` set (nz_retiredBuckets (retire_bucket previous s N))"
proof -
  have "map_of (nz_retiredBuckets (retire_bucket previous s N)) (sp_bucketModel p) = Some p"
    using assms by (simp add: retire_bucket_def Let_def update_conv')
  then show ?thesis by (force dest: map_of_SomeD)
qed

text \<open>
  The bucket of a snapshot that is stored for the first time may have been left unsettled: its own
  row settles it.
\<close>

lemma record_usage_settles:
  assumes run: "record_usage E key sid s N = (es, N')" and s: "sp_bucketModel s \<noteq> []"
    and named: "named_buckets (nz_retiredBuckets N)" "named_buckets (nz_usageSnapshots N)"
    and bucket_settled: "\<And>b. bucket_settled N L b \<or> b = sp_bucketModel s \<and> map_of (nz_usageSnapshots N) key = None"
  shows "bucket_settled N' (fold ul_record (usages_of es) L) b"
proof -
  let ?prev = "map_of (nz_usageSnapshots N) key"
  let ?N1 = "N\<lparr>nz_usageSnapshots := AList.update key s (nz_usageSnapshots N)\<rparr>"
  let ?N2 = "retire_bucket ?prev s ?N1"
  show ?thesis
  proof (cases "?prev = Some s")
    case True
    with run have "es = []" "N' = N" by (simp_all add: record_usage_def update_triv)
    with bucket_settled [of b] True show ?thesis by (simp add: usages_of_def)
  next
    case False
    have p: "sp_bucketModel p \<noteq> []" if "?prev = Some p" for p by (rule named_lookup [OF named(2) that])
    have report: "report_usage E (usage_rows key sid ?prev s ?N2) ?N2 = (es, N')"
      using run False by (simp add: record_usage_def Let_def)
    show ?thesis
    proof (rule report_settles [OF report])
      show "\<forall>row \<in> set (usage_rows key sid ?prev s ?N2). sp_bucketModel (snd (snd row)) \<noteq> []"
        by (rule usage_rows_named [OF retire_named s p]) (use named(1) p in simp_all)
    next
      fix c
      assume c: "c \<notin> row_buckets (usage_rows key sid ?prev s ?N2)"
      then have cs: "c \<noteq> sp_bucketModel s" using usage_rows_buckets(1) by metis
      have cp: "c \<noteq> sp_bucketModel p" if "?prev = Some p" for p
      proof
        assume cp: "c = sp_bucketModel p"
        with cs have ne: "sp_bucketModel p \<noteq> sp_bucketModel s" by simp
        have "bucket (sp_bucketModel p) ?N2 = bucket (sp_bucketModel p) ?N1"
          by (rule bucket_core) (simp add: retire_frame)
        then have "bucket (sp_bucketModel p) ?N2 \<noteq> [] \<or> p \<in> snd ` set (nz_retiredBuckets ?N2)"
          using retire_member [OF that ne, of ?N1] by (simp add: that)
        with usage_rows_buckets(2) [OF that ne] c cp show False by blast
      qed
      have "bucket c ?N2 = bucket c N"
        using in_bucket_update [OF cs [symmetric] cp [symmetric]] by (simp add: bucket_in retire_frame)
      moreover have "bucket_settled N L c" using bucket_settled [of c] cs by simp
      ultimately show "bucket_settled ?N2 L c"
        using settled_cong [of c ?N2 N L L] by (simp add: retire_frame)
    qed
  qed
qed

section \<open>The invariant of the snapshots\<close>

text \<open>
  Every snapshot belongs to a stored message, and its bucket is that of the message's model, except
  for the keys of \<open>X\<close>, whose messages have changed since.
\<close>

definition message_bucket :: "obj \<Rightarrow> string" where
  "message_bucket m = bucket_model (obj_of (obj_get m ''model''))"

definition usage_inv :: "string set \<Rightarrow> normalization \<Rightarrow> bool" where
  "usage_inv X N \<longleftrightarrow>
     distinct (map fst (nz_usageSnapshots N)) \<and> named_buckets (nz_usageSnapshots N) \<and>
     named_buckets (nz_retiredBuckets N) \<and>
     (\<forall>k s. map_of (nz_usageSnapshots N) k = Some s \<longrightarrow>
        (\<exists>m. map_of (nz_messages N) k = Some m \<and> (k \<notin> X \<longrightarrow> message_bucket m = sp_bucketModel s)))"

lemma usage_inv_lookup:
  assumes "usage_inv X N" "map_of (nz_usageSnapshots N) k = Some s"
  shows "\<exists>m. map_of (nz_messages N) k = Some m \<and> (k \<notin> X \<longrightarrow> message_bucket m = sp_bucketModel s)"
  using assms unfolding usage_inv_def by blast

lemma usage_inv_intro:
  assumes "distinct (map fst (nz_usageSnapshots N))" "named_buckets (nz_usageSnapshots N)"
    and "named_buckets (nz_retiredBuckets N)"
    and "\<And>k s. map_of (nz_usageSnapshots N) k = Some s \<Longrightarrow>
      \<exists>m. map_of (nz_messages N) k = Some m \<and> (k \<notin> X \<longrightarrow> message_bucket m = sp_bucketModel s)"
  shows "usage_inv X N"
  using assms unfolding usage_inv_def by blast

lemma usage_inv_core: "core N' = core N \<Longrightarrow> usage_inv X N' = usage_inv X N"
  by (simp add: usage_inv_def core_def)

lemma usage_inv_mono: "usage_inv X N \<Longrightarrow> X \<subseteq> Y \<Longrightarrow> usage_inv Y N"
  unfolding usage_inv_def by blast

lemma bucket_model_named: "bucket_model m \<noteq> []"
  by (simp add: bucket_model_def split: jsval.split)

lemma usages_none: "no_usage es \<Longrightarrow> usages_of es = []"
  by (simp add: usages_of_def no_usage_def filter_empty_conv list_all_iff)

lemma record_usage_frame:
  assumes "record_usage E key sid s N = (es, N')"
    and "named_buckets (nz_retiredBuckets N)" "named_buckets (nz_usageSnapshots N)"
  shows "nz_usageSnapshots N' = AList.update key s (nz_usageSnapshots N) \<and> nz_messages N' = nz_messages N \<and>
    named_buckets (nz_retiredBuckets N') \<and> nz_recoveryIncomplete N' = nz_recoveryIncomplete N \<and>
    nz_countedMessages N' = nz_countedMessages N \<and> nz_rootSessionId N' = nz_rootSessionId N \<and>
    nz_sessionIds N' = nz_sessionIds N \<and> nz_sessionParents N' = nz_sessionParents N \<and>
    nz_seenEvents N' = nz_seenEvents N"
proof (cases "map_of (nz_usageSnapshots N) key = Some s")
  case True
  with assms show ?thesis by (auto simp: record_usage_def)
next
  case False
  let ?prev = "map_of (nz_usageSnapshots N) key"
  let ?N2 = "retire_bucket ?prev s (N\<lparr>nz_usageSnapshots := AList.update key s (nz_usageSnapshots N)\<rparr>)"
  have "core N' = core ?N2"
    using assms(1) False report_usage_split by (simp add: record_usage_def Let_def)
  moreover have "named_buckets (nz_retiredBuckets ?N2)"
    by (rule retire_named) (use assms(2,3) named_lookup in auto)
  ultimately show ?thesis by (simp add: core_def retire_frame)
qed

lemma record_usage_inv:
  assumes "record_usage E key sid s N = (es, N')" "usage_inv X N" "X \<subseteq> {key}"
    and "map_of (nz_messages N) key = Some m" "message_bucket m = sp_bucketModel s" "sp_bucketModel s \<noteq> []"
  shows "usage_inv {} N'"
proof -
  have named: "named_buckets (nz_retiredBuckets N)" "named_buckets (nz_usageSnapshots N)"
    using assms(2) by (simp_all add: usage_inv_def)
  have fr: "nz_usageSnapshots N' = AList.update key s (nz_usageSnapshots N)" "nz_messages N' = nz_messages N"
    "named_buckets (nz_retiredBuckets N')"
    using record_usage_frame [OF assms(1) named] by simp_all
  show ?thesis
  proof (rule usage_inv_intro)
    show "distinct (map fst (nz_usageSnapshots N'))" "named_buckets (nz_usageSnapshots N')"
      using assms(2) by (simp_all add: fr usage_inv_def distinct_update named_update assms(6))
  next
    fix k s'
    assume k: "map_of (nz_usageSnapshots N') k = Some s'"
    show "\<exists>m. map_of (nz_messages N') k = Some m \<and> (k \<notin> {} \<longrightarrow> message_bucket m = sp_bucketModel s')"
    proof (cases "k = key")
      case True
      with k assms(4,5) show ?thesis by (simp add: fr update_conv')
    next
      case False
      with k have "map_of (nz_usageSnapshots N) k = Some s'" by (simp add: fr update_conv')
      from usage_inv_lookup [OF assms(2) this] False assms(3) show ?thesis by (auto simp: fr)
    qed
  qed (rule fr(3))
qed

lemma strict_eq_eq: "strict_eq a b \<Longrightarrow> a = b"
  by (induction a b rule: strict_eq.induct) auto

lemma same_compaction_bucket:
  assumes "same_compaction message sid N c" "usage_inv {} N"
  shows "\<exists>s. map_of (nz_usageSnapshots N) c = Some s \<and> sp_bucketModel s = message_bucket message"
proof -
  obtain s where s: "map_of (nz_usageSnapshots N) c = Some s"
    using assms(1) by (auto simp: same_compaction_def Let_def split: option.splits)
  then obtain m where m: "map_of (nz_messages N) c = Some m" "message_bucket m = sp_bucketModel s"
    using usage_inv_lookup [OF assms(2)] by blast
  have "obj_get (obj_of (obj_get m ''model'')) k = obj_get (obj_of (obj_get message ''model'')) k"
    if "k = ''providerID'' \<or> k = ''id''" for k
    using assms(1) s m(1) that by (auto simp: same_compaction_def lookup_def Let_def dest!: strict_eq_eq)
  then have "message_bucket m = message_bucket message"
    unfolding message_bucket_def bucket_model_def by (simp only: simp_thms)
  with s m show ?thesis by auto
qed

lemma adopt_inv:
  assumes "usage_inv {} N"
  shows "usage_inv {} (adopt_compaction c key N)"
proof (rule usage_inv_intro)
  fix k s
  assume "map_of (nz_usageSnapshots (adopt_compaction c key N)) k = Some s"
  then have "k \<noteq> c" "map_of (nz_usageSnapshots N) k = Some s"
    by (auto simp: adopt_compaction_def delete_conv' split: if_splits)
  with usage_inv_lookup [OF assms this(2)]
  show "\<exists>m. map_of (nz_messages (adopt_compaction c key N)) k = Some m \<and>
      (k \<notin> {} \<longrightarrow> message_bucket m = sp_bucketModel s)"
    by (simp add: adopt_compaction_def delete_conv')
qed (use assms in \<open>simp_all add: adopt_compaction_def usage_inv_def named_delete distinct_delete\<close>)

lemma settle_compaction_usage:
  fixes message mid key sid live
  assumes inv: "usage_inv {} N" and set: "\<And>b. bucket_settled N L b"
  defines "N1 \<equiv> settle_compaction message mid key sid live N"
  shows "usage_inv {} N1"
    "bucket_settled N1 L b \<or> b = message_bucket message \<and> map_of (nz_usageSnapshots N1) key = None"
proof -
  let ?N = "N\<lparr>nz_unmatchedCompactions := removeAll key (nz_unmatchedCompactions N)\<rparr>"
  have core: "core ?N = core N" by (simp add: core_def)
  have drop: "core (M\<lparr>nz_activeCompactions := xs\<rparr>) = core M" for M xs by (simp add: core_def)
  show "usage_inv {} N1" "bucket_settled N1 L b \<or> b = message_bucket message \<and> map_of (nz_usageSnapshots N1) key = None"
  proof (atomize (full), cases "live \<or> map_of (nz_messages N) key \<noteq> None \<or>
      find (same_compaction message sid ?N) (nz_unmatchedCompactions ?N) = None")
    case True
    then have "core N1 = core N"
      unfolding N1_def settle_compaction_def Let_def by (auto simp: core_def)
    with inv set [of b] show "usage_inv {} N1 \<and>
        (bucket_settled N1 L b \<or> b = message_bucket message \<and> map_of (nz_usageSnapshots N1) key = None)"
      using usage_inv_core settled_core by blast
  next
    case False
    then obtain c where find: "find (same_compaction message sid ?N) (nz_unmatchedCompactions ?N) = Some c"
      and new: "\<not> live" "map_of (nz_messages N) key = None" by auto
    from find have c: "same_compaction message sid ?N c" by (auto simp: find_Some_iff)
    then obtain s where s: "map_of (nz_usageSnapshots N) c = Some s" "sp_bucketModel s = message_bucket message"
      using same_compaction_bucket [OF c] inv usage_inv_core [OF core] by auto
    have N1: "core N1 = core (adopt_compaction c key ?N)"
      unfolding N1_def settle_compaction_def Let_def using new find by (simp add: drop)
    have inv1: "usage_inv {} N1"
      using adopt_inv [of ?N c key] inv usage_inv_core [OF N1] usage_inv_core [OF core] by simp
    have "map_of (nz_usageSnapshots N) key = None"
    proof (rule ccontr)
      assume "map_of (nz_usageSnapshots N) key \<noteq> None"
      then obtain s' where "map_of (nz_usageSnapshots N) key = Some s'" by blast
      from usage_inv_lookup [OF inv this] new(2) show False by simp
    qed
    then have none: "map_of (nz_usageSnapshots N1) key = None"
      using N1 by (simp add: core_def adopt_compaction_def delete_conv')
    have "bucket_settled N1 L b" if "b \<noteq> message_bucket message"
    proof -
      have "in_bucket b (AList.delete c (nz_usageSnapshots N)) = in_bucket b (nz_usageSnapshots N)"
        by (rule in_bucket_delete) (use inv s that in \<open>auto simp: usage_inv_def\<close>)
      then have "bucket b N1 = bucket b N" "nz_recoveryIncomplete N1 = nz_recoveryIncomplete N"
        using N1 by (simp_all add: bucket_in core_def adopt_compaction_def)
      with set [of b] settled_cong [of b N1 N L L] show ?thesis by simp
    qed
    with inv1 none show "usage_inv {} N1 \<and>
        (bucket_settled N1 L b \<or> b = message_bucket message \<and> map_of (nz_usageSnapshots N1) key = None)" by blast
  qed
qed

section \<open>Whole messages\<close>

definition good :: "normalization \<Rightarrow> usage_ledger \<Rightarrow> bool" where
  "good N L \<longleftrightarrow> usage_inv {} N \<and> (\<forall>b. bucket_settled N L b)"

text \<open>What the ledger becomes by the usage events of a list.\<close>

definition told :: "rehor_event list \<Rightarrow> usage_ledger \<Rightarrow> usage_ledger" where
  "told es L = fold ul_record (usages_of es) L"

lemma told_append: "told (a @ b) L = told b (told a L)"
  by (simp add: told_def)

lemma told_plain [simp]: "no_usage es \<Longrightarrow> told es L = L"
  by (simp add: told_def usages_none)

lemma good_cong:
  assumes "nz_usageSnapshots N' = nz_usageSnapshots N" "nz_retiredBuckets N' = nz_retiredBuckets N"
    and "nz_messages N' = nz_messages N" "nz_recoveryIncomplete N' = nz_recoveryIncomplete N"
  shows "good N' L = good N L"
proof -
  have "bucket_settled N' L b = bucket_settled N L b" for b
    by (rule settled_cong [OF bucket_core]) (use assms in simp_all)
  moreover have "usage_inv {} N' = usage_inv {} N" by (simp only: usage_inv_def assms)
  ultimately show ?thesis by (simp only: good_def)
qed

lemma good_core: "core N' = core N \<Longrightarrow> good N' L = good N L"
  by (rule good_cong) (simp_all add: core_def)

lemma good_plain:
  assumes "plain N (es, N')" "good N L"
  shows "good N' (told es L)"
proof -
  have c: "core N' = core N" and "no_usage es" using assms(1) by (simp_all add: plain_def)
  with assms(2) show ?thesis unfolding good_core [OF c] by simp
qed

lemma announce_model_plain: "plain N (announce_model E message key ov opts N)"
  unfolding announce_model_def Let_def
  by (rule plain_if [OF plain_Nil plain_emit]) (simp_all add: core_def)

lemma announce_error_plain: "plain N (announce_error E message previous err ov opts N)"
proof (cases "opt_nonempty err")
  case (Some msg)
  then show ?thesis
    unfolding announce_error_def Let_def option.case
    by (simp only: option.case) (rule plain_if [OF plain_Nil plain_emit], simp_all)
qed (simp add: announce_error_def)

lemma store_core:
  "nz_usageSnapshots (store_message m key sid a c err N) = nz_usageSnapshots N"
  "nz_retiredBuckets (store_message m key sid a c err N) = nz_retiredBuckets N"
  "nz_recoveryIncomplete (store_message m key sid a c err N) = nz_recoveryIncomplete N"
  "nz_messages (store_message m key sid a c err N) = AList.update key m (nz_messages N)"
  by (simp_all add: store_message_def)

lemma store_inv:
  assumes "usage_inv X N" "X \<subseteq> {key}"
  shows "usage_inv {key} (store_message m key sid a c err N)"
proof (rule usage_inv_intro)
  fix k s
  assume "map_of (nz_usageSnapshots (store_message m key sid a c err N)) k = Some s"
  then have "map_of (nz_usageSnapshots N) k = Some s" by (simp add: store_core)
  from usage_inv_lookup [OF assms(1) this] assms(2)
  show "\<exists>m'. map_of (nz_messages (store_message m key sid a c err N)) k = Some m' \<and>
      (k \<notin> {key} \<longrightarrow> message_bucket m' = sp_bucketModel s)"
    by (auto simp: store_core update_conv')
qed (use assms(1) in \<open>simp_all add: store_core usage_inv_def\<close>)

lemma settled_store: "bucket_settled (store_message m key sid a c err N) L b = bucket_settled N L b"
  by (rule settled_cong) (simp_all add: store_core bucket_def)

text \<open>The stages of a message that is one.\<close>

lemma message_stages:
  assumes "process_message E message mid sid assistant opts N = (out, N')"
  defines "key \<equiv> pair_key sid mid" and "completed \<equiv> message_completed assistant message"
  obtains N1 N2 N3 N4 N5 N6 es1 es2 es3 es4 err where
    "N1 = (if assistant then N else settle_compaction message mid key sid (no_streamed opts) N)"
    "N2 = store_message message key sid assistant completed err N1"
    "plain N2 (es1, N3)"
    "record_usage E key sid (message_snapshot E message mid sid completed N3) N3 = (es2, N4)"
    "plain N4 (es3, N5)" "plain N5 (es4, N6)"
    "N' = (if assistant \<and> completed then N6\<lparr>nz_countedMessages := set_add key (nz_countedMessages N6)\<rparr> else N6)"
    "nv_events out = es1 @ es2 @ es3 @ es4"
    "nv_turns out = (if assistant \<and> completed \<and> sid = nz_rootSessionId N6 \<and> key \<notin> set (nz_countedMessages N6)
                     then 1 else 0)"
proof -
  define N1 where "N1 = (if assistant then N else settle_compaction message mid key sid (no_streamed opts) N)"
  define err where "err = (if truthy (obj_get message ''error'')
      then Some (providerErrorMessage (obj_get message ''error'')) else None)"
  define N2 where "N2 = store_message message key sid assistant completed err N1"
  define ov where "ov = (session_override sid)
      \<lparr>ov_model := opt_nonempty (as_string (obj_get (obj_of (obj_get message ''model'')) ''id''))\<rparr>"
  obtain es1 N3 where s1: "announce_model E message key ov opts N2 = (es1, N3)" by fastforce
  obtain es2 N4 where s2: "record_usage E key sid (message_snapshot E message mid sid completed N3) N3 = (es2, N4)"
    by fastforce
  obtain es3 N5 where s3: "announce_error E message (lookup (nz_messages N1) key) err ov opts N4 = (es3, N5)"
    by fastforce
  obtain es4 N6 where s4: "(if assistant \<and> \<not> no_usageOnly opts
      then normalizeContent E (arr_of (obj_get message ''content'')) sid mid 0 0 N5 else ([], N5)) = (es4, N6)"
    by fastforce
  have out: "process_message E message mid sid assistant opts N =
     (\<lparr>nv_events = es1 @ es2 @ es3 @ es4, nv_outcome = None, nv_reason = None,
       nv_resultText = resultText (if assistant \<and> completed
         then N6\<lparr>nz_countedMessages := set_add key (nz_countedMessages N6)\<rparr> else N6),
       nv_turns = (if assistant \<and> completed \<and> sid = nz_rootSessionId N6 \<and>
                      key \<notin> set (nz_countedMessages N6) then 1 else 0)\<rparr>,
      if assistant \<and> completed then N6\<lparr>nz_countedMessages := set_add key (nz_countedMessages N6)\<rparr> else N6)"
    unfolding process_message_def Let_def key_def [symmetric] completed_def [symmetric]
    by (simp only: N1_def [symmetric] err_def [symmetric] N2_def [symmetric] ov_def [symmetric]
        s1 s2 s3 s4 prod.case)
  show thesis
  proof (rule that [OF N1_def N2_def _ s2])
    show "plain N2 (es1, N3)" using announce_model_plain [of N2 E message key ov opts] by (simp only: s1)
    show "plain N4 (es3, N5)"
      using announce_error_plain [of N4 E message "lookup (nz_messages N1) key" err ov opts] by (simp only: s3)
    show "plain N5 (es4, N6)" unfolding s4 [symmetric] by (rule plain_if [OF plain_content plain_Nil])
  qed (use assms(1) out in auto)
qed

lemma message_settles:
  assumes run: "normalizeOpenCodeMessage E v sid opts N = (out, N')"
    and inv: "usage_inv X N" and set: "\<And>b. bucket_settled N L b"
    and X: "X = {} \<or> obj_get (obj_of v) ''type'' = JStr ''assistant'' \<and>
      (\<exists>mid. obj_get (obj_of v) ''id'' = JStr mid \<and> X = {pair_key sid mid})"
  shows "good N' (told (nv_events out) L)"
proof (cases "\<exists>mid. obj_get (obj_of v) ''id'' = JStr mid \<and>
    (obj_get (obj_of v) ''type'' = JStr ''assistant'' \<or> obj_get (obj_of v) ''type'' = JStr ''compaction'')")
  case False
  then have "out = no_events" "N' = N"
    using run unfolding normalizeOpenCodeMessage_def Let_def by (auto split: option.splits if_splits)
  moreover from False X have "X = {}" by blast
  ultimately show ?thesis using inv set by (simp add: good_def no_events_def)
next
  case True
  then obtain mid where v: "obj_get (obj_of v) ''id'' = JStr mid"
    "obj_get (obj_of v) ''type'' = JStr ''assistant'' \<or> obj_get (obj_of v) ''type'' = JStr ''compaction''" by blast
  let ?key = "pair_key sid mid" and ?a = "obj_get (obj_of v) ''type'' = JStr ''assistant''"
  let ?done = "message_completed ?a (obj_of v)"
  have "process_message E (obj_of v) mid sid ?a opts N = (out, N')"
    using run v unfolding normalizeOpenCodeMessage_def Let_def by (auto split: if_splits)
  then obtain N1 N2 N3 N4 N5 N6 es1 es2 es3 es4 err where st:
    "N1 = (if ?a then N else settle_compaction (obj_of v) mid ?key sid (no_streamed opts) N)"
    "N2 = store_message (obj_of v) ?key sid ?a ?done err N1"
    "plain N2 (es1, N3)"
    "record_usage E ?key sid (message_snapshot E (obj_of v) mid sid ?done N3) N3 = (es2, N4)"
    "plain N4 (es3, N5)" "plain N5 (es4, N6)"
    "N' = (if ?a \<and> ?done then N6\<lparr>nz_countedMessages := set_add ?key (nz_countedMessages N6)\<rparr> else N6)"
    "nv_events out = es1 @ es2 @ es3 @ es4"
    by (rule message_stages)
  let ?b = "message_bucket (obj_of v)" and ?s = "message_snapshot E (obj_of v) mid sid ?done N3"
  have sb: "sp_bucketModel ?s = ?b" by (simp add: message_snapshot_def message_bucket_def Let_def)
  have b: "?b \<noteq> []" by (simp add: message_bucket_def bucket_model_named)
  have XK: "X \<subseteq> {?key}" using X v(1) by auto
  have N1: "usage_inv X N1 \<and> (\<forall>b. bucket_settled N1 L b \<or> b = ?b \<and> map_of (nz_usageSnapshots N1) ?key = None)"
  proof (cases ?a)
    case True
    with st(1) inv set show ?thesis by simp
  next
    case False
    with X have X0: "X = {}" by blast
    from st(1) False have eq: "N1 = settle_compaction (obj_of v) mid ?key sid (no_streamed opts) N" by simp
    show ?thesis
      unfolding eq X0
      using settle_compaction_usage [OF inv [unfolded X0] set, of "obj_of v" mid ?key sid "no_streamed opts"] by blast
  qed
  have N3: "core N3 = core N2" and quiet: "no_usage es1" "no_usage es3" "no_usage es4"
    using st(3,5,6) by (simp_all add: plain_def)
  have i3: "usage_inv {?key} N3"
    using usage_inv_core [OF N3] store_inv [OF conjunct1 [OF N1] XK] st(2) by simp
  have s3: "bucket_settled N3 L c \<or> c = sp_bucketModel ?s \<and> map_of (nz_usageSnapshots N3) ?key = None" for c
    using conjunct2 [OF N1, rule_format, of c] settled_core [OF N3] N3 by (simp add: st(2) settled_store sb core_def store_core)
  have named: "named_buckets (nz_retiredBuckets N3)" "named_buckets (nz_usageSnapshots N3)"
    using i3 by (simp_all add: usage_inv_def)
  have m3: "map_of (nz_messages N3) ?key = Some (obj_of v)"
    using N3 by (simp add: core_def st(2) store_core update_conv')
  have "usage_inv {} N4"
    by (rule record_usage_inv [OF st(4) i3 _ m3]) (simp_all add: sb b)
  moreover have "bucket_settled N4 (told es2 L) c" for c
    unfolding told_def by (rule record_usage_settles [OF st(4) _ named s3]) (simp add: sb b)
  ultimately have "good N4 (told (es1 @ es2) L)" by (simp add: good_def told_append quiet)
  then have "good N6 (told (nv_events out) L)"
    using good_plain [OF st(6) good_plain [OF st(5)]] by (simp add: st(8) told_append)
  then show ?thesis
    unfolding st(7) using good_cong [of "N6\<lparr>nz_countedMessages := set_add ?key (nz_countedMessages N6)\<rparr>" N6]
    by simp
qed

section \<open>Events\<close>

definition plain_out :: "normalization \<Rightarrow> normalized_events \<times> normalization \<Rightarrow> bool" where
  "plain_out N out \<longleftrightarrow> plain N (nv_events (fst out), snd out)"

lemma plain_out_simps [simp]:
  "nv_events no_events = []" "nv_events (just_events es) = es"
  by (simp_all add: no_events_def just_events_def)

lemma plain_execution_started: "plain_out N (on_execution_started E event sid r N)"
  unfolding on_execution_started_def Let_def plain_out_def
  by (auto simp: plain_def core_def clear_root_execution_def dest!: emit_split split: prod.split)

lemma plain_run_error:
  assumes "core N1 = core N" "\<And>e es. nv_events (F e es) = e # es"
  shows "plain_out N (case emit E ''run'' p ov N1 of (e, N2) \<Rightarrow>
    (case (if b then (case emit E ''error'' q ov N2 of (e', N') \<Rightarrow> ([e'], N')) else ([], N2)) of
       (es, N3) \<Rightarrow> (F e es, N3)))"
  using assms by (auto simp: plain_out_def plain_def dest!: emit_split split: prod.split)

lemma plain_execution_ended: "plain_out N (on_execution_ended E event data sid r N)"
  unfolding on_execution_ended_def Let_def by (rule plain_run_error) (simp_all add: core_def)

lemma plain_status: "plain_out N (on_status E event data sid r N)"
  unfolding on_status_def Let_def plain_out_def
  by (auto simp: plain_def dest!: emit_split split: prod.split)

lemma plain_on_text: "plain_out N (on_text E event data sid mid N)"
  unfolding on_text_def Let_def plain_out_def by (rule plain_text)

lemma plain_on_tool: "plain_out N (on_tool E event data sid mid N)"
  unfolding on_tool_def Let_def plain_out_def case_prod_beta using plain_tool by simp

lemma plain_permission: "plain_out N (on_permission E data sid r N)"
  unfolding on_permission_def Let_def plain_out_def
  by (auto simp: plain_def dest!: emit_split split: prod.split)

text \<open>A sound outcome keeps the ledger that is told of it good.\<close>

definition sound :: "usage_ledger \<Rightarrow> normalized_events \<times> normalization \<Rightarrow> bool" where
  "sound L out \<longleftrightarrow> good (snd out) (told (nv_events (fst out)) L)"

lemma plain_sound: "plain_out N out \<Longrightarrow> good N L \<Longrightarrow> sound L out"
  unfolding plain_out_def sound_def by (rule good_plain)

lemma message_sound:
  assumes "usage_inv X N" "\<And>b. bucket_settled N L b"
    and "X = {} \<or> obj_get (obj_of v) ''type'' = JStr ''assistant'' \<and>
      (\<exists>mid. obj_get (obj_of v) ''id'' = JStr mid \<and> X = {pair_key sid mid})"
  shows "sound L (normalizeOpenCodeMessage E v sid opts N)"
proof -
  obtain out N' where r: "normalizeOpenCodeMessage E v sid opts N = (out, N')" by fastforce
  show ?thesis using message_settles [OF r assms] by (simp add: sound_def r)
qed

lemma good_message: "good N L \<Longrightarrow> sound L (normalizeOpenCodeMessage E v sid opts N)"
  using message_sound [of "{}" N L v sid E opts] by (simp add: good_def)

lemma step_started_sound:
  assumes inv: "usage_inv X N" and set: "\<And>b. bucket_settled N L b"
    and X: "X = {} \<or> (\<exists>m. X = {pair_key sid mid} \<and> map_of (nz_messages N) (pair_key sid mid) = Some m \<and>
      obj_get m ''id'' = JStr mid \<and> obj_get m ''type'' = JStr ''assistant'')"
  shows "sound L (on_step_started E data sid mid opts N)"
proof -
  let ?key = "pair_key sid mid"
  let ?ov = "(session_override sid)\<lparr>ov_model := as_string (obj_get (obj_of (obj_get data ''model'')) ''id'')\<rparr>"
  obtain e N1 where e: "emit E ''model'' [(''phase'', JStr ''updated''), (''messageId'', JStr mid)] ?ov N = (e, N1)"
    by fastforce
  define N2 where "N2 = (if map_of (nz_modelEventIds N1) ?key \<noteq> None then N1
      else N1\<lparr>nz_modelEventIds := AList.update ?key (ev_eventId e) (nz_modelEventIds N1)\<rparr>)"
  obtain e2 N3 where e2: "emit E ''run'' [(''state'', JStr ''step_started'')] (session_override sid) N2 = (e2, N3)"
    by fastforce
  obtain out N4 where m: "normalizeOpenCodeMessage E (JObj (lookup (nz_messages N3) ?key)) sid
      (opts\<lparr>no_usageOnly := True\<rparr>) N3 = (out, N4)" by fastforce
  have run: "on_step_started E data sid mid opts N = (just_events (e # e2 # nv_events out), N4)"
    unfolding on_step_started_def Let_def by (simp only: e prod.case N2_def [symmetric] e2 m)
  have kinds: "ev_kind e = ''model''" "ev_kind e2 = ''run''"
    using emit_split [OF e] emit_split [OF e2] by simp_all
  have "core N2 = core N1" by (simp add: N2_def core_def)
  then have c: "core N3 = core N" using emit_split [OF e] emit_split [OF e2] by simp
  have inv3: "usage_inv X N3" and set3: "bucket_settled N3 L b" for b
    using inv set usage_inv_core [OF c] settled_core [OF c] by simp_all
  have "nz_messages N3 = nz_messages N" using c by (simp add: core_def)
  then have "X = {} \<or> obj_get (obj_of (JObj (lookup (nz_messages N3) ?key))) ''type'' = JStr ''assistant'' \<and>
      (\<exists>i. obj_get (obj_of (JObj (lookup (nz_messages N3) ?key))) ''id'' = JStr i \<and> X = {pair_key sid i})"
    using X by (auto simp: lookup_def obj_of_def)
  from message_sound [OF inv3 set3 this, of E "opts\<lparr>no_usageOnly := True\<rparr>"]
  have "good N4 (told (nv_events out) L)" by (simp add: sound_def m)
  moreover have "told [e, e2] L = L" by (rule told_plain) (simp add: kinds)
  moreover have "told (e # e2 # nv_events out) L = told (nv_events out) (told [e, e2] L)"
    using told_append [of "[e, e2]" "nv_events out" L] by simp
  ultimately show ?thesis unfolding run sound_def by simp
qed

lemma step_ended_sound:
  assumes "good N L"
  shows "sound L (on_step_ended E event data sid mid opts N)"
proof -
  define previous where "previous = (case map_of (nz_messages N) (pair_key sid mid) of
      Some m \<Rightarrow> m | None \<Rightarrow> [(''id'', JStr mid), (''type'', JStr ''assistant'')])"
  define message where "message = obj_spread (obj_spread previous data)
      [(''id'', JStr mid), (''type'', JStr ''assistant''),
       (''time'', JObj (obj_set ''completed'' (JNum (Fin (oe_created event))) (obj_of (obj_get previous ''time''))))]"
  obtain es N1 where e: "(if no_usageOnly opts then ([], N)
       else (case emit E ''run''
               [(''state'', JStr (if oe_type event = ''session.step.failed'' then ''step_failed'' else ''step_finished'')),
                (''reason'', obj_get data ''finish'')] (session_override sid) N of (e, N') \<Rightarrow> ([e], N'))) = (es, N1)"
    by fastforce
  have p: "plain N (es, N1)"
    unfolding e [symmetric] by (rule plain_if [OF plain_Nil plain_emit]) simp_all
  obtain out N2 where m: "normalizeOpenCodeMessage E (JObj message) sid opts N1 = (out, N2)" by fastforce
  have run: "on_step_ended E event data sid mid opts N = (out\<lparr>nv_events := es @ nv_events out\<rparr>, N2)"
    unfolding on_step_ended_def Let_def by (simp only: previous_def [symmetric] message_def [symmetric] e m prod.case)
  have "sound (told es L) (normalizeOpenCodeMessage E (JObj message) sid opts N1)"
    by (rule good_message [OF good_plain [OF p assms]])
  then show ?thesis by (simp add: run m sound_def told_append)
qed

lemma sound_unmatched:
  assumes "sound L out"
  shows "sound L (case out of (o1, N1) \<Rightarrow> (o1, if b then N1\<lparr>nz_unmatchedCompactions := f N1\<rparr> else N1))"
proof -
  have "good (N\<lparr>nz_unmatchedCompactions := xs\<rparr>) K = good N K" for N xs K by (rule good_cong) simp_all
  with assms show ?thesis by (cases out) (simp add: sound_def)
qed

lemma compaction_sound: "good N L \<Longrightarrow> sound L (on_compaction E event data sid opts N)"
  unfolding on_compaction_def Let_def by (rule sound_unmatched [OF good_message])

section \<open>Any sequence of operations\<close>

lemma tracked_good [simp]: "good (tracked event N) L = good N L"
  by (rule good_cong) (simp_all add: tracked_def trackSession_def Let_def)

lemma tracked_frame [simp]:
  "nz_messages (tracked event N) = nz_messages N" "nz_seenEvents (tracked event N) = nz_seenEvents N"
  "nz_rootSessionId (tracked event N) = nz_rootSessionId N"
  by (simp_all add: tracked_def trackSession_def Let_def)

text \<open>A step that begins stores its message without usage, which leaves its key open.\<close>

lemma fold_event_cases:
  assumes "good N L"
  obtains (same) "good (foldOpenCodeEvent event N) L"
  | (step) sid mid m where "oe_type event = ''session.step.started''" "eventSessionId event = Some sid"
      "stringValue_or (obj_get (obj_of (oe_data event)) ''assistantMessageID'') [] = mid"
      "usage_inv {pair_key sid mid} (foldOpenCodeEvent event N)" "\<And>b. bucket_settled (foldOpenCodeEvent event N) L b"
      "map_of (nz_messages (foldOpenCodeEvent event N)) (pair_key sid mid) = Some m"
      "obj_get m ''id'' = JStr mid" "obj_get m ''type'' = JStr ''assistant''"
proof -
  let ?data = "obj_of (oe_data event)" and ?N = "tracked event N"
  let ?mid = "stringValue_or (obj_get ?data ''assistantMessageID'') []"
  show thesis
  proof (cases "\<exists>sid. eventSessionId event = Some sid \<and> sid \<noteq> [] \<and> sid \<in> set (nz_sessionIds ?N) \<and>
      oe_type event = ''session.step.started'' \<and> ?mid \<noteq> []")
    case False
    then have "foldOpenCodeEvent event N = ?N"
      by (auto simp: foldOpenCodeEvent_def Let_def split: option.split)
    with assms show thesis by (intro same) simp
  next
    case True
    then obtain sid where sid: "eventSessionId event = Some sid" "sid \<noteq> []" "sid \<in> set (nz_sessionIds ?N)"
      "oe_type event = ''session.step.started''" "?mid \<noteq> []" by blast
    let ?key = "pair_key sid ?mid" and ?F = "foldOpenCodeEvent event N"
    let ?prev = "lookup (nz_messages N) ?key"
    let ?m = "obj_spread ?prev
       [(''id'', JStr ?mid), (''type'', JStr ''assistant''), (''model'', obj_get ?data ''model''),
        (''content'', nullish_or (obj_get ?prev ''content'') (JArr [])), (''error'', Undef), (''finish'', Undef),
        (''rawFinish'', Undef), (''native'', Undef), (''time'', JObj [(''created'', obj_get ?data ''started'')])]"
    have F: "nz_usageSnapshots ?F = nz_usageSnapshots N" "nz_retiredBuckets ?F = nz_retiredBuckets N"
      "nz_recoveryIncomplete ?F = nz_recoveryIncomplete N" "nz_messages ?F = AList.update ?key ?m (nz_messages N)"
      using sid by (simp_all add: foldOpenCodeEvent_def clear_root_execution_def Let_def tracked_def trackSession_def)
    show thesis
    proof (rule step [OF sid(4,1) HOL.refl])
      show "usage_inv {?key} ?F"
      proof (rule usage_inv_intro)
        fix k s
        assume "map_of (nz_usageSnapshots ?F) k = Some s"
        then have "map_of (nz_usageSnapshots N) k = Some s" by (simp only: F)
        moreover have "usage_inv {} N" using assms by (simp add: good_def)
        ultimately obtain m' where "map_of (nz_messages N) k = Some m'" "message_bucket m' = sp_bucketModel s"
          using usage_inv_lookup by blast
        then show "\<exists>m'. map_of (nz_messages ?F) k = Some m' \<and> (k \<notin> {?key} \<longrightarrow> message_bucket m' = sp_bucketModel s)"
          by (simp add: F update_conv')
      qed (use assms in \<open>simp_all only: F good_def usage_inv_def\<close>)
      show "bucket_settled ?F L b" for b
        using assms settled_cong [OF bucket_core [OF F(1)] F(3) HOL.refl, of L b] by (simp add: good_def)
      show "map_of (nz_messages ?F) ?key = Some ?m" by (simp add: F update_conv')
      show "obj_get ?m ''id'' = JStr ?mid" "obj_get ?m ''type'' = JStr ''assistant''"
        by (simp_all add: obj_get_spread js_simps)
    qed
  qed
qed

lemma sound_if: "sound L a \<Longrightarrow> sound L b \<Longrightarrow> sound L (if c then a else b)"
  by simp

lemma sound_none: "good N L \<Longrightarrow> sound L (no_events, N)"
  by (simp add: sound_def)

lemma sound_created:
  assumes "good N L"
  shows "sound L (case emit E ''run'' p ov (N\<lparr>nz_announcedSessions := xs\<rparr>) of (e, N1) \<Rightarrow> (just_events [e], N1))"
  by (rule plain_sound [OF _ assms]) (auto simp: plain_out_def plain_def core_def dest!: emit_split split: prod.split)

lemma dispatch_sound:
  assumes good: "good N L"
  shows "sound L (dispatch_event E event opts N)"
proof -
  have start: "sound L (on_step_started E data sid mid opts N)" for data sid mid
    using step_started_sound [of "{}" N L] good by (simp add: good_def)
  show ?thesis
    unfolding dispatch_event_def Let_def
    by (intro sound_if sound_none sound_created start step_ended_sound compaction_sound good
        plain_sound [OF plain_execution_started good] plain_sound [OF plain_execution_ended good]
        plain_sound [OF plain_status good] plain_sound [OF plain_on_text good]
        plain_sound [OF plain_on_tool good] plain_sound [OF plain_permission good])
qed

lemma event_sound:
  assumes "good N L"
  shows "sound L (normalizeOpenCodeEvent E event opts N)"
proof -
  let ?N1 = "tracked event N"
  let ?N2 = "?N1\<lparr>nz_seenEvents := set_add (oe_id event) (nz_seenEvents ?N1)\<rparr>"
  have N2: "good ?N2 L" using good_cong [of ?N2 ?N1 L] assms by simp
  have "sound L (dispatch_event E event opts (foldOpenCodeEvent event ?N2))"
  proof (cases rule: fold_event_cases [OF N2, of event])
    case 1
    then show ?thesis by (rule dispatch_sound)
  next
    case (2 sid mid m)
    then have "dispatch_event E event opts (foldOpenCodeEvent event ?N2) =
        on_step_started E (obj_of (oe_data event)) sid mid opts (foldOpenCodeEvent event ?N2)"
      by (simp add: dispatch_event_def)
    moreover have "sound L (on_step_started E (obj_of (oe_data event)) sid mid opts (foldOpenCodeEvent event ?N2))"
      by (rule step_started_sound [OF 2(4,5)]) (use 2(6,7,8) in blast)
    ultimately show ?thesis by simp
  qed
  moreover have "sound L (no_events, ?N1)" using assms by (simp add: sound_none)
  ultimately show ?thesis
    unfolding normalizeOpenCodeEvent_def isSessionEvent_def Let_def by simp
qed

lemma first_per_bucket_rows:
  "row_buckets (first_per_bucket bs us) = sp_bucketModel ` snd ` set us - set bs"
proof (induction us arbitrary: bs)
  case (Cons ks us)
  obtain k s where "ks = (k, s)" by (cases ks)
  with Cons show ?case by (auto simp: row_buckets_def image_iff)
qed (simp add: row_buckets_def)

lemma first_per_bucket_named:
  "named_buckets us \<Longrightarrow> \<forall>row \<in> set (first_per_bucket bs us). sp_bucketModel (snd (snd row)) \<noteq> []"
proof (induction us arbitrary: bs)
  case (Cons ks us)
  obtain k s where "ks = (k, s)" by (cases ks)
  with Cons show ?case by (auto simp: named_buckets_def)
qed simp

lemma coverage_good:
  assumes "updateRecoveryCoverage E incomplete N = (es, N')" "good N L"
  shows "good N' (told es L)"
proof (cases "nz_recoveryIncomplete N = incomplete")
  case True
  with assms show ?thesis by (simp add: updateRecoveryCoverage_def)
next
  case False
  let ?N = "N\<lparr>nz_recoveryIncomplete := incomplete\<rparr>"
  let ?rows = "first_per_bucket [] (nz_usageSnapshots N) @ retired_rows N"
  have run: "report_usage E ?rows ?N = (es, N')" using assms(1) False by (simp add: updateRecoveryCoverage_def)
  have inv: "usage_inv {} N" using assms(2) by (simp add: good_def)
  have named: "\<forall>row \<in> set ?rows. sp_bucketModel (snd (snd row)) \<noteq> []"
    using inv first_per_bucket_named by (auto simp: usage_inv_def retired_rows_def named_buckets_def)
  have "bucket_settled N' (told es L) b" for b
    unfolding told_def
  proof (rule report_settles [OF run named])
    fix c
    assume "c \<notin> row_buckets ?rows"
    then have "c \<notin> sp_bucketModel ` snd ` set (nz_usageSnapshots N)"
      by (simp add: row_buckets_simps first_per_bucket_rows)
    then have none: "bucket c N = []" "bucket c ?N = []" by (auto simp: bucket_def filter_empty_conv)
    have "bucket_settled N L c" using assms(2) by (simp add: good_def)
    then show "bucket_settled ?N L c" by (simp add: bucket_settled_def none states_def split: option.splits)
  qed
  moreover have "usage_inv {} N'"
    using report_usage_split [OF run] inv usage_inv_core [of N' ?N "{}"] by (simp add: usage_inv_def)
  ultimately show ?thesis by (simp add: good_def)
qed

text \<open>What the runtime calls: events of the stream, messages read back, changes of the coverage.\<close>

datatype norm_op =
    StreamEvent oc_event normalize_options
  | StoredMessage jsval string normalize_options
  | Coverage bool

fun apply_op :: "norm_env \<Rightarrow> norm_op \<Rightarrow> normalization \<Rightarrow> normalized_events \<times> normalization" where
  "apply_op E (StreamEvent event opts) N = normalizeOpenCodeEvent E event opts N"
| "apply_op E (StoredMessage v sid opts) N = normalizeOpenCodeMessage E v sid opts N"
| "apply_op E (Coverage incomplete) N =
     (let (es, N') = updateRecoveryCoverage E incomplete N in (just_events es, N'))"

fun apply_ops :: "norm_env \<Rightarrow> norm_op list \<Rightarrow> normalization \<Rightarrow> rehor_event list \<times> normalization" where
  "apply_ops E [] N = ([], N)"
| "apply_ops E (op1 # ops) N =
     (let (out, N1) = apply_op E op1 N; (es, N2) = apply_ops E ops N1 in (nv_events out @ es, N2))"

lemma apply_op_good: "apply_op E op1 N = (out, N') \<Longrightarrow> good N L \<Longrightarrow> good N' (told (nv_events out) L)"
proof (cases op1)
  case (StreamEvent event opts)
  then show "apply_op E op1 N = (out, N') \<Longrightarrow> good N L \<Longrightarrow> good N' (told (nv_events out) L)"
    using event_sound [of N L E event opts] by (simp add: sound_def)
next
  case (StoredMessage v sid opts)
  then show "apply_op E op1 N = (out, N') \<Longrightarrow> good N L \<Longrightarrow> good N' (told (nv_events out) L)"
    using good_message [of N L E v sid opts] by (simp add: sound_def)
next
  case (Coverage incomplete)
  then show "apply_op E op1 N = (out, N') \<Longrightarrow> good N L \<Longrightarrow> good N' (told (nv_events out) L)"
    using coverage_good by (auto split: prod.splits)
qed

lemma apply_ops_good: "apply_ops E ops N = (es, N') \<Longrightarrow> good N L \<Longrightarrow> good N' (told es L)"
proof (induction ops arbitrary: N L es)
  case (Cons op1 ops)
  obtain out N1 es1 N2 where r: "apply_op E op1 N = (out, N1)" "apply_ops E ops N1 = (es1, N2)" by fastforce
  with Cons.prems(1) have e: "es = nv_events out @ es1" "N' = N2" by simp_all
  show ?case
    using Cons.IH [OF _ apply_op_good [OF r(1) Cons.prems(2)]] r(2) e by (simp add: told_append)
qed simp

lemma new_good: "good (createNormalizationContext rootId model f) []"
  by (simp add: good_def usage_inv_def createNormalizationContext_def bucket_settled_def bucket_def named_buckets_def)

section \<open>The total\<close>

lemma sum_by_bucket:
  "distinct ks \<Longrightarrow> (\<forall>s \<in> set ss. g s \<in> set ks) \<Longrightarrow>
     sum_list (map (\<lambda>k. sum_list (map f (filter (\<lambda>s. g s = k) ss))) ks) = (sum_list (map f ss) :: rat)"
proof (induction ss)
  case (Cons s ss)
  have "sum_list (map (\<lambda>k. sum_list (map f (filter (\<lambda>x. g x = k) (s # ss)))) ks) =
      sum_list (map (\<lambda>k. (if k = g s then f s else 0) + sum_list (map f (filter (\<lambda>x. g x = k) ss))) ks)"
    by (intro arg_cong [where f = sum_list] map_cong) auto
  also have "\<dots> = sum_list (map (\<lambda>k. if k = g s then f s else 0) ks) +
      sum_list (map (\<lambda>k. sum_list (map f (filter (\<lambda>x. g x = k) ss))) ks)"
    by (rule sum_list_addf)
  also have "sum_list (map (\<lambda>k. if k = g s then f s else 0) ks) = f s"
    using Cons.prems by (simp add: sum_list_distinct_conv_sum_set)
  finally show ?case using Cons by simp
qed simp

lemma told_distinct: "distinct (map fst L) \<Longrightarrow> distinct (map fst (told es L))"
proof -
  have "distinct (map fst L) \<Longrightarrow> distinct (map fst (fold ul_record us L))" for us
    by (induction us arbitrary: L) (simp_all add: ul_record_def distinct_update)
  then show "distinct (map fst L) \<Longrightarrow> distinct (map fst (told es L))" by (simp add: told_def)
qed

lemma good_total:
  assumes "good N L" "distinct (map fst L)"
  shows "totalCostUsd L = sum_list (map (snapshot_amount \<circ> snd) (nz_usageSnapshots N))"
proof -
  let ?ss = "map snd (nz_usageSnapshots N)"
  have entry: "known_amount u = amount_sum (bucket k N)" if "(k, u) \<in> set L" for k u
  proof -
    have "map_of L k = Some u" using assms(2) that by simp
    with assms(1) show ?thesis by (auto simp: good_def bucket_settled_def states_def dest: spec [of _ k])
  qed
  have dom: "sp_bucketModel s \<in> set (map fst L)" if "s \<in> set ?ss" for s
  proof (rule ccontr)
    assume "sp_bucketModel s \<notin> set (map fst L)"
    then have "map_of L (sp_bucketModel s) = None" by (simp add: map_of_eq_None_iff)
    with assms(1) have "bucket (sp_bucketModel s) N = []"
      by (auto simp: good_def bucket_settled_def dest: spec [of _ "sp_bucketModel s"])
    with that show False by (auto simp: bucket_def filter_empty_conv)
  qed
  have "totalCostUsd L = sum_list (map (\<lambda>k. amount_sum (bucket k N)) (map fst L))"
    unfolding totalCostUsd_def map_map
    by (intro arg_cong [where f = sum_list] map_cong HOL.refl) (use entry in \<open>auto simp: comp_def\<close>)
  also have "\<dots> = sum_list (map snapshot_amount ?ss)"
    unfolding amount_sum_def bucket_def by (rule sum_by_bucket) (use assms(2) dom in auto)
  finally show ?thesis by simp
qed

end
