(* ===== verification/Normalizer_Sessions.thy ===== *)
theory Normalizer_Sessions
  imports Normalizer_Usage
begin

text \<open>
  The tree of sessions the normalizer follows, and that an event is normalized once: tracking
  reaches the closure of the parent edges, and nothing else changes the tree or forgets an event.
\<close>

section \<open>The closure of the parent edges\<close>

lemma session_pass_grows: "\<exists>new. session_pass parents ids = ids @ new \<and> set new \<subseteq> fst ` set parents"
proof (induction parents arbitrary: ids)
  case (Cons e parents)
  obtain i p where e: "e = (i, p)" by (cases e)
  let ?ids = "if p \<in> set ids \<and> i \<notin> set ids then ids @ [i] else ids"
  obtain new where "session_pass parents ?ids = ?ids @ new" "set new \<subseteq> fst ` set parents"
    using Cons.IH by blast
  then show ?case by (auto simp: session_pass_def e split: if_splits)
qed (simp add: session_pass_def)

lemma session_pass_adds:
  "(i, p) \<in> set parents \<Longrightarrow> p \<in> set ids \<Longrightarrow> i \<in> set (session_pass parents ids)"
proof (induction parents arbitrary: ids)
  case (Cons e parents)
  obtain j q where e: "e = (j, q)" by (cases e)
  let ?ids = "if q \<in> set ids \<and> j \<notin> set ids then ids @ [j] else ids"
  have step: "session_pass (e # parents) ids = session_pass parents ?ids" by (simp add: session_pass_def e)
  show ?case
  proof (cases "(i, p) = e")
    case True
    then have "i \<in> set ?ids" using Cons.prems(2) by (auto simp: e)
    moreover obtain new where "session_pass parents ?ids = ?ids @ new" using session_pass_grows by blast
    ultimately show ?thesis by (simp add: step)
  next
    case False
    with Cons.prems have "(i, p) \<in> set parents" "p \<in> set ?ids" by auto
    from Cons.IH [OF this] show ?thesis by (simp add: step)
  qed
qed simp

definition unknown_sessions :: "(string \<times> string) list \<Rightarrow> string list \<Rightarrow> nat" where
  "unknown_sessions parents ids = card (fst ` set parents - set ids)"

lemma session_closure_fixed:
  "unknown_sessions parents ids < n \<Longrightarrow>
     session_pass parents (session_closure n parents ids) = session_closure n parents ids"
proof (induction n arbitrary: ids)
  case (Suc n)
  let ?ids = "session_pass parents ids"
  show ?case
  proof (cases "?ids = ids")
    case False
    obtain new where new: "?ids = ids @ new" "set new \<subseteq> fst ` set parents" using session_pass_grows by blast
    show ?thesis
    proof (cases "set new \<subseteq> set ids")
      case True
      have "session_pass parents ids = ids"
      proof -
        have "session_pass ps ids = ids \<or> (\<exists>x \<in> set (drop (length ids) (session_pass ps ids)). x \<notin> set ids)" for ps
        proof (induction ps rule: rev_induct)
          case (snoc e ps)
          obtain i p where e: "e = (i, p)" by (cases e)
          have st: "session_pass (ps @ [e]) ids =
              (if p \<in> set (session_pass ps ids) \<and> i \<notin> set (session_pass ps ids)
               then session_pass ps ids @ [i] else session_pass ps ids)"
            by (simp add: session_pass_def e)
          obtain w where "session_pass ps ids = ids @ w" using session_pass_grows by blast
          with snoc st show ?case by auto
        qed (simp add: session_pass_def)
        from this [of parents] new(1) True show ?thesis by auto
      qed
      with False show ?thesis by simp
    next
      case False
      then obtain x where "x \<in> set new" "x \<notin> set ids" by blast
      then have "fst ` set parents - set ?ids \<subset> fst ` set parents - set ids" using new by auto
      then have "unknown_sessions parents ?ids < unknown_sessions parents ids"
        unfolding unknown_sessions_def by (intro psubset_card_mono) auto
      with Suc have "session_pass parents (session_closure n parents ?ids) = session_closure n parents ?ids" by simp
      with \<open>?ids \<noteq> ids\<close> show ?thesis by (simp add: Let_def)
    qed
  qed (simp add: Let_def)
qed simp

lemma unknown_bound: "unknown_sessions parents ids \<le> length parents"
proof -
  have "unknown_sessions parents ids \<le> card (fst ` set parents)"
    unfolding unknown_sessions_def by (intro card_mono) auto
  also have "\<dots> \<le> length parents" using card_image_le [of "set parents" fst] card_length [of parents] by simp
  finally show ?thesis .
qed

lemma closure_closed:
  "session_pass ps (session_closure (Suc (length ps)) ps ids) = session_closure (Suc (length ps)) ps ids"
  by (rule session_closure_fixed [OF le_imp_less_Suc [OF unknown_bound]])

definition closed_sessions :: "normalization \<Rightarrow> bool" where
  "closed_sessions N \<longleftrightarrow> session_pass (nz_sessionParents N) (nz_sessionIds N) = nz_sessionIds N"

definition parents_with :: "obj \<Rightarrow> (string \<times> string) list \<Rightarrow> (string \<times> string) list" where
  "parents_with data ps =
     (case (as_string (obj_get data ''sessionID''), as_string (obj_get data ''parentID'')) of
        (Some s, Some p) \<Rightarrow> AList.update s p ps
      | _ \<Rightarrow> ps)"

lemma trackSession_eq:
  "trackSession data N =
     N\<lparr>nz_sessionParents := parents_with data (nz_sessionParents N),
       nz_sessionIds := session_closure (Suc (length (parents_with data (nz_sessionParents N))))
         (parents_with data (nz_sessionParents N)) (nz_sessionIds N)\<rparr>"
  unfolding trackSession_def Let_def parents_with_def ..

lemma trackSession_closed: "closed_sessions (trackSession data N)"
  by (simp add: closed_sessions_def trackSession_eq closure_closed del: session_closure.simps)

lemma session_closure_same: "session_pass parents ids = ids \<Longrightarrow> session_closure n parents ids = ids"
  by (cases n) (simp_all add: Let_def)

lemma parents_again: "parents_with data (parents_with data ps) = parents_with data ps"
  by (simp add: parents_with_def split: option.split)

lemma trackSession_again: "trackSession data (trackSession data N) = trackSession data N"
proof -
  let ?M = "trackSession data N"
  have p: "parents_with data (nz_sessionParents ?M) = nz_sessionParents ?M"
    by (simp add: trackSession_eq parents_again)
  have "session_pass (nz_sessionParents ?M) (nz_sessionIds ?M) = nz_sessionIds ?M"
    using trackSession_closed [of data N] by (simp add: closed_sessions_def)
  note fixed = session_closure_same [OF this]
  show ?thesis unfolding trackSession_eq [of data ?M] p fixed by simp
qed

lemma session_closure_contains: "\<exists>new. session_closure n parents ids = ids @ new"
proof (induction n arbitrary: ids)
  case (Suc n)
  obtain a where a: "session_pass parents ids = ids @ a" using session_pass_grows by blast
  obtain b where "session_closure n parents (ids @ a) = (ids @ a) @ b" using Suc by blast
  with a show ?case by (auto simp: Let_def)
qed simp

section \<open>What keeps the tree and the seen events\<close>

definition tree :: "normalization \<Rightarrow> string list \<times> (string \<times> string) list \<times> string list \<times> string" where
  "tree N = (nz_sessionIds N, nz_sessionParents N, nz_seenEvents N, nz_rootSessionId N)"

lemma tree_core: "core N' = core N \<Longrightarrow> tree N' = tree N"
  by (simp add: core_def tree_def)

lemma plain_tree: "plain N (es, N') \<Longrightarrow> tree N' = tree N"
  by (auto simp: plain_def intro: tree_core)

lemma report_tree: "report_usage E rows N = (es, N') \<Longrightarrow> tree N' = tree N"
  by (rule tree_core [OF conjunct1 [OF report_usage_split]])

lemma record_tree:
  assumes "record_usage E key sid s N = (es, N')"
  shows "tree N' = tree N"
proof (cases "map_of (nz_usageSnapshots N) key = Some s")
  case True
  with assms show ?thesis by (auto simp: record_usage_def tree_def)
next
  case False
  let ?N1 = "N\<lparr>nz_usageSnapshots := AList.update key s (nz_usageSnapshots N)\<rparr>"
  let ?N2 = "retire_bucket (map_of (nz_usageSnapshots N) key) s ?N1"
  have "tree N' = tree ?N2"
    using assms False report_tree by (simp add: record_usage_def Let_def)
  also have "\<dots> = tree N" by (simp add: tree_def retire_frame)
  finally show ?thesis .
qed

lemma settle_tree: "tree (settle_compaction message mid key sid live N) = tree N"
  unfolding settle_compaction_def Let_def by (simp add: tree_def adopt_compaction_def split: option.split)

lemma process_tree: "process_message E message mid sid a opts N = (out, N') \<Longrightarrow> tree N' = tree N"
proof -
  assume r: "process_message E message mid sid a opts N = (out, N')"
  obtain N1 N2 N3 N4 N5 N6 es1 es2 es3 es4 err where st:
    "N1 = (if a then N else settle_compaction message mid (pair_key sid mid) sid (no_streamed opts) N)"
    "N2 = store_message message (pair_key sid mid) sid a (message_completed a message) err N1"
    "plain N2 (es1, N3)"
    "record_usage E (pair_key sid mid) sid (message_snapshot E message mid sid (message_completed a message) N3) N3 = (es2, N4)"
    "plain N4 (es3, N5)" "plain N5 (es4, N6)"
    "N' = (if a \<and> message_completed a message
           then N6\<lparr>nz_countedMessages := set_add (pair_key sid mid) (nz_countedMessages N6)\<rparr> else N6)"
    by (rule message_stages [OF r])
  have "tree N1 = tree N" unfolding st(1) by (simp add: settle_tree)
  moreover have "tree N2 = tree N1" unfolding st(2) by (simp add: store_message_def tree_def)
  moreover have "tree N' = tree N6" unfolding st(7) by (simp add: tree_def)
  ultimately show ?thesis
    using plain_tree [OF st(3)] record_tree [OF st(4)] plain_tree [OF st(5)] plain_tree [OF st(6)] by simp
qed

lemma message_tree: "tree (snd (normalizeOpenCodeMessage E v sid opts N)) = tree N"
  unfolding normalizeOpenCodeMessage_def Let_def
  by (auto simp: process_tree [OF surjective_pairing] split: option.split)

lemma message_tree_eq: "normalizeOpenCodeMessage E v sid opts N = (out, N') \<Longrightarrow> tree N' = tree N"
  using message_tree [of E v sid opts N] by simp

definition keeps_tree :: "normalization \<Rightarrow> normalized_events \<times> normalization \<Rightarrow> bool" where
  "keeps_tree N out \<longleftrightarrow> tree (snd out) = tree N"

lemma plain_out_tree: "plain_out N out \<Longrightarrow> keeps_tree N out"
  by (auto simp: plain_out_def plain_def keeps_tree_def intro: tree_core)

lemma keeps_if: "keeps_tree N a \<Longrightarrow> keeps_tree N b \<Longrightarrow> keeps_tree N (if c then a else b)"
  by simp

lemma keeps_none: "keeps_tree N (no_events, N)"
  by (simp add: keeps_tree_def)

lemma keeps_created:
  "keeps_tree N (case emit E ''run'' p ov (N\<lparr>nz_announcedSessions := xs\<rparr>) of (e, N1) \<Rightarrow> (just_events [e], N1))"
  by (rule plain_out_tree) (auto simp: plain_out_def plain_def core_def dest!: emit_split split: prod.split)

lemma keeps_compaction: "keeps_tree N (on_compaction E event data sid opts N)"
proof -
  have "keeps_tree N (case out of (o1, N1) \<Rightarrow> (o1, if b then N1\<lparr>nz_unmatchedCompactions := f N1\<rparr> else N1))"
    if "keeps_tree N out" for out b f
    using that by (cases out) (simp add: keeps_tree_def tree_def)
  note then_unmatched = this
  show ?thesis
    unfolding on_compaction_def Let_def
    by (rule then_unmatched) (simp add: keeps_tree_def message_tree)
qed

lemma keeps_step_ended: "keeps_tree N (on_step_ended E event data sid mid opts N)"
proof -
  have seq: "keeps_tree N (case x of (es, N1) \<Rightarrow> (case normalizeOpenCodeMessage E v sid opts N1 of
      (out, N2) \<Rightarrow> (F es out, N2)))" if "plain N x" for x v F
  proof -
    obtain es N1 where x: "x = (es, N1)" by (cases x)
    obtain out N2 where m: "normalizeOpenCodeMessage E v sid opts N1 = (out, N2)" by fastforce
    show ?thesis
      using plain_tree [OF that [unfolded x]] message_tree_eq [OF m] by (simp add: x m keeps_tree_def)
  qed
  show ?thesis
    unfolding on_step_ended_def Let_def
    by (rule seq [OF plain_if [OF plain_Nil plain_emit]]) simp_all
qed

lemma keeps_step_started: "keeps_tree N (on_step_started E data sid mid opts N)"
proof -
  have seq: "keeps_tree N (case emit E ''model'' p ov N of (e, N1) \<Rightarrow>
      (case emit E ''run'' q ov' (if c N1 then N1 else N1\<lparr>nz_modelEventIds := xs e N1\<rparr>) of (e', N3) \<Rightarrow>
        (case normalizeOpenCodeMessage E (v N3) sid o' N3 of (out, N4) \<Rightarrow> (F e e' out, N4))))"
    for p ov q ov' c xs v o' F
  proof -
    obtain e N1 where 1: "emit E ''model'' p ov N = (e, N1)" by fastforce
    let ?N2 = "if c N1 then N1 else N1\<lparr>nz_modelEventIds := xs e N1\<rparr>"
    obtain e' N3 where 2: "emit E ''run'' q ov' ?N2 = (e', N3)" by fastforce
    obtain out N4 where 3: "normalizeOpenCodeMessage E (v N3) sid o' N3 = (out, N4)" by fastforce
    have "tree N1 = tree N" "tree N3 = tree ?N2" using emit_split [OF 1] emit_split [OF 2] tree_core by blast+
    moreover have "tree ?N2 = tree N1" by (simp add: tree_def)
    ultimately have "tree N4 = tree N" using message_tree_eq [OF 3] by simp
    then show ?thesis by (simp only: 1 2 3 prod.case keeps_tree_def snd_conv)
  qed
  show ?thesis unfolding on_step_started_def Let_def by (rule seq)
qed

lemma dispatch_tree: "keeps_tree N (dispatch_event E event opts N)"
  unfolding dispatch_event_def Let_def
  by (intro keeps_if keeps_none keeps_created keeps_step_started keeps_step_ended keeps_compaction
      plain_out_tree [OF plain_execution_started] plain_out_tree [OF plain_execution_ended]
      plain_out_tree [OF plain_status] plain_out_tree [OF plain_on_text]
      plain_out_tree [OF plain_on_tool] plain_out_tree [OF plain_permission])

lemma fold_event_tree: "tree (foldOpenCodeEvent event N) = tree (tracked event N)"
  unfolding foldOpenCodeEvent_def Let_def
  by (simp add: tree_def clear_root_execution_def split: option.split)

text \<open>Tracking twice is tracking once, also with other changes in between.\<close>

lemma tracked_tree:
  assumes "tree N' = tree N"
  shows "tree (tracked event N') = tree (tracked event N)"
  using assms by (simp add: tree_def tracked_def trackSession_eq)

lemma tracked_again: "tracked event (tracked event N) = tracked event N"
  by (simp add: tracked_def trackSession_again)

lemma tracked_fixed:
  assumes "nz_sessionIds N = nz_sessionIds (tracked event M)"
    and "nz_sessionParents N = nz_sessionParents (tracked event M)"
  shows "tracked event N = N"
proof (cases "oe_type event = ''session.created''")
  case True
  let ?d = "obj_of (oe_data event)"
  from True assms have same: "nz_sessionParents N = nz_sessionParents (trackSession ?d M)"
    "nz_sessionIds N = nz_sessionIds (trackSession ?d M)"
    by (simp_all add: tracked_def)
  have "trackSession ?d N = N\<lparr>nz_sessionParents := nz_sessionParents (trackSession ?d (trackSession ?d M)),
      nz_sessionIds := nz_sessionIds (trackSession ?d (trackSession ?d M))\<rparr>"
    by (simp add: trackSession_eq [of ?d N] trackSession_eq [of ?d "trackSession ?d M"] same)
  also have "\<dots> = N" by (simp add: trackSession_again same [symmetric])
  finally show ?thesis using True by (simp add: tracked_def)
qed (simp add: tracked_def)

lemma event_tree:
  "tree (snd (normalizeOpenCodeEvent E event opts N)) =
     (if fst (isSessionEvent event N) \<and> oe_id event \<notin> set (nz_seenEvents N)
      then (nz_sessionIds (tracked event N), nz_sessionParents (tracked event N),
            set_add (oe_id event) (nz_seenEvents N), nz_rootSessionId N)
      else tree (tracked event N))"
proof -
  let ?N1 = "tracked event N"
  let ?N2 = "?N1\<lparr>nz_seenEvents := set_add (oe_id event) (nz_seenEvents ?N1)\<rparr>"
  have "tree (tracked event ?N2) = (nz_sessionIds ?N1, nz_sessionParents ?N1, set_add (oe_id event) (nz_seenEvents N), nz_rootSessionId N)"
  proof -
    have "nz_sessionIds (tracked event ?N2) = nz_sessionIds (tracked event ?N1)"
      "nz_sessionParents (tracked event ?N2) = nz_sessionParents (tracked event ?N1)"
      by (simp_all add: tracked_def trackSession_eq)
    then show ?thesis by (simp add: tree_def tracked_again)
  qed
  then have "tree (snd (dispatch_event E event opts (foldOpenCodeEvent event ?N2))) =
      (nz_sessionIds ?N1, nz_sessionParents ?N1, set_add (oe_id event) (nz_seenEvents N), nz_rootSessionId N)"
    using dispatch_tree [of "foldOpenCodeEvent event ?N2" E event opts] fold_event_tree [of event ?N2]
    by (simp add: keeps_tree_def)
  then show ?thesis by (simp add: normalizeOpenCodeEvent_def isSessionEvent_def Let_def)
qed

end
