(* ===== verification/Normalizer_Properties.thy ===== *)
theory Normalizer_Properties
  imports Normalizer_Sessions
begin

text \<open>
  The properties of the normalizer: its usage events bill every message exactly once, an event of
  the server is normalized once, and the followed sessions are a closed tree.
\<close>

text \<open>
  C20. Every message is billed exactly once. Whatever events the server streams, whatever messages are
  read back from it, in whatever order and however often, and however the coverage of recovery
  changes: a usage ledger that records the usage events emitted so far holds for every model bucket
  the sums over the latest snapshot of each message attributed to it, with the bucket final exactly
  when all its messages are and incomplete exactly when one is or the recovery is; buckets whose
  messages were attributed elsewhere have dropped to zero. Its total cost is the sum of the costs of
  the messages, each with one snapshot.
\<close>

theorem usage_told_exactly:
  "let (es, N) = apply_ops E ops (createNormalizationContext rootId model f); L = fold ul_record (usages_of es) []
   in (\<forall>b. bucket_settled N L b) \<and> distinct (map fst (nz_usageSnapshots N)) \<and>
      totalCostUsd L = sum_list (map (snapshot_amount \<circ> snd) (nz_usageSnapshots N))"
proof -
  obtain es N where r: "apply_ops E ops (createNormalizationContext rootId model f) = (es, N)" by fastforce
  have "good N (told es [])" by (rule apply_ops_good [OF r new_good])
  moreover have "distinct (map fst (told es []))" by (rule told_distinct) simp
  ultimately show ?thesis
    using good_total [of N "told es []"] unfolding r told_def good_def usage_inv_def Let_def prod.case by blast
qed

text \<open>
  An event is normalized once: delivering it again right away, with whatever options, emits
  nothing and leaves the state as it is.
\<close>

theorem event_normalized_once:
  "normalizeOpenCodeEvent E event opts' (snd (normalizeOpenCodeEvent E event opts N)) =
     (no_events, snd (normalizeOpenCodeEvent E event opts N))"
proof -
  let ?N = "snd (normalizeOpenCodeEvent E event opts N)"
  have t: "nz_sessionIds ?N = nz_sessionIds (tracked event N)" "nz_sessionParents ?N = nz_sessionParents (tracked event N)"
    and seen: "fst (isSessionEvent event N) \<Longrightarrow> oe_id event \<in> set (nz_seenEvents ?N)"
    using event_tree [of E event opts N] by (auto simp: tree_def set_add_def split: if_splits)
  have fixed: "tracked event ?N = ?N" by (rule tracked_fixed [OF t])
  have "fst (isSessionEvent event ?N) = fst (isSessionEvent event N)"
    by (simp add: isSessionEvent_def Let_def fixed) (simp only: in_session_tree_def t)
  with seen show ?thesis
    by (auto simp: normalizeOpenCodeEvent_def [of E event opts' ?N] isSessionEvent_def [of event ?N] fixed Let_def)
qed

lemma apply_op_closed: "closed_sessions N \<Longrightarrow> closed_sessions (snd (apply_op E op1 N))"
proof (cases op1)
  case (StreamEvent event opts)
  assume "closed_sessions N"
  then have "closed_sessions (tracked event N)" by (simp add: tracked_def trackSession_closed)
  moreover have "nz_sessionIds (snd (normalizeOpenCodeEvent E event opts N)) = nz_sessionIds (tracked event N)"
    "nz_sessionParents (snd (normalizeOpenCodeEvent E event opts N)) = nz_sessionParents (tracked event N)"
    using event_tree [of E event opts N] by (auto simp: tree_def split: if_splits)
  ultimately show ?thesis by (simp add: StreamEvent closed_sessions_def)
next
  case (StoredMessage v sid opts)
  assume "closed_sessions N"
  with message_tree [of E v sid opts N] show ?thesis by (simp add: StoredMessage closed_sessions_def tree_def)
next
  case (Coverage incomplete)
  assume "closed_sessions N"
  moreover obtain es N' where r: "updateRecoveryCoverage E incomplete N = (es, N')" by fastforce
  have "nz_sessionIds N' = nz_sessionIds N" "nz_sessionParents N' = nz_sessionParents N"
    using r report_tree [of E _ "N\<lparr>nz_recoveryIncomplete := incomplete\<rparr>" es N']
    by (auto simp: updateRecoveryCoverage_def tree_def split: if_splits)
  ultimately show ?thesis by (simp add: Coverage r closed_sessions_def)
qed

lemma apply_op_root: "rootId \<in> set (nz_sessionIds N) \<Longrightarrow> rootId \<in> set (nz_sessionIds (snd (apply_op E op1 N)))"
proof -
  have track: "set (nz_sessionIds N) \<subseteq> set (nz_sessionIds (tracked event N))" for event
  proof -
    obtain new where "session_closure (Suc (length (parents_with (obj_of (oe_data event)) (nz_sessionParents N))))
        (parents_with (obj_of (oe_data event)) (nz_sessionParents N)) (nz_sessionIds N) = nz_sessionIds N @ new"
      using session_closure_contains by blast
    then show ?thesis by (auto simp: tracked_def trackSession_eq simp del: session_closure.simps)
  qed
  assume root: "rootId \<in> set (nz_sessionIds N)"
  show ?thesis
  proof (cases op1)
    case (StreamEvent event opts)
    have "nz_sessionIds (snd (normalizeOpenCodeEvent E event opts N)) = nz_sessionIds (tracked event N)"
      using event_tree [of E event opts N] by (auto simp: tree_def split: if_splits)
    with track root show ?thesis by (auto simp: StreamEvent)
  next
    case (StoredMessage v sid opts)
    with root message_tree [of E v sid opts N] show ?thesis by (simp add: tree_def)
  next
    case (Coverage incomplete)
    obtain es N' where r: "updateRecoveryCoverage E incomplete N = (es, N')" by fastforce
    have "nz_sessionIds N' = nz_sessionIds N"
      using r report_tree [of E _ "N\<lparr>nz_recoveryIncomplete := incomplete\<rparr>" es N']
      by (auto simp: updateRecoveryCoverage_def tree_def split: if_splits)
    with root show ?thesis by (simp add: Coverage r)
  qed
qed

lemma apply_ops_closed:
  "closed_sessions N \<Longrightarrow> rootId \<in> set (nz_sessionIds N) \<Longrightarrow>
     closed_sessions (snd (apply_ops E ops N)) \<and> rootId \<in> set (nz_sessionIds (snd (apply_ops E ops N)))"
proof (induction ops arbitrary: N)
  case (Cons op1 ops)
  obtain out N1 where r: "apply_op E op1 N = (out, N1)" by fastforce
  have "closed_sessions N1" "rootId \<in> set (nz_sessionIds N1)"
    using apply_op_closed [OF Cons.prems(1), of E op1] apply_op_root [OF Cons.prems(2), of E op1] by (simp_all add: r)
  from Cons.IH [OF this] show ?case by (cases "apply_ops E ops N1") (simp add: r)
qed simp


end
