(* ===== verification/Opencode_Environment.thy ===== *)
theory Opencode_Environment
  imports Python_Bridge Runtime_Shared
begin

text \<open>
  The environment of the OpenCode child process: \<open>coordinator/src/runtimes/opencode/environment.ts\<close>.
  The child sees nothing of the coordinator's environment but the names the lists below allow. The
  URL parser of the platform is a parameter (\<open>url_of\<close>), so what is shown holds for any parser. An
  environment is an association list in insertion order.
\<close>

section \<open>Text helpers\<close>

text \<open>\<open>text.split(c)\<close>, \<open>[...new Set(xs)]\<close> and \<open>text.startsWith(p)\<close>, which is the library's \<open>prefix\<close>.\<close>

fun split_on :: "char \<Rightarrow> string \<Rightarrow> string list" where
  "split_on c [] = [[]]"
| "split_on c (x # xs) =
     (if x = c then [] # split_on c xs
      else (case split_on c xs of [] \<Rightarrow> [[x]] | w # ws \<Rightarrow> (x # w) # ws))"

definition first_occurrences :: "'a list \<Rightarrow> 'a list" where
  "first_occurrences xs = rev (remdups (rev xs))"

text \<open>What the sources read of a parsed \<open>URL\<close>.\<close>

record url_parts =
  ur_protocol :: string
  ur_hostname :: string
  ur_port :: string
  ur_pathname :: string
  ur_username :: string
  ur_password :: string
  ur_search :: string
  ur_hash :: string
  ur_searchParams :: "(string \<times> string) list"

type_synonym environment = "(string \<times> string) list"

section \<open>The lists of names\<close>

definition mcp_url_environment :: string where
  "mcp_url_environment = ''JIRA_MCP_URL''"

definition vertex_proxy_url_environment :: string where
  "vertex_proxy_url_environment = ''REHOR_VERTEX_PROXY_URL''"

definition blocked_passthrough :: "string list" where
  "blocked_passthrough =
     [''ANTHROPIC_API_KEY'', ''GH_TOKEN'', ''GITHUB_TOKEN'', ''GITLAB_TOKEN'', ''GPG_PRIVATE_KEY_B64'',
      ''GPG_SIGNING_KEY'', ''JIRA_API_TOKEN'', ''JIRA_MCP_TOKEN'', ''JIRA_USERNAME'', ''OPENAI_API_KEY'',
      ''OPENCODE_CONFIG'', ''OPENCODE_CONFIG_CONTENT'', ''OPENCODE_CONFIG_DIR'', ''OPENCODE_DB'',
      ''OPENCODE_TEST_HOME'', ''SSO_PASSWORD'', ''SSO_USERNAME'']"

definition blocked_prefixes :: "string list" where
  "blocked_prefixes = [''OPENCODE_'', ''NPM_CONFIG_'', ''npm_config_'']"

definition provider_environment_allowlist :: "string list" where
  "provider_environment_allowlist =
     [''REHOR_MODEL_PROXY_TOKEN'', ''REHOR_MODEL_PROXY_URL'', vertex_proxy_url_environment]"

definition environment_allowlist :: "string list" where
  "environment_allowlist =
     [''HOME'', ''GIT_CONFIG_GLOBAL'', mcp_url_environment, ''LANG'', ''LC_ALL'', ''NO_COLOR'', ''PATH'',
      ''SHELL'', ''TMPDIR'', ''USER'', ''XDG_CACHE_HOME'', ''XDG_CONFIG_HOME'', ''XDG_DATA_HOME'',
      ''XDG_STATE_HOME'']"

definition operational_allowlist :: "string list" where
  "operational_allowlist =
     [''BOT_BOARD_ID'', ''BOT_BOARD_NAME'', ''BOT_CONFIG_PATH'', ''BOT_INSTANCE_ID'', ''BOT_JIRA_EMAIL'',
      ''BOT_MEMORY_URL'', ''EXECUTOR_ADDR'', ''GH_RELEASE_UPLOAD_URL'', ''GH_USER_NAME'', ''GL_USER_NAME'',
      ''SLACK_NOTIFY_MODE'', ''SLACK_WEBHOOK_URL'']"

definition default_no_proxy_hosts :: "string list" where
  "default_no_proxy_hosts =
     [''127.0.0.1'', ''localhost'', ''devbot-proxy'', ''proxy'', ''model-gateway'', ''memory-server'',
      ''jira-proxy'', ''jira-mcp'']"

section \<open>Building the environment\<close>

text \<open>\<open>noProxy\<close> is a comma-separated text or a list.\<close>

datatype no_proxy = NoProxyText string | NoProxyList "string list"

record proxy_environment =
  px_httpProxy :: "string option"
  px_httpsProxy :: "string option"
  px_noProxy :: "no_proxy option"

record environment_options =
  eo_base :: environment
  eo_proxy :: "proxy_environment option"
  eo_passthrough :: "string list"
  eo_noProxyHosts :: "string list"
  eo_configDirectory :: "string option"
  eo_databasePath :: "string option"

text \<open>\<open>environment[a] ?? environment[b]\<close> and the first of some names whose trimmed value is not empty.\<close>

definition env_either :: "environment \<Rightarrow> string \<Rightarrow> string \<Rightarrow> string option" where
  "env_either env a b = (case map_of env a of None \<Rightarrow> map_of env b | v \<Rightarrow> v)"

fun first_trimmed :: "environment \<Rightarrow> string list \<Rightarrow> string option" where
  "first_trimmed env [] = None"
| "first_trimmed env (n # ns) =
     (case map_of env n of
        None \<Rightarrow> first_trimmed env ns
      | Some v \<Rightarrow> if trim v \<noteq> [] then Some (trim v) else first_trimmed env ns)"

definition http_url_rx :: rx where
  "http_url_rx = seq [ilit ''http'', opt (ilit ''s''), lit ''://'']"

definition resolveVertexProxyUrl :: "environment \<Rightarrow> string" where
  "resolveVertexProxyUrl env =
     (case first_trimmed env [vertex_proxy_url_environment, ''ANTHROPIC_VERTEX_BASE_URL''] of
        Some url \<Rightarrow> url
      | None \<Rightarrow>
          (let host = (case first_trimmed env [''PROXY_HOST'', ''PROXY_NAME''] of
                         None \<Rightarrow> ''devbot-proxy'' | Some h \<Rightarrow> h)
           in if rx_match http_url_rx host \<noteq> [] then host else ''http://'' @ host @ '':8443''))"

definition copyIfPresent :: "environment \<Rightarrow> string \<Rightarrow> environment \<Rightarrow> environment" where
  "copyIfPresent source name target =
     (case map_of source name of None \<Rightarrow> target | Some v \<Rightarrow> AList.update name v target)"

definition setProxyAlias :: "string \<Rightarrow> string \<Rightarrow> string option \<Rightarrow> environment \<Rightarrow> environment" where
  "setProxyAlias upper lower value target =
     (case value of
        None \<Rightarrow> AList.delete lower (AList.delete upper target)
      | Some v \<Rightarrow> AList.update lower v (AList.update upper v target))"

definition getHostname :: "(string \<Rightarrow> url_parts option) \<Rightarrow> string \<Rightarrow> string option" where
  "getHostname url_of value = map_option ur_hostname (url_of value)"

fun normalizeHosts :: "no_proxy option \<Rightarrow> string list" where
  "normalizeHosts None = []"
| "normalizeHosts (Some (NoProxyText s)) = map trim (split_on CHR '','' s)"
| "normalizeHosts (Some (NoProxyList hs)) = map trim hs"

definition may_pass :: "string \<Rightarrow> bool" where
  "may_pass name \<longleftrightarrow>
     name \<in> set provider_environment_allowlist \<and> name \<notin> set blocked_passthrough \<and>
     \<not> list_ex (\<lambda>p. prefix p name) blocked_prefixes"

definition pass_through :: "environment \<Rightarrow> string \<Rightarrow> environment \<Rightarrow> environment" where
  "pass_through base name target =
     (if may_pass name
      then (if name = vertex_proxy_url_environment
            then AList.update name (resolveVertexProxyUrl base) target
            else copyIfPresent base name target)
      else target)"

definition proxy_of :: "environment_options \<Rightarrow> proxy_environment" where
  "proxy_of opts =
     (case eo_proxy opts of
        Some p \<Rightarrow> p
      | None \<Rightarrow>
          \<lparr>px_httpProxy = env_either (eo_base opts) ''HTTP_PROXY'' ''http_proxy'',
           px_httpsProxy = env_either (eo_base opts) ''HTTPS_PROXY'' ''https_proxy'',
           px_noProxy = map_option NoProxyText (env_either (eo_base opts) ''NO_PROXY'' ''no_proxy'')\<rparr>)"

definition no_proxy_hosts :: "(string \<Rightarrow> url_parts option) \<Rightarrow> environment_options \<Rightarrow> string list" where
  "no_proxy_hosts url_of opts =
     (let vertexProxyHost =
            (if vertex_proxy_url_environment \<in> set (eo_passthrough opts)
             then getHostname url_of (resolveVertexProxyUrl (eo_base opts)) else None)
      in first_occurrences
           (filter (\<lambda>h. h \<noteq> [])
              (default_no_proxy_hosts @ eo_noProxyHosts opts @
               normalizeHosts (px_noProxy (proxy_of opts)) @
               (case vertexProxyHost of None \<Rightarrow> [] | Some h \<Rightarrow> [h]))))"

definition set_optional :: "string \<Rightarrow> string option \<Rightarrow> environment \<Rightarrow> environment" where
  "set_optional name value target =
     (case value of None \<Rightarrow> target | Some v \<Rightarrow> AList.update name v target)"

definition buildOpenCodeEnvironment ::
    "(string \<Rightarrow> url_parts option) \<Rightarrow> environment_options \<Rightarrow> environment" where
  "buildOpenCodeEnvironment url_of opts =
     (let base = eo_base opts;
          proxy = proxy_of opts;
          noProxy = join_text '','' (no_proxy_hosts url_of opts);
          e1 = fold (copyIfPresent base) environment_allowlist [];
          e2 = fold (copyIfPresent base) operational_allowlist e1;
          e3 = fold (pass_through base) (eo_passthrough opts) e2;
          e4 = setProxyAlias ''HTTP_PROXY'' ''http_proxy'' (px_httpProxy proxy) e3;
          e5 = setProxyAlias ''HTTPS_PROXY'' ''https_proxy'' (px_httpsProxy proxy) e4;
          e6 = AList.update ''no_proxy'' noProxy (AList.update ''NO_PROXY'' noProxy e5)
      in set_optional ''OPENCODE_DB'' (eo_databasePath opts)
           (set_optional ''OPENCODE_CONFIG_DIR'' (eo_configDirectory opts) e6))"

section \<open>The loopback transport\<close>

text \<open>
  \<open>createOpenCodeFetch\<close>: the request's target when the wrapped fetch is called with it, or the
  error. \<open>NODE_USE_ENV_PROXY\<close> is read from the coordinator's own environment when the wrapper is made.
\<close>

definition strip_brackets :: "string \<Rightarrow> string" where
  "strip_brackets s =
     (let t = (if s \<noteq> [] \<and> hd s = CHR ''['' then tl s else s)
      in if t \<noteq> [] \<and> last t = CHR '']'' then butlast t else t)"

definition isLoopbackHostname :: "string \<Rightarrow> bool" where
  "isLoopbackHostname hostname \<longleftrightarrow>
     strip_brackets (to_lower hostname) \<in> {''localhost'', ''127.0.0.1'', ''::1''}"

definition createOpenCodeFetch ::
    "environment \<Rightarrow> string + ((string \<Rightarrow> url_parts option) \<Rightarrow> string \<Rightarrow> string + string)" where
  "createOpenCodeFetch own =
     (if map_of own ''NODE_USE_ENV_PROXY'' = Some ''1''
      then Inl ''OpenCode loopback fetch cannot run with NODE_USE_ENV_PROXY=1''
      else Inr (\<lambda>url_of request.
        case url_of request of
          None \<Rightarrow> Inl ''Invalid URL''
        | Some u \<Rightarrow>
            if isLoopbackHostname (ur_hostname u) then Inr request
            else Inl (''OpenCode URL '' @ ur_hostname u @ '' is not a loopback address'')))"

section \<open>What the child sees\<close>

text \<open>The value of every variable of the child, as a table.\<close>

definition child_variable ::
    "(string \<Rightarrow> url_parts option) \<Rightarrow> environment_options \<Rightarrow> string \<Rightarrow> string option" where
  "child_variable url_of opts name =
     (if name \<in> {''NO_PROXY'', ''no_proxy''} then Some (join_text '','' (no_proxy_hosts url_of opts))
      else if name \<in> {''HTTP_PROXY'', ''http_proxy''} then px_httpProxy (proxy_of opts)
      else if name \<in> {''HTTPS_PROXY'', ''https_proxy''} then px_httpsProxy (proxy_of opts)
      else if name = ''OPENCODE_CONFIG_DIR'' then eo_configDirectory opts
      else if name = ''OPENCODE_DB'' then eo_databasePath opts
      else if name \<in> set environment_allowlist \<union> set operational_allowlist then map_of (eo_base opts) name
      else if name \<in> set (eo_passthrough opts) \<inter> set provider_environment_allowlist
      then (if name = vertex_proxy_url_environment then Some (resolveVertexProxyUrl (eo_base opts))
            else map_of (eo_base opts) name)
      else None)"

lemma map_of_copy:
  "map_of (copyIfPresent base n t) k =
     (if k = n \<and> map_of base n \<noteq> None then map_of base n else map_of t k)"
  by (simp add: copyIfPresent_def update_conv split: option.split)

lemma map_of_copies:
  "map_of (fold (copyIfPresent base) ns t) k =
     (if k \<in> set ns \<and> map_of base k \<noteq> None then map_of base k else map_of t k)"
  by (induction ns arbitrary: t) (auto simp: map_of_copy)

lemma map_of_pass:
  "map_of (fold (pass_through base) ns t) k =
     (if k \<in> set ns \<and> may_pass k \<and> (k = vertex_proxy_url_environment \<or> map_of base k \<noteq> None)
      then (if k = vertex_proxy_url_environment then Some (resolveVertexProxyUrl base) else map_of base k)
      else map_of t k)"
  by (induction ns arbitrary: t) (auto simp: pass_through_def map_of_copy update_conv)

lemma map_of_proxy_alias:
  "map_of (setProxyAlias upper lower v t) k = (if k \<in> {upper, lower} then v else map_of t k)"
  by (auto simp: setProxyAlias_def update_conv delete_conv split: option.split)

lemma map_of_optional:
  "map_of (set_optional n v t) k = (if k = n \<and> v \<noteq> None then v else map_of t k)"
  by (auto simp: set_optional_def update_conv split: option.split)

lemmas env_values = map_of_copies map_of_pass map_of_proxy_alias map_of_optional update_conv

lemma env_steps_distinct:
  "distinct (map fst t) \<Longrightarrow> distinct (map fst (copyIfPresent base n t))"
  "distinct (map fst t) \<Longrightarrow> distinct (map fst (pass_through base n t))"
  "distinct (map fst t) \<Longrightarrow> distinct (map fst (setProxyAlias upper lower v t))"
  "distinct (map fst t) \<Longrightarrow> distinct (map fst (set_optional n v t))"
  by (simp_all add: copyIfPresent_def pass_through_def setProxyAlias_def set_optional_def distinct_update
      distinct_delete split: option.split)

lemma fold_distinct:
  assumes "\<And>x t. distinct (map fst t) \<Longrightarrow> distinct (map fst (f x t))" "distinct (map fst t)"
  shows "distinct (map fst (fold f xs t))"
  using assms(2) by (induction xs arbitrary: t) (auto intro: assms(1))

lemma may_pass_iff: "may_pass n \<longleftrightarrow> n \<in> set provider_environment_allowlist"
  by (auto simp: may_pass_def provider_environment_allowlist_def blocked_passthrough_def blocked_prefixes_def
      vertex_proxy_url_environment_def)

lemma environment_distinct: "distinct (map fst (buildOpenCodeEnvironment url_of opts))"
  by (simp add: buildOpenCodeEnvironment_def Let_def env_steps_distinct distinct_update fold_distinct)

definition coordinator_names :: "string list" where
  "coordinator_names =
     [''NO_PROXY'', ''no_proxy'', ''HTTP_PROXY'', ''http_proxy'', ''HTTPS_PROXY'', ''https_proxy'',
      ''OPENCODE_CONFIG_DIR'', ''OPENCODE_DB'']"

lemma lists_disjoint:
  "set provider_environment_allowlist \<inter> (set environment_allowlist \<union> set operational_allowlist) = {}"
  "set coordinator_names \<inter> (set environment_allowlist \<union> set operational_allowlist) = {}"
  "set coordinator_names \<inter> set provider_environment_allowlist = {}"
  "set blocked_passthrough \<inter> (set environment_allowlist \<union> set operational_allowlist) = {}"
  "set blocked_passthrough \<inter> set provider_environment_allowlist = {}"
  "set blocked_passthrough \<inter> set coordinator_names \<subseteq> {''OPENCODE_CONFIG_DIR'', ''OPENCODE_DB''}"
  by (simp_all add: provider_environment_allowlist_def environment_allowlist_def operational_allowlist_def
      coordinator_names_def blocked_passthrough_def vertex_proxy_url_environment_def mcp_url_environment_def)

lemma vertex_provider: "vertex_proxy_url_environment \<in> set provider_environment_allowlist"
  by (simp add: provider_environment_allowlist_def)

lemma environment_value:
  "map_of (buildOpenCodeEnvironment url_of opts) name = child_variable url_of opts name"
proof (cases "name \<in> set coordinator_names")
  case True
  then have no: "name \<notin> set environment_allowlist" "name \<notin> set operational_allowlist"
    "name \<notin> set provider_environment_allowlist"
    using lists_disjoint by auto
  from True have "name = ''NO_PROXY'' \<or> name = ''no_proxy'' \<or> name = ''HTTP_PROXY'' \<or> name = ''http_proxy'' \<or>
    name = ''HTTPS_PROXY'' \<or> name = ''https_proxy'' \<or> name = ''OPENCODE_CONFIG_DIR'' \<or> name = ''OPENCODE_DB''"
    by (simp add: coordinator_names_def)
  with no show ?thesis
    by (elim disjE) (simp_all add: buildOpenCodeEnvironment_def Let_def env_values may_pass_iff child_variable_def)
next
  case False
  then have ne: "name \<noteq> ''NO_PROXY''" "name \<noteq> ''no_proxy''" "name \<noteq> ''HTTP_PROXY''" "name \<noteq> ''http_proxy''"
    "name \<noteq> ''HTTPS_PROXY''" "name \<noteq> ''https_proxy''" "name \<noteq> ''OPENCODE_CONFIG_DIR''" "name \<noteq> ''OPENCODE_DB''"
    by (simp_all add: coordinator_names_def)
  show ?thesis
  proof (cases "name \<in> set environment_allowlist \<or> name \<in> set operational_allowlist")
    case True
    with lists_disjoint(1) have "name \<notin> set provider_environment_allowlist" by blast
    with True show ?thesis
      by (elim disjE; cases "map_of (eo_base opts) name")
        (simp_all add: ne buildOpenCodeEnvironment_def Let_def env_values may_pass_iff child_variable_def)
  next
    case False
    then show ?thesis
      by (simp add: ne buildOpenCodeEnvironment_def Let_def env_values may_pass_iff child_variable_def)
  qed
qed

lemma blocked_absent:
  assumes "n \<in> set blocked_passthrough" "n \<notin> D" "set blocked_passthrough \<inter> set coordinator_names \<subseteq> D"
  shows "n \<notin> set (map fst (buildOpenCodeEnvironment url_of opts))"
proof -
  have no: "n \<notin> set environment_allowlist" "n \<notin> set operational_allowlist"
    "n \<notin> set provider_environment_allowlist" "n \<notin> set coordinator_names"
    using assms lists_disjoint(4,5) by blast+
  then have "child_variable url_of opts n = None"
    by (simp add: child_variable_def coordinator_names_def)
  then have "map_of (buildOpenCodeEnvironment url_of opts) n = None"
    by (simp only: environment_value)
  then show ?thesis by (simp add: map_of_eq_None_iff)
qed


end
