(* ===== verification/Env_Refs.thy ===== *)
theory Env_Refs
  imports Opencode_Environment
begin

text \<open>
  Environment references in the OpenCode configuration:
  \<open>coordinator/src/runtimes/opencode/env-refs.ts\<close>. A value may name an environment variable as
  \<open>${NAME}\<close> or \<open>{env:NAME}\<close>; normalising rewrites the first form into the second, checks every name
  and rejects literal values under keys that look like credentials.

  An error is the single issue of an \<open>OpenCodeConfigValidationError\<close>. The sort key of the locale's
  collation is a parameter (\<open>collate\<close>): \<open>a.localeCompare(b)\<close> compares \<open>collate a\<close> with \<open>collate b\<close>.
  The set of required variables is a list in insertion order.
\<close>

type_synonym issue = string

section \<open>Patterns\<close>

definition secret_key_rx :: rx where
  "secret_key_rx =
     alts [seq [ilit ''api'', dash_rx, ilit ''key''], ilit ''authorization'', ilit ''credential'',
           ilit ''password'', seq [ilit ''private'', dash_rx, ilit ''key''], ilit ''secret'', ilit ''token'']"

definition secret_key :: "string \<Rightarrow> bool" where
  "secret_key key \<longleftrightarrow> rx_search secret_key_rx key"

definition not_closing :: rx where
  "not_closing = Rep (\<lambda>c. c \<noteq> CHR ''}'') 0 True"

definition env_reference_rx :: rx where
  "env_reference_rx = seq [lit ''{env:'', Cap 1 not_closing, lit ''}'']"

definition braced_reference_rx :: rx where
  "braced_reference_rx = seq [lit ''${'', Cap 1 not_closing, lit ''}'']"

text \<open>\<open>[...text.matchAll(re)]\<close> for a pattern that matches no empty text.\<close>

fun match_all_from :: "nat \<Rightarrow> rx \<Rightarrow> string \<Rightarrow> rx_result list" where
  "match_all_from 0 r s = []"
| "match_all_from (Suc n) r s =
     (case rx_first r s of
        Some m \<Rightarrow> m # match_all_from n r (rx_rest m)
      | None \<Rightarrow> (case s of [] \<Rightarrow> [] | _ # cs \<Rightarrow> match_all_from n r cs))"

definition match_all :: "rx \<Rightarrow> string \<Rightarrow> rx_result list" where
  "match_all r s = match_all_from (Suc (length s)) r s"

section \<open>Names\<close>

definition env_name_ok :: "string \<Rightarrow> bool" where
  "env_name_ok name \<longleftrightarrow>
     (case name of [] \<Rightarrow> False | c # cs \<Rightarrow> (is_alpha c \<or> c = CHR ''_'') \<and> list_all (alnum_or ''_'') cs)"

definition quoted :: "string \<Rightarrow> string" where
  "quoted s = CHR 0x27 # s @ [CHR 0x27]"

definition assertEnvironmentVariableName :: "string \<Rightarrow> string \<Rightarrow> issue + string" where
  "assertEnvironmentVariableName name path =
     (if env_name_ok name then Inr name
      else Inl (path @ '' contains invalid environment variable name '' @ quoted name))"

definition parseEnvironmentReferences :: "string \<Rightarrow> string \<Rightarrow> issue + string list" where
  "parseEnvironmentReferences value path =
     mapE_from 0 (\<lambda>_ m. assertEnvironmentVariableName (group 1 m) path) (match_all env_reference_rx value)"

definition isCoordinatorControlledEnvironment :: "string \<Rightarrow> bool" where
  "isCoordinatorControlledEnvironment name \<longleftrightarrow> list_ex (\<lambda>p. prefix p name) blocked_prefixes"

text \<open>A validator either passes (\<open>None\<close>) or throws the issue.\<close>

type_synonym env_validator = "string \<Rightarrow> string \<Rightarrow> issue option"

definition assertProviderEnvironment :: "bool \<Rightarrow> env_validator" where
  "assertProviderEnvironment enforceAllowlist name path =
     (if isCoordinatorControlledEnvironment name
      then Some (path @ '' cannot reference a coordinator-controlled environment variable'')
      else if name \<in> set blocked_passthrough
      then Some (path @ '' cannot reference a blocked OpenCode environment variable '' @ quoted name)
      else if enforceAllowlist \<and> name \<notin> set provider_environment_allowlist
      then Some (path @ '' cannot reference an unapproved OpenCode environment variable '' @ quoted name)
      else None)"

definition assertMcpUrlEnvironment :: env_validator where
  "assertMcpUrlEnvironment name path =
     (if name \<noteq> mcp_url_environment
      then Some (path @ '' cannot reference an unapproved environment variable '' @ quoted name) else None)"

definition rejectMcpEnvironmentReference :: env_validator where
  "rejectMcpEnvironmentReference name path =
     Some (path @ '' cannot reference an environment variable '' @ quoted name)"

section \<open>Normalising\<close>

text \<open>Each reference is validated and then added to the required variables.\<close>

fun check_references ::
    "env_validator \<Rightarrow> string \<Rightarrow> string list \<Rightarrow> string list \<Rightarrow> issue + string list" where
  "check_references validate path [] required = Inr required"
| "check_references validate path (n # ns) required =
     (case validate n path of
        Some e \<Rightarrow> Inl e
      | None \<Rightarrow> check_references validate path ns (set_add n required))"

definition env_reference :: "string \<Rightarrow> string" where
  "env_reference name = ''{env:'' @ name @ ''}''"

definition normalizeEnvString ::
    "env_validator \<Rightarrow> string \<Rightarrow> string \<Rightarrow> string list \<Rightarrow> issue + string \<times> string list" where
  "normalizeEnvString validate value path required =
     (let normalized = replace_all braced_reference_rx (\<lambda>m. env_reference (group 1 m)) value
      in bindE (parseEnvironmentReferences normalized path) (\<lambda>names.
         bindE (check_references validate path names required) (\<lambda>required'.
         Inr (normalized, required'))))"

definition sortedEntries :: "(string \<Rightarrow> string) \<Rightarrow> (string \<times> 'a) list \<Rightarrow> (string \<times> 'a) list" where
  "sortedEntries collate entries = sort_key (collate \<circ> fst) entries"

lemma size_sortedEntries: "size_list f (sortedEntries collate xs) = size_list f xs"
proof -
  have "mset (sortedEntries collate xs) = mset xs" by (simp add: sortedEntries_def)
  then have "sum_mset (image_mset (\<lambda>x. Suc (f x)) (mset (sortedEntries collate xs))) =
      sum_mset (image_mset (\<lambda>x. Suc (f x)) (mset xs))" by simp
  moreover have "size_list f ys = sum_mset (image_mset (\<lambda>x. Suc (f x)) (mset ys))" for ys :: "(string \<times> 'a) list"
    by (induction ys) auto
  ultimately show ?thesis by simp
qed

function (sequential)
  normalizeJsonValue ::
    "(string \<Rightarrow> string) \<Rightarrow> env_validator \<Rightarrow> jsval \<Rightarrow> string \<Rightarrow> string \<Rightarrow> string list \<Rightarrow>
     issue + jsval \<times> string list"
and normalize_elements ::
    "(string \<Rightarrow> string) \<Rightarrow> env_validator \<Rightarrow> nat \<Rightarrow> jsval list \<Rightarrow> string \<Rightarrow> string \<Rightarrow> string list \<Rightarrow>
     issue + jsval list \<times> string list"
and normalize_entries ::
    "(string \<Rightarrow> string) \<Rightarrow> env_validator \<Rightarrow> obj \<Rightarrow> string \<Rightarrow> string list \<Rightarrow> issue + obj \<times> string list"
where
  "normalizeJsonValue collate validate (JStr value) path key required =
     bindE (normalizeEnvString validate value path required) (\<lambda>(normalized, required').
     bindE (parseEnvironmentReferences normalized path) (\<lambda>names.
       if secret_key key \<and> names = []
       then Inl (path @ '' must use an OpenCode environment reference'')
       else Inr (JStr normalized, required')))"
| "normalizeJsonValue collate validate (JArr entries) path key required =
     bindE (normalize_elements collate validate 0 entries path key required) (\<lambda>(values, required').
       Inr (JArr values, required'))"
| "normalizeJsonValue collate validate (JObj ob) path key required =
     bindE (normalize_entries collate validate (sortedEntries collate ob) path required) (\<lambda>(entries, required').
       Inr (JObj entries, required'))"
| "normalizeJsonValue collate validate value path key required = Inr (value, required)"
| "normalize_elements collate validate i [] path key required = Inr ([], required)"
| "normalize_elements collate validate i (v # vs) path key required =
     bindE (normalizeJsonValue collate validate v (at_index path i) key required) (\<lambda>(w, r1).
     bindE (normalize_elements collate validate (Suc i) vs path key r1) (\<lambda>(ws, r2).
       Inr (w # ws, r2)))"
| "normalize_entries collate validate [] path required = Inr ([], required)"
| "normalize_entries collate validate ((k, v) # ob) path required =
     bindE (normalizeJsonValue collate validate v (path @ ''.'' @ k) k required) (\<lambda>(w, r1).
     bindE (normalize_entries collate validate ob path r1) (\<lambda>(ws, r2).
       Inr ((k, w) # ws, r2)))"
  by pat_completeness auto
termination
  by (relation "measure (\<lambda>x. case x of
        Inl (_, _, v, _) \<Rightarrow> 2 * size v
      | Inr (Inl (_, _, _, vs, _)) \<Rightarrow> 2 * size_list size vs + 1
      | Inr (Inr (_, _, ob, _)) \<Rightarrow> 2 * size_list (size_prod (\<lambda>_. 0) size) ob + 1)")
    (auto simp: size_sortedEntries)

definition normalizeJsonObject ::
    "(string \<Rightarrow> string) \<Rightarrow> env_validator \<Rightarrow> obj \<Rightarrow> string \<Rightarrow> string list \<Rightarrow> issue + obj \<times> string list" where
  "normalizeJsonObject collate validate input path required =
     normalize_entries collate validate (sortedEntries collate input) path required"

section \<open>URLs\<close>

definition assertHttpUrl :: "(string \<Rightarrow> url_parts option) \<Rightarrow> string \<Rightarrow> string \<Rightarrow> issue + url_parts" where
  "assertHttpUrl url_of value path =
     (case url_of value of
        None \<Rightarrow> Inl (path @ '' must be an absolute HTTP(S) URL'')
      | Some url \<Rightarrow>
          if ur_protocol url \<noteq> ''http:'' \<and> ur_protocol url \<noteq> ''https:''
          then Inl (path @ '' must use HTTP(S)'')
          else if ur_username url \<noteq> [] \<or> ur_password url \<noteq> []
          then Inl (path @ '' must not contain credentials'')
          else Inr url)"

definition some_reference_rx :: rx where
  "some_reference_rx = seq [lit ''{env:'', Rep (\<lambda>c. c \<noteq> CHR ''}'') 1 True, lit ''}'']"

definition contains :: "string \<Rightarrow> string \<Rightarrow> bool" where
  "contains s part \<longleftrightarrow> list_ex (prefix part) (suffixes s)"

definition assertHttpUrlTemplate :: "(string \<Rightarrow> url_parts option) \<Rightarrow> string \<Rightarrow> string \<Rightarrow> issue + unit" where
  "assertHttpUrlTemplate url_of value path =
     bindE (parseEnvironmentReferences value path) (\<lambda>names.
       if (case names of [name] \<Rightarrow> value = env_reference name | _ \<Rightarrow> False) then Inr ()
       else (let template = (if names \<noteq> [] then replace_all some_reference_rx (\<lambda>_. ''env-placeholder'') value
                             else value)
             in bindE (assertHttpUrl url_of template path) (\<lambda>url.
                  if list_ex (\<lambda>(key, entry). secret_key key \<and> \<not> contains entry ''env-placeholder'')
                       (ur_searchParams url)
                  then Inl (path @ '' contains a literal credential query parameter'')
                  else Inr ())))"

section \<open>What normalised values refer to\<close>

definition env_names :: "string \<Rightarrow> string list" where
  "env_names s = map (group 1) (match_all env_reference_rx s)"

text \<open>The strings of a value with the object key each stands under.\<close>

fun json_leaves :: "string \<Rightarrow> jsval \<Rightarrow> (string \<times> string) list" where
  "json_leaves key (JStr s) = [(key, s)]"
| "json_leaves key (JArr vs) = concat (map (json_leaves key) vs)"
| "json_leaves key (JObj ob) = concat (map (\<lambda>(k, v). json_leaves k v) ob)"
| "json_leaves key _ = []"

definition leaf_names :: "(string \<times> string) list \<Rightarrow> string set" where
  "leaf_names ls = (\<Union>(k, s) \<in> set ls. set (env_names s))"

definition leaves_ok :: "env_validator \<Rightarrow> (string \<times> string) list \<Rightarrow> bool" where
  "leaves_ok validate ls \<longleftrightarrow>
     list_all (\<lambda>(k, s). list_all (\<lambda>n. env_name_ok n \<and> (\<exists>p. validate n p = None)) (env_names s) \<and>
                        (secret_key k \<longrightarrow> env_names s \<noteq> [])) ls"

lemma leaf_names_simps [simp]:
  "leaf_names [] = {}" "leaf_names ((k, s) # ls) = set (env_names s) \<union> leaf_names ls"
  "leaf_names (a @ b) = leaf_names a \<union> leaf_names b"
  by (auto simp: leaf_names_def)

lemma leaves_ok_simps [simp]:
  "leaves_ok V []" "leaves_ok V (a @ b) \<longleftrightarrow> leaves_ok V a \<and> leaves_ok V b"
  by (auto simp: leaves_ok_def)

lemma parse_references_Inr:
  "parseEnvironmentReferences s p = Inr ns \<longleftrightarrow> ns = env_names s \<and> list_all env_name_ok ns"
proof -
  have "mapE_from i (\<lambda>_ m. assertEnvironmentVariableName (group 1 m) p) ms = Inr ns \<longleftrightarrow>
      ns = map (group 1) ms \<and> list_all env_name_ok ns" for i ms ns
    by (induction ms arbitrary: i ns) (auto simp: bindE_Inr assertEnvironmentVariableName_def)
  then show ?thesis by (simp add: parseEnvironmentReferences_def env_names_def)
qed

lemma check_references_Inr:
  "check_references V p ns r = Inr r' \<Longrightarrow>
     list_all (\<lambda>n. V n p = None) ns \<and> set r' = set r \<union> set ns"
  by (induction ns arbitrary: r) (auto simp: set_add_def split: option.splits if_splits)

lemma normalize_string_Inr:
  assumes "normalizeEnvString V s p r = Inr (t, r')"
  shows "list_all (\<lambda>n. env_name_ok n \<and> (\<exists>p. V n p = None)) (env_names t)" "set r' = set r \<union> set (env_names t)"
  using assms check_references_Inr [of V p "env_names t" r r']
  by (auto simp: normalizeEnvString_def Let_def bindE_Inr parse_references_Inr list_all_iff)

lemma normalize_ok:
  "normalizeJsonValue C V v p key r = Inr (w, r') \<Longrightarrow>
     leaves_ok V (json_leaves key w) \<and> set r' = set r \<union> leaf_names (json_leaves key w)"
  and normalize_elements_ok: "normalize_elements C V i vs p key r = Inr (ws, r') \<Longrightarrow>
     leaves_ok V (json_leaves key (JArr ws)) \<and> set r' = set r \<union> leaf_names (json_leaves key (JArr ws))"
  and normalize_entries_ok: "normalize_entries C V ob p r = Inr (ob', r') \<Longrightarrow>
     leaves_ok V (json_leaves key (JObj ob')) \<and> set r' = set r \<union> leaf_names (json_leaves key (JObj ob'))"
proof (induction C V v p key r and C V i vs p key r and C V ob p r
    arbitrary: w r' and ws r' and ob' r'
    rule: normalizeJsonValue_normalize_elements_normalize_entries.induct)
  case (1 C V s p key r)
  then show ?case
    using normalize_string_Inr [of V s p r _ r']
    by (auto simp: bindE_Inr parse_references_Inr leaves_ok_def split: if_splits)
qed (fastforce simp: bindE_Inr)+

lemma provider_accepts: "assertProviderEnvironment True n p = None \<longleftrightarrow> n \<in> set provider_environment_allowlist"
  using may_pass_iff [of n]
  by (auto simp: assertProviderEnvironment_def isCoordinatorControlledEnvironment_def may_pass_def)

text \<open>Values of MCP servers may hold no reference at all, so nothing credential-like stays in them.\<close>

lemma mcp_values_literal:
  assumes "normalizeJsonObject collate rejectMcpEnvironmentReference ob path r = Inr (out, r')"
  shows "list_all (\<lambda>(k, s). env_names s = [] \<and> \<not> secret_key k) (json_leaves [] (JObj out))"
  using normalize_entries_ok [of collate rejectMcpEnvironmentReference "sortedEntries collate ob" path r out r'] assms
  by (fastforce simp: normalizeJsonObject_def leaves_ok_def list_all_iff rejectMcpEnvironmentReference_def)

text \<open>
  C35. Settings of a provider or plugin that pass normalisation refer to approved environment
  variables only, every variable they refer to is recorded as required and nothing else is, and no
  string under a credential-like key is a literal.
\<close>

theorem settings_normalized_safe:
  assumes "normalizeJsonObject collate (assertProviderEnvironment True) input path [] = Inr (settings, required)"
  shows "set required = leaf_names (json_leaves [] (JObj settings)) \<and>
    set required \<subseteq> set provider_environment_allowlist \<and>
    list_all (\<lambda>(k, s). \<not> (secret_key k \<and> env_names s = [])) (json_leaves [] (JObj settings))"
proof -
  have ok: "leaves_ok (assertProviderEnvironment True) (json_leaves [] (JObj settings))"
    and names: "set required = leaf_names (json_leaves [] (JObj settings))"
    using normalize_entries_ok [of collate "assertProviderEnvironment True" "sortedEntries collate input" path "[]"
        settings required] assms
    by (simp_all add: normalizeJsonObject_def)
  from ok have "leaf_names (json_leaves [] (JObj settings)) \<subseteq> set provider_environment_allowlist"
    by (fastforce simp: leaves_ok_def leaf_names_def list_all_iff provider_accepts)
  moreover from ok have "list_all (\<lambda>(k, s). \<not> (secret_key k \<and> env_names s = [])) (json_leaves [] (JObj settings))"
    by (fastforce simp: leaves_ok_def list_all_iff)
  ultimately show ?thesis using names by simp
qed

lemma braced_token: "replace_all braced_reference_rx (\<lambda>m. env_reference (group (Suc 0) m)) ''${REHOR_MODEL_PROXY_TOKEN}'' =
    ''{env:REHOR_MODEL_PROXY_TOKEN}''"
  by code_simp

lemma env_names_token: "env_names ''{env:REHOR_MODEL_PROXY_TOKEN}'' = [''REHOR_MODEL_PROXY_TOKEN'']"
  by code_simp

theorem settings_normalized_safe_witness:
  "normalizeJsonObject (\<lambda>s. s) (assertProviderEnvironment True)
       [(''token'', JStr ''${REHOR_MODEL_PROXY_TOKEN}'')] ''p'' [] =
     Inr ([(''token'', JStr ''{env:REHOR_MODEL_PROXY_TOKEN}'')], [''REHOR_MODEL_PROXY_TOKEN'']) \<and>
   set [''REHOR_MODEL_PROXY_TOKEN''] \<subseteq> set provider_environment_allowlist"
proof -
  have "env_name_ok ''REHOR_MODEL_PROXY_TOKEN''" by code_simp
  then have names: "parseEnvironmentReferences ''{env:REHOR_MODEL_PROXY_TOKEN}'' p = Inr [''REHOR_MODEL_PROXY_TOKEN'']" for p
    by (simp add: parse_references_Inr env_names_token)
  have "assertProviderEnvironment True ''REHOR_MODEL_PROXY_TOKEN'' p = None" for p
    by (simp add: provider_accepts provider_environment_allowlist_def)
  then have "normalizeJsonObject (\<lambda>s. s) (assertProviderEnvironment True)
       [(''token'', JStr ''${REHOR_MODEL_PROXY_TOKEN}'')] ''p'' [] =
     Inr ([(''token'', JStr ''{env:REHOR_MODEL_PROXY_TOKEN}'')], [''REHOR_MODEL_PROXY_TOKEN''])"
    by (simp add: normalizeJsonObject_def sortedEntries_def normalizeEnvString_def braced_token names Let_def
        set_add_def)
  from settings_normalized_safe [OF this] this show ?thesis by (simp add: env_names_token)
qed

end
