(* ===== verification/Native_Definitions.thy ===== *)
theory Native_Definitions
  imports Env_Refs
begin

text \<open>
  The contracts of OpenCode's native configuration that the renderer checks before it passes a value
  on: \<open>coordinator/src/runtimes/opencode/native-definitions.ts\<close> (agents, commands, permission rules),
  \<open>packages.ts\<close> (exactly pinned packages) and \<open>model-defaults.ts\<close>. A check returns the issue it throws,
  \<open>None\<close> when it passes.
\<close>

fun first_issue :: "issue option list \<Rightarrow> issue option" where
  "first_issue [] = None"
| "first_issue (Some e # _) = Some e"
| "first_issue (None # cs) = first_issue cs"

lemma first_issue_None: "first_issue cs = None \<longleftrightarrow> list_all (\<lambda>c. c = None) cs"
  by (induction cs rule: first_issue.induct) auto

definition passes :: "issue option \<Rightarrow> (unit \<Rightarrow> issue + 'a) \<Rightarrow> issue + 'a" where
  "passes check k = (case check of Some e \<Rightarrow> Inl e | None \<Rightarrow> k ())"

definition issue_of :: "issue + 'a \<Rightarrow> issue option" where
  "issue_of r = (case r of Inl e \<Rightarrow> Some e | Inr _ \<Rightarrow> None)"

lemma passes_Inr: "passes c k = Inr x \<longleftrightarrow> c = None \<and> k () = Inr x"
  by (simp add: passes_def split: option.split)

section \<open>JSON values\<close>

fun validateDefinitionJson :: "jsval \<Rightarrow> string \<Rightarrow> nat \<Rightarrow> issue option"
  and validate_elements :: "nat \<Rightarrow> jsval list \<Rightarrow> string \<Rightarrow> nat \<Rightarrow> issue option"
  and validate_entries :: "obj \<Rightarrow> string \<Rightarrow> nat \<Rightarrow> issue option"
where
  "validateDefinitionJson v path depth =
     (if 64 < depth then Some (path @ '' exceeds definition nesting limit'')
      else (case v of
              JNull \<Rightarrow> None
            | JStr _ \<Rightarrow> None
            | JBool _ \<Rightarrow> None
            | JNum (Fin _) \<Rightarrow> None
            | JArr vs \<Rightarrow> validate_elements 0 vs path (Suc depth)
            | JObj ob \<Rightarrow> validate_entries ob path (Suc depth)
            | _ \<Rightarrow> Some (path @ '' must contain only native JSON-compatible values'')))"
| "validate_elements i [] path depth = None"
| "validate_elements i (v # vs) path depth =
     (case validateDefinitionJson v (at_index path i) depth of
        Some e \<Rightarrow> Some e | None \<Rightarrow> validate_elements (Suc i) vs path depth)"
| "validate_entries [] path depth = None"
| "validate_entries ((k, v) # ob) path depth =
     (case validateDefinitionJson v (path @ ''.'' @ k) depth of
        Some e \<Rightarrow> Some e | None \<Rightarrow> validate_entries ob path depth)"

text \<open>\<open>object\<close>, \<open>keys\<close>, \<open>strings\<close> and \<open>booleans\<close>\<close>

definition native_object :: "jsval \<Rightarrow> string \<Rightarrow> issue + obj" where
  "native_object v path =
     passes (validateDefinitionJson v path 0) (\<lambda>_.
       case as_record v of None \<Rightarrow> Inl (path @ '' must be an object'') | Some ob \<Rightarrow> Inr ob)"

definition native_keys :: "obj \<Rightarrow> string list \<Rightarrow> string \<Rightarrow> issue option" where
  "native_keys ob allowed path =
     map_option (\<lambda>k. path @ ''.'' @ k @ '' is unknown or legacy; use only native V2 fields'')
       (find (\<lambda>k. k \<notin> set allowed) (map fst ob))"

definition native_fields ::
    "(jsval \<Rightarrow> bool) \<Rightarrow> string \<Rightarrow> obj \<Rightarrow> string list \<Rightarrow> string \<Rightarrow> issue option" where
  "native_fields ok what ob names path =
     map_option (\<lambda>n. path @ ''.'' @ n @ what)
       (find (\<lambda>n. obj_get ob n \<noteq> Undef \<and> \<not> ok (obj_get ob n)) names)"

definition native_strings :: "obj \<Rightarrow> string list \<Rightarrow> string \<Rightarrow> issue option" where
  "native_strings = native_fields is_str '' must be a string''"

definition native_booleans :: "obj \<Rightarrow> string list \<Rightarrow> string \<Rightarrow> issue option" where
  "native_booleans = native_fields is_bool '' must be boolean''"

definition failing :: "bool \<Rightarrow> issue \<Rightarrow> issue option" where
  "failing bad issue = (if bad then Some issue else None)"

text \<open>\<open>if (value !== undefined) check(value)\<close>\<close>

definition when_present :: "jsval \<Rightarrow> (jsval \<Rightarrow> issue option) \<Rightarrow> issue option" where
  "when_present v check = (if v = Undef then None else check v)"

section \<open>Models, agents and commands\<close>

definition not_in :: "string \<Rightarrow> rx" where
  "not_in cs = Rep (\<lambda>c. c \<notin> set cs) 1 True"

definition model_selection_rx :: rx where
  "model_selection_rx =
     seq [not_in ''/#'', lit ''/'', not_in ''#'', opt (seq [lit ''#'', not_in ''#''])]"

fun str_matches :: "rx \<Rightarrow> jsval \<Rightarrow> bool" where
  "str_matches r (JStr s) = rx_whole r s"
| "str_matches r _ = False"

definition validateModelSelection :: "jsval \<Rightarrow> string \<Rightarrow> issue option" where
  "validateModelSelection v path =
     (case v of
        JStr s \<Rightarrow> failing (\<not> rx_whole model_selection_rx s) (path @ '' must use provider/model#variant'')
      | _ \<Rightarrow>
          issue_of (bindE (native_object v path) (\<lambda>model.
            passes (native_keys model [''providerID'', ''model'', ''variant''] path) (\<lambda>_.
              if \<not> str_matches (not_in ''/#'') (obj_get model ''providerID'') \<or>
                 \<not> str_matches (not_in ''#'') (obj_get model ''model'') \<or>
                 (obj_get model ''variant'' \<noteq> Undef \<and> \<not> str_matches (not_in ''#'') (obj_get model ''variant''))
              then Inl (path @ '' requires native providerID/model selection'') else Inr ()))))"

datatype effect = Allow | Deny | Ask

fun effect_of :: "jsval \<Rightarrow> effect option" where
  "effect_of (JStr s) =
     (if s = ''allow'' then Some Allow else if s = ''deny'' then Some Deny
      else if s = ''ask'' then Some Ask else None)"
| "effect_of _ = None"

record permission_rule =
  pm_action :: string
  pm_resource :: string
  pm_effect :: effect

definition legacy_actions :: "string list" where
  "legacy_actions = [''bash'', ''task'', ''write'', ''patch'', ''lsp'', ''doom_loop'', ''list'']"

definition validate_permission :: "string \<Rightarrow> bool \<Rightarrow> jsval \<Rightarrow> issue + permission_rule" where
  "validate_permission path denyOnly item =
     bindE (native_object item path) (\<lambda>rule.
     passes (native_keys rule [''action'', ''resource'', ''effect''] path) (\<lambda>_.
       case (as_string (obj_get rule ''action''), as_string (obj_get rule ''resource''), effect_of (obj_get rule ''effect'')) of
         (Some action, Some resource, Some eff) \<Rightarrow>
           if action \<in> set legacy_actions
           then Inl (path @ '' action '' @ quoted action @ '' is not native V2; use shell/subagent/edit/read'')
           else if denyOnly \<and> eff \<noteq> Deny then Inl (path @ '' may only add deny-only restrictions'')
           else Inr \<lparr>pm_action = action, pm_resource = resource, pm_effect = eff\<rparr>
       | _ \<Rightarrow> Inl (path @ '' requires action, resource, effect'')))"

definition validatePermissions :: "jsval \<Rightarrow> string \<Rightarrow> bool \<Rightarrow> issue + permission_rule list" where
  "validatePermissions v path denyOnly =
     (case v of
        JArr items \<Rightarrow> mapE_from 0 (\<lambda>_. validate_permission path denyOnly) items
      | _ \<Rightarrow> Inl (path @ '' must be a native ordered permissions array''))"

definition is_hex :: "char \<Rightarrow> bool" where
  "is_hex c \<longleftrightarrow> hex_val c \<noteq> None"

definition color_ok :: "jsval \<Rightarrow> bool" where
  "color_ok v \<longleftrightarrow>
     (case v of JStr (h # ds) \<Rightarrow> h = CHR ''#'' \<and> length ds = 6 \<and> list_all is_hex ds | _ \<Rightarrow> False)"

definition validate_request :: "jsval \<Rightarrow> string \<Rightarrow> issue option" where
  "validate_request v path =
     issue_of (bindE (native_object v path) (\<lambda>request.
       passes (native_keys request [''headers'', ''body''] path) (\<lambda>_.
       passes (when_present (obj_get request ''headers'') (\<lambda>h.
         issue_of (bindE (native_object h (path @ ''.headers'')) (\<lambda>headers.
           if list_all (is_str \<circ> snd) headers then Inr ()
           else Inl (path @ ''.headers must contain only strings''))))) (\<lambda>_.
       passes (when_present (obj_get request ''body'') (\<lambda>b. issue_of (native_object b (path @ ''.body''))))
         (\<lambda>_. Inr ())))))"

definition validateNativeAgent :: "jsval \<Rightarrow> string \<Rightarrow> issue option" where
  "validateNativeAgent v path =
     issue_of (bindE (native_object v path) (\<lambda>agent.
       passes (first_issue
         [native_keys agent [''model'', ''request'', ''system'', ''description'', ''mode'', ''hidden'', ''color'',
            ''steps'', ''disabled'', ''permissions''] path,
          native_strings agent [''system'', ''description''] path,
          native_booleans agent [''hidden'', ''disabled''] path,
          when_present (obj_get agent ''mode'') (\<lambda>m.
            failing (\<not> is_str_in [''primary'', ''subagent'', ''all''] m) (path @ ''.mode is invalid'')),
          when_present (obj_get agent ''color'') (\<lambda>c. failing (\<not> color_ok c) (path @ ''.color must be hex RGB'')),
          when_present (obj_get agent ''steps'') (\<lambda>s.
            failing (\<not> is_int_from 1 s) (path @ ''.steps must be a positive safe integer'')),
          when_present (obj_get agent ''model'') (\<lambda>m. validateModelSelection m (path @ ''.model'')),
          when_present (obj_get agent ''permissions'') (\<lambda>p.
            issue_of (validatePermissions p (path @ ''.permissions'') False)),
          when_present (obj_get agent ''request'') (\<lambda>r. validate_request r (path @ ''.request''))])
        (\<lambda>_. Inr ())))"

definition validateNativeCommand :: "jsval \<Rightarrow> string \<Rightarrow> issue option" where
  "validateNativeCommand v path =
     issue_of (bindE (native_object v path) (\<lambda>command.
       passes (first_issue
         [native_keys command [''template'', ''description'', ''agent'', ''model'', ''subagent''] path,
          failing (\<not> is_str (obj_get command ''template'')) (path @ ''.template must be a string''),
          native_strings command [''description'', ''agent''] path,
          native_booleans command [''subagent''] path,
          when_present (obj_get command ''model'') (\<lambda>m. validateModelSelection m (path @ ''.model''))])
        (\<lambda>_. Inr ())))"

section \<open>Packages\<close>

definition version_part :: rx where
  "version_part = Rep (\<lambda>c. is_alpha c \<or> is_digit c \<or> c \<in> set ''.-'') 1 True"

definition exact_version_rx :: rx where
  "exact_version_rx =
     seq [Rep is_digit 1 True, lit ''.'', Rep is_digit 1 True, lit ''.'', Rep is_digit 1 True,
          opt (seq [lit ''-'', version_part]), opt (seq [lit ''+'', version_part])]"

definition package_word :: rx where
  "package_word = Rep (alnum_or ''_.-'') 1 True"

definition package_name_rx :: rx where
  "package_name_rx = seq [opt (seq [lit ''@'', package_word, lit ''/'']), package_word]"

text \<open>\<open>^((?:@scope/)?name)(?:@(.+))?$\<close>; a dot stands for any character but a line end.\<close>

definition package_reference_rx :: rx where
  "package_reference_rx =
     seq [Cap 1 package_name_rx,
          opt (seq [lit ''@'', Cap 2 (Rep (\<lambda>c. c \<noteq> CHR 10 \<and> c \<noteq> CHR 13) 1 True)])]"

definition exact_version :: "string \<Rightarrow> bool" where
  "exact_version v \<longleftrightarrow> rx_whole exact_version_rx v"

definition bundled_packages :: "string list" where
  "bundled_packages =
     [''@opencode/ai/providers/openai'', ''@opencode/ai/providers/openai/chat'',
      ''@opencode/ai/providers/openai/responses'', ''@opencode/ai/providers/openai-compatible'']"

definition parsePackageReference :: "string \<Rightarrow> issue + string \<times> string option" where
  "parsePackageReference spec =
     (let bad = Inl (quoted spec @ '' must use a declared npm package with an exact version'')
      in case find (\<lambda>m. rx_rest m = []) (rx_match package_reference_rx spec) of
           None \<Rightarrow> bad
         | Some m \<Rightarrow>
             (case map_of (rx_groups m) 2 of
                None \<Rightarrow> Inr (group 1 m, None)
              | Some v \<Rightarrow> if exact_version v then Inr (group 1 m, Some v) else bad))"

type_synonym package_lock = "(string \<times> string) list"

definition add_package :: "string \<Rightarrow> string \<Rightarrow> package_lock \<Rightarrow> issue + package_lock" where
  "add_package name version lock =
     (if \<not> rx_whole package_name_rx name \<or> \<not> exact_version version
      then Inl (''package '' @ quoted name @ '' must use an exact version'')
      else if map_of lock name \<noteq> None \<and> map_of lock name \<noteq> Some version
      then Inl (''package '' @ quoted name @ '' has conflicting pinned versions'')
      else Inr (AList.update name version lock))"

fun foldE :: "('a \<Rightarrow> 'b \<Rightarrow> 'e + 'b) \<Rightarrow> 'a list \<Rightarrow> 'b \<Rightarrow> 'e + 'b" where
  "foldE f [] s = Inr s"
| "foldE f (x # xs) s = bindE (f x s) (foldE f xs)"

lemma foldE_invariant:
  assumes "\<And>x s s'. P s \<Longrightarrow> f x s = Inr s' \<Longrightarrow> P s'"
  shows "foldE f xs s = Inr s' \<Longrightarrow> P s \<Longrightarrow> P s'"
  by (induction xs arbitrary: s) (auto simp: bindE_Inr intro: assms)

record plugin_config =
  pg_name :: string
  pg_version :: string
  pg_options :: "obj option"

definition lock_plugin :: "plugin_config \<Rightarrow> package_lock \<Rightarrow> issue + package_lock" where
  "lock_plugin plugin lock =
     bindE (parsePackageReference (pg_name plugin)) (\<lambda>(name, version).
     bindE (add_package name (pg_version plugin) lock) (\<lambda>lock'.
       if version \<noteq> None \<and> version \<noteq> Some (pg_version plugin)
       then Inl (''plugin '' @ quoted (pg_name plugin) @ '' has conflicting pinned versions'')
       else Inr lock'))"

text \<open>A provider comes as its id and its package, when it declares one.\<close>

definition lock_provider :: "string \<times> string option \<Rightarrow> package_lock \<Rightarrow> issue + package_lock" where
  "lock_provider provider lock =
     (case provider of
        (_, None) \<Rightarrow> Inr lock
      | (i, Some spec) \<Rightarrow>
          if spec \<in> set bundled_packages then Inr lock
          else if \<not> prefix ''aisdk:'' spec
          then Inl (''provider.'' @ i @ ''.package must use a supported native runtime or aisdk: package'')
          else bindE (parsePackageReference (drop 6 spec)) (\<lambda>(name, version).
                 case version of None \<Rightarrow> Inr lock | Some v \<Rightarrow> add_package name v lock))"

definition normalizePackageLock ::
    "(string \<Rightarrow> string) \<Rightarrow> (string \<times> string) list \<Rightarrow> plugin_config list \<Rightarrow> (string \<times> string option) list \<Rightarrow>
     issue + package_lock" where
  "normalizePackageLock collate packages plugins providers =
     bindE (foldE (\<lambda>(name, version). add_package name version) packages []) (\<lambda>l1.
     bindE (foldE lock_plugin plugins l1) (\<lambda>l2.
     bindE (foldE lock_provider providers l2) (\<lambda>l3.
       Inr (sortedEntries collate l3))))"

definition pinPackageReference :: "string \<Rightarrow> package_lock \<Rightarrow> string \<Rightarrow> issue + string" where
  "pinPackageReference rawSpec lock path =
     bindE (parsePackageReference rawSpec) (\<lambda>(name, version).
       case map_of lock name of
         None \<Rightarrow> Inl (''package '' @ quoted name @ '' is not declared with an exact version for '' @ path)
       | Some pinned \<Rightarrow>
           if version \<noteq> None \<and> version \<noteq> Some pinned then Inl (path @ '' has conflicting pinned versions'')
           else Inr (name @ ''@'' @ pinned))"

definition renderProviderPackage :: "string \<Rightarrow> package_lock \<Rightarrow> string \<Rightarrow> issue + string" where
  "renderProviderPackage spec lock path =
     (if spec \<in> set bundled_packages then Inr spec
      else if \<not> prefix ''aisdk:'' spec
      then Inl (path @ '' must use a supported native runtime or aisdk: package'')
      else bindE (pinPackageReference (drop 6 spec) lock path) (\<lambda>pinned. Inr (''aisdk:'' @ pinned)))"

section \<open>Default models\<close>

definition parseVertexAllowedModels :: "string option \<Rightarrow> string list" where
  "parseVertexAllowedModels v =
     filter (\<lambda>m. m \<noteq> []) (map trim (split_on CHR '','' (case v of None \<Rightarrow> [] | Some s \<Rightarrow> s)))"

text \<open>The providers come as pairs of the id and the declared models.\<close>

definition resolveDefaultSmallModel ::
    "string \<Rightarrow> string \<Rightarrow> (string \<times> obj) list \<Rightarrow> string list \<Rightarrow> string option" where
  "resolveDefaultSmallModel providerId model providers vertexAllowedModels =
     (let declared = (case map_of providers providerId of None \<Rightarrow> [] | Some models \<Rightarrow> models);
          selectedModel = (if CHR ''/'' \<in> set model then model else providerId @ ''/'' @ model);
          preferredModel = ''claude-sonnet-4-6''
      in if providerId = ''vertex''
         then Some (if obj_get declared preferredModel \<noteq> Undef \<and> preferredModel \<in> set vertexAllowedModels
                    then ''vertex/'' @ preferredModel else selectedModel)
         else if providerId = ''rehor-openai'' \<or> providerId = ''rehor-openai-chat'' then Some selectedModel
         else None)"

text \<open>Every lock pins exact versions of well-formed names, one per package.\<close>

definition lock_ok :: "package_lock \<Rightarrow> bool" where
  "lock_ok lock \<longleftrightarrow>
     distinct (map fst lock) \<and> list_all (\<lambda>(n, v). rx_whole package_name_rx n \<and> exact_version v) lock"

lemma add_package_ok:
  assumes "lock_ok lock" "add_package name version lock = Inr lock'"
  shows "lock_ok lock'"
proof -
  have "set (AList.update name version lock) \<subseteq> insert (name, version) (set lock)"
    by (induction lock) auto
  with assms show ?thesis
    by (fastforce simp: lock_ok_def add_package_def list_all_iff distinct_update split: if_splits)
qed

lemma lock_plugin_ok: "lock_ok lock \<Longrightarrow> lock_plugin p lock = Inr lock' \<Longrightarrow> lock_ok lock'"
  by (auto simp: lock_plugin_def bindE_Inr split: if_splits intro: add_package_ok)

lemma lock_provider_ok: "lock_ok lock \<Longrightarrow> lock_provider p lock = Inr lock' \<Longrightarrow> lock_ok lock'"
  by (auto simp: lock_provider_def bindE_Inr split: if_splits prod.splits option.splits intro: add_package_ok)

lemma package_lock_ok:
  assumes "normalizePackageLock collate packages plugins providers = Inr lock"
  shows "lock_ok lock"
proof -
  obtain l1 l2 l3 where steps: "foldE (\<lambda>(name, version). add_package name version) packages [] = Inr l1"
    "foldE lock_plugin plugins l1 = Inr l2" "foldE lock_provider providers l2 = Inr l3"
    "lock = sortedEntries collate l3"
    using assms by (auto simp: normalizePackageLock_def bindE_Inr)
  have "lock_ok []" by (simp add: lock_ok_def)
  with steps(1) have "lock_ok l1"
    by (rule foldE_invariant [rotated]) (auto intro: add_package_ok)
  with steps(2) have "lock_ok l2"
    by (rule foldE_invariant [rotated]) (rule lock_plugin_ok)
  with steps(3) have "lock_ok l3"
    by (rule foldE_invariant [rotated]) (rule lock_provider_ok)
  moreover have "mset lock = mset l3" by (simp add: steps(4) sortedEntries_def)
  moreover from this have "mset (map fst lock) = mset (map fst l3)" by (simp only: mset_map)
  ultimately show ?thesis
    unfolding lock_ok_def list_all_iff by (metis mset_eq_imp_distinct_iff mset_eq_setD)
qed

end
