(* ===== verification/Render.thy ===== *)
theory Render
  imports Native_Definitions
begin

text \<open>
  The parts of the OpenCode configuration the coordinator owns, as
  \<open>coordinator/src/runtimes/opencode/render.ts\<close> renders them: the directories granted outside the
  worktree, the MCP servers, the ordered permission rules and the external-directory policies, and the
  models. Platform facts (collation, URL parser, where the vertex provider module is installed) are a
  parameter record. Where the code relies on the type of a deployment field without testing it, a
  value of another type is the issue \<open>type_error\<close>.
\<close>

record platform =
  pf_collate :: "string \<Rightarrow> string"
  pf_urlOf :: "string \<Rightarrow> url_parts option"
  pf_vertexPackage :: string

definition type_error :: issue where
  "type_error = ''TypeError''"

section \<open>Directories\<close>

text \<open>\<open>posix.normalize\<close> of an absolute path\<close>

fun resolve_segments :: "string list \<Rightarrow> string list \<Rightarrow> string list" where
  "resolve_segments acc [] = rev acc"
| "resolve_segments acc (s # ss) =
     (if s = [] \<or> s = ''.'' then resolve_segments acc ss
      else if s = ''..'' then resolve_segments (drop 1 acc) ss
      else resolve_segments (s # acc) ss)"

definition posix_normalize :: "string \<Rightarrow> string" where
  "posix_normalize path =
     (let segments = resolve_segments [] (split_on CHR ''/'' path)
      in ''/'' @ join_text ''/'' segments @
         (if segments \<noteq> [] \<and> last path = CHR ''/'' then ''/'' else []))"

text \<open>\<open>[\\*?[\]{}$~\p{Cc}\p{Cf}]\<close> on characters below 256\<close>

definition path_breaking :: "char \<Rightarrow> bool" where
  "path_breaking c \<longleftrightarrow>
     (let n = (of_char c :: nat)
      in c \<in> set ''*?[]{}$~'' \<or> n = 92 \<or> n < 32 \<or> (127 \<le> n \<and> n < 160) \<or> n = 173)"

definition canonical_directory :: "string \<Rightarrow> bool" where
  "canonical_directory d \<longleftrightarrow>
     prefix ''/'' d \<and> d \<noteq> ''/'' \<and> posix_normalize d = d \<and> \<not> list_ex path_breaking d \<and>
     list_all (\<lambda>part. part \<noteq> [] \<and> trim part = part) (tl (split_on CHR ''/'' d))"

fun directory_ok :: "jsval \<Rightarrow> bool" where
  "directory_ok (JStr d) = canonical_directory d"
| "directory_ok _ = False"

definition validateAdditionalDirectories :: "jsval \<Rightarrow> issue + string list" where
  "validateAdditionalDirectories v =
     (case v of
        Undef \<Rightarrow> Inr []
      | JArr ds \<Rightarrow>
          if list_all directory_ok ds then Inr (sort (first_occurrences (map str_of ds)))
          else Inl ''additionalDirectories must contain canonical absolute non-root paths without wildcards, traversal, controls, or references''
      | _ \<Rightarrow> Inl ''additionalDirectories must be an array of absolute paths'')"

section \<open>MCP servers\<close>

definition positiveInteger :: "jsval \<Rightarrow> string \<Rightarrow> issue + jsval" where
  "positiveInteger v path =
     (if is_int_from 1 v then Inr v else Inl (path @ '' must be a positive safe integer''))"

text \<open>An optional field of the output, written when the source is present.\<close>

definition optE :: "'a option \<Rightarrow> ('a \<Rightarrow> issue + obj) \<Rightarrow> issue + obj" where
  "optE v f = (case v of None \<Rightarrow> Inr [] | Some x \<Rightarrow> f x)"

definition bool_opt :: "bool option \<Rightarrow> jsval" where
  "bool_opt v = (case v of None \<Rightarrow> Undef | Some b \<Rightarrow> JBool b)"

definition common_fields :: "mcp_options \<Rightarrow> issue + obj" where
  "common_fields opts =
     bindE (optE (mo_timeout opts) (\<lambda>t.
              bindE (positiveInteger (JNum (Fin t)) ''MCP timeout'') (\<lambda>startup.
                Inr [(''timeout'', JObj [(''startup'', startup), (''catalog'', JNum (Fin t)),
                                         (''execution'', JNum (Fin t))])]))) (\<lambda>timeout.
       Inr ([(''disabled'', JBool (mo_alwaysLoad opts = Some False))] @
            opt_entry ''codemode'' (bool_opt (mo_codemode opts)) @ timeout))"

definition string_values :: "(string \<times> string) list \<Rightarrow> obj" where
  "string_values kvs = map (map_prod (\<lambda>k. k) JStr) kvs"

definition literal_record ::
    "platform \<Rightarrow> string \<Rightarrow> string \<Rightarrow> (string \<times> string) list option \<Rightarrow> issue + obj" where
  "literal_record pf field path values =
     optE values (\<lambda>kvs.
       bindE (normalizeJsonObject (pf_collate pf) rejectMcpEnvironmentReference (string_values kvs) path [])
         (\<lambda>(ob, _). Inr [(field, JObj ob)]))"

fun render_mcp_server :: "platform \<Rightarrow> string \<Rightarrow> mcp_server \<Rightarrow> issue + obj" where
  "render_mcp_server pf name (StdioServer typed command args env opts) =
     bindE (common_fields opts) (\<lambda>common.
       let parts = command # (case args of None \<Rightarrow> [] | Some as \<Rightarrow> as)
       in if [] \<in> set parts then Inl (''mcp.'' @ name @ ''.command must contain non-empty strings'')
          else bindE (literal_record pf ''environment'' (''mcp.'' @ name @ ''.environment'') env) (\<lambda>environment.
            Inr ([(''type'', JStr ''local''), (''command'', JArr (map JStr parts))] @ common @ environment)))"
| "render_mcp_server pf name (RemoteServer kind url headers opts) =
     bindE (common_fields opts) (\<lambda>common.
     bindE (normalizeEnvString assertMcpUrlEnvironment url (''mcp.'' @ name @ ''.url'') []) (\<lambda>(target, _).
     bindE (assertHttpUrlTemplate (pf_urlOf pf) target (''mcp.'' @ name @ ''.url'')) (\<lambda>_.
     bindE (literal_record pf ''headers'' (''mcp.'' @ name @ ''.headers'') headers) (\<lambda>hs.
       Inr ([(''type'', JStr ''remote''), (''url'', JStr target)] @ common @ hs)))))"

definition renderMcpServers :: "platform \<Rightarrow> (string \<times> mcp_server) list \<Rightarrow> issue + (string \<times> obj) list" where
  "renderMcpServers pf servers =
     mapE_from 0 (\<lambda>_ (name, server). bindE (render_mcp_server pf name server) (\<lambda>ob. Inr (name, ob)))
       (sortedEntries (pf_collate pf) servers)"

section \<open>Permission rules\<close>

definition rule :: "effect \<Rightarrow> string \<Rightarrow> string \<Rightarrow> permission_rule" where
  "rule eff action resource = \<lparr>pm_action = action, pm_resource = resource, pm_effect = eff\<rparr>"

definition tool_actions :: "(string \<times> string) list" where
  "tool_actions =
     [(''Edit'', ''edit''), (''Write'', ''edit''), (''Read'', ''read''), (''Glob'', ''glob''),
      (''Grep'', ''grep''), (''Bash'', ''shell''), (''Skill'', ''skill''), (''Task'', ''subagent''),
      (''TodoWrite'', ''todowrite''), (''Question'', ''question''), (''WebFetch'', ''webfetch''),
      (''WebSearch'', ''websearch''), (''List'', ''read'')]"

definition namespace_of :: "string \<Rightarrow> string" where
  "namespace_of server = map (\<lambda>c. if alnum_or ''_-'' c then c else CHR ''_'') server"

definition mcp_tool_rx :: rx where
  "mcp_tool_rx =
     (let dots = Rep (\<lambda>c. c \<noteq> CHR 10 \<and> c \<noteq> CHR 13) 1 True
      in seq [lit ''mcp__'', Cap 1 dots, lit ''__'', Cap 2 dots])"

text \<open>\<open>/^mcp__(.+)__(.+)$/.exec(tool)\<close>: the server and the tool of the server.\<close>

definition mcp_tool :: "string \<Rightarrow> (string \<times> string) option" where
  "mcp_tool tool =
     map_option (\<lambda>m. (group 1 m, group 2 m)) (find (\<lambda>m. rx_rest m = []) (rx_match mcp_tool_rx tool))"

definition mcp_action :: "string \<Rightarrow> string \<Rightarrow> string" where
  "mcp_action server tool =
     namespace_of server @ ''_'' @ map (\<lambda>c. if alnum_or ''_*?-'' c then c else CHR ''_'') tool"

text \<open>\<open>/^Bash\((.*)\)$/s.exec(tool)\<close>\<close>

definition shell_pattern :: "string \<Rightarrow> string option" where
  "shell_pattern tool =
     (if prefix ''Bash('' tool \<and> suffix '')'' tool \<and> 6 \<le> length tool
      then Some (butlast (drop 5 tool)) else None)"

definition tool_action :: "string \<Rightarrow> string option" where
  "tool_action tool = (if tool = ''execute'' then Some ''execute'' else map_of tool_actions tool)"

text \<open>Denying rules for the tools of every configured server.\<close>

fun namespace_rules :: "string list \<Rightarrow> string list \<Rightarrow> issue + permission_rule list" where
  "namespace_rules taken [] = Inr []"
| "namespace_rules taken (server # servers) =
     (if namespace_of server \<in> set taken
      then Inl (''MCP namespace '' @ quoted (namespace_of server) @ '' collides'')
      else bindE (namespace_rules (namespace_of server # taken) servers) (\<lambda>rules.
             Inr (rule Deny (namespace_of server @ ''_*'') ''*'' # rules)))"

record grants =
  gr_sources :: "(string \<times> string) list"
  gr_rules :: "permission_rule list"
  gr_needsExecute :: bool

definition grant_mcp ::
    "(string \<times> obj) list \<Rightarrow> string list \<Rightarrow> string \<Rightarrow> string \<Rightarrow> string \<Rightarrow> grants \<Rightarrow> issue + grants" where
  "grant_mcp servers optional tool server name G =
     (case map_of servers server of
        None \<Rightarrow>
          if server \<in> set optional then Inr G
          else Inl (''allowed MCP tool '' @ quoted tool @ '' references unconfigured server '' @ quoted server)
      | Some config \<Rightarrow>
          (let action = mcp_action server name
           in if map_of (gr_sources G) action \<noteq> None \<and> map_of (gr_sources G) action \<noteq> Some tool
              then Inl (''MCP permission key '' @ quoted action @ '' collides'')
              else Inr \<lparr>gr_sources = AList.update action tool (gr_sources G),
                        gr_rules = gr_rules G @ [rule Allow action ''*''],
                        gr_needsExecute = (gr_needsExecute G \<or>
                          obj_get config ''codemode'' \<noteq> JBool False \<and> obj_get config ''disabled'' \<noteq> JBool True)\<rparr>))"

definition grant_builtin :: "string \<Rightarrow> grants \<Rightarrow> issue + grants" where
  "grant_builtin tool G =
     (let shell = shell_pattern tool;
          action = (if shell \<noteq> None then Some ''shell'' else tool_action tool);
          refused = Inl (''allowed tool '' @ quoted tool @ '' cannot be mapped to a native OpenCode permission'')
      in case action of
           None \<Rightarrow> refused
         | Some a \<Rightarrow>
             if shell = Some [] then refused
             else Inr (G\<lparr>gr_rules := gr_rules G @ [rule Allow a (case shell of None \<Rightarrow> ''*'' | Some p \<Rightarrow> p)]\<rparr>))"

definition grant_tool :: "(string \<times> obj) list \<Rightarrow> string list \<Rightarrow> string \<Rightarrow> grants \<Rightarrow> issue + grants" where
  "grant_tool servers optional tool G =
     (case mcp_tool tool of
        Some (server, name) \<Rightarrow> grant_mcp servers optional tool server name G
      | None \<Rightarrow> grant_builtin tool G)"

definition renderPermissions ::
    "string list \<Rightarrow> (string \<times> obj) list \<Rightarrow> string list \<Rightarrow> string list \<Rightarrow> issue + permission_rule list" where
  "renderPermissions tools servers optional directories =
     bindE (namespace_rules [] (map fst servers)) (\<lambda>denies.
     bindE (foldE (grant_tool servers optional) tools
              \<lparr>gr_sources = [], gr_rules = [], gr_needsExecute = False\<rparr>) (\<lambda>G.
       let rules = rule Deny ''*'' ''*'' # denies @ gr_rules G;
           execute = (if gr_needsExecute G \<and>
                         \<not> list_ex (\<lambda>r. pm_action r = ''execute'' \<and> pm_effect r = Allow) rules
                      then [rule Allow ''execute'' ''*''] else [])
       in Inr (rules @ execute @ [rule Deny ''external_directory'' ''*''] @
               map (\<lambda>d. rule Allow ''external_directory'' (d @ ''/*'')) directories)))"

section \<open>External directories\<close>

text \<open>A permission pattern: \<open>*\<close> stands for any text, \<open>?\<close> for any character.\<close>

fun glob :: "string \<Rightarrow> string \<Rightarrow> bool" where
  "glob [] s = (s = [])"
| "glob (p # ps) s =
     (if p = CHR ''*'' then list_ex (glob ps) (suffixes s)
      else (case s of [] \<Rightarrow> False | c # cs \<Rightarrow> (p = CHR ''?'' \<or> p = c) \<and> glob ps cs))"

text \<open>A policy on \<open>tool.use\<close> and its resource.\<close>

record policy =
  po_resource :: string
  po_effect :: effect

definition directory_policy :: "permission_rule \<Rightarrow> policy" where
  "directory_policy r = \<lparr>po_resource = ''external_directory:'' @ pm_resource r, po_effect = pm_effect r\<rparr>"

definition effect_text :: "effect \<Rightarrow> string" where
  "effect_text e = (case e of Allow \<Rightarrow> ''allow'' | Deny \<Rightarrow> ''deny'' | Ask \<Rightarrow> ''ask'')"

definition rule_to_val :: "permission_rule \<Rightarrow> jsval" where
  "rule_to_val r =
     JObj [(''action'', JStr (pm_action r)), (''resource'', JStr (pm_resource r)),
           (''effect'', JStr (effect_text (pm_effect r)))]"

definition add_policy :: "permission_rule \<Rightarrow> policy list \<Rightarrow> issue + policy list" where
  "add_policy r result =
     (if \<not> glob (pm_action r) ''external_directory'' then Inr result
      else if pm_effect r = Deny \<and> pm_resource r = ''*'' \<and> length result = 1 then Inr result
      else
        bindE (if pm_effect r = Allow
               then (if \<not> suffix ''/*'' (pm_resource r)
                     then Inl ''external_directory policy requires literal deployment root grants''
                     else validateAdditionalDirectories
                            (JArr [JStr (take (length (pm_resource r) - 2) (pm_resource r))]))
               else Inr []) (\<lambda>_.
        if pm_effect r = Ask then Inl ''external_directory ceiling cannot grant ask''
        else Inr (result @ [directory_policy r])))"

definition renderOpenCodeExternalDirectoryPolicies :: "permission_rule list \<Rightarrow> issue + policy list" where
  "renderOpenCodeExternalDirectoryPolicies permissions =
     bindE (validatePermissions (JArr (map rule_to_val permissions)) ''permissions'' False) (\<lambda>rules.
       foldE add_policy rules [directory_policy (rule Deny ''external_directory'' ''*'')])"

section \<open>Models\<close>

record effective_model =
  em_providerID :: string
  em_modelID :: string
  em_text :: string

definition before_slash :: "string \<Rightarrow> string" where
  "before_slash s = takeWhile (\<lambda>c. c \<noteq> CHR ''/'') s"

definition normalizeModel :: "string \<Rightarrow> string option \<Rightarrow> issue + effective_model" where
  "normalizeModel raw providerId =
     (if trim raw = [] then Inl ''model must be non-empty''
      else (let text = (if CHR ''/'' \<in> set raw then raw
                        else case providerId of
                               None \<Rightarrow> [] | Some p \<Rightarrow> if p = [] then [] else p @ ''/'' @ raw);
                provider = before_slash text;
                model = drop (Suc (length provider)) text
            in if CHR ''/'' \<notin> set text \<or> provider = [] \<or> model = [] then Inl ''model requires provider/model''
               else if providerId \<noteq> None \<and> providerId \<noteq> Some provider
               then Inl ''providerId conflicts with model provider''
               else Inr \<lparr>em_providerID = provider, em_modelID = model, em_text = text\<rparr>))"

definition rejectKeys :: "obj \<Rightarrow> string list \<Rightarrow> string \<Rightarrow> issue option" where
  "rejectKeys ob names path =
     map_option (\<lambda>k. path @ ''.'' @ k @ '' is legacy or unsupported; use native V2 configuration'')
       (find (has_key ob) names)"

text \<open>A display name may refer to any variable but the blocked ones; it is kept as it is written.\<close>

definition checked_name :: "jsval \<Rightarrow> string \<Rightarrow> issue + obj" where
  "checked_name v path =
     (case v of
        Undef \<Rightarrow> Inr []
      | JStr s \<Rightarrow>
          bindE (normalizeEnvString (assertProviderEnvironment False) s path []) (\<lambda>_. Inr [(''name'', v)])
      | _ \<Rightarrow> Inl type_error)"

definition checked_settings ::
    "platform \<Rightarrow> jsval \<Rightarrow> string \<Rightarrow> string list \<Rightarrow> issue + obj \<times> string list" where
  "checked_settings pf v path required =
     (case v of
        Undef \<Rightarrow> Inr ([], required)
      | JObj settings \<Rightarrow>
          bindE (normalizeJsonObject (pf_collate pf) (assertProviderEnvironment True) settings path required)
            (\<lambda>(ob, required'). Inr ([(''settings'', JObj ob)], required'))
      | _ \<Rightarrow> Inl type_error)"

definition capability_issue :: "obj \<Rightarrow> string \<Rightarrow> issue option" where
  "capability_issue cap path =
     first_issue
       [failing (obj_get cap ''tools'' \<noteq> Undef \<and> \<not> is_bool (obj_get cap ''tools''))
          (path @ ''.capabilities.tools must be boolean''),
        failing (obj_get cap ''temperature'' \<noteq> Undef \<and> \<not> is_bool (obj_get cap ''temperature''))
          (path @ ''.capabilities.temperature must be boolean''),
        first_issue (map (\<lambda>key.
          failing (case obj_get cap key of Undef \<Rightarrow> False | JArr vs \<Rightarrow> \<not> list_all is_str vs | _ \<Rightarrow> True)
            (path @ ''.capabilities.'' @ key @ '' must be strings'')) [''input'', ''output'']),
        failing (case obj_get cap ''reasoning'' of
                   Undef \<Rightarrow> False
                 | JObj r \<Rightarrow> \<not> is_bool (obj_get r ''supported'')
                 | _ \<Rightarrow> True)
          (path @ ''.capabilities.reasoning requires supported boolean'')]"

definition renderModel :: "platform \<Rightarrow> obj \<Rightarrow> string \<Rightarrow> string list \<Rightarrow> issue + obj \<times> string list" where
  "renderModel pf model path required =
     passes (rejectKeys model [''id'', ''options'', ''reasoning'', ''tool_call'', ''modalities'', ''variants''] path) (\<lambda>_.
     passes (failing (\<not> only_keys [''name'', ''modelID'', ''limit'', ''settings'', ''capabilities''] model)
               (path @ '' contains legacy or unsupported fields'')) (\<lambda>_.
     bindE (checked_name (obj_get model ''name'') (path @ ''.name'')) (\<lambda>name.
     bindE (case obj_get model ''limit'' of
              Undef \<Rightarrow> Inr []
            | JObj limit \<Rightarrow>
                bindE (positiveInteger (obj_get limit ''context'') (path @ ''.limit.context'')) (\<lambda>c.
                bindE (positiveInteger (obj_get limit ''output'') (path @ ''.limit.output'')) (\<lambda>out.
                  Inr [(''limit'', JObj [(''context'', c), (''output'', out)])]))
            | _ \<Rightarrow> Inl type_error) (\<lambda>limit.
     bindE (checked_settings pf (obj_get model ''settings'') (path @ ''.settings'') required) (\<lambda>(settings, required').
     bindE (case obj_get model ''capabilities'' of
              Undef \<Rightarrow> Inr []
            | JObj cap \<Rightarrow> passes (capability_issue cap path) (\<lambda>_. Inr [(''capabilities'', JObj cap)])
            | _ \<Rightarrow> Inl type_error) (\<lambda>capabilities.
       Inr (name @ opt_entry ''modelID'' (obj_get model ''modelID'') @ limit @ settings @ capabilities,
            required')))))))"

end
