(* ===== verification/Render_Permissions.thy ===== *)
theory Render_Permissions
  imports Render
begin

text \<open>
  What the rendered permissions and external-directory policies grant: exactly what the allowed tools
  and the deployment's directories ask for, and the one place where a grant reaches further than it says.
\<close>

section \<open>The grants of the tools\<close>

text \<open>The action and resource one allowed tool stands for, when its server is configured.\<close>

definition granted :: "string list \<Rightarrow> string \<Rightarrow> (string \<times> string) option" where
  "granted configured tool =
     (case mcp_tool tool of
        Some (server, name) \<Rightarrow> if server \<in> set configured then Some (mcp_action server name, ''*'') else None
      | None \<Rightarrow>
          (case shell_pattern tool of
             Some p \<Rightarrow> Some (''shell'', p)
           | None \<Rightarrow> map_option (\<lambda>a. (a, ''*'')) (tool_action tool)))"

definition allowed :: "permission_rule list \<Rightarrow> (string \<times> string) set" where
  "allowed rules = set (map (\<lambda>r. (pm_action r, pm_resource r)) (filter (\<lambda>r. pm_effect r = Allow) rules))"

text \<open>The tools that may run inside Code Mode need the \<open>execute\<close> wrapper.\<close>

definition code_mode_tool :: "(string \<times> obj) list \<Rightarrow> string \<Rightarrow> bool" where
  "code_mode_tool servers tool \<longleftrightarrow>
     (case mcp_tool tool of
        Some (server, _) \<Rightarrow>
          (case map_of servers server of
             Some config \<Rightarrow>
               obj_get config ''codemode'' \<noteq> JBool False \<and> obj_get config ''disabled'' \<noteq> JBool True
           | None \<Rightarrow> False)
      | None \<Rightarrow> False)"

lemma rule_fields [simp]:
  "pm_action (rule e a res) = a" "pm_resource (rule e a res) = res" "pm_effect (rule e a res) = e"
  by (simp_all add: rule_def)

lemma allowed_simps [simp]:
  "allowed [] = {}" "allowed (a @ b) = allowed a \<union> allowed b"
  "allowed (rule Allow x y # rs) = insert (x, y) (allowed rs)" "allowed (rule Deny x y # rs) = allowed rs"
  by (auto simp: allowed_def)

lemma allowed_denies: "namespace_rules taken servers = Inr rs \<Longrightarrow> allowed rs = {}"
  by (induction taken servers arbitrary: rs rule: namespace_rules.induct) (auto simp: bindE_Inr split: if_splits)

lemma denies_deny: "namespace_rules taken servers = Inr rs \<Longrightarrow> r \<in> set rs \<Longrightarrow> pm_effect r = Deny"
  by (induction taken servers arbitrary: rs rule: namespace_rules.induct) (auto simp: bindE_Inr split: if_splits)

lemma namespaces_distinct:
  "namespace_rules taken servers = Inr rs \<Longrightarrow>
     distinct (map namespace_of servers) \<and> set (map namespace_of servers) \<inter> set taken = {}"
  by (induction taken servers arbitrary: rs rule: namespace_rules.induct) (auto simp: bindE_Inr split: if_splits)

lemma allowed_directories: "allowed (map (\<lambda>d. rule Allow a (f d)) ds) = (\<lambda>d. (a, f d)) ` set ds"
  by (induction ds) auto

text \<open>One tool adds its grant and nothing else.\<close>

lemma grant_tool_Inr:
  assumes "grant_tool servers optional tool G = Inr G'"
  shows "gr_rules G' = gr_rules G @
      (case granted (map fst servers) tool of None \<Rightarrow> [] | Some (a, res) \<Rightarrow> [rule Allow a res])"
    "gr_needsExecute G' \<longleftrightarrow> gr_needsExecute G \<or> code_mode_tool servers tool"
proof -
  have conf: "map_of servers s = None \<longleftrightarrow> s \<notin> set (map fst servers)" for s
    by (simp add: map_of_eq_None_iff)
  have "gr_rules G' = gr_rules G @
      (case granted (map fst servers) tool of None \<Rightarrow> [] | Some (a, res) \<Rightarrow> [rule Allow a res]) \<and>
    (gr_needsExecute G' \<longleftrightarrow> gr_needsExecute G \<or> code_mode_tool servers tool)"
  proof (cases "mcp_tool tool")
    case None
    with assms show ?thesis
      by (auto simp: grant_tool_def grant_builtin_def Let_def granted_def code_mode_tool_def
          split: option.splits if_splits)
  next
    case (Some p)
    obtain s n where p: "p = (s, n)" by fastforce
    show ?thesis
    proof (cases "map_of servers s")
      case None
      with Some p assms conf [of s] show ?thesis
        by (auto simp: grant_tool_def grant_mcp_def granted_def code_mode_tool_def split: if_splits)
    next
      case (Some c)
      with \<open>mcp_tool tool = Some p\<close> p assms conf [of s] show ?thesis
        by (auto simp: grant_tool_def grant_mcp_def granted_def code_mode_tool_def Let_def split: if_splits)
    qed
  qed
  then show "gr_rules G' = gr_rules G @
      (case granted (map fst servers) tool of None \<Rightarrow> [] | Some (a, res) \<Rightarrow> [rule Allow a res])"
    "gr_needsExecute G' \<longleftrightarrow> gr_needsExecute G \<or> code_mode_tool servers tool" by auto
qed

lemma grants_allowed:
  "foldE (grant_tool servers optional) tools G = Inr G' \<Longrightarrow>
     allowed (gr_rules G') = allowed (gr_rules G) \<union> {g. \<exists>t \<in> set tools. granted (map fst servers) t = Some g} \<and>
     (gr_needsExecute G' \<longleftrightarrow> gr_needsExecute G \<or> list_ex (code_mode_tool servers) tools) \<and>
     (\<forall>r \<in> set (gr_rules G'). r \<in> set (gr_rules G) \<or> pm_effect r = Allow)"
proof (induction tools arbitrary: G)
  case (Cons t ts)
  then obtain H where H: "grant_tool servers optional t G = Inr H" "foldE (grant_tool servers optional) ts H = Inr G'"
    by (auto simp: bindE_Inr)
  from Cons.IH [OF H(2)] grant_tool_Inr [OF H(1)] show ?case
    by (auto split: option.splits)
qed auto

text \<open>Two allowed tools of configured servers never share an action.\<close>

lemma sources_keep:
  assumes "grant_tool servers optional tool G = Inr G'"
  shows "(\<forall>a t. map_of (gr_sources G) a = Some t \<longrightarrow> map_of (gr_sources G') a = Some t) \<and>
    (\<forall>s n. mcp_tool tool = Some (s, n) \<longrightarrow> s \<in> set (map fst servers) \<longrightarrow>
       map_of (gr_sources G') (mcp_action s n) = Some tool)"
proof (cases "mcp_tool tool")
  case None
  with assms show ?thesis
    by (auto simp: grant_tool_def grant_builtin_def Let_def split: option.splits if_splits)
next
  case (Some p)
  obtain s n where p: "p = (s, n)" by fastforce
  show ?thesis
  proof (cases "map_of servers s")
    case None
    with Some p assms show ?thesis
      by (auto simp: grant_tool_def grant_mcp_def map_of_eq_None_iff split: if_splits)
  next
    case (Some c)
    with \<open>mcp_tool tool = Some p\<close> p assms show ?thesis
      by (auto simp: grant_tool_def grant_mcp_def Let_def update_conv split: if_splits)
  qed
qed

lemma sources_all:
  "foldE (grant_tool servers optional) tools G = Inr G' \<Longrightarrow>
     (\<forall>a t. map_of (gr_sources G) a = Some t \<longrightarrow> map_of (gr_sources G') a = Some t) \<and>
     (\<forall>t \<in> set tools. \<forall>s n. mcp_tool t = Some (s, n) \<longrightarrow> s \<in> set (map fst servers) \<longrightarrow>
       map_of (gr_sources G') (mcp_action s n) = Some t)"
proof (induction tools arbitrary: G)
  case (Cons t ts)
  then obtain H where H: "grant_tool servers optional t G = Inr H" "foldE (grant_tool servers optional) ts H = Inr G'"
    by (auto simp: bindE_Inr)
  from Cons.IH [OF H(2)] sources_keep [OF H(1)] show ?case by (metis set_ConsD)
qed auto

lemma action_allowed: "list_ex (\<lambda>r. pm_action r = a \<and> pm_effect r = Allow) rs \<longleftrightarrow> a \<in> fst ` allowed rs"
  by (induction rs) (auto simp: allowed_def)

lemma image_granted: "a \<in> fst ` {g. \<exists>t \<in> set ts. f t = Some g} \<longleftrightarrow> list_ex (\<lambda>t. map_option fst (f t) = Some a) ts"
  by (force simp: list_ex_iff image_iff)

lemma permissions_allowed:
  assumes "renderPermissions tools servers optional directories = Inr rules"
  shows "hd rules = rule Deny ''*'' ''*'' \<and>
    allowed rules =
      {g. \<exists>t \<in> set tools. granted (map fst servers) t = Some g} \<union>
      (if list_ex (code_mode_tool servers) tools \<and>
          \<not> list_ex (\<lambda>t. map_option fst (granted (map fst servers) t) = Some ''execute'') tools
       then {(''execute'', ''*'')} else {}) \<union>
      {(''external_directory'', d @ ''/*'') |d. d \<in> set directories} \<and>
    Ask \<notin> pm_effect ` set rules \<and> distinct (map (namespace_of \<circ> fst) servers) \<and>
    inj_on (\<lambda>t. granted (map fst servers) t)
      {t \<in> set tools. \<exists>s n. mcp_tool t = Some (s, n) \<and> s \<in> set (map fst servers)}"
proof -
  obtain denies G where denies: "namespace_rules [] (map fst servers) = Inr denies"
    and G: "foldE (grant_tool servers optional) tools \<lparr>gr_sources = [], gr_rules = [], gr_needsExecute = False\<rparr> = Inr G"
    and rules: "rules = (rule Deny ''*'' ''*'' # denies @ gr_rules G) @
      (if gr_needsExecute G \<and> \<not> list_ex (\<lambda>r. pm_action r = ''execute'' \<and> pm_effect r = Allow)
             (rule Deny ''*'' ''*'' # denies @ gr_rules G)
       then [rule Allow ''execute'' ''*''] else []) @
      [rule Deny ''external_directory'' ''*''] @
      map (\<lambda>d. rule Allow ''external_directory'' (d @ ''/*'')) directories"
    using assms by (auto simp: renderPermissions_def bindE_Inr Let_def)
  note gr = grants_allowed [OF G]
  have ex: "list_ex (\<lambda>r. pm_action r = ''execute'' \<and> pm_effect r = Allow)
             (rule Deny ''*'' ''*'' # denies @ gr_rules G) \<longleftrightarrow>
      list_ex (\<lambda>t. map_option fst (granted (map fst servers) t) = Some ''execute'') tools"
    by (simp add: action_allowed allowed_denies [OF denies] gr image_granted)
  have all: "allowed rules = {g. \<exists>t \<in> set tools. granted (map fst servers) t = Some g} \<union>
      (if list_ex (code_mode_tool servers) tools \<and>
          \<not> list_ex (\<lambda>t. map_option fst (granted (map fst servers) t) = Some ''execute'') tools
       then {(''execute'', ''*'')} else {}) \<union>
      {(''external_directory'', d @ ''/*'') |d. d \<in> set directories}"
  proof -
    have needs: "gr_needsExecute G \<longleftrightarrow> list_ex (code_mode_tool servers) tools" using gr by simp
    have dirs: "allowed (map (\<lambda>d. rule Allow ''external_directory'' (d @ ''/*'')) directories) =
        {(''external_directory'', d @ ''/*'') |d. d \<in> set directories}"
      unfolding allowed_directories by blast
    show ?thesis
      unfolding rules ex needs allowed_simps dirs append.simps
      using gr by (simp add: allowed_denies [OF denies])
  qed
  have "pm_effect r \<noteq> Ask" if "r \<in> set rules" for r
    using that gr denies_deny [OF denies, of r] unfolding rules by (auto split: if_splits)
  then have ask: "Ask \<notin> pm_effect ` set rules" by force
  have "inj_on (granted (map fst servers))
      {t \<in> set tools. \<exists>s n. mcp_tool t = Some (s, n) \<and> s \<in> set (map fst servers)}"
  proof (rule inj_onI)
    fix t u
    assume "t \<in> {t \<in> set tools. \<exists>s n. mcp_tool t = Some (s, n) \<and> s \<in> set (map fst servers)}"
      and "u \<in> {t \<in> set tools. \<exists>s n. mcp_tool t = Some (s, n) \<and> s \<in> set (map fst servers)}"
      and same: "granted (map fst servers) t = granted (map fst servers) u"
    then obtain s n s' n' where t: "t \<in> set tools" "mcp_tool t = Some (s, n)" "s \<in> set (map fst servers)"
      and u: "u \<in> set tools" "mcp_tool u = Some (s', n')" "s' \<in> set (map fst servers)" by blast
    with same have "mcp_action s n = mcp_action s' n'" by (simp add: granted_def)
    moreover have "map_of (gr_sources G) (mcp_action s n) = Some t" "map_of (gr_sources G) (mcp_action s' n') = Some u"
      using sources_all [OF G] t u by blast+
    ultimately show "t = u" by simp
  qed
  moreover have "distinct (map (namespace_of \<circ> fst) servers)"
    using namespaces_distinct [OF denies] by simp
  moreover have "hd rules = rule Deny ''*'' ''*''" by (simp add: rules)
  ultimately show ?thesis using all ask by blast
qed

text \<open>
  C26. The permission rules start by denying everything and allow exactly what the allowed tools of
  configured servers stand for, the Code Mode wrapper when one of those tools needs it, and the
  deployment's directories; nothing is left to ask. The namespaces of the servers are distinct, and no
  two allowed MCP tools share an action.
\<close>

theorem permissions_exact:
  assumes "renderPermissions tools servers optional directories = Inr rules"
  shows "hd rules = rule Deny ''*'' ''*'' \<and>
    allowed rules =
      {g. \<exists>t \<in> set tools. granted (map fst servers) t = Some g} \<union>
      (if list_ex (code_mode_tool servers) tools \<and>
          \<not> list_ex (\<lambda>t. map_option fst (granted (map fst servers) t) = Some ''execute'') tools
       then {(''execute'', ''*'')} else {}) \<union>
      {(''external_directory'', d @ ''/*'') |d. d \<in> set directories} \<and>
    Ask \<notin> pm_effect ` set rules \<and> distinct (map (namespace_of \<circ> fst) servers) \<and>
    inj_on (\<lambda>t. granted (map fst servers) t)
      {t \<in> set tools. \<exists>s n. mcp_tool t = Some (s, n) \<and> s \<in> set (map fst servers)}"
  using assms by (rule permissions_allowed)

lemma crossing_rules:
  "renderPermissions [''mcp__a__b_c''] [(''a'', []), (''a_b'', [])] [] [] =
     Inr [rule Deny ''*'' ''*'', rule Deny ''a_*'' ''*'', rule Deny ''a_b_*'' ''*'', rule Allow ''a_b_c'' ''*'',
          rule Allow ''execute'' ''*'', rule Deny ''external_directory'' ''*'']"
  by code_simp


theorem permissions_exact_witness:
  "\<exists>rules. renderPermissions [''mcp__a__b_c''] [(''a'', []), (''a_b'', [])] [] [] = Inr rules \<and>
     hd rules = rule Deny ''*'' ''*'' \<and> Ask \<notin> pm_effect ` set rules"
  using permissions_exact [OF crossing_rules] crossing_rules by blast

section \<open>External directories\<close>

lemma validate_rule_val:
  "validate_permission path False (rule_to_val r) =
     (if pm_action r \<in> set legacy_actions
      then Inl (path @ '' action '' @ quoted (pm_action r) @ '' is not native V2; use shell/subagent/edit/read'')
      else Inr r)"
proof -
  have "validateDefinitionJson (rule_to_val r) path 0 = None"
    by (simp add: rule_to_val_def)
  then have "native_object (rule_to_val r) path = Inr (obj_of (rule_to_val r))"
    by (simp add: native_object_def passes_def rule_to_val_def)
  moreover have "effect_of (JStr (effect_text e)) = Some e" for e
    by (cases e) (simp_all add: effect_text_def)
  ultimately show ?thesis
    by (simp add: validate_permission_def rule_to_val_def passes_def native_keys_def js_simps)
qed

lemma validate_rules_val:
  "validatePermissions (JArr (map rule_to_val rules)) path False = Inr rs \<Longrightarrow> rs = rules"
  unfolding validatePermissions_def jsval.case
proof -
  have "mapE_from i (\<lambda>_. validate_permission path False) (map rule_to_val rules) = Inr rs \<Longrightarrow> rs = rules" for i
    by (induction rules arbitrary: rs i) (auto simp: validate_rule_val bindE_Inr split: if_splits)
  then show "mapE_from 0 (\<lambda>_. validate_permission path False) (map rule_to_val rules) = Inr rs \<Longrightarrow> rs = rules" .
qed

definition directory_grants :: "permission_rule list \<Rightarrow> string list" where
  "directory_grants rules =
     map pm_resource (filter (\<lambda>r. pm_effect r = Allow \<and> glob (pm_action r) ''external_directory'') rules)"

definition policy_grants :: "policy list \<Rightarrow> string list" where
  "policy_grants ps = map po_resource (filter (\<lambda>p. po_effect p = Allow) ps)"

definition root_grant :: "string \<Rightarrow> bool" where
  "root_grant res \<longleftrightarrow> (\<exists>d. res = d @ ''/*'' \<and> canonical_directory d)"

lemma add_policies:
  "foldE add_policy rules ps = Inr qs \<Longrightarrow> ps \<noteq> [] \<Longrightarrow>
     hd qs = hd ps \<and> policy_grants qs = policy_grants ps @ map (\<lambda>r. ''external_directory:'' @ r) (directory_grants rules) \<and>
     list_all root_grant (directory_grants rules) \<and> (Ask \<in> po_effect ` set qs \<longleftrightarrow> Ask \<in> po_effect ` set ps)"
proof (induction rules arbitrary: ps)
  case (Cons r rules)
  then obtain ps1 where step: "add_policy r ps = Inr ps1" "foldE add_policy rules ps1 = Inr qs"
    by (auto simp: bindE_Inr)
  have root: "root_grant (pm_resource r)"
    if "suffix ''/*'' (pm_resource r)" "canonical_directory (take (length (pm_resource r) - 2) (pm_resource r))"
    using that by (auto simp: root_grant_def suffix_def)
  consider "ps1 = ps" "\<not> (pm_effect r = Allow \<and> glob (pm_action r) ''external_directory'')"
    | "ps1 = ps @ [directory_policy r]" "glob (pm_action r) ''external_directory''" "pm_effect r \<noteq> Ask"
      "pm_effect r = Allow \<longrightarrow> root_grant (pm_resource r)"
    using step(1) root
    by (auto simp: add_policy_def bindE_Inr validateAdditionalDirectories_def split: if_splits)
  then show ?case
  proof cases
    case 1
    with Cons.IH [OF step(2)] Cons.prems(2) show ?thesis by (simp add: directory_grants_def)
  next
    case 2
    with Cons.IH [OF step(2)] Cons.prems(2) show ?thesis
      by (auto simp: directory_grants_def policy_grants_def directory_policy_def hd_append)
  qed
qed (simp add: directory_grants_def)

text \<open>
  C28. The external-directory policies deny everything first, never ask, and grant exactly what the
  rules grant that match the external-directory action; each grant is a canonical directory below the
  root, whatever patterns the rules of a profile hold.
\<close>

theorem directory_ceiling:
  assumes "renderOpenCodeExternalDirectoryPolicies rules = Inr policies"
  shows "hd policies = directory_policy (rule Deny ''external_directory'' ''*'') \<and>
    Ask \<notin> po_effect ` set policies \<and>
    policy_grants policies = map (\<lambda>r. ''external_directory:'' @ r) (directory_grants rules) \<and>
    list_all root_grant (directory_grants rules)"
proof -
  have "foldE add_policy rules [directory_policy (rule Deny ''external_directory'' ''*'')] = Inr policies"
    using assms validate_rules_val [of rules "''permissions''"]
    by (auto simp: renderOpenCodeExternalDirectoryPolicies_def bindE_Inr)
  from add_policies [OF this] show ?thesis
    by (simp add: policy_grants_def directory_policy_def)
qed

theorem directory_ceiling_witness:
  "\<exists>policies. renderOpenCodeExternalDirectoryPolicies
       [rule Deny ''*'' ''*'', rule Allow ''external_directory'' ''/a/*''] = Inr policies \<and>
     policy_grants policies = [''external_directory:/a/*''] \<and> list_all root_grant [''/a/*'']"
proof -
  have run: "renderOpenCodeExternalDirectoryPolicies
       [rule Deny ''*'' ''*'', rule Allow ''external_directory'' ''/a/*''] =
     Inr [directory_policy (rule Deny ''external_directory'' ''*''),
          directory_policy (rule Allow ''external_directory'' ''/a/*'')]"
    by code_simp
  moreover have "directory_grants [rule Deny ''*'' ''*'', rule Allow ''external_directory'' ''/a/*''] = [''/a/*'']"
    by code_simp
  ultimately show ?thesis using directory_ceiling [OF run] run by auto
qed

end
