(* ===== verification/Project_Config.thy ===== *)
theory Project_Config
  imports Native_Definitions Log
begin

text \<open>
  The snapshot of an instance's OpenCode profile:
  \<open>coordinator/src/runtimes/opencode/project-config.ts\<close>. The file system is a tree that does not change
  while it is read; the content of a file is its text. The YAML parser is a package and a parameter: it
  gives the value of a frontmatter or the message the node checks and the parser refuse it with.
\<close>

datatype fs_node = FsFile string | FsDir "(string \<times> fs_node) list" | FsLink

type_synonym project_file = "string \<times> string"

record project_configuration =
  pc_settings :: obj
  pc_files :: "project_file list"

definition max_config_file_bytes :: nat where
  "max_config_file_bytes = 256 * 1024"

definition max_project_files :: nat where
  "max_project_files = 256"

definition max_project_bytes :: nat where
  "max_project_bytes = 2 * 1024 * 1024"

definition agents_file :: string where
  "agents_file = ''AGENTS.md''"

definition resource_directories :: "string list" where
  "resource_directories =
     [''agents'', ''commands'', ''instructions'', ''rules'', ''plugins'', ''skills'', ''themes'']"

section \<open>Paths\<close>

definition isSafeOpenCodeProjectFilePath :: "string \<Rightarrow> bool" where
  "isSafeOpenCodeProjectFilePath path \<longleftrightarrow>
     (let segments = split_on CHR ''/'' path
      in CHR 0x5C \<notin> set path \<and>
         \<not> list_ex (\<lambda>s. s = [] \<or> s = ''.'' \<or> s = ''..'') segments \<and>
         (path = agents_file \<or> hd segments \<in> set resource_directories))"

definition without_prefix :: "string \<Rightarrow> string \<Rightarrow> string" where
  "without_prefix p s = (if prefix p s then drop (length p) s else s)"

definition normalize_instruction :: "project_file list \<Rightarrow> string \<Rightarrow> issue + string" where
  "normalize_instruction files entry =
     (let path = without_prefix ''./'' entry;
          staged = without_prefix ''.opencode/'' path
      in if (path \<noteq> agents_file \<and> \<not> prefix ''.opencode/'' path) \<or> \<not> isSafeOpenCodeProjectFilePath staged
         then Inl (''instance instruction path '' @ quoted entry @ '' must stay inside AGENTS.md or .opencode'')
         else if \<not> list_ex (\<lambda>c. c \<in> set ''*?[]{}'') staged \<and> staged \<notin> fst ` set files
         then Inl (''instance instruction file '' @ quoted entry @ '' is not present in the selected profile'')
         else Inr (''./'' @ staged))"

definition normalizeOpenCodeInstructionPaths :: "jsval \<Rightarrow> project_file list \<Rightarrow> issue + string list" where
  "normalizeOpenCodeInstructionPaths v files =
     (case v of
        JArr entries \<Rightarrow>
          if list_all is_str entries then mapE_from 0 (\<lambda>_ e. normalize_instruction files (str_of e)) entries
          else Inl ''instance opencode.json instructions must be an array of strings''
      | _ \<Rightarrow> Inl ''instance opencode.json instructions must be an array of strings'')"

section \<open>Files\<close>

definition isGeneratedPythonArtifact :: "string \<Rightarrow> bool" where
  "isGeneratedPythonArtifact name \<longleftrightarrow>
     name = ''__pycache__'' \<or> suffix ''.pyc'' name \<or> suffix ''.pyo'' name"

text \<open>The text of a node, \<open>None\<close> when there is no node.\<close>

definition readOptionalTextFile :: "string \<Rightarrow> fs_node option \<Rightarrow> issue + string option" where
  "readOptionalTextFile path node =
     (case node of
        None \<Rightarrow> Inr None
      | Some (FsFile content) \<Rightarrow>
          if max_config_file_bytes < byte_length content
          then Inl (''instance '' @ path @ '' exceeds '' @ show_nat max_config_file_bytes @ '' bytes'')
          else if CHR 0x00 \<in> set content then Inl (''instance '' @ path @ '' must be a text file'')
          else Inr (Some content)
      | Some _ \<Rightarrow> Inl (''instance '' @ path @ '' must be a regular file, not a symlink''))"

text \<open>
  The frontmatter of a definition: no frontmatter (\<open>Inr None\<close>) or its lines and the lines of the body.
\<close>

definition frontmatter :: "string list \<Rightarrow> issue + (string list \<times> string list) option" where
  "frontmatter lines =
     (if \<not> prefix ''---'' (hd lines) then Inr None
      else if hd lines \<noteq> ''---'' then Inl ''frontmatter must use a plain --- YAML delimiter''
      else (let yaml = takeWhile (\<lambda>l. l \<noteq> ''---'') (tl lines)
            in if length yaml = length (tl lines) then Inl ''unterminated YAML frontmatter''
               else Inr (Some (yaml, drop (Suc (length yaml)) (tl lines)))))"

definition validation_message :: "issue \<Rightarrow> string" where
  "validation_message issue = ''OpenCode configuration validation failed: '' @ issue"

definition newline :: string where
  "newline = [CHR 10]"

definition validate_definition :: "(string \<Rightarrow> string + jsval) \<Rightarrow> string \<Rightarrow> project_file \<Rightarrow> issue option" where
  "validate_definition yaml path file =
     issue_of
       (bindE (frontmatter (split_lines (snd file))) (\<lambda>front.
        bindE (case front of
                 None \<Rightarrow> Inr ([], snd file)
               | Some (ys, body) \<Rightarrow>
                   bindE (yaml (join_text newline ys)) (\<lambda>v.
                     case as_record v of
                       None \<Rightarrow> Inl ''frontmatter must be a native mapping, not a scalar or sequence''
                     | Some ob \<Rightarrow> Inr (ob, join_text newline body))) (\<lambda>(fields, body).
          passes (map_option validation_message
            (if prefix ''agents/'' (fst file)
             then first_issue [validateNativeAgent (JObj fields) path,
                    validateNativeAgent (JObj (obj_set ''system'' (JStr (trim body)) fields)) path]
             else None)) (\<lambda>_.
          passes (if prefix ''agents/'' (fst file) then None
                  else failing (obj_get fields ''template'' \<noteq> Undef \<and> \<not> is_str (obj_get fields ''template''))
                         ''template must be a string'') (\<lambda>_.
          passes (if prefix ''agents/'' (fst file) then None
                  else map_option validation_message
                    (validateNativeCommand (JObj (obj_set ''template'' (JStr (trim body)) fields)) path))
            (\<lambda>_. Inr ()))))))"

definition validateOpenCodeProjectFile :: "(string \<Rightarrow> string + jsval) \<Rightarrow> project_file \<Rightarrow> issue option" where
  "validateOpenCodeProjectFile yaml file =
     (let path = ''.opencode/'' @ fst file
      in map_option (\<lambda>m. path @ '': '' @ m)
           (if \<not> isSafeOpenCodeProjectFilePath (fst file) then Some ''not a canonical native V2 resource path''
            else if CHR 0x00 \<in> set (snd file) then Some ''must be a text file''
            else if max_config_file_bytes < byte_length (snd file) then Some ''exceeds definition size limit''
            else if \<not> suffix ''.md'' (fst file) \<or>
                    \<not> (prefix ''agents/'' (fst file) \<or> prefix ''commands/'' (fst file)) then None
            else validate_definition yaml path file))"

section \<open>The profile\<close>

text \<open>The files found so far and their bytes.\<close>

record snapshot_state =
  ss_files :: "project_file list"
  ss_bytes :: nat

definition take_file ::
    "(string \<Rightarrow> string + jsval) \<Rightarrow> string \<Rightarrow> string \<Rightarrow> snapshot_state \<Rightarrow> issue + snapshot_state" where
  "take_file yaml path content S =
     (let bytes = ss_bytes S + byte_length content
      in if max_project_files \<le> length (ss_files S) \<or> max_project_bytes < bytes
         then Inl ''instance OpenCode project files exceed snapshot limits''
         else passes (validateOpenCodeProjectFile yaml (path, content)) (\<lambda>_.
                Inr (S\<lparr>ss_files := ss_files S @ [(path, content)], ss_bytes := bytes\<rparr>)))"

definition native_path :: "string \<Rightarrow> bool" where
  "native_path path \<longleftrightarrow>
     hd (split_on CHR ''/'' path) \<in> set resource_directories \<and> isSafeOpenCodeProjectFilePath path"

text \<open>\<open>readdir(...).sort()\<close>\<close>

definition directory_entries :: "(string \<times> fs_node) list \<Rightarrow> (string \<times> fs_node) list" where
  "directory_entries children =
     filter (\<lambda>(name, _). \<not> isGeneratedPythonArtifact name) (sortedEntries (\<lambda>name. name) children)"

lemma size_filter_list: "size_list f (filter p xs) \<le> size_list f xs"
  by (induction xs) auto

lemma size_directory_entries: "size_list f (directory_entries xs) \<le> size_list f xs"
  using size_filter_list [of f "\<lambda>(name, _). \<not> isGeneratedPythonArtifact name" "sortedEntries (\<lambda>name. name) xs"]
  by (simp add: directory_entries_def size_sortedEntries)

function (sequential)
  visit_node ::
    "(string \<Rightarrow> string + jsval) \<Rightarrow> string \<Rightarrow> string \<Rightarrow> fs_node \<Rightarrow> snapshot_state \<Rightarrow> issue + snapshot_state"
and visit_children ::
    "(string \<Rightarrow> string + jsval) \<Rightarrow> string \<Rightarrow> string \<Rightarrow> (string \<times> fs_node) list \<Rightarrow> snapshot_state \<Rightarrow> issue + snapshot_state"
where
  "visit_node yaml root_path path node S =
     (if node = FsLink then Inl (''instance .opencode/'' @ path @ '' must not be a symlink'')
      else if path \<noteq> [] \<and> \<not> native_path path
      then Inl (''instance .opencode/'' @ path @
             '' is not a native V2 config path; use agents, commands, plugins, or skills'')
      else (case node of
              FsDir children \<Rightarrow> visit_children yaml root_path path (directory_entries children) S
            | _ \<Rightarrow>
                if CHR ''/'' \<notin> set path
                then Inl ''instance .opencode files must be inside a supported config directory''
                else bindE (readOptionalTextFile (root_path @ ''/.opencode/'' @ path) (Some node)) (\<lambda>content.
                       case content of
                         None \<Rightarrow> Inl (''instance file '' @ quoted path @ '' disappeared'')
                       | Some text \<Rightarrow> take_file yaml path text S)))"
| "visit_children yaml root_path path [] S = Inr S"
| "visit_children yaml root_path path ((name, node) # rest) S =
     bindE (visit_node yaml root_path (if path = [] then name else path @ ''/'' @ name) node S) (\<lambda>S1.
       visit_children yaml root_path path rest S1)"
  by pat_completeness auto
termination
  by (relation "measure (\<lambda>x. case x of
        Inl (_, _, _, node, _) \<Rightarrow> 2 * size node
      | Inr (_, _, _, children, _) \<Rightarrow> 2 * size_list (size_prod (\<lambda>_. 0) size) children + 1)")
    (auto simp: le_imp_less_Suc size_directory_entries)

definition child :: "string \<Rightarrow> (string \<times> fs_node) list \<Rightarrow> fs_node option" where
  "child name children = map_of children name"

text \<open>
  \<open>loadProfileConfig\<close>: the agent directory is absent (null or empty), or a path with the node found
  there. \<open>settings\<close> is the parsed \<open>opencode.json\<close>.
\<close>

definition parse_settings :: "string option \<Rightarrow> issue + obj" where
  "parse_settings raw =
     (case raw of
        None \<Rightarrow> Inr []
      | Some text \<Rightarrow>
          (case json_parse text of
             None \<Rightarrow> Inl ''instance opencode.json must contain valid JSON''
           | Some (JObj ob) \<Rightarrow> Inr ob
           | Some _ \<Rightarrow> Inl ''instance opencode.json must be a JSON object''))"

definition visit_profile ::
    "(string \<Rightarrow> string + jsval) \<Rightarrow> string \<Rightarrow> (string \<times> fs_node) list \<Rightarrow> issue + snapshot_state" where
  "visit_profile yaml path children =
     bindE (readOptionalTextFile (path @ ''/'' @ agents_file) (child agents_file children)) (\<lambda>agents.
       let S0 = \<lparr>ss_files = (case agents of None \<Rightarrow> [] | Some t \<Rightarrow> [(agents_file, t)]),
                 ss_bytes = (case agents of None \<Rightarrow> 0 | Some t \<Rightarrow> byte_length t)\<rparr>
       in (case child ''.opencode'' children of
             None \<Rightarrow> Inr S0
           | Some node \<Rightarrow> visit_node yaml path [] node S0))"

definition sort_files :: "(string \<Rightarrow> string) \<Rightarrow> project_file list \<Rightarrow> project_file list" where
  "sort_files collate files = sortedEntries collate files"

definition loadProfileConfig ::
    "(string \<Rightarrow> string) \<Rightarrow> (string \<Rightarrow> string + jsval) \<Rightarrow> (string \<times> fs_node option) option \<Rightarrow>
     issue + project_configuration" where
  "loadProfileConfig collate yaml agentDirectory =
     (case agentDirectory of
        None \<Rightarrow> Inr \<lparr>pc_settings = [], pc_files = []\<rparr>
      | Some (path, None) \<Rightarrow> Inl (''ENOENT: '' @ path)
      | Some (path, Some (FsDir children)) \<Rightarrow>
          bindE (readOptionalTextFile (path @ ''/opencode.json'') (child ''opencode.json'' children)) (\<lambda>raw.
          bindE (parse_settings raw) (\<lambda>settings.
          bindE (visit_profile yaml path children) (\<lambda>S.
            Inr \<lparr>pc_settings = settings, pc_files = sort_files collate (ss_files S)\<rparr>)))
      | Some _ \<Rightarrow> Inl ''selected instance agent directory must be a directory, not a symlink'')"

section \<open>Guidance\<close>

text \<open>
  The layers of guidance with the directory of each, when it is configured: its path and its entries,
  when it exists.
\<close>

type_synonym layer_directory = "string \<times> (string \<times> fs_node) list option"

definition layer_file :: "layer_directory option \<Rightarrow> string \<Rightarrow> fs_node option" where
  "layer_file directory name =
     (case directory of Some (_, Some children) \<Rightarrow> child name children | _ \<Rightarrow> None)"

definition layer_text :: "layer_directory option \<Rightarrow> issue + string option" where
  "layer_text directory =
     (case directory of
        None \<Rightarrow> Inr None
      | Some (path, _) \<Rightarrow> readOptionalTextFile (path @ ''/'' @ agents_file) (layer_file directory agents_file))"

definition paths_overlap :: "string \<Rightarrow> string \<Rightarrow> bool" where
  "paths_overlap a b \<longleftrightarrow> a = b \<or> prefix (b @ ''/'') a \<or> prefix (a @ ''/'') b"

definition add_guidance ::
    "string \<times> layer_directory option \<Rightarrow> project_file list \<times> string list \<Rightarrow>
     issue + project_file list \<times> string list" where
  "add_guidance layer acc =
     (let (name, directory) = layer;
          (files, instructions) = acc;
          path = ''instructions/rehor/'' @ name @ ''.md'';
          place = (case directory of None \<Rightarrow> ''undefined'' | Some (p, _) \<Rightarrow> p)
      in if list_ex (paths_overlap path \<circ> fst) files
         then Inl (''instance .opencode/'' @ path @ '' conflicts with reserved guidance path'')
         else bindE (layer_text directory) (\<lambda>content.
           case content of
             Some text \<Rightarrow> Inr (files @ [(path, text)], instructions @ [''.opencode/'' @ path])
           | None \<Rightarrow>
               if name = ''core'' then Inl (''core AGENTS.md not found at '' @ place)
               else if layer_file directory ''CLAUDE.md'' \<noteq> None
               then Inl (''Migrate '' @ name @ '' guidance at '' @ place @ ''/CLAUDE.md to AGENTS.md for OpenCode'')
               else Inr (files, instructions)))"

text \<open>The directories the core, shared and workflow guidance is read from.\<close>

record guidance_directories =
  gd_core :: layer_directory
  gd_shared :: "layer_directory option"
  gd_workflow :: layer_directory

definition guidance_layers :: "guidance_directories \<Rightarrow> (string \<times> layer_directory option) list" where
  "guidance_layers g =
     [(''core'', Some (gd_core g)), (''shared'', gd_shared g), (''workflow'', Some (gd_workflow g))]"

definition files_bytes :: "project_file list \<Rightarrow> nat" where
  "files_bytes files = sum_list (map (byte_length \<circ> snd) files)"

definition loadOpenCodeProjectConfig ::
    "(string \<Rightarrow> string) \<Rightarrow> (string \<Rightarrow> string + jsval) \<Rightarrow> (string \<times> fs_node option) option \<Rightarrow>
     guidance_directories option \<Rightarrow> issue + project_configuration" where
  "loadOpenCodeProjectConfig collate yaml agentDirectory guidance =
     bindE (loadProfileConfig collate yaml agentDirectory) (\<lambda>profile.
       case guidance of
         None \<Rightarrow> Inr profile
       | Some dirs \<Rightarrow>
           bindE (foldE add_guidance (guidance_layers dirs) (pc_files profile, [])) (\<lambda>(files, instructions).
           bindE (if obj_get (pc_settings profile) ''instructions'' = Undef then Inr []
                  else normalizeOpenCodeInstructionPaths (obj_get (pc_settings profile) ''instructions'')
                         (pc_files profile)) (\<lambda>_.
             if max_project_files < length files \<or> max_project_bytes < files_bytes files
             then Inl ''OpenCode project files exceed snapshot limits''
             else
               (let own = (case obj_get (pc_settings profile) ''instructions'' of JArr vs \<Rightarrow> vs | _ \<Rightarrow> [])
                in Inr \<lparr>pc_settings = obj_set ''instructions'' (JArr (map JStr instructions @ own))
                                       (pc_settings profile),
                        pc_files = sort_files collate files\<rparr>))))"

section \<open>The bounds of a snapshot\<close>

definition file_ok :: "project_file \<Rightarrow> bool" where
  "file_ok f \<longleftrightarrow> isSafeOpenCodeProjectFilePath (fst f) \<and> CHR 0x00 \<notin> set (snd f) \<and>
     byte_length (snd f) \<le> max_config_file_bytes"

definition snapshot_inv :: "snapshot_state \<Rightarrow> bool" where
  "snapshot_inv S \<longleftrightarrow>
     length (ss_files S) \<le> max_project_files \<and> ss_bytes S = files_bytes (ss_files S) \<and>
     ss_bytes S \<le> max_project_bytes \<and> list_all file_ok (ss_files S)"

lemma read_text_ok:
  "readOptionalTextFile p n = Inr (Some t) \<Longrightarrow> CHR 0x00 \<notin> set t \<and> byte_length t \<le> max_config_file_bytes"
  by (auto simp: readOptionalTextFile_def split: option.splits fs_node.splits if_splits)

lemma valid_file_ok: "validateOpenCodeProjectFile yaml f = None \<Longrightarrow> file_ok f"
  by (auto simp: validateOpenCodeProjectFile_def Let_def file_ok_def split: if_splits)

lemma take_file_inv: "take_file yaml p t S = Inr S' \<Longrightarrow> snapshot_inv S \<Longrightarrow> snapshot_inv S'"
  using valid_file_ok [of yaml "(p, t)"]
  by (auto simp: take_file_def Let_def passes_Inr snapshot_inv_def files_bytes_def split: if_splits)

lemma visit_inv:
  "visit_node yaml r p n S = Inr S' \<Longrightarrow> snapshot_inv S \<Longrightarrow> snapshot_inv S'"
  and "visit_children yaml r p cs S = Inr S' \<Longrightarrow> snapshot_inv S \<Longrightarrow> snapshot_inv S'"
proof (induction yaml r p n S and yaml r p cs S arbitrary: S' and S'
    rule: visit_node_visit_children.induct)
  case (1 yaml r p n S)
  then show ?case
    by (auto simp: bindE_Inr split: if_splits fs_node.splits option.splits intro: take_file_inv)
next
  case (3 yaml r p name n rest S)
  then show ?case by (auto simp: bindE_Inr)
qed simp

lemma visit_profile_inv: "visit_profile yaml p children = Inr S \<Longrightarrow> snapshot_inv S"
proof -
  assume visit: "visit_profile yaml p children = Inr S"
  then obtain agents where a: "readOptionalTextFile (p @ ''/'' @ agents_file) (child agents_file children) = Inr agents"
    by (auto simp: visit_profile_def bindE_Inr)
  let ?S = "\<lparr>ss_files = (case agents of None \<Rightarrow> [] | Some t \<Rightarrow> [(agents_file, t)]),
                 ss_bytes = (case agents of None \<Rightarrow> 0 | Some t \<Rightarrow> byte_length t)\<rparr>"
  have "isSafeOpenCodeProjectFilePath agents_file" by code_simp
  then have "snapshot_inv ?S"
    using a read_text_ok [of "p @ ''/'' @ agents_file" "child agents_file children"]
    by (auto simp: snapshot_inv_def files_bytes_def file_ok_def max_project_files_def max_project_bytes_def
        max_config_file_bytes_def split: option.split)
  with visit a show ?thesis
    by (auto simp: visit_profile_def Let_def split: option.splits intro: visit_inv(1))
qed

definition snapshot_ok :: "project_configuration \<Rightarrow> bool" where
  "snapshot_ok C \<longleftrightarrow>
     length (pc_files C) \<le> max_project_files \<and> files_bytes (pc_files C) \<le> max_project_bytes \<and>
     list_all file_ok (pc_files C)"

lemma sort_files_ok:
  "length (sort_files collate fs) = length fs" "files_bytes (sort_files collate fs) = files_bytes fs"
  "list_all file_ok (sort_files collate fs) \<longleftrightarrow> list_all file_ok fs"
proof -
  have m: "mset (sort_files collate fs) = mset fs" by (simp add: sort_files_def sortedEntries_def)
  from m show "length (sort_files collate fs) = length fs" by (rule mset_eq_length)
  from m have "mset (map (byte_length \<circ> snd) (sort_files collate fs)) = mset (map (byte_length \<circ> snd) fs)"
    by (simp only: mset_map)
  then show "files_bytes (sort_files collate fs) = files_bytes fs"
    unfolding files_bytes_def by (metis sum_mset_sum_list)
  show "list_all file_ok (sort_files collate fs) \<longleftrightarrow> list_all file_ok fs"
    using mset_eq_setD [OF m] by (simp add: list_all_iff)
qed

lemma profile_ok: "loadProfileConfig collate yaml agent = Inr C \<Longrightarrow> snapshot_ok C"
  using visit_profile_inv
  by (fastforce simp: loadProfileConfig_def bindE_Inr snapshot_ok_def snapshot_inv_def sort_files_ok
      files_bytes_def [of "[]"] split: option.splits fs_node.splits)

lemma guidance_ok:
  assumes "add_guidance (name, directory) (fs, is) = Inr (fs', is')"
    and "isSafeOpenCodeProjectFilePath (''instructions/rehor/'' @ name @ ''.md'')" "list_all file_ok fs"
  shows "list_all file_ok fs'"
proof -
  have "CHR 0x00 \<notin> set t \<and> byte_length t \<le> max_config_file_bytes" if "layer_text directory = Inr (Some t)" for t
    using that read_text_ok by (auto simp: layer_text_def split: option.splits prod.splits)
  with assms show ?thesis
    by (auto simp: add_guidance_def Let_def bindE_Inr file_ok_def split: if_splits option.splits)
qed


definition sample_guidance :: guidance_directories where
  "sample_guidance =
     \<lparr>gd_core = (''/core'', Some [(''AGENTS.md'', FsFile ''Be brief'')]), gd_shared = None,
      gd_workflow = (''/workflow'', None)\<rparr>"


end
