(* ===== verification/Render_Config.thy ===== *)
theory Render_Config
  imports Render_Permissions Project_Config
begin

text \<open>
  The whole OpenCode configuration of a cycle: \<open>renderOpenCodeConfig\<close> from the coordinator's own input,
  \<open>applyProfile\<close> with the checked settings of the instance, \<open>renderOpenCodeConfigForCycle\<close> which composes
  them (\<open>coordinator/src/runtimes/opencode/render.ts\<close>). JSON texts are the trees they print, a hash is
  the list of texts the digest is fed.
\<close>

section \<open>Input and output\<close>

text \<open>
  A deployment file as loaded: \<open>dc_raw\<close> holds its own keys, the other fields what the interface names.
\<close>

record deployment_config =
  dc_raw :: obj
  dc_model :: "string option"
  dc_providerId :: "string option"
  dc_smallModel :: "string option"
  dc_providers :: "obj list"
  dc_packages :: "(string \<times> string) list"
  dc_plugins :: "plugin_config list"
  dc_additionalDirectories :: jsval

record config_input =
  ci_deployment :: deployment_config
  ci_model :: string
  ci_providerId :: "string option"
  ci_smallModel :: "string option"
  ci_mcpServers :: "(string \<times> mcp_server) list"
  ci_allowedTools :: "string list"
  ci_optionalMcpServers :: "string list"

record rendered_config =
  rd_config :: obj
  rd_json :: jsval
  rd_permissions :: "permission_rule list"
  rd_profileConfig :: obj
  rd_enforcement :: jsval
  rd_hash :: "jsval list"
  rd_packageLock :: package_lock
  rd_effectiveModel :: effective_model
  rd_requiredEnvironment :: "string list"
  rd_projectFiles :: "project_file list"

definition config_schema :: string where
  "config_schema = ''https://opencode.ai/config.json''"

definition management_plugin_removals :: "string list" where
  "management_plugin_removals = [''-opencode.tools'', ''-opencode.tools.mcp-resources'']"

section \<open>Providers\<close>

definition provider_id :: "obj \<Rightarrow> string" where
  "provider_id provider = str_of (obj_get provider ''id'')"

text \<open>The id of a provider as it prints in the path of an issue.\<close>

definition provider_path :: "obj \<Rightarrow> string" where
  "provider_path provider = ''providers.'' @ js_text (obj_get provider ''id'')"

definition check_provider :: "obj \<Rightarrow> string list \<Rightarrow> issue + string list" where
  "check_provider provider ids =
     passes (rejectKeys provider [''npm'', ''options'', ''api'', ''whitelist'', ''blacklist''] (provider_path provider)) (\<lambda>_.
     passes (failing (\<not> only_keys [''id'', ''package'', ''name'', ''settings'', ''models''] provider)
               (provider_path provider @ '' contains unsupported native fields'')) (\<lambda>_.
       if \<not> is_str1 (obj_get provider ''id'') \<or> provider_id provider \<in> set ids
       then Inl ''provider ids must be non-empty and unique''
       else Inr (provider_id provider # ids)))"

definition provider_package :: "obj \<Rightarrow> issue + string \<times> string option" where
  "provider_package provider =
     (case obj_get provider ''package'' of
        Undef \<Rightarrow> Inr (provider_id provider, None)
      | JStr s \<Rightarrow> Inr (provider_id provider, Some s)
      | _ \<Rightarrow> Inl type_error)"

fun render_models ::
    "platform \<Rightarrow> string \<Rightarrow> (string \<times> jsval) list \<Rightarrow> string list \<Rightarrow> issue + obj \<times> string list" where
  "render_models pf path [] required = Inr ([], required)"
| "render_models pf path ((i, v) # models) required =
     (case as_record v of
        None \<Rightarrow> Inl type_error
      | Some model \<Rightarrow>
          bindE (renderModel pf model (path @ ''.models.'' @ i) required) (\<lambda>(ob, r1).
          bindE (render_models pf path models r1) (\<lambda>(rest, r2). Inr ((i, JObj ob) # rest, r2))))"

definition render_provider ::
    "platform \<Rightarrow> effective_model \<Rightarrow> package_lock \<Rightarrow> obj \<Rightarrow> obj \<times> string list \<Rightarrow> issue + obj \<times> string list" where
  "render_provider pf model lock provider acc =
     (let (output, required) = acc;
          i = provider_id provider;
          path = ''providers.'' @ i
      in passes (failing (i = ''vertex'' \<and> obj_get provider ''package'' \<noteq> Undef)
                   ''providers.vertex.package is coordinator-managed'') (\<lambda>_.
         bindE (if i = ''vertex'' then Inr [(''package'', JStr (pf_vertexPackage pf))]
                else bindE (provider_package provider) (\<lambda>(_, spec).
                       case spec of
                         None \<Rightarrow> Inr []
                       | Some s \<Rightarrow>
                           bindE (renderProviderPackage s lock (path @ ''.package'')) (\<lambda>p.
                             Inr [(''package'', JStr p)]))) (\<lambda>package.
         bindE (checked_name (obj_get provider ''name'') (path @ ''.name'')) (\<lambda>name.
         bindE (checked_settings pf (obj_get provider ''settings'') (path @ ''.settings'') required)
           (\<lambda>(settings, r1).
         bindE (case obj_get provider ''models'' of
                  Undef \<Rightarrow> Inr ([], r1)
                | JNull \<Rightarrow> Inr ([], r1)
                | JObj ms \<Rightarrow> render_models pf path (sortedEntries (pf_collate pf) ms) r1
                | _ \<Rightarrow> Inl type_error) (\<lambda>(models, r2).
           let models' = (if i = em_providerID model \<and> obj_get models (em_modelID model) = Undef
                          then obj_set (em_modelID model) (JObj [(''name'', JStr (em_modelID model))]) models
                          else models);
               entry = package @ name @ settings @ (if models' = [] then [] else [(''models'', JObj models')])
           in Inr (obj_set i (JObj entry) output, r2)))))))"

section \<open>Plugins and policies\<close>

fun render_plugins ::
    "platform \<Rightarrow> package_lock \<Rightarrow> plugin_config list \<Rightarrow> string list \<Rightarrow> issue + jsval list \<times> string list" where
  "render_plugins pf lock [] required = Inr ([], required)"
| "render_plugins pf lock (plugin # plugins) required =
     bindE (pinPackageReference (pg_name plugin) lock ''plugins'') (\<lambda>spec.
     bindE (case pg_options plugin of
              None \<Rightarrow> Inr (JStr spec, required)
            | Some options \<Rightarrow>
                bindE (normalizeJsonObject (pf_collate pf) (assertProviderEnvironment True) options
                         ''plugins.options'' required) (\<lambda>(ob, r).
                  Inr (JObj [(''package'', JStr spec), (''options'', JObj ob)], r))) (\<lambda>(entry, r1).
     bindE (render_plugins pf lock plugins r1) (\<lambda>(rest, r2). Inr (entry # rest, r2))))"

definition policy_val :: "string \<Rightarrow> string \<Rightarrow> effect \<Rightarrow> jsval" where
  "policy_val action resource eff =
     JObj [(''action'', JStr action), (''resource'', JStr resource), (''effect'', JStr (effect_text eff))]"

definition tool_policies :: "policy list \<Rightarrow> jsval list" where
  "tool_policies ps = map (\<lambda>p. policy_val ''tool.use'' (po_resource p) (po_effect p)) ps"

definition removals :: "jsval list" where
  "removals = map JStr management_plugin_removals"

text \<open>\<open>renderEnforcement\<close>: the configuration without policies, with the plugin removals only.\<close>

definition renderEnforcement :: "obj \<Rightarrow> jsval" where
  "renderEnforcement config =
     stableJson (JObj (obj_set ''plugins'' (JArr removals)
       (filter (\<lambda>(k, _). k \<noteq> ''policies'' \<and> k \<noteq> ''plugins'') config)))"

section \<open>The coordinator's configuration\<close>

definition renderOpenCodeConfig :: "platform \<Rightarrow> config_input \<Rightarrow> issue + rendered_config" where
  "renderOpenCodeConfig pf input =
     (let deployment = ci_deployment input;
          providers = dc_providers deployment
      in passes (rejectKeys (dc_raw deployment) [''provider'', ''packageLock''] ''deployment'') (\<lambda>_.
         bindE (normalizeModel (ci_model input) (ci_providerId input)) (\<lambda>model.
         bindE (foldE check_provider providers []) (\<lambda>_.
         bindE (mapE_from 0 (\<lambda>_. provider_package) providers) (\<lambda>packaged.
         bindE (normalizePackageLock (pf_collate pf) (dc_packages deployment) (dc_plugins deployment) packaged) (\<lambda>lock.
         bindE (foldE (render_provider pf model lock)
                  (sort_key (pf_collate pf \<circ> provider_id) providers) ([], [])) (\<lambda>(output, r1).
         bindE (renderMcpServers pf (ci_mcpServers input)) (\<lambda>servers.
         bindE (validateAdditionalDirectories (dc_additionalDirectories deployment)) (\<lambda>directories.
         bindE (renderPermissions (ci_allowedTools input) servers (ci_optionalMcpServers input) directories) (\<lambda>permissions.
         bindE (render_plugins pf lock (dc_plugins deployment) r1) (\<lambda>(plugins, r2).
         bindE (case ci_smallModel input of
                  None \<Rightarrow> Inr model
                | Some small \<Rightarrow> normalizeModel small (Some (em_providerID model))) (\<lambda>title.
         bindE (renderOpenCodeExternalDirectoryPolicies permissions) (\<lambda>policies.
           let config =
                 [(''$schema'', JStr config_schema), (''share'', JStr ''disabled''), (''update'', JStr ''disable''),
                  (''model'', JStr (em_text model)),
                  (''agents'', JObj [(''title'', JObj [(''model'', JStr (em_text title))])]),
                  (''providers'', JObj output),
                  (''plugins'', JArr (plugins @ removals)),
                  (''mcp'', JObj [(''servers'', JObj (map (map_prod (\<lambda>n. n) JObj) servers))]),
                  (''permissions'', JArr (map rule_to_val permissions)),
                  (''policies'', JArr ([policy_val ''provider.use'' ''*'' Deny,
                                       policy_val ''provider.use'' (em_providerID model) Allow] @
                                      tool_policies policies))] @
                 (if ''TodoWrite'' \<in> set (ci_allowedTools input)
                  then [(''experimental'', JObj [(''todo'', JBool True)])] else [])
           in Inr \<lparr>rd_config = config, rd_json = stableJson (JObj config), rd_permissions = permissions,
                   rd_profileConfig = [], rd_enforcement = renderEnforcement config,
                   rd_hash = [stableJson (JObj config)], rd_packageLock = lock, rd_effectiveModel = model,
                   rd_requiredEnvironment = sort r2, rd_projectFiles = []\<rparr>)))))))))))))"

section \<open>The profile of an instance\<close>

definition config_record :: "jsval \<Rightarrow> string \<Rightarrow> issue + obj" where
  "config_record v path =
     (case as_record v of None \<Rightarrow> Inl (path @ '' must be an object'') | Some ob \<Rightarrow> Inr ob)"

definition stringMap :: "jsval \<Rightarrow> string \<Rightarrow> issue + obj" where
  "stringMap v path =
     bindE (config_record v path) (\<lambda>ob.
       if list_all (is_str \<circ> snd) ob then Inr ob else Inl (path @ '' must contain only strings''))"

definition mcp_url_path_rx :: rx where
  "mcp_url_path_rx =
     seq [lit ''opencode.json.mcp.servers.'', Rep (\<lambda>c. c \<noteq> CHR ''.'') 1 True, lit ''.url'']"

definition file_reference_rx :: rx where
  "file_reference_rx = lit ''{file:''"

definition any_reference_rx :: rx where
  "any_reference_rx =
     alts [seq [lit ''{'', alts [lit ''env'', lit ''file''], lit '':''],
           seq [lit ''${'', Cls (\<lambda>c. is_alpha c \<or> c = CHR ''_'')]]"

definition validate_string_reference :: "string \<Rightarrow> string \<Rightarrow> issue option" where
  "validate_string_reference s path =
     issue_of
       (bindE (normalizeEnvString (\<lambda>_ _. None) s path []) (\<lambda>(normalized, _).
        bindE (parseEnvironmentReferences normalized path) (\<lambda>refs.
          let mcpUrl = rx_whole mcp_url_path_rx path
          in passes (failing (secret_key (last (split_on CHR ''.'' path)) \<and> refs = [])
                       (path @ '' cannot contain literal credentials'')) (\<lambda>_.
             passes (failing (rx_search any_reference_rx s \<and> (\<not> mcpUrl \<or> rx_search file_reference_rx s))
                       (path @ '' cannot use environment or file references'')) (\<lambda>_.
             passes (if mcpUrl then first_issue (map (\<lambda>r. assertMcpUrlEnvironment r path) refs) else None)
               (\<lambda>_. Inr ()))))))"

fun validateReferences :: "jsval \<Rightarrow> string \<Rightarrow> issue option"
  and reference_elements :: "nat \<Rightarrow> jsval list \<Rightarrow> string \<Rightarrow> issue option"
  and reference_entries :: "obj \<Rightarrow> string \<Rightarrow> issue option"
where
  "validateReferences (JStr s) path = validate_string_reference s path"
| "validateReferences (JArr vs) path = reference_elements 0 vs path"
| "validateReferences (JObj ob) path = reference_entries ob path"
| "validateReferences _ path = None"
| "reference_elements i [] path = None"
| "reference_elements i (v # vs) path =
     (case validateReferences v (at_index path i) of
        Some e \<Rightarrow> Some e | None \<Rightarrow> reference_elements (Suc i) vs path)"
| "reference_entries [] path = None"
| "reference_entries ((k, v) # ob) path =
     (case validateReferences v (path @ ''.'' @ k) of
        Some e \<Rightarrow> Some e | None \<Rightarrow> reference_entries ob path)"

definition instance_setting_keys :: "string list" where
  "instance_setting_keys =
     [''agents'', ''commands'', ''compaction'', ''default_agent'', ''experimental'', ''formatter'',
      ''instructions'', ''mcp'', ''permissions'', ''plugins'', ''snapshots'', ''watcher'']"

definition validate_setting :: "string \<times> jsval \<Rightarrow> issue option" where
  "validate_setting entry =
     (let (key, v) = entry
      in if key = ''$schema''
         then failing (v \<noteq> JStr config_schema) ''instance $schema is unsupported''
         else if key \<notin> set instance_setting_keys
         then Some (''instance opencode.json field '' @ quoted key @
                '' is unsupported or coordinator-controlled; use native V2 fields'')
         else validateReferences v (''opencode.json.'' @ key))"

fun validate_files :: "(string \<Rightarrow> string + jsval) \<Rightarrow> string list \<Rightarrow> project_file list \<Rightarrow> issue option" where
  "validate_files yaml seen [] = None"
| "validate_files yaml seen (file # files) =
     (if \<not> isSafeOpenCodeProjectFilePath (fst file) \<or> fst file \<in> set seen
      then Some (''instance file path '' @ quoted (fst file) @ '' is not allowed or duplicated'')
      else (case validateOpenCodeProjectFile yaml file of
              Some e \<Rightarrow> Some e
            | None \<Rightarrow> validate_files yaml (fst file # seen) files))"

definition validateExperimental :: "jsval \<Rightarrow> issue + obj option" where
  "validateExperimental v =
     (if v = Undef then Inr None
      else bindE (config_record v ''experimental'') (\<lambda>settings.
        case find (\<lambda>(key, item). \<not> (key = ''todo'' \<and> is_bool item) \<and>
                                 \<not> (key = ''subagent_depth'' \<and> is_int_from 0 item)) settings of
          Some (key, _) \<Rightarrow>
            Inl (''experimental.'' @ key @ '' must be boolean todo or non-negative integer subagent_depth'')
        | None \<Rightarrow> Inr (Some settings)))"

definition validate_timeout :: "string \<Rightarrow> jsval \<Rightarrow> issue option" where
  "validate_timeout path v =
     (if v = Undef then None
      else issue_of (bindE (config_record v (path @ ''.timeout'')) (\<lambda>timeout.
        passes (first_issue (map (\<lambda>(key, item).
            if key \<notin> {''startup'', ''catalog'', ''execution''}
            then Some (path @ ''.timeout.'' @ key @ '' is unsupported'')
            else issue_of (positiveInteger item (path @ ''.timeout.'' @ key))) timeout)) (\<lambda>_. Inr ()))))"

definition literal_strings :: "platform \<Rightarrow> jsval \<Rightarrow> string \<Rightarrow> string \<Rightarrow> issue option" where
  "literal_strings pf v what path =
     when_present v (\<lambda>_.
       issue_of (bindE (stringMap v what) (\<lambda>ob.
         normalizeJsonObject (pf_collate pf) rejectMcpEnvironmentReference ob path [])))"

definition validateNativeMcp :: "platform \<Rightarrow> string \<Rightarrow> jsval \<Rightarrow> issue + obj" where
  "validateNativeMcp pf name v =
     (let path = ''mcp.servers.'' @ name
      in bindE (config_record v path) (\<lambda>server.
         let local_server = (obj_get server ''type'' = JStr ''local'');
             allowed_keys = (if local_server then [''type'', ''command'', ''environment'', ''disabled'', ''timeout'', ''codemode'']
                             else [''type'', ''url'', ''headers'', ''disabled'', ''timeout'', ''codemode''])
         in passes (first_issue
              [rejectKeys server [''enabled''] path,
               when_present (obj_get server ''disabled'') (\<lambda>d. failing (\<not> is_bool d) (path @ ''.disabled must be boolean'')),
               when_present (obj_get server ''codemode'') (\<lambda>c. failing (\<not> is_bool c) (path @ ''.codemode must be boolean'')),
               failing (\<not> only_keys allowed_keys server) (path @ '' contains unsupported fields''),
               (if local_server
                then first_issue
                  [failing (case obj_get server ''command'' of JArr cs \<Rightarrow> cs = [] \<or> \<not> list_all is_str1 cs | _ \<Rightarrow> True)
                     (path @ ''.command must be non-empty strings''),
                   literal_strings pf (obj_get server ''environment'') ''environment'' (path @ ''.environment'')]
                else if obj_get server ''type'' = JStr ''remote''
                then first_issue
                  [failing (\<not> is_str (obj_get server ''url'')) (path @ ''.url must be a string''),
                   (if is_str (obj_get server ''url'')
                    then issue_of (assertHttpUrlTemplate (pf_urlOf pf) (str_of (obj_get server ''url'')) (path @ ''.url''))
                    else None),
                   literal_strings pf (obj_get server ''headers'') ''headers'' (path @ ''.headers'')]
                else Some (path @ ''.type must be local or remote'')),
               validate_timeout path (obj_get server ''timeout'')])
              (\<lambda>_. Inr server)))"

definition profile_servers :: "platform \<Rightarrow> obj \<Rightarrow> jsval \<Rightarrow> issue + obj option" where
  "profile_servers pf generated v =
     (if v = Undef then Inr None
      else bindE (config_record v ''instance mcp'') (\<lambda>mcp.
        if \<not> only_keys [''servers''] mcp then Inl ''instance mcp must use native mcp.servers''
        else bindE (config_record (obj_get mcp ''servers'') ''instance mcp.servers'') (\<lambda>servers.
          bindE (mapE_from 0 (\<lambda>_ (name, server).
              if obj_get generated name \<noteq> Undef
              then Inl (''instance mcp.servers.'' @ name @ '' conflicts with coordinator-generated MCP configuration'')
              else bindE (validateNativeMcp pf name server) (\<lambda>ob. Inr (name, JObj ob))) servers) (\<lambda>checked.
            Inr (Some checked)))))"

definition validate_plugin :: "package_lock \<Rightarrow> jsval \<Rightarrow> issue option" where
  "validate_plugin lock v =
     issue_of
       (bindE (if is_str v then Inr v
               else bindE (config_record v ''plugins entry'') (\<lambda>ob. Inr (obj_get ob ''package''))) (\<lambda>spec.
        bindE (case spec of
                 JStr s \<Rightarrow> bindE (pinPackageReference s lock ''instance plugins'') (\<lambda>pinned. Inr (pinned = s))
               | _ \<Rightarrow> Inr False) (\<lambda>exact.
          if \<not> exact then Inl ''instance plugins must use declared exact-pinned packages''
          else if \<not> is_str v \<and> \<not> only_keys [''package'', ''options''] (obj_of v)
          then Inl ''plugins entries require package and optional options''
          else Inr ())))"

definition validate_plugins :: "package_lock \<Rightarrow> jsval \<Rightarrow> issue option" where
  "validate_plugins lock v =
     when_present v (\<lambda>_.
       case v of
         JArr vs \<Rightarrow> first_issue (map (validate_plugin lock) vs)
       | _ \<Rightarrow> Some ''instance plugins must be an array of pinned packages'')"

text \<open>\<open>for (const [name, value] of Object.entries(record(v)))\<close>\<close>

definition validate_named :: "(jsval \<Rightarrow> string \<Rightarrow> issue option) \<Rightarrow> jsval \<Rightarrow> string \<Rightarrow> string \<Rightarrow> issue option" where
  "validate_named check v what kind =
     when_present v (\<lambda>_.
       issue_of (bindE (config_record v what) (\<lambda>ob.
         passes (first_issue (map (\<lambda>(name, x). check x (kind @ ''.'' @ name)) ob)) (\<lambda>_. Inr ()))))"

definition is_tool_policy :: "jsval \<Rightarrow> bool" where
  "is_tool_policy p \<longleftrightarrow> obj_get (obj_of p) ''action'' = JStr ''tool.use''"

fun array_of :: "jsval \<Rightarrow> jsval list" where
  "array_of (JArr vs) = vs"
| "array_of _ = []"

definition spread_entry :: "string \<Rightarrow> obj option \<Rightarrow> obj \<Rightarrow> obj" where
  "spread_entry key extra ob =
     (case extra of
        None \<Rightarrow> ob
      | Some m \<Rightarrow> obj_set key (JObj (obj_spread (obj_of (obj_get ob key)) m)) ob)"

text \<open>The checked parts of a profile that the composition uses.\<close>

record checked_profile =
  cp_denies :: "permission_rule list"
  cp_experimental :: "obj option"
  cp_servers :: "obj option"
  cp_instructions :: "string list option"

definition check_profile ::
    "platform \<Rightarrow> (string \<Rightarrow> string + jsval) \<Rightarrow> obj \<Rightarrow> package_lock \<Rightarrow> project_configuration \<Rightarrow>
     issue + checked_profile" where
  "check_profile pf yaml generated lock profile =
     (let settings = pc_settings profile;
          files = pc_files profile
      in passes (first_issue (map validate_setting settings)) (\<lambda>_.
         passes (validate_files yaml [] files) (\<lambda>_.
         passes (when_present (obj_get settings ''compaction'') (\<lambda>c.
                   issue_of (bindE (config_record c ''compaction'') (\<lambda>ob.
                     passes (rejectKeys ob [''preserve_recent_tokens'', ''reserved'', ''tail_turns'', ''prune''] ''compaction'')
                       (\<lambda>_. Inr ()))))) (\<lambda>_.
         bindE (if obj_get settings ''permissions'' = Undef then Inr []
                else validatePermissions (obj_get settings ''permissions'') ''instance permissions'' True) (\<lambda>denies.
         passes (validate_named validateNativeAgent (obj_get settings ''agents'') ''instance agents'' ''agents'') (\<lambda>_.
         passes (validate_named validateNativeCommand (obj_get settings ''commands'') ''instance commands'' ''commands'') (\<lambda>_.
         bindE (validateExperimental (obj_get settings ''experimental'')) (\<lambda>experimental.
         bindE (profile_servers pf generated (obj_get settings ''mcp'')) (\<lambda>servers.
         passes (validate_plugins lock (obj_get settings ''plugins'')) (\<lambda>_.
         bindE (if obj_get settings ''instructions'' = Undef then Inr None
                else bindE (normalizeOpenCodeInstructionPaths (obj_get settings ''instructions'') files) (\<lambda>paths.
                       Inr (Some paths))) (\<lambda>instructions.
           Inr \<lparr>cp_denies = denies, cp_experimental = experimental, cp_servers = servers,
                cp_instructions = instructions\<rparr>)))))))))))"

definition generated_servers :: "rendered_config \<Rightarrow> obj" where
  "generated_servers rendered = obj_of (obj_get (obj_of (obj_get (rd_config rendered) ''mcp'')) ''servers'')"

text \<open>The settings that are staged, and the enforced object before it is printed.\<close>

definition staged_settings :: "checked_profile \<Rightarrow> obj \<Rightarrow> obj" where
  "staged_settings checked settings =
     (let staged = (case cp_servers checked of
                      None \<Rightarrow> settings
                    | Some ss \<Rightarrow> obj_set ''mcp'' (JObj [(''servers'', JObj ss)]) settings)
      in (case cp_instructions checked of
            None \<Rightarrow> staged
          | Some paths \<Rightarrow> obj_set ''instructions'' (JArr (map JStr paths)) staged))"

definition enforced_object :: "obj \<Rightarrow> permission_rule list \<Rightarrow> obj \<Rightarrow> checked_profile \<Rightarrow> obj" where
  "enforced_object config permissions generated checked =
     (let e1 = obj_set ''permissions'' (JArr (map rule_to_val permissions)) (obj_of (renderEnforcement config));
          e2 = (case cp_servers checked of
                  None \<Rightarrow> e1
                | Some ss \<Rightarrow> obj_set ''mcp'' (JObj [(''servers'', JObj (obj_spread generated ss))]) e1)
      in spread_entry ''experimental'' (cp_experimental checked) e2)"

definition applyProfile ::
    "platform \<Rightarrow> (string \<Rightarrow> string + jsval) \<Rightarrow> rendered_config \<Rightarrow> project_configuration \<Rightarrow> issue + rendered_config" where
  "applyProfile pf yaml rendered profile =
     bindE (check_profile pf yaml (generated_servers rendered) (rd_packageLock rendered) profile) (\<lambda>checked.
       let permissions = rd_permissions rendered @ cp_denies checked
       in bindE (renderOpenCodeExternalDirectoryPolicies permissions) (\<lambda>policies.
            let files = pc_files profile;
                staged = staged_settings checked (pc_settings profile);
                config = obj_set ''policies''
                  (JArr (filter (\<lambda>p. \<not> is_tool_policy p) (array_of (obj_get (rd_config rendered) ''policies'')) @
                         tool_policies policies)) (rd_config rendered);
                enforced = enforced_object config permissions (generated_servers rendered) checked
            in Inr (rendered\<lparr>rd_config := config, rd_json := stableJson (JObj config), rd_permissions := permissions,
                             rd_profileConfig := staged, rd_enforcement := stableJson (JObj enforced),
                             rd_hash := [stableJson (JObj config), json_tree (JObj staged)] @
                                        concat (map (\<lambda>(path, text). [JStr path, JStr text]) files),
                             rd_projectFiles := files\<rparr>)))"

section \<open>A cycle\<close>

text \<open>What a cycle's preparation contributes.\<close>

record cycle_preparation =
  cy_model :: string
  cy_mcpServers :: "(string \<times> mcp_server) list"
  cy_allowedTools :: "string list"
  cy_optionalMcpServers :: "string list"

definition provider_models :: "obj \<Rightarrow> string \<times> obj" where
  "provider_models provider = (provider_id provider, obj_of (obj_get provider ''models''))"

definition renderOpenCodeConfigForCycle ::
    "platform \<Rightarrow> (string \<Rightarrow> string + jsval) \<Rightarrow> cycle_preparation \<Rightarrow> string \<Rightarrow> deployment_config \<Rightarrow>
     project_configuration \<Rightarrow> string list \<Rightarrow> issue + rendered_config" where
  "renderOpenCodeConfigForCycle pf yaml preparation providerId deployment profile vertexAllowedModels =
     (let i = (case dc_providerId deployment of None \<Rightarrow> providerId | Some p \<Rightarrow> p);
          model = (case dc_model deployment of None \<Rightarrow> cy_model preparation | Some m \<Rightarrow> m);
          small = (case dc_smallModel deployment of
                     Some m \<Rightarrow> Some m
                   | None \<Rightarrow> resolveDefaultSmallModel i model (map provider_models (dc_providers deployment))
                               vertexAllowedModels)
      in bindE (renderOpenCodeConfig pf
                  \<lparr>ci_deployment = deployment, ci_model = model, ci_providerId = Some i, ci_smallModel = small,
                   ci_mcpServers = cy_mcpServers preparation, ci_allowedTools = cy_allowedTools preparation,
                   ci_optionalMcpServers = cy_optionalMcpServers preparation\<rparr>) (\<lambda>rendered.
           applyProfile pf yaml rendered profile))"

end
