(* ===== verification/Render_Properties.thy ===== *)
theory Render_Properties
  imports Render_Config
begin

text \<open>
  What the configuration written for a cycle lets the agent do, from the preparation, the deployment and
  the profile of the instance through both rendering steps to the enforced layer.
\<close>

section \<open>Reading a printed object\<close>

lemma map_of_filter_values:
  "distinct (map fst xs) \<Longrightarrow>
     map_of (filter (\<lambda>(k, v). P v) xs) k = (case map_of xs k of Some v \<Rightarrow> if P v then Some v else None | None \<Rightarrow> None)"
  by (induction xs) (auto split: option.splits simp: map_of_eq_None_iff image_iff dest: map_of_SomeD)

lemma map_of_sort_key: "distinct (map fst xs) \<Longrightarrow> map_of (sort_key f xs) k = map_of xs k"
proof -
  assume d: "distinct (map fst xs)"
  have "mset (map fst (sort_key f xs)) = mset (map fst xs)" by (simp only: mset_map mset_sort)
  then have d': "distinct (map fst (sort_key f xs))" using d mset_eq_imp_distinct_iff by blast
  have "map_of (sort_key f xs) k = Some v \<longleftrightarrow> map_of xs k = Some v" for v
    by (simp add: map_of_eq_Some_iff [OF d] map_of_eq_Some_iff [OF d'])
  then show ?thesis by (cases "map_of xs k") auto
qed

lemma canonical_get:
  assumes "distinct (map fst ob)"
  shows "obj_get (obj_of (canonicalJson (JObj ob))) k = canonicalJson (obj_get ob k)"
proof -
  let ?c = "map (map_prod (\<lambda>x. x) canonicalValue) ob"
  let ?s = "sort_key fst ?c"
  have d: "distinct (map fst ?c)" using assms by (simp add: o_def)
  have "mset (map fst ?s) = mset (map fst ?c)" by (simp only: mset_map mset_sort)
  then have ds: "distinct (map fst ?s)" using d mset_eq_imp_distinct_iff by blast
  then have dj: "distinct (map fst (map (map_prod (\<lambda>x. x) json_tree) ?s))" by (simp add: o_def)
  have get: "map_of (map (map_prod (\<lambda>x. x) f) xs) k = map_option f (map_of xs k)" for f :: "jsval \<Rightarrow> jsval" and xs
    by (induction xs) auto
  have "obj_of (canonicalJson (JObj ob)) =
      filter (\<lambda>(k, v). v \<noteq> Undef) (map (map_prod (\<lambda>x. x) json_tree) ?s)"
    by (simp add: canonicalJson_def id_def)
  then have "map_of (obj_of (canonicalJson (JObj ob))) k =
      (case map_option canonicalJson (map_of ob k) of Some v \<Rightarrow> if v \<noteq> Undef then Some v else None | None \<Rightarrow> None)"
    by (simp only: map_of_filter_values [OF dj] get map_of_sort_key [OF d])
      (auto simp: canonicalJson_def split: option.split)
  then show ?thesis
    by (cases "map_of ob k") (simp_all add: obj_get_def canonicalJson_def)
qed

lemma canonical_obj: "canonicalJson (JObj ob) = JObj (obj_of (canonicalJson (JObj ob)))"
  by (simp add: canonicalJson_def)

lemma stable_obj: "stableJson (JObj ob) = canonicalJson (JObj ob)"
  by (simp add: stableJson_def Let_def canonicalJson_def)

lemma canonical_distinct: "distinct (map fst ob) \<Longrightarrow> distinct (map fst (obj_of (canonicalJson (JObj ob))))"
proof -
  assume "distinct (map fst ob)"
  then have "distinct (map fst (map (map_prod id canonicalValue) ob))" by (simp add: o_def)
  moreover have "mset (map fst (sort_key fst (map (map_prod id canonicalValue) ob))) =
      mset (map fst (map (map_prod id canonicalValue) ob))" by (simp only: mset_map mset_sort)
  ultimately have "distinct (map fst (sort_key fst (map (map_prod id canonicalValue) ob)))"
    using mset_eq_imp_distinct_iff by blast
  then show ?thesis
    by (simp add: canonicalJson_def distinct_map_filter o_def split_def)
qed

lemma canonical_array:
  "canonicalJson (JArr vs) = JArr (map (\<lambda>v. if canonicalJson v = Undef then JNull else canonicalJson v) vs)"
  by (simp add: canonicalJson_def)

lemma sort_map_values: "sort_key fst (map (map_prod (\<lambda>x. x) f) xs) = map (map_prod (\<lambda>x. x) f) (sort_key fst xs)"
proof -
  have ins: "insort_key fst (map_prod (\<lambda>x. x) f x) (map (map_prod (\<lambda>x. x) f) ys) =
      map (map_prod (\<lambda>x. x) f) (insort_key fst x ys)" for x ys
    by (induction ys) auto
  show ?thesis by (induction xs) (simp_all add: ins)
qed

lemma canonical_object:
  "canonicalJson (JObj ob) =
     JObj (filter (\<lambda>(k, v). v \<noteq> Undef) (map (map_prod (\<lambda>x. x) canonicalJson) (sort_key fst ob)))"
proof -
  have both: "map (map_prod (\<lambda>x. x) json_tree) (map (map_prod (\<lambda>x. x) canonicalValue) xs) =
      map (map_prod (\<lambda>x. x) canonicalJson) xs" for xs
    by (auto simp: canonicalJson_def)
  show ?thesis
    unfolding canonicalJson_def [of "JObj ob"] canonicalValue.simps json_tree.simps id_def sort_map_values both ..
qed

lemma canonical_idem: "canonicalJson (canonicalJson v) = canonicalJson v"
proof (induction v)
  case (JArr vs)
  then show ?case by (auto simp: canonical_array canonicalJson_def)
next
  case (JObj ob)
  let ?f = "filter (\<lambda>(k, v). v \<noteq> Undef)" and ?m = "map (map_prod (\<lambda>x. x) canonicalJson)"
  let ?ys = "?f (?m (sort_key fst ob))"
  have "sorted (map fst (?m (sort_key fst ob)))"
    by (simp add: o_def)
  then have "sorted (map fst ?ys)"
    by (simp add: sorted_filter)
  then have sorted: "sort_key fst ?ys = ?ys" by (simp add: sort_key_id_if_sorted)
  have "canonicalJson (canonicalJson x) = canonicalJson x" if "(k, x) \<in> set ob" for k x
    using JObj that by (fastforce simp: snds.simps)
  then have "?m ?ys = ?ys"
    by (intro map_idI) auto
  then show ?case by (simp only: canonical_object sorted) (simp add: case_prod_unfold)
qed (simp_all add: canonicalJson_def)

section \<open>The enforced layer\<close>

text \<open>The rules as the written configuration holds them.\<close>

definition read_rule :: "jsval \<Rightarrow> permission_rule" where
  "read_rule v =
     \<lparr>pm_action = str_of (obj_get (obj_of v) ''action''), pm_resource = str_of (obj_get (obj_of v) ''resource''),
      pm_effect = (case effect_of (obj_get (obj_of v) ''effect'') of Some e \<Rightarrow> e | None \<Rightarrow> Deny)\<rparr>"

definition enforced_rules :: "jsval \<Rightarrow> permission_rule list" where
  "enforced_rules enforcement = map read_rule (array_of (obj_get (obj_of enforcement) ''permissions''))"

definition enforced_server :: "jsval \<Rightarrow> string \<Rightarrow> jsval" where
  "enforced_server enforcement name =
     obj_get (obj_of (obj_get (obj_of (obj_get (obj_of enforcement) ''mcp'')) ''servers'')) name"

lemma read_rule_canonical: "read_rule (canonicalJson (rule_to_val r)) = r"
proof -
  have "distinct (map fst (obj_of (rule_to_val r)))" by (simp add: rule_to_val_def)
  from canonical_get [OF this] have
    "obj_get (obj_of (canonicalJson (rule_to_val r))) k = canonicalJson (obj_get (obj_of (rule_to_val r)) k)" for k
    by (simp add: rule_to_val_def)
  then show ?thesis
    by (cases "pm_effect r") (simp_all add: read_rule_def rule_to_val_def js_simps canonicalJson_def effect_text_def)
qed

lemma canonical_rule_defined: "canonicalJson (rule_to_val r) \<noteq> Undef"
  by (simp add: canonicalJson_def rule_to_val_def)

lemma read_rules_canonical:
  "map read_rule (array_of (canonicalJson (JArr (map rule_to_val rs)))) = rs"
  by (simp add: canonical_array o_def canonical_rule_defined read_rule_canonical)

lemma denied_rules:
  assumes "validatePermissions v path True = Inr rs"
  shows "list_all (\<lambda>r. pm_effect r = Deny) rs"
proof -
  have one: "pm_effect r = Deny" if "validate_permission path True item = Inr r" for item r
  proof -
    from that obtain ob where ob: "(case (as_string (obj_get ob ''action''), as_string (obj_get ob ''resource''), effect_of (obj_get ob ''effect'')) of
         (Some action, Some resource, Some eff) \<Rightarrow>
           if action \<in> set legacy_actions
           then Inl (path @ '' action '' @ quoted action @ '' is not native V2; use shell/subagent/edit/read'')
           else if True \<and> eff \<noteq> Deny then Inl (path @ '' may only add deny-only restrictions'')
           else Inr \<lparr>pm_action = action, pm_resource = resource, pm_effect = eff\<rparr>
       | _ \<Rightarrow> Inl (path @ '' requires action, resource, effect'')) = Inr r"
      unfolding validate_permission_def bindE_Inr passes_Inr by blast
    then show ?thesis
      by (cases "as_string (obj_get ob ''action'')"; cases "as_string (obj_get ob ''resource'')";
          cases "effect_of (obj_get ob ''effect'')") (auto split: if_splits)
  qed
  have "mapE_from i (\<lambda>_. validate_permission path True) items = Inr rs \<Longrightarrow> list_all (\<lambda>r. pm_effect r = Deny) rs"
    for i items rs
    by (induction items arbitrary: i rs) (auto simp: bindE_Inr dest: one)
  then show ?thesis using assms by (auto simp: validatePermissions_def split: jsval.splits)
qed

lemma profile_servers_new:
  assumes "profile_servers pf generated v = Inr (Some ss)" "(name, x) \<in> set ss"
  shows "obj_get generated name = Undef"
proof -
  have "mapE_from i (\<lambda>_ (name, server).
      if obj_get generated name \<noteq> Undef
      then Inl (''instance mcp.servers.'' @ name @ '' conflicts with coordinator-generated MCP configuration'')
      else bindE (validateNativeMcp pf name server) (\<lambda>ob. Inr (name, JObj ob))) servers = Inr ys \<Longrightarrow>
    (name, x) \<in> set ys \<Longrightarrow> obj_get generated name = Undef" for i servers ys
    by (induction servers arbitrary: i ys) (auto simp: bindE_Inr split: if_splits)
  with assms show ?thesis
    by (fastforce simp: profile_servers_def bindE_Inr split: if_splits)
qed

lemma check_profile_Inr:
  assumes "check_profile pf yaml generated lock profile = Inr checked"
  shows "list_all (\<lambda>r. pm_effect r = Deny) (cp_denies checked)"
    "profile_servers pf generated (obj_get (pc_settings profile) ''mcp'') = Inr (cp_servers checked)"
proof -
  let ?v = "obj_get (pc_settings profile) ''permissions''"
  have "(if ?v = Undef then Inr [] else validatePermissions ?v ''instance permissions'' True) = Inr (cp_denies checked) \<and>
    profile_servers pf generated (obj_get (pc_settings profile) ''mcp'') = Inr (cp_servers checked)"
    using assms unfolding check_profile_def Let_def bindE_Inr passes_Inr by force
  then show "list_all (\<lambda>r. pm_effect r = Deny) (cp_denies checked)"
    "profile_servers pf generated (obj_get (pc_settings profile) ''mcp'') = Inr (cp_servers checked)"
    using denied_rules by (auto split: if_splits)
qed

lemma renderOpenCodeConfig_Inr:
  assumes "renderOpenCodeConfig pf input = Inr R"
  obtains servers directories policies where
    "renderMcpServers pf (ci_mcpServers input) = Inr servers"
    "validateAdditionalDirectories (dc_additionalDirectories (ci_deployment input)) = Inr directories"
    "renderPermissions (ci_allowedTools input) servers (ci_optionalMcpServers input) directories = Inr (rd_permissions R)"
    "renderOpenCodeExternalDirectoryPolicies (rd_permissions R) = Inr policies"
    "obj_get (rd_config R) ''mcp'' = JObj [(''servers'', JObj (map (map_prod (\<lambda>n. n) JObj) servers))]"
    "distinct (map fst (rd_config R))"
proof -
  from assms obtain servers directories where
    "renderMcpServers pf (ci_mcpServers input) = Inr servers"
    "validateAdditionalDirectories (dc_additionalDirectories (ci_deployment input)) = Inr directories"
    "renderPermissions (ci_allowedTools input) servers (ci_optionalMcpServers input) directories = Inr (rd_permissions R)"
    "\<exists>policies. renderOpenCodeExternalDirectoryPolicies (rd_permissions R) = Inr policies"
    "obj_get (rd_config R) ''mcp'' = JObj [(''servers'', JObj (map (map_prod (\<lambda>n. n) JObj) servers))]"
    "map fst (rd_config R) = [''$schema'', ''share'', ''update'', ''model'', ''agents'', ''providers'', ''plugins'',
       ''mcp'', ''permissions'', ''policies''] @ (if ''TodoWrite'' \<in> set (ci_allowedTools input) then [''experimental''] else [])"
    unfolding renderOpenCodeConfig_def Let_def split_beta passes_Inr bindE_Inr
    by (auto simp: js_simps)
  then show ?thesis using that by auto
qed

lemma enforced_object_get:
  assumes "distinct (map fst config)"
  shows "distinct (map fst (enforced_object config permissions generated checked))"
    "obj_get (enforced_object config permissions generated checked) ''permissions'' =
       JArr (map rule_to_val permissions)"
    "obj_get (enforced_object config permissions generated checked) ''mcp'' =
       (case cp_servers checked of None \<Rightarrow> canonicalJson (obj_get config ''mcp'')
        | Some ss \<Rightarrow> JObj [(''servers'', JObj (obj_spread generated ss))])"
proof -
  let ?c = "obj_set ''plugins'' (JArr removals) (filter (\<lambda>(k, _). k \<noteq> ''policies'' \<and> k \<noteq> ''plugins'') config)"
  have dc: "distinct (map fst ?c)"
    using assms by (intro distinct_update) (simp add: distinct_map_filter)
  have other: "obj_get (filter (\<lambda>(k, _). k \<noteq> ''policies'' \<and> k \<noteq> ''plugins'') config) ''mcp'' = obj_get config ''mcp''"
    by (induction config) (auto simp: js_simps)
  have enf: "obj_of (renderEnforcement config) = obj_of (canonicalJson (JObj ?c))"
    by (simp add: renderEnforcement_def stable_obj)
  have de: "distinct (map fst (obj_of (renderEnforcement config)))"
    unfolding enf by (rule canonical_distinct [OF dc])
  show "distinct (map fst (enforced_object config permissions generated checked))"
    by (simp add: enforced_object_def Let_def spread_entry_def distinct_update de split: option.split)
  show "obj_get (enforced_object config permissions generated checked) ''permissions'' =
       JArr (map rule_to_val permissions)"
    by (simp add: enforced_object_def Let_def spread_entry_def js_simps split: option.split)
  show "obj_get (enforced_object config permissions generated checked) ''mcp'' =
       (case cp_servers checked of None \<Rightarrow> canonicalJson (obj_get config ''mcp'')
        | Some ss \<Rightarrow> JObj [(''servers'', JObj (obj_spread generated ss))])"
    by (simp add: enforced_object_def Let_def spread_entry_def js_simps enf canonical_get [OF dc] other
        split: option.split)
qed

lemma allowed_append_denies: "list_all (\<lambda>r. pm_effect r = Deny) ds \<Longrightarrow> allowed (rs @ ds) = allowed rs"
  by (induction ds) (auto simp: allowed_def)

lemma permissions_nonempty: "renderPermissions tools servers optional directories = Inr rules \<Longrightarrow> rules \<noteq> []"
  by (auto simp: renderPermissions_def bindE_Inr Let_def)

definition expected_grants :: "string list \<Rightarrow> (string \<times> obj) list \<Rightarrow> string list \<Rightarrow> (string \<times> string) set" where
  "expected_grants tools servers directories =
     {g. \<exists>t \<in> set tools. granted (map fst servers) t = Some g} \<union>
     (if list_ex (code_mode_tool servers) tools \<and>
         \<not> list_ex (\<lambda>t. map_option fst (granted (map fst servers) t) = Some ''execute'') tools
      then {(''execute'', ''*'')} else {}) \<union>
     {(''external_directory'', d @ ''/*'') |d. d \<in> set directories}"

lemma tool_policies_kept:
  "filter is_tool_policy (filter (\<lambda>p. \<not> is_tool_policy p) xs @ tool_policies ps) = tool_policies ps"
  by (induction ps) (simp_all add: tool_policies_def is_tool_policy_def policy_val_def js_simps)

lemma spread_keeps:
  assumes "\<And>x. (name, x) \<notin> set ss"
  shows "obj_get (obj_spread generated ss) name = obj_get generated name"
proof -
  have "map_of ss name = None" using assms by (metis map_of_SomeD not_None_eq)
  then have "name \<notin> fst ` set ss" by (simp add: map_of_eq_None_iff)
  then show ?thesis
    unfolding obj_spread_def by (induction ss arbitrary: generated) (auto simp: js_simps)
qed

lemma spread_distinct: "distinct (map fst a) \<Longrightarrow> distinct (map fst (obj_spread a b))"
  unfolding obj_spread_def by (induction b arbitrary: a) (auto simp: distinct_update)

lemma enforced_generated:
  assumes "rd_enforcement R = stableJson (JObj (enforced_object config perms generated checked))"
    and "distinct (map fst config)" "distinct (map fst generated)"
    and "obj_get config ''mcp'' = JObj [(''servers'', JObj generated)]"
    and "profile_servers pf generated v = Inr (cp_servers checked)"
    and "obj_get generated name \<noteq> Undef"
  shows "enforced_server (rd_enforcement R) name = canonicalJson (obj_get generated name)"
proof -
  let ?e = "enforced_object config perms generated checked"
  have get: "obj_get (obj_of (canonicalJson (JObj [(k, x)]))) k = canonicalJson x" for k x
    by (simp add: canonical_get js_simps)
  have mcp: "obj_get (obj_of (rd_enforcement R)) ''mcp'' = canonicalJson (obj_get ?e ''mcp'')"
    unfolding assms(1) stable_obj by (rule canonical_get [OF enforced_object_get(1) [OF assms(2)]])
  obtain ss where ss: "canonicalJson (obj_get ?e ''mcp'') = canonicalJson (JObj [(''servers'', JObj ss)])"
    "distinct (map fst ss)" "obj_get ss name = obj_get generated name"
  proof (cases "cp_servers checked")
    case None
    with assms(4) have "canonicalJson (obj_get ?e ''mcp'') = canonicalJson (JObj [(''servers'', JObj generated)])"
      by (simp add: enforced_object_get [OF assms(2)] canonical_idem)
    with that assms(3) show ?thesis by blast
  next
    case (Some new)
    then have "(name, x) \<notin> set new" for x
      using profile_servers_new [of pf generated v new name x] assms(5,6) by auto
    then have "obj_get (obj_spread generated new) name = obj_get generated name" by (rule spread_keeps)
    with that [of "obj_spread generated new"] Some assms(3) show ?thesis
      by (simp add: enforced_object_get [OF assms(2)] spread_distinct)
  qed
  have "obj_get (obj_of (obj_get (obj_of (rd_enforcement R)) ''mcp'')) ''servers'' = canonicalJson (JObj ss)"
    unfolding mcp ss(1) by (rule get)
  then show ?thesis
    by (simp add: enforced_server_def canonical_get [OF ss(2)] ss(3))
qed

lemma server_values: "map_of (map (map_prod (\<lambda>n. n) JObj) out) n = map_option JObj (map_of out n)"
  by (induction out) auto

text \<open>
  C25. What the configuration of a cycle enforces on the agent: its rules begin by denying everything,
  never ask, and allow exactly what the allowed tools and the deployment's directories stand for,
  whatever the profile of the instance says; the tool policies are those of the enforced rules; and
  every MCP server the coordinator generated is enforced as it was generated.
\<close>

theorem cycle_config_least_privilege:
  assumes "renderOpenCodeConfigForCycle pf yaml preparation providerId deployment profile vertexModels = Inr R"
  shows "\<exists>servers directories policies.
    renderMcpServers pf (cy_mcpServers preparation) = Inr servers \<and>
    validateAdditionalDirectories (dc_additionalDirectories deployment) = Inr directories \<and>
    renderOpenCodeExternalDirectoryPolicies (enforced_rules (rd_enforcement R)) = Inr policies \<and>
    hd (enforced_rules (rd_enforcement R)) = rule Deny ''*'' ''*'' \<and>
    Ask \<notin> pm_effect ` set (enforced_rules (rd_enforcement R)) \<and>
    allowed (enforced_rules (rd_enforcement R)) =
      expected_grants (cy_allowedTools preparation) servers directories \<and>
    filter is_tool_policy (array_of (obj_get (rd_config R) ''policies'')) = tool_policies policies \<and>
    list_all (\<lambda>(name, ob). enforced_server (rd_enforcement R) name = canonicalJson (JObj ob)) servers"
proof -
  obtain input rendered where base: "renderOpenCodeConfig pf input = Inr rendered"
    and app: "applyProfile pf yaml rendered profile = Inr R"
    and input: "ci_mcpServers input = cy_mcpServers preparation" "ci_deployment input = deployment"
      "ci_allowedTools input = cy_allowedTools preparation"
  proof -
    from assms obtain rendered m i sm where
      "renderOpenCodeConfig pf
         \<lparr>ci_deployment = deployment, ci_model = m, ci_providerId = i, ci_smallModel = sm,
          ci_mcpServers = cy_mcpServers preparation, ci_allowedTools = cy_allowedTools preparation,
          ci_optionalMcpServers = cy_optionalMcpServers preparation\<rparr> = Inr rendered"
      "applyProfile pf yaml rendered profile = Inr R"
      unfolding renderOpenCodeConfigForCycle_def Let_def bindE_Inr by blast
    from that [OF this] show ?thesis by simp
  qed
  from renderOpenCodeConfig_Inr [OF base] obtain servers directories where
    servers: "renderMcpServers pf (cy_mcpServers preparation) = Inr servers"
    and dirs: "validateAdditionalDirectories (dc_additionalDirectories deployment) = Inr directories"
    and perms: "renderPermissions (cy_allowedTools preparation) servers (ci_optionalMcpServers input) directories =
        Inr (rd_permissions rendered)"
    and mcp: "obj_get (rd_config rendered) ''mcp'' = JObj [(''servers'', JObj (map (map_prod (\<lambda>n. n) JObj) servers))]"
    and dist: "distinct (map fst (rd_config rendered))"
    unfolding input by metis
  note facts = permissions_allowed [OF perms]
  from app obtain checked policies where
    checked: "check_profile pf yaml (generated_servers rendered) (rd_packageLock rendered) profile = Inr checked"
    and pol: "renderOpenCodeExternalDirectoryPolicies (rd_permissions rendered @ cp_denies checked) = Inr policies"
    and config: "rd_config R = obj_set ''policies''
        (JArr (filter (\<lambda>p. \<not> is_tool_policy p) (array_of (obj_get (rd_config rendered) ''policies'')) @
               tool_policies policies)) (rd_config rendered)"
    and enf: "rd_enforcement R = stableJson (JObj (enforced_object (rd_config R)
        (rd_permissions rendered @ cp_denies checked) (generated_servers rendered) checked))"
    unfolding applyProfile_def Let_def bindE_Inr by auto
  have gen: "generated_servers rendered = map (map_prod (\<lambda>n. n) JObj) servers"
    by (simp add: generated_servers_def mcp js_simps)
  have distR: "distinct (map fst (rd_config R))" by (simp add: config distinct_update dist)
  note deny = check_profile_Inr [OF checked]
  have rules: "enforced_rules (rd_enforcement R) = rd_permissions rendered @ cp_denies checked"
    unfolding enforced_rules_def enf stable_obj
    by (simp add: canonical_get enforced_object_get [OF distR] read_rules_canonical del: map_append)
  have names: "distinct (map fst servers)"
    using facts by (metis (no_types, lifting) distinct_map map_map)
  have first: "hd (rd_permissions rendered @ cp_denies checked) = rule Deny ''*'' ''*''"
    using facts permissions_nonempty [OF perms] by (simp add: hd_append)
  have ask: "Ask \<notin> pm_effect ` set (rd_permissions rendered @ cp_denies checked)"
    using facts deny(1) by (auto simp: list_all_iff)
  have all: "allowed (rd_permissions rendered @ cp_denies checked) =
      expected_grants (cy_allowedTools preparation) servers directories"
    using facts allowed_append_denies [OF deny(1), of "rd_permissions rendered"]
    by (simp add: expected_grants_def)
  have tools: "filter is_tool_policy (array_of (obj_get (rd_config R) ''policies'')) = tool_policies policies"
    by (simp add: config js_simps tool_policies_kept del: filter_append)
  have "enforced_server (rd_enforcement R) name = canonicalJson (JObj ob)" if "(name, ob) \<in> set servers" for name ob
  proof -
    have "map_of servers name = Some ob" using names that by simp
    then have got: "obj_get (generated_servers rendered) name = JObj ob"
      by (simp add: gen obj_get_def server_values)
    have "obj_get (rd_config R) ''mcp'' = JObj [(''servers'', JObj (generated_servers rendered))]"
      by (simp add: config js_simps mcp gen)
    moreover have "distinct (map fst (generated_servers rendered))"
      using names by (simp add: gen o_def)
    ultimately show ?thesis
      using enforced_generated [OF enf distR _ _ deny(2), of name] got by simp
  qed
  then have kept: "list_all (\<lambda>(name, ob). enforced_server (rd_enforcement R) name = canonicalJson (JObj ob)) servers"
    by (auto simp: list_all_iff)
  show ?thesis
    unfolding rules using servers dirs pol first ask all tools kept by blast
qed

definition sample_platform :: platform where
  "sample_platform = \<lparr>pf_collate = (\<lambda>s. s), pf_urlOf = (\<lambda>_. None), pf_vertexPackage = ''aisdk:file:///vertex''\<rparr>"

definition sample_deployment :: deployment_config where
  "sample_deployment =
     \<lparr>dc_raw = [], dc_model = None, dc_providerId = None, dc_smallModel = None, dc_providers = [],
      dc_packages = [], dc_plugins = [], dc_additionalDirectories = Undef\<rparr>"

definition sample_preparation :: cycle_preparation where
  "sample_preparation =
     \<lparr>cy_model = ''p/m'', cy_mcpServers = [], cy_allowedTools = [''Read''], cy_optionalMcpServers = []\<rparr>"

definition sample_profile :: project_configuration where
  "sample_profile = \<lparr>pc_settings = [], pc_files = []\<rparr>"

lemma sample_permissions:
  "renderPermissions [''Read''] [] [] [] =
     Inr [rule Deny ''*'' ''*'', rule Allow ''read'' ''*'', rule Deny ''external_directory'' ''*'']"
  by code_simp

lemma sample_policies:
  "renderOpenCodeExternalDirectoryPolicies
     [rule Deny ''*'' ''*'', rule Allow ''read'' ''*'', rule Deny ''external_directory'' ''*''] =
   Inr [directory_policy (rule Deny ''external_directory'' ''*'')]"
  by code_simp

lemma sample_model: "normalizeModel ''p/m'' (Some ''p'') =
    Inr \<lparr>em_providerID = ''p'', em_modelID = ''m'', em_text = ''p/m''\<rparr>"
  by code_simp

theorem cycle_config_least_privilege_witness:
  "\<exists>R. renderOpenCodeConfigForCycle sample_platform (\<lambda>_. Inl []) sample_preparation ''p'' sample_deployment
       sample_profile [] = Inr R \<and>
     allowed (enforced_rules (rd_enforcement R)) = expected_grants [''Read''] [] []"
proof -
  have servers: "renderMcpServers sample_platform [] = Inr []"
    by (simp add: renderMcpServers_def sortedEntries_def)
  have "\<exists>R. renderOpenCodeConfigForCycle sample_platform (\<lambda>_. Inl []) sample_preparation ''p'' sample_deployment
       sample_profile [] = Inr R"
    by (simp add: renderOpenCodeConfigForCycle_def Let_def sample_deployment_def sample_preparation_def
        sample_profile_def resolveDefaultSmallModel_def renderOpenCodeConfig_def passes_def rejectKeys_def
        sample_model normalizePackageLock_def sortedEntries_def servers validateAdditionalDirectories_def
        sample_permissions sample_policies applyProfile_def check_profile_def when_present_def validate_named_def
        validate_plugins_def validateExperimental_def profile_servers_def)
  then obtain R where R: "renderOpenCodeConfigForCycle sample_platform (\<lambda>_. Inl []) sample_preparation ''p''
      sample_deployment sample_profile [] = Inr R" ..
  from cycle_config_least_privilege [OF R] R servers show ?thesis
    by (auto simp: sample_preparation_def sample_deployment_def validateAdditionalDirectories_def)
qed

end
