(* ===== verification/Json_Text.thy ===== *)
theory Json_Text
  imports Runtime_Shared Opencode_Environment
begin

text \<open>
  The text of \<open>JSON.stringify\<close>, for the records the compatibility sink appends to its files and posts,
  and that \<open>JSON.parse\<close> reads every such text back. An undefined entry of an object is left out, an
  undefined element of an array and a number that is not finite print as null.
\<close>

section \<open>Printing\<close>

definition hex_digit :: "nat \<Rightarrow> char" where
  "hex_digit n = (if n < 10 then char_of (48 + n) else char_of (87 + n))"

definition json_char :: "char \<Rightarrow> string" where
  "json_char c =
     (if c = CHR 0x22 then [CHR 0x5C, CHR 0x22]
      else if c = CHR 0x5C then [CHR 0x5C, CHR 0x5C]
      else if c = CHR 0x08 then [CHR 0x5C, CHR ''b'']
      else if c = CHR 0x0C then [CHR 0x5C, CHR ''f'']
      else if c = CHR 0x0A then [CHR 0x5C, CHR ''n'']
      else if c = CHR 0x0D then [CHR 0x5C, CHR ''r'']
      else if c = CHR 0x09 then [CHR 0x5C, CHR ''t'']
      else if of_char c < (32 :: nat)
      then [CHR 0x5C] @ ''u00'' @ [hex_digit (of_char c div 16), hex_digit (of_char c mod 16)]
      else [c])"

definition json_quote :: "string \<Rightarrow> string" where
  "json_quote s = [CHR 0x22] @ concat (map json_char s) @ [CHR 0x22]"

fun json_text :: "jsval \<Rightarrow> string" where
  "json_text Undef = ''null''"
| "json_text JNull = ''null''"
| "json_text (JBool b) = (if b then ''true'' else ''false'')"
| "json_text (JNum n) = (case n of Fin r \<Rightarrow> number_text r | _ \<Rightarrow> ''null'')"
| "json_text (JStr s) = json_quote s"
| "json_text (JArr vs) = ''['' @ join_text '','' (map json_text vs) @ '']''"
| "json_text (JObj ob) =
     ''{'' @ join_text '','' (map (\<lambda>(k, v). json_quote k @ '':'' @ json_text v)
                            (filter (\<lambda>(k, v). v \<noteq> Undef) ob)) @ ''}''"

text \<open>
  The values that a text determines: every number finite, with at most twenty digits after the point
  and below the overflow bound, no undefined value and no repeated name.
\<close>

definition decimal_number :: "rat \<Rightarrow> bool" where
  "decimal_number r \<longleftrightarrow> is_integer (r * 10 ^ 20) \<and> \<bar>r\<bar> < overflow_bound"

fun printable :: "jsval \<Rightarrow> bool" where
  "printable Undef = False"
| "printable (JNum n) = (case n of Fin r \<Rightarrow> decimal_number r | _ \<Rightarrow> False)"
| "printable (JArr vs) = list_all printable vs"
| "printable (JObj ob) = (distinct (map fst ob) \<and> list_all (\<lambda>(k, v). printable v) ob)"
| "printable _ = True"

section \<open>Characters and strings\<close>

lemma hex_digit_plain: "n < 16 \<Longrightarrow> hex_digit n \<noteq> CHR 0x22 \<and> hex_digit n \<noteq> CHR 0x5C \<and> hex_digit n \<noteq> CHR 0x0A"
proof -
  have "\<forall>m \<in> set [0..<16]. hex_digit m \<noteq> CHR 0x22 \<and> hex_digit m \<noteq> CHR 0x5C \<and> hex_digit m \<noteq> CHR 0x0A"
    by code_simp
  then show "n < 16 \<Longrightarrow> ?thesis" by simp
qed

lemma hex_val_digit: "n < 16 \<Longrightarrow> hex_val (hex_digit n) = Some n"
  by (simp add: hex_val_def hex_digit_def Let_def)

lemma json_char_hd: "json_char c \<noteq> [] \<and> hd (json_char c) \<noteq> CHR 0x22"
  by (simp add: json_char_def)

lemma json_char_not_quote: obtains x xs where "json_char c = x # xs" "x \<noteq> CHR 0x22"
  using json_char_hd [of c] by (cases "json_char c") simp_all

lemma hex4_zero: "hex4 (CHR ''0'' # CHR ''0'' # a # b # s) =
  (case (hex_val a, hex_val b) of (Some x, Some y) \<Rightarrow> Some (x * 16 + y, s) | _ \<Rightarrow> None)"
  by (simp add: hex_val_def split: option.splits)

lemma read_control:
  assumes "of_char c < (32 :: nat)"
  shows "read_char ([CHR 0x5C] @ ''u00'' @ [hex_digit (of_char c div 16), hex_digit (of_char c mod 16)] @ s) = Some (c, s)"
proof -
  have "of_char c div 16 < (16 :: nat)" using assms by simp
  then show ?thesis
    by (simp add: read_char_def hex4_zero hex_val_digit del: hex4.simps)
qed

lemma read_json_char: "read_char (json_char c @ s) = Some (c, s)"
proof (cases "c \<in> {CHR 0x22, CHR 0x5C, CHR 0x08, CHR 0x0C, CHR 0x0A, CHR 0x0D, CHR 0x09}")
  case True
  then show ?thesis by (auto simp: json_char_def read_char_def)
next
  case False
  then show ?thesis
    using read_control [of c s] by (cases "of_char c < (32 :: nat)") (auto simp: json_char_def read_char_def)
qed

lemma read_string_chars:
  "read_string acc (concat (map json_char t) @ CHR 0x22 # s) = Some (rev acc @ t, s)"
proof (induction t arbitrary: acc)
  case Nil
  then show ?case by (simp add: read_string.simps)
next
  case (Cons c t)
  obtain x xs where x: "json_char c = x # xs" "x \<noteq> CHR 0x22" using json_char_not_quote by blast
  have "read_char (x # xs @ concat (map json_char t) @ CHR 0x22 # s) =
      Some (c, concat (map json_char t) @ CHR 0x22 # s)"
    using read_json_char [of c "concat (map json_char t) @ CHR 0x22 # s"] x by simp
  then show ?case using Cons [of "c # acc"] x by (subst read_string.simps) simp
qed

section \<open>Numbers\<close>

lemma is_digit_char [simp]: "n < 10 \<Longrightarrow> is_digit (char_of (48 + n))" for n :: nat
  by (simp add: is_digit_def)

lemma digit_val_char [simp]: "n < 10 \<Longrightarrow> digit_val (char_of (48 + n)) = n" for n :: nat
  by (simp add: digit_val_def)

lemma digits_val_snoc: "digits_val (ds @ [c]) = 10 * digits_val ds + digit_val c"
  by (simp add: digits_val_def)

lemma show_nat_digits: "list_all is_digit (show_nat n)"
proof (induction n rule: show_nat.induct)
  case (1 n)
  then show ?case by (subst show_nat.simps) simp
qed

lemma show_nat_val: "digits_val (show_nat n) = n"
proof (induction n rule: show_nat.induct)
  case (1 n)
  show ?case
  proof (cases "n < 10")
    case True
    then show ?thesis by (subst show_nat.simps) (simp add: digits_val_def)
  next
    case False
    then show ?thesis using 1 by (subst show_nat.simps) (simp add: digits_val_snoc)
  qed
qed

lemma show_nat_head: "0 < n \<Longrightarrow> hd (show_nat n) \<noteq> CHR ''0''"
proof (induction n rule: show_nat.induct)
  case (1 n)
  show ?case
  proof (cases "n < 10")
    case True
    have "\<forall>m \<in> set [1..<10]. char_of (48 + m :: nat) \<noteq> CHR ''0''" by code_simp
    then show ?thesis using True 1(2) by (subst show_nat.simps) simp
  next
    case False
    then show ?thesis using 1(1) by (subst show_nat.simps) (simp add: hd_append div_greater_zero_iff)
  qed
qed

lemma show_nat_length: "1 < length (show_nat n) \<Longrightarrow> hd (show_nat n) \<noteq> CHR ''0''"
  by (cases "n = 0") (simp_all add: show_nat_head, simp add: show_nat.simps)

lemma is_integer_iff: "is_integer r \<longleftrightarrow> r \<in> \<int>"
  by (auto simp: is_integer_def elim: Ints_cases) (metis Ints_of_int)

lemma digits_val_append: "digits_val (a @ b) = digits_val a * 10 ^ length b + digits_val b"
  by (induction b rule: rev_induct)
     (simp_all add: digits_val_snoc append_assoc [symmetric] algebra_simps del: append_assoc, simp add: digits_val_def)

lemma fraction_digits_exact:
  "0 \<le> r \<Longrightarrow> r < 1 \<Longrightarrow> r * 10 ^ n \<in> \<int> \<Longrightarrow>
   list_all is_digit (fraction_digits n r) \<and> (r \<noteq> 0 \<longrightarrow> fraction_digits n r \<noteq> []) \<and>
   of_nat (digits_val (fraction_digits n r)) = r * 10 ^ length (fraction_digits n r)"
proof (induction n arbitrary: r)
  case 0
  then have "r = 0" by (auto elim!: Ints_cases)
  then show ?case by (simp add: digits_val_def)
next
  case (Suc n)
  define d where "d = \<lfloor>r * 10\<rfloor>"
  define f where "f = r * 10 - of_int d"
  have d: "0 \<le> d" "nat d < 10" using Suc.prems by (simp_all add: d_def floor_less_iff nat_less_iff)
  have f: "0 \<le> f" "f < 1" by (simp_all add: f_def d_def) linarith
  have "f * 10 ^ n = r * 10 ^ Suc n - of_int (d * 10 ^ n)" by (simp add: f_def algebra_simps)
  then have "f * 10 ^ n \<in> \<int>" using Suc.prems(3) by (metis Ints_diff Ints_of_int)
  then have ih: "list_all is_digit (fraction_digits n f)"
      "of_nat (digits_val (fraction_digits n f)) = f * 10 ^ length (fraction_digits n f)"
    using Suc.IH f by simp_all
  have v: "digits_val [char_of (48 + nat d)] = nat d" using d by (simp add: digits_val_def)
  have "rat_of_nat (nat d) = of_int d" using d by simp
  then have "r = 0 \<or> of_nat (digits_val (char_of (48 + nat d) # fraction_digits n f)) =
      r * 10 ^ Suc (length (fraction_digits n f))"
    using digits_val_append [of "[char_of (48 + nat d)]" "fraction_digits n f"] ih(2) v
    by (simp add: f_def algebra_simps)
  then show ?case using ih(1) d by (auto simp: Let_def d_def [symmetric] f_def [symmetric] digits_val_def)
qed

definition delimited :: "string \<Rightarrow> bool" where
  "delimited s \<longleftrightarrow> s = [] \<or> hd s \<in> {CHR '','', CHR '']'', CHR ''}''}"

lemma delimited_hd: "delimited s \<Longrightarrow> s \<noteq> [] \<Longrightarrow>
    \<not> is_digit (hd s) \<and> hd s \<noteq> CHR ''.'' \<and> hd s \<noteq> CHR ''e'' \<and> hd s \<noteq> CHR ''E''"
  by (auto simp: delimited_def is_digit_def)

lemma span_digits_append:
  "list_all is_digit ds \<Longrightarrow> s = [] \<or> \<not> is_digit (hd s) \<Longrightarrow> span_digits (ds @ s) = (ds, s)"
  by (induction ds) (cases s, auto simp: span_digits_def)

lemma read_number_parts:
  assumes "whole \<noteq> []" "list_all is_digit whole" "length whole = 1 \<or> hd whole \<noteq> CHR ''0''"
    and "list_all is_digit fr" "delimited s"
  shows "read_number ((if neg then ''-'' else []) @ whole @ (if fr = [] then [] else CHR ''.'' # fr) @ s) =
    Some (to_double ((if neg then -1 else 1) * decimal whole fr 0), s)"
proof -
  have e: "read_exponent s = Some (0, s)"
    using delimited_hd [OF assms(5)] by (cases s) (auto simp: read_exponent_def)
  have dot: "\<not> is_digit (CHR ''.'')" by (simp add: is_digit_def)
  have minus: "hd (whole @ t) \<noteq> CHR ''-''" for t
    using assms(1,2) by (cases whole) (auto simp: is_digit_def)
  have w: "span_digits (whole @ (if fr = [] then [] else CHR ''.'' # fr) @ s) =
      (whole, (if fr = [] then [] else CHR ''.'' # fr) @ s)"
    by (rule span_digits_append [OF assms(2)]) (use dot delimited_hd [OF assms(5)] in auto)
  have f: "span_digits (fr @ s) = (fr, s)"
    by (rule span_digits_append [OF assms(4)]) (use delimited_hd [OF assms(5)] in auto)
  have "length whole = 1 \<Longrightarrow> \<not> 1 < length whole" by simp
  then show ?thesis
    using w f e assms(1,3) delimited_hd [OF assms(5)] minus
    by (cases neg; cases "fr = []") (auto simp: read_number_def Let_def)
qed

lemma show_nat_lead: "length (show_nat n) = 1 \<or> hd (show_nat n) \<noteq> CHR ''0''"
  using show_nat_length [of n] by (cases "length (show_nat n)") auto

lemma read_number_text:
  assumes "decimal_number r" "delimited s"
  shows "read_number (number_text r @ s) = Some (Fin r, s)"
proof -
  define a where "a = \<bar>r\<bar>"
  define w where "w = nat \<lfloor>a\<rfloor>"
  define f where "f = a - of_int \<lfloor>a\<rfloor>"
  define fr where "fr = (if is_integer a then [] else fraction_digits 20 f)"
  have f: "0 \<le> f" "f < 1" by (simp_all add: f_def) linarith
  have w: "of_nat w + f = a" by (simp add: w_def f_def a_def)
  have "r * 10 ^ 20 \<in> \<int>" using assms(1) by (simp add: decimal_number_def is_integer_iff)
  then have "a * 10 ^ 20 \<in> \<int>" by (cases "r < 0") (simp_all add: a_def)
  then have "f * 10 ^ 20 \<in> \<int>" by (simp add: f_def left_diff_distrib)
  then have x: "list_all is_digit (fraction_digits 20 f)" "f \<noteq> 0 \<Longrightarrow> fraction_digits 20 f \<noteq> []"
      "of_nat (digits_val (fraction_digits 20 f)) = f * 10 ^ length (fraction_digits 20 f)"
    using fraction_digits_exact [OF f] by auto
  have int: "is_integer a \<longleftrightarrow> f = 0" by (auto simp: is_integer_def f_def)
  have t: "number_text r = (if r < 0 then ''-'' else []) @ show_nat w @ (if fr = [] then [] else CHR ''.'' # fr)"
    using x(2) int by (auto simp: number_text_def Let_def a_def [symmetric] w_def [symmetric] fr_def f_def [symmetric])
  have "decimal (show_nat w) fr 0 = of_nat w + of_nat (digits_val fr) / 10 ^ length fr"
    by (simp add: decimal_def power10_def digits_val_append show_nat_val field_simps)
  also have "\<dots> = a" using x(3) int w by (simp add: fr_def digits_val_def)
  finally have "(if r < 0 then -1 else 1) * decimal (show_nat w) fr 0 = r" by (simp add: a_def)
  moreover have "read_number (number_text r @ s) =
      Some (to_double ((if r < 0 then -1 else 1) * decimal (show_nat w) fr 0), s)"
    unfolding t append_assoc
    by (rule read_number_parts)
       (use show_nat_digits show_nat_lead x(1) assms(2) in \<open>simp_all add: fr_def\<close>)
  ultimately show ?thesis using assms(1) by (simp add: decimal_number_def)
qed

section \<open>Parsing what was printed\<close>

lemma skip_ws_hd: "s \<noteq> [] \<Longrightarrow> \<not> json_space (hd s) \<Longrightarrow> skip_ws s = s"
  by (cases s) (simp_all add: skip_ws_def)

text \<open>A number's text starts with a digit or a minus sign, which no other text does.\<close>

definition number_start :: "char \<Rightarrow> bool" where
  "number_start c \<longleftrightarrow> is_digit c \<or> c = CHR ''-''"

lemma number_text_start: "number_text r \<noteq> [] \<and> number_start (hd (number_text r))"
proof -
  have "show_nat n \<noteq> [] \<and> is_digit (hd (show_nat n))" for n
    using show_nat_digits [of n] by (cases "show_nat n") auto
  then show ?thesis by (simp add: number_text_def Let_def number_start_def)
qed

lemma number_start_plain:
  "number_start c \<Longrightarrow> \<not> json_space c \<and> c \<noteq> CHR ''{'' \<and> c \<noteq> CHR ''['' \<and> c \<noteq> CHR 0x22 \<and>
     c \<noteq> CHR ''t'' \<and> c \<noteq> CHR ''f'' \<and> c \<noteq> CHR ''n'' \<and> c \<noteq> CHR '']'' \<and> c \<noteq> CHR ''}''"
  by (auto simp: number_start_def is_digit_def json_space_def)

lemma parse_number:
  assumes "decimal_number r" "delimited s"
  shows "parse_value (Suc f) (number_text r @ s) = Some (JNum (Fin r), s)"
proof -
  obtain c cs where c: "number_text r = c # cs" "number_start c"
    using number_text_start [of r] by (cases "number_text r") auto
  have "skip_ws (c # cs @ s) = c # cs @ s"
    by (rule skip_ws_hd) (use number_start_plain [OF c(2)] in simp_all)
  then show ?thesis
    using read_number_text [OF assms] number_start_plain [OF c(2)] by (auto simp: c(1) Let_def)
qed

lemma json_text_start:
  "printable v \<Longrightarrow> \<exists>c cs. json_text v = c # cs \<and> \<not> json_space c \<and> c \<noteq> CHR '']'' \<and> c \<noteq> CHR ''}''"
proof (cases v)
  case (JNum n)
  moreover assume "printable v"
  ultimately obtain r where r: "v = JNum (Fin r)" by (cases n) auto
  obtain c cs where "number_text r = c # cs" "number_start c"
    using number_text_start [of r] by (cases "number_text r") auto
  then show ?thesis using number_start_plain [of c] r by simp
qed (simp_all add: json_space_def json_quote_def)

lemma json_quote_append: "json_quote k @ s = CHR 0x22 # concat (map json_char k) @ CHR 0x22 # s"
  by (simp add: json_quote_def)

definition parses :: "jsval \<Rightarrow> bool" where
  "parses v \<longleftrightarrow> (\<forall>s f. delimited s \<longrightarrow> 2 * length (json_text v @ s) < f \<longrightarrow>
     parse_value f (json_text v @ s) = Some (v, s))"

lemma parses_apply:
  "parses v \<Longrightarrow> delimited s \<Longrightarrow> 2 * length (json_text v @ s) < f \<Longrightarrow>
   parse_value f (json_text v @ s) = Some (v, s)"
  by (simp add: parses_def)

lemma delimited_simps [simp]: "delimited (CHR '','' # s)" "delimited (CHR '']'' # s)" "delimited (CHR ''}'' # s)"
    "delimited []"
  by (simp_all add: delimited_def)

lemma skip_ws_simps [simp]: "skip_ws (CHR '','' # s) = CHR '','' # s" "skip_ws (CHR '']'' # s) = CHR '']'' # s"
    "skip_ws (CHR ''}'' # s) = CHR ''}'' # s" "skip_ws (CHR '':'' # s) = CHR '':'' # s"
    "skip_ws (CHR 0x22 # s) = CHR 0x22 # s" "skip_ws (CHR ''['' # s) = CHR ''['' # s"
    "skip_ws (CHR ''{'' # s) = CHR ''{'' # s"
  by (simp_all add: skip_ws_def json_space_def)

lemma parse_elems_printed:
  "vs \<noteq> [] \<Longrightarrow> list_all parses vs \<Longrightarrow>
   2 * length (join_text '','' (map json_text vs) @ CHR '']'' # s) + 1 < f \<Longrightarrow>
   parse_elems f acc (join_text '','' (map json_text vs) @ CHR '']'' # s) = Some (JArr (acc @ vs), s)"
proof (induction vs arbitrary: f acc)
  case (Cons v vs)
  obtain g where g: "f = Suc g" using Cons.prems(3) by (cases f) auto
  show ?case
  proof (cases vs)
    case Nil
    then show ?thesis
      using Cons.prems(2,3) parses_apply [of v "CHR '']'' # s" g] by (simp add: g del: parse_value.simps)
  next
    case (Cons w ws)
    let ?t = "join_text '','' (map json_text vs) @ CHR '']'' # s"
    have j: "join_text '','' (map json_text (v # vs)) @ CHR '']'' # s = json_text v @ CHR '','' # ?t"
      by (simp add: Cons)
    have "parse_value g (json_text v @ CHR '','' # ?t) = Some (v, CHR '','' # ?t)"
      by (rule parses_apply) (use Cons.prems g j in auto)
    moreover have "parse_elems g (acc @ [v]) ?t = Some (JArr ((acc @ [v]) @ vs), s)"
      by (rule Cons.IH) (use Cons.prems g j Cons in auto)
    ultimately show ?thesis unfolding j g by (simp del: parse_value.simps)
  qed
qed simp

definition member_text :: "string \<times> jsval \<Rightarrow> string" where
  "member_text kv = json_quote (fst kv) @ CHR '':'' # json_text (snd kv)"

lemma append_fresh: "k \<notin> set (map fst ob) \<Longrightarrow> AList.update k v ob = ob @ [(k, v)]"
  by (induction ob) auto

lemma parse_members_printed:
  "ob \<noteq> [] \<Longrightarrow> list_all (parses \<circ> snd) ob \<Longrightarrow> distinct (map fst (acc @ ob)) \<Longrightarrow>
   2 * length (join_text '','' (map member_text ob) @ CHR ''}'' # s) + 1 < f \<Longrightarrow>
   parse_members f acc (join_text '','' (map member_text ob) @ CHR ''}'' # s) = Some (JObj (acc @ ob), s)"
proof (induction ob arbitrary: f acc)
  case (Cons kv ob)
  obtain g where g: "f = Suc g" using Cons.prems(4) by (cases f) auto
  obtain k v where kv: "kv = (k, v)" by (cases kv)
  have u: "AList.update k v acc = acc @ [(k, v)]"
    by (rule append_fresh) (use Cons.prems(3) kv in auto)
  have q: "read_string [] (concat (map json_char k) @ CHR 0x22 # t) = Some (k, t)" for t
    using read_string_chars [of "[]" k t] by simp
  show ?case
  proof (cases ob)
    case Nil
    have "parse_value g (json_text v @ CHR ''}'' # s) = Some (v, CHR ''}'' # s)"
      by (rule parses_apply) (use Cons.prems g kv Nil in \<open>auto simp: member_text_def\<close>)
    then show ?thesis
      by (simp add: g kv Nil member_text_def json_quote_append q u del: parse_value.simps)
  next
    case (Cons w ws)
    let ?t = "join_text '','' (map member_text ob) @ CHR ''}'' # s"
    have j: "join_text '','' (map member_text (kv # ob)) @ CHR ''}'' # s =
        CHR 0x22 # concat (map json_char k) @ CHR 0x22 # CHR '':'' # json_text v @ CHR '','' # ?t"
      by (simp add: Cons kv member_text_def json_quote_append)
    have "parse_value g (json_text v @ CHR '','' # ?t) = Some (v, CHR '','' # ?t)"
      by (rule parses_apply) (use Cons.prems g j kv in auto)
    moreover have "parse_members g (acc @ [(k, v)]) ?t = Some (JObj ((acc @ [(k, v)]) @ ob), s)"
      by (rule Cons.IH) (use Cons.prems g j kv Cons in auto)
    ultimately show ?thesis unfolding j g by (simp add: q u kv del: parse_value.simps)
  qed
qed simp

lemma join_text_hd: "ts \<noteq> [] \<Longrightarrow> hd ts \<noteq> [] \<Longrightarrow> \<exists>cs. join_text sep ts = hd (hd ts) # cs"
  by (cases ts; cases "tl ts"; cases "hd ts") auto

lemma skip_ws_join:
  assumes "ts \<noteq> []" "hd ts = c # cs" "\<not> json_space c"
  obtains rest where "skip_ws (join_text sep ts @ s) = c # rest" "join_text sep ts @ s = c # rest"
proof -
  obtain ds where "join_text sep ts = c # ds" using join_text_hd [of ts sep] assms by auto
  then show thesis using that [of "ds @ s"] skip_ws_hd [of "c # ds @ s"] assms(3) by simp
qed

lemma parses_array:
  assumes "list_all printable vs" "list_all parses vs" shows "parses (JArr vs)"
  unfolding parses_def
proof (intro allI impI)
  fix s f assume f: "2 * length (json_text (JArr vs) @ s) < f"
  obtain g where g: "f = Suc g" using f by (cases f) auto
  show "parse_value f (json_text (JArr vs) @ s) = Some (JArr vs, s)"
  proof (cases vs)
    case Nil
    then show ?thesis by (simp add: g Let_def)
  next
    case (Cons v ws)
    obtain c cs where c: "json_text v = c # cs" "\<not> json_space c" "c \<noteq> CHR '']''"
      using json_text_start [of v] assms(1) Cons by auto
    obtain rest where r: "skip_ws (join_text '','' (map json_text vs) @ CHR '']'' # s) = c # rest"
        "join_text '','' (map json_text vs) @ CHR '']'' # s = c # rest"
      by (rule skip_ws_join [of "map json_text vs" c cs "'',''" "CHR '']'' # s"]) (use Cons c in auto)
    have "parse_elems g [] (join_text '','' (map json_text vs) @ CHR '']'' # s) = Some (JArr ([] @ vs), s)"
      by (rule parse_elems_printed) (use Cons assms(2) f g in auto)
    then show ?thesis using r c(3) by (simp add: g Let_def)
  qed
qed

lemma json_text_object:
  "list_all (\<lambda>(k, v). printable v) ob \<Longrightarrow>
   json_text (JObj ob) = CHR ''{'' # join_text '','' (map member_text ob) @ ''}''"
proof -
  assume p: "list_all (\<lambda>(k, v). printable v) ob"
  then have "filter (\<lambda>(k, v). v \<noteq> Undef) ob = ob"
    by (induction ob) auto
  then show ?thesis by (simp add: member_text_def case_prod_beta cong: map_cong)
qed

lemma parses_object:
  assumes "printable (JObj ob)" "list_all (parses \<circ> snd) ob" shows "parses (JObj ob)"
  unfolding parses_def
proof (intro allI impI)
  fix s f assume f: "2 * length (json_text (JObj ob) @ s) < f"
  obtain g where g: "f = Suc g" using f by (cases f) auto
  have t: "json_text (JObj ob) @ s = CHR ''{'' # join_text '','' (map member_text ob) @ CHR ''}'' # s"
    using json_text_object [of ob] assms(1) by simp
  show "parse_value f (json_text (JObj ob) @ s) = Some (JObj ob, s)"
  proof (cases ob)
    case Nil
    then show ?thesis unfolding t by (simp add: g Let_def)
  next
    case (Cons kv ws)
    have c: "member_text kv = CHR 0x22 # tl (member_text kv)" by (simp add: member_text_def json_quote_def)
    obtain rest where r: "skip_ws (join_text '','' (map member_text ob) @ CHR ''}'' # s) = CHR 0x22 # rest"
        "join_text '','' (map member_text ob) @ CHR ''}'' # s = CHR 0x22 # rest"
      by (rule skip_ws_join [of "map member_text ob" "CHR 0x22" "tl (member_text kv)" "'',''" "CHR ''}'' # s"])
         (use Cons c in \<open>auto simp: json_space_def\<close>)
    have "parse_members g [] (join_text '','' (map member_text ob) @ CHR ''}'' # s) = Some (JObj ([] @ ob), s)"
      by (rule parse_members_printed) (use Cons assms f g t in auto)
    then show ?thesis using r unfolding t by (simp add: g Let_def)
  qed
qed

lemma parses_literal: "parses JNull" "parses (JBool b)"
proof -
  have "parse_value (Suc g) (json_text v @ s) = Some (v, s)" if "v = JNull \<or> v = JBool b" for v g s
    using that by (cases b) (auto simp: Let_def skip_ws_def json_space_def)
  then show "parses JNull" "parses (JBool b)"
    unfolding parses_def by (metis gr0_conv_Suc gr_implies_not0 not_gr_zero)+
qed

lemma parses_string: "parses (JStr t)"
  unfolding parses_def
proof (intro allI impI)
  fix s f assume "2 * length (json_text (JStr t) @ s) < f"
  then obtain g where "f = Suc g" by (cases f) auto
  then show "parse_value f (json_text (JStr t) @ s) = Some (JStr t, s)"
    using read_string_chars [of "[]" t s] by (simp add: json_quote_append Let_def del: json_text.simps add: json_text.simps(5))
qed

lemma parses_number: "decimal_number r \<Longrightarrow> parses (JNum (Fin r))"
  unfolding parses_def
proof (intro allI impI)
  fix s f assume "decimal_number r" "delimited s" "2 * length (json_text (JNum (Fin r)) @ s) < f"
  moreover then obtain g where "f = Suc g" by (cases f) auto
  ultimately show "parse_value f (json_text (JNum (Fin r)) @ s) = Some (JNum (Fin r), s)"
    using parse_number by (simp del: parse_value.simps)
qed

lemma printable_parses: "printable v \<Longrightarrow> parses v"
proof (induction v)
  case (JNum n)
  then show ?case using parses_number by (cases n) auto
next
  case (JArr vs)
  then show ?case by (intro parses_array) (auto simp: list_all_iff)
next
  case (JObj ob)
  then show ?case by (intro parses_object) (force simp: list_all_iff)+
qed (simp_all add: parses_literal parses_string)

lemma json_text_parses: "printable v \<Longrightarrow> json_parse (json_text v) = Some v"
  using printable_parses [of v] parses_apply [of v "[]" "2 * length (json_text v) + 1"]
  by (simp add: json_parse_def skip_ws_def del: parse_value.simps)

section \<open>Lines without a line feed\<close>

definition one_line :: "string \<Rightarrow> bool" where
  "one_line s \<longleftrightarrow> CHR 0x0A \<notin> set s"

lemma one_line_append [simp]: "one_line (a @ b) \<longleftrightarrow> one_line a \<and> one_line b"
  by (simp add: one_line_def)

lemma one_line_Cons [simp]: "one_line (c # b) \<longleftrightarrow> c \<noteq> CHR 0x0A \<and> one_line b"
  by (auto simp: one_line_def)

lemma one_line_Nil [simp]: "one_line []"
  by (simp add: one_line_def)

lemma digit_not_newline: "n < 10 \<Longrightarrow> char_of (48 + n) \<noteq> CHR 0x0A" for n :: nat
proof -
  have "\<forall>m \<in> set [0..<10]. char_of (48 + m :: nat) \<noteq> CHR 0x0A" by code_simp
  then show "n < 10 \<Longrightarrow> ?thesis" by simp
qed

lemma one_line_show_nat: "one_line (show_nat n)"
proof (induction n rule: show_nat.induct)
  case (1 n)
  then show ?case by (subst show_nat.simps) (simp add: digit_not_newline)
qed

lemma one_line_fraction: "0 \<le> r \<Longrightarrow> r < 1 \<Longrightarrow> one_line (fraction_digits n r)"
proof (induction n arbitrary: r)
  case (Suc n)
  have "nat \<lfloor>r * 10\<rfloor> < 10" using Suc.prems by (simp add: floor_less_iff nat_less_iff)
  moreover have "0 \<le> r * 10 - of_int \<lfloor>r * 10\<rfloor>" "r * 10 - of_int \<lfloor>r * 10\<rfloor> < 1"
    by (simp_all add: algebra_simps) linarith
  ultimately show ?case using Suc.IH digit_not_newline [of "nat \<lfloor>r * 10\<rfloor>"] by (simp add: Let_def)
qed simp

lemma one_line_number: "one_line (number_text r)"
proof -
  have "0 \<le> \<bar>r\<bar> - of_int \<lfloor>\<bar>r\<bar>\<rfloor>" "\<bar>r\<bar> - of_int \<lfloor>\<bar>r\<bar>\<rfloor> < 1" by simp_all linarith
  then show ?thesis by (simp add: number_text_def Let_def one_line_show_nat one_line_fraction)
qed

lemma one_line_join: "one_line sep \<Longrightarrow> list_all one_line ts \<Longrightarrow> one_line (join_text sep ts)"
  by (induction sep ts rule: join_text.induct) simp_all

lemma one_line_quote: "one_line (json_quote s)"
proof -
  have "of_char c < (32 :: nat) \<Longrightarrow> of_char c div 16 < (16 :: nat)" for c by simp
  then have c: "one_line (json_char c)" for c
    using hex_digit_plain [of "of_char c div 16"] hex_digit_plain [of "of_char c mod 16"]
    by (auto simp: json_char_def one_line_def)
  have "one_line (concat (map json_char s))" by (induction s) (simp_all add: c)
  then show ?thesis by (simp add: json_quote_def)
qed

lemma json_text_one_line: "one_line (json_text v)"
proof (induction v rule: json_text.induct)
  case (4 n)
  then show ?case by (cases n) (simp_all add: one_line_number)
next
  case (6 vs)
  then show ?case by (simp add: one_line_join list_all_iff)
next
  case (7 ob)
  then show ?case by (auto intro!: one_line_join simp: list_all_iff one_line_quote)
qed (simp_all add: one_line_quote)

lemma split_one_line: "one_line s \<Longrightarrow> split_on (CHR 0x0A) s = [s]"
  by (induction s) simp_all

lemma split_line: "one_line s \<Longrightarrow> split_on (CHR 0x0A) (s @ CHR 0x0A # t) = s # split_on (CHR 0x0A) t"
  by (induction s) simp_all

lemma split_lines_join:
  "ls \<noteq> [] \<Longrightarrow> list_all one_line ls \<Longrightarrow>
   split_on (CHR 0x0A) (join_text [CHR 0x0A] ls @ [CHR 0x0A]) = ls @ [[]]"
  by (induction "[CHR 0x0A]" ls rule: join_text.induct) (simp_all add: split_line)

end
