(* ===== verification/Metric_Store.thy ===== *)
theory Metric_Store
  imports Projection Env_Refs Json_Text
begin

text \<open>
  \<open>PrometheusMetricStore\<close> of \<open>coordinator/src/adapters/compatibility.ts\<close>: the definitions and series kept
  in memory, \<open>observe\<close> with its errors, and the exposition text of \<open>render\<close>. The locale
  \<open>observed_store\<close> states what a client sees of one observation and derives what a series holds after
  any history; it is interpreted on the code's store. \<open>localeCompare\<close> is a sort key, a parameter.
\<close>

section \<open>Texts of labels\<close>

type_synonym labels = "(string \<times> string) list"

definition stableLabels :: "(string \<Rightarrow> string) \<Rightarrow> labels \<Rightarrow> string" where
  "stableLabels collate labels =
     ''['' @ join_text '','' (map (\<lambda>(k, v). ''['' @ json_quote k @ '','' @ json_quote v @ '']'')
                            (sortedEntries collate labels)) @ '']''"

definition escape_char :: "char \<Rightarrow> string" where
  "escape_char c =
     (if c = CHR 0x5C then [CHR 0x5C, CHR 0x5C]
      else if c = CHR 0x22 then [CHR 0x5C, CHR 0x22]
      else if c = CHR 0x0A then [CHR 0x5C, CHR ''n'']
      else [c])"

text \<open>
  The three \<open>replaceAll\<close> of \<open>escapeLabel\<close>, one after the other.
\<close>

definition replace_char :: "char \<Rightarrow> string \<Rightarrow> string \<Rightarrow> string" where
  "replace_char c t s = concat (map (\<lambda>x. if x = c then t else [x]) s)"

definition escapeLabel :: "string \<Rightarrow> string" where
  "escapeLabel s =
     replace_char (CHR 0x0A) [CHR 0x5C, CHR ''n'']
       (replace_char (CHR 0x22) [CHR 0x5C, CHR 0x22]
         (replace_char (CHR 0x5C) [CHR 0x5C, CHR 0x5C] s))"

definition renderLabels :: "(string \<Rightarrow> string) \<Rightarrow> labels \<Rightarrow> string" where
  "renderLabels collate labels =
     (let entries = sortedEntries collate labels
      in if entries = [] then []
         else ''{'' @ join_text '',''
                (map (\<lambda>(k, v). k @ ''='' @ [CHR 0x22] @ escapeLabel v @ [CHR 0x22]) entries) @ ''}'')"

section \<open>The store\<close>

datatype stored_metric =
    Scalar metric_point rat
  | Histogram_Data metric_point "nat list" nat rat

record metric_store =
  ms_values :: "(string \<times> stored_metric) list"
  ms_definitions :: "(string \<times> metric_type) list"

definition empty_store :: metric_store where
  "empty_store = \<lparr>ms_values = [], ms_definitions = []\<rparr>"

fun type_name :: "metric_type \<Rightarrow> string" where
  "type_name Counter = ''counter''"
| "type_name Gauge = ''gauge''"
| "type_name (Histogram bs) = ''histogram''"

fun buckets_of :: "metric_type \<Rightarrow> rat list" where
  "buckets_of (Histogram bs) = bs"
| "buckets_of _ = []"

fun is_histogram :: "metric_type \<Rightarrow> bool" where
  "is_histogram (Histogram bs) = True"
| "is_histogram _ = False"

definition sameBuckets :: "rat list \<Rightarrow> rat list \<Rightarrow> bool" where
  "sameBuckets left right \<longleftrightarrow>
     length left = length right \<and> list_all (\<lambda>(a, b). a = b) (zip left right)"

definition metric_key :: "(string \<Rightarrow> string) \<Rightarrow> metric_point \<Rightarrow> string" where
  "metric_key collate p = mp_name p @ ''|'' @ stableLabels collate (mp_labels p)"

definition bump_buckets :: "rat list \<Rightarrow> rat \<Rightarrow> nat list \<Rightarrow> nat list" where
  "bump_buckets bounds v counts = map2 (\<lambda>b n. if v \<le> b then n + 1 else n) bounds counts"

definition observeHistogram :: "metric_point \<Rightarrow> nat list \<Rightarrow> nat \<Rightarrow> rat \<Rightarrow> rat \<Rightarrow> stored_metric" where
  "observeHistogram p counts n sum_v v =
     Histogram_Data p (bump_buckets (buckets_of (mp_type p)) v counts) (n + 1) (sum_v + v)"

definition changed_type :: "metric_point \<Rightarrow> issue" where
  "changed_type p = ''Prometheus metric '' @ [CHR 0x27] @ mp_name p @ [CHR 0x27] @ '' changed type''"

definition changed_buckets :: "metric_point \<Rightarrow> issue" where
  "changed_buckets p =
     ''Prometheus histogram '' @ [CHR 0x27] @ mp_name p @ [CHR 0x27] @ '' changed buckets''"

text \<open>The guard against the definition of the name.\<close>

definition definition_issue :: "metric_point \<Rightarrow> metric_type option \<Rightarrow> issue option" where
  "definition_issue p d =
     (case d of
        None \<Rightarrow> None
      | Some t \<Rightarrow>
          if type_name t \<noteq> type_name (mp_type p) then Some (changed_type p)
          else if is_histogram (mp_type p) \<and> \<not> sameBuckets (buckets_of t) (buckets_of (mp_type p))
          then Some (changed_buckets p)
          else None)"

definition define_metric :: "metric_point \<Rightarrow> metric_store \<Rightarrow> metric_store" where
  "define_metric p S =
     (if map_of (ms_definitions S) (mp_name p) = None
      then S\<lparr>ms_definitions := AList.update (mp_name p) (mp_type p) (ms_definitions S)\<rparr> else S)"

definition first_metric :: "metric_point \<Rightarrow> stored_metric" where
  "first_metric p =
     (if is_histogram (mp_type p)
      then observeHistogram p (map (\<lambda>_. 0) (buckets_of (mp_type p))) 0 0 (mp_value p)
      else Scalar p (mp_value p))"

fun next_metric :: "stored_metric \<Rightarrow> metric_point \<Rightarrow> issue + stored_metric" where
  "next_metric (Histogram_Data q counts n sum_v) p =
     (if \<not> is_histogram (mp_type p) then Inl (changed_type p)
      else Inr (observeHistogram q counts n sum_v (mp_value p)))"
| "next_metric (Scalar q v) p =
     (if is_histogram (mp_type p) then Inl (changed_type p)
      else Inr (Scalar q (if mp_type p = Counter then v + mp_value p else mp_value p)))"

definition observe_metric ::
    "(string \<Rightarrow> string) \<Rightarrow> metric_point \<Rightarrow> metric_store \<Rightarrow> issue option \<times> metric_store" where
  "observe_metric collate p S =
     (case definition_issue p (map_of (ms_definitions S) (mp_name p)) of
        Some e \<Rightarrow> (Some e, S)
      | None \<Rightarrow>
          (let S' = define_metric p S; key = metric_key collate p
           in case map_of (ms_values S') key of
                None \<Rightarrow> (None, S'\<lparr>ms_values := AList.update key (first_metric p) (ms_values S')\<rparr>)
              | Some m \<Rightarrow>
                  (case next_metric m p of
                     Inl e \<Rightarrow> (Some e, S')
                   | Inr m' \<Rightarrow> (None, S'\<lparr>ms_values := AList.update key m' (ms_values S')\<rparr>))))"

section \<open>Exposition\<close>

definition metric_point_of :: "stored_metric \<Rightarrow> metric_point" where
  "metric_point_of m = (case m of Scalar p _ \<Rightarrow> p | Histogram_Data p _ _ _ \<Rightarrow> p)"

text \<open>\<open>{ ...labels, le }\<close>\<close>

definition with_bound :: "labels \<Rightarrow> string \<Rightarrow> labels" where
  "with_bound labels b = AList.update ''le'' b labels"

definition metric_line :: "(string \<Rightarrow> string) \<Rightarrow> string \<Rightarrow> labels \<Rightarrow> string \<Rightarrow> string" where
  "metric_line collate name labels v = name @ renderLabels collate labels @ '' '' @ v"

fun metric_lines :: "(string \<Rightarrow> string) \<Rightarrow> stored_metric \<Rightarrow> string list" where
  "metric_lines collate (Scalar p v) =
     [metric_line collate (mp_name p) (mp_labels p) (number_text v)]"
| "metric_lines collate (Histogram_Data p counts n sum_v) =
     map2 (\<lambda>b c. metric_line collate (mp_name p @ ''_bucket'') (with_bound (mp_labels p) (number_text b)) (show_nat c))
       (buckets_of (mp_type p)) counts @
     [metric_line collate (mp_name p @ ''_bucket'') (with_bound (mp_labels p) ''+Inf'') (show_nat n),
      metric_line collate (mp_name p @ ''_sum'') (mp_labels p) (number_text sum_v),
      metric_line collate (mp_name p @ ''_count'') (mp_labels p) (show_nat n)]"

text \<open>The sort by name and then by the text of the labels.\<close>

definition sorted_metrics :: "(string \<Rightarrow> string) \<Rightarrow> stored_metric list \<Rightarrow> stored_metric list" where
  "sorted_metrics collate ms =
     sort_key (\<lambda>m. collate (mp_name (metric_point_of m)))
       (sort_key (\<lambda>m. collate (stableLabels collate (mp_labels (metric_point_of m)))) ms)"

type_synonym metric_groups = "(string \<times> metric_type \<times> string list) list"

definition add_group :: "(string \<Rightarrow> string) \<Rightarrow> stored_metric \<Rightarrow> metric_groups \<Rightarrow> metric_groups" where
  "add_group collate m groups =
     (let p = metric_point_of m;
          g = (case map_of groups (mp_name p) of None \<Rightarrow> (mp_type p, []) | Some g \<Rightarrow> g)
      in AList.update (mp_name p) (fst g, snd g @ metric_lines collate m) groups)"

definition metric_groups_of :: "(string \<Rightarrow> string) \<Rightarrow> metric_store \<Rightarrow> metric_groups" where
  "metric_groups_of collate S =
     fold (add_group collate) (sorted_metrics collate (map snd (ms_values S))) []"

definition render_lines :: "(string \<Rightarrow> string) \<Rightarrow> metric_store \<Rightarrow> string list" where
  "render_lines collate S =
     concat (map (\<lambda>(name, t, ls). (''# TYPE '' @ name @ '' '' @ type_name t) # ls) (metric_groups_of collate S))"

definition render_metrics :: "(string \<Rightarrow> string) \<Rightarrow> metric_store \<Rightarrow> string" where
  "render_metrics collate S = join_text [CHR 0x0A] (render_lines collate S) @ [CHR 0x0A]"

end
