(* ===== verification/Metric_Facts.thy ===== *)
theory Metric_Facts
  imports Metric_Store
begin

text \<open>
  What the metric store holds after any history of observations. The key of a series determines its
  name, although both are joined to one text; so a series never meets a point of another type, the two
  inner errors of \<open>observe\<close> are unreachable, and every series is the sum, the last value or the
  histogram of the points that were accepted for it.
\<close>

section \<open>The key determines the name\<close>

text \<open>A reader of the labels' text that follows quotes and escapes.\<close>

datatype reading = Outside | Inside | Escaped

fun read_step :: "reading \<Rightarrow> char \<Rightarrow> reading option" where
  "read_step Outside c =
     (if c = CHR 0x5C \<or> c = CHR ''|'' then None else if c = CHR 0x22 then Some Inside else Some Outside)"
| "read_step Inside c =
     (if c = CHR 0x5C then Some Escaped else if c = CHR 0x22 then Some Outside else Some Inside)"
| "read_step Escaped c = Some Inside"

primrec read_all :: "reading \<Rightarrow> string \<Rightarrow> reading option" where
  "read_all st [] = Some st"
| "read_all st (c # cs) = Option.bind (read_step st c) (\<lambda>st'. read_all st' cs)"

lemma read_all_append: "read_all st (u @ v) = Option.bind (read_all st u) (\<lambda>st'. read_all st' v)"
  by (induction u arbitrary: st) (auto split: bind_splits)

lemma scan_json_char: "read_all Inside (json_char c) = Some Inside"
proof -
  have "hex_digit (of_char c mod 16) \<noteq> CHR 0x22" "hex_digit (of_char c mod 16) \<noteq> CHR 0x5C"
    using hex_digit_plain [of "of_char c mod 16"] by simp_all
  moreover have "hex_digit (of_char c div 16) \<noteq> CHR 0x22" "hex_digit (of_char c div 16) \<noteq> CHR 0x5C"
    if "of_char c < (32 :: nat)" using hex_digit_plain [of "of_char c div 16"] that by simp_all
  ultimately show ?thesis by (simp add: json_char_def)
qed

lemma scan_json_chars: "read_all Inside (concat (map json_char s)) = Some Inside"
  by (induction s) (simp_all add: read_all_append scan_json_char)

lemma read_json_quote: "read_all Outside (json_quote s) = Some Outside"
  by (simp add: json_quote_def read_all_append scan_json_chars)

lemma read_join:
  "list_all (\<lambda>t. read_all Outside t = Some Outside) ts \<Longrightarrow>
   read_all Outside (join_text '','' ts) = Some Outside"
  by (induction "'',''" ts rule: join_text.induct) (simp_all add: read_all_append)

lemma read_stableLabels: "read_all Outside (stableLabels collate labels) = Some Outside"
proof -
  have "list_all (\<lambda>t. read_all Outside t = Some Outside)
      (map (\<lambda>(k, v). ''['' @ json_quote k @ '','' @ json_quote v @ '']'') es)" for es :: labels
    by (induction es) (auto simp: read_all_append read_json_quote)
  then show ?thesis by (simp add: stableLabels_def read_all_append read_join)
qed

lemma read_twice:
  "read_all Outside s = Some a \<Longrightarrow> read_all Inside s = Some b \<Longrightarrow>
   (a = Outside \<and> b = Inside) \<or> (a = Inside \<and> b = Outside)"
  by (induction s arbitrary: a b) (auto split: if_splits)

lemma bar_inside:
  assumes "read_all Outside (u @ CHR ''|'' # v) = Some Outside"
  shows "read_all Outside v \<noteq> Some Outside"
proof -
  obtain st where u: "read_all Outside u = Some st" and
      v: "Option.bind (read_step st (CHR ''|'')) (\<lambda>st'. read_all st' v) = Some Outside"
    using assms by (auto simp: read_all_append bind_eq_Some_conv)
  then have "read_all Inside v = Some Outside" by (cases st) auto
  then show ?thesis using read_twice by fastforce
qed

lemma bar_split:
  assumes "n @ CHR ''|'' # j = n' @ CHR ''|'' # j'"
    and "read_all Outside j = Some Outside" "read_all Outside j' = Some Outside"
  shows "n = n'"
proof -
  consider us where "n = n' @ us" "us @ CHR ''|'' # j = CHR ''|'' # j'"
    | us where "n' = n @ us" "us @ CHR ''|'' # j' = CHR ''|'' # j"
    using assms(1) by (auto simp: append_eq_append_conv2)
  then show ?thesis
  proof cases
    case 1
    then show ?thesis using bar_inside assms by (cases us) auto
  next
    case 2
    then show ?thesis using bar_inside assms by (cases us) auto
  qed
qed

lemma metric_key_name: "metric_key collate p = metric_key collate q \<Longrightarrow> mp_name p = mp_name q"
  unfolding metric_key_def using bar_split read_stableLabels by fastforce

section \<open>Any store that is observed\<close>

text \<open>
  The interface: \<open>obs\<close> records a point, \<open>val\<close> reads a series, \<open>def_of\<close> the definition of a name. A point
  is accepted exactly when the definition of its name, if there is one, is the point's own.
\<close>

locale observed_store =
  fixes obs :: "'p \<Rightarrow> 's \<Rightarrow> 'e option \<times> 's"
    and val :: "'s \<Rightarrow> 'k \<Rightarrow> 'v option"
    and def_of :: "'s \<Rightarrow> 'n \<Rightarrow> 't option"
    and key_of :: "'p \<Rightarrow> 'k" and name_of :: "'p \<Rightarrow> 'n" and kind_of :: "'p \<Rightarrow> 't"
    and start :: "'p \<Rightarrow> 'v" and advance :: "'v \<Rightarrow> 'p \<Rightarrow> 'v"
    and invar :: "'s \<Rightarrow> bool" and start_store :: 's
  assumes empty_val: "val start_store k = None"
    and empty_def: "def_of start_store n = None"
    and empty_invar: "invar start_store"
    and keeps: "invar s \<Longrightarrow> invar (snd (obs p s))"
    and accepts: "invar s \<Longrightarrow>
      fst (obs p s) = None \<longleftrightarrow> (def_of s (name_of p) = None \<or> def_of s (name_of p) = Some (kind_of p))"
    and rejects: "invar s \<Longrightarrow> fst (obs p s) \<noteq> None \<Longrightarrow> snd (obs p s) = s"
    and fixes_kind: "invar s \<Longrightarrow> fst (obs p s) = None \<Longrightarrow>
      def_of (snd (obs p s)) n = (if n = name_of p then Some (kind_of p) else def_of s n)"
    and records: "invar s \<Longrightarrow> fst (obs p s) = None \<Longrightarrow>
      val (snd (obs p s)) k =
        (if k = key_of p then Some (case val s k of None \<Rightarrow> start p | Some v \<Rightarrow> advance v p) else val s k)"
begin

definition after :: "'p list \<Rightarrow> 's" where
  "after ps = fold (\<lambda>p s. snd (obs p s)) ps start_store"

text \<open>The points that fit the first point of their name.\<close>

definition accepted :: "'p list \<Rightarrow> 'p list" where
  "accepted ps =
     filter (\<lambda>p. map_option kind_of (find (\<lambda>q. name_of q = name_of p) ps) = Some (kind_of p)) ps"

definition series :: "'k \<Rightarrow> 'p list \<Rightarrow> 'v option" where
  "series k ps =
     (case filter (\<lambda>p. key_of p = k) ps of [] \<Rightarrow> None | p # qs \<Rightarrow> Some (foldl advance (start p) qs))"

lemma after_Nil: "after [] = start_store"
  by (simp add: after_def)

lemma after_snoc: "after (ps @ [p]) = snd (obs p (after ps))"
  by (simp add: after_def)

lemma invar_after: "invar (after ps)"
  by (induction ps rule: rev_induct) (simp_all add: after_Nil after_snoc empty_invar keeps)

lemma find_snoc:
  "find P (xs @ [x]) = (case find P xs of None \<Rightarrow> if P x then Some x else None | Some y \<Rightarrow> Some y)"
  by (induction xs) auto

lemma def_after: "def_of (after ps) n = map_option kind_of (find (\<lambda>q. name_of q = n) ps)"
proof (induction ps arbitrary: n rule: rev_induct)
  case Nil
  then show ?case by (simp add: after_Nil empty_def)
next
  case (snoc p ps)
  show ?case
  proof (cases "fst (obs p (after ps))")
    case None
    then have "def_of (after ps) (name_of p) = None \<or> def_of (after ps) (name_of p) = Some (kind_of p)"
      using accepts invar_after by blast
    then show ?thesis using None snoc.IH [of n]
      by (auto simp: after_snoc fixes_kind [OF invar_after] find_snoc split: option.splits)
  next
    case (Some e)
    then have "def_of (after ps) (name_of p) \<noteq> None" using accepts [OF invar_after, of p ps] by auto
    then show ?thesis using Some snoc.IH [of n] snoc.IH [of "name_of p"]
      by (auto simp: after_snoc rejects [OF invar_after] find_snoc split: option.splits)
  qed
qed

lemma accepted_iff: "fst (obs p (after ps)) = None \<longleftrightarrow>
  map_option kind_of (find (\<lambda>q. name_of q = name_of p) (ps @ [p])) = Some (kind_of p)"
  by (auto simp: accepts [OF invar_after] def_after find_snoc split: option.splits)

lemma accepted_snoc:
  "accepted (ps @ [p]) = accepted ps @ (if fst (obs p (after ps)) = None then [p] else [])"
proof -
  have "find (\<lambda>q. name_of q = name_of x) (ps @ [p]) = find (\<lambda>q. name_of q = name_of x) ps" if "x \<in> set ps" for x
    using that by (auto simp: find_snoc find_None_iff split: option.splits)
  then show ?thesis by (auto simp: accepted_def accepted_iff cong: filter_cong)
qed

lemma series_snoc:
  "series k (ps @ [p]) =
     (if k = key_of p then Some (case series k ps of None \<Rightarrow> start p | Some v \<Rightarrow> advance v p) else series k ps)"
  by (auto simp: series_def split: list.splits)

theorem val_after: "val (after ps) k = series k (accepted ps)"
proof (induction ps rule: rev_induct)
  case Nil
  then show ?case by (simp add: after_Nil empty_val series_def accepted_def)
next
  case (snoc p ps)
  then show ?case
    by (cases "fst (obs p (after ps)) = None"; cases "k = key_of p")
       (auto simp: after_snoc accepted_snoc series_snoc records [OF invar_after] rejects [OF invar_after])
qed

end

section \<open>The code's store\<close>

fun metric_ok :: "stored_metric \<Rightarrow> bool" where
  "metric_ok (Scalar p v) \<longleftrightarrow> \<not> is_histogram (mp_type p)"
| "metric_ok (Histogram_Data p counts n s) \<longleftrightarrow>
     is_histogram (mp_type p) \<and> length counts = length (buckets_of (mp_type p))"

text \<open>Every series is kept under its key and has the type its name is defined with.\<close>

definition store_ok :: "(string \<Rightarrow> string) \<Rightarrow> metric_store \<Rightarrow> bool" where
  "store_ok collate S \<longleftrightarrow>
     (\<forall>k m. map_of (ms_values S) k = Some m \<longrightarrow>
        metric_ok m \<and> k = metric_key collate (metric_point_of m) \<and>
        map_of (ms_definitions S) (mp_name (metric_point_of m)) = Some (mp_type (metric_point_of m)))"

lemma sameBuckets_eq: "sameBuckets a b \<longleftrightarrow> a = b"
  by (auto simp: sameBuckets_def list_eq_iff_zip_eq list_all_iff)

lemma definition_issue_None: "definition_issue p d = None \<longleftrightarrow> d = None \<or> d = Some (mp_type p)"
proof (cases d)
  case (Some t)
  then show ?thesis
    by (cases t; cases "mp_type p") (simp_all add: definition_issue_def sameBuckets_eq)
qed (simp add: definition_issue_def)

lemma define_metric_simps:
  "definition_issue p (map_of (ms_definitions S) (mp_name p)) = None \<Longrightarrow>
   map_of (ms_definitions (define_metric p S)) n =
     (if n = mp_name p then Some (mp_type p) else map_of (ms_definitions S) n)"
  "ms_values (define_metric p S) = ms_values S"
  by (auto simp: define_metric_def update_conv definition_issue_None)

lemma define_metric_keeps:
  "map_of (ms_definitions S) n = Some t \<Longrightarrow> map_of (ms_definitions (define_metric p S)) n = Some t"
  by (auto simp: define_metric_def update_conv)

lemma metric_ok_first: "metric_ok (first_metric p)"
  by (simp add: first_metric_def observeHistogram_def bump_buckets_def)

lemma point_of_first: "metric_point_of (first_metric p) = p"
  by (simp add: first_metric_def metric_point_of_def observeHistogram_def)

lemma next_metric_ok:
  assumes "metric_ok m" "mp_type (metric_point_of m) = mp_type p"
  obtains m' where "next_metric m p = Inr m'" "metric_ok m'" "metric_point_of m' = metric_point_of m"
  using assms
  by (cases m) (auto simp: metric_point_of_def observeHistogram_def bump_buckets_def)

text \<open>An accepted point meets a series of its own type.\<close>

lemma observe_accepted:
  assumes ok: "store_ok collate S"
    and d: "definition_issue p (map_of (ms_definitions S) (mp_name p)) = None"
  shows "observe_metric collate p S =
    (None, (define_metric p S)\<lparr>ms_values := AList.update (metric_key collate p)
       (case map_of (ms_values S) (metric_key collate p) of
          None \<Rightarrow> first_metric p
        | Some m \<Rightarrow> (case next_metric m p of Inr m' \<Rightarrow> m' | Inl _ \<Rightarrow> m)) (ms_values S)\<rparr>)"
proof (cases "map_of (ms_values S) (metric_key collate p)")
  case None
  then show ?thesis by (simp add: observe_metric_def d define_metric_simps)
next
  case (Some m)
  then have m: "metric_ok m" "mp_name (metric_point_of m) = mp_name p"
      "map_of (ms_definitions S) (mp_name p) = Some (mp_type (metric_point_of m))"
    using ok metric_key_name [of collate p "metric_point_of m"] by (auto simp: store_ok_def)
  then have "mp_type (metric_point_of m) = mp_type p" using d by (simp add: definition_issue_None)
  then obtain m' where "next_metric m p = Inr m'" using next_metric_ok m(1) by blast
  then show ?thesis using Some by (simp add: observe_metric_def d define_metric_simps)
qed

lemma observe_error:
  "store_ok collate S \<Longrightarrow> fst (observe_metric collate p S) = definition_issue p (map_of (ms_definitions S) (mp_name p))"
  by (cases "definition_issue p (map_of (ms_definitions S) (mp_name p))")
     (simp_all add: observe_accepted, simp add: observe_metric_def)

lemma observe_rejected:
  "store_ok collate S \<Longrightarrow> fst (observe_metric collate p S) \<noteq> None \<Longrightarrow> snd (observe_metric collate p S) = S"
  by (auto simp: observe_error) (simp add: observe_metric_def)

lemma store_ok_observe:
  assumes ok: "store_ok collate S" shows "store_ok collate (snd (observe_metric collate p S))"
proof (cases "fst (observe_metric collate p S)")
  case None
  then have d: "definition_issue p (map_of (ms_definitions S) (mp_name p)) = None"
    using observe_error [OF ok] by simp
  have "metric_ok m \<and> k = metric_key collate (metric_point_of m) \<and>
      map_of (ms_definitions (define_metric p S)) (mp_name (metric_point_of m)) = Some (mp_type (metric_point_of m))"
    if m: "map_of (ms_values (snd (observe_metric collate p S))) k = Some m" for k m
  proof (cases "k = metric_key collate p")
    case False
    then have "map_of (ms_values S) k = Some m" using m by (simp add: observe_accepted [OF ok d] update_conv)
    then show ?thesis using ok define_metric_keeps by (simp add: store_ok_def)
  next
    case True
    show ?thesis
    proof (cases "map_of (ms_values S) k")
      case None
      then show ?thesis using m True d
        by (auto simp: observe_accepted [OF ok d] update_conv metric_ok_first point_of_first define_metric_simps)
    next
      case (Some q)
      then have q: "metric_ok q" "k = metric_key collate (metric_point_of q)"
          "map_of (ms_definitions S) (mp_name (metric_point_of q)) = Some (mp_type (metric_point_of q))"
        using ok by (auto simp: store_ok_def)
      have n: "mp_name (metric_point_of q) = mp_name p" using q(2) True metric_key_name by metis
      have "mp_type (metric_point_of q) = mp_type p" using q(3) n d by (simp add: definition_issue_None)
      then obtain q' where "next_metric q p = Inr q'" "metric_ok q'" "metric_point_of q' = metric_point_of q"
        using next_metric_ok q(1) by blast
      then show ?thesis using m True Some q n d
        by (auto simp: observe_accepted [OF ok d] update_conv define_metric_simps definition_issue_None)
    qed
  qed
  then show ?thesis by (auto simp: store_ok_def observe_accepted [OF ok d])
next
  case (Some e)
  then show ?thesis using observe_rejected [OF ok] ok by simp
qed

definition series_of :: "metric_store \<Rightarrow> string \<Rightarrow> stored_metric option" where
  "series_of S k = map_of (ms_values S) k"

definition definition_of :: "metric_store \<Rightarrow> string \<Rightarrow> metric_type option" where
  "definition_of S n = map_of (ms_definitions S) n"

definition advanced :: "stored_metric \<Rightarrow> metric_point \<Rightarrow> stored_metric" where
  "advanced m p = (case next_metric m p of Inr m' \<Rightarrow> m' | Inl _ \<Rightarrow> m)"

interpretation ms: observed_store "observe_metric collate" series_of definition_of "metric_key collate"
    mp_name mp_type first_metric advanced "store_ok collate" empty_store for collate
proof (unfold_locales, goal_cases)
  case 1 show ?case by (simp add: series_of_def empty_store_def)
next
  case 2 show ?case by (simp add: definition_of_def empty_store_def)
next
  case 3 show ?case by (simp add: store_ok_def empty_store_def)
next
  case (4 s p) then show ?case by (rule store_ok_observe)
next
  case (5 s p) then show ?case by (simp add: observe_error definition_issue_None definition_of_def)
next
  case (6 s p) then show ?case by (rule observe_rejected)
next
  case (7 s p n) then show ?case
    by (simp add: observe_accepted observe_error definition_of_def define_metric_simps)
next
  case (8 s p k) then show ?case
    by (simp add: observe_accepted observe_error series_of_def advanced_def update_conv define_metric_simps split: option.splits)
qed

section \<open>Every series as a summary of its points\<close>

definition summary :: "metric_point list \<Rightarrow> stored_metric" where
  "summary ps =
     (let p = hd ps; vs = map mp_value ps
      in case mp_type p of
           Counter \<Rightarrow> Scalar p (sum_list vs)
         | Gauge \<Rightarrow> Scalar p (last vs)
         | Histogram bounds \<Rightarrow>
             Histogram_Data p (map (\<lambda>b. length (filter (\<lambda>v. v \<le> b) vs)) bounds) (length vs) (sum_list vs))"

lemma map2_same: "map2 f bs (map g bs) = map (\<lambda>b. f b (g b)) bs"
  by (induction bs) auto

lemma summary_first: "first_metric p = summary [p]"
  by (cases "mp_type p")
     (simp_all add: first_metric_def summary_def observeHistogram_def bump_buckets_def map2_same)

lemma summary_next: "mp_type q = mp_type p \<Longrightarrow> advanced (summary (p # ps)) q = summary (p # ps @ [q])"
  by (cases "mp_type p")
     (simp_all add: summary_def advanced_def observeHistogram_def bump_buckets_def map2_same ac_simps)

lemma foldl_advanced:
  "list_all (\<lambda>q. mp_type q = mp_type p) qs \<Longrightarrow> foldl advanced (first_metric p) qs = summary (p # qs)"
  by (induction qs rule: rev_induct) (simp_all add: summary_first summary_next)

definition observed :: "(string \<Rightarrow> string) \<Rightarrow> metric_point list \<Rightarrow> metric_store" where
  "observed collate ps = fold (\<lambda>p S. snd (observe_metric collate p S)) ps empty_store"

text \<open>The points whose type and buckets are those of the first point of their name.\<close>

definition accepted_points :: "metric_point list \<Rightarrow> metric_point list" where
  "accepted_points ps =
     filter (\<lambda>p. map_option mp_type (find (\<lambda>q. mp_name q = mp_name p) ps) = Some (mp_type p)) ps"

lemma accepted_same_type:
  assumes "p \<in> set (accepted_points ps)" "q \<in> set (accepted_points ps)" "mp_name p = mp_name q"
  shows "mp_type p = mp_type q"
  using assms by (auto simp: accepted_points_def)

lemma observed_eq: "observed collate ps = ms.after collate ps"
  by (simp add: observed_def ms.after_def)

lemma observed_series:
  "map_of (ms_values (observed collate ps)) k =
     (case filter (\<lambda>p. metric_key collate p = k) (accepted_points ps) of
        [] \<Rightarrow> None | p # qs \<Rightarrow> Some (summary (p # qs)))"
proof -
  have "map_of (ms_values (observed collate ps)) k = ms.series collate k (accepted_points ps)"
    using ms.val_after [of collate ps k]
    by (simp add: observed_eq series_of_def accepted_points_def ms.accepted_def)
  moreover have "list_all (\<lambda>q. mp_type q = mp_type p) qs"
    if "filter (\<lambda>p. metric_key collate p = k) (accepted_points ps) = p # qs" for p qs
  proof -
    have all: "x \<in> set (accepted_points ps) \<and> metric_key collate x = k" if "x \<in> set (p # qs)" for x
      using that \<open>filter _ _ = _\<close> by (metis (mono_tags, lifting) mem_Collect_eq set_filter)
    have "mp_type x = mp_type p" if "x \<in> set qs" for x
      using accepted_same_type [of x ps p] all [of x] all [of p] that metric_key_name [of collate x p] by simp
    then show ?thesis by (simp add: list_all_iff)
  qed
  ultimately show ?thesis by (simp add: ms.series_def foldl_advanced split: list.splits)
qed

lemma observed_rejects:
  "fst (observe_metric collate p (observed collate ps)) =
     definition_issue p (map_option mp_type (find (\<lambda>q. mp_name q = mp_name p) ps))"
  using observe_error [OF ms.invar_after] ms.def_after [of collate ps "mp_name p"]
  by (simp add: observed_eq definition_of_def)

end
