(* ===== verification/Metric_Text.thy ===== *)
theory Metric_Text
  imports Metric_Facts
begin

text \<open>
  The exposition text of the metric store: label values are escaped so that they can be read back and
  never break a line, and the text has exactly one line per sample of a series and one type line per
  metric name.
\<close>

section \<open>Escaped label values\<close>

text \<open>The reader of a label value in the exposition format.\<close>

fun unescapeLabel :: "string \<Rightarrow> string" where
  "unescapeLabel [] = []"
| "unescapeLabel [c] = [c]"
| "unescapeLabel (c # d # s) =
     (if c \<noteq> CHR 0x5C then c # unescapeLabel (d # s)
      else (if d = CHR ''n'' then CHR 0x0A else d) # unescapeLabel s)"

lemma replace_char_append: "replace_char c t (u @ v) = replace_char c t u @ replace_char c t v"
  by (simp add: replace_char_def)

lemma replace_char_Cons: "replace_char c t (x # v) = (if x = c then t else [x]) @ replace_char c t v"
  by (simp add: replace_char_def)

lemma replace_char_Nil: "replace_char c t [] = []"
  by (simp add: replace_char_def)

lemma escapeLabel_chars: "escapeLabel s = concat (map escape_char s)"
proof (induction s)
  case Nil
  then show ?case by (simp add: escapeLabel_def replace_char_Nil)
next
  case (Cons c s)
  then show ?case
    by (simp add: escapeLabel_def replace_char_Cons replace_char_Nil replace_char_append escape_char_def)
qed

lemma unescape_char: "unescapeLabel (escape_char c @ s) = c # unescapeLabel s"
  by (cases s) (simp_all add: escape_char_def)

lemma unescape_escape: "unescapeLabel (escapeLabel s) = s"
  by (induction s) (simp_all add: escapeLabel_chars unescape_char)

lemma escape_no_newline: "CHR 0x0A \<notin> set (escapeLabel s)"
  by (auto simp: escapeLabel_chars escape_char_def)

section \<open>Samples without a line feed\<close>

definition plain_labels :: "labels \<Rightarrow> bool" where
  "plain_labels ls \<longleftrightarrow> list_all (one_line \<circ> fst) ls"

definition plain_point :: "metric_point \<Rightarrow> bool" where
  "plain_point p \<longleftrightarrow> one_line (mp_name p) \<and> plain_labels (mp_labels p)"

lemma one_line_labels: "plain_labels ls \<Longrightarrow> one_line (renderLabels collate ls)"
proof -
  assume "plain_labels ls"
  then have "list_all one_line (map (\<lambda>(k, v). k @ ''='' @ [CHR 0x22] @ escapeLabel v @ [CHR 0x22]) (sortedEntries collate ls))"
    using escape_no_newline by (auto simp: plain_labels_def list_all_iff sortedEntries_def one_line_def)
  then show ?thesis by (simp add: renderLabels_def one_line_join Let_def)
qed

lemma update_fst: "x \<in> set (AList.update k v xs) \<Longrightarrow> fst x = k \<or> (\<exists>y \<in> set xs. fst y = fst x)"
  by (induction xs) (auto split: if_splits)

lemma plain_with_bound: "plain_labels ls \<Longrightarrow> plain_labels (with_bound ls b)"
  unfolding plain_labels_def with_bound_def list_all_iff comp_apply
proof
  fix x assume "\<forall>y \<in> set ls. one_line (fst y)" "x \<in> set (AList.update ''le'' b ls)"
  then show "one_line (fst x)" using update_fst [of x "''le''" b ls]
    by (cases "fst x = ''le''") (simp, metis)
qed

lemma one_line_metric: "plain_point (metric_point_of m) \<Longrightarrow> list_all one_line (metric_lines collate m)"
  by (cases m)
     (auto simp: plain_point_def metric_point_of_def metric_line_def one_line_labels plain_with_bound one_line_number
       one_line_show_nat list_all_iff set_zip)

section \<open>The lines of the exposition\<close>

lemma add_group_keys:
  "distinct (map fst gs) \<Longrightarrow> distinct (map fst (add_group collate m gs))"
  by (simp add: add_group_def distinct_update Let_def)

lemma mset_update:
  "distinct (map fst gs) \<Longrightarrow> map_of gs n = Some (t, ls) \<Longrightarrow>
   mset (concat (map (snd \<circ> snd) (AList.update n (t, ls @ new) gs))) =
     mset (concat (map (snd \<circ> snd) gs)) + mset new"
  by (induction gs) (auto split: if_splits)

lemma mset_update_new:
  "map_of gs n = None \<Longrightarrow>
   mset (concat (map (snd \<circ> snd) (AList.update n (t, new) gs))) =
     mset (concat (map (snd \<circ> snd) gs)) + mset new"
  by (induction gs) (auto split: if_splits)

lemma add_group_lines:
  "distinct (map fst gs) \<Longrightarrow>
   mset (concat (map (snd \<circ> snd) (add_group collate m gs))) =
     mset (concat (map (snd \<circ> snd) gs)) + mset (metric_lines collate m)"
  by (cases "map_of gs (mp_name (metric_point_of m))")
     (auto simp: add_group_def Let_def mset_update mset_update_new)

lemma fold_groups:
  "distinct (map fst gs) \<Longrightarrow>
   distinct (map fst (fold (add_group collate) ms gs)) \<and>
   mset (concat (map (snd \<circ> snd) (fold (add_group collate) ms gs))) =
     mset (concat (map (snd \<circ> snd) gs)) + mset (concat (map (metric_lines collate) ms))"
  by (induction ms arbitrary: gs) (simp_all add: add_group_keys add_group_lines)

lemma mset_concat_cong: "mset xs = mset ys \<Longrightarrow> mset (concat (map f xs)) = mset (concat (map f ys))"
proof -
  have "mset (concat (map f zs)) = (\<Sum>z \<in># mset zs. mset (f z))" for zs by (induction zs) simp_all
  then show "mset xs = mset ys \<Longrightarrow> ?thesis" by simp
qed

lemma groups_exact:
  "distinct (map fst (metric_groups_of collate S))"
  "mset (concat (map (snd \<circ> snd) (metric_groups_of collate S))) =
     mset (concat (map (metric_lines collate \<circ> snd) (ms_values S)))"
  using fold_groups [of "[]" collate "sorted_metrics collate (map snd (ms_values S))"]
    mset_concat_cong [of "sorted_metrics collate (map snd (ms_values S))" "map snd (ms_values S)" "metric_lines collate"]
  by (simp_all add: metric_groups_of_def sorted_metrics_def)

lemma groups_names:
  assumes "\<forall>m \<in> set ms. P (mp_name (metric_point_of m))" "\<forall>g \<in> set gs. P (fst g)"
  shows "\<forall>g \<in> set (fold (add_group collate) ms gs). P (fst g)"
  using assms
proof (induction ms arbitrary: gs)
  case (Cons m ms)
  have "fst g = mp_name (metric_point_of m) \<or> (\<exists>h \<in> set gs. fst h = fst g)"
    if "g \<in> set (add_group collate m gs)" for g
    using that by (auto simp: add_group_def Let_def dest: update_fst)
  then have "\<forall>g \<in> set (add_group collate m gs). P (fst g)" using Cons.prems by (metis list.set_intros(1))
  then show ?case using Cons.IH Cons.prems by simp
qed simp

definition plain_store :: "metric_store \<Rightarrow> bool" where
  "plain_store S \<longleftrightarrow> list_all (plain_point \<circ> metric_point_of \<circ> snd) (ms_values S)"

lemma render_lines_plain:
  assumes "plain_store S" shows "list_all one_line (render_lines collate S)"
proof -
  have p: "\<forall>m \<in> snd ` set (ms_values S). plain_point (metric_point_of m)"
    using assms by (auto simp: plain_store_def list_all_iff)
  have names: "\<forall>g \<in> set (metric_groups_of collate S). one_line (fst g)"
    unfolding metric_groups_of_def
    by (rule groups_names) (use p in \<open>auto simp: sorted_metrics_def plain_point_def\<close>)
  have "set (concat (map (snd \<circ> snd) (metric_groups_of collate S))) =
      set (concat (map (metric_lines collate \<circ> snd) (ms_values S)))"
    using groups_exact(2) by (rule mset_eq_setD)
  then have lines: "one_line l" if "l \<in> set (concat (map (snd \<circ> snd) (metric_groups_of collate S)))" for l
    using that p one_line_metric by (fastforce simp: list_all_iff)
  have types: "one_line (type_name t)" for t by (cases t) simp_all
  show ?thesis using names lines types
    by (fastforce simp: render_lines_def list_all_iff)
qed

lemma render_metrics_split:
  "plain_store S \<Longrightarrow> ms_values S \<noteq> [] \<Longrightarrow>
   split_on (CHR 0x0A) (render_metrics collate S) = render_lines collate S @ [[]]"
proof -
  assume p: "plain_store S" and ne: "ms_values S \<noteq> []"
  have some: "metric_lines collate m \<noteq> []" for m by (cases m) simp_all
  obtain x xs where x: "ms_values S = x # xs" using ne by (cases "ms_values S") auto
  have "metric_groups_of collate S \<noteq> []"
    using groups_exact(2) [of collate S] some [of "snd x"] by (auto simp: x)
  then have "render_lines collate S \<noteq> []"
    by (cases "metric_groups_of collate S") (auto simp: render_lines_def split: prod.splits)
  then show ?thesis using render_lines_plain [OF p] by (simp add: render_metrics_def split_lines_join)
qed

end
