(* ===== verification/Js_Path.thy ===== *)
theory Js_Path
  imports Runtime_Shared Opencode_Environment
begin

text \<open>
  The functions of \<open>node:path\<close> (POSIX) that the sources call: \<open>isAbsolute\<close>, \<open>join\<close>, \<open>resolve\<close> with
  the working directory as an argument, and \<open>relative\<close>; with what a containment check by \<open>relative\<close>
  decides.
\<close>

section \<open>Segments\<close>

definition path_parts :: "string \<Rightarrow> string list" where
  "path_parts p = filter (\<lambda>s. s \<noteq> [] \<and> s \<noteq> ''.'') (split_on CHR ''/'' p)"

text \<open>Resolution of \<open>..\<close>; the segments kept so far are in reverse.\<close>

fun normal_parts :: "bool \<Rightarrow> string list \<Rightarrow> string list \<Rightarrow> string list" where
  "normal_parts absolute acc [] = rev acc"
| "normal_parts absolute acc (s # ss) =
     (if s \<noteq> ''..'' then normal_parts absolute (s # acc) ss
      else (case acc of
              [] \<Rightarrow> normal_parts absolute (if absolute then [] else [''..'']) ss
            | a # as \<Rightarrow> normal_parts absolute (if a = ''..'' then ''..'' # acc else as) ss))"

definition is_absolute :: "string \<Rightarrow> bool" where
  "is_absolute p \<longleftrightarrow> p \<noteq> [] \<and> hd p = CHR ''/''"

definition normalize_path :: "string \<Rightarrow> string" where
  "normalize_path p =
     (if p = [] then ''.''
      else (let body = join_text ''/'' (normal_parts (is_absolute p) [] (path_parts p));
                slash = (if last p = CHR ''/'' then ''/'' else [])
            in if body \<noteq> [] then (if is_absolute p then ''/'' else []) @ body @ slash
               else if is_absolute p then ''/'' else ''.'' @ slash))"

definition path_join :: "string list \<Rightarrow> string" where
  "path_join ps = normalize_path (join_text ''/'' (filter (\<lambda>p. p \<noteq> []) ps))"

definition absolute_parts :: "string \<Rightarrow> string list" where
  "absolute_parts p = normal_parts True [] (path_parts p)"

definition path_of_parts :: "string list \<Rightarrow> string" where
  "path_of_parts ss = ''/'' @ join_text ''/'' ss"

definition path_resolve :: "string \<Rightarrow> string list \<Rightarrow> string" where
  "path_resolve cwd ps =
     path_of_parts (absolute_parts
       (foldl (\<lambda>acc p. if p = [] then acc else if is_absolute p then p else acc @ ''/'' @ p) cwd ps))"

fun common_prefix :: "string list \<Rightarrow> string list \<Rightarrow> nat" where
  "common_prefix (a # as) (b # bs) = (if a = b then Suc (common_prefix as bs) else 0)"
| "common_prefix _ _ = 0"

definition path_relative :: "string \<Rightarrow> string \<Rightarrow> string" where
  "path_relative from to =
     (let f = absolute_parts from; t = absolute_parts to; n = common_prefix f t
      in join_text ''/'' (replicate (length f - n) ''..'' @ drop n t))"

section \<open>Facts\<close>

text \<open>A segment of a normalized absolute path.\<close>

definition segment :: "string \<Rightarrow> bool" where
  "segment s \<longleftrightarrow> s \<noteq> [] \<and> s \<noteq> ''.'' \<and> s \<noteq> ''..'' \<and> CHR ''/'' \<notin> set s"

lemma split_on_parts: "s \<in> set (split_on c p) \<Longrightarrow> c \<notin> set s"
  by (induction p arbitrary: s) (auto split: if_splits list.splits)

lemma segment_not_up: "segment s \<Longrightarrow> s \<noteq> ''..''"
  by (simp add: segment_def)

lemma normal_parts_segments:
  "list_all segment acc \<Longrightarrow> list_all (\<lambda>s. s \<noteq> ''..'' \<longrightarrow> segment s) ss \<Longrightarrow>
   list_all segment (normal_parts True acc ss)"
proof (induction ss arbitrary: acc)
  case Nil
  then show ?case by (simp add: list_all_iff)
next
  case (Cons s ss)
  show ?case
  proof (cases "s = ''..''")
    case True
    then show ?thesis using Cons segment_not_up [of "hd acc"] by (cases acc) simp_all
  next
    case False
    then show ?thesis using Cons by simp
  qed
qed

lemma absolute_parts_segments: "list_all segment (absolute_parts p)"
  unfolding absolute_parts_def
  by (rule normal_parts_segments, simp) (auto simp: path_parts_def segment_def list_all_iff dest: split_on_parts)

lemma common_prefix_take: "take (common_prefix xs ys) xs = take (common_prefix xs ys) ys"
  by (induction xs ys rule: common_prefix.induct) auto

lemma common_prefix_le: "common_prefix xs ys \<le> length xs" "common_prefix xs ys \<le> length ys"
  by (induction xs ys rule: common_prefix.induct) auto

lemma common_prefix_full: "prefix xs ys \<longleftrightarrow> common_prefix xs ys = length xs"
  by (induction xs ys rule: common_prefix.induct) auto

text \<open>\<open>relative(root, p)\<close> stays inside exactly when the root's segments are a prefix of the path's.\<close>

definition leaves_root :: "string \<Rightarrow> bool" where
  "leaves_root r \<longleftrightarrow> r = ''..'' \<or> prefix ''../'' r \<or> is_absolute r"

lemma join_first: "join_text ''/'' (s # ss) = s \<or> (\<exists>t. join_text ''/'' (s # ss) = s @ CHR ''/'' # t)"
  by (cases ss) auto

lemma segment_stays:
  assumes "segment s" shows "\<not> leaves_root (join_text ''/'' (s # ss))"
proof -
  have s: "s \<noteq> []" "s \<noteq> ''..''" "CHR ''/'' \<notin> set s" using assms by (auto simp: segment_def)
  have "\<not> prefix ''../'' (s @ CHR ''/'' # t)" for t
    using s by (cases s; cases "tl s"; cases "tl (tl s)") auto
  moreover have "\<not> prefix ''../'' s" using s(3) by (auto simp: prefix_def)
  moreover have "hd s \<noteq> CHR ''/''" using s by (cases s) auto
  moreover have "''..'' \<noteq> s @ CHR ''/'' # t" for t
    using s by (cases s; cases "tl s") auto
  ultimately show ?thesis using join_first [of s ss] s by (auto simp: leaves_root_def is_absolute_def)
qed

lemma relative_inside:
  "\<not> leaves_root (path_relative base p) \<longleftrightarrow> prefix (absolute_parts base) (absolute_parts p)"
proof -
  define f t where "f = absolute_parts base" "t = absolute_parts p"
  show ?thesis
  proof (cases "common_prefix f t = length f")
    case True
    have "\<not> leaves_root (join_text ''/'' (drop (length f) t))"
    proof (cases "drop (length f) t")
      case Nil
      then show ?thesis by (simp add: leaves_root_def is_absolute_def)
    next
      case (Cons s ss)
      then have "s \<in> set t" by (metis in_set_dropD list.set_intros(1))
      then have "segment s" using absolute_parts_segments by (auto simp: f_t_def list_all_iff)
      then show ?thesis using segment_stays by (simp add: Cons)
    qed
    then show ?thesis using True by (simp add: path_relative_def f_t_def [symmetric] common_prefix_full)
  next
    case False
    then have "common_prefix f t < length f" using common_prefix_le(1) le_neq_implies_less by blast
    then obtain k where "length f - common_prefix f t = Suc k" by (metis Suc_diff_Suc)
    then have "leaves_root (path_relative base p)"
      using join_first [of "''..''" "replicate k ''..'' @ drop (common_prefix f t) t"]
      by (auto simp: path_relative_def f_t_def [symmetric] Let_def leaves_root_def)
    then show ?thesis using False by (simp add: f_t_def [symmetric] common_prefix_full)
  qed
qed

end
