(* ===== verification/Compatibility_Sink.thy ===== *)
theory Compatibility_Sink
  imports Metric_Text Js_Path
begin

text \<open>
  \<open>createCompatibilitySink\<close> of \<open>coordinator/src/adapters/compatibility.ts\<close>: the local JSONL files, the
  best-effort posts to the dashboard, the transcripts buffered per attempt, the compressed transcript of
  a cycle run and the preflight records. The file operations and posts that are attempted are listed,
  and whether one fails is given by its number; the compressor is a child process and a parameter.
\<close>

section \<open>Payloads\<close>

definition or_null :: "string option \<Rightarrow> jsval" where
  "or_null s = (case s of None \<Rightarrow> JNull | Some t \<Rightarrow> JStr t)"

definition num_nat :: "nat \<Rightarrow> jsval" where
  "num_nat n = JNum (Fin (of_nat n))"

definition num_rat :: "rat \<Rightarrow> jsval" where
  "num_rat r = JNum (Fin r)"

definition omitUndefined :: "obj \<Rightarrow> obj" where
  "omitUndefined ob = filter (\<lambda>(k, v). v \<noteq> Undef) ob"

fun cost_status_text :: "cost_status \<Rightarrow> string" where
  "cost_status_text CostFromProvider = ''provider''"
| "cost_status_text CostEstimated = ''estimated''"
| "cost_status_text CostUnknown = ''unknown''"

definition model_counts_value :: "model_counts \<Rightarrow> jsval" where
  "model_counts_value c =
     JObj [(''input_tokens'', num_nat (mc_input c)), (''output_tokens'', num_nat (mc_output c)),
           (''cache_read_input_tokens'', num_nat (mc_cacheRead c)),
           (''cache_creation_input_tokens'', num_nat (mc_cacheWrite c))]"

definition toLegacyCostEntry :: "cost_record \<Rightarrow> obj" where
  "toLegacyCostEntry r =
     (let t = cost_totals r
      in [(''timestamp'', JStr (cost_timestamp r)),
          (''label'', JStr (cost_label r)),
          (''session_id'', JStr (case cost_sessionId r of None \<Rightarrow> [] | Some s \<Rightarrow> s)),
          (''num_turns'', num_rat (cost_numTurns r)),
          (''duration_ms'', num_rat (cost_durationMs r)),
          (''cost_usd'', num_rat (ut_costUsd t)),
          (''cost_status'', JStr (cost_status_text (ut_costStatus t))),
          (''cost_incomplete'', JBool (ut_costIncomplete t)),
          (''input_tokens'', num_nat (ut_inputTokens t)),
          (''output_tokens'', num_nat (ut_outputTokens t)),
          (''cache_read_tokens'', num_nat (ut_cacheReadTokens t)),
          (''cache_write_tokens'', num_nat (ut_cacheWriteTokens t)),
          (''model'', JStr (ut_model t)),
          (''model_usage'', JObj (map (\<lambda>(m, c). (m, model_counts_value c)) (ut_modelUsage t))),
          (''is_error'', JBool (cost_isError r)),
          (''no_work'', JBool (cost_noWork r)),
          (''instance_id'', JStr (cost_instanceId r)),
          (''external_key'', or_null (cost_externalKey r)),
          (''repo'', or_null (cost_repository r)),
          (''work_type'', or_null (cost_workType r)),
          (''summary'', or_null (cost_summary r)),
          (''run_id'', JStr (cost_runId r)),
          (''attempt_id'', JStr (cost_attemptId r)),
          (''runtime_id'', JStr (case cost_runtimeId r of None \<Rightarrow> ''unknown'' | Some s \<Rightarrow> s)),
          (''provider_id'', JStr (cost_providerId r))])"

definition toCycleRunPayload :: "cycle_run_record \<Rightarrow> string option \<Rightarrow> obj" where
  "toCycleRunPayload r transcriptBase64 =
     omitUndefined
       [(''task_id'', case cy_taskId r of None \<Rightarrow> JNull | Some t \<Rightarrow> num_rat t),
        (''cycle_type'', JStr (cy_cycleType r)),
        (''instance_id'', JStr (cy_instanceId r)),
        (''started_at'', JStr (cy_startedAt r)),
        (''finished_at'', JStr (cy_finishedAt r)),
        (''tool_calls'', num_rat (cy_toolCalls r)),
        (''tokens_used'', num_nat (cy_tokensUsed r)),
        (''input_prompt'', JStr (cy_inputPrompt r)),
        (''progress'', JObj
          [(''external_key'', or_null (cy_externalKey r)), (''repo'', or_null (cy_repository r)),
           (''work_type'', or_null (cy_workType r)), (''summary'', or_null (cy_summary r))]),
        (''transcript_b64'', opt_str transcriptBase64)]"

definition toStatusPayload :: "status_update \<Rightarrow> obj" where
  "toStatusPayload u =
     [(''state'', JStr (st_state u)), (''message'', JStr (st_message u)), (''instance_id'', JStr (st_instanceId u))] @
     opt_entry ''external_key'' (opt_str (st_externalKey u)) @ opt_entry ''repo'' (opt_str (st_repository u))"

definition newline_char :: char where
  "newline_char = CHR 0x0A"

definition transcriptText :: "transcript_record list \<Rightarrow> string" where
  "transcriptText rs =
     join_text [newline_char] (map (\<lambda>r. json_text (JObj (event_to_obj (tr_event r)))) rs) @
     (if rs = [] then [] else [newline_char])"

text \<open>\<open>Buffer.toString("base64")\<close>\<close>

definition base64_char :: "nat \<Rightarrow> char" where
  "base64_char n =
     (if n < 26 then char_of (65 + n) else if n < 52 then char_of (71 + n)
      else if n < 62 then char_of (n - 4) else if n = 62 then CHR ''+'' else CHR ''/'')"

fun base64 :: "string \<Rightarrow> string" where
  "base64 [] = []"
| "base64 [a] = (let n = of_char a * 16 in [base64_char (n div 64), base64_char (n mod 64), CHR ''='', CHR ''=''])"
| "base64 [a, b] =
     (let n = (of_char a * 256 + of_char b) * 4
      in [base64_char (n div 4096), base64_char (n div 64 mod 64), base64_char (n mod 64), CHR ''=''])"
| "base64 (a # b # c # rest) =
     (let n = (of_char a * 256 + of_char b) * 256 + of_char c
      in [base64_char (n div 262144), base64_char (n div 4096 mod 64), base64_char (n div 64 mod 64),
          base64_char (n mod 64)] @ base64 rest)"

section \<open>The sink's state and its effects\<close>

text \<open>A file is named by its directory and its name in it.\<close>

datatype disk_op =
    MakeDirectory string
  | AppendLine string string string
  | WriteBytes string string string
  | WriteText string string string

datatype post_result = PostStatus nat | PostThrew reason

record sink_config =
  sc_dataDirectory :: string
  sc_statusUrl :: "string option"
  sc_costsUrl :: "string option"
  sc_cycleRunsUrl :: "string option"
  sc_compress :: "string \<Rightarrow> reason + string"
  sc_disk :: "nat \<Rightarrow> reason option"
  sc_post :: "nat \<Rightarrow> post_result"
  sc_collate :: "string \<Rightarrow> string"

record sink =
  sk_transcripts :: "(string \<times> transcript_record list) list"
  sk_metrics :: metric_store
  sk_disk :: "disk_op list"
  sk_posts :: "(string \<times> string) list"
  sk_warnings :: "string list"

definition new_sink :: sink where
  "new_sink = \<lparr>sk_transcripts = [], sk_metrics = empty_store, sk_disk = [], sk_posts = [], sk_warnings = []\<rparr>"

type_synonym sink_step = "sink \<Rightarrow> reason option \<times> sink"

text \<open>One awaited step after another; the first that throws ends them.\<close>

fun sink_steps :: "sink_step list \<Rightarrow> sink_step" where
  "sink_steps [] S = (None, S)"
| "sink_steps (f # fs) S = (case f S of (Some e, S') \<Rightarrow> (Some e, S') | (None, S') \<Rightarrow> sink_steps fs S')"

definition disk :: "sink_config \<Rightarrow> disk_op \<Rightarrow> sink_step" where
  "disk C op S = (sc_disk C (length (sk_disk S)), S\<lparr>sk_disk := sk_disk S @ [op]\<rparr>)"

definition warn :: "string \<Rightarrow> sink \<Rightarrow> sink" where
  "warn m S = S\<lparr>sk_warnings := sk_warnings S @ [m]\<rparr>"

text \<open>\<open>describe\<close> of this file.\<close>

definition described :: "reason \<Rightarrow> string" where
  "described e = (case e of RError _ m _ \<Rightarrow> m | _ \<Rightarrow> js_String e)"

definition writeLocal :: "sink_config \<Rightarrow> string \<Rightarrow> obj \<Rightarrow> sink_step" where
  "writeLocal C file v =
     sink_steps [disk C (MakeDirectory (sc_dataDirectory C)),
                 disk C (AppendLine (sc_dataDirectory C) file (json_text (JObj v)))]"

definition post_error :: "post_result \<Rightarrow> reason option" where
  "post_error r =
     (case r of
        PostStatus n \<Rightarrow> if 200 \<le> n \<and> n < 300 then None else Some (RError ''Error'' (''HTTP '' @ show_nat n) False)
      | PostThrew e \<Rightarrow> Some e)"

definition postJson :: "sink_config \<Rightarrow> string option \<Rightarrow> obj \<Rightarrow> sink_step" where
  "postJson C url payload S =
     (case url of
        None \<Rightarrow> (None, S)
      | Some u \<Rightarrow>
          if u = [] then (None, S)
          else (let S' = S\<lparr>sk_posts := sk_posts S @ [(u, json_text (JObj payload))]\<rparr>
                in case post_error (sc_post C (length (sk_posts S))) of
                     None \<Rightarrow> (None, S')
                   | Some e \<Rightarrow>
                       (None, warn (''coordinator compatibility POST '' @ u @ '' failed: '' @ described e) S')))"

section \<open>The writers\<close>

definition writeStatus :: "sink_config \<Rightarrow> status_update \<Rightarrow> sink_step" where
  "writeStatus C u =
     sink_steps [writeLocal C ''status.jsonl'' (toStatusPayload u), postJson C (sc_statusUrl C) (toStatusPayload u)]"

definition writeCost :: "sink_config \<Rightarrow> cost_record \<Rightarrow> sink_step" where
  "writeCost C r =
     sink_steps [writeLocal C ''costs.jsonl'' (toLegacyCostEntry r), postJson C (sc_costsUrl C) (toLegacyCostEntry r)]"

definition max_buffered_transcripts :: nat where
  "max_buffered_transcripts = 8"

text \<open>A new attempt goes last and the oldest ones beyond the bound are deleted.\<close>

definition buffer_for :: "string \<Rightarrow> (string \<times> transcript_record list) list \<Rightarrow> (string \<times> transcript_record list) list" where
  "buffer_for a ts =
     (if map_of ts a \<noteq> None then ts
      else (let ts' = ts @ [(a, [])] in drop (length ts' - max_buffered_transcripts) ts'))"

definition appendTranscript :: "transcript_record \<Rightarrow> sink_step" where
  "appendTranscript r S =
     (let ts = buffer_for (tr_attemptId r) (sk_transcripts S)
      in (None, S\<lparr>sk_transcripts :=
            AList.update (tr_attemptId r)
              ((case map_of ts (tr_attemptId r) of None \<Rightarrow> [] | Some rs \<Rightarrow> rs) @ [r]) ts\<rparr>))"

definition transcript_directory :: "sink_config \<Rightarrow> string" where
  "transcript_directory C = path_join [sc_dataDirectory C, ''transcripts'']"

definition compression_error :: "string \<Rightarrow> reason \<Rightarrow> reason" where
  "compression_error subject e =
     RError ''Error'' (''coordinator '' @ subject @ ''transcript compression failed: '' @ described e) False"

text \<open>
  The \<open>try\<close> of \<open>writeCycleRun\<close>: compress and write the file; an error of either writes the plain
  transcript and throws. The result is the base64 text.
\<close>

definition plain_transcript :: "sink_config \<Rightarrow> string \<Rightarrow> string \<Rightarrow> reason \<Rightarrow> sink_step" where
  "plain_transcript C attemptId transcript e S =
     (case disk C (WriteText (transcript_directory C) (attemptId @ ''.jsonl'') transcript) S of
        (Some e', S') \<Rightarrow> (Some e', S')
      | (None, S') \<Rightarrow>
          (Some (compression_error [] e),
           warn (''coordinator transcript compression failed: '' @ described e) S'))"

definition store_transcript ::
    "sink_config \<Rightarrow> string \<Rightarrow> string \<Rightarrow> sink \<Rightarrow> (reason + string) \<times> sink" where
  "store_transcript C attemptId transcript S =
     (let failed = (\<lambda>e S'. (case plain_transcript C attemptId transcript e S' of
                              (Some e', S'') \<Rightarrow> (Inl e', S'') | (None, S'') \<Rightarrow> (Inr [], S'')))
      in case sc_compress C transcript of
           Inl e \<Rightarrow> failed e S
         | Inr bytes \<Rightarrow>
             (case disk C (WriteBytes (transcript_directory C) (attemptId @ ''.jsonl.zst'') bytes) S of
                (Some e, S') \<Rightarrow> failed e S'
              | (None, S') \<Rightarrow> (Inr (base64 bytes), S')))"

definition local_cycle_run :: "cycle_run_record \<Rightarrow> obj \<Rightarrow> obj" where
  "local_cycle_run r payload =
     filter (\<lambda>(k, v). k \<noteq> ''transcript_b64'') payload @
     [(''run_id'', JStr (cy_runId r)), (''attempt_id'', JStr (cy_attemptId r)),
      (''transcript_path'', JStr (path_join [''transcripts'', cy_attemptId r @ ''.jsonl.zst'']))]"

definition stored_text :: "string \<Rightarrow> sink \<Rightarrow> string" where
  "stored_text a S = (case map_of (sk_transcripts S) a of None \<Rightarrow> [] | Some rs \<Rightarrow> transcriptText rs)"

definition forget_transcript :: "string \<Rightarrow> sink \<Rightarrow> sink" where
  "forget_transcript a S = S\<lparr>sk_transcripts := AList.delete a (sk_transcripts S)\<rparr>"

definition publish_cycle_run :: "sink_config \<Rightarrow> cycle_run_record \<Rightarrow> string \<Rightarrow> sink_step" where
  "publish_cycle_run C r b64 =
     sink_steps [writeLocal C ''cycle-runs.jsonl'' (local_cycle_run r (toCycleRunPayload r (Some b64))),
                 postJson C (sc_cycleRunsUrl C) (toCycleRunPayload r (Some b64))]"

definition writeCycleRun :: "sink_config \<Rightarrow> cycle_run_record \<Rightarrow> sink_step" where
  "writeCycleRun C r S =
     (let transcript = stored_text (cy_attemptId r) S;
          S0 = forget_transcript (cy_attemptId r) S
      in case disk C (MakeDirectory (transcript_directory C)) S0 of
           (Some e, S1) \<Rightarrow> (Some e, S1)
         | (None, S1) \<Rightarrow>
             (case store_transcript C (cy_attemptId r) transcript S1 of
                (Inl e, S2) \<Rightarrow> (Some e, S2)
              | (Inr b64, S2) \<Rightarrow> publish_cycle_run C r b64 S2))"

definition observeSink :: "sink_config \<Rightarrow> metric_point \<Rightarrow> sink_step" where
  "observeSink C p S =
     (case observe_metric (sc_collate C) p (sk_metrics S) of
        (e, M) \<Rightarrow> (map_option (\<lambda>m. RError ''Error'' m False) e, S\<lparr>sk_metrics := M\<rparr>))"

text \<open>The writers as the projection calls them.\<close>

fun sink_write :: "sink_config \<Rightarrow> written \<Rightarrow> sink_step" where
  "sink_write C (WroteStatus u) = writeStatus C u"
| "sink_write C (WroteCost r) = writeCost C r"
| "sink_write C (WroteCycleRun r) = writeCycleRun C r"
| "sink_write C (WroteTranscript r) = appendTranscript r"
| "sink_write C (WroteMetric p) = observeSink C p"

section \<open>Preflight cycles\<close>

record preflight_input =
  pi_label :: string
  pi_instanceId :: string
  pi_idle :: bool
  pi_transcript :: string
  pi_inputPrompt :: string
  pi_startedAt :: "string option"
  pi_finishedAt :: "string option"

definition preflight_payload :: "preflight_input \<Rightarrow> string \<Rightarrow> obj" where
  "preflight_payload i now =
     [(''task_id'', JNull),
      (''cycle_type'', JStr (if pi_idle i then ''preflight_skip'' else ''preflight_error'')),
      (''instance_id'', JStr (pi_instanceId i)),
      (''started_at'', JStr (case pi_startedAt i of None \<Rightarrow> now | Some t \<Rightarrow> t)),
      (''finished_at'', JStr (case pi_finishedAt i of None \<Rightarrow> now | Some t \<Rightarrow> t)),
      (''tool_calls'', num_nat 0), (''tokens_used'', num_nat 0),
      (''input_prompt'', JStr (pi_inputPrompt i)),
      (''progress'', JObj
        [(''external_key'', JNull), (''repo'', JNull),
         (''work_type'', JStr (if pi_idle i then ''idle'' else ''error'')), (''summary'', JStr (pi_transcript i))])]"

definition preflight_status :: "preflight_input \<Rightarrow> status_update" where
  "preflight_status i =
     \<lparr>st_state = (if pi_idle i then ''idle'' else ''error''),
      st_message = (if pi_idle i then ''No work found. Sleeping...''
                    else ''Preflight failed '' @ [CHR 0x97] @ '' check bot.log''),
      st_instanceId = pi_instanceId i, st_externalKey = None, st_repository = None\<rparr>"

definition preflight_metric :: "preflight_input \<Rightarrow> metric_point" where
  "preflight_metric i =
     counter ''devbot_preflight_outcome_total'' 1
       [(''label'', pi_label i), (''action'', if pi_idle i then ''skip'' else ''error'')]"

definition writePreflightCycle :: "sink_config \<Rightarrow> string \<Rightarrow> preflight_input \<Rightarrow> sink_step" where
  "writePreflightCycle C now i S =
     (case sc_compress C (pi_transcript i) of
        Inl e \<Rightarrow>
          (Some (compression_error ''preflight '' e),
           warn (''coordinator preflight transcript compression failed: '' @ described e) S)
      | Inr bytes \<Rightarrow>
          sink_steps
            [writeLocal C ''cycle-runs.jsonl'' (preflight_payload i now),
             postJson C (sc_cycleRunsUrl C) (preflight_payload i now @ [(''transcript_b64'', JStr (base64 bytes))]),
             writeStatus C (preflight_status i),
             observeSink C (preflight_metric i)] S)"

section \<open>The zstd child\<close>

text \<open>What the child reports, in order; the promise settles on the first decisive event.\<close>

datatype zstd_event = ZOut string | ZErr string | ZError string | ZClose "int option" string

record zstd_state =
  zs_chunks :: "string list"
  zs_size :: nat
  zs_stderr :: string
  zs_result :: "(string + string) option"

definition max_compressed_transcript_bytes :: nat where
  "max_compressed_transcript_bytes = 16 * 1024 * 1024"

definition zstd_start :: zstd_state where
  "zstd_start = \<lparr>zs_chunks = [], zs_size = 0, zs_stderr = [], zs_result = None\<rparr>"

definition zstd_fail :: "string \<Rightarrow> zstd_state \<Rightarrow> zstd_state" where
  "zstd_fail m Z = (if zs_result Z = None then Z\<lparr>zs_result := Some (Inl m)\<rparr> else Z)"

definition zstd_exit_message :: "int option \<Rightarrow> string \<Rightarrow> string \<Rightarrow> string" where
  "zstd_exit_message code signal err =
     ''zstd exited with '' @
     (case code of None \<Rightarrow> signal | Some c \<Rightarrow> number_text (of_int c)) @
     (if err = [] then [] else '': '' @ trim err)"

fun zstd_event_step :: "zstd_event \<Rightarrow> zstd_state \<Rightarrow> zstd_state" where
  "zstd_event_step (ZOut chunk) Z =
     (let n = zs_size Z + length chunk; Z' = Z\<lparr>zs_size := n\<rparr>
      in if max_compressed_transcript_bytes < n then zstd_fail ''zstd output exceeded limit'' Z'
         else Z'\<lparr>zs_chunks := zs_chunks Z @ [chunk]\<rparr>)"
| "zstd_event_step (ZErr chunk) Z = Z\<lparr>zs_stderr := zs_stderr Z @ chunk\<rparr>"
| "zstd_event_step (ZError m) Z = zstd_fail m Z"
| "zstd_event_step (ZClose code signal) Z =
     (if zs_result Z \<noteq> None then Z
      else if code = Some 0 then Z\<lparr>zs_result := Some (Inr (concat (zs_chunks Z)))\<rparr>
      else zstd_fail (zstd_exit_message code signal (zs_stderr Z)) Z)"

definition zstdCompress :: "zstd_event list \<Rightarrow> (string + string) option" where
  "zstdCompress evs = zs_result (fold zstd_event_step evs zstd_start)"

end
