(* ===== verification/Sink_Facts.thy ===== *)
theory Sink_Facts
  imports Compatibility_Sink
begin

text \<open>
  What the compatibility sink keeps: transcripts stay bounded and complete, posts never decide anything,
  a cycle run's line is appended only after its transcript file, and every appended line is one line.
\<close>

section \<open>The buffered transcripts\<close>

definition sink_all :: "sink_config \<Rightarrow> written list \<Rightarrow> sink \<Rightarrow> sink" where
  "sink_all C ws S = fold (\<lambda>w S. snd (sink_write C w S)) ws S"

lemma sink_all_simps [simp]:
  "sink_all C [] S = S" "sink_all C (w # ws) S = sink_all C ws (snd (sink_write C w S))"
  "sink_all C (ws @ vs) S = sink_all C vs (sink_all C ws S)"
  by (simp_all add: sink_all_def)

text \<open>Steps that leave the transcripts alone.\<close>

named_theorems quiet_steps \<open>steps that keep the buffered transcripts\<close>

definition quiet :: "sink_step \<Rightarrow> bool" where
  "quiet f \<longleftrightarrow> (\<forall>S. sk_transcripts (snd (f S)) = sk_transcripts S)"

lemma quietD: "quiet f \<Longrightarrow> sk_transcripts (snd (f S)) = sk_transcripts S"
  by (simp add: quiet_def)

lemma quiet_pair: "quiet f \<Longrightarrow> f S = (r, S') \<Longrightarrow> sk_transcripts S' = sk_transcripts S"
  using quietD [of f S] by simp

lemma quiet_sink_steps [quiet_steps]: "list_all quiet fs \<Longrightarrow> quiet (sink_steps fs)"
proof (induction fs)
  case (Cons f fs)
  then have f: "quiet f" and fs: "quiet (sink_steps fs)" by simp_all
  show ?case
    unfolding quiet_def
    using quietD [OF f] quietD [OF fs] by (auto split: prod.split option.split) (metis snd_conv)+
qed (simp add: quiet_def)

lemma quiet_disk [quiet_steps]: "quiet (disk C op)"
  by (simp add: quiet_def disk_def)

lemma quiet_local [quiet_steps]: "quiet (writeLocal C file v)"
  unfolding writeLocal_def by (rule quiet_sink_steps) (simp add: quiet_disk)

lemma quiet_post [quiet_steps]: "quiet (postJson C url v)"
  by (simp add: quiet_def postJson_def warn_def Let_def split: option.split)

lemma quiet_status [quiet_steps]: "quiet (writeStatus C u)"
  unfolding writeStatus_def by (rule quiet_sink_steps) (simp add: quiet_local quiet_post)

lemma quiet_cost [quiet_steps]: "quiet (writeCost C r)"
  unfolding writeCost_def by (rule quiet_sink_steps) (simp add: quiet_local quiet_post)

lemma quiet_observe [quiet_steps]: "quiet (observeSink C p)"
  by (simp add: quiet_def observeSink_def split: prod.split)

lemma quiet_plain [quiet_steps]: "quiet (plain_transcript C a t e)"
  using quiet_pair [OF quiet_disk [of C]]
  by (auto simp: quiet_def plain_transcript_def warn_def split: prod.split option.split)

lemma quiet_store: "sk_transcripts (snd (store_transcript C a t S)) = sk_transcripts S"
  using quiet_pair [OF quiet_disk [of C]] quiet_pair [OF quiet_plain [of C a t]]
  by (auto simp: store_transcript_def Let_def split: prod.split option.split sum.split)

lemma quiet_publish [quiet_steps]: "quiet (publish_cycle_run C r b)"
  unfolding publish_cycle_run_def by (rule quiet_sink_steps) (simp add: quiet_local quiet_post)

lemma cycle_run_transcripts:
  "sk_transcripts (snd (writeCycleRun C r S)) = AList.delete (cy_attemptId r) (sk_transcripts S)"
proof -
  have f: "sk_transcripts (forget_transcript (cy_attemptId r) S) = AList.delete (cy_attemptId r) (sk_transcripts S)"
    by (simp add: forget_transcript_def)
  show ?thesis
    using quiet_pair [OF quiet_disk [of C]] quiet_pair [OF quiet_publish [of C r]] quiet_store [of C "cy_attemptId r"] f
    unfolding writeCycleRun_def Let_def
    by (auto split: prod.split option.split sum.split) (metis snd_conv quietD quiet_publish)+
qed

text \<open>
  The records appended for an attempt since its last cycle run, which is what its buffer should hold.
\<close>

fun pend :: "string \<Rightarrow> written \<Rightarrow> transcript_record list \<Rightarrow> transcript_record list" where
  "pend a (WroteTranscript r) rs = (if tr_attemptId r = a then rs @ [r] else rs)"
| "pend a (WroteCycleRun r) rs = (if cy_attemptId r = a then [] else rs)"
| "pend a _ rs = rs"

definition pending :: "string \<Rightarrow> written list \<Rightarrow> transcript_record list" where
  "pending a ws = fold (pend a) ws []"

lemma pending_simps [simp]: "pending a [] = []" "pending a (ws @ [w]) = pend a w (pending a ws)"
  by (simp_all add: pending_def)

definition attempts_of :: "written list \<Rightarrow> string set" where
  "attempts_of ws = {tr_attemptId r |r. WroteTranscript r \<in> set ws}"

text \<open>The buffer is a bounded map from attempts to their own records.\<close>

definition buffers_ok :: "(string \<times> transcript_record list) list \<Rightarrow> bool" where
  "buffers_ok ts \<longleftrightarrow> length ts \<le> max_buffered_transcripts \<and> distinct (map fst ts) \<and>
     list_all (\<lambda>(a, rs). rs \<noteq> [] \<and> list_all (\<lambda>r. tr_attemptId r = a) rs) ts"

lemma set_update: "x \<in> set (AList.update k v xs) \<Longrightarrow> x = (k, v) \<or> x \<in> set xs"
  by (induction xs) (auto split: if_splits)

lemma keys_update: "fst ` set (AList.update k v xs) = insert k (fst ` set xs)"
  by (induction xs) auto

lemma length_update: "length (AList.update k v xs) = (if k \<in> fst ` set xs then length xs else Suc (length xs))"
  by (induction xs) auto

lemma buffer_for_known: "map_of ts a \<noteq> None \<Longrightarrow> buffer_for a ts = ts"
  by (auto simp: buffer_for_def)

lemma buffer_for_new:
  assumes "map_of ts a = None" "length ts \<le> max_buffered_transcripts"
  obtains k where "buffer_for a ts = drop k ts @ [(a, [])]" "k \<le> length ts"
    "length (drop k ts) < max_buffered_transcripts" "length ts < max_buffered_transcripts \<longrightarrow> k = 0"
proof -
  have "length ts + 1 - max_buffered_transcripts \<le> length ts" by (simp add: max_buffered_transcripts_def)
  then show thesis
    using that [of "length ts + 1 - max_buffered_transcripts"] assms
    by (simp add: buffer_for_def Let_def max_buffered_transcripts_def)
qed

lemma append_known:
  "map_of (sk_transcripts S) (tr_attemptId r) = Some rs \<Longrightarrow>
   sk_transcripts (snd (appendTranscript r S)) =
     AList.update (tr_attemptId r) (rs @ [r]) (sk_transcripts S)"
  by (simp add: appendTranscript_def buffer_for_known)

lemma update_last: "k \<notin> fst ` set xs \<Longrightarrow> AList.update k v (xs @ [(k, w)]) = xs @ [(k, v)]"
  by (induction xs) auto

lemma append_new:
  assumes "map_of (sk_transcripts S) (tr_attemptId r) = None"
    and "length (sk_transcripts S) \<le> max_buffered_transcripts"
  obtains k where "sk_transcripts (snd (appendTranscript r S)) = drop k (sk_transcripts S) @ [(tr_attemptId r, [r])]"
    "length (drop k (sk_transcripts S)) < max_buffered_transcripts"
    "length (sk_transcripts S) < max_buffered_transcripts \<longrightarrow> k = 0"
proof -
  obtain k where k: "buffer_for (tr_attemptId r) (sk_transcripts S) = drop k (sk_transcripts S) @ [(tr_attemptId r, [])]"
      "length (drop k (sk_transcripts S)) < max_buffered_transcripts"
      "length (sk_transcripts S) < max_buffered_transcripts \<longrightarrow> k = 0"
    using buffer_for_new [OF assms] by metis
  have "tr_attemptId r \<notin> fst ` set (drop k (sk_transcripts S))"
    using assms(1) by (auto simp: map_of_eq_None_iff dest: in_set_dropD)
  moreover from this have "map_of (drop k (sk_transcripts S)) (tr_attemptId r) = None"
    by (simp add: map_of_eq_None_iff)
  ultimately show thesis
    using that [of k] k by (simp add: appendTranscript_def update_last map_add_def)
qed

lemma buffers_ok_append:
  assumes ok: "buffers_ok (sk_transcripts S)" shows "buffers_ok (sk_transcripts (snd (appendTranscript r S)))"
proof (cases "map_of (sk_transcripts S) (tr_attemptId r)")
  case None
  obtain k where k: "sk_transcripts (snd (appendTranscript r S)) = drop k (sk_transcripts S) @ [(tr_attemptId r, [r])]"
      "length (drop k (sk_transcripts S)) < max_buffered_transcripts"
    using append_new [OF None] ok by (auto simp: buffers_ok_def)
  have "distinct (map fst (drop k (sk_transcripts S)))"
    using ok by (simp add: buffers_ok_def drop_map [symmetric])
  moreover have "tr_attemptId r \<notin> fst ` set (drop k (sk_transcripts S))"
    using None by (auto simp: map_of_eq_None_iff dest: in_set_dropD)
  moreover have "list_all (\<lambda>(a, rs). rs \<noteq> [] \<and> list_all (\<lambda>r. tr_attemptId r = a) rs) (drop k (sk_transcripts S))"
    using ok in_set_dropD by (fastforce simp: buffers_ok_def list_all_iff)
  ultimately show ?thesis using k by (simp add: buffers_ok_def)
next
  case (Some rs)
  then have m: "(tr_attemptId r, rs) \<in> set (sk_transcripts S)" by (rule map_of_SomeD)
  then have "list_all (\<lambda>x. tr_attemptId x = tr_attemptId r) rs" using ok by (auto simp: buffers_ok_def list_all_iff)
  then show ?thesis
    using ok m image_eqI [of "tr_attemptId r" fst "(tr_attemptId r, rs)"]
    by (auto simp: append_known [OF Some] buffers_ok_def distinct_update length_update list_all_iff dest!: set_update)
qed

lemma buffers_ok_write: "buffers_ok (sk_transcripts S) \<Longrightarrow> buffers_ok (sk_transcripts (snd (sink_write C w S)))"
proof (cases w)
  case (WroteCycleRun r)
  moreover assume "buffers_ok (sk_transcripts S)"
  moreover have "set (AList.delete (cy_attemptId r) (sk_transcripts S)) \<subseteq> set (sk_transcripts S)"
    by (auto simp: AList.delete_eq)
  ultimately show ?thesis
    using length_delete_le [of "cy_attemptId r" "sk_transcripts S"]
    by (fastforce simp: cycle_run_transcripts buffers_ok_def distinct_delete list_all_iff)
qed (simp_all add: buffers_ok_append quietD quiet_steps)

lemma buffers_ok_all: "buffers_ok (sk_transcripts S) \<Longrightarrow> buffers_ok (sk_transcripts (sink_all C ws S))"
  by (induction ws arbitrary: S) (simp_all add: buffers_ok_write)

section \<open>Buffered transcripts are complete\<close>

definition buffered :: "string \<Rightarrow> sink \<Rightarrow> transcript_record list" where
  "buffered a S = (case map_of (sk_transcripts S) a of None \<Rightarrow> [] | Some rs \<Rightarrow> rs)"

lemma stored_text_eq: "stored_text a S = transcriptText (buffered a S)"
  by (simp add: stored_text_def buffered_def transcriptText_def split: option.split)

lemma fst_buffers: "buffers_ok ts \<Longrightarrow> card (fst ` set ts) = length ts"
  by (simp add: buffers_ok_def distinct_card flip: set_map)

lemma few_buffers:
  assumes "buffers_ok ts" "fst ` set ts \<subseteq> A" "a \<in> A" "a \<notin> fst ` set ts" "finite A"
    "card A \<le> max_buffered_transcripts"
  shows "length ts < max_buffered_transcripts"
proof -
  have "card (fst ` set ts) < card A" using assms(2-5) by (intro psubset_card_mono) auto
  then show ?thesis using fst_buffers [OF assms(1)] assms(6) by simp
qed

lemma buffered_append:
  assumes ok: "buffers_ok (sk_transcripts S)"
    and room: "map_of (sk_transcripts S) (tr_attemptId r) = None \<Longrightarrow> length (sk_transcripts S) < max_buffered_transcripts"
  shows "buffered a (snd (appendTranscript r S)) = (if tr_attemptId r = a then buffered a S @ [r] else buffered a S)"
    and "fst ` set (sk_transcripts (snd (appendTranscript r S))) = insert (tr_attemptId r) (fst ` set (sk_transcripts S))"
proof -
  have "buffered a (snd (appendTranscript r S)) = (if tr_attemptId r = a then buffered a S @ [r] else buffered a S) \<and>
    fst ` set (sk_transcripts (snd (appendTranscript r S))) = insert (tr_attemptId r) (fst ` set (sk_transcripts S))"
  proof (cases "map_of (sk_transcripts S) (tr_attemptId r)")
    case None
    obtain k where k: "sk_transcripts (snd (appendTranscript r S)) = drop k (sk_transcripts S) @ [(tr_attemptId r, [r])]"
        "length (sk_transcripts S) < max_buffered_transcripts \<longrightarrow> k = 0"
      using append_new [OF None] ok by (auto simp: buffers_ok_def)
    then have "sk_transcripts (snd (appendTranscript r S)) = sk_transcripts S @ [(tr_attemptId r, [r])]"
      using room [OF None] by simp
    then show ?thesis using None
      by (auto simp: buffered_def map_add_def split: option.split)
  next
    case (Some rs)
    then have "tr_attemptId r \<in> fst ` set (sk_transcripts S)" by (metis fst_conv image_eqI map_of_SomeD)
    then show ?thesis using Some
      by (auto simp: append_known [OF Some] buffered_def update_conv keys_update)
  qed
  then show "buffered a (snd (appendTranscript r S)) = (if tr_attemptId r = a then buffered a S @ [r] else buffered a S)"
    "fst ` set (sk_transcripts (snd (appendTranscript r S))) = insert (tr_attemptId r) (fst ` set (sk_transcripts S))"
    by simp_all
qed

lemma attempts_of_snoc: "attempts_of (ws @ [w]) = attempts_of ws \<union> attempts_of [w]"
  by (auto simp: attempts_of_def)

lemma finite_attempts: "finite (attempts_of ws)"
proof (induction ws rule: rev_induct)
  case (snoc w ws)
  have "finite (attempts_of [w])" by (cases w) (auto simp: attempts_of_def)
  then show ?case using snoc by (simp add: attempts_of_snoc)
qed (simp add: attempts_of_def)

text \<open>With at most eight attempts nothing is evicted: a buffer is what is pending for its attempt.\<close>

lemma buffered_pending:
  assumes "card (attempts_of ws) \<le> max_buffered_transcripts"
  shows "buffered a (sink_all C ws new_sink) = pending a ws \<and>
    fst ` set (sk_transcripts (sink_all C ws new_sink)) \<subseteq> attempts_of ws"
  using assms
proof (induction ws arbitrary: a rule: rev_induct)
  case Nil
  then show ?case by (simp add: buffered_def new_sink_def)
next
  case (snoc w ws)
  let ?S = "sink_all C ws new_sink"
  have "card (attempts_of ws) \<le> card (attempts_of (ws @ [w]))"
    by (rule card_mono) (use finite_attempts attempts_of_snoc in auto)
  then have ih: "buffered a ?S = pending a ws" "fst ` set (sk_transcripts ?S) \<subseteq> attempts_of ws" for a
    using snoc by auto
  have ok: "buffers_ok (sk_transcripts ?S)"
    by (rule buffers_ok_all) (simp add: new_sink_def buffers_ok_def)
  show ?case
  proof (cases w)
    case (WroteTranscript r)
    have room: "length (sk_transcripts ?S) < max_buffered_transcripts"
      if "map_of (sk_transcripts ?S) (tr_attemptId r) = None"
    proof (rule few_buffers [OF ok])
      show "fst ` set (sk_transcripts ?S) \<subseteq> attempts_of (ws @ [w])" using ih(2) attempts_of_snoc by auto
      show "tr_attemptId r \<in> attempts_of (ws @ [w])" using WroteTranscript by (auto simp: attempts_of_def)
      show "tr_attemptId r \<notin> fst ` set (sk_transcripts ?S)" using that by (simp add: map_of_eq_None_iff)
    qed (use finite_attempts snoc.prems in auto)
    show ?thesis
      using buffered_append(1) [OF ok room, where a = a] buffered_append(2) [OF ok room] ih WroteTranscript
      by (auto simp: attempts_of_snoc) (auto simp: attempts_of_def)
  next
    case (WroteCycleRun r)
    have "sk_transcripts (snd (writeCycleRun C r ?S)) = AList.delete (cy_attemptId r) (sk_transcripts ?S)"
      by (rule cycle_run_transcripts)
    moreover have "set (AList.delete (cy_attemptId r) (sk_transcripts ?S)) \<subseteq> set (sk_transcripts ?S)"
      by (auto simp: AList.delete_eq)
    ultimately show ?thesis using ih WroteCycleRun
      by (auto simp: buffered_def delete_conv attempts_of_snoc)
  qed (use ih in \<open>auto simp: buffered_def quietD quiet_steps attempts_of_snoc\<close>)
qed

section \<open>Posts decide nothing\<close>

text \<open>Two states that differ in their warnings only.\<close>

definition sim :: "sink \<Rightarrow> sink \<Rightarrow> bool" where
  "sim S S' \<longleftrightarrow> S\<lparr>sk_warnings := []\<rparr> = S'\<lparr>sk_warnings := []\<rparr>"

lemma sim_iff: "sim S S' \<longleftrightarrow> sk_transcripts S = sk_transcripts S' \<and> sk_metrics S = sk_metrics S' \<and>
    sk_disk S = sk_disk S' \<and> sk_posts S = sk_posts S'"
  by (cases S; cases S') (simp add: sim_def)

definition agree :: "sink_step \<Rightarrow> sink_step \<Rightarrow> bool" where
  "agree f g \<longleftrightarrow> (\<forall>S S'. sim S S' \<longrightarrow> fst (f S) = fst (g S') \<and> sim (snd (f S)) (snd (g S')))"

named_theorems agree_intros \<open>steps that do not depend on the posts\<close>

lemma agree_pair:
  "agree f g \<Longrightarrow> sim S S' \<Longrightarrow> f S = (r, T) \<Longrightarrow> \<exists>T'. g S' = (r, T') \<and> sim T T'"
  unfolding agree_def by (metis fst_conv prod.collapse snd_conv)

lemma agree_steps [agree_intros]: "list_all2 agree fs gs \<Longrightarrow> agree (sink_steps fs) (sink_steps gs)"
proof (induction rule: list_all2_induct)
  case (Cons f fs g gs)
  show ?case
    unfolding agree_def
  proof (intro allI impI)
    fix S S' assume "sim S S'"
    then obtain r T T' where T: "f S = (r, T)" "g S' = (r, T')" "sim T T'"
      using agree_pair [OF Cons(1)] by (metis prod.collapse)
    show "fst (sink_steps (f # fs) S) = fst (sink_steps (g # gs) S') \<and>
        sim (snd (sink_steps (f # fs) S)) (snd (sink_steps (g # gs) S'))"
      using T Cons(3) by (cases r) (simp_all add: agree_def)
  qed
qed (simp add: agree_def)

lemma agree_disk [agree_intros]: "agree (disk C op) (disk (C\<lparr>sc_post := q\<rparr>) op)"
  by (simp add: agree_def disk_def sim_iff)

lemma agree_post [agree_intros]: "agree (postJson C url v) (postJson (C\<lparr>sc_post := q\<rparr>) url v)"
  by (auto simp: agree_def postJson_def sim_iff warn_def Let_def split: option.split)

lemma agree_local [agree_intros]: "agree (writeLocal C file v) (writeLocal (C\<lparr>sc_post := q\<rparr>) file v)"
  unfolding writeLocal_def by (rule agree_steps) (simp add: agree_disk)

lemma agree_status [agree_intros]: "agree (writeStatus C u) (writeStatus (C\<lparr>sc_post := q\<rparr>) u)"
  unfolding writeStatus_def by (rule agree_steps) (simp add: agree_local agree_post)

lemma agree_cost [agree_intros]: "agree (writeCost C r) (writeCost (C\<lparr>sc_post := q\<rparr>) r)"
  unfolding writeCost_def by (rule agree_steps) (simp add: agree_local agree_post)

lemma agree_append [agree_intros]: "agree (appendTranscript r) (appendTranscript r)"
  by (simp add: agree_def appendTranscript_def sim_iff Let_def)

lemma agree_observe [agree_intros]: "agree (observeSink C p) (observeSink (C\<lparr>sc_post := q\<rparr>) p)"
  by (simp add: agree_def observeSink_def sim_iff split: prod.split)

lemma agree_publish [agree_intros]: "agree (publish_cycle_run C r b) (publish_cycle_run (C\<lparr>sc_post := q\<rparr>) r b)"
  unfolding publish_cycle_run_def by (rule agree_steps) (simp add: agree_local agree_post)

lemma sim_warn [simp]: "sim (warn m S) (warn m' S') \<longleftrightarrow> sim S S'"
  by (simp add: sim_iff warn_def)

lemma agree_plain [agree_intros]: "agree (plain_transcript C a t e) (plain_transcript (C\<lparr>sc_post := q\<rparr>) a t e)"
  by (auto simp: agree_def plain_transcript_def disk_def sim_iff warn_def transcript_directory_def split: option.split)

lemma store_agrees:
  "sim S S' \<Longrightarrow> fst (store_transcript C a t S) = fst (store_transcript (C\<lparr>sc_post := q\<rparr>) a t S') \<and>
     sim (snd (store_transcript C a t S)) (snd (store_transcript (C\<lparr>sc_post := q\<rparr>) a t S'))"
  by (auto simp: store_transcript_def plain_transcript_def disk_def sim_iff warn_def transcript_directory_def Let_def
      split: option.split sum.split)

lemma sim_forget: "sim S S' \<Longrightarrow> sim (forget_transcript a S) (forget_transcript a S')"
  by (simp add: sim_iff forget_transcript_def)

lemma sim_text: "sim S S' \<Longrightarrow> stored_text a S = stored_text a S'"
  by (simp add: sim_iff stored_text_def)

lemma agree_cycle_run [agree_intros]: "agree (writeCycleRun C r) (writeCycleRun (C\<lparr>sc_post := q\<rparr>) r)"
  unfolding agree_def
proof (intro allI impI)
  fix S S' assume s: "sim S S'"
  let ?C = "C\<lparr>sc_post := q\<rparr>"
  have dir: "transcript_directory ?C = transcript_directory C" by (simp add: transcript_directory_def)
  obtain d T where T1: "disk C (MakeDirectory (transcript_directory C)) (forget_transcript (cy_attemptId r) S) = (d, T)"
    by fastforce
  obtain T' where T: "disk ?C (MakeDirectory (transcript_directory ?C)) (forget_transcript (cy_attemptId r) S') = (d, T')"
      "sim T T'"
    using agree_pair [OF agree_disk sim_forget [OF s] T1] dir by metis
  let ?t = "stored_text (cy_attemptId r) S"
  obtain b U U' where U: "store_transcript C (cy_attemptId r) ?t T = (b, U)"
      "store_transcript ?C (cy_attemptId r) ?t T' = (b, U')" "sim U U'"
    using store_agrees [OF T(2), of C "cy_attemptId r" ?t q] by (metis prod.collapse)
  show "fst (writeCycleRun C r S) = fst (writeCycleRun ?C r S') \<and>
      sim (snd (writeCycleRun C r S)) (snd (writeCycleRun ?C r S'))"
    using T1 T U agree_publish [of C r _ q] sim_text [OF s]
    by (cases d; cases b) (simp_all add: writeCycleRun_def agree_def)
qed

lemma agree_write: "agree (sink_write C w) (sink_write (C\<lparr>sc_post := q\<rparr>) w)"
  by (cases w) (simp_all add: agree_intros)

lemma posts_ignored:
  "sim S S' \<Longrightarrow> sim (sink_all C ws S) (sink_all (C\<lparr>sc_post := q\<rparr>) ws S')"
  by (induction ws arbitrary: S S') (use agree_write in \<open>auto simp: agree_def\<close>)

section \<open>Every appended line is one line of JSON\<close>

definition lines_ok :: "sink \<Rightarrow> bool" where
  "lines_ok S \<longleftrightarrow> (\<forall>d f t. AppendLine d f t \<in> set (sk_disk S) \<longrightarrow> one_line t \<and> (\<exists>ob. t = json_text (JObj ob)))"

definition lined :: "sink_step \<Rightarrow> bool" where
  "lined f \<longleftrightarrow> (\<forall>S. lines_ok S \<longrightarrow> lines_ok (snd (f S)))"

named_theorems lined_intros \<open>steps that append only lines of JSON\<close>

lemma lined_pair: "lined f \<Longrightarrow> lines_ok S \<Longrightarrow> f S = (r, T) \<Longrightarrow> lines_ok T"
  unfolding lined_def by (metis snd_conv)

lemma lined_steps [lined_intros]: "list_all lined fs \<Longrightarrow> lined (sink_steps fs)"
proof (induction fs)
  case (Cons f fs)
  then have "lined f" "lined (sink_steps fs)" by simp_all
  then show ?case
    unfolding lined_def by (auto split: prod.split option.split)
qed (simp add: lined_def)

lemma lined_disk:
  assumes "\<And>d f t. op = AppendLine d f t \<Longrightarrow> \<exists>ob. t = json_text (JObj ob)"
  shows "lined (disk C op)"
proof -
  have "one_line t \<and> (\<exists>ob. t = json_text (JObj ob))" if "op = AppendLine d f t" for d f t
    using assms [OF that] json_text_one_line by (auto simp del: json_text.simps)
  then show ?thesis by (auto simp: lined_def disk_def lines_ok_def simp del: json_text.simps)
qed

lemma lined_keeps: "(\<And>S. sk_disk (snd (f S)) = sk_disk S) \<Longrightarrow> lined f"
  by (simp add: lined_def lines_ok_def)

lemma lined_local [lined_intros]: "lined (writeLocal C file v)"
  unfolding writeLocal_def by (rule lined_steps) (auto intro: lined_disk simp del: json_text.simps)

lemma lined_post [lined_intros]: "lined (postJson C url v)"
  by (rule lined_keeps) (simp add: postJson_def warn_def Let_def split: option.split)

lemma lined_status [lined_intros]: "lined (writeStatus C u)"
  unfolding writeStatus_def by (rule lined_steps) (simp add: lined_intros)

lemma lined_cost [lined_intros]: "lined (writeCost C r)"
  unfolding writeCost_def by (rule lined_steps) (simp add: lined_intros)

lemma lined_append [lined_intros]: "lined (appendTranscript r)"
  by (rule lined_keeps) (simp add: appendTranscript_def Let_def)

lemma lined_observe [lined_intros]: "lined (observeSink C p)"
  by (rule lined_keeps) (simp add: observeSink_def split: prod.split)

lemma lined_publish [lined_intros]: "lined (publish_cycle_run C r b)"
  unfolding publish_cycle_run_def by (rule lined_steps) (simp add: lined_intros)

lemma lined_plain [lined_intros]: "lined (plain_transcript C a t e)"
  by (auto simp: lined_def lines_ok_def plain_transcript_def disk_def warn_def split: option.split)

lemma lined_store: "lines_ok S \<Longrightarrow> lines_ok (snd (store_transcript C a t S))"
  by (auto simp: lines_ok_def store_transcript_def plain_transcript_def disk_def warn_def Let_def
      split: option.split sum.split)

lemma lined_cycle_run [lined_intros]: "lined (writeCycleRun C r)"
  unfolding lined_def
proof (intro allI impI)
  fix S assume "lines_ok S"
  then have s: "lines_ok (forget_transcript (cy_attemptId r) S)" by (simp add: lines_ok_def forget_transcript_def)
  obtain d T where T: "disk C (MakeDirectory (transcript_directory C)) (forget_transcript (cy_attemptId r) S) = (d, T)"
    by fastforce
  have "lined (disk C (MakeDirectory (transcript_directory C)))" by (rule lined_disk) simp
  then have "lines_ok T" using s T by (metis lined_def snd_conv)
  moreover obtain b U where U: "store_transcript C (cy_attemptId r) (stored_text (cy_attemptId r) S) T = (b, U)"
    by fastforce
  ultimately have "lines_ok U" using lined_store by (metis snd_conv)
  then show "lines_ok (snd (writeCycleRun C r S))"
    using T U \<open>lines_ok T\<close> lined_publish [of C r] by (cases d; cases b) (simp_all add: writeCycleRun_def lined_def)
qed

lemma lined_write: "lined (sink_write C w)"
  by (cases w) (simp_all add: lined_intros)

lemma lines_ok_all: "lines_ok S \<Longrightarrow> lines_ok (sink_all C ws S)"
  by (induction ws arbitrary: S) (use lined_write in \<open>auto simp: lined_def\<close>)

end
