(* ===== verification/Sink_Properties.thy ===== *)
theory Sink_Properties
  imports Sink_Facts Projection_Properties
begin

text \<open>
  The properties of the compatibility adapter: the metric store against its specification, the bounded
  and complete transcripts, the order of a cycle run's files, and, with the coordinator and the
  projection, the transcript of a whole attempt.
\<close>

section \<open>Metrics\<close>

text \<open>
  C11. After any sequence of observations a series of the metric store is exactly the summary of the
  accepted points with its key: the sum for a counter, the last value for a gauge, and for a histogram
  the number of points within every bound, their number and their sum. A point is accepted when its
  type and buckets are those of the first point of its name, and one that is not is refused with the
  error of the changed type or the changed buckets.
\<close>

theorem metric_store_exact:
  "map_of (ms_values (observed collate ps)) k =
     (case filter (\<lambda>p. metric_key collate p = k) (accepted_points ps) of
        [] \<Rightarrow> None | p # qs \<Rightarrow> Some (summary (p # qs))) \<and>
   fst (observe_metric collate q (observed collate ps)) =
     definition_issue q (map_option mp_type (find (\<lambda>p. mp_name p = mp_name q) ps))"
  using observed_series observed_rejects by simp

text \<open>
  The exposition shows the samples of every series exactly once, every metric name in one group,
  one sample per line when names and label names contain no line feed; and the value of a label can
  always be read back from its escaped text, which contains no line feed.
\<close>

theorem exposition_exact:
  assumes "plain_store S" "ms_values S \<noteq> []"
  shows "distinct (map fst (metric_groups_of collate S)) \<and>
    mset (concat (map (snd \<circ> snd) (metric_groups_of collate S))) =
      mset (concat (map (metric_lines collate \<circ> snd) (ms_values S))) \<and>
    split_on CHR 0x0A (render_metrics collate S) = render_lines collate S @ [[]] \<and>
    (\<forall>v. unescapeLabel (escapeLabel v) = v \<and> CHR 0x0A \<notin> set (escapeLabel v))"
  using groups_exact [of collate S] render_metrics_split [OF assms] unescape_escape escape_no_newline by auto

definition sample_store :: metric_store where
  "sample_store = observed (\<lambda>s. s)
     [counter ''cycles'' 2 [(''label'', ''a'' @ [CHR 0x0A, CHR 0x22])], counter ''cycles'' 3 [(''label'', ''b'')],
      histogram ''seconds'' 45 []]"

lemma sample_store_plain: "plain_store sample_store" "ms_values sample_store \<noteq> []"
  by (simp_all add: sample_store_def observed_def observe_metric_def empty_store_def definition_issue_def
      define_metric_def counter_def histogram_def metric_key_def stableLabels_def sortedEntries_def json_quote_def
      json_char_def first_metric_def observeHistogram_def plain_store_def metric_point_of_def plain_point_def
      plain_labels_def one_line_def)

theorem exposition_exact_witness:
  "length (render_lines (\<lambda>s. s) sample_store) + 1 = length (split_on CHR 0x0A (render_metrics (\<lambda>s. s) sample_store))"
  using exposition_exact [OF sample_store_plain, of "\<lambda>s. s"] by simp

section \<open>Local records\<close>

definition decimal_cost :: "cost_record \<Rightarrow> bool" where
  "decimal_cost r \<longleftrightarrow>
     decimal_number (cost_numTurns r) \<and> decimal_number (cost_durationMs r) \<and>
     decimal_number (ut_costUsd (cost_totals r)) \<and>
     list_all (\<lambda>n. decimal_number (of_nat n))
       [ut_inputTokens (cost_totals r), ut_outputTokens (cost_totals r), ut_cacheReadTokens (cost_totals r),
        ut_cacheWriteTokens (cost_totals r)] \<and>
     distinct (map fst (ut_modelUsage (cost_totals r))) \<and>
     list_all (\<lambda>(m, c). list_all (\<lambda>n. decimal_number (of_nat n))
       [mc_input c, mc_output c, mc_cacheRead c, mc_cacheWrite c]) (ut_modelUsage (cost_totals r))"

lemma printable_or_null [simp]: "printable (or_null s)"
  by (cases s) (simp_all add: or_null_def)

lemma printable_counts:
  "list_all (\<lambda>n. decimal_number (of_nat n)) [mc_input c, mc_output c, mc_cacheRead c, mc_cacheWrite c] \<Longrightarrow>
   printable (model_counts_value c)"
  by (simp add: model_counts_value_def num_nat_def)

lemma printable_usage:
  assumes "distinct (map fst us)"
    "list_all (\<lambda>(m, c). list_all (\<lambda>n. decimal_number (of_nat n)) [mc_input c, mc_output c, mc_cacheRead c, mc_cacheWrite c]) us"
  shows "printable (JObj (map (\<lambda>(m, c). (m, model_counts_value c)) us))"
proof -
  have k: "map fst (map (\<lambda>(m, c). (m, model_counts_value c)) us) = map fst us" by (induction us) auto
  have "list_all (\<lambda>(k, v). printable v) (map (\<lambda>(m, c). (m, model_counts_value c)) us)"
    using assms(2) by (induction us) (auto intro: printable_counts)
  then show ?thesis unfolding printable.simps k using assms(1) by simp
qed

lemma cost_keys_distinct: "distinct (map fst (toLegacyCostEntry r))"
  by (simp add: toLegacyCostEntry_def Let_def)

lemma printable_cost: "decimal_cost r \<Longrightarrow> printable (JObj (toLegacyCostEntry r))"
proof -
  assume d: "decimal_cost r"
  have "printable (JObj (map (\<lambda>(m, c). (m, model_counts_value c)) (ut_modelUsage (cost_totals r))))"
    using d by (intro printable_usage) (simp_all add: decimal_cost_def)
  then have "list_all (\<lambda>(k, v). printable v) (toLegacyCostEntry r)"
    using d by (simp add: toLegacyCostEntry_def Let_def num_nat_def num_rat_def decimal_cost_def del: printable.simps(4) add: printable.simps(1,2,3))
  then show ?thesis using cost_keys_distinct by simp
qed

text \<open>
  A cost record whose amounts have at most twenty decimals is read back from its line in
  \<open>costs.jsonl\<close> by \<open>JSON.parse\<close> as the same object, and the line contains no line feed, so that a
  reader of the file gets the records one per line.
\<close>

theorem cost_line_read_back:
  assumes "decimal_cost r"
  shows "json_parse (json_text (JObj (toLegacyCostEntry r))) = Some (JObj (toLegacyCostEntry r)) \<and>
    CHR 0x0A \<notin> set (json_text (JObj (toLegacyCostEntry r)))"
  using json_text_parses [OF printable_cost [OF assms]] json_text_one_line [of "JObj (toLegacyCostEntry r)"]
  by (simp add: one_line_def del: json_text.simps)

definition sample_totals :: usage_totals where
  "sample_totals =
     \<lparr>ut_inputTokens = 12, ut_outputTokens = 3, ut_cacheReadTokens = 0, ut_cacheWriteTokens = 0,
      ut_costUsd = 1 / 4, ut_costStatus = CostEstimated, ut_costIncomplete = False,
      ut_modelUsage = [(''m'', \<lparr>mc_input = 12, mc_output = 3, mc_cacheRead = 0, mc_cacheWrite = 0\<rparr>)], ut_model = ''m''\<rparr>"

definition sample_cost :: cost_record where
  "sample_cost =
     \<lparr>cost_timestamp = ''t'', cost_runId = ''run'', cost_attemptId = ''attempt'', cost_label = ''l'',
      cost_instanceId = ''i'', cost_sessionId = None, cost_numTurns = 2, cost_durationMs = 1500,
      cost_totals = sample_totals, cost_isError = False, cost_noWork = False, cost_externalKey = None,
      cost_repository = None, cost_workType = None, cost_summary = Some [CHR 0x0A, CHR 0x22, CHR 0x5C],
      cost_runtimeId = None, cost_providerId = ''p''\<rparr>"

lemma decimal_small: "is_integer (r * 10 ^ 20) \<Longrightarrow> \<bar>r\<bar> \<le> 1000000 \<Longrightarrow> decimal_number r"
  by (simp add: decimal_number_def overflow_bound_def)

lemma decimal_nat [simp]: "n \<le> 1000000 \<Longrightarrow> decimal_number (of_nat n)"
proof (rule decimal_small)
  have "of_nat n * 10 ^ 20 = (of_int (int n * 10 ^ 20) :: rat)" by simp
  then show "is_integer (of_nat n * 10 ^ 20)" by (metis is_integer_of_int)
  assume "n \<le> 1000000"
  then have "(of_nat n :: rat) \<le> of_nat 1000000" by (rule of_nat_mono)
  then show "\<bar>of_nat n :: rat\<bar> \<le> 1000000" by simp
qed

lemma decimal_sample_cost: "decimal_cost sample_cost"
proof -
  have q: "decimal_number (1 / 4)"
  proof (rule decimal_small)
    have "(1 / 4 :: rat) * 10 ^ 20 = of_int (25 * 10 ^ 18)" by simp
    then show "is_integer (1 / 4 * 10 ^ 20)" by (metis is_integer_of_int)
  qed simp
  have "decimal_number 2" "decimal_number 1500" "decimal_number 12" "decimal_number 3" "decimal_number 0"
    using decimal_nat [of 2] decimal_nat [of 1500] decimal_nat [of 12] decimal_nat [of 3] decimal_nat [of 0] by simp_all
  then show ?thesis using q by (simp add: decimal_cost_def sample_cost_def sample_totals_def)
qed

theorem cost_line_read_back_witness:
  "json_parse (json_text (JObj (toLegacyCostEntry sample_cost))) = Some (JObj (toLegacyCostEntry sample_cost))"
  using cost_line_read_back [OF decimal_sample_cost] by simp

section \<open>Effects\<close>

text \<open>
  C13. Whatever is written through the sink, at most eight attempts have a buffered transcript, each one
  once and with its own records only, and every line appended to a local file is one line of JSON. The
  answers to the posts, failures included, change nothing but the warnings: the files, the buffers, the
  metrics, the posts attempted and the error of the next write are the same for any other answers.
\<close>

theorem sink_bounded_and_posts_ignored:
  "buffers_ok (sk_transcripts (sink_all C ws new_sink)) \<and>
   lines_ok (sink_all C ws new_sink) \<and>
   sim (sink_all C ws new_sink) (sink_all (C\<lparr>sc_post := q\<rparr>) ws new_sink) \<and>
   fst (sink_write C w (sink_all C ws new_sink)) =
     fst (sink_write (C\<lparr>sc_post := q\<rparr>) w (sink_all (C\<lparr>sc_post := q\<rparr>) ws new_sink))"
proof -
  have "buffers_ok (sk_transcripts new_sink)" "lines_ok new_sink" "sim new_sink new_sink"
    by (simp_all add: new_sink_def buffers_ok_def lines_ok_def sim_def)
  then show ?thesis
    using buffers_ok_all lines_ok_all posts_ignored [of new_sink new_sink C ws q] agree_write [of C w q]
    by (simp add: agree_def)
qed

definition cycle_ops :: "sink_config \<Rightarrow> cycle_run_record \<Rightarrow> string \<Rightarrow> disk_op list" where
  "cycle_ops C r bytes =
     [MakeDirectory (transcript_directory C),
      WriteBytes (transcript_directory C) (cy_attemptId r @ ''.jsonl.zst'') bytes,
      MakeDirectory (sc_dataDirectory C),
      AppendLine (sc_dataDirectory C) ''cycle-runs.jsonl''
        (json_text (JObj (local_cycle_run r (toCycleRunPayload r (Some (base64 bytes))))))]"

lemma postJson_fst [simp]: "fst (postJson C url v S) = None"
  by (simp add: postJson_def Let_def split: option.split)

lemma postJson_disk [simp]: "sk_disk (snd (postJson C url v S)) = sk_disk S"
  by (simp add: postJson_def warn_def Let_def split: option.split)

lemma writeLocal_eq:
  "writeLocal C file v S =
    (let n = length (sk_disk S); mk = MakeDirectory (sc_dataDirectory C);
         line = AppendLine (sc_dataDirectory C) file (json_text (JObj v))
     in case sc_disk C n of
          Some e \<Rightarrow> (Some e, S\<lparr>sk_disk := sk_disk S @ [mk]\<rparr>)
        | None \<Rightarrow> (sc_disk C (Suc n), S\<lparr>sk_disk := sk_disk S @ [mk, line]\<rparr>))"
  by (simp add: writeLocal_def disk_def Let_def del: json_text.simps split: option.split)

lemma publish_eq:
  "publish_cycle_run C r b S =
    (case writeLocal C ''cycle-runs.jsonl'' (local_cycle_run r (toCycleRunPayload r (Some b))) S of
       (Some e, S') \<Rightarrow> (Some e, S')
     | (None, S') \<Rightarrow> (None, snd (postJson C (sc_cycleRunsUrl C) (toCycleRunPayload r (Some b)) S')))"
proof -
  have "sink_steps [postJson C u v] T = (None, snd (postJson C u v T))" for u v T
    using postJson_fst [of C u v T] by (cases "postJson C u v T") simp
  then show ?thesis by (simp add: publish_cycle_run_def split: prod.split option.split)
qed

lemma publish_outcome:
  "fst (publish_cycle_run C r b S) = None \<longleftrightarrow>
     sc_disk C (length (sk_disk S)) = None \<and> sc_disk C (Suc (length (sk_disk S))) = None"
  "fst (publish_cycle_run C r b S) = None \<Longrightarrow>
     sk_disk (snd (publish_cycle_run C r b S)) =
       sk_disk S @ [MakeDirectory (sc_dataDirectory C), AppendLine (sc_dataDirectory C) ''cycle-runs.jsonl''
         (json_text (JObj (local_cycle_run r (toCycleRunPayload r (Some b)))))]"
  by (simp_all add: publish_eq writeLocal_eq Let_def del: json_text.simps split: option.splits)

lemma disk_eq: "disk C op S = (sc_disk C (length (sk_disk S)), S\<lparr>sk_disk := sk_disk S @ [op]\<rparr>)"
  by (simp add: disk_def)

lemma four_cases: "(\<forall>i < 4. sc_disk C (n + i) = None) \<longleftrightarrow> sc_disk C n = None \<and> sc_disk C (Suc n) = None \<and>
    sc_disk C (Suc (Suc n)) = None \<and> sc_disk C (Suc (Suc (Suc n))) = None"
  by (simp add: eval_nat_numeral All_less_Suc conj_ac)

lemma store_outcome:
  "sc_compress C t = Inr bytes \<Longrightarrow> sc_disk C (length (sk_disk S)) = None \<Longrightarrow>
   store_transcript C a t S =
     (Inr (base64 bytes), S\<lparr>sk_disk := sk_disk S @ [WriteBytes (transcript_directory C) (a @ ''.jsonl.zst'') bytes]\<rparr>)"
  by (simp add: store_transcript_def disk_eq)

lemma store_fails:
  assumes "sc_disk C (length (sk_disk S)) \<noteq> None \<or> (\<exists>e. sc_compress C t = Inl e)"
  shows "\<exists>e S'. store_transcript C a t S = (Inl e, S') \<and> sk_posts S' = sk_posts S"
  using assms
  by (auto simp: store_transcript_def plain_transcript_def disk_eq warn_def split: option.split sum.split)

lemma store_uncompressed:
  "sc_compress C t = Inl e \<Longrightarrow> sc_disk C (length (sk_disk S)) = None \<Longrightarrow>
   \<exists>S'. store_transcript C a t S = (Inl (compression_error [] e), S') \<and> sk_posts S' = sk_posts S \<and>
     sk_disk S' = sk_disk S @ [WriteText (transcript_directory C) (a @ ''.jsonl'') t]"
  by (simp add: store_transcript_def plain_transcript_def disk_eq warn_def)

text \<open>
  C12. Writing a cycle run succeeds exactly when the transcript compresses and its four file operations
  work; then the file of the compressed transcript comes before the line of the cycle run, whose text
  points at it. When compression fails the plain transcript is kept in its place, no line is appended,
  nothing is posted and the error names the compression.
\<close>

theorem cycle_run_outcome:
  "(fst (writeCycleRun C r S) = None \<longleftrightarrow>
      (\<exists>bytes. sc_compress C (stored_text (cy_attemptId r) S) = Inr bytes) \<and> (\<forall>i < 4. sc_disk C (length (sk_disk S) + i) = None)) \<and>
    (\<forall>bytes. fst (writeCycleRun C r S) = None \<and> sc_compress C (stored_text (cy_attemptId r) S) = Inr bytes \<longrightarrow>
      sk_disk (snd (writeCycleRun C r S)) = sk_disk S @ cycle_ops C r bytes) \<and>
    (\<forall>e. sc_compress C (stored_text (cy_attemptId r) S) = Inl e \<and> (\<forall>i < 4. sc_disk C (length (sk_disk S) + i) = None) \<longrightarrow>
      fst (writeCycleRun C r S) = Some (compression_error [] e) \<and>
      sk_disk (snd (writeCycleRun C r S)) =
        sk_disk S @ [MakeDirectory (transcript_directory C),
                     WriteText (transcript_directory C) (cy_attemptId r @ ''.jsonl'') (stored_text (cy_attemptId r) S)] \<and>
      sk_posts (snd (writeCycleRun C r S)) = sk_posts S)"
proof -
  let ?S0 = "forget_transcript (cy_attemptId r) S"
  let ?S1 = "?S0\<lparr>sk_disk := sk_disk S @ [MakeDirectory (transcript_directory C)]\<rparr>"
  let ?t = "stored_text (cy_attemptId r) S"
  have s0: "sk_disk ?S0 = sk_disk S" "sk_posts ?S0 = sk_posts S" by (simp_all add: forget_transcript_def)
  have w: "writeCycleRun C r S =
      (case sc_disk C (length (sk_disk S)) of
         Some e \<Rightarrow> (Some e, ?S1)
       | None \<Rightarrow> (case store_transcript C (cy_attemptId r) ?t ?S1 of
                   (Inl e, S2) \<Rightarrow> (Some e, S2) | (Inr b, S2) \<Rightarrow> publish_cycle_run C r b S2))"
    by (simp add: writeCycleRun_def disk_eq s0 Let_def split: option.split)
  show ?thesis
  proof (cases "sc_disk C (length (sk_disk S))")
    case (Some e)
    then show ?thesis by (simp add: w four_cases)
  next
    case None
    note d0 = None
    show ?thesis
    proof (cases "sc_compress C ?t")
      case (Inl e)
      have "\<exists>e S'. store_transcript C (cy_attemptId r) ?t ?S1 = (Inl e, S') \<and> sk_posts S' = sk_posts ?S1"
        by (rule store_fails) (use Inl in simp)
      moreover have "sc_disk C (Suc (length (sk_disk S))) = None \<Longrightarrow>
          \<exists>S'. store_transcript C (cy_attemptId r) ?t ?S1 = (Inl (compression_error [] e), S') \<and>
            sk_posts S' = sk_posts ?S1 \<and>
            sk_disk S' = sk_disk ?S1 @ [WriteText (transcript_directory C) (cy_attemptId r @ ''.jsonl'') ?t]"
        by (rule store_uncompressed [OF Inl]) simp
      ultimately show ?thesis using Inl d0 s0 by (auto simp: w four_cases)
    next
      case (Inr bytes)
      show ?thesis
      proof (cases "sc_disk C (Suc (length (sk_disk S)))")
        case None
        let ?S2 = "?S1\<lparr>sk_disk := sk_disk ?S1 @ [WriteBytes (transcript_directory C) (cy_attemptId r @ ''.jsonl.zst'') bytes]\<rparr>"
        have "store_transcript C (cy_attemptId r) ?t ?S1 = (Inr (base64 bytes), ?S2)"
          by (rule store_outcome [OF Inr]) (use None in \<open>simp add:\<close>)
        then have "writeCycleRun C r S = publish_cycle_run C r (base64 bytes) ?S2" using d0 by (simp add: w)
        then show ?thesis
          using publish_outcome [of C r "base64 bytes" ?S2] Inr d0 None
          by (simp add: four_cases cycle_ops_def del: json_text.simps)
      next
        case (Some e)
        have "\<exists>e S'. store_transcript C (cy_attemptId r) ?t ?S1 = (Inl e, S') \<and> sk_posts S' = sk_posts ?S1"
          by (rule store_fails) (use Some in \<open>simp add:\<close>)
        then show ?thesis using Some Inr d0 by (auto simp: w four_cases)
      qed
    qed
  qed
qed

definition sample_config :: sink_config where
  "sample_config =
     \<lparr>sc_dataDirectory = ''/data'', sc_statusUrl = None, sc_costsUrl = None, sc_cycleRunsUrl = Some ''http://memory/api'',
      sc_compress = (\<lambda>t. Inl (RText ''spawn zstd ENOENT'')), sc_disk = (\<lambda>_. None),
      sc_post = (\<lambda>_. PostStatus 503), sc_collate = (\<lambda>s. s)\<rparr>"

definition sample_cycle_run :: cycle_run_record where
  "sample_cycle_run =
     \<lparr>cy_runId = ''run'', cy_attemptId = ''attempt'', cy_taskId = None, cy_cycleType = ''error'', cy_instanceId = ''i'',
      cy_startedAt = ''t0'', cy_finishedAt = ''t1'', cy_toolCalls = 0, cy_tokensUsed = 0, cy_inputPrompt = ''p'',
      cy_externalKey = None, cy_repository = None, cy_workType = None, cy_summary = None\<rparr>"

theorem cycle_run_outcome_witness:
  "fst (writeCycleRun sample_config sample_cycle_run new_sink) =
     Some (compression_error [] (RText ''spawn zstd ENOENT'')) \<and>
   sk_posts (snd (writeCycleRun sample_config sample_cycle_run new_sink)) = []"
  using cycle_run_outcome [of sample_config sample_cycle_run new_sink]
  by (simp add: sample_config_def new_sink_def)

section \<open>The transcript of a whole attempt\<close>

text \<open>A step that writes neither a transcript nor a cycle run, and what every step appends.\<close>

definition plain_write :: "written \<Rightarrow> bool" where
  "plain_write w \<longleftrightarrow> (\<forall>a rs. pend a w rs = rs) \<and> attempts_of [w] = {}"

definition plain_step :: "step \<Rightarrow> bool" where
  "plain_step f \<longleftrightarrow> (\<forall>S. \<exists>ws. pj_writes (snd (f S)) = pj_writes S @ ws \<and> list_all plain_write ws)"

lemma plain_writes [simp]: "plain_write (WroteStatus u)" "plain_write (WroteCost c)" "plain_write (WroteMetric p)"
  by (simp_all add: plain_write_def attempts_of_def)

lemma plain_kept: "(\<And>S. pj_writes (snd (f S)) = pj_writes S) \<Longrightarrow> plain_step f"
  by (simp add: plain_step_def)

lemma plain_attempt: "plain_write w \<Longrightarrow> plain_step (attempt_write W w)"
  by (simp add: plain_step_def attempt_write_def)

lemma plain_skip: "plain_step skip"
  by (rule plain_kept) (simp add: skip_def)

lemma plain_observe: "plain_step (observe W p)"
  by (simp add: observe_def plain_attempt plain_skip)

lemma plain_status_step: "plain_step (writeStatusSafely W u)"
  by (auto simp: plain_step_def writeStatusSafely_def attempt_write_def)

lemma plain_after: "plain_step f \<Longrightarrow> (\<And>S. pj_writes (g S) = pj_writes S) \<Longrightarrow> plain_step (\<lambda>S. f (g S))"
  unfolding plain_step_def by metis

lemma plain_seq: "list_all plain_step fs \<Longrightarrow> plain_step (steps fs)"
proof (induction fs)
  case (Cons f fs)
  then have f: "plain_step f" and fs: "plain_step (steps fs)" by simp_all
  show ?case
    unfolding plain_step_def
  proof
    fix S
    obtain r T where T: "f S = (r, T)" by fastforce
    obtain ws where ws: "pj_writes T = pj_writes S @ ws" "list_all plain_write ws"
      using f T unfolding plain_step_def by (metis snd_conv)
    obtain vs where "pj_writes (snd (steps fs T)) = pj_writes T @ vs" "list_all plain_write vs"
      using fs unfolding plain_step_def by blast
    then show "\<exists>ws. pj_writes (snd (steps (f # fs) S)) = pj_writes S @ ws \<and> list_all plain_write ws"
      using T ws by (cases r) auto
  qed
qed (simp add: plain_step_def)

lemma plain_at:
  "plain_step f \<Longrightarrow> pj_writes T = pj_writes S \<Longrightarrow> \<exists>ws. pj_writes (snd (f T)) = pj_writes S @ ws \<and> list_all plain_write ws"
  unfolding plain_step_def by metis

lemma plain_event_steps:
  "plain_step (session_step W e run)" "plain_step (record_step e run)" "plain_step (ready_step W e run)"
  "plain_step (observePolicyMetric W e run)" "plain_step (status_step environment W e run)"
proof -
  have put: "pj_writes (put_state k st S) = pj_writes S" for k st S by (simp add: put_state_def)
  show "plain_step (session_step W e run)"
    by (auto simp: plain_step_def session_step_def observeRuntimeSessionMetric_def Let_def put
        intro!: plain_at [OF plain_observe] split: option.split)
  show "plain_step (record_step e run)"
    by (rule plain_kept) (simp add: record_step_def Let_def put)
  show "plain_step (ready_step W e run)"
    by (auto simp: plain_step_def ready_step_def observeRuntimeHealthMetric_def Let_def put
        intro!: plain_at [OF plain_observe])
  show "plain_step (observePolicyMetric W e run)"
    by (simp add: observePolicyMetric_def plain_observe plain_skip split: option.split)
  show "plain_step (status_step environment W e run)"
    using plain_status_step [of W] by (auto simp: plain_step_def status_step_def split: option.split)
qed

text \<open>The writes of one event: plain ones around its transcript.\<close>

lemma event_writes:
  assumes "reliable W" "wr_transcripts W" "attemptKey e run \<notin> set (pj_completed S)"
  obtains us vs where "pj_writes (snd (onEvent environment W e run S)) =
      pj_writes S @ us @ [WroteTranscript (transcript_of e run)] @ vs"
    "list_all plain_write us" "list_all plain_write vs"
proof -
  define S1 where "S1 = snd (session_step W e run (stateFor e run S))"
  define S2 where "S2 = snd (record_step e run S1)"
  define S3 where "S3 = snd (transcript_step W e run S2)"
  define S4 where "S4 = snd (ready_step W e run S3)"
  define S5 where "S5 = snd (observePolicyMetric W e run S4)"
  define S6 where "S6 = snd (status_step environment W e run S5)"
  have out: "snd (onEvent environment W e run S) = S6"
    using assms(3)
    by (simp add: onEvent_def reliable_steps [OF assms(1) blamed_event_steps] S1_def S2_def S3_def S4_def S5_def S6_def
        del: steps.simps)
  have s0: "pj_writes (stateFor e run S) = pj_writes S" by (simp add: stateFor_def put_state_def)
  obtain a where a: "pj_writes S1 = pj_writes S @ a" "list_all plain_write a"
    using plain_event_steps(1) [of W e run] s0 unfolding plain_step_def S1_def by metis
  obtain b where b: "pj_writes S2 = pj_writes S1 @ b" "list_all plain_write b"
    using plain_event_steps(2) [of e run] unfolding plain_step_def S2_def by metis
  have t: "pj_writes S3 = pj_writes S2 @ [WroteTranscript (transcript_of e run)]"
    using assms(2) by (simp add: S3_def transcript_step_def attempt_write_def)
  obtain c where c: "pj_writes S4 = pj_writes S3 @ c" "list_all plain_write c"
    using plain_event_steps(3) [of W e run] unfolding plain_step_def S4_def by metis
  obtain d where d: "pj_writes S5 = pj_writes S4 @ d" "list_all plain_write d"
    using plain_event_steps(4) [of W e run] unfolding plain_step_def S5_def by metis
  obtain f where f: "pj_writes S6 = pj_writes S5 @ f" "list_all plain_write f"
    using plain_event_steps(5) [of environment W e run] unfolding plain_step_def S6_def by metis
  show thesis
    by (rule that [of "a @ b" "c @ d @ f"]) (simp_all add: out a b t c d f)
qed

lemma pending_append_plain: "list_all plain_write us \<Longrightarrow> pending a (ws @ us) = pending a ws"
  by (induction us arbitrary: ws rule: rev_induct)
     (simp_all add: append_assoc [symmetric] plain_write_def del: append_assoc)

lemma attempts_append: "attempts_of (ws @ us) = attempts_of ws \<union> attempts_of us"
  by (auto simp: attempts_of_def)

lemma attempts_plain: "list_all plain_write us \<Longrightarrow> attempts_of us = {}"
proof (induction us)
  case (Cons u us)
  then show ?case using attempts_append [of "[u]" us] by (simp add: plain_write_def)
qed (simp add: attempts_of_def)

definition transcribed :: "rehor_run \<Rightarrow> rehor_event list \<Rightarrow> projection \<Rightarrow> bool" where
  "transcribed run es S \<longleftrightarrow>
     pending (rn_attemptId run) (pj_writes S) = map (\<lambda>e. transcript_of e run) es \<and>
     attempts_of (pj_writes S) \<subseteq> {rn_attemptId run}"

lemma transcribed_event:
  assumes "reliable W" "wr_transcripts W" "attemptKey e run \<notin> set (pj_completed S)" "transcribed run es S"
  shows "transcribed run (es @ [e]) (snd (onEvent environment W e run S))"
proof -
  obtain us vs where w: "pj_writes (snd (onEvent environment W e run S)) =
      pj_writes S @ us @ [WroteTranscript (transcript_of e run)] @ vs"
    and p: "list_all plain_write us" "list_all plain_write vs"
    by (rule event_writes [OF assms(1-3)])
  have "pending a (pj_writes S @ us @ [WroteTranscript (transcript_of e run)] @ vs) =
      pend a (WroteTranscript (transcript_of e run)) (pending a (pj_writes S))" for a
    using pending_append_plain [OF p(2), of a "(pj_writes S @ us) @ [WroteTranscript (transcript_of e run)]"]
      pending_append_plain [OF p(1), of a "pj_writes S"] pending_simps(2) [of a "pj_writes S @ us"] by simp
  moreover have "attempts_of [WroteTranscript (transcript_of e run)] = {rn_attemptId run}"
    by (auto simp: attempts_of_def transcript_of_def)
  ultimately show ?thesis using assms(4) attempts_plain [OF p(1)] attempts_plain [OF p(2)]
    unfolding transcribed_def w attempts_append by (auto simp: transcript_of_def)
qed

lemma transcribed_open:
  assumes "reliable W" "wr_transcripts W"
    and "list_all (\<lambda>e. \<not> is_terminal e \<and> attemptKey e run = key) es" "key \<notin> set (pj_completed S)"
    and "transcribed run seen S"
  shows "transcribed run (seen @ es) (project_all environment W run es S) \<and>
    pj_completed (project_all environment W run es S) = pj_completed S"
  using assms(3-5)
proof (induction es arbitrary: S seen)
  case (Cons e es)
  let ?S = "snd (onEvent environment W e run S)"
  have "project_all environment W run (e # es) S = project_all environment W run es ?S"
    using Cons.prems(1) by (simp add: project_all_def project_one_reliable [OF assms(1)])
  moreover have "transcribed run (seen @ [e]) ?S"
    by (rule transcribed_event [OF assms(1,2)]) (use Cons.prems in auto)
  ultimately show ?case using Cons.IH [of ?S "seen @ [e]"] Cons.prems by simp
qed (simp add: project_all_def)

text \<open>The writes of the terminal: its cycle run among plain ones.\<close>

lemma terminal_writes:
  assumes W: "reliable W" "wr_cycleRuns W" and e: "is_terminal e" "attemptKey e run \<notin> set (pj_completed S)"
  obtains us c vs where "pj_writes (snd (onTerminal W e run S)) = pj_writes S @ us @ [WroteCycleRun c] @ vs"
    "cy_attemptId c = rn_attemptId run" "list_all plain_write us"
proof -
  define key where "key = attemptKey e run"
  define st where "st = state_of e key S"
  define S2 where "S2 = (let S1 = stateFor e run S in S1\<lparr>pj_completed := pj_completed S1 @ [key]\<rparr>)"
  have s2: "pj_writes S2 = pj_writes S" by (simp add: S2_def stateFor_def put_state_def Let_def)
  obtain f1 f2 c f4 where f: "terminal_steps W e run st = [f1, f2, attempt_write W (WroteCycleRun c), f4]"
      "plain_step f1" "plain_step f2" "cy_attemptId c = rn_attemptId run"
      "f4 = observeTerminalMetrics W run (stringPayload (terminal_context e) ''workType'') (str_of (obj_get (ev_payload e) ''state''))
        (aggregateUsage (as_ledger st) run)
        (num_or (elapsedMs (as_startedAt st) (ev_occurredAt e)) (obj_get (ev_payload e) ''durationMs''))
        (obj_get (ev_payload e) ''noWork'' = JBool True) (obj_get (ev_payload e) ''resourceLeak'' = JBool True)"
    using W(2) by (simp add: terminal_steps_def Let_def plain_status_step plain_attempt plain_skip buildCycleRunRecord_def)
  define T1 where "T1 = snd (f1 S2)"
  define T2 where "T2 = snd (f2 T1)"
  define T3 where "T3 = snd (attempt_write W (WroteCycleRun c) T2)"
  define T4 where "T4 = snd (f4 T3)"
  have T: "snd (steps (terminal_steps W e run st) S2) = T4"
    using blamed_terminal_steps [of W e run st]
    by (simp add: reliable_steps [OF W(1)] f(1) T1_def T2_def T3_def T4_def del: steps.simps)
  have out: "pj_writes (snd (onTerminal W e run S)) = pj_writes (snd (steps (terminal_steps W e run st) S2))"
    using e by (simp add: onTerminal_def assertTerminalEvent_def is_terminal_def Let_def S2_def st_def key_def
        trimCompletedAttempts_def split: prod.split)
  obtain a where a: "pj_writes T1 = pj_writes S @ a" "list_all plain_write a"
    using f(2) s2 unfolding plain_step_def T1_def by metis
  obtain b where b: "pj_writes T2 = pj_writes T1 @ b" "list_all plain_write b"
    using f(3) unfolding plain_step_def T2_def by metis
  have t: "pj_writes T3 = pj_writes T2 @ [WroteCycleRun c]" by (simp add: T3_def attempt_write_def)
  have "plain_step f4"
    unfolding f(5) observeTerminalMetrics_def by (rule plain_seq) (simp add: list_all_iff plain_observe)
  then obtain d where "pj_writes T4 = pj_writes T3 @ d" unfolding plain_step_def T4_def by metis
  then show thesis using that [of "a @ b" c d] out T a b t f(4) by simp
qed



end
