(* ===== verification/Cycle_Input.thy ===== *)
theory Cycle_Input
  imports Projection Bridge_Facts Project_Config Js_Path Json_Text
begin

text \<open>
  \<open>coordinator/src/instructions.ts\<close> and \<open>coordinator/src/cycle-input.ts\<close>: the layers of \<open>CLAUDE.md\<close>, the
  workflow directory, the cycle prompt, and the preparation of one cycle from the Python bridge's answers
  to its prompt and hashes. The files read, the outcome of a write and SHA-256 are given by a world; the
  writes that are made are listed.
\<close>

datatype file_read = FileText string | FileMissing | FileError reason

record cycle_world =
  cw_cwd :: string
  cw_read :: "string \<Rightarrow> file_read"
  cw_node :: "string \<Rightarrow> fs_node option"
  cw_write :: "string \<Rightarrow> reason option"
  cw_sha256 :: "string \<Rightarrow> string"
  cw_collate :: "string \<Rightarrow> string"
  cw_yaml :: "string \<Rightarrow> string + jsval"

section \<open>Instructions\<close>

definition isInstructionStrategy :: "jsval \<Rightarrow> bool" where
  "isInstructionStrategy v \<longleftrightarrow> (case v of JStr s \<Rightarrow> instruction_strategy_of s \<noteq> None | _ \<Rightarrow> False)"

datatype layer_name = CoreLayer | SharedLayer | WorkflowLayer | InstanceLayer

record instruction_layer =
  il_name :: layer_name
  il_path :: string
  il_content :: string

record instruction_request =
  ir_scriptDir :: string
  ir_workflow :: string
  ir_strategy :: "instruction_strategy option"
  ir_remoteAgentDir :: "string option"
  ir_sharedAgentDir :: "string option"

record assembled_instructions =
  ai_content :: string
  ai_hash :: content_hash
  ai_layers :: "instruction_layer list"

definition instruction_error :: "string \<Rightarrow> reason" where
  "instruction_error m = RError ''InstructionAssemblyError'' m False"

definition sha256Hash :: "cycle_world \<Rightarrow> string \<Rightarrow> content_hash" where
  "sha256Hash W s = \<lparr>ch_algorithm = ''sha256'', ch_value = cw_sha256 W s\<rparr>"

definition optionalFile :: "cycle_world \<Rightarrow> string \<Rightarrow> reason + string option" where
  "optionalFile W p =
     (case cw_read W p of FileText t \<Rightarrow> Inr (Some t) | FileMissing \<Rightarrow> Inr None | FileError e \<Rightarrow> Inl e)"

definition requiredFile :: "cycle_world \<Rightarrow> string \<Rightarrow> string \<Rightarrow> reason + string" where
  "requiredFile W p description =
     bindE (optionalFile W p) (\<lambda>content.
       case content of
         None \<Rightarrow> Inl (instruction_error (description @ '' not found at '' @ p))
       | Some t \<Rightarrow> Inr t)"

definition optionalLayerPath :: "cycle_world \<Rightarrow> string option \<Rightarrow> string \<Rightarrow> string option" where
  "optionalLayerPath W directory filename =
     (case nonempty directory of
        None \<Rightarrow> None
      | Some d \<Rightarrow> Some (path_join [path_resolve (cw_cwd W) [d], filename]))"

definition optional_layer :: "cycle_world \<Rightarrow> string option \<Rightarrow> reason + (string \<times> string) option" where
  "optional_layer W path =
     (case path of
        None \<Rightarrow> Inr None
      | Some p \<Rightarrow> bindE (optionalFile W p) (\<lambda>t. Inr (map_option (\<lambda>t. (p, t)) t)))"

definition layer :: "layer_name \<Rightarrow> string \<times> string \<Rightarrow> instruction_layer" where
  "layer n pt = \<lparr>il_name = n, il_path = fst pt, il_content = snd pt\<rparr>"

definition layer_list :: "layer_name \<Rightarrow> (string \<times> string) option \<Rightarrow> instruction_layer list" where
  "layer_list n pt = (case pt of None \<Rightarrow> [] | Some x \<Rightarrow> [layer n x])"

definition resolveWorkflowDir :: "cycle_world \<Rightarrow> string \<Rightarrow> string \<Rightarrow> string option \<Rightarrow> reason + string" where
  "resolveWorkflowDir W scriptDir workflow remoteAgentDir =
     (if prefix ''./'' workflow
      then (case nonempty remoteAgentDir of
              None \<Rightarrow> Inl (instruction_error (''workflow '' @ quoted workflow @
                        '' uses a relative path but no remote config is available''))
            | Some d \<Rightarrow> Inr (path_resolve (cw_cwd W) [d, drop 2 workflow]))
      else Inr (path_resolve (cw_cwd W) [scriptDir, ''presets'', ''workflows'', workflow]))"

text \<open>The layers after the core and the shared one, for a strategy and an instance file.\<close>

definition lower_layers ::
    "cycle_world \<Rightarrow> instruction_strategy \<Rightarrow> (string \<times> string) option \<Rightarrow> string \<Rightarrow> reason + instruction_layer list" where
  "lower_layers W strategy own workflowPath =
     (if strategy = ReplaceStrategy \<and> own \<noteq> None then Inr (layer_list InstanceLayer own)
      else bindE (optional_layer W (Some workflowPath)) (\<lambda>workflow.
        Inr (layer_list WorkflowLayer workflow @
             (if strategy = AppendStrategy then layer_list InstanceLayer own else []))))"

definition assembleInstructions :: "cycle_world \<Rightarrow> instruction_request \<Rightarrow> reason + assembled_instructions" where
  "assembleInstructions W req =
     (let scriptDir = path_resolve (cw_cwd W) [ir_scriptDir req];
          strategy = (case ir_strategy req of None \<Rightarrow> IgnoreStrategy | Some s \<Rightarrow> s);
          corePath = path_join [scriptDir, ''presets'', ''core'', ''CLAUDE.md'']
      in bindE (requiredFile W corePath ''core CLAUDE.md'') (\<lambda>core.
         bindE (optional_layer W (optionalLayerPath W (ir_sharedAgentDir req) ''CLAUDE.md'')) (\<lambda>shared.
         bindE (optional_layer W (optionalLayerPath W (ir_remoteAgentDir req) ''CLAUDE.md'')) (\<lambda>own.
         bindE (resolveWorkflowDir W scriptDir (ir_workflow req) (ir_remoteAgentDir req)) (\<lambda>workflowDir.
         bindE (lower_layers W strategy own (path_join [workflowDir, ''CLAUDE.md''])) (\<lambda>lower.
         let layers = layer CoreLayer (corePath, core) # layer_list SharedLayer shared @ lower;
             content = concat (map il_content layers)
         in Inr \<lparr>ai_content = content, ai_hash = sha256Hash W content, ai_layers = layers\<rparr>))))))"

section \<open>The prompt\<close>

text \<open>The dash and the arrow are the single characters 151 and 26 here.\<close>

definition em_dash :: string where
  "em_dash = [CHR 0x97]"

definition caveman_line :: string where
  "caveman_line =
     ''IMPORTANT: Use ULTRA caveman output for all internal text '' @ em_dash @ '' '' @
     ''drop articles, filler, hedging, conjunctions. Abbreviate: DB/auth/config/req/res/fn/impl/env/dep/pkg. '' @
     ''Arrows for causality (X '' @ [CHR 0x1A] @ '' Y). One word when one word enough. '' @
     ''Normal language ONLY for Jira comments, PR descriptions, commit messages.''"

record prompt_options =
  po_runtimeId :: "string option"
  po_label :: string
  po_instanceId :: "string option"
  po_preflightPrompt :: "string option"

definition instance_line :: "string option \<Rightarrow> string" where
  "instance_line instanceId =
     (case nonempty instanceId of
        None \<Rightarrow> []
      | Some i \<Rightarrow>
          '' Your instance ID is: '' @ i @ ''. Pass instance_id='' @ [CHR 0x22] @ i @ [CHR 0x22] @
          '' to ALL task tool calls (task_list, task_add, task_update, task_check_capacity, bot_status_update).'')"

definition buildCyclePrompt :: "prompt_options \<Rightarrow> string" where
  "buildCyclePrompt opts =
     (let guidance = (if isOpenCodeRuntime (po_runtimeId opts)
                      then ''Follow native OpenCode instructions and AGENTS.md.''
                      else ''Follow the instructions in CLAUDE.md.'');
          heading = ''Your primary label is: '' @ po_label opts @ ''.'' @ instance_line (po_instanceId opts) @
                    '' '' @ guidance @ '' '';
          break = [CHR 0x0A, CHR 0x0A]
      in case nonempty (po_preflightPrompt opts) of
           Some p \<Rightarrow>
             heading @ caveman_line @ break @ ''## Pre-flight Data'' @ break @
             ''The following data was gathered by pre-flight scripts. '' @
             ''Do NOT re-fetch task statuses, PR statuses, or Jira comments already shown below. '' @
             ''Do NOT invoke /triage '' @ em_dash @ '' triage data is already provided.'' @ break @ p
         | None \<Rightarrow>
             heading @ ''Start by invoking the /triage skill to pre-gather task and PR data. '' @ caveman_line)"

section \<open>Preparing a cycle\<close>

record prepare_options =
  pp_scriptDir :: string
  pp_label :: string
  pp_instanceId :: "string option"
  pp_strategy :: "instruction_strategy option"

record prepared_cycle =
  pr_config :: config_preparation
  pr_instructions :: "assembled_instructions option"
  pr_nativeConfig :: "project_configuration option"
  pr_preflight :: "preflight_result option"
  pr_prompt :: "string option"
  pr_instructionHash :: content_hash
  pr_configHash :: content_hash
  pr_preflightPayloadRef :: "string option"

text \<open>What is done to \<open>CLAUDE.md\<close>: its new text, or its removal.\<close>

type_synonym file_effect = "string \<times> string option"

definition layer_at :: "cycle_world \<Rightarrow> string \<Rightarrow> layer_directory" where
  "layer_at W p = (p, case cw_node W p of Some (FsDir children) \<Rightarrow> Some children | _ \<Rightarrow> None)"

definition plain_error :: "issue \<Rightarrow> reason" where
  "plain_error m = RError ''Error'' m False"

definition as_reason :: "issue + 'a \<Rightarrow> reason + 'a" where
  "as_reason r = (case r of Inl m \<Rightarrow> Inl (plain_error m) | Inr x \<Rightarrow> Inr x)"

text \<open>
  \<open>loadOpenCodeProjectConfig\<close> with its guidance directories: the profile is loaded before the workflow
  directory is resolved, and its error comes first.
\<close>

definition load_native :: "cycle_world \<Rightarrow> prepare_options \<Rightarrow> config_preparation \<Rightarrow> reason + project_configuration" where
  "load_native W opts c =
     (let agent = map_option (\<lambda>d. (d, cw_node W d)) (nonempty (cf_remoteAgentDir c))
      in bindE (as_reason (loadProfileConfig (cw_collate W) (cw_yaml W) agent)) (\<lambda>_.
         bindE (resolveWorkflowDir W (pp_scriptDir opts) (cf_workflow c) (cf_remoteAgentDir c)) (\<lambda>workflowDir.
         as_reason (loadOpenCodeProjectConfig (cw_collate W) (cw_yaml W) agent
           (Some \<lparr>gd_core = layer_at W (path_join [pp_scriptDir opts, ''presets'', ''core'']),
                  gd_shared = map_option (layer_at W) (nonempty (cf_sharedAgentDir c)),
                  gd_workflow = layer_at W workflowDir\<rparr>)))))"

definition native_value :: "project_configuration \<Rightarrow> jsval" where
  "native_value n =
     JObj [(''settings'', JObj (pc_settings n)),
           (''files'', JArr (map (\<lambda>(p, t). JObj [(''path'', JStr p), (''content'', JStr t)]) (pc_files n)))]"

definition config_hash_value :: "config_preparation \<Rightarrow> bool \<Rightarrow> content_hash \<Rightarrow> jsval" where
  "config_hash_value c assembled h =
     JObj ([(''model'', JStr (cf_model c)), (''runtimeId'', JStr (cf_runtimeId c)),
            (''providerId'', JStr (cf_providerId c)), (''budgetUsd'', JNum (Fin (cf_budgetUsd c))),
            (''intervalSeconds'', JNum (Fin (cf_intervalSeconds c))),
            (''idleIntervalSeconds'', JNum (Fin (cf_idleIntervalSeconds c))),
            (''cycleTimeoutSeconds'', JNum (Fin (cf_cycleTimeoutSeconds c))),
            (''idleReminderCooldownSeconds'', JNum (Fin (cf_idleReminderCooldownSeconds c))),
            (''workflow'', JStr (cf_workflow c)), (''source'', JStr (cf_source c)),
            (''envs'', null_or strs_to_val (cf_envs c)), (''activeEnvs'', strs_to_val (cf_activeEnvs c))] @
           (if assembled then [(''claudeMdStrategy'', JStr (instruction_strategy_text (cf_claudeMdStrategy c)))] else []) @
           [(''idleCycleLimit'', JNum (Fin (of_nat (cf_idleCycleLimit c)))),
            (''mcpServers'', servers_to_val (cf_openCodeMcpServers c)),
            (''allowedTools'', strs_to_val (cf_allowedTools c)),
            (''optionalMcpServers'', strs_to_val (cf_optionalMcpServers c)),
            (''instructionHash'', JStr (ch_value h))])"

definition cycle_guidance ::
    "cycle_world \<Rightarrow> prepare_options \<Rightarrow> config_preparation \<Rightarrow>
     reason + assembled_instructions option \<times> project_configuration option" where
  "cycle_guidance W opts c =
     (if isOpenCodeRuntime (Some (cf_runtimeId c))
      then bindE (load_native W opts c) (\<lambda>n. Inr (None, Some n))
      else bindE (assembleInstructions W
             \<lparr>ir_scriptDir = pp_scriptDir opts, ir_workflow = cf_workflow c,
              ir_strategy = Some (case pp_strategy opts of None \<Rightarrow> cf_claudeMdStrategy c | Some s \<Rightarrow> s),
              ir_remoteAgentDir = cf_remoteAgentDir c, ir_sharedAgentDir = cf_sharedAgentDir c\<rparr>)
             (\<lambda>a. Inr (Some a, None)))"

definition instruction_hash ::
    "cycle_world \<Rightarrow> assembled_instructions option \<Rightarrow> project_configuration option \<Rightarrow> content_hash" where
  "instruction_hash W instructions native =
     (case instructions of
        Some a \<Rightarrow> ai_hash a
      | None \<Rightarrow> sha256Hash W (json_text (stableJson (case native of None \<Rightarrow> Undef | Some n \<Rightarrow> native_value n))))"

definition starts :: "preflight_result option \<Rightarrow> bool" where
  "starts preflight \<longleftrightarrow> (case preflight of None \<Rightarrow> True | Some p \<Rightarrow> pf_action p = PfStart)"

definition cycle_result ::
    "cycle_world \<Rightarrow> prepare_options \<Rightarrow> config_preparation \<Rightarrow> assembled_instructions option \<Rightarrow>
     project_configuration option \<Rightarrow> preflight_result option \<Rightarrow> prepared_cycle" where
  "cycle_result W opts c instructions native preflight =
     (let h = instruction_hash W instructions native
      in \<lparr>pr_config = c, pr_instructions = instructions, pr_nativeConfig = native, pr_preflight = preflight,
          pr_prompt =
            (if starts preflight
             then Some (buildCyclePrompt
               \<lparr>po_runtimeId = Some (cf_runtimeId c), po_label = pp_label opts, po_instanceId = pp_instanceId opts,
                po_preflightPrompt = map_option pf_prompt preflight\<rparr>)
             else None),
          pr_instructionHash = h,
          pr_configHash = sha256Hash W (json_text (config_hash_value c (instructions \<noteq> None) h)),
          pr_preflightPayloadRef =
            (case preflight of
               None \<Rightarrow> None
             | Some p \<Rightarrow>
                 if pf_action p = PfStart
                 then Some (''preflight://sha256/'' @ cw_sha256 W (json_text (preflight_to_val p))) else None)\<rparr>)"

text \<open>The two requests of the bridge are the processes \<open>P\<close> and \<open>Q\<close>.\<close>

definition prepareCycleInput ::
    "cycle_world \<Rightarrow> bridge_process \<Rightarrow> bridge_process \<Rightarrow> prepare_options \<Rightarrow>
     (reason + prepared_cycle) \<times> file_effect list" where
  "prepareCycleInput W P Q opts =
     (case bridge_prepareConfig P of
        Inl e \<Rightarrow> (Inl e, [])
      | Inr c \<Rightarrow>
          (case cycle_guidance W opts c of
             Inl e \<Rightarrow> (Inl e, [])
           | Inr (instructions, native) \<Rightarrow>
               (let eff = (cf_claudeMdPath c, map_option ai_content instructions)
                in case cw_write W (cf_claudeMdPath c) of
                     Some e \<Rightarrow> (Inl e, [eff])
                   | None \<Rightarrow>
                       (case bridge_preflight Q of
                          Inl e \<Rightarrow> (Inl e, [eff])
                        | Inr preflight \<Rightarrow> (Inr (cycle_result W opts c instructions native preflight), [eff])))))"

end
