(* ===== verification/Runtime_Factory.thy ===== *)
theory Runtime_Factory
  imports Coordinator Render_Config Python_Bridge
begin

text \<open>
  \<open>coordinator/src/runtime-factory.ts\<close>: the registry of runtime adapters, the selection of one for a
  run, the two default registrations and the execution of the selected run. A factory's \<open>create\<close> is
  a function of its context that fails, gives no runtime, or gives the attempt that runs it.
\<close>

definition default_runtime_id :: string where
  "default_runtime_id = ''claude''"

definition factory_error :: "string \<Rightarrow> reason" where
  "factory_error m = RError ''RuntimeFactoryError'' m False"

record factory_context =
  fc_run :: rehor_run
  fc_runtimeId :: string
  fc_preparedConfig :: "config_preparation option"
  fc_nativeConfig :: "project_configuration option"

type_synonym runtime_create = "factory_context \<Rightarrow> reason + attempt option"

type_synonym registry = "(string \<times> runtime_create) list"

section \<open>The registry\<close>

definition register :: "string \<times> runtime_create \<Rightarrow> registry \<Rightarrow> reason + registry" where
  "register factory R =
     (if fst factory = [] then Inl (factory_error ''runtime factory must have a runtimeId'')
      else if map_of R (fst factory) \<noteq> None
      then Inl (factory_error (''runtime factory already registered: '' @ fst factory))
      else Inr (R @ [factory]))"

definition new_registry :: "(string \<times> runtime_create) list \<Rightarrow> reason + registry" where
  "new_registry factories = foldE register factories []"

definition has_runtime :: "string \<Rightarrow> registry \<Rightarrow> bool" where
  "has_runtime runtimeId R \<longleftrightarrow> map_of R runtimeId \<noteq> None"

definition runtimeIds :: "registry \<Rightarrow> string list" where
  "runtimeIds R = map fst R"

text \<open>The pattern of a runtime id is that of the run schema, \<open>runtime_id_ok\<close>.\<close>

definition resolveRuntimeSelection :: "string option \<Rightarrow> reason + string" where
  "resolveRuntimeSelection runtimeId =
     (let t = (case runtimeId of None \<Rightarrow> [] | Some s \<Rightarrow> trim s);
          resolved = (if t = [] then default_runtime_id else t)
      in if runtime_id_ok resolved then Inr resolved
         else Inl (factory_error (''invalid runtimeId: '' @ quoted resolved)))"

definition create_runtime ::
    "registry \<Rightarrow> string \<Rightarrow> rehor_run \<Rightarrow> config_preparation option \<Rightarrow> project_configuration option \<Rightarrow> reason + attempt" where
  "create_runtime R runtimeId run preparedConfig nativeConfig =
     bindE (resolveRuntimeSelection (Some runtimeId)) (\<lambda>selected.
       case map_of R selected of
         None \<Rightarrow>
           Inl (factory_error (''no runtime factory registered for '' @ quoted selected @ '' (available: '' @
             (if R = [] then ''none'' else join_text '', '' (runtimeIds R)) @ '')''))
       | Some create \<Rightarrow>
           bindE (create \<lparr>fc_run = run, fc_runtimeId = selected, fc_preparedConfig = preparedConfig,
                          fc_nativeConfig = nativeConfig\<rparr>) (\<lambda>runtime.
             case runtime of
               None \<Rightarrow> Inl (factory_error (''runtime factory returned no runtime: '' @ selected))
             | Some A \<Rightarrow> Inr A))"

section \<open>The registered adapters\<close>

definition createDefaultRuntimeRegistry :: "runtime_create \<Rightarrow> reason + registry" where
  "createDefaultRuntimeRegistry claude = new_registry [(default_runtime_id, claude)]"

text \<open>
  The OpenCode factory renders the configuration of the cycle; a failure is handed to the runtime,
  which reports it, so creating never fails. The runtime is a function of what was rendered.
\<close>

definition opencode_rendered ::
    "platform \<Rightarrow> (string \<Rightarrow> string + jsval) \<Rightarrow> deployment_config \<Rightarrow> environment \<Rightarrow> factory_context \<Rightarrow>
     issue + rendered_config" where
  "opencode_rendered pf yaml deployment env ctx =
     (case fc_nativeConfig ctx of
        None \<Rightarrow> Inl ''OpenCode requires a prepared nativeConfig snapshot''
      | Some native \<Rightarrow>
          (let preparation =
             (case fc_preparedConfig ctx of
                None \<Rightarrow> \<lparr>cy_model = pv_requestedModel (rn_provider (fc_run ctx)), cy_mcpServers = [],
                         cy_allowedTools = [], cy_optionalMcpServers = []\<rparr>
              | Some c \<Rightarrow> \<lparr>cy_model = cf_model c, cy_mcpServers = cf_openCodeMcpServers c,
                           cy_allowedTools = cf_allowedTools c, cy_optionalMcpServers = cf_optionalMcpServers c\<rparr>)
           in renderOpenCodeConfigForCycle pf yaml preparation (pv_id (rn_provider (fc_run ctx))) deployment
                native (parseVertexAllowedModels (map_of env ''VERTEX_ALLOWED_MODELS''))))"

definition createOpenCodeRuntimeFactory ::
    "platform \<Rightarrow> (string \<Rightarrow> string + jsval) \<Rightarrow> deployment_config \<Rightarrow> environment \<Rightarrow>
     (issue + rendered_config \<Rightarrow> attempt) \<Rightarrow> string \<times> runtime_create" where
  "createOpenCodeRuntimeFactory pf yaml deployment env runtime =
     (opencode_runtime_id, \<lambda>ctx. Inr (Some (runtime (opencode_rendered pf yaml deployment env ctx))))"

section \<open>Running the selected adapter\<close>

definition executeValidatedSelectedRun ::
    "registry \<Rightarrow> string \<Rightarrow> rehor_run \<Rightarrow> config_preparation option \<Rightarrow> project_configuration option \<Rightarrow>
     (reason + coordinator_result \<times> consumer) option" where
  "executeValidatedSelectedRun R runtimeId run preparedConfig nativeConfig =
     (case resolveRuntimeSelection (Some runtimeId) of
        Inl e \<Rightarrow> Some (Inl e)
      | Inr selected \<Rightarrow>
          (let run' = run\<lparr>rn_runtimeId := Some selected\<rparr>
           in case create_runtime R selected run' preparedConfig nativeConfig of
                Inl e \<Rightarrow> Some (Inl e)
              | Inr A \<Rightarrow> executeRunWithValidatedInput A run'))"

definition executeSelectedRun ::
    "registry \<Rightarrow> string \<Rightarrow> jsval \<Rightarrow> config_preparation option \<Rightarrow> project_configuration option \<Rightarrow>
     (reason + coordinator_result \<times> consumer) option" where
  "executeSelectedRun R runtimeId input preparedConfig nativeConfig =
     (case parseRehorRun input of
        Inl err \<Rightarrow> Some (Inl (contract_reason err))
      | Inr run \<Rightarrow> executeValidatedSelectedRun R runtimeId run preparedConfig nativeConfig)"

definition executeConfiguredRun ::
    "registry \<Rightarrow> jsval \<Rightarrow> config_preparation option \<Rightarrow> project_configuration option \<Rightarrow>
     (reason + coordinator_result \<times> consumer) option" where
  "executeConfiguredRun R input preparedConfig nativeConfig =
     (case parseRehorRun input of
        Inl err \<Rightarrow> Some (Inl (contract_reason err))
      | Inr run \<Rightarrow>
          (case resolveRuntimeSelection (rn_runtimeId run) of
             Inl e \<Rightarrow> Some (Inl e)
           | Inr selected \<Rightarrow> executeValidatedSelectedRun R selected run preparedConfig nativeConfig))"

section \<open>Facts\<close>

text \<open>A registry holds every id once, and none is empty.\<close>

definition registry_ok :: "registry \<Rightarrow> bool" where
  "registry_ok R \<longleftrightarrow> distinct (map fst R) \<and> list_all (\<lambda>f. fst f \<noteq> []) R"

lemma register_ok: "register f R = Inr R' \<Longrightarrow> registry_ok R \<Longrightarrow> registry_ok R' \<and> R' = R @ [f]"
  by (auto simp: register_def registry_ok_def map_of_eq_None_iff split: if_splits)

lemma new_registry_ok:
  assumes "new_registry fs = Inr R" shows "registry_ok R \<and> R = fs"
proof -
  have "foldE register fs R0 = Inr R \<Longrightarrow> registry_ok R0 \<Longrightarrow> registry_ok R \<and> R = R0 @ fs" for R0
  proof (induction fs arbitrary: R0)
    case (Cons f fs)
    then obtain R1 where "register f R0 = Inr R1" "foldE register fs R1 = Inr R" by (auto simp: bindE_Inr)
    then show ?case using Cons register_ok by fastforce
  qed simp
  then show ?thesis using assms by (fastforce simp: new_registry_def registry_ok_def)
qed

lemma resolve_valid: "resolveRuntimeSelection r = Inr s \<Longrightarrow> runtime_id_ok s"
  by (simp add: resolveRuntimeSelection_def Let_def split: if_splits)

lemma lower_not_space: "is_lower_letter c \<or> is_digit c \<or> c = CHR ''-'' \<Longrightarrow> \<not> is_space c"
  by (auto simp: is_lower_letter_def is_digit_def is_space_def Let_def)

lemma trim_no_space: "list_all (\<lambda>c. \<not> is_space c) s \<Longrightarrow> trim s = s"
proof -
  assume a: "list_all (\<lambda>c. \<not> is_space c) s"
  have d: "list_all (\<lambda>c. \<not> is_space c) t \<Longrightarrow> dropWhile is_space t = t" for t by (cases t) simp_all
  have "list_all (\<lambda>c. \<not> is_space c) (rev s)" using a by (simp add: list_all_iff)
  then show ?thesis by (simp add: trim_def d a)
qed

lemma resolve_resolved: "runtime_id_ok s \<Longrightarrow> resolveRuntimeSelection (Some s) = Inr s"
proof -
  assume v: "runtime_id_ok s"
  then have "list_all (\<lambda>c. \<not> is_space c) s" "s \<noteq> []"
    using lower_not_space by (auto simp: runtime_id_ok_def list_all_iff)
  then show ?thesis using trim_no_space v by (simp add: resolveRuntimeSelection_def)
qed

end
