(* ===== verification/Runner.thy ===== *)
theory Runner
  imports Cycle_Input Runtime_Factory Loop Diagnostics Compatibility_Sink
begin

text \<open>
  \<open>coordinator/src/runner.ts\<close>: the checks of a deployment before a cycle may run, the resolved MCP
  servers of the Claude adapter, the run built from a prepared cycle, what counts as a failed run, and the
  hooks the loop is given. Bridge calls, writers and git are given by how they end; what the hooks do is
  listed in order.
\<close>

section \<open>Checking the deployment\<close>

definition config_error :: "string \<Rightarrow> issue option" where
  "config_error m = Some m"

text \<open>\<open>/^(?:\{env:(NAME)\}|\$\{(NAME)\})$/\<close>\<close>

definition enclosed :: "string \<Rightarrow> string \<Rightarrow> string option" where
  "enclosed opening s =
     (if prefix opening s \<and> length opening < length s \<and> last s = CHR ''}''
      then (let name = butlast (drop (length opening) s) in if env_name_ok name then Some name else None)
      else None)"

definition exactEnvironmentReference :: "jsval \<Rightarrow> string option" where
  "exactEnvironmentReference v =
     (case v of
        JStr s \<Rightarrow> (case enclosed ''{env:'' s of Some n \<Rightarrow> Some n | None \<Rightarrow> enclosed ''${'' s)
      | _ \<Rightarrow> None)"

definition provider_setting :: "obj \<Rightarrow> string \<Rightarrow> jsval" where
  "provider_setting provider key = obj_get (obj_of (obj_get provider ''settings'')) key"

text \<open>The URL has no credentials, no query and no fragment.\<close>

definition bare_url :: "url_parts \<Rightarrow> bool" where
  "bare_url u \<longleftrightarrow> ur_username u = [] \<and> ur_password u = [] \<and> ur_search u = [] \<and> ur_hash u = []"

definition deployment_provider :: "obj \<Rightarrow> string" where
  "deployment_provider provider = ''OpenCode deployment provider '' @ quoted (provider_id provider)"

definition validateVertexProxyConfig :: "platform \<Rightarrow> obj \<Rightarrow> environment \<Rightarrow> issue option" where
  "validateVertexProxyConfig pf provider env =
     (if exactEnvironmentReference (provider_setting provider ''baseURL'') \<noteq> Some vertex_proxy_url_environment
      then config_error (deployment_provider provider @ '' baseURL must reference '' @ vertex_proxy_url_environment)
      else (case pf_urlOf pf (resolveVertexProxyUrl env) of
              None \<Rightarrow> config_error (deployment_provider provider @ '' has an invalid Vertex proxy URL'')
            | Some u \<Rightarrow>
                if ur_protocol u \<noteq> ''http:'' \<or> ur_hostname u = [] \<or> ur_port u \<noteq> ''8443'' \<or>
                   (ur_pathname u \<noteq> [] \<and> ur_pathname u \<noteq> ''/'') \<or> \<not> bare_url u
                then config_error (deployment_provider provider @ '' proxy URL must be http://<proxy-host>:8443'')
                else None))"

text \<open>A variable that is set to something other than blanks.\<close>

definition set_variable :: "environment \<Rightarrow> string \<Rightarrow> string option" where
  "set_variable env name =
     (case map_of env name of None \<Rightarrow> None | Some v \<Rightarrow> if trim v = [] then None else Some v)"

definition gateway_issue :: "platform \<Rightarrow> obj \<Rightarrow> string \<Rightarrow> issue option" where
  "gateway_issue pf provider url =
     (case pf_urlOf pf (trim url) of
        None \<Rightarrow> config_error (deployment_provider provider @ '' has an invalid gateway URL'')
      | Some u \<Rightarrow>
          if ur_protocol u \<noteq> ''http:'' \<or> ur_hostname u = [] \<or> ur_port u \<noteq> ''8450'' \<or> ur_pathname u \<noteq> ''/v1'' \<or>
             \<not> bare_url u
          then config_error (deployment_provider provider @ '' gateway URL must be http://<proxy-host>:8450/v1'')
          else None)"

definition token_issue :: "obj \<Rightarrow> environment \<Rightarrow> issue option" where
  "token_issue provider env =
     (case exactEnvironmentReference (provider_setting provider ''apiKey'') of
        None \<Rightarrow> config_error (deployment_provider provider @
                  '' apiKey must reference the bot-to-proxy token environment'')
      | Some name \<Rightarrow>
          if set_variable env name = None
          then config_error (deployment_provider provider @ '' requires bot-to-proxy token environment '' @ quoted name)
          else None)"

definition validateOpenAIGatewayConfig :: "platform \<Rightarrow> obj \<Rightarrow> environment \<Rightarrow> issue option" where
  "validateOpenAIGatewayConfig pf provider env =
     (case provider_setting provider ''baseURL'' of
        JStr baseURL \<Rightarrow>
          if trim baseURL = [] then config_error (deployment_provider provider @ '' requires a gateway URL'')
          else
            (let reference = exactEnvironmentReference (JStr (trim baseURL))
             in case (case reference of Some name \<Rightarrow> set_variable env name | None \<Rightarrow> Some baseURL) of
                  None \<Rightarrow>
                    config_error (deployment_provider provider @ '' requires gateway URL environment variable '' @
                      quoted (case reference of Some name \<Rightarrow> name | None \<Rightarrow> ''undefined''))
                | Some url \<Rightarrow>
                    (case gateway_issue pf provider url of Some e \<Rightarrow> Some e | None \<Rightarrow> token_issue provider env))
      | _ \<Rightarrow> config_error (deployment_provider provider @ '' requires a gateway URL''))"

definition after_slash :: "string \<Rightarrow> string" where
  "after_slash model = last (split_on CHR ''/'' model)"

definition declares_model :: "obj \<Rightarrow> string \<Rightarrow> bool" where
  "declares_model provider modelId \<longleftrightarrow> obj_get (obj_of (obj_get provider ''models'')) modelId \<noteq> Undef"

definition small_model :: "deployment_config \<Rightarrow> string \<Rightarrow> string \<Rightarrow> string list \<Rightarrow> string" where
  "small_model deployment providerId model allowedModels =
     (case dc_smallModel deployment of
        Some m \<Rightarrow> m
      | None \<Rightarrow>
          (case resolveDefaultSmallModel providerId model (map provider_models (dc_providers deployment)) allowedModels of
             Some m \<Rightarrow> m | None \<Rightarrow> model))"

definition vertex_model_issue :: "obj \<Rightarrow> deployment_config \<Rightarrow> string \<Rightarrow> string list \<Rightarrow> issue option" where
  "vertex_model_issue provider deployment model allowedModels =
     (let modelId = after_slash model;
          smallId = after_slash (small_model deployment (provider_id provider) model allowedModels)
      in if allowedModels = [] then config_error ''OpenCode Vertex provider requires VERTEX_ALLOWED_MODELS''
         else if modelId \<notin> set allowedModels
         then config_error (''OpenCode Vertex model '' @ quoted modelId @ '' is not in VERTEX_ALLOWED_MODELS'')
         else if smallId \<noteq> modelId \<and> \<not> declares_model provider smallId
         then config_error (''OpenCode Vertex provider does not declare small model '' @ quoted smallId)
         else if smallId \<notin> set allowedModels
         then config_error (''OpenCode Vertex small model '' @ quoted smallId @ '' is not in VERTEX_ALLOWED_MODELS'')
         else None)"

definition declared_model_issue :: "obj \<Rightarrow> deployment_config \<Rightarrow> string \<Rightarrow> string list \<Rightarrow> issue option" where
  "declared_model_issue provider deployment model allowedModels =
     (if provider_id provider = ''rehor-openai-chat'' \<or> provider_id provider = ''vertex''
      then (if \<not> declares_model provider (after_slash model)
            then config_error (deployment_provider provider @ '' does not declare prepared model '' @ quoted (after_slash model))
            else if provider_id provider = ''vertex'' then vertex_model_issue provider deployment model allowedModels
            else None)
      else None)"

definition selected_provider :: "deployment_config \<Rightarrow> string \<Rightarrow> obj option" where
  "selected_provider deployment providerId =
     find (\<lambda>provider. obj_get provider ''id'' = JStr providerId) (dc_providers deployment)"

definition mismatch_issue :: "config_preparation \<Rightarrow> deployment_config \<Rightarrow> issue option" where
  "mismatch_issue c deployment =
     (case dc_providerId deployment of
        Some p \<Rightarrow>
          if p \<noteq> cf_providerId c
          then config_error (''OpenCode deployment provider '' @ quoted p @ '' does not match prepared provider '' @
                 quoted (cf_providerId c))
          else None
      | None \<Rightarrow> None)"

definition model_mismatch_issue :: "config_preparation \<Rightarrow> deployment_config \<Rightarrow> issue option" where
  "model_mismatch_issue c deployment =
     (case dc_model deployment of
        Some m \<Rightarrow>
          if m \<noteq> cf_model c
          then config_error (''OpenCode deployment model '' @ quoted m @ '' does not match prepared model '' @
                 quoted (cf_model c))
          else None
      | None \<Rightarrow> None)"

definition preparation_of :: "config_preparation \<Rightarrow> cycle_preparation" where
  "preparation_of c =
     \<lparr>cy_model = cf_model c, cy_mcpServers = cf_openCodeMcpServers c, cy_allowedTools = cf_allowedTools c,
      cy_optionalMcpServers = cf_optionalMcpServers c\<rparr>"

definition empty_profile :: project_configuration where
  "empty_profile = \<lparr>pc_settings = [], pc_files = []\<rparr>"

definition validateOpenCodeDeployment ::
    "platform \<Rightarrow> (string \<Rightarrow> string + jsval) \<Rightarrow> config_preparation \<Rightarrow> deployment_config \<Rightarrow> environment \<Rightarrow> issue option" where
  "validateOpenCodeDeployment pf yaml c deployment env =
     (if \<not> isOpenCodeRuntime (Some (cf_runtimeId c)) then None
      else
        (let allowedModels = parseVertexAllowedModels (map_of env ''VERTEX_ALLOWED_MODELS'')
         in first_issue
              [mismatch_issue c deployment, model_mismatch_issue c deployment,
               (case selected_provider deployment (cf_providerId c) of
                  None \<Rightarrow>
                    config_error (''OpenCode deployment does not declare prepared provider '' @
                      quoted (cf_providerId c) @ ''; '' @
                      ''supply a deployment config (--opencode-deployment-config or '' @
                      ''REHOR_OPENCODE_DEPLOYMENT_CONFIG) that declares it'')
                | Some provider \<Rightarrow>
                    first_issue
                      [declared_model_issue provider deployment (cf_model c) allowedModels,
                       (if provider_id provider = ''rehor-openai'' \<or> provider_id provider = ''rehor-openai-chat''
                        then validateOpenAIGatewayConfig pf provider env else None),
                       (if provider_id provider = ''vertex'' then validateVertexProxyConfig pf provider env else None)]),
               issue_of (renderOpenCodeConfigForCycle pf yaml (preparation_of c) (cf_providerId c) deployment
                           empty_profile allowedModels)]))"

section \<open>MCP servers of the Claude adapter\<close>

definition name_rx :: rx where
  "name_rx = seq [Cls (\<lambda>c. is_alpha c \<or> c = CHR ''_''), Rep (alnum_or ''_'') 0 True]"

definition reference_rx :: rx where
  "reference_rx = alts [seq [lit ''${'', Cap 1 name_rx, lit ''}''], seq [lit ''{env:'', Cap 1 name_rx, lit ''}'']]"

text \<open>\<open>value.replace(re, f)\<close> with an \<open>f\<close> that can throw.\<close>

fun replaceE_from :: "nat \<Rightarrow> rx \<Rightarrow> (rx_result \<Rightarrow> 'e + string) \<Rightarrow> string \<Rightarrow> 'e + string" where
  "replaceE_from 0 r f s = Inr s"
| "replaceE_from (Suc n) r f s =
     (case rx_first r s of
        Some m \<Rightarrow> bindE (f m) (\<lambda>t. bindE (replaceE_from n r f (rx_rest m)) (\<lambda>u. Inr (t @ u)))
      | None \<Rightarrow>
          (case s of [] \<Rightarrow> Inr [] | c # cs \<Rightarrow> bindE (replaceE_from n r f cs) (\<lambda>u. Inr (c # u))))"

definition resolve_match :: "environment \<Rightarrow> string \<Rightarrow> rx_result \<Rightarrow> issue + string" where
  "resolve_match env path m =
     (case map_of env (group 1 m) of
        None \<Rightarrow> Inl (''missing environment variable '' @ group 1 m @ '' for MCP '' @ path)
      | Some v \<Rightarrow> Inr v)"

definition resolveReference :: "environment \<Rightarrow> string \<Rightarrow> string \<Rightarrow> issue + string" where
  "resolveReference env path s = replaceE_from (Suc (length s)) reference_rx (resolve_match env path) s"

fun resolveRecord :: "environment \<Rightarrow> string \<Rightarrow> (string \<times> string) list \<Rightarrow> issue + (string \<times> string) list" where
  "resolveRecord env path [] = Inr []"
| "resolveRecord env path ((k, v) # kvs) =
     bindE (resolveReference env (path @ ''.'' @ k) v) (\<lambda>v'.
     bindE (resolveRecord env path kvs) (\<lambda>kvs'. Inr ((k, v') # kvs')))"

definition option_mapE :: "('a \<Rightarrow> 'e + 'b) \<Rightarrow> 'a option \<Rightarrow> 'e + 'b option" where
  "option_mapE f x = (case x of None \<Rightarrow> Inr None | Some y \<Rightarrow> bindE (f y) (\<lambda>z. Inr (Some z)))"

fun resolve_server :: "environment \<Rightarrow> string \<Rightarrow> mcp_server \<Rightarrow> issue + mcp_server" where
  "resolve_server env name (StdioServer typed command args vars opts) =
     bindE (resolveReference env (name @ ''.command'') command) (\<lambda>command'.
     bindE (option_mapE (mapE_from 0 (\<lambda>i v. resolveReference env (at_index (name @ ''.args'') i) v)) args) (\<lambda>args'.
     bindE (option_mapE (resolveRecord env (name @ ''.env'')) vars) (\<lambda>vars'.
     Inr (StdioServer typed command' args' vars' opts))))"
| "resolve_server env name (RemoteServer kind url headers opts) =
     bindE (resolveReference env (name @ ''.url'') url) (\<lambda>url'.
     bindE (option_mapE (resolveRecord env (name @ ''.headers'')) headers) (\<lambda>headers'.
     Inr (RemoteServer kind url' headers' opts)))"

fun resolveMcpServers :: "environment \<Rightarrow> (string \<times> mcp_server) list \<Rightarrow> issue + (string \<times> mcp_server) list" where
  "resolveMcpServers env [] = Inr []"
| "resolveMcpServers env ((name, s) # ss) =
     bindE (resolve_server env name s) (\<lambda>s'. bindE (resolveMcpServers env ss) (\<lambda>ss'. Inr ((name, s') # ss')))"

text \<open>
  The registry of a cycle: the Claude adapter over the resolved servers and, for an OpenCode cycle whose
  deployment passes the checks, the OpenCode adapter.
\<close>

definition createRuntimeRegistryForCycle ::
    "platform \<Rightarrow> (string \<Rightarrow> string + jsval) \<Rightarrow> config_preparation \<Rightarrow> deployment_config \<Rightarrow> environment \<Rightarrow>
     ((string \<times> mcp_server) list \<Rightarrow> string list \<Rightarrow> runtime_create) \<Rightarrow> (issue + rendered_config \<Rightarrow> attempt) \<Rightarrow>
     reason + registry" where
  "createRuntimeRegistryForCycle pf yaml c deployment env claude runtime =
     bindE (as_reason (resolveMcpServers env (cf_mcpServers c))) (\<lambda>servers.
     bindE (createDefaultRuntimeRegistry (claude servers (cf_allowedTools c))) (\<lambda>R.
     case validateOpenCodeDeployment pf yaml c deployment env of
       Some e \<Rightarrow> Inl (plain_error e)
     | None \<Rightarrow>
         if \<not> isOpenCodeRuntime (Some (cf_runtimeId c)) then Inr R
         else register (createOpenCodeRuntimeFactory pf yaml deployment env runtime) R))"

end
