(* ===== verification/Runner_Cycle.thy ===== *)
theory Runner_Cycle
  imports Runner
begin

text \<open>
  The hooks that \<open>runCoordinator\<close> of \<open>coordinator/src/runner.ts\<close> gives the loop: how a cycle is
  prepared, how its run is built, executed and judged, what is called for a decision, for the cleanup and
  for an error. A call on the bridge or a writer is a value; a hook performs its calls in order up to the
  first that fails. Git, the file system and the URL serializer of the platform are given by a world.
\<close>

section \<open>Delays\<close>

definition secondsToMs :: "jsnum \<Rightarrow> string \<Rightarrow> reason + rat" where
  "secondsToMs v name =
     (if \<not> is_finite v \<or> fin_val v < 0 then Inl (range_error (name @ '' must be non-negative''))
      else (case js_mul v 1000 of
              Fin ms \<Rightarrow> if is_safe_integer (Fin ms) then Inr ms else Inl (range_error (name @ '' is too large''))
            | _ \<Rightarrow> Inl (range_error (name @ '' is too large''))))"

section \<open>The run of a cycle\<close>

text \<open>
  \<open>rw_git\<close> gives the output of a git command that succeeds, \<open>rw_bareUrl\<close> the text of a parsed URL without
  user name and password.
\<close>

record run_world =
  rw_realpath :: "string \<Rightarrow> string option"
  rw_git :: "string \<Rightarrow> string list \<Rightarrow> string option"
  rw_bareUrl :: "string \<Rightarrow> string option"
  rw_sha256 :: "string \<Rightarrow> string"
  rw_uuid :: "nat \<Rightarrow> string"

record run_options =
  ro_scriptDir :: string
  ro_instanceId :: string
  ro_label :: string
  ro_workspacePath :: "string option"
  ro_repository :: "string option"
  ro_snapshot :: "repository_snapshot option"
  ro_task :: "task_identity option"
  ro_policyVersion :: "string option"
  ro_reasoningEffort :: "string option"

definition gitValue :: "run_world \<Rightarrow> string \<Rightarrow> string list \<Rightarrow> string option" where
  "gitValue W p args = (case rw_git W p args of None \<Rightarrow> None | Some out \<Rightarrow> nonempty (Some (trim out)))"

definition or_else :: "'a option \<Rightarrow> 'a \<Rightarrow> 'a" where
  "or_else x d = (case x of None \<Rightarrow> d | Some y \<Rightarrow> y)"

definition inspectSnapshot :: "run_world \<Rightarrow> string \<Rightarrow> repository_snapshot" where
  "inspectSnapshot W p =
     (let status = gitValue W p [''status'', ''--porcelain'', ''--untracked-files=all'']
      in \<lparr>sn_ref = or_else (gitValue W p [''symbolic-ref'', ''--short'', ''HEAD'']) ''unknown'',
          sn_commitSha = or_else (gitValue W p [''rev-parse'', ''HEAD'']) ''unknown'',
          sn_dirty = (status = None \<or> or_else status [] \<noteq> [])\<rparr>)"

definition user_info_rx :: rx where
  "user_info_rx = seq [lit ''//'', Rep (\<lambda>c. c \<noteq> CHR ''/'' \<and> c \<noteq> CHR ''@'') 1 True, lit ''@'']"

text \<open>\<open>value.replace(re, t)\<close> without the flag \<open>g\<close>.\<close>

fun replace_first :: "rx \<Rightarrow> string \<Rightarrow> string \<Rightarrow> string" where
  "replace_first r t [] = (case rx_first r [] of Some m \<Rightarrow> t @ rx_rest m | None \<Rightarrow> [])"
| "replace_first r t (c # cs) =
     (case rx_first r (c # cs) of Some m \<Rightarrow> t @ rx_rest m | None \<Rightarrow> c # replace_first r t cs)"

definition redactRepository :: "run_world \<Rightarrow> string \<Rightarrow> string" where
  "redactRepository W s =
     (case rw_bareUrl W s of
        Some u \<Rightarrow> if u \<noteq> [] \<and> last u = CHR ''/'' then butlast u else u
      | None \<Rightarrow> replace_first user_info_rx ''//'' s)"

definition timeout_number :: "rat \<Rightarrow> jsnum" where
  "timeout_number seconds =
     (case js_mul (Fin seconds) 1000 of Fin ms \<Rightarrow> Fin (max 1 (of_int \<lfloor>ms\<rfloor>)) | NegInf \<Rightarrow> Fin 1 | n \<Rightarrow> n)"

definition built_run :: "run_world \<Rightarrow> prepared_cycle \<Rightarrow> string \<Rightarrow> run_options \<Rightarrow> rehor_run" where
  "built_run W p prompt opts =
     (let c = pr_config p;
          given = or_else (ro_workspacePath opts) (ro_scriptDir opts);
          workspacePath = or_else (rw_realpath W given) given;
          repository =
            or_else (ro_repository opts)
              (or_else (gitValue W workspacePath [''remote'', ''get-url'', ''origin'']) workspacePath);
          snapshot = or_else (ro_snapshot opts) (inspectSnapshot W workspacePath)
      in \<lparr>rn_runId = rw_uuid W 0, rn_attemptId = rw_uuid W 1, rn_instanceId = ro_instanceId opts,
          rn_label = ro_label opts, rn_workflowId = cf_workflow c, rn_prompt = prompt, rn_task = ro_task opts,
          rn_worktree = \<lparr>wt_path = workspacePath, wt_repository = redactRepository W repository,
                         wt_snapshot = snapshot\<rparr>,
          rn_instructionHash = pr_instructionHash p, rn_configHash = pr_configHash p,
          rn_policyHash = \<lparr>ch_algorithm = ''sha256'',
            ch_value = rw_sha256 W (or_else (ro_policyVersion opts) ''rehor-coordinator-policy-v1'')\<rparr>,
          rn_runtimeId = Some (cf_runtimeId c),
          rn_provider = \<lparr>pv_id = cf_providerId c, pv_requestedModel = cf_model c,
                         pv_reasoningEffort = ro_reasoningEffort opts\<rparr>,
          rn_limits = \<lparr>lm_timeoutMs = nat \<lfloor>fin_val (timeout_number (cf_cycleTimeoutSeconds c))\<rfloor>,
                       lm_budgetUsd = cf_budgetUsd c, lm_maxOutputTokens = None\<rparr>,
          rn_preflightPayloadRef = pr_preflightPayloadRef p\<rparr>)"

text \<open>
  The built value is the object of that run, but for a time limit that overflows, which the object carries
  as infinity.
\<close>

definition buildRehorRun :: "run_world \<Rightarrow> prepared_cycle \<Rightarrow> run_options \<Rightarrow> reason + jsval" where
  "buildRehorRun W p opts =
     (case nonempty (pr_prompt p) of
        None \<Rightarrow> Inl (plain_error ''cannot build a run without a prepared prompt'')
      | Some prompt \<Rightarrow>
          Inr (JObj (obj_set ''limits''
            (JObj [(''timeoutMs'', JNum (timeout_number (cf_cycleTimeoutSeconds (pr_config p)))),
                   (''budgetUsd'', JNum (Fin (cf_budgetUsd (pr_config p))))])
            (run_to_obj (built_run W p prompt opts)))))"

section \<open>What a finished run counts as\<close>

definition tolerated_reasons :: "string list" where
  "tolerated_reasons = [''budget_exceeded'', ''max_turns'', ''error_max_turns'']"

definition plain_object :: diag_object where
  "plain_object =
     \<lparr>do_name = DOther, do_message = DOther, do_code = DOther, do_statusCode = DOther, do_cause = DOther,
      do_data = DOther, do_isError = False, do_stack = []\<rparr>"

definition terminal_reason_value :: "jsval \<Rightarrow> diag_value" where
  "terminal_reason_value v = (case v of JStr s \<Rightarrow> DText s | _ \<Rightarrow> DUndef)"

definition run_outcome :: "coordinator_result \<Rightarrow> reason option" where
  "run_outcome r =
     (case cr_error r of
        Some e \<Rightarrow> Some e
      | None \<Rightarrow>
          (let payload = ev_payload (cr_terminal r);
               state = obj_get payload ''state''; why = obj_get payload ''reason''
           in if state = JStr ''timed_out'' \<or>
                 (state = JStr ''failed'' \<and> why \<notin> JStr ` set tolerated_reasons)
              then Some (plain_error (''runtime returned a '' @ str_of state @ '' terminal state: '' @
                     providerDiagnostic (\<lambda>_. plain_object) (terminal_reason_value why)))
              else None))"

text \<open>What is not an \<open>Error\<close> is wrapped in one.\<close>

definition failure_of :: "reason \<Rightarrow> reason" where
  "failure_of e = (case e of RError _ _ _ \<Rightarrow> e | _ \<Rightarrow> plain_error ''Run failed'')"

definition cycle_environment :: "config_preparation \<Rightarrow> environment \<Rightarrow> environment" where
  "cycle_environment c env =
     (case nonempty (or_else (cf_gitConfigGlobal c) None) of
        None \<Rightarrow> env | Some g \<Rightarrow> AList.update ''GIT_CONFIG_GLOBAL'' g env)"

text \<open>What a cycle runs with: the deployment and the two adapters that build an attempt.\<close>

record cycle_setup =
  su_platform :: platform
  su_yaml :: "string \<Rightarrow> string + jsval"
  su_deployment :: deployment_config
  su_claude :: "(string \<times> mcp_server) list \<Rightarrow> string list \<Rightarrow> runtime_create"
  su_opencode :: "issue + rendered_config \<Rightarrow> attempt"

definition run_result :: "reason + coordinator_result \<times> consumer \<Rightarrow> reason + coordinator_result" where
  "run_result x =
     (case x of
        Inl e \<Rightarrow> Inl (failure_of e)
      | Inr (r, _) \<Rightarrow> (case run_outcome r of None \<Rightarrow> Inr r | Some e \<Rightarrow> Inl (failure_of e)))"

definition run_hook ::
    "cycle_setup \<Rightarrow> run_world \<Rightarrow> run_options \<Rightarrow> environment \<Rightarrow> prepared_cycle \<Rightarrow>
     (reason + coordinator_result) option" where
  "run_hook X W opts env p =
     (case buildRehorRun W p opts of
        Inl e \<Rightarrow> Some (Inl e)
      | Inr run \<Rightarrow>
          (case createRuntimeRegistryForCycle (su_platform X) (su_yaml X) (pr_config p) (su_deployment X)
                  (cycle_environment (pr_config p) env) (su_claude X) (su_opencode X) of
             Inl e \<Rightarrow> Some (Inl (failure_of e))
           | Inr R \<Rightarrow> map_option run_result (executeConfiguredRun R run (Some (pr_config p)) (pr_nativeConfig p))))"

section \<open>Preparing\<close>

text \<open>
  The intervals are set before the deployment is checked, and a cycle is prepared only when it passes.
\<close>

definition cycle_intervals :: "config_preparation \<Rightarrow> reason + jsnum \<times> jsnum" where
  "cycle_intervals c =
     bindE (secondsToMs (Fin (cf_intervalSeconds c)) ''intervalSeconds'') (\<lambda>i.
     bindE (secondsToMs (Fin (cf_idleIntervalSeconds c)) ''idleIntervalSeconds'') (\<lambda>d. Inr (Fin i, Fin d)))"

definition prepare_hook ::
    "cycle_setup \<Rightarrow> environment \<Rightarrow> reason option \<Rightarrow> reason + prepared_cycle \<Rightarrow>
     (jsnum \<times> jsnum) option \<times> (reason + prepared_cycle)" where
  "prepare_hook X env maintenance prepared =
     (case maintenance of
        Some e \<Rightarrow> (None, Inl e)
      | None \<Rightarrow>
          (case prepared of
             Inl e \<Rightarrow> (None, Inl e)
           | Inr p \<Rightarrow>
               (case cycle_intervals (pr_config p) of
                  Inl e \<Rightarrow> (None, Inl e)
                | Inr ds \<Rightarrow>
                    (case validateOpenCodeDeployment (su_platform X) (su_yaml X) (pr_config p) (su_deployment X) env of
                       Some e \<Rightarrow> (Some ds, Inl (plain_error e))
                     | None \<Rightarrow> (Some ds, Inr p)))))"

section \<open>Calls on the bridge and the writers\<close>

datatype hook_call =
    CallReady
  | CallIdleStart
  | CallIdleSkip nat rat
  | CallMetric metric_point
  | CallStatus status_update
  | CallPreflight preflight_input
  | CallCleanup
  | CallOnError reason loop_phase

text \<open>
  \<open>hc_has\<close> tells the hooks and writers that exist (\<open>?.\<close>), \<open>hc_ends\<close> how a call ends.
\<close>

record hook_config =
  hc_label :: string
  hc_instanceId :: string
  hc_has :: "hook_call \<Rightarrow> bool"
  hc_ends :: "hook_call \<Rightarrow> reason option"

fun perform :: "hook_config \<Rightarrow> hook_call list \<Rightarrow> hook_call list \<times> reason option" where
  "perform C [] = ([], None)"
| "perform C (x # xs) =
     (if \<not> hc_has C x then perform C xs
      else (case hc_ends C x of
              Some e \<Rightarrow> ([x], Some e)
            | None \<Rightarrow> (let (ys, r) = perform C xs in (x # ys, r))))"

definition gauge :: "string \<Rightarrow> rat \<Rightarrow> (string \<times> string) list \<Rightarrow> metric_point" where
  "gauge name v labels = \<lparr>mp_type = Gauge, mp_name = name, mp_value = v, mp_labels = labels\<rparr>"

text \<open>The cleanup reports the free space of the disk it was told.\<close>

definition cleanup_calls :: "rat option \<Rightarrow> hook_call list" where
  "cleanup_calls freeMb =
     CallCleanup # (case freeMb of None \<Rightarrow> [] | Some mb \<Rightarrow> [CallMetric (gauge ''devbot_disk_free_mb'' mb [])])"

definition cleanup_hook :: "hook_config \<Rightarrow> rat option \<Rightarrow> hook_call list \<times> reason option" where
  "cleanup_hook C freeMb = perform C (cleanup_calls (if hc_has C CallCleanup then freeMb else None))"

definition error_count :: "hook_config \<Rightarrow> nat \<Rightarrow> hook_call" where
  "error_count C n =
     CallMetric (gauge ''devbot_preflight_consecutive_errors'' (of_nat n) [(''label'', hc_label C)])"

definition preflight_record :: "hook_config \<Rightarrow> bool \<Rightarrow> preflight_result option \<Rightarrow> preflight_input" where
  "preflight_record C idle preflight =
     (let t = (case preflight of None \<Rightarrow> [] | Some r \<Rightarrow> pf_transcript r)
      in \<lparr>pi_label = hc_label C, pi_instanceId = hc_instanceId C, pi_idle = idle, pi_transcript = t,
          pi_inputPrompt = t, pi_startedAt = None, pi_finishedAt = None\<rparr>)"

definition start_calls :: "hook_config \<Rightarrow> nat \<Rightarrow> hook_call list" where
  "start_calls C n =
     [CallIdleStart,
      CallMetric (counter ''devbot_preflight_outcome_total'' 1 [(''label'', hc_label C), (''action'', ''start'')]),
      error_count C n]"

definition no_run_calls :: "hook_config \<Rightarrow> bool \<Rightarrow> nat \<Rightarrow> prepared_cycle option \<Rightarrow> hook_call list" where
  "no_run_calls C idle n prepared =
     (case prepared of
        Some p \<Rightarrow> if idle then [CallIdleSkip (cf_idleCycleLimit (pr_config p))
                                  (cf_idleReminderCooldownSeconds (pr_config p))] else []
      | None \<Rightarrow> []) @
     [CallMetric (counter ''devbot_work_type_total'' 1
        [(''label'', hc_label C), (''work_type'', if idle then ''idle'' else ''error'')]),
      error_count C n,
      CallPreflight (preflight_record C idle (case prepared of None \<Rightarrow> None | Some p \<Rightarrow> pr_preflight p))]"

definition decision_calls ::
    "hook_config \<Rightarrow> cycle_plan \<Rightarrow> prepared_cycle option \<Rightarrow> rat option \<Rightarrow> hook_call list" where
  "decision_calls C plan prepared freeMb =
     CallReady #
     (if cp_decision plan = DecideRun
      then (case prepared of
              Some p \<Rightarrow>
                if map_option pf_action (pr_preflight p) = Some PfStart
                then start_calls C (cp_consecutiveErrors plan) else []
            | None \<Rightarrow> [])
      else no_run_calls C (cp_decision plan = DecideIdle) (cp_consecutiveErrors plan) prepared @
           cleanup_calls (if hc_has C CallCleanup then freeMb else None))"

definition decision_hook ::
    "hook_config \<Rightarrow> cycle_plan \<Rightarrow> prepared_cycle option \<Rightarrow> rat option \<Rightarrow> hook_call list \<times> reason option" where
  "decision_hook C plan prepared freeMb = perform C (decision_calls C plan prepared freeMb)"

fun phase_name :: "loop_phase \<Rightarrow> string" where
  "phase_name AdmissionPhase = ''admission''"
| "phase_name PreparePhase = ''prepare''"
| "phase_name DecisionPhase = ''decision''"
| "phase_name RunPhase = ''run''"
| "phase_name CleanupPhase = ''cleanup''"
| "phase_name SleepPhase = ''sleep''"

definition error_calls :: "hook_config \<Rightarrow> reason \<Rightarrow> loop_phase \<Rightarrow> hook_call list" where
  "error_calls C e phase =
     (if phase \<noteq> CleanupPhase \<and> phase \<noteq> DecisionPhase
      then [CallStatus
              \<lparr>st_state = ''error'',
               st_message = (if phase = PreparePhase then ''Preflight failed '' else ''Coordinator failed '') @
                 em_dash @ '' check bot.log'',
               st_instanceId = hc_instanceId C, st_externalKey = None, st_repository = None\<rparr>]
      else []) @
     [CallMetric (counter ''devbot_coordinator_errors_total'' 1 [(''label'', hc_label C), (''phase'', phase_name phase)]),
      CallOnError e phase]"

definition error_hook :: "hook_config \<Rightarrow> reason \<Rightarrow> loop_phase \<Rightarrow> hook_call list \<times> reason option" where
  "error_hook C e phase = perform C (error_calls C e phase)"

section \<open>The environment of a cycle of the loop\<close>

text \<open>
  What a cycle of the loop sees of these hooks: the decision hook is called with the plan that the scheduler
  makes of the preparation. The run's outcome must exist.
\<close>

definition decision_end ::
    "hook_config \<Rightarrow> scheduler \<Rightarrow> reason + prepared_cycle \<Rightarrow> rat option \<Rightarrow> reason option" where
  "decision_end C S prepared freeMb =
     (case prepared of
        Inl e \<Rightarrow> snd (decision_hook C (fst (planForPreflight (Some (errorPreflight e)) S)) None freeMb)
      | Inr p \<Rightarrow> snd (decision_hook C (fst (planForPreflight (pr_preflight p) S)) (Some p) freeMb))"

end
