(* ===== verification/Runner_Properties.thy ===== *)
theory Runner_Properties
  imports Runner_Cycle Attempt_Facts
begin

text \<open>
  The properties of the preparation of a cycle and of the checks before it runs.
\<close>

section \<open>Instruction layers\<close>

definition file_there :: "cycle_world \<Rightarrow> string option \<Rightarrow> bool" where
  "file_there W p \<longleftrightarrow>
     (case p of None \<Rightarrow> False | Some q \<Rightarrow> (case cw_read W q of FileText _ \<Rightarrow> True | _ \<Rightarrow> False))"

lemma optional_layer_Inr:
  "optional_layer W p = Inr r \<Longrightarrow>
   (case r of None \<Rightarrow> \<not> file_there W p | Some (q, t) \<Rightarrow> p = Some q \<and> cw_read W q = FileText t)"
  by (auto simp: optional_layer_def optionalFile_def bindE_Inr file_there_def
      split: option.splits file_read.splits)

lemma required_Inr: "requiredFile W p d = Inr t \<Longrightarrow> cw_read W p = FileText t"
  by (auto simp: requiredFile_def optionalFile_def bindE_Inr split: option.splits file_read.splits)

definition layers_of :: "bool \<Rightarrow> layer_name list \<Rightarrow> layer_name list" where
  "layers_of b ns = (if b then ns else [])"

lemma layer_list_names:
  "optional_layer W p = Inr r \<Longrightarrow>
   map il_name (layer_list n r) = layers_of (file_there W p) [n] \<and>
   list_all (\<lambda>l. cw_read W (il_path l) = FileText (il_content l)) (layer_list n r)"
  using optional_layer_Inr [of W p r]
  by (auto simp: layer_list_def layer_def layers_of_def file_there_def split: option.splits)

definition instance_file :: "cycle_world \<Rightarrow> instruction_request \<Rightarrow> string option" where
  "instance_file W req = optionalLayerPath W (ir_remoteAgentDir req) ''CLAUDE.md''"

definition shared_file :: "cycle_world \<Rightarrow> instruction_request \<Rightarrow> string option" where
  "shared_file W req = optionalLayerPath W (ir_sharedAgentDir req) ''CLAUDE.md''"

definition strategy_of :: "instruction_request \<Rightarrow> instruction_strategy" where
  "strategy_of req = (case ir_strategy req of None \<Rightarrow> IgnoreStrategy | Some s \<Rightarrow> s)"

lemma lower_layers_names:
  assumes "lower_layers W s own wp = Inr ls" "optional_layer W p = Inr own"
  shows "map il_name ls =
      (if s = ReplaceStrategy \<and> file_there W p then [InstanceLayer]
       else layers_of (file_there W (Some wp)) [WorkflowLayer] @
            layers_of (s = AppendStrategy \<and> file_there W p) [InstanceLayer]) \<and>
    list_all (\<lambda>l. cw_read W (il_path l) = FileText (il_content l)) ls"
proof -
  have own: "own \<noteq> None \<longleftrightarrow> file_there W p"
    using optional_layer_Inr [OF assms(2)] by (auto simp: file_there_def split: option.splits)
  note n = layer_list_names [OF assms(2), of InstanceLayer]
  show ?thesis
  proof (cases "s = ReplaceStrategy \<and> own \<noteq> None")
    case True
    then show ?thesis using assms(1) n own by (auto simp: lower_layers_def layers_of_def)
  next
    case False
    then obtain w where w: "optional_layer W (Some wp) = Inr w"
      "ls = layer_list WorkflowLayer w @ (if s = AppendStrategy then layer_list InstanceLayer own else [])"
      using assms(1) by (auto simp: lower_layers_def bindE_Inr)
    then show ?thesis using layer_list_names [OF w(1), of WorkflowLayer] n own False
      by (auto simp: layers_of_def)
  qed
qed


section \<open>References to the environment\<close>

text \<open>A text as the literal parts and the references it is written with.\<close>

datatype piece = Plain string | Dollar string | Braced string

fun piece_text :: "piece \<Rightarrow> string" where
  "piece_text (Plain s) = s"
| "piece_text (Dollar n) = ''${'' @ n @ ''}''"
| "piece_text (Braced n) = ''{env:'' @ n @ ''}''"

fun piece_ok :: "piece \<Rightarrow> bool" where
  "piece_ok (Plain s) = list_all (\<lambda>c. c \<noteq> CHR ''$'' \<and> c \<noteq> CHR ''{'') s"
| "piece_ok (Dollar n) = env_name_ok n"
| "piece_ok (Braced n) = env_name_ok n"

fun piece_value :: "environment \<Rightarrow> piece \<Rightarrow> string option" where
  "piece_value env (Plain s) = Some s"
| "piece_value env (Dollar n) = map_of env n"
| "piece_value env (Braced n) = map_of env n"

fun piece_name :: "piece \<Rightarrow> string" where
  "piece_name (Plain s) = []"
| "piece_name (Dollar n) = n"
| "piece_name (Braced n) = n"

definition template_text :: "piece list \<Rightarrow> string" where
  "template_text ps = concat (map piece_text ps)"

text \<open>The values in place of the pieces, or the first name that is not set.\<close>

definition template_value :: "environment \<Rightarrow> piece list \<Rightarrow> string + string" where
  "template_value env ps =
     (case find (\<lambda>p. piece_value env p = None) ps of
        Some p \<Rightarrow> Inl (piece_name p)
      | None \<Rightarrow> Inr (concat (map (\<lambda>p. the (piece_value env p)) ps)))"

lemma rx_first_Cat:
  "rx_first a s = Some m \<Longrightarrow> rx_first b (rx_rest m) = Some k \<Longrightarrow>
   rx_first (Cat a b) s = Some \<lparr>rx_matched = rx_matched m @ rx_matched k,
     rx_groups = rx_groups m @ rx_groups k, rx_rest = rx_rest k\<rparr>"
  by (auto simp: rx_first_def split: list.splits)

lemma rx_match_lit: "rx_match (lit t) (t @ s) = [\<lparr>rx_matched = t, rx_groups = [], rx_rest = s\<rparr>]"
  by (induction t) simp_all

lemma name_first:
  assumes "env_name_ok n"
  shows "rx_first name_rx (n @ CHR ''}'' # s) =
    Some \<lparr>rx_matched = n, rx_groups = [], rx_rest = CHR ''}'' # s\<rparr>"
proof -
  obtain c cs where n: "n = c # cs" "is_alpha c \<or> c = CHR ''_''" "list_all (alnum_or ''_'') cs"
    using assms by (cases n) (auto simp: env_name_ok_def)
  have b: "\<not> alnum_or ''_'' CHR ''}''" by code_simp
  have t: "takeWhile (alnum_or ''_'') (cs @ CHR ''}'' # s) = cs"
    using n(3) b by (simp add: takeWhile_append2 list_all_iff)
  have r: "rx_first (Rep (alnum_or ''_'') 0 True) (cs @ CHR ''}'' # s) =
      Some \<lparr>rx_matched = cs, rx_groups = [], rx_rest = CHR ''}'' # s\<rparr>"
    by (simp add: rx_first_def rep_lengths_def t)
  have c: "rx_first (Cls (\<lambda>c. is_alpha c \<or> c = CHR ''_'')) (n @ CHR ''}'' # s) =
      Some \<lparr>rx_matched = [c], rx_groups = [], rx_rest = cs @ CHR ''}'' # s\<rparr>"
    using n by (simp add: rx_first_def)
  have e: "rx_first Eps t = Some \<lparr>rx_matched = [], rx_groups = [], rx_rest = t\<rparr>" for t by (simp add: rx_first_def)
  show ?thesis
    unfolding name_rx_def seq.simps using rx_first_Cat [OF c, of "Cat (Rep (alnum_or ''_'') 0 True) Eps"]
      rx_first_Cat [OF r, of Eps] e n(1) by simp
qed

lemma enclosed_first:
  assumes "env_name_ok n"
  shows "rx_first (seq [lit t, Cap 1 name_rx, lit ''}'']) (t @ n @ CHR ''}'' # s) =
    Some \<lparr>rx_matched = t @ n @ ''}'', rx_groups = [(1, n)], rx_rest = s\<rparr>"
proof -
  have l: "rx_first (lit t) (t @ u) = Some \<lparr>rx_matched = t, rx_groups = [], rx_rest = u\<rparr>" for t u
    by (simp add: rx_first_def rx_match_lit)
  have c: "rx_first (Cap 1 name_rx) (n @ CHR ''}'' # s) =
      Some \<lparr>rx_matched = n, rx_groups = [(1, n)], rx_rest = CHR ''}'' # s\<rparr>"
    using name_first [OF assms, of s] by (auto simp: rx_first_def split: list.splits)
  have e: "rx_first (Cat (lit ''}'') Eps) (CHR ''}'' # s) =
      Some \<lparr>rx_matched = ''}'', rx_groups = [], rx_rest = s\<rparr>"
    by (simp add: rx_first_def)
  show ?thesis
    unfolding seq.simps
    using rx_first_Cat [OF l [of t "n @ CHR ''}'' # s"], of "Cat (Cap 1 name_rx) (Cat (lit ''}'') Eps)"]
      rx_first_Cat [OF c, of "Cat (lit ''}'') Eps"] e by simp
qed

lemma reference_first:
  assumes "env_name_ok n"
  shows "\<exists>m. rx_first reference_rx (piece_text (Dollar n) @ s) = Some m \<and> group 1 m = n \<and> rx_rest m = s"
    "\<exists>m. rx_first reference_rx (piece_text (Braced n) @ s) = Some m \<and> group 1 m = n \<and> rx_rest m = s"
proof -
  show "\<exists>m. rx_first reference_rx (piece_text (Dollar n) @ s) = Some m \<and> group 1 m = n \<and> rx_rest m = s"
    using enclosed_first [OF assms, of "''${''" s]
    by (simp add: reference_rx_def rx_first_def group_def split: list.splits)
  have "rx_match (seq [lit ''${'', Cap 1 name_rx, lit ''}'']) (''{env:'' @ n @ CHR ''}'' # s) = []" by simp
  then show "\<exists>m. rx_first reference_rx (piece_text (Braced n) @ s) = Some m \<and> group 1 m = n \<and> rx_rest m = s"
    using enclosed_first [OF assms, of "''{env:''" s]
    by (simp add: reference_rx_def rx_first_def group_def del: seq.simps split: list.splits)
qed

lemma no_reference_first: "c \<noteq> CHR ''$'' \<Longrightarrow> c \<noteq> CHR ''{'' \<Longrightarrow> rx_first reference_rx (c # cs) = None"
  by (simp add: reference_rx_def rx_first_def)

lemma seq_lit_nonempty: "m \<in> set (rx_match (seq (lit (c # t) # rs)) s) \<Longrightarrow> rx_matched m \<noteq> []"
  by (cases s) (auto split: if_splits)

lemma reference_nonempty: "rx_first reference_rx s = Some m \<Longrightarrow> rx_matched m \<noteq> []"
proof -
  assume "rx_first reference_rx s = Some m"
  then have "m \<in> set (rx_match reference_rx s)"
    unfolding rx_first_def by (cases "rx_match reference_rx s") simp_all
  then consider "m \<in> set (rx_match (seq [lit ''${'', Cap 1 name_rx, lit ''}'']) s)"
    | "m \<in> set (rx_match (seq [lit ''{env:'', Cap 1 name_rx, lit ''}'']) s)"
    by (auto simp: reference_rx_def simp del: seq.simps lit.simps)
  then show ?thesis by cases (rule seq_lit_nonempty, assumption)+
qed

lemma replaceE_plain:
  "list_all (\<lambda>c. c \<noteq> CHR ''$'' \<and> c \<noteq> CHR ''{'') t \<Longrightarrow>
   replaceE_from (length t + k) reference_rx f (t @ s) =
     bindE (replaceE_from k reference_rx f s) (\<lambda>u. Inr (t @ u))"
proof (induction t)
  case Nil
  then show ?case by (cases "replaceE_from k reference_rx f s") simp_all
next
  case (Cons c t)
  then have n: "rx_first reference_rx (c # t @ s) = None" by (intro no_reference_first) simp_all
  have "replaceE_from (length (c # t) + k) reference_rx f ((c # t) @ s) =
      bindE (replaceE_from (length t + k) reference_rx f (t @ s)) (\<lambda>u. Inr (c # u))"
    using n by simp
  also have "\<dots> = bindE (replaceE_from k reference_rx f s) (\<lambda>u. Inr ((c # t) @ u))"
    using Cons.IH Cons.prems by (cases "replaceE_from k reference_rx f s") simp_all
  finally show ?case .
qed

lemma replaceE_enough:
  "length s < n \<Longrightarrow> length s < k \<Longrightarrow> replaceE_from n reference_rx f s = replaceE_from k reference_rx f s"
proof (induction n arbitrary: k s)
  case (Suc n)
  obtain k' where k: "k = Suc k'" using Suc.prems by (cases k) auto
  show ?case
  proof (cases "rx_first reference_rx s")
    case None
    have "replaceE_from n reference_rx f cs = replaceE_from k' reference_rx f cs" if "s = c # cs" for c cs
      using Suc.prems k that by (intro Suc.IH) simp_all
    then show ?thesis using None k by (cases s) simp_all
  next
    case (Some m)
    have "rx_matched m \<noteq> []" by (rule reference_nonempty [OF Some])
    then have "length (rx_rest m) < length s" using arg_cong [OF rx_first_split [OF Some], of length] by simp
    then have "replaceE_from n reference_rx f (rx_rest m) = replaceE_from k' reference_rx f (rx_rest m)"
      using Suc.prems k by (intro Suc.IH) simp_all
    then show ?thesis using Some k by simp
  qed
qed simp

lemma replaceE_piece:
  assumes "piece_ok p" "length s < k"
  shows "replaceE_from (Suc (length (piece_text p @ s))) reference_rx (resolve_match env path) (piece_text p @ s) =
    (case piece_value env p of
       None \<Rightarrow> Inl (''missing environment variable '' @ piece_name p @ '' for MCP '' @ path)
     | Some v \<Rightarrow> bindE (replaceE_from k reference_rx (resolve_match env path) s) (\<lambda>u. Inr (v @ u)))"
proof -
  let ?r = "\<lambda>k s. replaceE_from k reference_rx (resolve_match env path) s"
  have ref: "?r (Suc (length t)) t =
      (case map_of env n of
         None \<Rightarrow> Inl (''missing environment variable '' @ n @ '' for MCP '' @ path)
       | Some v \<Rightarrow> bindE (?r k s) (\<lambda>u. Inr (v @ u)))"
    if m: "rx_first reference_rx t = Some m" "group 1 m = n" "rx_rest m = s" for t m n
  proof -
    have "length s < length t" 
      using arg_cong [OF rx_first_split [OF m(1)], of length] reference_nonempty [OF m(1)] m(3) by simp
    then have "?r (length t) s = ?r k s" using assms(2) by (intro replaceE_enough) simp_all
    then show ?thesis using m by (simp add: resolve_match_def split: option.splits)
  qed
  show ?thesis
  proof (cases p)
    case (Plain t)
    have "?r (Suc (length (t @ s))) (t @ s) = bindE (?r (Suc (length s)) s) (\<lambda>u. Inr (t @ u))"
      using replaceE_plain [of t "Suc (length s)"] assms(1) Plain by (simp add: ac_simps)
    moreover have "?r (Suc (length s)) s = ?r k s" using assms(2) by (intro replaceE_enough) simp_all
    ultimately show ?thesis using Plain by simp
  next
    case (Dollar n)
    then have "env_name_ok n" using assms(1) by simp
    then obtain m where "rx_first reference_rx (piece_text (Dollar n) @ s) = Some m" "group 1 m = n" "rx_rest m = s"
      using reference_first(1) by blast
    from ref [OF this] show ?thesis
      unfolding Dollar piece_value.simps piece_name.simps .
  next
    case (Braced n)
    then have "env_name_ok n" using assms(1) by simp
    then obtain m where "rx_first reference_rx (piece_text (Braced n) @ s) = Some m" "group 1 m = n" "rx_rest m = s"
      using reference_first(2) by blast
    from ref [OF this] show ?thesis
      unfolding Braced piece_value.simps piece_name.simps .
  qed
qed

text \<open>
  Resolving the references of an MCP setting replaces every \<open>${NAME}\<close> and every \<open>{env:NAME}\<close> by the
  value of that variable and keeps the rest of the text, values included, as it is; the first variable that
  is not set, from the left, is the error, with the path of the setting.
\<close>

theorem references_resolved:
  assumes "list_all piece_ok ps"
  shows "resolveReference env path (template_text ps) =
    (case template_value env ps of
       Inl name \<Rightarrow> Inl (''missing environment variable '' @ name @ '' for MCP '' @ path)
     | Inr t \<Rightarrow> Inr t)"
  using assms
proof (induction ps)
  case (Cons p ps)
  then have "replaceE_from (Suc (length (template_text ps))) reference_rx (resolve_match env path)
      (template_text ps) = (case template_value env ps of
         Inl name \<Rightarrow> Inl (''missing environment variable '' @ name @ '' for MCP '' @ path) | Inr t \<Rightarrow> Inr t)"
    by (simp add: resolveReference_def)
  then show ?case
    using replaceE_piece [of p "template_text ps" "Suc (length (template_text ps))" env path] Cons.prems
    by (simp add: resolveReference_def template_text_def template_value_def split: option.splits)
qed (simp add: resolveReference_def template_text_def template_value_def reference_rx_def rx_first_def)

theorem references_resolved_witness:
  "resolveReference [(''TOKEN'', ''a${B}'')] ''m.url'' ''x=${TOKEN}&{env:TOKEN}'' = Inr ''x=a${B}&a${B}''"
proof -
  let ?ps = "[Plain ''x='', Dollar ''TOKEN'', Plain ''&'', Braced ''TOKEN'']"
  have "list_all piece_ok ?ps" by code_simp
  from references_resolved [OF this, of "[(''TOKEN'', ''a${B}'')]" "''m.url''"] show ?thesis
    by (simp add: template_text_def template_value_def)
qed

section \<open>A deployment that passes the checks\<close>

lemma find_Some_property: "find P xs = Some x \<Longrightarrow> x \<in> set xs \<and> P x"
  by (metis find_Some_iff nth_mem)

lemma issue_of_None: "issue_of r = None \<longleftrightarrow> (\<exists>x. r = Inr x)"
  by (cases r) (simp_all add: issue_of_def)

text \<open>
  C32. A cycle of the provider vertex passes the checks only with models from the allow list that the
  provider declares, for the run and for the small model, with a base URL that is nothing but a reference to
  the proxy's variable, with a proxy on port 8443 over plain HTTP and no credentials in its URL, and with a
  deployment whose configuration renders.
\<close>

theorem vertex_deployment_confined:
  assumes "validateOpenCodeDeployment pf yaml c deployment env = None"
    "cf_runtimeId c = ''opencode''" "cf_providerId c = ''vertex''"
  shows "\<exists>provider u rendered.
    provider \<in> set (dc_providers deployment) \<and> obj_get provider ''id'' = JStr ''vertex'' \<and>
    (let allowedModels = parseVertexAllowedModels (map_of env ''VERTEX_ALLOWED_MODELS'');
         modelId = after_slash (cf_model c);
         smallId = after_slash (small_model deployment ''vertex'' (cf_model c) allowedModels)
     in {modelId, smallId} \<subseteq> set allowedModels \<and>
        declares_model provider modelId \<and> declares_model provider smallId \<and>
        renderOpenCodeConfigForCycle pf yaml (preparation_of c) ''vertex'' deployment empty_profile allowedModels
          = Inr rendered) \<and>
    exactEnvironmentReference (provider_setting provider ''baseURL'') = Some ''REHOR_VERTEX_PROXY_URL'' \<and>
    pf_urlOf pf (resolveVertexProxyUrl env) = Some u \<and>
    ur_protocol u = ''http:'' \<and> ur_hostname u \<noteq> [] \<and> ur_port u = ''8443'' \<and> bare_url u \<and>
    (\<forall>m. dc_model deployment = Some m \<longrightarrow> m = cf_model c)"
proof -
  let ?allow = "parseVertexAllowedModels (map_of env ''VERTEX_ALLOWED_MODELS'')"
  have oc: "isOpenCodeRuntime (Some (cf_runtimeId c))"
    using assms(2) by (simp add: isOpenCodeRuntime_def opencode_runtime_id_def)
  note v = assms(1) [unfolded validateOpenCodeDeployment_def Let_def, simplified oc, simplified, unfolded assms(3)]
  from v have mm: "model_mismatch_issue c deployment = None" and
    re: "issue_of (renderOpenCodeConfigForCycle pf yaml (preparation_of c) ''vertex'' deployment empty_profile ?allow) = None"
    by (auto simp: first_issue_None)
  from v obtain provider where sp: "selected_provider deployment ''vertex'' = Some provider"
    by (auto simp: first_issue_None config_error_def split: option.splits)
  then have pr: "provider \<in> set (dc_providers deployment)" "obj_get provider ''id'' = JStr ''vertex''"
    by (auto simp: selected_provider_def dest: find_Some_property)
  then have id: "provider_id provider = ''vertex''" by (simp add: provider_id_def)
  from v sp have dm: "declared_model_issue provider deployment (cf_model c) ?allow = None"
    and px: "validateVertexProxyConfig pf provider env = None"
    by (simp_all add: first_issue_None id)
  from dm have m: "{after_slash (cf_model c), after_slash (small_model deployment ''vertex'' (cf_model c) ?allow)} \<subseteq> set ?allow"
    "declares_model provider (after_slash (cf_model c))"
    "declares_model provider (after_slash (small_model deployment ''vertex'' (cf_model c) ?allow))"
    unfolding declared_model_issue_def vertex_model_issue_def
    by (auto simp: id config_error_def Let_def split: if_splits)
  from px obtain u where u: "pf_urlOf pf (resolveVertexProxyUrl env) = Some u"
    "exactEnvironmentReference (provider_setting provider ''baseURL'') = Some ''REHOR_VERTEX_PROXY_URL''"
    "ur_protocol u = ''http:''" "ur_hostname u \<noteq> []" "ur_port u = ''8443''" "bare_url u"
    by (auto simp: validateVertexProxyConfig_def config_error_def vertex_proxy_url_environment_def
        split: option.splits if_splits)
  from mm have "\<forall>m. dc_model deployment = Some m \<longrightarrow> m = cf_model c"
    by (auto simp: model_mismatch_issue_def config_error_def split: if_splits)
  with pr m u re show ?thesis by (auto simp: issue_of_None Let_def)
qed

text \<open>
  What the preparation of a cycle has accepted cannot fail for its deployment when the cycle runs: as
  long as the cycle's own git configuration does not change the environment, the registry is built unless a
  reference of an MCP server is not set; it holds the Claude adapter and, for an OpenCode cycle, the OpenCode
  adapter, which is then created with what was rendered.
\<close>

theorem prepared_cycle_has_runtime:
  assumes "prepare_hook X env maintenance prepared = (ds, Inr p)"
    "cycle_environment (pr_config p) env = env"
  shows "case createRuntimeRegistryForCycle (su_platform X) (su_yaml X) (pr_config p) (su_deployment X) env
           (su_claude X) (su_opencode X) of
      Inl e \<Rightarrow> (\<exists>i. resolveMcpServers env (cf_mcpServers (pr_config p)) = Inl i \<and> e = plain_error i)
    | Inr R \<Rightarrow>
        registry_ok R \<and>
        runtimeIds R = (if cf_runtimeId (pr_config p) = ''opencode'' then [''claude'', ''opencode''] else [''claude'']) \<and>
        (cf_runtimeId (pr_config p) = ''opencode'' \<longrightarrow>
           create_runtime R ''opencode'' run c n =
             Inr (su_opencode X (opencode_rendered (su_platform X) (su_yaml X) (su_deployment X) env
               \<lparr>fc_run = run, fc_runtimeId = ''opencode'', fc_preparedConfig = c, fc_nativeConfig = n\<rparr>)))"
proof -
  from assms(1) have ok: "validateOpenCodeDeployment (su_platform X) (su_yaml X) (pr_config p) (su_deployment X) env = None"
    by (auto simp: prepare_hook_def split: option.splits sum.splits)
  have d: "createDefaultRuntimeRegistry f = Inr [(''claude'', f)]" for f
    by (simp add: createDefaultRuntimeRegistry_def new_registry_def register_def default_runtime_id_def)
  have r: "register (createOpenCodeRuntimeFactory pf y dep e rt) [(''claude'', f)] =
      Inr [(''claude'', f), createOpenCodeRuntimeFactory pf y dep e rt]" for pf y dep e rt f
    by (simp add: register_def createOpenCodeRuntimeFactory_def opencode_runtime_id_def)
  have v: "resolveRuntimeSelection (Some ''opencode'') = Inr ''opencode''"
    by (rule resolve_resolved) code_simp
  have "create_runtime [(''claude'', f), createOpenCodeRuntimeFactory pf y dep e rt] ''opencode'' run c n =
      Inr (rt (opencode_rendered pf y dep e
        \<lparr>fc_run = run, fc_runtimeId = ''opencode'', fc_preparedConfig = c, fc_nativeConfig = n\<rparr>))" for pf y dep e rt f
    by (simp add: create_runtime_def v createOpenCodeRuntimeFactory_def opencode_runtime_id_def)
  then show ?thesis
    using ok d r
    by (cases "resolveMcpServers env (cf_mcpServers (pr_config p))")
      (simp_all add: createRuntimeRegistryForCycle_def as_reason_def isOpenCodeRuntime_def opencode_runtime_id_def
        registry_ok_def runtimeIds_def createOpenCodeRuntimeFactory_def)
qed

section \<open>Samples\<close>

definition sample_url :: url_parts where
  "sample_url =
     \<lparr>ur_protocol = ''http:'', ur_hostname = ''p'', ur_port = ''8443'', ur_pathname = ''/'', ur_username = [],
      ur_password = [], ur_search = [], ur_hash = [], ur_searchParams = []\<rparr>"

definition vertex_platform :: platform where
  "vertex_platform = \<lparr>pf_collate = (\<lambda>s. s), pf_urlOf = (\<lambda>_. Some sample_url), pf_vertexPackage = ''v''\<rparr>"

definition vertex_deployment :: deployment_config where
  "vertex_deployment =
     \<lparr>dc_raw = [], dc_model = None, dc_providerId = None, dc_smallModel = None,
      dc_providers = [[(''id'', JStr ''vertex''),
        (''settings'', JObj [(''baseURL'', JStr ''{env:REHOR_VERTEX_PROXY_URL}'')]),
        (''models'', JObj [(''m'', JObj [])])]],
      dc_packages = [], dc_plugins = [], dc_additionalDirectories = Undef\<rparr>"

definition vertex_config :: config_preparation where
  "vertex_config =
     \<lparr>cf_model = ''vertex/m'', cf_runtimeId = ''opencode'', cf_providerId = ''vertex'', cf_budgetUsd = 5,
      cf_intervalSeconds = 60, cf_idleIntervalSeconds = 300, cf_cycleTimeoutSeconds = 1800,
      cf_idleReminderCooldownSeconds = 0, cf_workflow = ''w'', cf_source = ''s'', cf_envs = None,
      cf_activeEnvs = [], cf_claudeMdStrategy = IgnoreStrategy, cf_idleCycleLimit = 3, cf_remoteAgentDir = None,
      cf_sharedAgentDir = None, cf_claudeMdPath = ''/w/CLAUDE.md'', cf_gitConfigGlobal = None, cf_mcpServers = [],
      cf_openCodeMcpServers = [], cf_allowedTools = [], cf_optionalMcpServers = []\<rparr>"

definition vertex_environment :: environment where
  "vertex_environment = [(''VERTEX_ALLOWED_MODELS'', ''m''), (''REHOR_VERTEX_PROXY_URL'', ''http://p:8443'')]"



abbreviation vertex_provider :: obj where
  "vertex_provider \<equiv> hd (dc_providers vertex_deployment)"

lemma vertex_model: "normalizeModel ''vertex/m'' (Some ''vertex'') =
    Inr \<lparr>em_providerID = ''vertex'', em_modelID = ''m'', em_text = ''vertex/m''\<rparr>"
  by code_simp

lemma vertex_small: "resolveDefaultSmallModel ''vertex'' ''vertex/m'' (map provider_models (dc_providers vertex_deployment)) [''m''] =
    Some ''vertex/m''"
  by code_simp

lemma vertex_checked: "foldE check_provider (dc_providers vertex_deployment) [] = Inr [''vertex'']"
  by code_simp

lemma vertex_packaged: "mapE_from 0 (\<lambda>_. provider_package) (dc_providers vertex_deployment) = Inr [(''vertex'', None)]"
  by code_simp

lemma vertex_locked: "normalizePackageLock (\<lambda>s. s) [] [] [(''vertex'', None)] = Inr []"
  by code_simp

lemma vertex_rendered:
  "\<exists>x y. foldE (render_provider vertex_platform \<lparr>em_providerID = ''vertex'', em_modelID = ''m'', em_text = ''vertex/m''\<rparr> [])
      (sort_key ((\<lambda>s. s) \<circ> provider_id) (dc_providers vertex_deployment)) ([], []) = Inr (x, y)"
  by (rule exI, rule exI, code_simp)

lemma vertex_permissions: "renderPermissions [] [] [] [] = Inr [rule Deny ''*'' ''*'', rule Deny ''external_directory'' ''*'']"
  by code_simp

lemma vertex_policies:
  "\<exists>x. renderOpenCodeExternalDirectoryPolicies [rule Deny ''*'' ''*'', rule Deny ''external_directory'' ''*''] = Inr x"
  by (rule exI, code_simp)

lemma vertex_renders:
  "\<exists>x. renderOpenCodeConfigForCycle vertex_platform (\<lambda>_. Inl []) (preparation_of vertex_config) ''vertex''
     vertex_deployment empty_profile [''m''] = Inr x"
proof -
  obtain x y where r:
    "foldE (render_provider vertex_platform \<lparr>em_providerID = ''vertex'', em_modelID = ''m'', em_text = ''vertex/m''\<rparr> [])
      (sort_key ((\<lambda>s. s) \<circ> provider_id) (dc_providers vertex_deployment)) ([], []) = Inr (x, y)"
    using vertex_rendered by blast
  obtain ps where ps:
    "renderOpenCodeExternalDirectoryPolicies [rule Deny ''*'' ''*'', rule Deny ''external_directory'' ''*''] = Inr ps"
    using vertex_policies by blast
  have fields: "dc_raw vertex_deployment = []" "dc_model vertex_deployment = None" "dc_providerId vertex_deployment = None"
    "dc_smallModel vertex_deployment = None" "dc_packages vertex_deployment = []" "dc_plugins vertex_deployment = []"
    "dc_additionalDirectories vertex_deployment = Undef" "pf_collate vertex_platform = (\<lambda>s. s)"
    by (simp_all add: vertex_deployment_def vertex_platform_def)
  have prep: "preparation_of vertex_config =
      \<lparr>cy_model = ''vertex/m'', cy_mcpServers = [], cy_allowedTools = [], cy_optionalMcpServers = []\<rparr>"
    by (simp add: preparation_of_def vertex_config_def)
  have servers: "renderMcpServers vertex_platform [] = Inr []"
    by (simp add: renderMcpServers_def sortedEntries_def)
  show ?thesis
    by (simp add: renderOpenCodeConfigForCycle_def prep fields vertex_small renderOpenCodeConfig_def Let_def passes_def
        rejectKeys_def vertex_model vertex_checked vertex_packaged vertex_locked r servers
        validateAdditionalDirectories_def vertex_permissions ps empty_profile_def
        applyProfile_def check_profile_def when_present_def validate_named_def
        validate_plugins_def validateExperimental_def profile_servers_def)
qed

lemma vertex_passes:
  "validateOpenCodeDeployment vertex_platform (\<lambda>_. Inl []) vertex_config vertex_deployment vertex_environment = None"
proof -
  have c: "cf_runtimeId vertex_config = ''opencode''" "cf_providerId vertex_config = ''vertex''"
    "cf_model vertex_config = ''vertex/m''" "map_of vertex_environment ''VERTEX_ALLOWED_MODELS'' = Some ''m''"
    "mismatch_issue vertex_config vertex_deployment = None" "model_mismatch_issue vertex_config vertex_deployment = None"
    "provider_id vertex_provider = ''vertex''"
    by (simp_all add: vertex_config_def vertex_environment_def mismatch_issue_def model_mismatch_issue_def
        vertex_deployment_def provider_id_def obj_get_def)
  have p: "parseVertexAllowedModels (Some ''m'') = [''m'']" by code_simp
  have s: "selected_provider vertex_deployment ''vertex'' = Some vertex_provider" by code_simp
  have x: "validateVertexProxyConfig vertex_platform vertex_provider vertex_environment = None" by code_simp
  have d: "declared_model_issue vertex_provider vertex_deployment ''vertex/m'' [''m''] = None" by code_simp
  obtain R where R: "renderOpenCodeConfigForCycle vertex_platform (\<lambda>_. Inl []) (preparation_of vertex_config) ''vertex''
     vertex_deployment empty_profile [''m''] = Inr R"
    using vertex_renders by blast
  show ?thesis
    by (simp add: validateOpenCodeDeployment_def Let_def c p s x d R isOpenCodeRuntime_def opencode_runtime_id_def
        issue_of_def)
qed

theorem vertex_deployment_confined_witness:
  "\<exists>provider u rendered.
    provider \<in> set (dc_providers vertex_deployment) \<and> obj_get provider ''id'' = JStr ''vertex'' \<and>
    (let allowedModels = parseVertexAllowedModels (map_of vertex_environment ''VERTEX_ALLOWED_MODELS'');
         modelId = after_slash (cf_model vertex_config);
         smallId = after_slash (small_model vertex_deployment ''vertex'' (cf_model vertex_config) allowedModels)
     in {modelId, smallId} \<subseteq> set allowedModels \<and>
        declares_model provider modelId \<and> declares_model provider smallId \<and>
        renderOpenCodeConfigForCycle vertex_platform (\<lambda>_. Inl []) (preparation_of vertex_config) ''vertex''
          vertex_deployment empty_profile allowedModels = Inr rendered) \<and>
    exactEnvironmentReference (provider_setting provider ''baseURL'') = Some ''REHOR_VERTEX_PROXY_URL'' \<and>
    pf_urlOf vertex_platform (resolveVertexProxyUrl vertex_environment) = Some u \<and>
    ur_protocol u = ''http:'' \<and> ur_hostname u \<noteq> [] \<and> ur_port u = ''8443'' \<and> bare_url u \<and>
    (\<forall>m. dc_model vertex_deployment = Some m \<longrightarrow> m = cf_model vertex_config)"
  by (rule vertex_deployment_confined [OF vertex_passes]) (simp_all add: vertex_config_def)

definition sample_setup :: cycle_setup where
  "sample_setup =
     \<lparr>su_platform = vertex_platform, su_yaml = (\<lambda>_. Inl []), su_deployment = vertex_deployment,
      su_claude = (\<lambda>_ _ _. Inr None), su_opencode = (\<lambda>_. sample_attempt [])\<rparr>"

definition sample_prepared :: prepared_cycle where
  "sample_prepared =
     \<lparr>pr_config = vertex_config, pr_instructions = None, pr_nativeConfig = Some empty_profile, pr_preflight = None,
      pr_prompt = Some ''go'', pr_instructionHash = sample_hash, pr_configHash = sample_hash,
      pr_preflightPayloadRef = None\<rparr>"

theorem prepared_cycle_has_runtime_witness:
  "\<exists>R. createRuntimeRegistryForCycle vertex_platform (\<lambda>_. Inl []) vertex_config vertex_deployment vertex_environment
       (su_claude sample_setup) (su_opencode sample_setup) = Inr R \<and> runtimeIds R = [''claude'', ''opencode'']"
proof -
  have f: "pr_config sample_prepared = vertex_config" "su_platform sample_setup = vertex_platform"
    "su_yaml sample_setup = (\<lambda>_. Inl [])" "su_deployment sample_setup = vertex_deployment"
    "cf_runtimeId vertex_config = ''opencode''" "cf_mcpServers vertex_config = []"
    by (simp_all add: sample_prepared_def sample_setup_def vertex_config_def)
  have i: "cycle_intervals vertex_config = Inr (Fin 60000, Fin 300000)"
    by (simp add: cycle_intervals_def vertex_config_def secondsToMs_def overflow_bound_def max_safe_integer_def)
  have p: "prepare_hook sample_setup vertex_environment None (Inr sample_prepared) =
      (Some (Fin 60000, Fin 300000), Inr sample_prepared)"
    by (simp add: prepare_hook_def f i vertex_passes)
  have e: "cycle_environment (pr_config sample_prepared) vertex_environment = vertex_environment"
    unfolding f by (simp add: cycle_environment_def vertex_config_def or_else_def nonempty_def)
  show ?thesis
    using prepared_cycle_has_runtime [OF p e, of sample_run None None] f by (auto split: sum.splits)
qed

definition sample_world :: cycle_world where
  "sample_world =
     \<lparr>cw_cwd = ''/'',
      cw_read = (\<lambda>p. case map_of [(''/s/presets/core/CLAUDE.md'', ''core''), (''/s/presets/workflows/w/CLAUDE.md'', ''flow''),
                              (''/r/CLAUDE.md'', ''own'')] p of Some t \<Rightarrow> FileText t | None \<Rightarrow> FileMissing),
      cw_node = (\<lambda>_. None), cw_write = (\<lambda>_. None), cw_sha256 = (\<lambda>s. s), cw_collate = (\<lambda>s. s),
      cw_yaml = (\<lambda>_. Inl [])\<rparr>"

definition sample_request :: instruction_request where
  "sample_request =
     \<lparr>ir_scriptDir = ''/s'', ir_workflow = ''w'', ir_strategy = Some AppendStrategy, ir_remoteAgentDir = Some ''/r'',
      ir_sharedAgentDir = None\<rparr>"

lemma sample_paths:
  "path_resolve ''/'' [''/s''] = ''/s''" "path_resolve ''/'' [''/r''] = ''/r''"
  "path_join [''/s'', ''presets'', ''core'', ''CLAUDE.md''] = ''/s/presets/core/CLAUDE.md''"
  "path_join [''/r'', ''CLAUDE.md''] = ''/r/CLAUDE.md''"
  "path_resolve ''/'' [''/s'', ''presets'', ''workflows'', ''w''] = ''/s/presets/workflows/w''"
  "path_join [''/s/presets/workflows/w'', ''CLAUDE.md''] = ''/s/presets/workflows/w/CLAUDE.md''"
  by code_simp+


end
