(* ===== verification/Cli.thy ===== *)
theory Cli
  imports Runner_Cycle
begin

text \<open>
  \<open>coordinator/src/cli.ts\<close>, \<open>deployment-config.ts\<close> and \<open>adapters/health.ts\<close>: the arguments of the
  coordinator, the variables its \<open>.env\<close> files add, the addresses it derives, the deployment it loads and
  the answers of its health server. The environment of the process is an association list; the contents of
  files and the working directory are given.
\<close>

section \<open>Arguments\<close>

definition cli_error :: "string \<Rightarrow> issue + 'a" where
  "cli_error m = Inl m"

type_synonym cli_values = "(string \<times> string) list"

text \<open>
  \<open>argument.slice(2).split("=", 2)\<close> has at most two parts; a value that is not given inline is the next
  argument.
\<close>

fun parse_values :: "bool \<Rightarrow> cli_values \<Rightarrow> string list \<Rightarrow> issue + bool \<times> cli_values" where
  "parse_values once vals [] = Inr (once, vals)"
| "parse_values once vals (a # rest) =
     (if a = ''--once'' then parse_values True vals rest
      else if \<not> prefix ''--'' a then cli_error (''unknown argument: '' @ a)
      else (case split_on CHR ''='' (drop 2 a) of
              key # inline # _ \<Rightarrow>
                if inline = [] then cli_error (''missing value for --'' @ key)
                else parse_values once (AList.update key inline vals) rest
            | ps \<Rightarrow>
                (case rest of
                   [] \<Rightarrow> cli_error (''missing value for --'' @ concat ps)
                 | v # rest' \<Rightarrow>
                     if v = [] then cli_error (''missing value for --'' @ concat ps)
                     else parse_values once (AList.update (concat ps) v vals) rest')))"

declare parse_values.simps(2) [simp del]

fun findOptionValue :: "string list \<Rightarrow> string \<Rightarrow> string option" where
  "findOptionValue [] key = None"
| "findOptionValue (a # rest) key =
     (if prefix (''--'' @ key @ ''='') a then Some (drop (length key + 3) a)
      else if a = ''--'' @ key then (case rest of [] \<Rightarrow> None | v # _ \<Rightarrow> Some v)
      else findOptionValue rest key)"

text \<open>\<open>Number.parseInt(value, 10)\<close>: the integer the text starts with.\<close>

definition digits_prefix :: "string \<Rightarrow> jsnum" where
  "digits_prefix s =
     (let ds = takeWhile is_digit s in if ds = [] then NaN else Fin (of_nat (digits_val ds)))"

definition js_parseInt :: "string \<Rightarrow> jsnum" where
  "js_parseInt s =
     (case dropWhile is_space s of
        [] \<Rightarrow> NaN
      | c # cs \<Rightarrow>
          if c = CHR ''-'' then (case digits_prefix cs of Fin r \<Rightarrow> Fin (- r) | n \<Rightarrow> n)
          else if c = CHR ''+'' then digits_prefix cs else digits_prefix (c # cs))"

definition parseInteger :: "string \<Rightarrow> string \<Rightarrow> issue + nat" where
  "parseInteger s name =
     (case js_parseInt s of
        Fin r \<Rightarrow>
          if is_safe_integer (Fin r) \<and> 0 \<le> r then Inr (nat \<lfloor>r\<rfloor>)
          else cli_error (name @ '' must be a non-negative integer'')
      | _ \<Rightarrow> cli_error (name @ '' must be a non-negative integer''))"

definition parseOptionalInteger :: "string option \<Rightarrow> issue + nat option" where
  "parseOptionalInteger v =
     (case v of
        None \<Rightarrow> Inr None
      | Some s \<Rightarrow> bindE (parseInteger s ''REHOR_WORKSPACE_OWNER_UID'') (\<lambda>n. Inr (Some n)))"

record cli_options =
  cl_label :: string
  cl_instanceId :: string
  cl_scriptDir :: string
  cl_dataDirectory :: string
  cl_lockPath :: string
  cl_sleepSignalPath :: string
  cl_once :: bool
  cl_metricsPort :: nat
  cl_workspaceRoot :: string
  cl_openCodeCommand :: string
  cl_openCodeExpectedVersion :: string
  cl_deploymentConfigPath :: "string option"

text \<open>\<open>values.get(key) ?? environment[name] ?? default\<close>\<close>

definition chosen :: "cli_values \<Rightarrow> environment \<Rightarrow> string \<Rightarrow> string \<Rightarrow> string option" where
  "chosen vals env key name = (case map_of vals key of Some v \<Rightarrow> Some v | None \<Rightarrow> map_of env name)"

definition chosen_or :: "cli_values \<Rightarrow> environment \<Rightarrow> string \<Rightarrow> string \<Rightarrow> string \<Rightarrow> string" where
  "chosen_or vals env key name d = (case chosen vals env key name of Some v \<Rightarrow> v | None \<Rightarrow> d)"

definition required_option :: "string option \<Rightarrow> string \<Rightarrow> string \<Rightarrow> issue + string" where
  "required_option v key name =
     (case nonempty v of
        Some s \<Rightarrow> Inr s
      | None \<Rightarrow> cli_error (''--'' @ key @ '' is required (or set '' @ name @ '')''))"

definition options_of :: "string \<Rightarrow> environment \<Rightarrow> bool \<times> cli_values \<Rightarrow> issue + cli_options" where
  "options_of cwd env r =
     (let (once, vals) = r;
          pick = chosen_or vals env;
          scriptDir = path_resolve cwd [pick ''script-dir'' ''REHOR_SCRIPT_DIR'' cwd]
      in bindE (required_option (chosen vals env ''label'' ''BOT_LABEL'') ''label'' ''BOT_LABEL'') (\<lambda>label.
         bindE (required_option (chosen vals env ''instance-id'' ''BOT_INSTANCE_ID'') ''instance-id'' ''BOT_INSTANCE_ID'')
           (\<lambda>instanceId.
         let dataDirectory = path_resolve cwd [pick ''data-dir'' ''REHOR_DATA_DIR'' (scriptDir @ ''/data'')]
         in bindE (parseInteger (pick ''metrics-port'' ''COORDINATOR_METRICS_PORT'' ''9091'') ''metrics-port'') (\<lambda>port.
            Inr \<lparr>cl_label = label, cl_instanceId = instanceId, cl_scriptDir = scriptDir,
                 cl_dataDirectory = dataDirectory,
                 cl_lockPath = path_resolve cwd [pick ''lock-path'' ''REHOR_LOCK_PATH'' (dataDirectory @ ''/.lock'')],
                 cl_sleepSignalPath =
                   path_resolve cwd [pick ''sleep-signal-path'' ''REHOR_SLEEP_SIGNAL_PATH''
                                       (dataDirectory @ ''/cycle-sleep.json'')],
                 cl_once = once, cl_metricsPort = port,
                 cl_workspaceRoot = path_resolve cwd [pick ''workspace-root'' ''REHOR_WORKSPACE_ROOT'' scriptDir],
                 cl_openCodeCommand = pick ''opencode-command'' ''OPENCODE_COMMAND'' ''/usr/local/bin/opencode'',
                 cl_openCodeExpectedVersion = pick ''opencode-version'' ''OPENCODE_EXPECTED_VERSION'' ''2.1.2'',
                 cl_deploymentConfigPath =
                   chosen vals env ''opencode-deployment-config'' ''REHOR_OPENCODE_DEPLOYMENT_CONFIG''\<rparr>))))"

definition parseArgs :: "string list \<Rightarrow> environment \<Rightarrow> string \<Rightarrow> issue + cli_options" where
  "parseArgs argv env cwd = bindE (parse_values False [] argv) (options_of cwd env)"

section \<open>The \<open>.env\<close> files\<close>

definition unquoted :: "string \<Rightarrow> string" where
  "unquoted v =
     (if v \<noteq> [] \<and> (hd v = CHR 0x22 \<and> last v = CHR 0x22 \<or> hd v = CHR 0x27 \<and> last v = CHR 0x27)
      then butlast (tl v) else v)"

definition dotenv_line :: "string \<Rightarrow> (string \<times> string) option" where
  "dotenv_line line =
     (let t = trim line
      in if t = [] \<or> hd t = CHR ''#'' then None
         else (let assignment = (if prefix ''export '' t then drop 7 t else t);
                   name = takeWhile (\<lambda>c. c \<noteq> CHR ''='') assignment
               in if name = [] \<or> CHR ''='' \<notin> set assignment then None
                  else Some (trim name, unquoted (trim (drop (Suc (length name)) assignment)))))"

definition dotenv_entries :: "string \<Rightarrow> (string \<times> string) list" where
  "dotenv_entries text = List.map_filter dotenv_line (split_on CHR 0x0A text)"

definition set_if_absent :: "string \<times> string \<Rightarrow> environment \<Rightarrow> environment" where
  "set_if_absent kv env = (if map_of env (fst kv) = None then env @ [kv] else env)"

definition loadDotEnv :: "string option \<Rightarrow> environment \<Rightarrow> environment" where
  "loadDotEnv content env =
     (case content of None \<Rightarrow> env | Some text \<Rightarrow> fold set_if_absent (dotenv_entries text) env)"

section \<open>Starting up\<close>

definition endpoint :: "string option \<Rightarrow> string \<Rightarrow> string option" where
  "endpoint base p =
     (case base of
        None \<Rightarrow> None
      | Some b \<Rightarrow> Some ((if b \<noteq> [] \<and> last b = CHR ''/'' then butlast b else b) @ p))"

text \<open>\<open>url.replace(/\/mcp\/?$/, "")\<close>\<close>

definition without_mcp :: "string \<Rightarrow> string" where
  "without_mcp s =
     (if suffix ''/mcp/'' s then take (length s - 5) s else if suffix ''/mcp'' s then take (length s - 4) s else s)"

definition sink_urls :: "environment \<Rightarrow> string option \<times> string option \<times> string option" where
  "sink_urls env =
     (let base = map_option without_mcp (map_of env ''BOT_MEMORY_URL'');
          url = (\<lambda>name p. case map_of env name of Some u \<Rightarrow> Some u | None \<Rightarrow> endpoint base p)
      in (url ''BOT_DASHBOARD_URL'' ''/api/bot-status'', url ''COSTS_API_URL'' ''/api/costs'',
          url ''CYCLE_RUNS_API_URL'' ''/api/cycle-runs''))"

text \<open>
  The arguments are parsed after the first two files are loaded, and the file of the script directory is
  loaded last; \<open>files\<close> gives the content of a path that can be read.
\<close>

definition first_files :: "(string \<Rightarrow> string option) \<Rightarrow> string \<Rightarrow> string list \<Rightarrow> environment \<Rightarrow> environment" where
  "first_files files cwd argv env =
     (let d = (case map_of env ''REHOR_SCRIPT_DIR'' of Some d \<Rightarrow> d | None \<Rightarrow> cwd);
          env1 = loadDotEnv (files (path_resolve cwd [d, ''.env''])) env
      in case findOptionValue argv ''script-dir'' of
           None \<Rightarrow> env1
         | Some dir \<Rightarrow> loadDotEnv (files (path_resolve cwd [dir, ''.env''])) env1)"

definition startup ::
    "(string \<Rightarrow> string option) \<Rightarrow> string \<Rightarrow> string list \<Rightarrow> environment \<Rightarrow> issue + cli_options \<times> environment" where
  "startup files cwd argv env =
     (let env2 = first_files files cwd argv env
      in bindE (parseArgs argv env2 cwd) (\<lambda>opts.
           Inr (opts, loadDotEnv (files (path_resolve cwd [cl_scriptDir opts, ''.env''])) env2)))"

text \<open>The exit code, given the result of the loop (or the error that ends the start or the loop).\<close>

definition cli_exit_code ::
    "string list \<Rightarrow> issue + cli_options \<times> environment \<Rightarrow> reason + 'r loop_result \<Rightarrow> nat" where
  "cli_exit_code argv started result =
     (if ''--help'' \<in> set argv \<or> ''-h'' \<in> set argv then 0
      else (case started of
              Inl _ \<Rightarrow> 1
            | Inr (opts, _) \<Rightarrow>
                (case result of Inl _ \<Rightarrow> 1 | Inr R \<Rightarrow> coordinatorExitCode R (cl_once opts))))"

section \<open>The deployment file\<close>

definition loadOpenCodeDeploymentConfig :: "issue + string \<Rightarrow> issue + obj" where
  "loadOpenCodeDeploymentConfig content =
     bindE content (\<lambda>text.
       case json_parse text of
         None \<Rightarrow> Inl ''SyntaxError''
       | Some (JObj raw) \<Rightarrow>
           bindE (validateAdditionalDirectories (obj_get raw ''additionalDirectories'')) (\<lambda>_. Inr raw)
       | Some _ \<Rightarrow> Inl ''OpenCode deployment config must be a JSON object'')"

section \<open>The health server\<close>

record http_answer =
  ha_status :: nat
  ha_contentType :: "string option"
  ha_body :: string

definition request_path :: "string \<Rightarrow> string" where
  "request_path url = takeWhile (\<lambda>c. c \<noteq> CHR ''?'') url"

definition writeJson :: "nat \<Rightarrow> obj \<Rightarrow> http_answer" where
  "writeJson status body =
     \<lparr>ha_status = status, ha_contentType = Some ''application/json'', ha_body = json_text (JObj body)\<rparr>"

definition health_answer :: "bool \<Rightarrow> string \<Rightarrow> string option \<Rightarrow> http_answer" where
  "health_answer ready metrics url =
     (let p = map_option request_path url
      in if p = Some ''/metrics''
         then \<lparr>ha_status = 200, ha_contentType = Some ''text/plain; version=0.0.4'', ha_body = metrics\<rparr>
         else if p = Some ''/health'' \<or> p = Some ''/healthz'' then writeJson 200 [(''status'', JStr ''ok'')]
         else if p = Some ''/ready'' \<or> p = Some ''/readyz''
         then writeJson (if ready then 200 else 503) [(''ready'', JBool ready)]
         else \<lparr>ha_status = 404, ha_contentType = None, ha_body = []\<rparr>)"

end
