(* ===== verification/Cli_Properties.thy ===== *)
theory Cli_Properties
  imports Cli
begin

text \<open>
  The properties of the command line: arguments are read back, the value of an inline argument is cut at a
  second equals sign, and variables of the environment take precedence over the \<open>.env\<close> files.
\<close>

section \<open>Arguments\<close>

datatype cli_argument = OnceFlag | InlineValue string string | NextValue string string

fun argument_text :: "cli_argument \<Rightarrow> string list" where
  "argument_text OnceFlag = [''--once'']"
| "argument_text (InlineValue key v) = [''--'' @ key @ ''='' @ v]"
| "argument_text (NextValue key v) = [''--'' @ key, v]"

fun argument_ok :: "cli_argument \<Rightarrow> bool" where
  "argument_ok OnceFlag \<longleftrightarrow> True"
| "argument_ok (InlineValue key v) \<longleftrightarrow> CHR ''='' \<notin> set key \<and> v \<noteq> [] \<and> CHR ''='' \<notin> set v"
| "argument_ok (NextValue key v) \<longleftrightarrow> CHR ''='' \<notin> set key \<and> v \<noteq> [] \<and> key \<noteq> ''once''"

fun argument_value :: "cli_argument \<Rightarrow> cli_values" where
  "argument_value OnceFlag = []"
| "argument_value (InlineValue key v) = [(key, v)]"
| "argument_value (NextValue key v) = [(key, v)]"

lemma split_on_none: "c \<notin> set s \<Longrightarrow> split_on c s = [s]"
  by (induction s) auto

lemma split_on_first: "c \<notin> set s \<Longrightarrow> split_on c (s @ c # t) = s # split_on c t"
  by (induction s) auto

lemma split_on_nonempty: "\<exists>w ws. split_on c s = w # ws"
  by (cases s) (auto split: list.splits)

lemma parse_inline:
  assumes "CHR ''='' \<notin> set key" "CHR ''='' \<notin> set v" "v \<noteq> []" "w = [] \<or> hd w = CHR ''=''"
  shows "parse_values once vals ((''--'' @ key @ ''='' @ v @ w) # rest) =
    parse_values once (AList.update key v vals) rest"
proof -
  obtain u us where "split_on CHR ''='' (tl w) = u # us" using split_on_nonempty by blast
  then have "\<exists>us. split_on CHR ''='' (v @ w) = v # us"
    using assms(2,4) split_on_first [of "CHR ''=''" v "tl w"] split_on_none [of "CHR ''=''" v]
    by (cases w) auto
  then obtain ws where "split_on CHR ''='' (key @ CHR ''='' # v @ w) = key # v # ws"
    using split_on_first [OF assms(1), of "v @ w"] by auto
  moreover have "key @ CHR ''='' # v @ w \<noteq> ''once''"
  proof
    assume "key @ CHR ''='' # v @ w = ''once''"
    then have "CHR ''='' \<in> set ''once''" by (metis in_set_conv_decomp)
    then show False by simp
  qed
  ultimately show ?thesis using assms(3) by (simp add: parse_values.simps(2))
qed

lemma parse_argument:
  "argument_ok a \<Longrightarrow>
   parse_values once vals (argument_text a @ rest) =
     parse_values (once \<or> a = OnceFlag) (fold (\<lambda>(k, v). AList.update k v) (argument_value a) vals) rest"
proof (cases a)
  case (InlineValue key v)
  then show "argument_ok a \<Longrightarrow> ?thesis" using parse_inline [of key v "[]" once vals rest] by simp
next
  case (NextValue key v)
  then show "argument_ok a \<Longrightarrow> ?thesis"
    by (simp add: parse_values.simps(2) split_on_none)
qed (simp add: parse_values.simps(2))

text \<open>
  C34. The arguments of the coordinator are read back: whatever list of flags and of options with non-empty
  values is written as arguments, with a value inline or as the next argument, parsing it gives the flag and
  the last value of every option. An inline value must not contain an equals sign.
\<close>

theorem arguments_read_back:
  assumes "list_all argument_ok as"
  shows "parse_values False [] (concat (map argument_text as)) =
    Inr (OnceFlag \<in> set as, fold (\<lambda>(k, v). AList.update k v) (concat (map argument_value as)) []) \<and>
    map_of (fold (\<lambda>(k, v). AList.update k v) (concat (map argument_value as)) []) =
      map_of (rev (concat (map argument_value as)))"
proof -
  have "parse_values once vals (concat (map argument_text as)) =
      Inr (once \<or> OnceFlag \<in> set as, fold (\<lambda>(k, v). AList.update k v) (concat (map argument_value as)) vals)"
    for once vals
    using assms by (induction as arbitrary: once vals) (auto simp: parse_argument)
  moreover have "map_of (fold (\<lambda>(k, v). AList.update k v) kvs ys) = map_of (rev kvs @ ys)"
    for kvs and ys :: cli_values
    by (induction kvs arbitrary: ys) (auto simp: update_conv' map_add_def fun_eq_iff split: option.splits)
  ultimately show ?thesis by simp
qed

theorem arguments_read_back_witness:
  "parse_values False [] [''--label=a'', ''--once'', ''--data-dir'', ''x=y'', ''--label'', ''b''] =
     Inr (True, [(''label'', ''b''), (''data-dir'', ''x=y'')])"
proof -
  have ok: "list_all argument_ok [InlineValue ''label'' ''a'', OnceFlag, NextValue ''data-dir'' ''x=y'', NextValue ''label'' ''b'']"
    by code_simp
  show ?thesis using conjunct1 [OF arguments_read_back [OF ok]] by simp
qed

text \<open>
  The value of an inline argument ends at its next equals sign: \<open>--key=a=b\<close> stores only \<open>a\<close>, although the
  search that loads the \<open>.env\<close> file of the script directory reads the whole value of the same argument.
\<close>

theorem inline_value_cut:
  assumes "CHR ''='' \<notin> set key" "CHR ''='' \<notin> set v" "v \<noteq> []"
  shows "parse_values False [] [''--'' @ key @ ''='' @ v @ ''='' @ w] = Inr (False, [(key, v)]) \<and>
    findOptionValue [''--'' @ key @ ''='' @ v @ ''='' @ w] key = Some (v @ ''='' @ w)"
proof -
  have "drop (length key + 3) (''--'' @ key @ ''='' @ v @ ''='' @ w) = v @ ''='' @ w"
    by (simp add: eval_nat_numeral)
  then show ?thesis using parse_inline [OF assms, of "''='' @ w" False "[]" "[]"] by simp
qed

theorem inline_value_cut_witness:
  "parse_values False [] [''--script-dir=/a=b''] = Inr (False, [(''script-dir'', ''/a'')]) \<and>
   findOptionValue [''--script-dir=/a=b''] ''script-dir'' = Some ''/a=b''"
  using inline_value_cut [of "''script-dir''" "''/a''" "''b''"] by simp

section \<open>Variables\<close>

lemma map_of_loaded:
  "map_of (fold set_if_absent kvs env) n = (case map_of env n of Some v \<Rightarrow> Some v | None \<Rightarrow> map_of kvs n)"
proof (induction kvs arbitrary: env)
  case (Cons kv kvs)
  then show ?case by (cases kv) (auto simp: set_if_absent_def map_add_def split: option.splits)
qed (simp split: option.splits)

definition file_entries :: "string option \<Rightarrow> (string \<times> string) list" where
  "file_entries content = (case content of None \<Rightarrow> [] | Some text \<Rightarrow> dotenv_entries text)"

lemma map_of_dotenv:
  "map_of (loadDotEnv content env) n =
     (case map_of env n of Some v \<Rightarrow> Some v | None \<Rightarrow> map_of (file_entries content) n)"
  by (simp add: loadDotEnv_def file_entries_def map_of_loaded split: option.splits)

definition env_file :: "string \<Rightarrow> string \<Rightarrow> string" where
  "env_file cwd d = path_resolve cwd [d, ''.env'']"

text \<open>
  The environment a coordinator runs with keeps every variable it was started with, and takes any other
  from the first of the files that assigns it: that of \<open>REHOR_SCRIPT_DIR\<close> (or the working directory), that
  of the script directory named by the arguments, and that of the script directory in effect; in one file
  the first assignment counts.
\<close>

theorem dotenv_precedence:
  assumes "startup files cwd argv env = Inr (opts, env')"
  shows "map_of env' n =
    (case map_of env n of
       Some v \<Rightarrow> Some v
     | None \<Rightarrow>
         map_of (file_entries (files (env_file cwd
                   (case map_of env ''REHOR_SCRIPT_DIR'' of Some d \<Rightarrow> d | None \<Rightarrow> cwd))) @
                 (case findOptionValue argv ''script-dir'' of
                    None \<Rightarrow> [] | Some d \<Rightarrow> file_entries (files (env_file cwd d))) @
                 file_entries (files (env_file cwd (cl_scriptDir opts)))) n)"
proof -
  from assms have e: "env' = loadDotEnv (files (env_file cwd (cl_scriptDir opts))) (first_files files cwd argv env)"
    by (auto simp: startup_def Let_def bindE_Inr env_file_def)
  show ?thesis
    unfolding e first_files_def Let_def
    by (auto simp: map_of_dotenv map_add_def env_file_def split: option.splits)
qed

definition sample_arguments :: "string list" where
  "sample_arguments = [''--label=l'', ''--instance-id=i'']"

definition sample_file :: "string \<Rightarrow> string option" where
  "sample_file p = Some ''A=1''"

lemma sample_values: "parse_values False [] sample_arguments = Inr (False, [(''label'', ''l''), (''instance-id'', ''i'')])"
  by (simp add: sample_arguments_def parse_values.simps(2))

lemma sample_port: "parseInteger ''9091'' m = Inr 9091"
  by (simp add: parseInteger_def js_parseInt_def digits_prefix_def Let_def is_space_def is_digit_def digits_val_def
      digit_val_def max_safe_integer_def)

lemma sample_first_files: "map_of (first_files sample_file ''/'' sample_arguments [(''A'', ''0'')]) ''COORDINATOR_METRICS_PORT'' = None"
  by (simp add: first_files_def sample_file_def sample_arguments_def loadDotEnv_def dotenv_entries_def dotenv_line_def
      Let_def trim_def is_space_def set_if_absent_def unquoted_def List.map_filter_def)

theorem dotenv_precedence_witness:
  "\<exists>opts env'. startup sample_file ''/'' sample_arguments [(''A'', ''0'')] = Inr (opts, env') \<and>
     map_of env' ''A'' = Some ''0''"
proof -
  have "\<exists>x. startup sample_file ''/'' sample_arguments [(''A'', ''0'')] = Inr x"
    by (simp add: startup_def Let_def parseArgs_def sample_values options_of_def required_option_def chosen_def
        chosen_or_def nonempty_def sample_first_files sample_port)
  then obtain opts env' where s: "startup sample_file ''/'' sample_arguments [(''A'', ''0'')] = Inr (opts, env')"
    by auto
  have "map_of env' ''A'' = Some ''0''" using dotenv_precedence [OF s, of "''A''"] by simp
  with s show ?thesis by (intro exI conjI)
qed

end
