(* ===== verification/Admission.thy ===== *)
theory Admission
  imports Loop Work_Context
begin

text \<open>
  \<open>coordinator/src/adapters/file-admission.ts\<close>: one coordinator's side of acquiring the cycle lock, driven
  by what its helper process reports, and the lock itself as a step relation over any number of
  coordinators with their helpers. The helper is the inline Python program \<open>PYTHON_FLOCK\<close>.
\<close>

section \<open>Acquiring\<close>

text \<open>
  How an acquisition ends: with a lease (\<open>Inr True\<close>), denied (\<open>Inr False\<close>) or with an error. An exit is a
  code and the name of a signal.
\<close>

type_synonym helper_exit = "int \<times> string option"

record acquire_state =
  aq_output :: string
  aq_stderr :: string
  aq_aborted :: bool
  aq_settled :: "(reason + bool) option"
  aq_stdinEnded :: bool
  aq_killed :: bool
  aq_closed :: "helper_exit option"

definition new_acquire :: acquire_state where
  "new_acquire =
     \<lparr>aq_output = [], aq_stderr = [], aq_aborted = False, aq_settled = None, aq_stdinEnded = False,
      aq_killed = False, aq_closed = None\<rparr>"

text \<open>Before the helper is spawned; \<open>None\<close> stands for going on.\<close>

definition acquire_begin :: "bool \<Rightarrow> reason option \<Rightarrow> bool \<Rightarrow> (reason + bool) option" where
  "acquire_begin abortedBefore mkdir abortedAfter =
     (if abortedBefore then Some (Inr False)
      else (case mkdir of
              Some e \<Rightarrow> Some (Inl e)
            | None \<Rightarrow> if abortedAfter then Some (Inr False) else None))"

definition settle :: "reason + bool \<Rightarrow> acquire_state \<Rightarrow> acquire_state" where
  "settle r A = (if aq_settled A = None then A\<lparr>aq_settled := Some r\<rparr> else A)"

definition locked_line :: string where
  "locked_line = ''locked'' @ [CHR 0x0A]"

definition acquire_out :: "string \<Rightarrow> acquire_state \<Rightarrow> acquire_state" where
  "acquire_out chunk A =
     (let A1 = A\<lparr>aq_output := aq_output A @ chunk\<rparr>
      in if \<not> str_includes (aq_output A1) locked_line then A1
         else if aq_aborted A1 then settle (Inr False) (A1\<lparr>aq_stdinEnded := True\<rparr>)
         else settle (Inr True) A1)"

definition acquire_err :: "string \<Rightarrow> acquire_state \<Rightarrow> acquire_state" where
  "acquire_err chunk A = A\<lparr>aq_stderr := aq_stderr A @ chunk\<rparr>"

definition acquire_error :: "reason \<Rightarrow> acquire_state \<Rightarrow> acquire_state" where
  "acquire_error e A = settle (Inl e) A"

definition exit_text :: "helper_exit \<Rightarrow> string" where
  "exit_text x =
     ''exit code '' @ show_int (fst x) @ (case snd x of None \<Rightarrow> [] | Some s \<Rightarrow> '' ('' @ s @ '')'')"

definition acquire_close :: "helper_exit \<Rightarrow> acquire_state \<Rightarrow> acquire_state" where
  "acquire_close x A =
     (let A1 = A\<lparr>aq_closed := Some x\<rparr>
      in if aq_aborted A1 \<or> fst x = 75 then settle (Inr False) A1
         else settle (Inl (RError ''Error'' (''Python flock helper failed: '' @
                (if trim (aq_stderr A1) \<noteq> [] then trim (aq_stderr A1) else exit_text x)) False)) A1)"

text \<open>The listener that stops the helper is removed when the acquisition settles.\<close>

definition acquire_abort :: "acquire_state \<Rightarrow> acquire_state" where
  "acquire_abort A = A\<lparr>aq_aborted := True, aq_killed := (aq_killed A \<or> (aq_settled A = None \<and> \<not> aq_aborted A))\<rparr>"

definition release_begin :: "acquire_state \<Rightarrow> acquire_state" where
  "release_begin A = A\<lparr>aq_stdinEnded := True\<rparr>"

definition release_result :: "acquire_state \<Rightarrow> helper_exit \<Rightarrow> reason option" where
  "release_result A x =
     (if fst x = 0 then None
      else Some (RError ''Error'' (''Python flock helper exited with code '' @ show_int (fst x) @
             (if aq_stderr A = [] then [] else '': '' @ trim (aq_stderr A))) False))"

section \<open>The lock\<close>

text \<open>
  A helper tries to take the lock, holds it until its standard input ends, and is gone. Its output waits in
  the pipe.
\<close>

datatype helper_phase = NoHelper | HelperTrying | HelperHolding | HelperGone helper_exit

record site =
  si_acquire :: acquire_state
  si_helper :: helper_phase
  si_pipe :: string

record lock_world =
  lw_holder :: "nat option"
  lw_sites :: "nat \<Rightarrow> site"

definition new_site :: site where
  "new_site = \<lparr>si_acquire = new_acquire, si_helper = NoHelper, si_pipe = []\<rparr>"

definition admission_start :: lock_world where
  "admission_start = \<lparr>lw_holder = None, lw_sites = (\<lambda>_. new_site)\<rparr>"

definition at_site :: "nat \<Rightarrow> (site \<Rightarrow> site) \<Rightarrow> lock_world \<Rightarrow> lock_world" where
  "at_site i f W = W\<lparr>lw_sites := (lw_sites W)(i := f (lw_sites W i))\<rparr>"

definition in_acquire :: "(acquire_state \<Rightarrow> acquire_state) \<Rightarrow> site \<Rightarrow> site" where
  "in_acquire f S = S\<lparr>si_acquire := f (si_acquire S)\<rparr>"

text \<open>The kernel frees the lock of a process that ends.\<close>

definition helper_ends :: "nat \<Rightarrow> helper_exit \<Rightarrow> lock_world \<Rightarrow> lock_world" where
  "helper_ends i x W =
     (at_site i (\<lambda>S. S\<lparr>si_helper := HelperGone x\<rparr>) W)
       \<lparr>lw_holder := (if lw_holder W = Some i then None else lw_holder W)\<rparr>"

definition busy_exit :: helper_exit where
  "busy_exit = (75, None)"

definition terminated_exit :: helper_exit where
  "terminated_exit = (-1, Some ''SIGTERM'')"

text \<open>One coordinator starts at most one acquisition; \<open>crashes\<close> allows helpers to die on their own.\<close>

inductive admission_step :: "bool \<Rightarrow> lock_world \<Rightarrow> lock_world \<Rightarrow> bool" for crashes :: bool where
  spawn: "si_helper (lw_sites W i) = NoHelper \<Longrightarrow> si_acquire (lw_sites W i) = new_acquire \<Longrightarrow>
    admission_step crashes W (at_site i (\<lambda>S. S\<lparr>si_helper := HelperTrying\<rparr>) W)"
| spawn_failed: "si_helper (lw_sites W i) = NoHelper \<Longrightarrow>
    admission_step crashes W (at_site i (in_acquire (acquire_error e)) W)"
| take_lock: "si_helper (lw_sites W i) = HelperTrying \<Longrightarrow> lw_holder W = None \<Longrightarrow>
    admission_step crashes W
      ((at_site i (\<lambda>S. S\<lparr>si_helper := HelperHolding, si_pipe := si_pipe S @ locked_line\<rparr>) W)\<lparr>lw_holder := Some i\<rparr>)"
| refused: "si_helper (lw_sites W i) = HelperTrying \<Longrightarrow> lw_holder W \<noteq> None \<Longrightarrow>
    admission_step crashes W (helper_ends i busy_exit W)"
| read_out: "si_pipe (lw_sites W i) = chunk @ rest \<Longrightarrow> chunk \<noteq> [] \<Longrightarrow>
    admission_step crashes W (at_site i (\<lambda>S. in_acquire (acquire_out chunk) (S\<lparr>si_pipe := rest\<rparr>)) W)"
| read_err: "si_helper (lw_sites W i) \<noteq> NoHelper \<Longrightarrow>
    admission_step crashes W (at_site i (in_acquire (acquire_err chunk)) W)"
| end_of_input: "si_helper (lw_sites W i) = HelperHolding \<Longrightarrow> aq_stdinEnded (si_acquire (lw_sites W i)) \<Longrightarrow>
    admission_step crashes W (helper_ends i (0, None) W)"
| abort: "admission_step crashes W (at_site i (in_acquire acquire_abort) W)"
| terminated: "si_helper (lw_sites W i) \<in> {HelperTrying, HelperHolding} \<Longrightarrow> aq_killed (si_acquire (lw_sites W i)) \<Longrightarrow>
    admission_step crashes W (helper_ends i terminated_exit W)"
| closed: "si_helper (lw_sites W i) = HelperGone x \<Longrightarrow> si_pipe (lw_sites W i) = [] \<Longrightarrow>
    admission_step crashes W (at_site i (in_acquire (acquire_close x)) W)"
| release: "aq_settled (si_acquire (lw_sites W i)) = Some (Inr True) \<Longrightarrow>
    admission_step crashes W (at_site i (in_acquire release_begin) W)"
| crash: "crashes \<Longrightarrow> si_helper (lw_sites W i) \<in> {HelperTrying, HelperHolding} \<Longrightarrow>
    admission_step crashes W (helper_ends i x W)"

inductive_cases admission_stepE: "admission_step crashes W W'"

definition reachable_admission :: "bool \<Rightarrow> lock_world \<Rightarrow> bool" where
  "reachable_admission crashes W \<longleftrightarrow> (admission_step crashes)\<^sup>*\<^sup>* admission_start W"

text \<open>A coordinator whose cycles may run: its acquisition gave a lease that is not being released.\<close>

definition leased :: "lock_world \<Rightarrow> nat \<Rightarrow> bool" where
  "leased W i \<longleftrightarrow>
     aq_settled (si_acquire (lw_sites W i)) = Some (Inr True) \<and> \<not> aq_stdinEnded (si_acquire (lw_sites W i))"

section \<open>The invariant\<close>

text \<open>What holds of one coordinator with its helper when helpers do not die on their own.\<close>

definition site_ok :: "bool \<Rightarrow> site \<Rightarrow> bool" where
  "site_ok holding S \<longleftrightarrow>
     (let A = si_acquire S
      in (holding \<longleftrightarrow> si_helper S = HelperHolding) \<and>
         (si_helper S \<in> {NoHelper, HelperTrying} \<longrightarrow> aq_output A @ si_pipe S = []) \<and>
         (aq_killed A \<longrightarrow> aq_aborted A \<and> aq_settled A \<noteq> Some (Inr True)) \<and>
         (si_helper S = HelperHolding \<or> aq_output A @ si_pipe S = [] \<or> aq_killed A \<or> aq_stdinEnded A) \<and>
         (aq_output A = [] \<longrightarrow> aq_settled A \<noteq> Some (Inr True)))"

definition admission_inv :: "lock_world \<Rightarrow> bool" where
  "admission_inv W \<longleftrightarrow> (\<forall>i. site_ok (lw_holder W = Some i) (lw_sites W i))"

lemma includes_nil: "str_includes [] locked_line \<longleftrightarrow> False"
  by (simp add: str_includes_def locked_line_def)

lemmas site_defs = site_ok_def Let_def in_acquire_def acquire_out_def acquire_err_def acquire_abort_def
  acquire_close_def acquire_error_def release_begin_def settle_def new_acquire_def

lemma inv_start: "admission_inv admission_start"
  by (simp add: admission_inv_def admission_start_def new_site_def site_defs)

lemma inv_at_site:
  "admission_inv W \<Longrightarrow> (\<And>S. S = lw_sites W i \<Longrightarrow> site_ok (lw_holder W = Some i) S \<Longrightarrow> site_ok (lw_holder W = Some i) (f S)) \<Longrightarrow>
   admission_inv (at_site i f W)"
  by (auto simp: admission_inv_def at_site_def)

lemma inv_ends:
  assumes "admission_inv W" "si_helper (lw_sites W i) \<in> {HelperTrying, HelperHolding}"
    "aq_output (si_acquire (lw_sites W i)) @ si_pipe (lw_sites W i) = [] \<or> aq_killed (si_acquire (lw_sites W i)) \<or>
       aq_stdinEnded (si_acquire (lw_sites W i))"
  shows "admission_inv (helper_ends i x W)"
proof -
  have "site_ok (lw_holder (helper_ends i x W) = Some j) (lw_sites (helper_ends i x W) j)" for j
  proof (cases "j = i")
    case True
    have "site_ok (lw_holder W = Some i) (lw_sites W i)" using assms(1) by (simp add: admission_inv_def)
    then show ?thesis using assms(2,3) True
      by (cases "si_helper (lw_sites W i)") (simp_all add: helper_ends_def at_site_def site_ok_def Let_def)
  next
    case False
    have "site_ok (lw_holder W = Some j) (lw_sites W j)" using assms(1) by (simp add: admission_inv_def)
    moreover have "(if lw_holder W = Some i then None else lw_holder W) = Some j \<longleftrightarrow> lw_holder W = Some j"
      using False by auto
    ultimately show ?thesis using False by (simp add: helper_ends_def at_site_def)
  qed
  then show ?thesis by (simp add: admission_inv_def)
qed

lemma inv_take:
  assumes "admission_inv W" "si_helper (lw_sites W i) = HelperTrying" "lw_holder W = None"
  shows "admission_inv ((at_site i (\<lambda>S. S\<lparr>si_helper := HelperHolding, si_pipe := si_pipe S @ locked_line\<rparr>) W)
    \<lparr>lw_holder := Some i\<rparr>)"
proof -
  let ?W = "(at_site i (\<lambda>S. S\<lparr>si_helper := HelperHolding, si_pipe := si_pipe S @ locked_line\<rparr>) W)\<lparr>lw_holder := Some i\<rparr>"
  have s: "site_ok (lw_holder W = Some j) (lw_sites W j)" for j using assms(1) by (simp add: admission_inv_def)
  have "site_ok (lw_holder ?W = Some j) (lw_sites ?W j)" for j
    using s [of j] assms(2,3) by (cases "j = i") (auto simp: at_site_def site_ok_def Let_def)
  then show ?thesis by (simp add: admission_inv_def)
qed

lemma site_out:
  assumes "site_ok h S" "si_pipe S = chunk @ rest" "chunk \<noteq> []"
  shows "site_ok h (in_acquire (acquire_out chunk) (S\<lparr>si_pipe := rest\<rparr>))"
proof -
  let ?A = "si_acquire S"
  let ?o = "aq_output ?A @ chunk"
  have o: "?o \<noteq> []" "si_helper S \<notin> {NoHelper, HelperTrying}" using assms by (auto simp: site_ok_def Let_def)
  note s = assms(1) [unfolded site_ok_def Let_def]
  consider "\<not> str_includes ?o locked_line" | "str_includes ?o locked_line" "aq_aborted ?A"
    | "str_includes ?o locked_line" "\<not> aq_aborted ?A" by blast
  then show ?thesis
  proof cases
    case 1
    then show ?thesis using s o assms(2,3) by (simp add: site_ok_def in_acquire_def acquire_out_def Let_def)
  next
    case 2
    then show ?thesis using s o assms(2,3)
      by (simp add: site_ok_def in_acquire_def acquire_out_def Let_def settle_def)
  next
    case 3
    then show ?thesis using s o assms(2,3)
      by (auto simp: site_ok_def in_acquire_def acquire_out_def Let_def settle_def)
  qed
qed

lemma inv_step: "admission_step False W W' \<Longrightarrow> admission_inv W \<Longrightarrow> admission_inv W'"
proof (induction rule: admission_step.induct)
  case (spawn W i)
  then show ?case by (intro inv_at_site) (simp_all add: site_defs)
next
  case (spawn_failed W i e)
  then show ?case by (intro inv_at_site) (auto simp: site_defs)
next
  case (take_lock W i)
  then show ?case by (intro inv_take)
next
  case (refused W i)
  then have "aq_output (si_acquire (lw_sites W i)) @ si_pipe (lw_sites W i) = []"
    by (simp add: admission_inv_def site_ok_def Let_def)
  then show ?case using refused by (intro inv_ends) simp_all
next
  case (read_out W i chunk rest)
  then show ?case by (intro inv_at_site) (use site_out in blast)+
next
  case (read_err W i chunk)
  then show ?case by (intro inv_at_site) (simp_all add: site_defs)
next
  case (abort W i)
  then show ?case by (intro inv_at_site) (auto simp: site_defs)
next
  case (closed W i x)
  then show ?case by (intro inv_at_site) (auto simp: site_defs)
next
  case (release W i)
  then show ?case by (intro inv_at_site) (auto simp: site_defs)
qed (simp_all add: inv_ends)

lemma reachable_inv: "reachable_admission False W \<Longrightarrow> admission_inv W"
  unfolding reachable_admission_def
  by (induction rule: rtranclp_induct) (auto intro: inv_start inv_step)

lemma leased_holds: "admission_inv W \<Longrightarrow> leased W i \<Longrightarrow> lw_holder W = Some i"
proof -
  assume inv: "admission_inv W" and l: "leased W i"
  let ?S = "lw_sites W i"
  have s: "site_ok (lw_holder W = Some i) ?S" using inv by (simp add: admission_inv_def)
  have "si_helper ?S = HelperHolding"
    using s l by (cases "si_helper ?S") (auto simp: site_ok_def leased_def Let_def)
  then show ?thesis using s by (simp add: site_ok_def Let_def)
qed

end
