(* ===== verification/Admission_Properties.thy ===== *)
theory Admission_Properties
  imports Admission
begin

text \<open>
  The properties of the cycle lock: at most one coordinator has a lease and a held lock is accounted for,
  as long as no helper dies on its own; and what happens when one does.
\<close>

section \<open>A held lock is accounted for\<close>

definition site_accounted :: "site \<Rightarrow> bool" where
  "site_accounted S \<longleftrightarrow>
     (let A = si_acquire S
      in (si_helper S \<in> {HelperTrying, HelperHolding} \<longrightarrow>
            aq_settled A = None \<or> aq_settled A = Some (Inr True) \<or> aq_stdinEnded A) \<and>
         (si_helper S = HelperHolding \<longrightarrow>
            aq_output A @ si_pipe S = locked_line \<and>
            (si_pipe S = [] \<longrightarrow> aq_settled A = Some (Inr True) \<or> aq_stdinEnded A)))"

definition accounted :: "lock_world \<Rightarrow> bool" where
  "accounted W \<longleftrightarrow> (\<forall>i. site_accounted (lw_sites W i))"

lemma includes_line: "str_includes locked_line locked_line"
  by (simp add: str_includes_def locked_line_def)

lemma accounted_at:
  "accounted W \<Longrightarrow> (\<And>S. S = lw_sites W i \<Longrightarrow> site_accounted S \<Longrightarrow> site_accounted (f S)) \<Longrightarrow> accounted (at_site i f W)"
  by (simp add: accounted_def at_site_def)

lemma accounted_holder: "accounted (W\<lparr>lw_holder := h\<rparr>) \<longleftrightarrow> accounted W"
  by (simp add: accounted_def)

lemma accounted_ends: "accounted W \<Longrightarrow> accounted (helper_ends i x W)"
  unfolding helper_ends_def accounted_holder
  by (intro accounted_at) (simp_all add: site_accounted_def Let_def)

lemma accounted_out:
  assumes "site_accounted S" "si_pipe S = chunk @ rest"
  shows "site_accounted (in_acquire (acquire_out chunk) (S\<lparr>si_pipe := rest\<rparr>))"
proof -
  let ?A = "si_acquire S"
  let ?o = "aq_output ?A @ chunk"
  have whole: "str_includes ?o locked_line" if "si_helper S = HelperHolding" "rest = []"
    using assms that includes_line by (simp add: site_accounted_def Let_def)
  show ?thesis
    using assms whole
    by (cases "str_includes ?o locked_line"; cases "aq_aborted ?A"; cases "aq_settled ?A")
      (auto simp: site_accounted_def in_acquire_def acquire_out_def Let_def settle_def)
qed

lemma accounted_step:
  "admission_step False W W' \<Longrightarrow> admission_inv W \<Longrightarrow> accounted W \<Longrightarrow> accounted W'"
proof (induction rule: admission_step.induct)
  case (take_lock W i)
  then have "aq_output (si_acquire (lw_sites W i)) @ si_pipe (lw_sites W i) = []"
    by (simp add: admission_inv_def site_ok_def Let_def)
  then show ?case unfolding accounted_holder using take_lock
    by (intro accounted_at) (simp_all add: site_accounted_def Let_def locked_line_def)
next
  case (read_out W i chunk rest)
  then show ?case by (intro accounted_at) (use accounted_out in blast)+
qed (auto intro!: accounted_at accounted_ends simp: site_accounted_def in_acquire_def acquire_err_def
    acquire_error_def acquire_close_def acquire_abort_def release_begin_def settle_def Let_def new_acquire_def)

lemma reachable_accounted: "reachable_admission False W \<Longrightarrow> accounted W \<and> admission_inv W"
  unfolding reachable_admission_def
proof (induction rule: rtranclp_induct)
  case base
  then show ?case using inv_start
    by (simp add: accounted_def admission_start_def new_site_def site_accounted_def Let_def)
next
  case (step W W')
  then show ?case using accounted_step inv_step by blast
qed

section \<open>Exclusion\<close>


text \<open>A coordinator that acquires the lock: spawn, lock, read.\<close>

definition leased_world :: "nat \<Rightarrow> lock_world \<Rightarrow> lock_world" where
  "leased_world i W =
     (at_site i (\<lambda>S. in_acquire (acquire_out locked_line) (S\<lparr>si_helper := HelperHolding, si_pipe := []\<rparr>)) W)
       \<lparr>lw_holder := Some i\<rparr>"

lemma site_update_twice: "at_site i f (at_site i g W) = at_site i (f \<circ> g) W"
  by (simp add: at_site_def)

lemma acquires:
  assumes "lw_sites W i = new_site" "lw_holder W = None"
  shows "(admission_step crashes)\<^sup>*\<^sup>* W (leased_world i W)"
proof -
  define W1 where "W1 = at_site i (\<lambda>S. S\<lparr>si_helper := HelperTrying\<rparr>) W"
  define W2 where "W2 = (at_site i (\<lambda>S. S\<lparr>si_helper := HelperHolding, si_pipe := si_pipe S @ locked_line\<rparr>) W1)
    \<lparr>lw_holder := Some i\<rparr>"
  have 1: "admission_step crashes W W1"
    unfolding W1_def using assms by (intro admission_step.spawn) (simp_all add: new_site_def)
  have 2: "admission_step crashes W1 W2"
    unfolding W2_def by (intro admission_step.take_lock) (simp_all add: W1_def at_site_def assms)
  have p: "si_pipe (lw_sites W2 i) = locked_line @ []"
    by (simp add: W2_def W1_def at_site_def assms new_site_def)
  have 3: "admission_step crashes W2
      (at_site i (\<lambda>S. in_acquire (acquire_out locked_line) (S\<lparr>si_pipe := []\<rparr>)) W2)"
    by (rule admission_step.read_out [OF p]) (simp add: locked_line_def)
  have "at_site i (\<lambda>S. in_acquire (acquire_out locked_line) (S\<lparr>si_pipe := []\<rparr>)) W2 = leased_world i W"
    by (simp add: W2_def W1_def leased_world_def at_site_def)
  with 1 2 3 show ?thesis
    by (metis converse_rtranclp_into_rtranclp rtranclp.rtrancl_refl)
qed

lemma leased_world_leased: "lw_sites W i = new_site \<Longrightarrow> leased (leased_world i W) i"
  by (simp add: leased_world_def leased_def at_site_def in_acquire_def acquire_out_def new_site_def new_acquire_def
      settle_def includes_line Let_def)


text \<open>
  A helper that dies while the cycles of its coordinator run frees the lock without the coordinator
  noticing: then another one acquires a second lease.
\<close>

theorem dead_helper_breaks_exclusion:
  "\<exists>W. reachable_admission True W \<and> leased W 0 \<and> leased W 1"
proof -
  let ?W1 = "leased_world 0 admission_start"
  let ?W2 = "helper_ends 0 (1, None) ?W1"
  let ?W3 = "leased_world 1 ?W2"
  have 1: "(admission_step True)\<^sup>*\<^sup>* admission_start ?W1"
    by (rule acquires) (simp_all add: admission_start_def)
  have 2: "admission_step True ?W1 ?W2"
    by (rule admission_step.crash) (simp_all add: leased_world_def at_site_def in_acquire_def)
  have 3: "(admission_step True)\<^sup>*\<^sup>* ?W2 ?W3"
    by (rule acquires) (simp_all add: leased_world_def helper_ends_def at_site_def admission_start_def)
  have "reachable_admission True ?W3"
    unfolding reachable_admission_def using 1 2 3 by (meson rtranclp.rtrancl_into_rtrancl rtranclp_trans)
  moreover have "leased ?W3 1"
    by (rule leased_world_leased) (simp add: leased_world_def helper_ends_def at_site_def admission_start_def)
  moreover have "leased ?W3 0"
    using leased_world_leased [of admission_start 0]
    by (simp add: leased_world_def helper_ends_def at_site_def admission_start_def leased_def)
  ultimately show ?thesis by blast
qed

end
