(* ===== verification/Server_Checks.thy ===== *)
theory Server_Checks
  imports Js_Path Diagnostics
begin

text \<open>
  What the supervisor of the OpenCode server checks: \<open>workspace.ts\<close> (the worktree lies inside the approved
  root and has the expected owner), \<open>readiness.ts\<close> (the server answers for that directory with the expected
  version) and the loop \<open>waitForReadiness\<close> of \<open>process-supervisor.ts\<close>. The file system and the answers of
  the server are given.
\<close>

section \<open>Failures\<close>

text \<open>
  A readiness error with its flag \<open>deterministic\<close>, the ownership error with what it keeps, and any other
  thrown value.
\<close>

datatype server_failure =
    ReadinessError string bool
  | OwnershipError string int int
  | OtherFailure reason

definition integer_text :: "int \<Rightarrow> string" where
  "integer_text n = (if n < 0 then ''-'' @ show_nat (nat (- n)) else show_nat (nat n))"

fun failure_message :: "server_failure \<Rightarrow> string" where
  "failure_message (ReadinessError m _) = m"
| "failure_message (OwnershipError dir actual expected) =
     ''OpenCode worktree path '' @ dir @ '' is owned by UID '' @ integer_text actual @ '', expected '' @ integer_text expected"
| "failure_message (OtherFailure r) = (case r of RError _ m _ \<Rightarrow> m | _ \<Rightarrow> [])"

text \<open>The ownership error is a deterministic readiness error.\<close>

fun deterministic :: "server_failure \<Rightarrow> bool" where
  "deterministic (ReadinessError _ d) = d"
| "deterministic (OwnershipError _ _ _) = True"
| "deterministic (OtherFailure _) = False"

section \<open>The workspace\<close>

text \<open>
  \<open>ws_realpath\<close> and \<open>ws_stat\<close> give what the calls return, or the message they fail with (\<open>None\<close> when what is
  thrown is not an error); \<open>ws_rootFails\<close> tells which failure of two comes first.
\<close>

record workspace_world =
  ws_realpath :: "string \<Rightarrow> string option + string"
  ws_stat :: "string \<Rightarrow> string option + bool \<times> int"
  ws_uid :: "int option"
  ws_rootFails :: bool

definition detail :: "string option \<Rightarrow> string" where
  "detail m = (case m of None \<Rightarrow> [] | Some t \<Rightarrow> '': '' @ t)"

definition both_paths :: "workspace_world \<Rightarrow> string \<Rightarrow> string \<Rightarrow> string option + string \<times> string" where
  "both_paths W base directory =
     (case (ws_realpath W base, ws_realpath W directory) of
        (Inr r, Inr d) \<Rightarrow> Inr (r, d)
      | (Inl e, Inr _) \<Rightarrow> Inl e
      | (Inr _, Inl e) \<Rightarrow> Inl e
      | (Inl e, Inl f) \<Rightarrow> Inl (if ws_rootFails W then e else f))"

definition checked_owner :: "workspace_world \<Rightarrow> int option \<Rightarrow> string \<Rightarrow> server_failure + string" where
  "checked_owner W ownerUid directory =
     (case ws_stat W directory of
        Inl e \<Rightarrow> Inl (ReadinessError (''OpenCode worktree path must be stat-able'' @ detail e) True)
      | Inr (isDirectory, uid) \<Rightarrow>
          if \<not> isDirectory
          then Inl (ReadinessError (''OpenCode worktree path is not a directory: '' @ directory) True)
          else (case (case ownerUid of Some u \<Rightarrow> Some u | None \<Rightarrow> ws_uid W) of
                  None \<Rightarrow> Inr directory
                | Some expected \<Rightarrow>
                    if uid \<noteq> expected then Inl (OwnershipError directory uid expected) else Inr directory))"

definition resolveApprovedWorkspace ::
    "workspace_world \<Rightarrow> string \<Rightarrow> string option \<Rightarrow> int option \<Rightarrow> server_failure + string" where
  "resolveApprovedWorkspace W directory workspaceRoot ownerUid =
     (if \<not> is_absolute directory
      then Inl (ReadinessError (''OpenCode worktree path must be absolute, got '' @ directory) True)
      else (case workspaceRoot of
              None \<Rightarrow> Inl (ReadinessError ''OpenCode workspace root is required'' True)
            | Some base \<Rightarrow>
                if base = [] then Inl (ReadinessError ''OpenCode workspace root is required'' True)
                else if \<not> is_absolute base
                then Inl (ReadinessError (''OpenCode workspace root must be absolute, got '' @ base) True)
                else (case both_paths W base directory of
                        Inl e \<Rightarrow>
                          Inl (ReadinessError
                            (''OpenCode worktree path must resolve to an accessible directory'' @ detail e) True)
                      | Inr (canonicalRoot, canonicalDirectory) \<Rightarrow>
                          if leaves_root (path_relative canonicalRoot canonicalDirectory)
                          then Inl (ReadinessError
                            (''OpenCode worktree path '' @ canonicalDirectory @
                             '' is outside approved workspace root '' @ canonicalRoot) True)
                          else checked_owner W ownerUid canonicalDirectory)))"

section \<open>Readiness\<close>

text \<open>An answer: a status and, when its body is JSON, the value; or a failed request.\<close>

datatype http_reply = ReplyFailed reason | Reply nat "jsval option"

record server_health =
  sh_version :: string
  sh_capabilities :: "bool option option"

definition readJson :: "string \<Rightarrow> jsval option \<Rightarrow> server_failure + obj" where
  "readJson name body =
     (case body of
        None \<Rightarrow> Inl (ReadinessError (''OpenCode '' @ name @ '' response was not JSON'') False)
      | Some (JObj ob) \<Rightarrow> Inr ob
      | Some _ \<Rightarrow> Inl (ReadinessError (''OpenCode '' @ name @ '' response was not an object'') False))"

definition reply_ok :: "nat \<Rightarrow> bool" where
  "reply_ok status \<longleftrightarrow> 200 \<le> status \<and> status \<le> 299"

definition checked_reply :: "string \<Rightarrow> string \<Rightarrow> string \<Rightarrow> http_reply \<Rightarrow> server_failure + obj" where
  "checked_reply what url name reply =
     (case reply of
        ReplyFailed e \<Rightarrow> Inl (OtherFailure e)
      | Reply status body \<Rightarrow>
          if \<not> reply_ok status
          then Inl (ReadinessError (''OpenCode '' @ what @ '' returned HTTP '' @ show_nat status @ '' at '' @ url)
                 (status = 401 \<or> status = 403))
          else readJson name body)"

definition info_ok :: "obj \<Rightarrow> bool" where
  "info_ok ob \<longleftrightarrow>
     is_str1 (obj_get ob ''version'') \<and>
     (case obj_get ob ''pid'' of JNum n \<Rightarrow> is_safe_integer n \<and> 0 < fin_val n | _ \<Rightarrow> False) \<and>
     (case obj_get ob ''urls'' of JArr us \<Rightarrow> list_all is_str us | _ \<Rightarrow> False) \<and>
     (case obj_get ob ''paths'' of JObj ps \<Rightarrow> is_str (obj_get ps ''tmp'') | _ \<Rightarrow> False)"

definition parseCapabilities :: "jsval \<Rightarrow> server_failure + bool option option" where
  "parseCapabilities v =
     (case v of
        Undef \<Rightarrow> Inr None
      | JObj ob \<Rightarrow>
          if \<not> has_key ob ''persistentPty'' then Inr (Some None)
          else (case obj_get ob ''persistentPty'' of
                  JBool b \<Rightarrow> Inr (Some (Some b))
                | _ \<Rightarrow> Inl (ReadinessError ''OpenCode server capabilities must be an object'' True))
      | _ \<Rightarrow> Inl (ReadinessError ''OpenCode server capabilities must be an object'' True))"

definition realpathOrOriginal :: "workspace_world \<Rightarrow> string \<Rightarrow> string" where
  "realpathOrOriginal W p = (case ws_realpath W p of Inr q \<Rightarrow> q | Inl _ \<Rightarrow> p)"

text \<open>\<open>locationUrl\<close> is the text of the URL of the second request.\<close>

definition check_readiness ::
    "workspace_world \<Rightarrow> string \<Rightarrow> string \<Rightarrow> string \<Rightarrow> http_reply \<Rightarrow> http_reply \<Rightarrow> server_failure + server_health" where
  "check_readiness W baseUrl locationUrl directory info location =
     bindE (checked_reply ''server info'' (baseUrl @ ''/api/info'') ''health'' info) (\<lambda>health.
       if \<not> info_ok health
       then Inl (ReadinessError ''OpenCode server info response must contain version, pid, urls and paths.tmp'' True)
       else bindE (checked_reply ''path check'' locationUrl ''path'' location) (\<lambda>p.
         case obj_get p ''directory'' of
           JStr actual \<Rightarrow>
             if realpathOrOriginal W actual \<noteq> realpathOrOriginal W directory
             then Inl (ReadinessError (''OpenCode path check resolved '' @ actual @ '' instead of '' @ directory) True)
             else bindE (parseCapabilities (obj_get health ''capabilities'')) (\<lambda>capabilities.
                    Inr \<lparr>sh_version = str_of (obj_get health ''version''), sh_capabilities = capabilities\<rparr>)
         | v \<Rightarrow>
             Inl (ReadinessError (''OpenCode path check resolved '' @ js_text v @ '' instead of '' @ directory) True)))"

datatype expected_version = ExactVersion string | VersionPattern string "string \<Rightarrow> bool"

fun matchesVersion :: "string \<Rightarrow> expected_version \<Rightarrow> bool" where
  "matchesVersion v (ExactVersion e) \<longleftrightarrow> v = e"
| "matchesVersion v (VersionPattern _ p) \<longleftrightarrow> p v"

fun version_text :: "expected_version \<Rightarrow> string" where
  "version_text (ExactVersion e) = e"
| "version_text (VersionPattern t _) = t"

text \<open>An empty expected version is no expectation.\<close>

definition version_issue :: "expected_version \<Rightarrow> server_health \<Rightarrow> server_failure option" where
  "version_issue expected h =
     (if expected \<noteq> ExactVersion [] \<and> \<not> matchesVersion (sh_version h) expected
      then Some (ReadinessError (''OpenCode version '' @ sh_version h @ '' does not satisfy expected version '' @
             version_text expected) True)
      else None)"

text \<open>
  One round of the loop: whether the deadline has passed, whether the start was aborted before or after the
  check, what the check gives, and whether the start was aborted during the delay that follows when time
  remains. A list of rounds that is too short means that the loop still runs.
\<close>

record ready_round =
  rr_late :: bool
  rr_abortedBefore :: "reason option"
  rr_check :: "server_failure + server_health"
  rr_abortedAfter :: "reason option"
  rr_timeLeft :: bool
  rr_abortedDelay :: "reason option"

definition readiness_expired :: "string \<Rightarrow> server_failure option \<Rightarrow> server_failure" where
  "readiness_expired baseUrl lastError =
     ReadinessError (''OpenCode readiness failed for '' @ baseUrl @ ''; verify client proxy/NO_PROXY configuration'' @
       (case lastError of None \<Rightarrow> [] | Some f \<Rightarrow> '': '' @ failure_message f)) False"

definition checked_version :: "expected_version \<Rightarrow> server_failure + server_health \<Rightarrow> server_failure + server_health" where
  "checked_version expected r =
     bindE r (\<lambda>h. case version_issue expected h of None \<Rightarrow> Inr h | Some f \<Rightarrow> Inl f)"

fun waitForReadiness ::
    "string \<Rightarrow> expected_version \<Rightarrow> ready_round list \<Rightarrow> server_failure option \<Rightarrow>
     (server_failure + server_health) option" where
  "waitForReadiness baseUrl expected [] lastError = None"
| "waitForReadiness baseUrl expected (r # rs) lastError =
     (if rr_late r then Some (Inl (readiness_expired baseUrl lastError))
      else (case rr_abortedBefore r of
              Some e \<Rightarrow> Some (Inl (OtherFailure e))
            | None \<Rightarrow>
                (case checked_version expected (rr_check r) of
                   Inr h \<Rightarrow> Some (Inr h)
                 | Inl f \<Rightarrow>
                     if deterministic f then Some (Inl f)
                     else (case rr_abortedAfter r of
                             Some e \<Rightarrow> Some (Inl (OtherFailure e))
                           | None \<Rightarrow>
                               (case (if rr_timeLeft r then rr_abortedDelay r else None) of
                                  Some e \<Rightarrow> Some (Inl (OtherFailure e))
                                | None \<Rightarrow> waitForReadiness baseUrl expected rs (Some f))))))"

section \<open>Properties\<close>

text \<open>
  C31. An approved worktree is an existing directory whose canonical path lies inside the canonical path of
  the workspace root, segment by segment, and which the expected user owns; both paths are absolute. Every
  refusal is final: it is not retried.
\<close>

theorem approved_workspace_inside:
  "case resolveApprovedWorkspace W directory workspaceRoot ownerUid of
     Inr d \<Rightarrow>
       (\<exists>base r. workspaceRoot = Some base \<and> is_absolute base \<and> is_absolute directory \<and>
          ws_realpath W base = Inr r \<and> ws_realpath W directory = Inr d \<and>
          prefix (absolute_parts r) (absolute_parts d) \<and>
          (\<exists>uid. ws_stat W d = Inr (True, uid) \<and>
             (case (case ownerUid of Some u \<Rightarrow> Some u | None \<Rightarrow> ws_uid W) of None \<Rightarrow> True | Some u \<Rightarrow> uid = u)))
   | Inl f \<Rightarrow> deterministic f"
proof (cases "resolveApprovedWorkspace W directory workspaceRoot ownerUid")
  case (Inl f)
  then show ?thesis
    by (auto simp: resolveApprovedWorkspace_def checked_owner_def split: if_splits option.splits sum.splits)
next
  case (Inr d)
  from Inr obtain base where base: "workspaceRoot = Some base" "is_absolute base" "is_absolute directory"
    by (auto simp: resolveApprovedWorkspace_def split: if_splits option.splits)
  with Inr obtain r c where p: "both_paths W base directory = Inr (r, c)"
    by (auto simp: resolveApprovedWorkspace_def split: if_splits sum.splits)
  then have rp: "ws_realpath W base = Inr r" "ws_realpath W directory = Inr c"
    by (auto simp: both_paths_def split: sum.splits)
  from Inr base p have inside: "\<not> leaves_root (path_relative r c)" and o: "checked_owner W ownerUid c = Inr d"
    by (auto simp: resolveApprovedWorkspace_def split: if_splits)
  from o have "c = d" "\<exists>uid. ws_stat W d = Inr (True, uid) \<and>
      (case (case ownerUid of Some u \<Rightarrow> Some u | None \<Rightarrow> ws_uid W) of None \<Rightarrow> True | Some u \<Rightarrow> uid = u)"
    by (auto simp: checked_owner_def split: sum.splits if_splits option.splits)
  then show ?thesis using Inr base rp inside relative_inside by auto
qed

text \<open>
  The server is only ready when one of the checks succeeded, in time and before any abort, with a version
  that matches; until then only failures that polling can mend have been seen.
\<close>

theorem ready_only_when_checked:
  assumes "waitForReadiness baseUrl expected rs lastError = Some (Inr h)"
  shows "(expected = ExactVersion [] \<or> matchesVersion (sh_version h) expected) \<and>
    (\<exists>before r after. rs = before @ r # after \<and> rr_check r = Inr h \<and> \<not> rr_late r \<and> rr_abortedBefore r = None \<and>
       (\<forall>q \<in> set before. \<not> rr_late q \<and> rr_abortedBefore q = None \<and> rr_abortedAfter q = None \<and>
          (\<exists>f. rr_check q = Inl f \<and> \<not> deterministic f)))"
  using assms
proof (induction rs arbitrary: lastError)
  case (Cons r rs)
  show ?case
  proof (cases "checked_version expected (rr_check r)")
    case (Inr h')
    then have "h' = h" "\<not> rr_late r" "rr_abortedBefore r = None"
      using Cons.prems by (auto split: if_splits option.splits)
    moreover from Inr have "rr_check r = Inr h'" "version_issue expected h' = None"
      by (auto simp: checked_version_def bindE_Inr split: option.splits)
    ultimately have "expected = ExactVersion [] \<or> matchesVersion (sh_version h) expected" "rr_check r = Inr h"
      by (auto simp: version_issue_def split: if_splits)
    then show ?thesis using \<open>\<not> rr_late r\<close> \<open>rr_abortedBefore r = None\<close> by (intro conjI exI [of _ "[]"]) auto
  next
    case (Inl f)
    have "\<not> deterministic f" "\<not> rr_late r" "rr_abortedBefore r = None" "rr_abortedAfter r = None"
      "waitForReadiness baseUrl expected rs (Some f) = Some (Inr h)"
      using Cons.prems Inl by (auto split: if_splits option.splits)
    moreover from this(1) Inl have "rr_check r = Inl f"
      by (auto simp: checked_version_def bindE_Inl version_issue_def split: option.splits if_splits)
    moreover from Cons.IH [OF calculation(5)] obtain b q a where
      "rs = b @ q # a" "rr_check q = Inr h" "\<not> rr_late q" "rr_abortedBefore q = None"
      "\<forall>q \<in> set b. \<not> rr_late q \<and> rr_abortedBefore q = None \<and> rr_abortedAfter q = None \<and>
        (\<exists>f. rr_check q = Inl f \<and> \<not> deterministic f)"
      "expected = ExactVersion [] \<or> matchesVersion (sh_version h) expected"
      by blast
    ultimately show ?thesis by (intro conjI exI [of _ "r # b"] exI [of _ q] exI [of _ a]) auto
  qed
qed simp

definition sample_health :: server_health where
  "sample_health = \<lparr>sh_version = ''2'', sh_capabilities = None\<rparr>"

definition sample_round :: "server_failure + server_health \<Rightarrow> ready_round" where
  "sample_round r =
     \<lparr>rr_late = False, rr_abortedBefore = None, rr_check = r, rr_abortedAfter = None, rr_timeLeft = True,
      rr_abortedDelay = None\<rparr>"

theorem ready_only_when_checked_witness:
  "waitForReadiness ''u'' (ExactVersion ''2'') [sample_round (Inl (ReadinessError ''e'' False)), sample_round (Inr sample_health)]
     None = Some (Inr sample_health) \<and> matchesVersion ''2'' (ExactVersion ''2'')"
proof -
  have w: "waitForReadiness ''u'' (ExactVersion ''2'')
      [sample_round (Inl (ReadinessError ''e'' False)), sample_round (Inr sample_health)] None = Some (Inr sample_health)"
    by (simp add: sample_round_def sample_health_def checked_version_def version_issue_def)
  from ready_only_when_checked [OF w] w show ?thesis by (simp add: sample_health_def)
qed

end
