(* ===== verification/Normalizer_Stream.thy ===== *)
theory Normalizer_Stream
  imports Normalizer_Usage Event_Ledger
begin

text \<open>
  What holds of the events the normalizer emits, whatever the server sends: they are stamped by the factory
  of the run, one sequence number after the other in the order in which they are returned, and none of them
  is a terminal.
\<close>

section \<open>Stamped steps\<close>

definition origin :: "normalization \<Rightarrow> rehor_run \<times> string" where
  "origin N = (ef_run (nz_factory N), ef_policyVersion (nz_factory N))"

definition emitted :: "normalization \<Rightarrow> nat" where
  "emitted N = ef_sequence (nz_factory N)"

definition stamped :: "normalization \<Rightarrow> rehor_event list \<times> normalization \<Rightarrow> bool" where
  "stamped N out \<longleftrightarrow>
     (let (es, N') = out
      in origin N' = origin N \<and> emitted N' = emitted N + length es \<and>
         map ev_sequence es = [Suc (emitted N) ..< Suc (emitted N + length es)] \<and>
         list_all (\<lambda>e. attributed (fst (origin N)) e \<and> ev_kind e \<noteq> ''terminal'') es)"

text \<open>A change of the state that leaves the factory alone.\<close>

abbreviation same_factory :: "normalization \<Rightarrow> normalization \<Rightarrow> bool" where
  "same_factory N M \<equiv> nz_factory N = nz_factory M"

lemma stamped_same: "same_factory N1 N \<Longrightarrow> stamped N ([], N1)"
  by (simp add: stamped_def origin_def emitted_def)

lemma stamped_Nil [simp]: "stamped N ([], N)"
  by (rule stamped_same) simp

lemma stamped_then: "stamped N (es, N1) \<Longrightarrow> stamped N1 (es', N2) \<Longrightarrow> stamped N (es @ es', N2)"
proof -
  assume a: "stamped N (es, N1)" and b: "stamped N1 (es', N2)"
  have "[Suc (emitted N) ..< Suc (emitted N + length es + length es')] =
      [Suc (emitted N) ..< Suc (emitted N + length es)] @
      [Suc (emitted N + length es) ..< Suc (emitted N + length es + length es')]"
    using upt_add_eq_append [of "Suc (emitted N)" "Suc (emitted N + length es)" "length es'"] by simp
  with a b show ?thesis by (simp add: stamped_def add.assoc del: upt_Suc)
qed

lemma stamped_from: "same_factory N1 N \<Longrightarrow> stamped N out \<longleftrightarrow> stamped N1 out"
  by (simp add: stamped_def origin_def emitted_def)

lemma stamped_via: "stamped N1 out \<Longrightarrow> same_factory N1 N \<Longrightarrow> stamped N out"
  using stamped_from by blast

lemma stamped_into: "same_factory N1 N2 \<Longrightarrow> stamped N (es, N1) \<longleftrightarrow> stamped N (es, N2)"
  by (simp add: stamped_def origin_def emitted_def)

lemma stamped_if: "stamped N x \<Longrightarrow> stamped N y \<Longrightarrow> stamped N (if b then x else y)"
  by simp

lemma stamped_one: "emit E k p ov N = (e, N') \<Longrightarrow> k \<noteq> ''terminal'' \<Longrightarrow> stamped N ([e], N')"
  using createEvent_attributed [of "nz_factory N"] createEvent_sequence [of "nz_factory N"]
  by (auto simp: emit_def stamped_def origin_def emitted_def createEvent_def Let_def attributed_def
      split: prod.splits)

lemma stamped_emit:
  assumes "same_factory N1 N" "k \<noteq> ''terminal''" "\<And>e N'. same_factory (g e N') N'"
  shows "stamped N (case emit E k p ov N1 of (e, N') \<Rightarrow> ([e], g e N'))"
proof -
  obtain e N' where e: "emit E k p ov N1 = (e, N')" by fastforce
  have "stamped N1 ([e], g e N')"
    using stamped_one [OF e assms(2)] stamped_into [OF assms(3)] by blast
  then show ?thesis using stamped_from [OF assms(1)] by (simp add: e)
qed

section \<open>Texts and tools\<close>

lemma stamped_text: "stamped N (nv_events (fst (normalizeText E i t ph s d N)), snd (normalizeText E i t ph s d N))"
proof (cases "map_of (nz_partSnapshots N) i = Some (TextPart t)")
  case False
  then show ?thesis
    unfolding normalizeText_def Let_def
    by (auto simp: just_events_def no_events_def dest!: stamped_one split: prod.split)
      (erule stamped_via, simp)+
qed (simp add: normalizeText_def no_events_def)

lemma stamped_text_eq: "normalizeText E i t ph s d N = (out, N') \<Longrightarrow> stamped N (nv_events out, N')"
  using stamped_text [of N E i t ph s d] by simp

lemma stamped_single: "stamped N (normalizeSingleTool E part s m nested N)"
  unfolding normalizeSingleTool_def Let_def
  by (rule stamped_if [OF stamped_same stamped_if [OF stamped_same stamped_emit]]) simp_all

lemma stamped_single_eq: "normalizeSingleTool E part s m nested N = (es, N') \<Longrightarrow> stamped N (es, N')"
  using stamped_single by metis

lemma stamped_call: "stamped N (emit_call E outer s m i row ord b N)"
  unfolding emit_call_def Let_def
  by (auto simp: stamped_single intro!: stamped_then dest!: stamped_single_eq split: prod.split)

lemma stamped_call_eq: "emit_call E outer s m i row ord b N = (es, N') \<Longrightarrow> stamped N (es, N')"
  using stamped_call by metis

lemma stamped_native:
  "emit_native E outer s m bridge rows used C N = (es, used', C', N') \<Longrightarrow> stamped N (es, N')"
proof (induction rows arbitrary: used C N es used' C' N')
  case (Cons ir rows)
  obtain index row where ir: "ir = (index, row)" by (cases ir)
  from Cons.prems show ?case
    unfolding ir emit_native.simps Let_def
    by (auto intro!: stamped_then dest!: stamped_call_eq Cons.IH split: prod.splits)
qed simp

lemma stamped_bridge: "emit_bridge E outer s m rows used C N = (es, C', N') \<Longrightarrow> stamped N (es, N')"
proof (induction rows arbitrary: C N es C' N')
  case (Cons row rows)
  from Cons.prems show ?case
    unfolding emit_bridge.simps Let_def
    by (auto intro!: stamped_then dest!: stamped_call_eq Cons.IH split: prod.splits if_splits)
qed simp

lemma stamped_codes: "stamped N (es, N'\<lparr>nz_codeMode := codes\<rparr>) \<longleftrightarrow> stamped N (es, N')"
  by (rule stamped_into) simp

lemma stamped_code_mode: "normalizeCodeMode E part s m N = (es, N') \<Longrightarrow> stamped N (es, N')"
  unfolding normalizeCodeMode_def Let_def
  by (auto simp: stamped_codes intro!: stamped_then dest!: stamped_native stamped_bridge split: prod.splits)

lemma stamped_tool_eq: "normalizeTool E part s m N = (es, N') \<Longrightarrow> stamped N (es, N')"
  unfolding normalizeTool_def Let_def
  by (auto intro!: stamped_then dest!: stamped_single_eq stamped_code_mode split: prod.splits if_splits)

lemma stamped_content: "normalizeContent E vs s m t r N = (es, N') \<Longrightarrow> stamped N (es, N')"
proof (induction vs arbitrary: t r N es N')
  case (Cons v vs)
  from Cons.prems show ?case
    by (auto simp: Let_def intro!: stamped_then dest!: stamped_text_eq stamped_tool_eq Cons.IH
        split: prod.splits if_splits)
qed simp

section \<open>Messages\<close>

lemma stamped_report: "report_usage E rows N = (es, N') \<Longrightarrow> stamped N (es, N')"
proof (induction rows arbitrary: N es N')
  case (Cons row rows)
  obtain k i s where row: "row = (k, i, s)" by (cases row)
  obtain e N1 where e: "snapshotUsage E s i (map_of (nz_modelEventIds N) k) N = (e, N1)" by fastforce
  obtain es1 N2 where r: "report_usage E rows N1 = (es1, N2)" by fastforce
  have "stamped N ([e], N1)" using e unfolding snapshotUsage_def by (rule stamped_one) simp
  from stamped_then [OF this Cons.IH [OF r]] show ?case
    using Cons.prems by (simp add: row e r)
qed simp

lemma retire_factory: "same_factory (retire_bucket p s N) N"
  by (simp add: retire_bucket_def Let_def)

lemma stamped_record: "record_usage E key sid snap N = (es, N') \<Longrightarrow> stamped N (es, N')"
  unfolding record_usage_def Let_def
  by (auto simp: stamped_same dest!: stamped_report split: if_splits)
    (erule stamped_via, simp add: retire_factory)

lemma stamped_coverage: "updateRecoveryCoverage E incomplete N = (es, N') \<Longrightarrow> stamped N (es, N')"
  unfolding updateRecoveryCoverage_def
  by (auto dest!: stamped_report split: if_splits)
    (erule stamped_via, simp, erule notE, erule stamped_via, simp)

lemma stamped_model: "announce_model E message key ov opts N = (es, N') \<Longrightarrow> stamped N (es, N')"
proof -
  have "stamped N (announce_model E message key ov opts N)"
    unfolding announce_model_def Let_def by (rule stamped_if [OF stamped_Nil stamped_emit]) simp_all
  then show "announce_model E message key ov opts N = (es, N') \<Longrightarrow> stamped N (es, N')" by simp
qed

lemma stamped_error: "announce_error E message previous err ov opts N = (es, N') \<Longrightarrow> stamped N (es, N')"
  unfolding announce_error_def Let_def
  by (auto dest!: stamped_one split: option.splits if_splits prod.splits)

lemma store_factory: "same_factory (store_message m key sid a c err N) N"
  by (simp add: store_message_def)

lemma settle_factory: "same_factory (settle_compaction message mid key sid live N) N"
  by (auto simp: settle_compaction_def adopt_compaction_def Let_def split: option.splits)

lemma stamped_process:
  assumes "process_message E message mid sid assistant opts N = (out, N')"
  shows "stamped N (nv_events out, N')"
proof -
  define N1 where "N1 = (if assistant then N
    else settle_compaction message mid (pair_key sid mid) sid (no_streamed opts) N)"
  define N2 where "N2 = store_message message (pair_key sid mid) sid assistant (message_completed assistant message)
    (if truthy (obj_get message ''error'') then Some (providerErrorMessage (obj_get message ''error'')) else None) N1"
  define ov where "ov = (session_override sid)
      \<lparr>ov_model := opt_nonempty (as_string (obj_get (obj_of (obj_get message ''model'')) ''id''))\<rparr>"
  obtain es1 N3 where s1: "announce_model E message (pair_key sid mid) ov opts N2 = (es1, N3)" by fastforce
  obtain es2 N4 where s2: "record_usage E (pair_key sid mid) sid
      (message_snapshot E message mid sid (message_completed assistant message) N3) N3 = (es2, N4)" by fastforce
  obtain es3 N5 where s3: "announce_error E message (lookup (nz_messages N1) (pair_key sid mid))
      (if truthy (obj_get message ''error'') then Some (providerErrorMessage (obj_get message ''error'')) else None)
      ov opts N4 = (es3, N5)" by fastforce
  obtain es4 N6 where s4: "(if assistant \<and> \<not> no_usageOnly opts
      then normalizeContent E (arr_of (obj_get message ''content'')) sid mid 0 0 N5 else ([], N5)) = (es4, N6)"
    by fastforce
  have f: "same_factory N2 N" by (simp add: N2_def store_factory N1_def settle_factory)
  have 4: "stamped N5 (es4, N6)" using s4 stamped_content by (auto split: if_splits)
  have "stamped N2 (es1 @ es2 @ es3 @ es4, N6)"
    using stamped_then [OF stamped_model [OF s1] stamped_then [OF stamped_record [OF s2]
          stamped_then [OF stamped_error [OF s3] 4]]] .
  moreover have "nv_events out = es1 @ es2 @ es3 @ es4" "same_factory N' N6"
    using assms by (auto simp: process_message_def Let_def N1_def [symmetric] N2_def [symmetric] ov_def [symmetric]
        s1 s2 s3 s4 split: prod.splits)
  ultimately show ?thesis using stamped_from [OF f] stamped_into by metis
qed

lemma stamped_message: "normalizeOpenCodeMessage E v sid opts N = (out, N') \<Longrightarrow> stamped N (nv_events out, N')"
  unfolding normalizeOpenCodeMessage_def Let_def
  by (auto simp: no_events_def dest!: stamped_process split: option.splits if_splits)

end
