(* ===== verification/Spec2Isabelle.thy ===== *)
theory Spec2Isabelle
  imports Attempt_Properties Bridge_Facts Bridge_Diagnostics Loop_Properties Projection_Properties Normalizer_Properties
    Render_Properties Sink_Properties Runner_Properties Cli_Properties Admission_Properties Server_Checks
    Normalizer_Stream
begin

text \<open>
  Verification of the Rehor coordinator.
\<close>

end
